(* ===== verification/Prelude.thy ===== *)
theory Prelude
  imports Complex_Main "HOL-Library.Word"
begin

text \<open>
  Shared vocabulary of the development: machine integers, the result type of fallible Rust
  code (\<open>Result<T, E>\<close> is \<open>'e + 'a\<close>, the error on the left), the few
  combinators the components are written with, the reading of SQL statements over tables
  (a table is the list of its rows in row-id order), and the locale of an operation that
  keeps an invariant, which every stateful component interprets.
\<close>

named_theorems result_simps
named_theorems table_simps

type_synonym u8 = "8 word"
type_synonym u16 = "16 word"
type_synonym u32 = "32 word"
type_synonym u64 = "64 word"

text \<open>Unix seconds, an \<open>i64\<close> in the source.\<close>
type_synonym timestamp = int

section \<open>Saturating 64-bit arithmetic\<close>

definition i64_max :: int where
  "i64_max = 9223372036854775807"

definition i64_min :: int where
  "i64_min = - 9223372036854775808"

definition is_i64 :: "int \<Rightarrow> bool" where
  "is_i64 x \<longleftrightarrow> i64_min \<le> x \<and> x \<le> i64_max"

text \<open>\<open>i64::saturating_add\<close> and \<open>i64::saturating_sub\<close>.\<close>

definition sat_add :: "int \<Rightarrow> int \<Rightarrow> int" where
  "sat_add a b = max i64_min (min i64_max (a + b))"

definition sat_sub :: "int \<Rightarrow> int \<Rightarrow> int" where
  "sat_sub a b = max i64_min (min i64_max (a - b))"

lemma sat_add_exact: "i64_min \<le> a + b \<Longrightarrow> a + b \<le> i64_max \<Longrightarrow> sat_add a b = a + b"
  by (simp add: sat_add_def)

lemma sat_sub_exact: "i64_min \<le> a - b \<Longrightarrow> a - b \<le> i64_max \<Longrightarrow> sat_sub a b = a - b"
  by (simp add: sat_sub_def)

lemma sat_add_ge: "0 \<le> b \<Longrightarrow> a \<le> i64_max \<Longrightarrow> a \<le> sat_add a b"
  by (simp add: sat_add_def i64_max_def)

lemma sat_add_le: "i64_min \<le> a + b \<Longrightarrow> sat_add a b \<le> a + b"
  by (simp add: sat_add_def)

lemma sat_sub_less: "0 < w \<Longrightarrow> w \<le> i64_max \<Longrightarrow> sat_sub a b < w \<longleftrightarrow> a - b < w"
  by (auto simp: sat_sub_def i64_min_def i64_max_def)

section \<open>Results\<close>

text \<open>The question-mark operator: continue with the value, return the error.\<close>

definition and_then :: "'e + 'a \<Rightarrow> ('a \<Rightarrow> 'e + 'b) \<Rightarrow> 'e + 'b" where
  "and_then m f = (case m of Inl e \<Rightarrow> Inl e | Inr a \<Rightarrow> f a)"

text \<open>An early return of an error unless the condition holds.\<close>

definition require :: "bool \<Rightarrow> 'e \<Rightarrow> 'e + unit" where
  "require b e = (if b then Inr () else Inl e)"

text \<open>\<open>Option::ok_or_else\<close>.\<close>

definition ok_or :: "'a option \<Rightarrow> 'e \<Rightarrow> 'e + 'a" where
  "ok_or x e = (case x of None \<Rightarrow> Inl e | Some a \<Rightarrow> Inr a)"

text \<open>\<open>Result::map_err\<close>.\<close>

definition map_err :: "('e \<Rightarrow> 'f) \<Rightarrow> 'e + 'a \<Rightarrow> 'f + 'a" where
  "map_err f m = (case m of Inl e \<Rightarrow> Inl (f e) | Inr a \<Rightarrow> Inr a)"

definition is_ok :: "'e + 'a \<Rightarrow> bool" where
  "is_ok m = (case m of Inl _ \<Rightarrow> False | Inr _ \<Rightarrow> True)"

text \<open>A loop that checks every item and stops at the first error.\<close>

fun check_all :: "('a \<Rightarrow> 'e + unit) \<Rightarrow> 'a list \<Rightarrow> 'e + unit" where
  "check_all f [] = Inr ()"
| "check_all f (x # xs) = and_then (f x) (\<lambda>_. check_all f xs)"

text \<open>A loop that transforms every item and stops at the first error.\<close>

fun map_all :: "('a \<Rightarrow> 'e + 'b) \<Rightarrow> 'a list \<Rightarrow> 'e + 'b list" where
  "map_all f [] = Inr []"
| "map_all f (x # xs) =
     and_then (f x) (\<lambda>y. and_then (map_all f xs) (\<lambda>ys. Inr (y # ys)))"

lemma and_then_simps [simp]: "and_then (Inl e) f = Inl e" "and_then (Inr a) f = f a"
  by (simp_all add: and_then_def)

lemma and_then_Inr [result_simps]: "and_then m f = Inr b \<longleftrightarrow> (\<exists>a. m = Inr a \<and> f a = Inr b)"
  by (cases m) auto

lemma and_then_Inl [result_simps]:
  "and_then m f = Inl e \<longleftrightarrow> m = Inl e \<or> (\<exists>a. m = Inr a \<and> f a = Inl e)"
  by (cases m) auto

lemma require_Inr [simp]: "require b e = Inr u \<longleftrightarrow> b"
  by (simp add: require_def)

lemma require_Inl [simp]: "require b e = Inl e' \<longleftrightarrow> \<not> b \<and> e' = e"
  by (auto simp: require_def)

lemma require_simps [simp]: "require True e = Inr ()" "require False e = Inl e"
  by (simp_all add: require_def)

lemma ok_or_Inr [simp]: "ok_or x e = Inr a \<longleftrightarrow> x = Some a"
  by (cases x) (simp_all add: ok_or_def)

lemma ok_or_Inl [simp]: "ok_or x e = Inl e' \<longleftrightarrow> x = None \<and> e' = e"
  by (cases x) (auto simp: ok_or_def)

lemma ok_or_simps [simp]: "ok_or None e = Inl e" "ok_or (Some a) e = Inr a"
  by (simp_all add: ok_or_def)

lemma map_err_Inr [simp]: "map_err f m = Inr a \<longleftrightarrow> m = Inr a"
  by (cases m) (simp_all add: map_err_def)

lemma map_err_simps [simp]: "map_err f (Inl e) = Inl (f e)" "map_err f (Inr a) = Inr a"
  by (simp_all add: map_err_def)

lemma map_err_Inl: "map_err f m = Inl e \<longleftrightarrow> (\<exists>d. m = Inl d \<and> e = f d)"
  by (cases m) auto

lemma is_ok_simps [simp]: "is_ok (Inl e) = False" "is_ok (Inr a) = True"
  by (simp_all add: is_ok_def)

lemma is_ok_iff: "is_ok m \<longleftrightarrow> (\<exists>a. m = Inr a)"
  by (cases m) auto

lemma check_all_Inr [simp]: "check_all f xs = Inr u \<longleftrightarrow> (\<forall>x \<in> set xs. f x = Inr ())"
  by (induction xs) (auto simp: result_simps)

lemma map_all_length: "map_all f xs = Inr ys \<Longrightarrow> length ys = length xs"
  by (induction xs arbitrary: ys) (auto simp: result_simps)

section \<open>Tables\<close>

text \<open>
  The SQL statements of the source, over a table given as its rows in row-id order:
  \<open>UPDATE ... WHERE\<close>, \<open>DELETE ... WHERE\<close>, the number of changed rows, and a
  \<open>SELECT\<close> of at most one row (\<open>query_row(...).optional()\<close> takes the first).
\<close>

definition update_where :: "('r \<Rightarrow> bool) \<Rightarrow> ('r \<Rightarrow> 'r) \<Rightarrow> 'r list \<Rightarrow> 'r list" where
  "update_where p f rows = map (\<lambda>r. if p r then f r else r) rows"

definition delete_where :: "('r \<Rightarrow> bool) \<Rightarrow> 'r list \<Rightarrow> 'r list" where
  "delete_where p rows = filter (\<lambda>r. \<not> p r) rows"

definition count_where :: "('r \<Rightarrow> bool) \<Rightarrow> 'r list \<Rightarrow> nat" where
  "count_where p rows = length (filter p rows)"

definition select_one :: "('r \<Rightarrow> bool) \<Rightarrow> 'r list \<Rightarrow> 'r option" where
  "select_one p rows = find p rows"

text \<open>
  \<open>ORDER BY key LIMIT 1\<close>: the first row whose key is least. SQL leaves the choice
  among rows of equal key open; the model takes the oldest row.
\<close>

fun select_least :: "('r \<Rightarrow> 'k::linorder) \<Rightarrow> 'r list \<Rightarrow> 'r option" where
  "select_least k [] = None"
| "select_least k (r # rows) =
     (case select_least k rows of
        None \<Rightarrow> Some r
      | Some s \<Rightarrow> Some (if k s < k r then s else r))"

lemma select_one_Some: "select_one p rows = Some r \<Longrightarrow> r \<in> set rows \<and> p r"
  by (auto simp: select_one_def find_Some_iff)

lemma select_one_None: "select_one p rows = None \<longleftrightarrow> (\<forall>r \<in> set rows. \<not> p r)"
  by (auto simp: select_one_def find_None_iff)

lemma select_one_Nil [simp]: "select_one p [] = None"
  by (simp add: select_one_def)

lemma select_one_Cons [simp]: "select_one p (r # rows) = (if p r then Some r else select_one p rows)"
  by (simp add: select_one_def)

lemma select_one_append:
  "select_one p (rows @ more) = (case select_one p rows of None \<Rightarrow> select_one p more | Some r \<Rightarrow> Some r)"
  by (induction rows) auto

text \<open>A statement whose condition determines at most one row reads back what it wrote.\<close>

lemma select_one_unique:
  assumes "r \<in> set rows" "p r" "\<And>s. s \<in> set rows \<Longrightarrow> p s \<Longrightarrow> s = r"
  shows "select_one p rows = Some r"
proof -
  have "select_one p rows \<noteq> None" using assms(1,2) by (auto simp: select_one_None)
  then obtain s where s: "select_one p rows = Some s" by auto
  with assms(3) show ?thesis by (auto dest: select_one_Some)
qed

lemma update_where_Nil [simp]: "update_where p f [] = []"
  by (simp add: update_where_def)

lemma update_where_Cons [simp]:
  "update_where p f (r # rows) = (if p r then f r else r) # update_where p f rows"
  by (simp add: update_where_def)

lemma set_update_where [table_simps]:
  "s \<in> set (update_where p f rows) \<longleftrightarrow> (\<exists>r \<in> set rows. s = (if p r then f r else r))"
  by (auto simp: update_where_def)

lemma update_where_ball:
  "(\<And>r. r \<in> set rows \<Longrightarrow> Q r \<Longrightarrow> p r \<Longrightarrow> Q (f r)) \<Longrightarrow> \<forall>r \<in> set rows. Q r
    \<Longrightarrow> \<forall>r \<in> set (update_where p f rows). Q r"
  by (auto simp: update_where_def)

lemma map_update_where:
  "(\<And>r. p r \<Longrightarrow> g (f r) = g r) \<Longrightarrow> map g (update_where p f rows) = map g rows"
  by (simp add: update_where_def)

text \<open>A column stays unique when the rows of one id get a value no other row has.\<close>

lemma distinct_update_where:
  "distinct (map h rows) \<Longrightarrow> distinct (map g rows) \<Longrightarrow> \<forall>r \<in> set rows. h r = i \<or> g r \<noteq> v
    \<Longrightarrow> (\<And>r. g (f r) = v) \<Longrightarrow> distinct (map g (update_where (\<lambda>r. h r = i) f rows))"
proof (induction rows)
  case Nil
  then show ?case by simp
next
  case (Cons a rows)
  let ?p = "\<lambda>r. h r = i"
  have IH: "distinct (map g (update_where ?p f rows))" using Cons by simp
  show ?case
  proof (cases "h a = i")
    case True
    then have none: "\<forall>r \<in> set rows. h r \<noteq> i" using Cons.prems(1) by (metis distinct.simps(2) image_eqI list.simps(9) set_map)
    then have "update_where ?p f rows = rows" by (simp add: update_where_def map_idI)
    then show ?thesis using True Cons.prems none by (auto simp: image_iff)
  next
    case False
    then have "g a \<notin> g ` set (update_where ?p f rows)"
      using Cons.prems by (auto simp: update_where_def)
    then show ?thesis using False IH by simp
  qed
qed

lemma length_update_where [simp]: "length (update_where p f rows) = length rows"
  by (simp add: update_where_def)

lemma update_where_none: "count_where p rows = 0 \<Longrightarrow> update_where p f rows = rows"
  by (induction rows) (auto simp: count_where_def split: if_splits)

lemma select_one_update_where:
  "(\<And>r. p r \<Longrightarrow> q (f r) = q r) \<Longrightarrow>
   select_one q (update_where p f rows)
     = map_option (\<lambda>r. if p r then f r else r) (select_one q rows)"
  by (induction rows) auto

lemma set_delete_where [table_simps]: "s \<in> set (delete_where p rows) \<longleftrightarrow> s \<in> set rows \<and> \<not> p s"
  by (auto simp: delete_where_def)

lemma delete_where_simps [simp]:
  "delete_where p [] = []"
  "delete_where p (r # rows) = (if p r then delete_where p rows else r # delete_where p rows)"
  by (simp_all add: delete_where_def)

lemma map_delete_where_distinct: "distinct (map g rows) \<Longrightarrow> distinct (map g (delete_where p rows))"
  by (simp add: delete_where_def distinct_map_filter)

lemma count_where_simps [simp]:
  "count_where p [] = 0"
  "count_where p (r # rows) = (if p r then Suc (count_where p rows) else count_where p rows)"
  by (simp_all add: count_where_def)

lemma count_where_0 [table_simps]: "count_where p rows = 0 \<longleftrightarrow> (\<forall>r \<in> set rows. \<not> p r)"
  by (induction rows) auto

lemma count_where_pos: "0 < count_where p rows \<longleftrightarrow> (\<exists>r \<in> set rows. p r)"
  using count_where_0 [of p rows] by auto

lemma count_where_append [simp]: "count_where p (xs @ ys) = count_where p xs + count_where p ys"
  by (simp add: count_where_def)

lemma count_where_mono:
  "(\<And>r. r \<in> set rows \<Longrightarrow> p r \<Longrightarrow> q r) \<Longrightarrow> count_where p rows \<le> count_where q rows"
  by (induction rows) (auto simp: le_SucI)

lemma select_least_None: "select_least k rows = None \<longleftrightarrow> rows = []"
  by (cases rows) (auto split: option.splits)

lemma select_least_Some:
  "select_least k rows = Some r \<Longrightarrow> r \<in> set rows \<and> (\<forall>s \<in> set rows. k r \<le> k s)"
proof (induction rows arbitrary: r)
  case Nil
  then show ?case by simp
next
  case (Cons a rows)
  show ?case
  proof (cases "select_least k rows")
    case None
    then have "rows = []" by (simp add: select_least_None)
    with Cons.prems show ?thesis by simp
  next
    case (Some s)
    with Cons.IH have "s \<in> set rows" "\<forall>t \<in> set rows. k s \<le> k t" by auto
    with Some Cons.prems show ?thesis by (force split: if_splits)
  qed
qed

section \<open>Operations that keep an invariant\<close>

text \<open>
  The contract every stateful component states of its operations: a request either fails,
  and the state is the one before (the source rolls the transaction back), or succeeds with
  a next state that satisfies the component's invariant again. \<open>ok\<close> singles out the requests
  the contract is about, where it is not about all of them. The lemmas say what follows for a
  whole history of requests.
\<close>

locale guarded_machine =
  fixes step :: "'s \<Rightarrow> 'a \<Rightarrow> 'e + 's"
    and inv :: "'s \<Rightarrow> bool"
    and ok :: "'a \<Rightarrow> bool"
  assumes step_inv: "inv s \<Longrightarrow> ok a \<Longrightarrow> step s a = Inr t \<Longrightarrow> inv t"
begin

definition run1 :: "'s \<Rightarrow> 'a \<Rightarrow> 's" where
  "run1 s a = (case step s a of Inl _ \<Rightarrow> s | Inr t \<Rightarrow> t)"

lemma run1_inv: "inv s \<Longrightarrow> ok a \<Longrightarrow> inv (run1 s a)"
  by (auto simp: run1_def split: sum.splits intro: step_inv)

lemma run_inv: "inv s \<Longrightarrow> \<forall>a \<in> set as. ok a \<Longrightarrow> inv (foldl run1 s as)"
  by (induction as arbitrary: s) (auto intro: run1_inv)

text \<open>
  What one request may do to an observation of the state, histories of requests do as well,
  when the relation is reflexive and transitive.
\<close>

lemma run_rel:
  assumes refl: "\<And>s. R s s"
    and trans: "\<And>s t u. R s t \<Longrightarrow> R t u \<Longrightarrow> R s u"
    and step: "\<And>s t a. inv s \<Longrightarrow> ok a \<Longrightarrow> step s a = Inr t \<Longrightarrow> R s t"
  shows "inv s \<Longrightarrow> \<forall>a \<in> set as. ok a \<Longrightarrow> R s (foldl run1 s as)"
proof (induction as arbitrary: s)
  case Nil
  then show ?case by (simp add: refl)
next
  case (Cons a as)
  have "R s (run1 s a)"
    using Cons.prems by (auto simp: run1_def refl split: sum.splits intro: step)
  moreover have "R (run1 s a) (foldl run1 (run1 s a) as)"
    using Cons.prems by (intro Cons.IH run1_inv) auto
  ultimately show ?case by (auto intro: trans)
qed

end

text \<open>
  The run of a history at the top level, so that properties can speak of it: failed requests
  leave the state unchanged.
\<close>

definition attempt :: "('s \<Rightarrow> 'a \<Rightarrow> 'e + 's) \<Rightarrow> 's \<Rightarrow> 'a \<Rightarrow> 's" where
  "attempt step s a = (case step s a of Inl _ \<Rightarrow> s | Inr t \<Rightarrow> t)"

definition run_all :: "('s \<Rightarrow> 'a \<Rightarrow> 'e + 's) \<Rightarrow> 's \<Rightarrow> 'a list \<Rightarrow> 's" where
  "run_all step s as = foldl (attempt step) s as"

lemma run_all_simps [simp]:
  "run_all step s [] = s"
  "run_all step s (a # as) = run_all step (attempt step s a) as"
  by (simp_all add: run_all_def)

context guarded_machine
begin

lemma run1_attempt: "run1 = attempt step"
  by (intro ext) (simp add: run1_def attempt_def)

lemma attempt_inv: "inv s \<Longrightarrow> ok a \<Longrightarrow> inv (attempt step s a)"
  using run1_inv [of s a] by (simp add: run1_attempt)

lemma run_all_inv: "inv s \<Longrightarrow> \<forall>a \<in> set as. ok a \<Longrightarrow> inv (run_all step s as)"
  using run_inv [of s as] by (simp add: run_all_def run1_attempt)

lemma run_all_rel:
  assumes "\<And>s. R s s" "\<And>s t u. R s t \<Longrightarrow> R t u \<Longrightarrow> R s u"
    and "\<And>s t a. inv s \<Longrightarrow> ok a \<Longrightarrow> step s a = Inr t \<Longrightarrow> R s t" "inv s" "\<forall>a \<in> set as. ok a"
  shows "R s (run_all step s as)"
  using run_rel [of R s as] assms by (simp add: run_all_def run1_attempt)

end

end
