(* ===== verification/Rust_Text.thy ===== *)
theory Rust_Text
  imports Prelude
begin

text \<open>
  Rust strings. A \<open>str\<close> is its UTF-8 bytes, one \<open>char\<close> of HOL per byte, so that
  \<open>len()\<close> is the length of the list, \<open>bytes()\<close> the list itself, and the ASCII tests of
  the source read single elements. The Unicode-aware calls (\<open>trim\<close>,
  \<open>char::is_control\<close>, \<open>chars().count()\<close>, \<open>split_whitespace\<close>) look at the byte
  sequences of the code points they ask about.
\<close>

text \<open>The value of a byte; an \<open>int\<close>, so that closed terms compute in binary.\<close>

definition code_of :: "char \<Rightarrow> int" where
  "code_of c = of_char c"

section \<open>ASCII tests on bytes\<close>

definition is_ascii_digit :: "char \<Rightarrow> bool" where
  "is_ascii_digit c \<longleftrightarrow> 48 \<le> code_of c \<and> code_of c \<le> 57"

definition is_ascii_upper :: "char \<Rightarrow> bool" where
  "is_ascii_upper c \<longleftrightarrow> 65 \<le> code_of c \<and> code_of c \<le> 90"

definition is_ascii_lower :: "char \<Rightarrow> bool" where
  "is_ascii_lower c \<longleftrightarrow> 97 \<le> code_of c \<and> code_of c \<le> 122"

definition is_ascii_alnum :: "char \<Rightarrow> bool" where
  "is_ascii_alnum c \<longleftrightarrow> is_ascii_digit c \<or> is_ascii_upper c \<or> is_ascii_lower c"

definition is_ascii_hex :: "char \<Rightarrow> bool" where
  "is_ascii_hex c \<longleftrightarrow> is_ascii_digit c \<or> (65 \<le> code_of c \<and> code_of c \<le> 70)
     \<or> (97 \<le> code_of c \<and> code_of c \<le> 102)"

text \<open>\<open>to_ascii_lowercase\<close>.\<close>

definition ascii_lower_char :: "char \<Rightarrow> char" where
  "ascii_lower_char c = (if is_ascii_upper c then char_of (code_of c + 32) else c)"

definition ascii_lower :: "string \<Rightarrow> string" where
  "ascii_lower s = map ascii_lower_char s"

section \<open>Prefixes, suffixes and separators\<close>

definition starts_with :: "string \<Rightarrow> string \<Rightarrow> bool" where
  "starts_with s p \<longleftrightarrow> take (length p) s = p"

definition ends_with :: "string \<Rightarrow> string \<Rightarrow> bool" where
  "ends_with s p \<longleftrightarrow> length p \<le> length s \<and> drop (length s - length p) s = p"

text \<open>\<open>str::split(c)\<close>: the pieces between separators, at least one.\<close>

fun split_on :: "char \<Rightarrow> string \<Rightarrow> string list" where
  "split_on c [] = [[]]"
| "split_on c (x # xs) =
     (if x = c then [] # split_on c xs
      else (case split_on c xs of [] \<Rightarrow> [[x]] | p # ps \<Rightarrow> (x # p) # ps))"

text \<open>\<open>str::split_once(c)\<close>.\<close>

fun split_once :: "char \<Rightarrow> string \<Rightarrow> (string \<times> string) option" where
  "split_once c [] = None"
| "split_once c (x # xs) =
     (if x = c then Some ([], xs)
      else map_option (\<lambda>(a, b). (x # a, b)) (split_once c xs))"

fun join_with :: "string \<Rightarrow> string list \<Rightarrow> string" where
  "join_with sep [] = []"
| "join_with sep [s] = s"
| "join_with sep (s # t # ts) = s @ sep @ join_with sep (t # ts)"

lemma split_on_nonempty: "split_on c s \<noteq> []"
  by (induction s) (auto split: list.splits)

lemma join_split: "join_with [c] (split_on c s) = s"
proof (induction s)
  case Nil
  then show ?case by simp
next
  case (Cons x xs)
  obtain p ps where ps: "split_on c xs = p # ps"
    using split_on_nonempty [of c xs] by (cases "split_on c xs") auto
  with Cons show ?case by (cases ps) auto
qed

lemma split_on_no_sep: "s \<in> set (split_on c t) \<Longrightarrow> c \<notin> set s"
proof (induction t arbitrary: s)
  case Nil
  then show ?case by simp
next
  case (Cons x xs)
  then show ?case by (auto split: if_splits list.splits)
qed

lemma set_split_on: "s \<in> set (split_on c t) \<Longrightarrow> set s \<subseteq> set t"
proof (induction t arbitrary: s)
  case Nil
  then show ?case by simp
next
  case (Cons x xs)
  then show ?case
    by (auto split: if_splits list.splits) blast+
qed

section \<open>Unicode-aware operations\<close>

text \<open>
  The number of leading bytes that form one white-space code point (0 if none): the ASCII
  ones, then U+0085, U+00A0, U+1680, U+2000 to U+200A, U+2028, U+2029, U+202F, U+205F and
  U+3000 in UTF-8. For \<open>trim_end\<close> the same table is read backwards.
\<close>

definition ascii_ws :: "int \<Rightarrow> bool" where
  "ascii_ws n \<longleftrightarrow> n = 32 \<or> (9 \<le> n \<and> n \<le> 13)"

definition ws_two :: "int \<Rightarrow> int \<Rightarrow> bool" where
  "ws_two a b \<longleftrightarrow> a = 194 \<and> (b = 133 \<or> b = 160)"

definition ws_three :: "int \<Rightarrow> int \<Rightarrow> int \<Rightarrow> bool" where
  "ws_three a b c \<longleftrightarrow>
     (a = 225 \<and> b = 154 \<and> c = 128) \<or>
     (a = 226 \<and> b = 128 \<and> (128 \<le> c \<and> c \<le> 138 \<or> c = 168 \<or> c = 169 \<or> c = 175)) \<or>
     (a = 226 \<and> b = 129 \<and> c = 159) \<or>
     (a = 227 \<and> b = 128 \<and> c = 128)"

fun trim_start :: "string \<Rightarrow> string" where
  "trim_start [] = []"
| "trim_start [a] = (if ascii_ws (code_of a) then [] else [a])"
| "trim_start [a, b] =
     (if ascii_ws (code_of a) then trim_start [b]
      else if ws_two (code_of a) (code_of b) then [] else [a, b])"
| "trim_start (a # b # c # s) =
     (if ascii_ws (code_of a) then trim_start (b # c # s)
      else if ws_two (code_of a) (code_of b) then trim_start (c # s)
      else if ws_three (code_of a) (code_of b) (code_of c) then trim_start s
      else a # b # c # s)"

text \<open>\<open>trim_rev\<close> works on the reversed bytes.\<close>

fun trim_rev :: "string \<Rightarrow> string" where
  "trim_rev [] = []"
| "trim_rev [a] = (if ascii_ws (code_of a) then [] else [a])"
| "trim_rev [b, a] =
     (if ascii_ws (code_of b) then trim_rev [a]
      else if ws_two (code_of a) (code_of b) then [] else [b, a])"
| "trim_rev (c # b # a # s) =
     (if ascii_ws (code_of c) then trim_rev (b # a # s)
      else if ws_two (code_of b) (code_of c) then trim_rev (a # s)
      else if ws_three (code_of a) (code_of b) (code_of c) then trim_rev s
      else c # b # a # s)"

definition trim :: "string \<Rightarrow> string" where
  "trim s = rev (trim_rev (rev (trim_start s)))"

text \<open>\<open>split_whitespace\<close>: the non-empty pieces between white-space code points.\<close>

fun words_acc :: "string \<Rightarrow> string \<Rightarrow> string list" where
  "words_acc w [] = (if w = [] then [] else [rev w])"
| "words_acc w [a] =
     (if ascii_ws (code_of a) then (if w = [] then [] else [rev w]) else [rev (a # w)])"
| "words_acc w [a, b] =
     (if ascii_ws (code_of a) then (if w = [] then [] else [rev w]) @ words_acc [] [b]
      else if ws_two (code_of a) (code_of b) then (if w = [] then [] else [rev w])
      else words_acc (a # w) [b])"
| "words_acc w (a # b # c # s) =
     (if ascii_ws (code_of a) then (if w = [] then [] else [rev w]) @ words_acc [] (b # c # s)
      else if ws_two (code_of a) (code_of b)
        then (if w = [] then [] else [rev w]) @ words_acc [] (c # s)
      else if ws_three (code_of a) (code_of b) (code_of c)
        then (if w = [] then [] else [rev w]) @ words_acc [] s
      else words_acc (a # w) (b # c # s))"

definition split_whitespace :: "string \<Rightarrow> string list" where
  "split_whitespace s = words_acc [] s"

text \<open>
  \<open>chars().any(char::is_control)\<close>: U+0000 to U+001F, U+007F, and U+0080 to U+009F, which
  UTF-8 writes as the byte 194 followed by 128 to 159.
\<close>

fun has_control :: "string \<Rightarrow> bool" where
  "has_control [] = False"
| "has_control (a # s) =
     (code_of a < 32 \<or> code_of a = 127
      \<or> (code_of a = 194 \<and> (case s of [] \<Rightarrow> False | b # _ \<Rightarrow> 128 \<le> code_of b \<and> code_of b \<le> 159))
      \<or> has_control s)"

text \<open>\<open>chars().count()\<close>: the bytes that do not continue a code point.\<close>

definition char_count :: "string \<Rightarrow> nat" where
  "char_count s = length (filter (\<lambda>c. \<not> (128 \<le> code_of c \<and> code_of c < 192)) s)"

lemma char_count_le: "char_count s \<le> length s"
  by (simp add: char_count_def)

lemma has_control_ascii:
  "\<not> has_control s \<Longrightarrow> c \<in> set s \<Longrightarrow> 32 \<le> code_of c \<and> code_of c \<noteq> 127"
  by (induction s) (auto simp: not_less)

section \<open>Decimal and hexadecimal numerals\<close>

definition digit_char :: "int \<Rightarrow> char" where
  "digit_char d = char_of (if d < 10 then 48 + d else 87 + d)"

text \<open>\<open>to_string()\<close> of an unsigned integer and the \<open>{:x}\<close> format.\<close>

function show_base :: "int \<Rightarrow> int \<Rightarrow> string" where
  "show_base r n =
     (if r < 2 \<or> n < r then [digit_char n] else show_base r (n div r) @ [digit_char (n mod r)])"
  by pat_completeness auto
termination
  by (relation "measure (\<lambda>(r, n). nat n)") (auto simp: int_div_less_self)

declare show_base.simps [simp del]

definition show_dec :: "int \<Rightarrow> string" where
  "show_dec n = show_base 10 n"

text \<open>\<open>char::to_digit(radix)\<close>.\<close>

definition to_digit :: "int \<Rightarrow> char \<Rightarrow> int option" where
  "to_digit r c =
     (let d = (if is_ascii_digit c then Some (code_of c - 48)
               else if is_ascii_lower c then Some (code_of c - 87)
               else if is_ascii_upper c then Some (code_of c - 55) else None)
      in case d of None \<Rightarrow> None | Some v \<Rightarrow> if v < r then Some v else None)"

lemma code_of_char_of: "0 \<le> n \<Longrightarrow> n < 256 \<Longrightarrow> code_of (char_of n) = n"
  by (simp add: code_of_def)

lemma code_of_bounds: "0 \<le> code_of c \<and> code_of c < 256"
  by (cases c) (simp add: code_of_def of_char_def)

lemma to_digit_digit_char: "0 \<le> d \<Longrightarrow> d < r \<Longrightarrow> r \<le> 16 \<Longrightarrow> to_digit r (digit_char d) = Some d"
  by (simp add: to_digit_def digit_char_def code_of_char_of is_ascii_digit_def
      is_ascii_lower_def)

lemma to_digit_ascii: "to_digit r c = Some d \<Longrightarrow> is_ascii_alnum c"
  by (auto simp: to_digit_def is_ascii_alnum_def Let_def split: if_splits)

lemma to_digit_range: "to_digit r c = Some d \<Longrightarrow> 0 \<le> d \<and> d < r"
  by (auto simp: to_digit_def is_ascii_digit_def is_ascii_lower_def is_ascii_upper_def
      split: if_splits)

end
