(* ===== verification/App_Error.thy ===== *)
theory App_Error
  imports Rust_Text
begin

text \<open>
  \<open>src/error.rs\<close> and the error type of \<open>src/hypervisor/mod.rs\<close>: the errors every
  fallible operation returns, their HTTP status, machine code and public message, and the
  translation of backend errors. Payloads that third-party types render (database,
  template and I/O errors) are the rendered text.
\<close>

text \<open>The apostrophe, which a string literal cannot hold.\<close>

definition quote1 :: string where
  "quote1 = [char_of (39::nat)]"

datatype app_error =
    Configuration string
  | Validation string
  | Unauthorized
  | Forbidden
  | NotFound string
  | Conflict string
  | RateLimited
  | Database string
  | HypervisorFailed string
  | Template string
  | IoFailed string
  | Internal string

definition app_error_text :: "app_error \<Rightarrow> string" where
  "app_error_text e = (case e of
     Configuration s \<Rightarrow> ''configuration error: '' @ s
   | Validation s \<Rightarrow> ''validation failed: '' @ s
   | Unauthorized \<Rightarrow> ''authentication required''
   | Forbidden \<Rightarrow> ''permission denied''
   | NotFound s \<Rightarrow> s @ '' was not found''
   | Conflict s \<Rightarrow> ''conflict: '' @ s
   | RateLimited \<Rightarrow> ''request limit exceeded''
   | Database s \<Rightarrow> ''database operation failed: '' @ s
   | HypervisorFailed s \<Rightarrow> ''hypervisor operation failed: '' @ s
   | Template s \<Rightarrow> ''template rendering failed: '' @ s
   | IoFailed s \<Rightarrow> ''I/O operation failed: '' @ s
   | Internal s \<Rightarrow> ''internal error: '' @ s)"

definition status_code :: "app_error \<Rightarrow> nat" where
  "status_code e = (case e of
     Validation _ \<Rightarrow> 400 | Unauthorized \<Rightarrow> 401 | Forbidden \<Rightarrow> 403 | NotFound _ \<Rightarrow> 404
   | Conflict _ \<Rightarrow> 409 | RateLimited \<Rightarrow> 429 | HypervisorFailed _ \<Rightarrow> 503
   | Configuration _ \<Rightarrow> 500 | Database _ \<Rightarrow> 500 | Template _ \<Rightarrow> 500 | IoFailed _ \<Rightarrow> 500
   | Internal _ \<Rightarrow> 500)"

definition error_code :: "app_error \<Rightarrow> string" where
  "error_code e = (case e of
     Configuration _ \<Rightarrow> ''configuration_error'' | Validation _ \<Rightarrow> ''validation_error''
   | Unauthorized \<Rightarrow> ''unauthorized'' | Forbidden \<Rightarrow> ''forbidden'' | NotFound _ \<Rightarrow> ''not_found''
   | Conflict _ \<Rightarrow> ''conflict'' | RateLimited \<Rightarrow> ''rate_limited''
   | Database _ \<Rightarrow> ''database_error'' | HypervisorFailed _ \<Rightarrow> ''hypervisor_error''
   | Template _ \<Rightarrow> ''template_error'' | IoFailed _ \<Rightarrow> ''io_error''
   | Internal _ \<Rightarrow> ''internal_error'')"

definition public_message :: "app_error \<Rightarrow> string" where
  "public_message e = (case e of
     Database _ \<Rightarrow> ''The server could not complete the request''
   | Template _ \<Rightarrow> ''The server could not complete the request''
   | IoFailed _ \<Rightarrow> ''The server could not complete the request''
   | Internal _ \<Rightarrow> ''The server could not complete the request''
   | other \<Rightarrow> app_error_text other)"

text \<open>The JSON error envelope with its status and headers; the request id is drawn fresh.\<close>

record error_response =
  resp_status :: nat
  resp_success :: bool
  resp_code :: string
  resp_message :: string
  resp_request_id :: string
  resp_retry_after :: "string option"

definition into_response :: "string \<Rightarrow> app_error \<Rightarrow> error_response" where
  "into_response request_id e =
     \<lparr>resp_status = status_code e, resp_success = False, resp_code = error_code e,
      resp_message = public_message e, resp_request_id = request_id,
      resp_retry_after = (if status_code e = 429 then Some ''60'' else None)\<rparr>"

datatype hv_error =
    HvBackendUnavailable string
  | HvInvalidInput string
  | HvNotFound string
  | HvConflict string
  | HvCommandFailed string string
  | HvTimeout string
  | HvIo string
  | HvInvalidResponse string

definition hv_error_text :: "hv_error \<Rightarrow> string" where
  "hv_error_text e = (case e of
     HvBackendUnavailable s \<Rightarrow> ''hypervisor backend is unavailable: '' @ s
   | HvInvalidInput s \<Rightarrow> ''invalid hypervisor request: '' @ s
   | HvNotFound s \<Rightarrow> ''VM '' @ quote1 @ s @ quote1 @ '' was not found''
   | HvConflict s \<Rightarrow> ''hypervisor conflict: '' @ s
   | HvCommandFailed operation message \<Rightarrow>
       ''hypervisor command '' @ quote1 @ operation @ quote1 @ '' failed: '' @ message
   | HvTimeout s \<Rightarrow> ''hypervisor command '' @ quote1 @ s @ quote1 @ '' timed out''
   | HvIo s \<Rightarrow> ''hypervisor I/O failed: '' @ s
   | HvInvalidResponse s \<Rightarrow> ''hypervisor returned invalid data: '' @ s)"

definition app_error_of_hv :: "hv_error \<Rightarrow> app_error" where
  "app_error_of_hv e = (case e of
     HvInvalidInput message \<Rightarrow> Validation message
   | HvNotFound name \<Rightarrow> NotFound (''VM '' @ quote1 @ name @ quote1)
   | HvConflict message \<Rightarrow> Conflict message
   | other \<Rightarrow> HypervisorFailed (hv_error_text other))"

text \<open>
  Error envelopes disclose nothing of internal failures: two database, two template, two
  I/O or two internal errors that differ in their payload give the same response, whose
  status is 500 and which carries no retry header.
\<close>

theorem internal_errors_are_opaque:
  assumes "(e, e') \<in> {(Database s, Database t), (Template s, Template t), (IoFailed s, IoFailed t),
    (Internal s, Internal t)}"
  shows "into_response r e = into_response r e' \<and> resp_status (into_response r e) = 500
    \<and> resp_retry_after (into_response r e) = None"
  using assms by (auto simp: into_response_def status_code_def error_code_def public_message_def)

lemma internal_errors_are_opaque_witness:
  "into_response ''r'' (Database ''UNIQUE constraint failed'') = into_response ''r'' (Database ''locked'')"
  using internal_errors_are_opaque [of "Database ''UNIQUE constraint failed''" "Database ''locked''"
      "''UNIQUE constraint failed''" "''locked''" "''r''"]
  by simp

end
