(* ===== verification/Rate_Limit.thy ===== *)
theory Rate_Limit
  imports App_Error
begin

text \<open>
  \<open>src/rate_limit.rs\<close>: the fixed-window limiter in front of logins and tokens. The hash
  map is an association list with distinct keys (no operation depends on its order); the
  mutex serialises the operations, and a poisoned mutex (a panic of another holder) is not
  modelled. Errors of \<open>check\<close> do not roll the map back, so an operation returns the new
  map beside its result.
\<close>

definition max_buckets :: nat where
  "max_buckets = 10000"

record bucket =
  started_at :: timestamp
  bucket_count :: nat
  window_seconds :: int

type_synonym buckets = "(string \<times> bucket) list"

definition bucket_key :: "string \<Rightarrow> string \<Rightarrow> string" where
  "bucket_key namespace key = namespace @ '':'' @ key"

text \<open>Replace the value of a key, or add the entry.\<close>

fun put :: "string \<Rightarrow> bucket \<Rightarrow> buckets \<Rightarrow> buckets" where
  "put k b [] = [(k, b)]"
| "put k b ((k', b') # m) = (if k' = k then (k, b) # m else (k', b') # put k b m)"

text \<open>\<open>buckets.retain(...)\<close>: drop the buckets whose window is over.\<close>

definition retain_live :: "timestamp \<Rightarrow> buckets \<Rightarrow> buckets" where
  "retain_live now m = filter (\<lambda>(k, b). sat_sub now (started_at b) < window_seconds b) m"

definition fresh_bucket :: "timestamp \<Rightarrow> int \<Rightarrow> bucket" where
  "fresh_bucket now w = \<lparr>started_at = now, bucket_count = 0, window_seconds = w\<rparr>"

text \<open>The bucket a check works on: the stored one, restarted when its window is over.\<close>

definition current_bucket :: "timestamp \<Rightarrow> int \<Rightarrow> bucket option \<Rightarrow> bucket" where
  "current_bucket now w stored =
     (let b = (case stored of Some b \<Rightarrow> b | None \<Rightarrow> fresh_bucket now w)
      in if window_seconds b \<le> sat_sub now (started_at b) then fresh_bucket now w else b)"

definition rate_check ::
  "string \<Rightarrow> string \<Rightarrow> nat \<Rightarrow> int \<Rightarrow> timestamp \<Rightarrow> buckets \<Rightarrow> buckets \<times> (app_error + unit)" where
  "rate_check namespace key limit w now m =
     (if limit = 0 \<or> w \<le> 0
      then (m, Inl (Internal ''rate limiter configuration is invalid''))
      else
        let full = max_buckets \<le> length m;
            m1 = (if full then retain_live now m else m)
        in if full \<and> max_buckets \<le> length m1 then (m1, Inl RateLimited)
           else
             let k = bucket_key namespace key;
                 b = current_bucket now w (map_of m1 k)
             in if limit \<le> bucket_count b then (put k b m1, Inl RateLimited)
                else (put k (b\<lparr>bucket_count := min 4294967295 (bucket_count b + 1)\<rparr>) m1, Inr ()))"

definition rate_reset :: "string \<Rightarrow> string \<Rightarrow> buckets \<Rightarrow> buckets" where
  "rate_reset namespace key m = filter (\<lambda>(k, b). k \<noteq> bucket_key namespace key) m"

section \<open>The map\<close>

lemma map_of_put [simp]: "map_of (put k b m) k' = (if k' = k then Some b else map_of m k')"
  by (induction m) auto

lemma keys_put: "fst ` set (put k b m) = insert k (fst ` set m)"
  by (auto simp: dom_map_of_conv_image_fst [symmetric] split: if_splits)

lemma distinct_put: "distinct (map fst m) \<Longrightarrow> distinct (map fst (put k b m))"
  by (induction m) (auto simp: keys_put)

lemma length_put_le: "length m < n \<Longrightarrow> length (put k b m) \<le> n"
proof -
  have "length (put k b m) \<le> Suc (length m)" by (induction m) auto
  then show "length m < n \<Longrightarrow> length (put k b m) \<le> n" by simp
qed

lemma map_of_retain:
  "distinct (map fst m) \<Longrightarrow>
   map_of (retain_live now m) k =
     (case map_of m k of None \<Rightarrow> None
      | Some b \<Rightarrow> if sat_sub now (started_at b) < window_seconds b then Some b else None)"
  by (induction m) (auto simp: retain_live_def dom_map_of_conv_image_fst map_of_eq_None_iff
      split: option.splits)

lemma distinct_retain: "distinct (map fst m) \<Longrightarrow> distinct (map fst (retain_live now m))"
  by (simp add: retain_live_def distinct_map_filter)

section \<open>The table is bounded\<close>

definition rate_inv :: "buckets \<Rightarrow> bool" where
  "rate_inv m \<longleftrightarrow> distinct (map fst m) \<and> length m \<le> max_buckets"

lemma length_retain: "length (retain_live now m) \<le> length m"
  by (simp add: retain_live_def)

lemma rate_check_inv: "rate_inv m \<Longrightarrow> rate_inv (fst (rate_check ns key limit w now m))"
  using length_retain [of now m]
  by (auto simp: rate_check_def rate_inv_def Let_def distinct_put distinct_retain
      length_put_le not_le split: if_splits)

lemma rate_reset_inv: "rate_inv m \<Longrightarrow> rate_inv (rate_reset ns key m)"
  by (auto simp: rate_inv_def rate_reset_def distinct_map_filter
      intro: order_trans [OF length_filter_le])

section \<open>Histories of requests\<close>

datatype rate_request =
    Check (req_ns: string) (req_key: string) (req_limit: nat) (req_window: int) (req_time: timestamp)
  | Reset string string

fun rate_step :: "buckets \<Rightarrow> rate_request \<Rightarrow> unit + buckets" where
  "rate_step m (Check ns key limit w now) = Inr (fst (rate_check ns key limit w now m))"
| "rate_step m (Reset ns key) = Inr (rate_reset ns key m)"

interpretation limiter: guarded_machine rate_step rate_inv "\<lambda>_. True"
proof
  fix m r m'
  assume "rate_inv m" "rate_step m r = Inr m'"
  then show "rate_inv m'"
    by (cases r) (auto simp: rate_check_inv rate_reset_inv)
qed

text \<open>The number of checks of one key that a list of checks grants.\<close>

fun granted :: "string \<Rightarrow> buckets \<Rightarrow> rate_request list \<Rightarrow> nat" where
  "granted k m [] = 0"
| "granted k m (Reset ns key # rs) = granted k (rate_reset ns key m) rs"
| "granted k m (Check ns key limit w now # rs) =
     (let (m', r) = rate_check ns key limit w now m
      in (if bucket_key ns key = k \<and> is_ok r then 1 else 0) + granted k m' rs)"

text \<open>
  The checks of key \<open>k\<close> all use the same limit and window, every check of the list is at a
  time in \<open>[s, s + w)\<close>, and no request resets the key.
\<close>

definition within_window :: "string \<Rightarrow> nat \<Rightarrow> int \<Rightarrow> timestamp \<Rightarrow> rate_request \<Rightarrow> bool" where
  "within_window k limit w s r \<longleftrightarrow> (case r of
     Check ns key l w' now \<Rightarrow>
       s \<le> now \<and> now < s + w \<and> (bucket_key ns key = k \<longrightarrow> l = limit \<and> w' = w)
   | Reset ns key \<Rightarrow> bucket_key ns key \<noteq> k)"

text \<open>Key \<open>k\<close> has no live bucket at time \<open>s\<close>, nor at any later time.\<close>

definition window_closed :: "string \<Rightarrow> timestamp \<Rightarrow> buckets \<Rightarrow> bool" where
  "window_closed k s m \<longleftrightarrow>
     (case map_of m k of None \<Rightarrow> True | Some b \<Rightarrow> window_seconds b \<le> sat_sub s (started_at b))"

text \<open>Key \<open>k\<close> has a bucket of window \<open>w\<close> started at \<open>s\<close> or later that counts \<open>c\<close>.\<close>

definition window_open :: "string \<Rightarrow> int \<Rightarrow> timestamp \<Rightarrow> nat \<Rightarrow> buckets \<Rightarrow> bool" where
  "window_open k w s c m \<longleftrightarrow> (\<exists>b. map_of m k = Some b \<and> window_seconds b = w
     \<and> s \<le> started_at b \<and> bucket_count b = c)"

lemma sat_sub_mono: "a \<le> a' \<Longrightarrow> sat_sub a b \<le> sat_sub a' b"
  by (auto simp: sat_sub_def)

lemma live_in_window:
  assumes "0 < w" "w \<le> i64_max" "now < s + w" "s \<le> a"
  shows "sat_sub now a < w"
  using assms by (simp add: sat_sub_less)

text \<open>What a check does to the entry of any other key.\<close>

lemma rate_check_other:
  assumes "distinct (map fst m)" "bucket_key ns key \<noteq> k"
  shows "map_of (fst (rate_check ns key l w now m)) k = map_of m k
    \<or> map_of (fst (rate_check ns key l w now m)) k = map_of (retain_live now m) k"
  using assms by (auto simp: rate_check_def Let_def)

lemma rate_check_distinct:
  "distinct (map fst m) \<Longrightarrow> distinct (map fst (fst (rate_check ns key l w now m)))"
  by (auto simp: rate_check_def Let_def distinct_put distinct_retain)

lemma map_of_reset: "bucket_key ns key \<noteq> k \<Longrightarrow> map_of (rate_reset ns key m) k = map_of m k"
  by (induction m) (auto simp: rate_reset_def)

lemma distinct_reset: "distinct (map fst m) \<Longrightarrow> distinct (map fst (rate_reset ns key m))"
  by (simp add: rate_reset_def distinct_map_filter)

lemma open_kept:
  assumes "window_open k w s c m" "distinct (map fst m)" "bucket_key ns key \<noteq> k"
    "0 < w" "w \<le> i64_max" "now < s + w"
  shows "window_open k w s c (fst (rate_check ns key l w' now m))"
proof -
  obtain b where b: "map_of m k = Some b" "window_seconds b = w" "s \<le> started_at b" "bucket_count b = c"
    using assms(1) by (auto simp: window_open_def)
  have "map_of (retain_live now m) k = Some b"
    using b live_in_window [OF assms(4,5,6) b(3)] by (simp add: map_of_retain assms(2))
  with rate_check_other [OF assms(2,3)] b show ?thesis
    unfolding window_open_def by metis
qed

lemma closed_kept:
  assumes "window_closed k s m" "distinct (map fst m)" "bucket_key ns key \<noteq> k"
  shows "window_closed k s (fst (rate_check ns key l w' now m))"
  using rate_check_other [OF assms(2,3), of l w' now] assms(1)
  by (auto simp: window_closed_def map_of_retain [OF assms(2)] split: option.splits if_splits)

text \<open>A check of the key itself counts while its window is open.\<close>

lemma open_own:
  assumes "window_open k w s c m" "distinct (map fst m)" "bucket_key ns key = k"
    "0 < w" "w \<le> i64_max" "s \<le> now" "now < s + w" "limit \<le> 4294967295"
    "rate_check ns key limit w now m = (m', r)"
  shows "(is_ok r \<and> c < limit \<and> window_open k w s (Suc c) m') \<or> (\<not> is_ok r \<and> window_open k w s c m')"
proof -
  obtain b where b: "map_of m k = Some b" "window_seconds b = w" "s \<le> started_at b" "bucket_count b = c"
    using assms(1) by (auto simp: window_open_def)
  have live: "sat_sub now (started_at b) < w"
    by (rule live_in_window [OF assms(4,5,7) b(3)])
  have kept: "map_of (retain_live now m) k = Some b"
    using b live by (simp add: map_of_retain assms(2))
  show ?thesis
    using assms(3,4,8,9) b live kept
    by (auto simp: rate_check_def Let_def current_bucket_def window_open_def split: if_splits)
qed

lemma closed_own:
  assumes "window_closed k s m" "distinct (map fst m)" "bucket_key ns key = k"
    "0 < w" "w \<le> i64_max" "s \<le> now" "limit \<le> 4294967295"
    "rate_check ns key limit w now m = (m', r)"
  shows "(is_ok r \<and> 0 < limit \<and> window_open k w s 1 m') \<or> (\<not> is_ok r \<and> window_closed k s m')
    \<or> (\<not> is_ok r \<and> limit = 0 \<and> m' = m)"
proof -
  have cur: "current_bucket now w (map_of m k) = fresh_bucket now w"
    using assms(1,4) sat_sub_mono [OF assms(6)]
    by (auto simp: window_closed_def current_bucket_def fresh_bucket_def sat_sub_def
        split: option.splits intro: order_trans)
  have closed: "window_closed k s (retain_live now m)"
    using assms(1) by (auto simp: window_closed_def map_of_retain [OF assms(2)] split: option.splits)
  have cur': "current_bucket now w (map_of (retain_live now m) k) = fresh_bucket now w"
    using closed assms(4) sat_sub_mono [OF assms(6)]
    by (auto simp: window_closed_def current_bucket_def fresh_bucket_def sat_sub_def
        split: option.splits intro: order_trans)
  show ?thesis
    using assms(1,3-8) cur cur' closed
    by (auto simp: rate_check_def Let_def window_open_def fresh_bucket_def split: if_splits)
qed

lemma granted_open:
  assumes "\<forall>r \<in> set rs. within_window k limit w s r" "0 < w" "w \<le> i64_max" "limit \<le> 4294967295"
  shows "window_open k w s c m \<Longrightarrow> distinct (map fst m) \<Longrightarrow> granted k m rs \<le> limit - c"
  using assms(1)
proof (induction rs arbitrary: m c)
  case Nil
  then show ?case by simp
next
  case (Cons r rs)
  show ?case
  proof (cases r)
    case (Reset ns key)
    with Cons.prems have "bucket_key ns key \<noteq> k" by (simp add: within_window_def)
    then show ?thesis
      using Cons.IH [OF _ distinct_reset [OF Cons.prems(2)]] Cons.prems(1,3) Reset
      by (simp add: window_open_def map_of_reset)
  next
    case r: (Check ns key l w' now)
    with Cons.prems have t: "s \<le> now" "now < s + w"
      and own: "bucket_key ns key = k \<Longrightarrow> l = limit \<and> w' = w" by (auto simp: within_window_def)
    obtain m' x where m': "rate_check ns key l w' now m = (m', x)" by fastforce
    have d: "distinct (map fst m')"
      using rate_check_distinct [OF Cons.prems(2), of ns key l w' now] m' by simp
    show ?thesis
    proof (cases "bucket_key ns key = k")
      case True
      have "(is_ok x \<and> c < limit \<and> window_open k w s (Suc c) m') \<or> (\<not> is_ok x \<and> window_open k w s c m')"
        using open_own [OF Cons.prems(1,2) True assms(2,3) t assms(4)] m' own [OF True] by simp
      then show ?thesis
        using Cons.IH [OF _ d] Cons.prems(3) r m' True by fastforce
    next
      case False
      have "window_open k w s c m'"
        using open_kept [OF Cons.prems(1,2) False assms(2,3) t(2), of l w'] m' by simp
      then show ?thesis
        using Cons.IH [OF _ d] Cons.prems(3) r m' False by auto
    qed
  qed
qed

lemma granted_closed:
  assumes "\<forall>r \<in> set rs. within_window k limit w s r" "0 < w" "w \<le> i64_max" "limit \<le> 4294967295"
  shows "window_closed k s m \<Longrightarrow> distinct (map fst m) \<Longrightarrow> granted k m rs \<le> limit"
  using assms(1)
proof (induction rs arbitrary: m)
  case Nil
  then show ?case by simp
next
  case (Cons r rs)
  show ?case
  proof (cases r)
    case (Reset ns key)
    with Cons.prems have "bucket_key ns key \<noteq> k" by (simp add: within_window_def)
    then show ?thesis
      using Cons.IH [OF _ distinct_reset [OF Cons.prems(2)]] Cons.prems(1,3) Reset
      by (simp add: window_closed_def map_of_reset)
  next
    case r: (Check ns key l w' now)
    with Cons.prems have t: "s \<le> now" "now < s + w"
      and own: "bucket_key ns key = k \<Longrightarrow> l = limit \<and> w' = w" by (auto simp: within_window_def)
    obtain m' x where m': "rate_check ns key l w' now m = (m', x)" by fastforce
    have d: "distinct (map fst m')"
      using rate_check_distinct [OF Cons.prems(2), of ns key l w' now] m' by simp
    have IH: "window_closed k s m' \<Longrightarrow> granted k m' rs \<le> limit" using Cons.IH [OF _ d] Cons.prems(3) by simp
    show ?thesis
    proof (cases "bucket_key ns key = k")
      case True
      consider "is_ok x" "0 < limit" "window_open k w s 1 m'" | "\<not> is_ok x" "window_closed k s m'"
        | "\<not> is_ok x" "m' = m"
        using closed_own [OF Cons.prems(1,2) True assms(2,3) t(1) assms(4)] m' own [OF True] by auto
      then show ?thesis
      proof cases
        case 1
        have "granted k m' rs \<le> limit - 1"
          using granted_open [OF _ assms(2-4) 1(3) d] Cons.prems(3) by simp
        with 1 show ?thesis using r m' True by simp
      qed (use IH Cons.prems(1) r m' in auto)
    next
      case False
      have "window_closed k s m'"
        using closed_kept [OF Cons.prems(1,2) False, of l w' now] m' by simp
      then show ?thesis using IH r m' False by simp
    qed
  qed
qed

text \<open>
  C19. The limiter enforces its limit: from any table in which the key's window is over at
  time \<open>s\<close>, any list of checks at times in \<open>[s, s + w)\<close>, of this key and of others
  interleaved, with resets of other keys, is granted at most \<open>limit\<close> times for the key, also
  when the table is full and is pruned in between.
\<close>

theorem rate_limit_enforced:
  assumes "distinct (map fst m)" "window_closed k s m"
    and "\<forall>r \<in> set rs. within_window k limit w s r"
    and "0 < w" "w \<le> i64_max" "limit \<le> 4294967295"
  shows "granted k m rs \<le> limit"
  by (rule granted_closed [OF assms(3-6) assms(2,1)])

lemma rate_limit_enforced_witness:
  "granted ''login:a'' []
     [Check ''login'' ''a'' 1 60 100, Check ''login'' ''b'' 5 30 100, Check ''login'' ''a'' 1 60 159] \<le> 1"
  by (rule rate_limit_enforced [where s = 100 and w = 60])
     (simp_all add: window_closed_def within_window_def bucket_key_def i64_max_def)

text \<open>
  The table is bounded: after any history of checks and resets from the empty table it
  holds at most ten thousand buckets, one per key.
\<close>

theorem rate_table_bounded:
  "length (run_all rate_step [] rs) \<le> 10000 \<and> distinct (map fst (run_all rate_step [] rs))"
  using limiter.run_all_inv [of "[]" rs] by (simp add: rate_inv_def max_buckets_def)

end
