(* ===== verification/Ip_Text.thy ===== *)
theory Ip_Text
  imports Rust_Text
begin

text \<open>
  \<open>std::net::IpAddr\<close>: addresses, the parser behind \<open>str::parse::<IpAddr>()\<close>, the
  \<open>Display\<close> form the source stores and compares (lower-case, zero run compressed), and
  the classification predicates the source calls. Canonical address text is what every
  table of the program keys addresses by, so its round trip is proved for IPv4.
\<close>

datatype ip_addr = IpV4 "32 word" | IpV6 "128 word"

definition is_ipv4 :: "ip_addr \<Rightarrow> bool" where
  "is_ipv4 a = (case a of IpV4 _ \<Rightarrow> True | IpV6 _ \<Rightarrow> False)"

definition is_ipv6 :: "ip_addr \<Rightarrow> bool" where
  "is_ipv6 a = (case a of IpV4 _ \<Rightarrow> False | IpV6 _ \<Rightarrow> True)"

lemma is_ip_simps [simp]:
  "is_ipv4 (IpV4 w)" "\<not> is_ipv4 (IpV6 v)" "\<not> is_ipv6 (IpV4 w)" "is_ipv6 (IpV6 v)"
  by (simp_all add: is_ipv4_def is_ipv6_def)

section \<open>Display\<close>

definition octet :: "32 word \<Rightarrow> nat \<Rightarrow> int" where
  "octet w i = uint w div 2 ^ (24 - 8 * i) mod 256"

definition show_ipv4 :: "32 word \<Rightarrow> string" where
  "show_ipv4 w = join_with ''.'' (map (\<lambda>i. show_dec (octet w i)) [0, 1, 2, 3])"

definition segments :: "128 word \<Rightarrow> int list" where
  "segments v = map (\<lambda>i. uint v div 2 ^ (112 - 16 * i) mod 65536) [0, 1, 2, 3, 4, 5, 6, 7]"

text \<open>The first longest run of zero segments, as (start, length).\<close>

fun zero_runs :: "nat \<Rightarrow> int list \<Rightarrow> nat \<times> nat \<Rightarrow> nat \<times> nat \<Rightarrow> nat \<times> nat" where
  "zero_runs i [] cur best = best"
| "zero_runs i (s # ss) cur best =
     (if s = 0 then
        (let cur' = (if snd cur = 0 then (i, 1) else (fst cur, snd cur + 1))
         in zero_runs (i + 1) ss cur' (if snd cur' > snd best then cur' else best))
      else zero_runs (i + 1) ss (0, 0) best)"

definition show_groups :: "int list \<Rightarrow> string" where
  "show_groups gs = join_with '':'' (map (show_base 16) gs)"

definition show_ipv6 :: "128 word \<Rightarrow> string" where
  "show_ipv6 v =
     (let ss = segments v
      in if take 6 ss = [0, 0, 0, 0, 0, 65535]
         then ''::ffff:'' @ show_ipv4 (ucast v)
         else let (start, len) = zero_runs 0 ss (0, 0) (0, 0)
              in if len > 1
                 then show_groups (take start ss) @ ''::'' @ show_groups (drop (start + len) ss)
                 else show_groups ss)"

definition show_ip :: "ip_addr \<Rightarrow> string" where
  "show_ip a = (case a of IpV4 w \<Rightarrow> show_ipv4 w | IpV6 v \<Rightarrow> show_ipv6 v)"

section \<open>Parsing\<close>

text \<open>
  The parser reads from the front of the text and returns the rest; a reader that fails
  leaves the input where it was, which here is the caller continuing with its own input.
\<close>

fun read_digits :: "int \<Rightarrow> nat \<Rightarrow> int \<Rightarrow> nat \<Rightarrow> int \<Rightarrow> string \<Rightarrow> (int \<times> nat \<times> string) option" where
  "read_digits r maxd maxv count acc [] = Some (acc, count, [])"
| "read_digits r maxd maxv count acc (c # s) =
     (case to_digit r c of
        None \<Rightarrow> Some (acc, count, c # s)
      | Some d \<Rightarrow>
          if acc * r + d > maxv \<or> count + 1 > maxd then None
          else read_digits r maxd maxv (count + 1) (acc * r + d) s)"

definition read_number :: "int \<Rightarrow> nat \<Rightarrow> bool \<Rightarrow> int \<Rightarrow> string \<Rightarrow> (int \<times> string) option" where
  "read_number r maxd zero_prefix maxv s =
     (case read_digits r maxd maxv 0 0 s of
        None \<Rightarrow> None
      | Some (v, n, rest) \<Rightarrow>
          if n = 0 then None
          else if \<not> zero_prefix \<and> starts_with s ''0'' \<and> n > 1 then None
          else Some (v, rest))"

definition read_char :: "char \<Rightarrow> string \<Rightarrow> string option" where
  "read_char c s = (case s of [] \<Rightarrow> None | x # xs \<Rightarrow> if x = c then Some xs else None)"

definition read_octet :: "string \<Rightarrow> (int \<times> string) option" where
  "read_octet s = read_number 10 3 False 255 s"

definition word_of_octets :: "int \<Rightarrow> int \<Rightarrow> int \<Rightarrow> int \<Rightarrow> 32 word" where
  "word_of_octets a b c d = word_of_int (((a * 256 + b) * 256 + c) * 256 + d)"

definition read_ipv4 :: "string \<Rightarrow> (32 word \<times> string) option" where
  "read_ipv4 s =
     Option.bind (read_octet s) (\<lambda>(a, s).
     Option.bind (read_char (CHR ''.'') s) (\<lambda>s.
     Option.bind (read_octet s) (\<lambda>(b, s).
     Option.bind (read_char (CHR ''.'') s) (\<lambda>s.
     Option.bind (read_octet s) (\<lambda>(c, s).
     Option.bind (read_char (CHR ''.'') s) (\<lambda>s.
     Option.bind (read_octet s) (\<lambda>(d, s).
     Some (word_of_octets a b c d, s))))))))"

text \<open>
  \<open>read_groups\<close>: up to \<open>limit\<close> groups from position \<open>i\<close> on, the last two possibly an
  embedded IPv4 address; returns the groups, whether they end in one, and the rest.
\<close>

definition read_sep :: "nat \<Rightarrow> string \<Rightarrow> string option" where
  "read_sep i s = (if i = 0 then Some s else read_char (CHR '':'') s)"

fun read_groups :: "nat \<Rightarrow> nat \<Rightarrow> string \<Rightarrow> int list \<times> bool \<times> string" where
  "read_groups 0 i s = ([], False, s)"
| "read_groups (Suc left) i s =
     (case (if left \<ge> 1 then Option.bind (read_sep i s) read_ipv4 else None) of
        Some (w, rest) \<Rightarrow>
          ([octet w 0 * 256 + octet w 1, octet w 2 * 256 + octet w 3], True, rest)
      | None \<Rightarrow>
          (case Option.bind (read_sep i s) (read_number 16 4 True 65535) of
             None \<Rightarrow> ([], False, s)
           | Some (g, rest) \<Rightarrow>
               (let (gs, v4, rest') = read_groups left (i + 1) rest in (g # gs, v4, rest'))))"

definition word_of_groups :: "int list \<Rightarrow> 128 word" where
  "word_of_groups gs = word_of_int (foldl (\<lambda>acc g. acc * 65536 + g) 0 gs)"

definition read_ipv6 :: "string \<Rightarrow> (128 word \<times> string) option" where
  "read_ipv6 s =
     (let (head, v4, rest) = read_groups 8 0 s
      in if length head = 8 then Some (word_of_groups head, rest)
         else if v4 then None
         else Option.bind (read_char (CHR '':'') rest) (\<lambda>rest.
              Option.bind (read_char (CHR '':'') rest) (\<lambda>rest.
                (let (tail, _, rest') = read_groups (8 - (length head + 1)) 0 rest
                 in Some (word_of_groups
                            (head @ replicate (8 - length head - length tail) 0 @ tail),
                          rest')))))"

text \<open>\<open>str::parse::<IpAddr>()\<close>: IPv4 first, then IPv6, and the whole text.\<close>

definition parse_ip :: "string \<Rightarrow> ip_addr option" where
  "parse_ip s =
     (case read_ipv4 s of
        Some (w, rest) \<Rightarrow>
          (if rest = [] then Some (IpV4 w) else None)
      | None \<Rightarrow>
          (case read_ipv6 s of
             Some (v, rest) \<Rightarrow> if rest = [] then Some (IpV6 v) else None
           | None \<Rightarrow> None))"

text \<open>\<open>str::parse::<Ipv4Addr>()\<close>: at most 15 bytes.\<close>

definition parse_ipv4 :: "string \<Rightarrow> (32 word) option" where
  "parse_ipv4 s =
     (if length s > 15 then None
      else case read_ipv4 s of
             Some (w, rest) \<Rightarrow> if rest = [] then Some w else None
           | None \<Rightarrow> None)"

section \<open>Classification\<close>

definition ip_is_unspecified :: "ip_addr \<Rightarrow> bool" where
  "ip_is_unspecified a = (case a of IpV4 w \<Rightarrow> w = 0 | IpV6 v \<Rightarrow> v = 0)"

definition ip_is_loopback :: "ip_addr \<Rightarrow> bool" where
  "ip_is_loopback a = (case a of IpV4 w \<Rightarrow> octet w 0 = 127 | IpV6 v \<Rightarrow> v = 1)"

definition ip_is_multicast :: "ip_addr \<Rightarrow> bool" where
  "ip_is_multicast a =
     (case a of IpV4 w \<Rightarrow> 224 \<le> octet w 0 \<and> octet w 0 \<le> 239
      | IpV6 v \<Rightarrow> uint v div 2 ^ 120 = 255)"

definition ipv4_is_link_local :: "32 word \<Rightarrow> bool" where
  "ipv4_is_link_local w \<longleftrightarrow> octet w 0 = 169 \<and> octet w 1 = 254"

section \<open>Canonical text of IPv4 reads back\<close>

lemma octet_range: "0 \<le> octet w i \<and> octet w i < 256"
  by (simp add: octet_def)

lemma show_dec_octet:
  assumes "0 \<le> d" "d < 256"
  shows "show_dec d =
    (if d < 10 then [digit_char d]
     else if d < 100 then [digit_char (d div 10), digit_char (d mod 10)]
     else [digit_char (d div 100), digit_char (d div 10 mod 10), digit_char (d mod 10)])"
proof -
  have *: "d div 10 div 10 = d div 100" by (simp add: zdiv_zmult2_eq [symmetric])
  have "d div 10 < 10 \<longleftrightarrow> d < 100" "d div 100 < 10" using assms by linarith+
  with * show ?thesis
    using assms
    by (simp add: show_dec_def show_base.simps [of 10 d] show_base.simps [of 10 "d div 10"]
        show_base.simps [of 10 "d div 100"])
qed

definition no_digit_first :: "string \<Rightarrow> bool" where
  "no_digit_first s \<longleftrightarrow> (case s of [] \<Rightarrow> True | c # _ \<Rightarrow> to_digit 10 c = None)"

lemma read_digits_stop:
  "no_digit_first s \<Longrightarrow> read_digits 10 maxd maxv n acc s = Some (acc, n, s)"
  by (cases s) (auto simp: no_digit_first_def)

lemma digit_char_not_zero: "1 \<le> d \<Longrightarrow> d < 10 \<Longrightarrow> digit_char d \<noteq> CHR ''0''"
proof
  assume d: "1 \<le> d" "d < 10" and "digit_char d = CHR ''0''"
  then have "code_of (digit_char d) = 48" by (simp add: code_of_def)
  with d show False by (simp add: digit_char_def code_of_char_of)
qed

lemma read_octet_show:
  assumes "0 \<le> d" "d < 256" and s: "no_digit_first s"
  shows "read_octet (show_dec d @ s) = Some (d, s)"
proof -
  have *: "to_digit 10 (digit_char e) = Some e" if "0 \<le> e" "e < 10" for e
    using that by (simp add: to_digit_digit_char)
  have lead: "digit_char e \<noteq> CHR ''0''" if "1 \<le> e" "e < 10" for e
    using that by (rule digit_char_not_zero)
  have "d div 100 = d div 10 div 10" by (simp add: zdiv_zmult2_eq [symmetric])
  then have rec: "d div 100 * 10 + d div 10 mod 10 = d div 10" "d div 10 * 10 + d mod 10 = d"
    by simp_all
  consider "d < 10" | "10 \<le> d" "d < 100" | "100 \<le> d" by linarith
  then show ?thesis
  proof cases
    case 1
    with assms have e: "show_dec d = [digit_char d]" by (simp add: show_dec_octet)
    from 1 assms show ?thesis
      by (simp add: e read_octet_def read_number_def * read_digits_stop)
  next
    case 2
    with assms have e: "show_dec d = [digit_char (d div 10), digit_char (d mod 10)]"
      by (simp add: show_dec_octet)
    from 2 have "1 \<le> d div 10" "d div 10 < 10" by linarith+
    with assms rec show ?thesis
      by (simp add: e read_octet_def read_number_def * read_digits_stop starts_with_def lead)
  next
    case 3
    with assms have e: "show_dec d =
        [digit_char (d div 100), digit_char (d div 10 mod 10), digit_char (d mod 10)]"
      by (simp add: show_dec_octet)
    from 3 assms have "1 \<le> d div 100" "d div 100 < 10" "d div 10 \<le> 255" by linarith+
    with assms rec show ?thesis
      by (simp add: e read_octet_def read_number_def * read_digits_stop starts_with_def lead)
  qed
qed

lemma octets_compose: "word_of_octets (octet w 0) (octet w 1) (octet w 2) (octet w 3) = w"
proof -
  define n where "n = uint w"
  define a where "a = n div 256"
  define b where "b = a div 256"
  define c where "c = b div 256"
  have n: "0 \<le> n" "n < 4294967296"
    using uint_lt2p [of w] by (simp_all add: n_def)
  have o: "octet w 3 = n mod 256" "octet w 2 = a mod 256" "octet w 1 = b mod 256"
      "octet w 0 = c mod 256"
    by (simp_all add: octet_def n_def a_def b_def c_def zdiv_zmult2_eq [symmetric])
  have "c mod 256 = c" using n by (simp add: a_def b_def c_def zdiv_zmult2_eq [symmetric])
  moreover have "c * 256 + b mod 256 = b" unfolding c_def by (rule div_mult_mod_eq)
  moreover have "b * 256 + a mod 256 = a" unfolding b_def by (rule div_mult_mod_eq)
  moreover have "a * 256 + n mod 256 = n" unfolding a_def by (rule div_mult_mod_eq)
  ultimately show ?thesis by (simp only: word_of_octets_def o) (simp add: n_def)
qed

lemma read_ipv4_show: "no_digit_first s \<Longrightarrow> read_ipv4 (show_ipv4 w @ s) = Some (w, s)"
proof -
  assume s: "no_digit_first s"
  have dot: "no_digit_first (CHR ''.'' # t)" for t
    by (simp add: no_digit_first_def to_digit_def is_ascii_digit_def is_ascii_lower_def
        is_ascii_upper_def code_of_def)
  have o: "read_octet (show_dec (octet w i) @ t) = Some (octet w i, t)"
    if "no_digit_first t" for i t
    using octet_range [of w i] that by (intro read_octet_show) auto
  show ?thesis
    by (simp add: show_ipv4_def read_ipv4_def o dot s read_char_def octets_compose [simplified])
qed

text \<open>Reading back the canonical text of an IPv4 address gives the address.\<close>

lemma parse_show_ipv4: "parse_ip (show_ip (IpV4 w)) = Some (IpV4 w)"
  using read_ipv4_show [of "[]" w] by (simp add: show_ip_def parse_ip_def no_digit_first_def)

lemma length_show_dec_octet: "0 \<le> d \<Longrightarrow> d < 256 \<Longrightarrow> length (show_dec d) \<le> 3"
  by (simp add: show_dec_octet)

lemma parse_ipv4_show: "parse_ipv4 (show_ipv4 w) = Some w"
proof -
  have "length (show_dec (octet w i)) \<le> 3" for i
    using octet_range [of w i] by (intro length_show_dec_octet) auto
  from this [of 0] this [of 1] this [of 2] this [of 3] have "length (show_ipv4 w) \<le> 15"
    by (simp add: show_ipv4_def)
  with read_ipv4_show [of "[]" w] show ?thesis
    by (simp add: parse_ipv4_def no_digit_first_def)
qed

end
