(* ===== verification/Guest_Commands.thy ===== *)
theory Guest_Commands
  imports Ip_Text
begin

text \<open>
  \<open>guest-tools/crates/protocol/src/lib.rs\<close>, the messages: the closed set of commands the host
  may send to the agent of a VM, the data a response may carry, the errors of the protocol,
  and the validation that the sender and the receiver both run. Base64 comes from a
  third-party crate; the two decoders the file uses are fields of the record \<open>base64_lib\<close>.
\<close>

datatype protocol_error =
    WeakSecret
  | UnsupportedVersion u16
  | InvalidEnvelope string
  | InvalidCommand string
  | Authentication
  | Encryption
  | Expired
  | Replay
  | FrameTooLarge nat
  | ProtocolIo string
  | ProtocolJson string

record network_address =
  na_address :: ip_addr
  na_prefix :: u8

datatype guest_command =
    Ping
  | Health
  | SetPassword string string
  | SetHostname string
  | SetDns "string option" "ip_addr list"
  | SetNetwork "string option" "network_address list" "ip_addr list" "ip_addr list"
  | SetSshKeys string "string list"
  | Shutdown
  | Reboot

definition command_kind :: "guest_command \<Rightarrow> string" where
  "command_kind c = (case c of
     Ping \<Rightarrow> ''ping'' | Health \<Rightarrow> ''health'' | SetPassword _ _ \<Rightarrow> ''set_password''
   | SetHostname _ \<Rightarrow> ''set_hostname'' | SetDns _ _ \<Rightarrow> ''set_dns''
   | SetNetwork _ _ _ _ \<Rightarrow> ''set_network'' | SetSshKeys _ _ \<Rightarrow> ''set_ssh_keys''
   | Shutdown \<Rightarrow> ''shutdown'' | Reboot \<Rightarrow> ''reboot'')"

datatype response_data =
    Pong string
  | HealthReport string string string u64 "string list"
  | ActionDone bool bool string

record error_body =
  eb_code :: string
  eb_message :: string

text \<open>\<open>STANDARD_NO_PAD\<close> and \<open>STANDARD\<close> of the base64 crate.\<close>

record base64_lib =
  b64_encode :: "string \<Rightarrow> string"
  b64_decode :: "string \<Rightarrow> string option"
  b64_decode_padded :: "string \<Rightarrow> string option"

section \<open>Validation of commands\<close>

definition name_char :: "char \<Rightarrow> bool" where
  "name_char c \<longleftrightarrow> is_ascii_alnum c \<or> c \<in> set ''-_.''"

definition validate_username :: "string \<Rightarrow> protocol_error + unit" where
  "validate_username u =
     require (\<not> (u = [] \<or> 64 < length u \<or> starts_with u ''-'' \<or> \<not> list_all name_char u))
       (InvalidCommand ''only a local username may be used'')"

definition bad_label :: "string \<Rightarrow> bool" where
  "bad_label l \<longleftrightarrow> l = [] \<or> 63 < length l \<or> starts_with l ''-'' \<or> ends_with l ''-''
     \<or> \<not> list_all (\<lambda>c. is_ascii_alnum c \<or> c = CHR ''-'') l"

definition validate_hostname :: "string \<Rightarrow> protocol_error + unit" where
  "validate_hostname h =
     and_then (require (\<not> (h = [] \<or> 253 < length h)) (InvalidCommand ''hostname is invalid''))
       (\<lambda>_. check_all (\<lambda>l. require (\<not> bad_label l) (InvalidCommand ''hostname is invalid''))
               (split_on (CHR ''.'') h))"

text \<open>NUL, carriage return and line feed.\<close>

definition line_char :: "char \<Rightarrow> bool" where
  "line_char c \<longleftrightarrow> c = CHR 0x00 \<or> c = CHR 0x0D \<or> c = CHR 0x0A"

definition bad_interface :: "string \<Rightarrow> bool" where
  "bad_interface i \<longleftrightarrow> i = [] \<or> 128 < length i \<or> has_control i"

definition validate_interface :: "string option \<Rightarrow> protocol_error + unit" where
  "validate_interface i = (case i of None \<Rightarrow> Inr ()
     | Some n \<Rightarrow> require (\<not> bad_interface n) (InvalidCommand ''interface name is invalid''))"

text \<open>The kinds of SSH keys: \<open>parts.next().unwrap_or_default()\<close> twice.\<close>

definition nth_word :: "nat \<Rightarrow> string \<Rightarrow> string" where
  "nth_word n s = (case drop n (split_whitespace s) of [] \<Rightarrow> [] | w # _ \<Rightarrow> w)"

definition validate_ssh_key :: "('l) base64_lib_scheme \<Rightarrow> string \<Rightarrow> protocol_error + unit" where
  "validate_ssh_key lib key =
     and_then (require (\<not> (key = [] \<or> 16 * 1024 < length key \<or> list_ex line_char key))
       (InvalidCommand ''SSH key is invalid''))
     (\<lambda>_. let kind = nth_word 0 key; encoded = nth_word 1 key;
              supported = (kind = ''ssh-ed25519'' \<or> kind = ''ssh-rsa''
                \<or> starts_with kind ''ecdsa-sha2-'' \<or> starts_with kind ''sk-ssh-''
                \<or> starts_with kind ''sk-ecdsa-'')
          in require (\<not> (\<not> supported \<or> 12 * 1024 < length encoded
                \<or> (b64_decode lib encoded = None \<and> b64_decode_padded lib encoded = None)))
               (InvalidCommand ''SSH key type or encoding is invalid''))"

text \<open>
  The address loop of \<open>SetNetwork\<close>; the set \<open>seen\<close> holds the pairs inserted so far, and a
  pair is inserted only when the earlier tests of the condition let it through.
\<close>

fun bad_addresses :: "(ip_addr \<times> u8) set \<Rightarrow> network_address list \<Rightarrow> bool" where
  "bad_addresses seen [] = False"
| "bad_addresses seen (item # items) =
     (let a = na_address item; p = na_prefix item;
          maximum = (if is_ipv4 a then 32 else 128)
      in if maximum < p \<or> ip_is_unspecified a \<or> ip_is_loopback a \<or> ip_is_multicast a
            \<or> (a, p) \<in> seen
         then True else bad_addresses (insert (a, p) seen) items)"

fun bad_gateways :: "bool set \<Rightarrow> ip_addr list \<Rightarrow> bool" where
  "bad_gateways families [] = False"
| "bad_gateways families (g # gs) =
     (if ip_is_unspecified g \<or> ip_is_loopback g \<or> ip_is_multicast g \<or> is_ipv4 g \<in> families
      then True else bad_gateways (insert (is_ipv4 g) families) gs)"

definition validate_set_network ::
  "string option \<Rightarrow> network_address list \<Rightarrow> ip_addr list \<Rightarrow> ip_addr list \<Rightarrow> protocol_error + unit" where
  "validate_set_network interface addresses gateways dns =
     and_then (validate_interface interface) (\<lambda>_.
     and_then (require (\<not> 64 < length addresses)
       (InvalidCommand ''at most 64 network addresses are accepted'')) (\<lambda>_.
     and_then (require (\<not> bad_addresses {} addresses)
       (InvalidCommand ''network address or prefix is invalid or duplicated'')) (\<lambda>_.
     and_then (require (\<not> (2 < length gateways \<or> 8 < length dns))
       (InvalidCommand ''at most one gateway per family and 8 DNS servers are accepted'')) (\<lambda>_.
     and_then (require (\<not> bad_gateways {} gateways)
       (InvalidCommand ''gateway is invalid or duplicated for its address family'')) (\<lambda>_.
     require (\<not> list_ex (\<lambda>a. ip_is_unspecified a \<or> ip_is_loopback a \<or> ip_is_multicast a) dns)
       (InvalidCommand ''DNS address is invalid''))))))"

definition validate_command :: "('l) base64_lib_scheme \<Rightarrow> guest_command \<Rightarrow> protocol_error + unit" where
  "validate_command lib c = (case c of
     Ping \<Rightarrow> Inr () | Health \<Rightarrow> Inr () | Shutdown \<Rightarrow> Inr () | Reboot \<Rightarrow> Inr ()
   | SetPassword u p \<Rightarrow>
       and_then (validate_username u) (\<lambda>_.
       and_then (require (\<not> (p = [] \<or> 1024 < length p))
         (InvalidCommand ''password must contain between 1 and 1024 bytes'')) (\<lambda>_.
       require (\<not> list_ex line_char p)
         (InvalidCommand ''password contains an unsupported control character'')))
   | SetHostname h \<Rightarrow> validate_hostname h
   | SetDns interface servers \<Rightarrow>
       and_then (validate_interface interface) (\<lambda>_.
       and_then (require (\<not> (servers = [] \<or> 8 < length servers))
         (InvalidCommand ''between 1 and 8 DNS servers are required'')) (\<lambda>_.
       require (\<not> list_ex ip_is_unspecified servers)
         (InvalidCommand ''unspecified DNS addresses are not accepted'')))
   | SetNetwork interface addresses gateways dns \<Rightarrow>
       validate_set_network interface addresses gateways dns
   | SetSshKeys u keys \<Rightarrow>
       and_then (validate_username u) (\<lambda>_.
       and_then (require (\<not> 64 < length keys)
         (InvalidCommand ''at most 64 SSH keys may be installed'')) (\<lambda>_.
       check_all (validate_ssh_key lib) keys)))"

section \<open>Validation of responses\<close>

definition validate_response_text ::
  "string \<Rightarrow> string \<Rightarrow> nat \<Rightarrow> bool \<Rightarrow> protocol_error + unit" where
  "validate_response_text label value maximum allow_empty =
     require (\<not> ((\<not> allow_empty \<and> value = []) \<or> maximum < length value \<or> has_control value))
       (InvalidEnvelope (label @ '' is invalid''))"

definition validate_response_data :: "response_data \<Rightarrow> protocol_error + unit" where
  "validate_response_data d = (case d of
     Pong v \<Rightarrow> validate_response_text ''agent version'' v 64 False
   | HealthReport v os host _ caps \<Rightarrow>
       and_then (validate_response_text ''agent version'' v 64 False) (\<lambda>_.
       and_then (validate_response_text ''operating system'' os 256 False) (\<lambda>_.
       and_then (validate_response_text ''reported hostname'' host 253 False) (\<lambda>_.
       and_then (require (\<not> 64 < length caps) (InvalidEnvelope ''too many reported capabilities''))
       (\<lambda>_. check_all (\<lambda>c. validate_response_text ''capability'' c 64 False) caps))))
   | ActionDone _ _ m \<Rightarrow> validate_response_text ''action message'' m 1024 True)"

definition error_code_char :: "char \<Rightarrow> bool" where
  "error_code_char c \<longleftrightarrow> is_ascii_lower c \<or> is_ascii_digit c \<or> c \<in> set ''_-.''"

definition validate_error_body :: "error_body \<Rightarrow> protocol_error + unit" where
  "validate_error_body e =
     and_then (require (\<not> (eb_code e = [] \<or> 64 < length (eb_code e)
         \<or> \<not> list_all error_code_char (eb_code e)))
       (InvalidEnvelope ''response error code is invalid''))
     (\<lambda>_. validate_response_text ''response error message'' (eb_message e) 1024 True)"

text \<open>The table of the response data that answers each command.\<close>

fun matches_command :: "guest_command \<Rightarrow> response_data \<Rightarrow> bool" where
  "matches_command Ping d = (case d of Pong _ \<Rightarrow> True | _ \<Rightarrow> False)"
| "matches_command Health d = (case d of HealthReport _ _ _ _ _ \<Rightarrow> True | _ \<Rightarrow> False)"
| "matches_command (SetPassword _ _) d = (case d of ActionDone _ _ _ \<Rightarrow> True | _ \<Rightarrow> False)"
| "matches_command (SetHostname _) d = (case d of ActionDone _ _ _ \<Rightarrow> True | _ \<Rightarrow> False)"
| "matches_command (SetDns _ _) d = (case d of ActionDone _ _ _ \<Rightarrow> True | _ \<Rightarrow> False)"
| "matches_command (SetNetwork _ _ _ _) d = (case d of ActionDone _ _ _ \<Rightarrow> True | _ \<Rightarrow> False)"
| "matches_command (SetSshKeys _ _) d = (case d of ActionDone _ _ _ \<Rightarrow> True | _ \<Rightarrow> False)"
| "matches_command Shutdown d = (case d of ActionDone _ _ _ \<Rightarrow> True | _ \<Rightarrow> False)"
| "matches_command Reboot d = (case d of ActionDone _ _ _ \<Rightarrow> True | _ \<Rightarrow> False)"

section \<open>What validation guarantees to the agent\<close>

text \<open>
  The standard input the Linux agent gives to \<open>chpasswd\<close>
  (\<open>platform/linux.rs\<close>, \<open>set_password\<close>): one line per account to change.
\<close>

definition chpasswd_input :: "string \<Rightarrow> string \<Rightarrow> string" where
  "chpasswd_input u p = u @ '':'' @ p @ [CHR 0x0A]"

lemma name_char_plain:
  "name_char c \<Longrightarrow> c \<noteq> CHR '':'' \<and> c \<noteq> CHR ''/'' \<and> c \<noteq> CHR '' '' \<and> \<not> line_char c"
  by (auto simp: name_char_def is_ascii_alnum_def is_ascii_digit_def is_ascii_upper_def
      is_ascii_lower_def line_char_def code_of_def)

lemma username_chars:
  "validate_username u = Inr () \<Longrightarrow> c \<in> set u \<Longrightarrow> c \<noteq> CHR '':'' \<and> c \<noteq> CHR ''/'' \<and> \<not> line_char c"
  using name_char_plain [of c] by (auto simp: validate_username_def list_all_iff)

lemma split_once_append: "c \<notin> set a \<Longrightarrow> split_once c (a @ c # b) = Some (a, b)"
  by (induction a) auto

lemma split_on_single: "c \<notin> set s \<Longrightarrow> split_on c s = [s]"
  by (induction s) auto

lemma split_on_last: "c \<notin> set s \<Longrightarrow> split_on c (s @ [c]) = [s, []]"
  by (induction s) auto

text \<open>
  A validated password command cannot inject into the account database: the input of
  \<open>chpasswd\<close> is exactly one line, which splits at its first colon into the user name and the
  password of the command, and the user name cannot be read as an option or a path.
\<close>

theorem set_password_no_injection:
  assumes "validate_command lib (SetPassword u p) = Inr ()"
  shows "split_on (CHR 0x0A) (chpasswd_input u p) = [u @ '':'' @ p, []]
    \<and> split_once (CHR '':'') (u @ '':'' @ p) = Some (u, p)
    \<and> u \<noteq> [] \<and> hd u \<noteq> CHR ''-'' \<and> CHR ''/'' \<notin> set u"
proof -
  have u: "validate_username u = Inr ()" and p: "\<not> list_ex line_char p"
    using assms by (auto simp: validate_command_def result_simps)
  have nl: "CHR 0x0A \<notin> set (u @ '':'' @ p)"
    using p username_chars [OF u] by (auto simp: list_ex_iff line_char_def)
  have "split_on (CHR 0x0A) ((u @ '':'' @ p) @ [CHR 0x0A]) = [u @ '':'' @ p, []]"
    by (rule split_on_last [OF nl])
  moreover have "split_once (CHR '':'') (u @ '':'' @ p) = Some (u, p)"
    using username_chars [OF u] split_once_append [of "CHR '':''" u p] by fastforce
  moreover have "u \<noteq> [] \<and> hd u \<noteq> CHR ''-'' \<and> CHR ''/'' \<notin> set u"
    using u username_chars [OF u] by (cases u) (auto simp: validate_username_def starts_with_def)
  ultimately show ?thesis by (simp add: chpasswd_input_def)
qed

text \<open>A stand-in for the base64 crate: the identity on byte strings.\<close>

definition plain_base64 :: base64_lib where
  "plain_base64 = \<lparr>b64_encode = (\<lambda>s. s), b64_decode = Some, b64_decode_padded = Some\<rparr>"

lemma set_password_no_injection_witness:
  "split_on (CHR 0x0A) (chpasswd_input ''root'' ''a:b'') = [''root:a:b'', []]"
  using set_password_no_injection [of plain_base64 "''root''" "''a:b''"]
  by (simp add: validate_command_def validate_username_def name_char_def line_char_def
      is_ascii_alnum_def is_ascii_digit_def is_ascii_upper_def is_ascii_lower_def code_of_def
      starts_with_def)

lemma bad_addresses_seen:
  "\<not> bad_addresses seen items \<Longrightarrow>
   distinct (map (\<lambda>i. (na_address i, na_prefix i)) items)
   \<and> (\<forall>i \<in> set items. (na_address i, na_prefix i) \<notin> seen
        \<and> na_prefix i \<le> (if is_ipv4 (na_address i) then 32 else 128)
        \<and> \<not> ip_is_unspecified (na_address i) \<and> \<not> ip_is_loopback (na_address i)
        \<and> \<not> ip_is_multicast (na_address i))"
proof (induction items arbitrary: seen)
  case Nil
  then show ?case by simp
next
  case (Cons i items)
  from Cons.prems have ok: "\<not> bad_addresses (insert (na_address i, na_prefix i) seen) items"
    by (auto simp: Let_def split: if_splits)
  show ?case using Cons.IH [OF ok] Cons.prems
    by (auto simp: Let_def not_less split: if_splits)
qed

lemma bad_gateways_families:
  "\<not> bad_gateways fs gs \<Longrightarrow> distinct (map is_ipv4 gs) \<and> is_ipv4 ` set gs \<inter> fs = {}"
  by (induction gs arbitrary: fs) (auto split: if_splits)

text \<open>
  A validated network command is a usable configuration: at most 64 distinct
  address/prefix pairs, every prefix within its family, no unspecified, loopback or
  multicast address, and at most one gateway per address family.
\<close>

theorem set_network_well_formed:
  assumes "validate_command lib (SetNetwork i addrs gws dns) = Inr ()"
  shows "length addrs \<le> 64 \<and> distinct (map (\<lambda>a. (na_address a, na_prefix a)) addrs)
    \<and> (\<forall>a \<in> set addrs. unat (na_prefix a) \<le> (if is_ipv4 (na_address a) then 32 else 128)
         \<and> \<not> ip_is_unspecified (na_address a) \<and> \<not> ip_is_loopback (na_address a)
         \<and> \<not> ip_is_multicast (na_address a))
    \<and> count_where is_ipv4 gws \<le> 1 \<and> count_where (\<lambda>g. \<not> is_ipv4 g) gws \<le> 1 \<and> length dns \<le> 8"
proof -
  have a: "\<not> bad_addresses {} addrs" and g: "\<not> bad_gateways {} gws"
    and n: "length addrs \<le> 64" "length gws \<le> 2" "length dns \<le> 8"
    using assms by (auto simp: validate_command_def validate_set_network_def result_simps)
  have "distinct (map is_ipv4 gws)" using bad_gateways_families [OF g] by simp
  then have "count_where is_ipv4 gws \<le> 1 \<and> count_where (\<lambda>g. \<not> is_ipv4 g) gws \<le> 1"
    by (induction gws) (auto simp: count_where_0 table_simps not_le)
  moreover have "unat p \<le> 32" if "p \<le> 32" for p :: u8
    using that by (simp add: word_le_nat_alt)
  moreover have "unat p \<le> 128" if "p \<le> 128" for p :: u8
    using that by (simp add: word_le_nat_alt)
  ultimately show ?thesis using bad_addresses_seen [OF a] n by fastforce
qed

lemma set_network_well_formed_witness:
  "count_where is_ipv4 [IpV4 0x0A000001] \<le> 1"
  using set_network_well_formed [of plain_base64 "Some ''eth0''"
      "[\<lparr>na_address = IpV4 0x0A000005, na_prefix = 24\<rparr>, \<lparr>na_address = IpV6 0xFD00, na_prefix = 128\<rparr>]"
      "[IpV4 0x0A000001]" "[]"]
  by (simp add: validate_command_def validate_set_network_def validate_interface_def
      bad_interface_def code_of_def ip_is_unspecified_def ip_is_loopback_def ip_is_multicast_def
      octet_def)

end
