(* ===== verification/Guest_Protocol.thy ===== *)
theory Guest_Protocol
  imports Guest_Commands
begin

text \<open>
  \<open>guest-tools/crates/protocol/src/lib.rs\<close>, the channel: signed and encrypted requests and
  responses, the replay cache of the agent and the length-prefixed frames. HMAC-SHA-256,
  SHA-256, AES-256-GCM, base64 and the JSON (de)serialisers derived by serde are third-party
  code: they are fields of the record \<open>guest_lib\<close>. A Rust \<open>&mut self\<close> is the state returned
  beside the result, since a failing call keeps what it has already changed.
\<close>

record unsigned_request =
  ur_version :: u16
  ur_request_id :: string
  ur_sent_at :: timestamp
  ur_nonce :: string
  ur_encrypted :: string

record request_aad =
  qa_version :: u16
  qa_request_id :: string
  qa_sent_at :: timestamp
  qa_nonce :: string

record unsigned_response =
  us_version :: u16
  us_request_id :: string
  us_sent_at :: timestamp
  us_nonce :: string
  us_ok :: bool
  us_encrypted :: string

record response_aad =
  sa_version :: u16
  sa_request_id :: string
  sa_sent_at :: timestamp
  sa_nonce :: string
  sa_ok :: bool

record response_payload =
  pl_data :: "response_data option"
  pl_error :: "error_body option"

text \<open>
  Serialisers return the JSON bytes, parsers the value or the text of the error. The keys and
  nonces of AES-GCM have the lengths the source gives them, so setting up a cipher or a MAC
  does not fail; \<open>gcm_encrypt\<close> is \<open>None\<close> where the crate reports an error.
\<close>

record guest_lib = base64_lib +
  hmac_sha256 :: "string \<Rightarrow> string \<Rightarrow> string"
  sha256 :: "string \<Rightarrow> string"
  gcm_encrypt :: "string \<Rightarrow> string \<Rightarrow> string \<Rightarrow> string \<Rightarrow> string option"
  gcm_decrypt :: "string \<Rightarrow> string \<Rightarrow> string \<Rightarrow> string \<Rightarrow> string option"
  json_command :: "guest_command \<Rightarrow> string"
  parse_command :: "string \<Rightarrow> string + guest_command"
  json_payload :: "response_payload \<Rightarrow> string"
  parse_payload :: "string \<Rightarrow> string + response_payload"
  json_unsigned_request :: "unsigned_request \<Rightarrow> string"
  json_request_aad :: "request_aad \<Rightarrow> string"
  json_unsigned_response :: "unsigned_response \<Rightarrow> string"
  json_response_aad :: "response_aad \<Rightarrow> string"

text \<open>Documented behaviour of base64 and AES-GCM: decoding and decryption undo their inverse.\<close>

definition crypto_round_trip :: "guest_lib \<Rightarrow> bool" where
  "crypto_round_trip lib \<longleftrightarrow>
     (\<forall>s. b64_decode lib (b64_encode lib s) = Some s) \<and>
     (\<forall>k n a m c. gcm_encrypt lib k n a m = Some c \<longrightarrow> gcm_decrypt lib k n a c = Some m)"

definition protocol_version :: u16 where
  "protocol_version = 2"

definition max_frame_bytes :: nat where
  "max_frame_bytes = 64 * 1024"

definition request_domain :: string where
  "request_domain = ''VEXA-GUEST-REQUEST-V2'' @ [CHR 0x00]"

definition response_domain :: string where
  "response_domain = ''VEXA-GUEST-RESPONSE-V2'' @ [CHR 0x00]"

definition request_enc_domain :: string where
  "request_enc_domain = ''VEXA-GUEST-REQUEST-ENC-V2'' @ [CHR 0x00]"

definition response_enc_domain :: string where
  "response_enc_domain = ''VEXA-GUEST-RESPONSE-ENC-V2'' @ [CHR 0x00]"

section \<open>Keys, encryption and signatures\<close>

definition require_strong_secret :: "string \<Rightarrow> protocol_error + unit" where
  "require_strong_secret secret = require (\<not> length secret < 32) WeakSecret"

text \<open>A nonce as the envelope and the key derivation accept it.\<close>

definition decode_nonce :: "('l) base64_lib_scheme \<Rightarrow> string \<Rightarrow> protocol_error + string" where
  "decode_nonce lib encoded =
     and_then (ok_or (b64_decode lib encoded) (InvalidEnvelope ''nonce is not base64'')) (\<lambda>n.
     and_then (require (16 \<le> length n \<and> length n \<le> 64)
       (InvalidEnvelope ''nonce must decode to 16 through 64 bytes'')) (\<lambda>_. Inr n))"

definition encryption_material ::
  "guest_lib \<Rightarrow> string \<Rightarrow> string \<Rightarrow> string \<Rightarrow> protocol_error + (string \<times> string)" where
  "encryption_material lib domain encoded_nonce secret =
     and_then (decode_nonce lib encoded_nonce) (\<lambda>n.
       Inr (hmac_sha256 lib secret (domain @ ''key''),
            take 12 (sha256 lib (domain @ ''nonce'' @ n))))"

definition associated_data :: "string \<Rightarrow> string \<Rightarrow> string" where
  "associated_data domain encoded = domain @ encoded"

definition encrypt_json ::
  "guest_lib \<Rightarrow> string \<Rightarrow> string \<Rightarrow> string \<Rightarrow> string \<Rightarrow> string \<Rightarrow> protocol_error + string" where
  "encrypt_json lib domain encoded_nonce aad plaintext secret =
     and_then (require_strong_secret secret) (\<lambda>_.
     and_then (encryption_material lib domain encoded_nonce secret) (\<lambda>(key, nonce).
     and_then (ok_or (gcm_encrypt lib key nonce (associated_data domain aad) plaintext) Encryption)
     (\<lambda>c. Inr (b64_encode lib c))))"

text \<open>\<open>STANDARD_NO_PAD.decode(v).or_else(|_| STANDARD.decode(v))\<close>.\<close>

definition decode_either :: "('l) base64_lib_scheme \<Rightarrow> string \<Rightarrow> string option" where
  "decode_either lib v = (case b64_decode lib v of Some x \<Rightarrow> Some x | None \<Rightarrow> b64_decode_padded lib v)"

definition decrypt_json ::
  "guest_lib \<Rightarrow> string \<Rightarrow> string \<Rightarrow> string \<Rightarrow> string \<Rightarrow> string \<Rightarrow> (string \<Rightarrow> string + 'a)
    \<Rightarrow> protocol_error + 'a" where
  "decrypt_json lib domain encoded_nonce aad encoded secret parse =
     and_then (require_strong_secret secret) (\<lambda>_.
     and_then (ok_or (decode_either lib encoded) (InvalidEnvelope ''ciphertext is not base64'')) (\<lambda>c.
     and_then (encryption_material lib domain encoded_nonce secret) (\<lambda>(key, nonce).
     and_then (ok_or (gcm_decrypt lib key nonce (associated_data domain aad) c) Authentication) (\<lambda>m.
     map_err ProtocolJson (parse m)))))"

definition validate_ciphertext ::
  "('l) base64_lib_scheme \<Rightarrow> string \<Rightarrow> string \<Rightarrow> protocol_error + unit" where
  "validate_ciphertext lib v label =
     and_then (require (\<not> (v = [] \<or> max_frame_bytes * 2 < length v))
       (InvalidEnvelope (label @ '' ciphertext has an invalid size''))) (\<lambda>_.
     and_then (ok_or (decode_either lib v) (InvalidEnvelope (label @ '' ciphertext is not base64'')))
     (\<lambda>d. require (\<not> (length d < 16 \<or> max_frame_bytes < length d))
            (InvalidEnvelope (label @ '' ciphertext has an invalid size''))))"

definition sign_json :: "guest_lib \<Rightarrow> string \<Rightarrow> string \<Rightarrow> string \<Rightarrow> string" where
  "sign_json lib domain payload secret = b64_encode lib (hmac_sha256 lib secret (domain @ payload))"

definition verify_json ::
  "guest_lib \<Rightarrow> string \<Rightarrow> string \<Rightarrow> string \<Rightarrow> string \<Rightarrow> protocol_error + unit" where
  "verify_json lib domain payload secret signature =
     and_then (ok_or (b64_decode lib signature) Authentication) (\<lambda>s.
       require (s = hmac_sha256 lib secret (domain @ payload)) Authentication)"

section \<open>The replay cache\<close>

record replay_cache =
  rc_capacity :: nat
  rc_seen :: "string set"
  rc_order :: "(timestamp \<times> string) list"

definition replay_cache_new :: "nat \<Rightarrow> replay_cache" where
  "replay_cache_new capacity = \<lparr>rc_capacity = max capacity 1, rc_seen = {}, rc_order = []\<rparr>"

text \<open>The loop that drops entries from the front of the queue.\<close>

fun evict :: "nat \<Rightarrow> int \<Rightarrow> timestamp \<Rightarrow> string set \<Rightarrow> (timestamp \<times> string) list
    \<Rightarrow> string set \<times> (timestamp \<times> string) list" where
  "evict capacity age now seen [] = (seen, [])"
| "evict capacity age now seen ((t, k) # q) =
     (if now \<le> sat_add t age \<and> Suc (length q) < capacity then (seen, (t, k) # q)
      else evict capacity age now (seen - {k}) q)"

definition replay_key :: "string \<Rightarrow> string \<Rightarrow> string" where
  "replay_key request_id nonce = request_id @ '':'' @ nonce"

definition cache_accept ::
  "replay_cache \<Rightarrow> string \<Rightarrow> string \<Rightarrow> timestamp \<Rightarrow> nat \<Rightarrow> replay_cache \<times> (protocol_error + unit)" where
  "cache_accept cache request_id nonce now max_age =
     (let (seen, q) = evict (rc_capacity cache) (min (int max_age) i64_max) now
                        (rc_seen cache) (rc_order cache);
          key = replay_key request_id nonce
      in if key \<in> seen then (cache\<lparr>rc_seen := seen, rc_order := q\<rparr>, Inl Replay)
         else (cache\<lparr>rc_seen := insert key seen, rc_order := q @ [(now, key)]\<rparr>, Inr ()))"

section \<open>Requests\<close>

record guest_request =
  rq_version :: u16
  rq_id :: string
  rq_sent_at :: timestamp
  rq_nonce :: string
  rq_encrypted :: string
  rq_signature :: string

definition unsigned_of_request :: "guest_request \<Rightarrow> unsigned_request" where
  "unsigned_of_request r = \<lparr>ur_version = rq_version r, ur_request_id = rq_id r,
     ur_sent_at = rq_sent_at r, ur_nonce = rq_nonce r, ur_encrypted = rq_encrypted r\<rparr>"

definition aad_of_request :: "guest_request \<Rightarrow> request_aad" where
  "aad_of_request r = \<lparr>qa_version = rq_version r, qa_request_id = rq_id r,
     qa_sent_at = rq_sent_at r, qa_nonce = rq_nonce r\<rparr>"

definition id_char :: "char \<Rightarrow> bool" where
  "id_char c \<longleftrightarrow> is_ascii_alnum c \<or> c \<in> set ''-_''"

definition validate_envelope :: "('l) base64_lib_scheme \<Rightarrow> guest_request \<Rightarrow> protocol_error + unit" where
  "validate_envelope lib r =
     and_then (require (rq_version r = protocol_version) (UnsupportedVersion (rq_version r))) (\<lambda>_.
     and_then (require (\<not> (rq_id r = [] \<or> 128 < length (rq_id r) \<or> \<not> list_all id_char (rq_id r)))
       (InvalidEnvelope ''invalid request_id'')) (\<lambda>_.
     and_then (decode_nonce lib (rq_nonce r)) (\<lambda>_. Inr ())))"

definition request_signed ::
  "guest_lib \<Rightarrow> string \<Rightarrow> timestamp \<Rightarrow> string \<Rightarrow> guest_command \<Rightarrow> string
    \<Rightarrow> protocol_error + guest_request" where
  "request_signed lib request_id sent_at nonce command secret =
     and_then (require_strong_secret secret) (\<lambda>_.
     and_then (validate_command lib command) (\<lambda>_.
       let r = \<lparr>rq_version = protocol_version, rq_id = request_id, rq_sent_at = sent_at,
                rq_nonce = nonce, rq_encrypted = [], rq_signature = []\<rparr> in
     and_then (validate_envelope lib r) (\<lambda>_.
     and_then (encrypt_json lib request_enc_domain nonce
         (json_request_aad lib (aad_of_request r)) (json_command lib command) secret) (\<lambda>c.
       let r = r\<lparr>rq_encrypted := c\<rparr> in
     and_then (validate_ciphertext lib c ''request'') (\<lambda>_.
       Inr (r\<lparr>rq_signature := sign_json lib request_domain
              (json_unsigned_request lib (unsigned_of_request r)) secret\<rparr>))))))"

text \<open>The checks before the replay cache is touched.\<close>

definition authenticate_request ::
  "guest_lib \<Rightarrow> guest_request \<Rightarrow> string \<Rightarrow> timestamp \<Rightarrow> nat \<Rightarrow> protocol_error + unit" where
  "authenticate_request lib r secret now max_skew =
     and_then (require_strong_secret secret) (\<lambda>_.
     and_then (validate_envelope lib r) (\<lambda>_.
     and_then (validate_ciphertext lib (rq_encrypted r) ''request'') (\<lambda>_.
     and_then (require (\<not> int max_skew < \<bar>rq_sent_at r - now\<bar>) Expired) (\<lambda>_.
     verify_json lib request_domain (json_unsigned_request lib (unsigned_of_request r)) secret
       (rq_signature r)))))"

definition verify_request ::
  "guest_lib \<Rightarrow> guest_request \<Rightarrow> string \<Rightarrow> timestamp \<Rightarrow> nat \<Rightarrow> replay_cache
    \<Rightarrow> replay_cache \<times> (protocol_error + guest_command)" where
  "verify_request lib r secret now max_skew cache =
     (case authenticate_request lib r secret now max_skew of
        Inl e \<Rightarrow> (cache, Inl e)
      | Inr _ \<Rightarrow>
          (let (cache', accepted) = cache_accept cache (rq_id r) (rq_nonce r) now max_skew
           in (cache',
               and_then accepted (\<lambda>_.
               and_then (decrypt_json lib request_enc_domain (rq_nonce r)
                   (json_request_aad lib (aad_of_request r)) (rq_encrypted r) secret
                   (parse_command lib)) (\<lambda>c.
               and_then (validate_command lib c) (\<lambda>_. Inr c))))))"

section \<open>Responses\<close>

record guest_response =
  rs_version :: u16
  rs_id :: string
  rs_sent_at :: timestamp
  rs_nonce :: string
  rs_ok :: bool
  rs_encrypted :: string
  rs_signature :: string

definition unsigned_of_response :: "guest_response \<Rightarrow> unsigned_response" where
  "unsigned_of_response r = \<lparr>us_version = rs_version r, us_request_id = rs_id r,
     us_sent_at = rs_sent_at r, us_nonce = rs_nonce r, us_ok = rs_ok r,
     us_encrypted = rs_encrypted r\<rparr>"

definition aad_of_response :: "guest_response \<Rightarrow> response_aad" where
  "aad_of_response r = \<lparr>sa_version = rs_version r, sa_request_id = rs_id r,
     sa_sent_at = rs_sent_at r, sa_nonce = rs_nonce r, sa_ok = rs_ok r\<rparr>"

definition inconsistent_result :: "bool \<Rightarrow> 'a option \<Rightarrow> 'b option \<Rightarrow> bool" where
  "inconsistent_result ok data err \<longleftrightarrow> ok = (err \<noteq> None) \<or> ok \<noteq> (data \<noteq> None)"

definition validate_option :: "('a \<Rightarrow> protocol_error + unit) \<Rightarrow> 'a option \<Rightarrow> protocol_error + unit" where
  "validate_option f x = (case x of None \<Rightarrow> Inr () | Some a \<Rightarrow> f a)"

definition response_signed ::
  "guest_lib \<Rightarrow> guest_request \<Rightarrow> timestamp \<Rightarrow> bool \<Rightarrow> response_data option \<Rightarrow> error_body option
    \<Rightarrow> string \<Rightarrow> protocol_error + guest_response" where
  "response_signed lib req sent_at ok data err secret =
     and_then (require_strong_secret secret) (\<lambda>_.
     and_then (require (\<not> inconsistent_result ok data err)
       (InvalidEnvelope ''response result is inconsistent'')) (\<lambda>_.
     and_then (validate_option validate_response_data data) (\<lambda>_.
     and_then (validate_option validate_error_body err) (\<lambda>_.
       let r = \<lparr>rs_version = protocol_version, rs_id = rq_id req, rs_sent_at = sent_at,
                rs_nonce = rq_nonce req, rs_ok = ok, rs_encrypted = [], rs_signature = []\<rparr> in
     and_then (encrypt_json lib response_enc_domain (rs_nonce r)
         (json_response_aad lib (aad_of_response r))
         (json_payload lib \<lparr>pl_data = data, pl_error = err\<rparr>) secret) (\<lambda>c.
       let r = r\<lparr>rs_encrypted := c\<rparr> in
       Inr (r\<lparr>rs_signature := sign_json lib response_domain
              (json_unsigned_response lib (unsigned_of_response r)) secret\<rparr>))))))"

definition response_success ::
  "guest_lib \<Rightarrow> guest_request \<Rightarrow> timestamp \<Rightarrow> response_data \<Rightarrow> string \<Rightarrow> protocol_error + guest_response"
  where
  "response_success lib req sent_at data secret =
     response_signed lib req sent_at True (Some data) None secret"

definition response_failure ::
  "guest_lib \<Rightarrow> guest_request \<Rightarrow> timestamp \<Rightarrow> string \<Rightarrow> string \<Rightarrow> string
    \<Rightarrow> protocol_error + guest_response" where
  "response_failure lib req sent_at code message secret =
     response_signed lib req sent_at False None
       (Some \<lparr>eb_code = code, eb_message = message\<rparr>) secret"

definition verify_response ::
  "guest_lib \<Rightarrow> guest_response \<Rightarrow> string \<Rightarrow> string \<Rightarrow> string \<Rightarrow> guest_command \<Rightarrow> timestamp
    \<Rightarrow> timestamp \<Rightarrow> nat \<Rightarrow> protocol_error + response_payload" where
  "verify_response lib r secret expected_id expected_nonce command request_sent_at now max_skew =
     and_then (require_strong_secret secret) (\<lambda>_.
     and_then (require (\<not> (rs_version r \<noteq> protocol_version \<or> rs_id r \<noteq> expected_id
         \<or> rs_nonce r \<noteq> expected_nonce \<or> rs_sent_at r < request_sent_at
         \<or> int max_skew < \<bar>rs_sent_at r - now\<bar>))
       (InvalidEnvelope ''response does not match the request'')) (\<lambda>_.
     and_then (validate_ciphertext lib (rs_encrypted r) ''response'') (\<lambda>_.
     and_then (verify_json lib response_domain
         (json_unsigned_response lib (unsigned_of_response r)) secret (rs_signature r)) (\<lambda>_.
     and_then (decrypt_json lib response_enc_domain (rs_nonce r)
         (json_response_aad lib (aad_of_response r)) (rs_encrypted r) secret
         (parse_payload lib)) (\<lambda>payload.
     and_then (require (\<not> inconsistent_result (rs_ok r) (pl_data payload) (pl_error payload))
       (InvalidEnvelope ''response result is inconsistent'')) (\<lambda>_.
     and_then (validate_option validate_response_data (pl_data payload)) (\<lambda>_.
     and_then (validate_option validate_error_body (pl_error payload)) (\<lambda>_.
     and_then (case pl_data payload of None \<Rightarrow> Inr ()
       | Some d \<Rightarrow> require (matches_command command d)
           (InvalidEnvelope ''response type does not match the request command'')) (\<lambda>_.
     Inr payload)))))))))"

section \<open>Frames\<close>

definition be32 :: "nat \<Rightarrow> string" where
  "be32 n = map char_of [n div 2 ^ 24 mod 256, n div 2 ^ 16 mod 256, n div 2 ^ 8 mod 256, n mod 256]"

definition of_be32 :: "string \<Rightarrow> nat" where
  "of_be32 s = foldl (\<lambda>n c. n * 256 + of_char c) 0 s"

text \<open>\<open>write_frame\<close>: the bytes written, or the error; the writer itself does not fail.\<close>

definition write_frame :: "('a \<Rightarrow> string) \<Rightarrow> 'a \<Rightarrow> protocol_error + string" where
  "write_frame to_vec v =
     (let payload = to_vec v
      in if max_frame_bytes < length payload then Inl (FrameTooLarge (length payload))
         else Inr (be32 (length payload) @ payload))"

text \<open>\<open>read_exact\<close>: the next \<open>n\<close> bytes and what is left, or the end-of-file error.\<close>

definition read_exact :: "nat \<Rightarrow> string \<Rightarrow> protocol_error + (string \<times> string)" where
  "read_exact n input =
     (if length input < n then Inl (ProtocolIo ''failed to fill whole buffer'')
      else Inr (take n input, drop n input))"

definition read_frame :: "(string \<Rightarrow> string + 'a) \<Rightarrow> string \<Rightarrow> protocol_error + ('a \<times> string)" where
  "read_frame from_slice input =
     and_then (read_exact 4 input) (\<lambda>(header, rest).
       let n = of_be32 header in
     and_then (require (\<not> (n = 0 \<or> max_frame_bytes < n)) (FrameTooLarge n)) (\<lambda>_.
     and_then (read_exact n rest) (\<lambda>(payload, rest).
     and_then (map_err ProtocolJson (from_slice payload)) (\<lambda>v. Inr (v, rest)))))"

end
