(* ===== verification/Guest_Channel.thy ===== *)
theory Guest_Channel
  imports Guest_Protocol
begin

text \<open>
  What the guest channel promises: the invariant of the replay cache, the round trips of
  requests, responses and frames, what an accepted request is known to satisfy, and how far
  the protection against replays reaches.
\<close>

section \<open>The replay cache\<close>

definition cache_inv :: "replay_cache \<Rightarrow> bool" where
  "cache_inv c \<longleftrightarrow> rc_seen c = snd ` set (rc_order c) \<and> distinct (map snd (rc_order c))
     \<and> length (rc_order c) \<le> rc_capacity c \<and> 0 < rc_capacity c"

text \<open>The loop leaves a suffix of the queue, and the set of its keys.\<close>

lemma evict_suffix:
  "evict cap age now seen q = (seen', q') \<Longrightarrow> \<exists>pre. q = pre @ q'"
  by (induction cap age now seen q rule: evict.induct) (auto split: if_splits)

lemma evict_short:
  "evict cap age now seen q = (seen', q') \<Longrightarrow> q' = [] \<or> length q' < cap"
  by (induction cap age now seen q rule: evict.induct) (auto split: if_splits)

lemma evict_seen:
  "evict cap age now seen q = (seen', q') \<Longrightarrow> distinct (map snd q) \<Longrightarrow> seen = snd ` set q
    \<Longrightarrow> seen' = snd ` set q'"
  by (induction cap age now seen q rule: evict.induct) (force split: if_splits)+

lemma evict_subset: "evict cap age now seen q = (seen', q') \<Longrightarrow> seen' \<subseteq> seen"
  by (induction cap age now seen q rule: evict.induct) (auto split: if_splits)

text \<open>An entry stays as long as it is young and the entries behind it leave room.\<close>

lemma evict_keeps:
  "evict cap age now seen (pre @ (t, k) # post) = (seen', q') \<Longrightarrow> now \<le> sat_add t age
    \<Longrightarrow> Suc (length post) < cap \<Longrightarrow> \<exists>pre'. q' = pre' @ (t, k) # post"
  by (induction pre arbitrary: seen) (auto split: if_splits)

lemma cache_accept_capacity [simp]:
  "rc_capacity (fst (cache_accept c i n now age)) = rc_capacity c"
  by (auto simp: cache_accept_def Let_def split: prod.splits)

lemma cache_accept_inv:
  assumes "cache_inv c" shows "cache_inv (fst (cache_accept c i n now age))"
proof -
  obtain seen q where e: "evict (rc_capacity c) (min (int age) i64_max) now (rc_seen c) (rc_order c) = (seen, q)"
    by fastforce
  obtain pre where "rc_order c = pre @ q" using evict_suffix [OF e] by auto
  with assms have d: "distinct (map snd q)" "length q \<le> rc_capacity c" "0 < rc_capacity c"
    by (auto simp: cache_inv_def)
  have s: "seen = snd ` set q" using evict_seen [OF e] assms by (simp add: cache_inv_def)
  have "q = [] \<or> length q < rc_capacity c" by (rule evict_short [OF e])
  with d s show ?thesis by (auto simp: cache_accept_def e Let_def cache_inv_def)
qed

lemma verify_request_cache:
  "fst (verify_request lib r secret now skew c)
     \<in> {c, fst (cache_accept c (rq_id r) (rq_nonce r) now skew)}"
  by (auto simp: verify_request_def Let_def split: sum.splits prod.splits)

text \<open>A history of calls: each request is verified at the time that goes with it.\<close>

definition serve_step ::
  "guest_lib \<Rightarrow> string \<Rightarrow> nat \<Rightarrow> replay_cache \<Rightarrow> guest_request \<times> timestamp \<Rightarrow> unit + replay_cache" where
  "serve_step lib secret skew c x = Inr (fst (verify_request lib (fst x) secret (snd x) skew c))"

interpretation guest_channel: guarded_machine "serve_step lib secret skew" cache_inv "\<lambda>_. True"
proof
  fix s a t
  assume "cache_inv s" "serve_step lib secret skew s a = Inr t"
  then show "cache_inv t"
    using verify_request_cache [of lib "fst a" secret "snd a" skew s] cache_accept_inv [of s]
    by (auto simp: serve_step_def)
qed

lemma new_cache_inv: "cache_inv (replay_cache_new n)"
  by (simp add: cache_inv_def replay_cache_new_def)

text \<open>
  The replay cache stays consistent and bounded: after any history of requests, accepted
  or not, the set of keys is exactly the set of queued keys, no key is queued twice, and the
  queue never exceeds the capacity (at least one) the cache was created with.
\<close>

theorem replay_cache_consistent:
  "let c = run_all (serve_step lib secret skew) (replay_cache_new n) calls
   in rc_seen c = snd ` set (rc_order c) \<and> distinct (map snd (rc_order c))
      \<and> length (rc_order c) \<le> max n 1"
proof -
  let ?R = "\<lambda>c d. rc_capacity d = rc_capacity c"
  let ?c = "run_all (serve_step lib secret skew) (replay_cache_new n) calls"
  have step: "?R s t" if "serve_step lib secret skew s a = Inr t" for s t a
    using that verify_request_cache [of lib "fst a" secret "snd a" skew s]
    by (auto simp: serve_step_def)
  have "?R (replay_cache_new n) ?c"
    by (rule guest_channel.run_all_rel [of ?R]) (use step new_cache_inv in auto)
  then have "rc_capacity ?c = max n 1" by (simp add: replay_cache_new_def)
  moreover have "cache_inv ?c" by (rule guest_channel.run_all_inv [OF new_cache_inv]) simp
  ultimately show ?thesis by (simp add: cache_inv_def Let_def)
qed

section \<open>Round trips\<close>

lemma decrypt_encrypt:
  assumes "crypto_round_trip lib" "encrypt_json lib d n aad m secret = Inr c"
  shows "decrypt_json lib d n aad c secret parse = map_err ProtocolJson (parse m)"
proof -
  from assms(2) obtain k nn ct where k: "require_strong_secret secret = Inr ()"
      "encryption_material lib d n secret = Inr (k, nn)"
      "gcm_encrypt lib k nn (associated_data d aad) m = Some ct" "c = b64_encode lib ct"
    by (auto simp: encrypt_json_def result_simps split: prod.splits)
  with assms(1) show ?thesis
    by (simp add: decrypt_json_def decode_either_def crypto_round_trip_def)
qed

lemma verify_sign:
  "crypto_round_trip lib \<Longrightarrow> verify_json lib d p secret (sign_json lib d p secret) = Inr ()"
  by (simp add: verify_json_def sign_json_def crypto_round_trip_def)

lemma request_signed_fields:
  assumes "request_signed lib i t n c secret = Inr r"
  shows "rq_id r = i" "rq_sent_at r = t" "rq_nonce r = n" "rq_version r = protocol_version"
    "validate_command lib c = Inr ()" "require_strong_secret secret = Inr ()"
    "validate_envelope lib r = Inr ()" "validate_ciphertext lib (rq_encrypted r) ''request'' = Inr ()"
    "encrypt_json lib request_enc_domain n (json_request_aad lib (aad_of_request r))
       (json_command lib c) secret = Inr (rq_encrypted r)"
    "rq_signature r = sign_json lib request_domain
       (json_unsigned_request lib (unsigned_of_request r)) secret"
  using assms
  by (auto simp: request_signed_def result_simps Let_def validate_envelope_def
      aad_of_request_def unsigned_of_request_def)

lemma cache_accept_fresh:
  assumes "replay_key i n \<notin> rc_seen c"
  shows "snd (cache_accept c i n now age) = Inr ()
    \<and> replay_key i n \<in> rc_seen (fst (cache_accept c i n now age))"
proof -
  obtain seen q where e: "evict (rc_capacity c) (min (int age) i64_max) now (rc_seen c) (rc_order c) = (seen, q)"
    by fastforce
  with evict_subset [OF e] assms show ?thesis by (auto simp: cache_accept_def Let_def)
qed

text \<open>
  A request the host signs is understood by the agent: within the clock skew, and when
  its key is new to the agent's cache, verification returns exactly the command that was
  signed and remembers the request.
\<close>

theorem request_round_trip:
  assumes "crypto_round_trip lib" "parse_command lib (json_command lib c) = Inr c"
    and "request_signed lib i t n c secret = Inr r"
    and "\<bar>t - now\<bar> \<le> int skew" "replay_key i n \<notin> rc_seen cache"
  shows "snd (verify_request lib r secret now skew cache) = Inr c
    \<and> replay_key i n \<in> rc_seen (fst (verify_request lib r secret now skew cache))"
proof -
  note f = request_signed_fields [OF assms(3)]
  have "authenticate_request lib r secret now skew = Inr ()"
    using f assms(4) verify_sign [OF assms(1)] by (simp add: authenticate_request_def)
  moreover have "decrypt_json lib request_enc_domain n (json_request_aad lib (aad_of_request r))
      (rq_encrypted r) secret (parse_command lib) = Inr c"
    by (simp add: decrypt_encrypt [OF assms(1) f(9)] assms(2))
  ultimately show ?thesis
    using cache_accept_fresh [OF assms(5), of now skew] f
    by (auto simp: verify_request_def Let_def split: prod.splits)
qed

text \<open>
  A stand-in for the third-party code: base64 as the identity, a MAC that is the message
  behind the key, encryption that appends a tag of sixteen bytes, and parsers of the commands
  and payloads the witnesses use.
\<close>

definition demo_lib :: guest_lib where
  "demo_lib = \<lparr>b64_encode = (\<lambda>s. s), b64_decode = Some, b64_decode_padded = Some,
     hmac_sha256 = (\<lambda>k m. k @ m), sha256 = (\<lambda>m. m),
     gcm_encrypt = (\<lambda>k n a m. Some (m @ replicate 16 (CHR ''t''))),
     gcm_decrypt = (\<lambda>k n a c. if length c < 16 then None else Some (take (length c - 16) c)),
     json_command = command_kind,
     parse_command = (\<lambda>s. if s = ''reboot'' then Inr Reboot else if s = ''ping'' then Inr Ping
                          else Inl ''unknown variant''),
     json_payload = (\<lambda>p. case pl_data p of Some (Pong v) \<Rightarrow> v | _ \<Rightarrow> []),
     parse_payload = (\<lambda>s. Inr \<lparr>pl_data = Some (Pong s), pl_error = None\<rparr>),
     json_unsigned_request = (\<lambda>u. ur_request_id u @ ur_nonce u @ ur_encrypted u),
     json_request_aad = qa_request_id,
     json_unsigned_response = (\<lambda>u. us_request_id u @ us_nonce u @ us_encrypted u),
     json_response_aad = sa_request_id\<rparr>"

definition demo_secret :: string where
  "demo_secret = replicate 32 (CHR ''s'')"

definition demo_nonce :: string where
  "demo_nonce = ''0123456789abcdef''"

lemma demo_crypto: "crypto_round_trip demo_lib"
  by (simp add: crypto_round_trip_def demo_lib_def)

definition demo_request :: "timestamp \<Rightarrow> guest_request" where
  "demo_request t = \<lparr>rq_version = 2, rq_id = ''r1'', rq_sent_at = t, rq_nonce = demo_nonce,
     rq_encrypted = ''reboot'' @ replicate 16 (CHR ''t''),
     rq_signature = demo_secret @ request_domain @ ''r1'' @ demo_nonce
       @ ''reboot'' @ replicate 16 (CHR ''t'')\<rparr>"

lemma demo_signed:
  "request_signed demo_lib ''r1'' t demo_nonce Reboot demo_secret = Inr (demo_request t)"
  by (simp add: request_signed_def demo_request_def require_strong_secret_def demo_secret_def
      validate_command_def validate_envelope_def protocol_version_def id_char_def
      is_ascii_alnum_def is_ascii_digit_def is_ascii_lower_def is_ascii_upper_def code_of_def
      decode_nonce_def demo_lib_def demo_nonce_def encrypt_json_def encryption_material_def
      command_kind_def validate_ciphertext_def decode_either_def max_frame_bytes_def Let_def
      sign_json_def unsigned_of_request_def)

lemma request_round_trip_witness:
  "snd (verify_request demo_lib (demo_request 100) demo_secret 130 60 (replay_cache_new 8)) = Inr Reboot"
  using request_round_trip [OF demo_crypto _ demo_signed [of 100], of 130 60 "replay_cache_new 8"]
  by (simp add: replay_cache_new_def demo_lib_def command_kind_def)

section \<open>What acceptance means\<close>

lemma authenticate_request_Inr:
  "authenticate_request lib r secret now skew = Inr () \<longleftrightarrow>
     32 \<le> length secret \<and> validate_envelope lib r = Inr ()
     \<and> validate_ciphertext lib (rq_encrypted r) ''request'' = Inr ()
     \<and> \<bar>rq_sent_at r - now\<bar> \<le> int skew
     \<and> b64_decode lib (rq_signature r) = Some (hmac_sha256 lib secret
          (request_domain @ json_unsigned_request lib (unsigned_of_request r)))"
  by (auto simp: authenticate_request_def require_strong_secret_def verify_json_def result_simps)

lemma verify_request_Inr:
  assumes "verify_request lib r secret now skew cache = (cache', Inr c)"
  shows "authenticate_request lib r secret now skew = Inr ()"
    "snd (cache_accept cache (rq_id r) (rq_nonce r) now skew) = Inr ()"
    "cache' = fst (cache_accept cache (rq_id r) (rq_nonce r) now skew)"
    "decrypt_json lib request_enc_domain (rq_nonce r) (json_request_aad lib (aad_of_request r))
       (rq_encrypted r) secret (parse_command lib) = Inr c"
    "validate_command lib c = Inr ()"
  using assms
  by (auto simp: verify_request_def Let_def result_simps split: sum.splits prod.splits)

lemma cache_accept_Inr:
  assumes "snd (cache_accept cache i n now age) = Inr ()"
  shows "\<exists>pre. rc_order (fst (cache_accept cache i n now age)) = pre @ [(now, replay_key i n)]
    \<and> replay_key i n \<in> rc_seen (fst (cache_accept cache i n now age))"
  using assms by (auto simp: cache_accept_def Let_def split: prod.splits if_splits)

text \<open>
  C2. The agent executes only authenticated commands: when verification returns a command,
  the secret is strong, the version is the supported one, the clock skew is respected, the
  signature is the MAC of the request's own fields under the secret, the command passed its
  validation and the request is remembered. A request whose signature is not that MAC is
  refused, and the replay cache is not touched.
\<close>

theorem accepted_request_authentic:
  "(\<forall>c. snd (verify_request lib r secret now skew cache) = Inr c \<longrightarrow>
      32 \<le> length secret \<and> rq_version r = 2 \<and> \<bar>rq_sent_at r - now\<bar> \<le> int skew
      \<and> b64_decode lib (rq_signature r) = Some (hmac_sha256 lib secret
           (request_domain @ json_unsigned_request lib (unsigned_of_request r)))
      \<and> validate_command lib c = Inr ()
      \<and> replay_key (rq_id r) (rq_nonce r)
           \<in> rc_seen (fst (verify_request lib r secret now skew cache)))
   \<and> (b64_decode lib (rq_signature r) \<noteq> Some (hmac_sha256 lib secret
           (request_domain @ json_unsigned_request lib (unsigned_of_request r))) \<longrightarrow>
      fst (verify_request lib r secret now skew cache) = cache
      \<and> \<not> is_ok (snd (verify_request lib r secret now skew cache)))"
proof (intro conjI allI impI)
  fix c assume c: "snd (verify_request lib r secret now skew cache) = Inr c"
  let ?c = "fst (verify_request lib r secret now skew cache)"
  have v: "verify_request lib r secret now skew cache = (?c, Inr c)" using c by (metis prod.collapse)
  note i = verify_request_Inr [OF v]
  note a = i(1) [unfolded authenticate_request_Inr]
  show "32 \<le> length secret" "\<bar>rq_sent_at r - now\<bar> \<le> int skew" using a by auto
  show "rq_version r = 2"
    using a by (auto simp: validate_envelope_def result_simps protocol_version_def)
  show "b64_decode lib (rq_signature r) = Some (hmac_sha256 lib secret
      (request_domain @ json_unsigned_request lib (unsigned_of_request r)))" using a by auto
  show "validate_command lib c = Inr ()" by (rule i(5))
  show "replay_key (rq_id r) (rq_nonce r) \<in> rc_seen ?c"
    using cache_accept_Inr [OF i(2)] i(3) by auto
next
  assume no: "b64_decode lib (rq_signature r) \<noteq> Some (hmac_sha256 lib secret
      (request_domain @ json_unsigned_request lib (unsigned_of_request r)))"
  then have "authenticate_request lib r secret now skew \<noteq> Inr ()"
    by (simp add: authenticate_request_Inr)
  then show "fst (verify_request lib r secret now skew cache) = cache"
    and "\<not> is_ok (snd (verify_request lib r secret now skew cache))"
    by (auto simp: verify_request_def split: sum.splits)
qed

lemma accepted_request_authentic_witness:
  "\<not> is_ok (snd (verify_request demo_lib ((demo_request 100)\<lparr>rq_signature := ''forged''\<rparr>)
     demo_secret 100 60 (replay_cache_new 8)))"
  using accepted_request_authentic [of demo_lib "(demo_request 100)\<lparr>rq_signature := ''forged''\<rparr>"
      demo_secret 100 60 "replay_cache_new 8"]
  by (simp add: demo_lib_def demo_secret_def numeral_eq_Suc)

section \<open>Replays\<close>

text \<open>The cache still holds the entry, with at most \<open>n\<close> younger ones behind it.\<close>

definition holds_entry :: "timestamp \<Rightarrow> string \<Rightarrow> nat \<Rightarrow> replay_cache \<Rightarrow> bool" where
  "holds_entry t k n c \<longleftrightarrow> (\<exists>pre post. rc_order c = pre @ (t, k) # post \<and> length post \<le> n)"

lemma accept_holds_entry:
  assumes "holds_entry t k n c" "now \<le> sat_add t (min (int age) i64_max)" "Suc n < rc_capacity c"
  shows "holds_entry t k (Suc n) (fst (cache_accept c i m now age))"
    and "cache_inv c \<Longrightarrow> replay_key i m = k \<Longrightarrow> snd (cache_accept c i m now age) = Inl Replay"
proof -
  obtain pre post where o: "rc_order c = pre @ (t, k) # post" "length post \<le> n"
    using assms(1) by (auto simp: holds_entry_def)
  obtain seen q where e: "evict (rc_capacity c) (min (int age) i64_max) now (rc_seen c)
      (pre @ (t, k) # post) = (seen, q)" by fastforce
  obtain pre' where q: "q = pre' @ (t, k) # post"
    using evict_keeps [OF e assms(2)] o assms(3) by auto
  show "holds_entry t k (Suc n) (fst (cache_accept c i m now age))"
    using o e q by (fastforce simp: cache_accept_def Let_def holds_entry_def)
  assume inv: "cache_inv c" and k: "replay_key i m = k"
  have "seen = snd ` set q"
    using evict_seen [OF e] inv o by (simp add: cache_inv_def)
  then show "snd (cache_accept c i m now age) = Inl Replay"
    using k o e q by (simp add: cache_accept_def Let_def)
qed

lemma serve_holds_entry:
  assumes "holds_entry t k n c" "s \<le> sat_add t (min (int skew) i64_max)" "Suc n < rc_capacity c"
  shows "holds_entry t k (Suc n) (attempt (serve_step lib secret skew) c (r, s))"
proof -
  have "holds_entry t k (Suc n) c" using assms(1) by (force simp: holds_entry_def)
  then show ?thesis
    using verify_request_cache [of lib r secret s skew c] accept_holds_entry(1) [OF assms]
    by (auto simp: attempt_def serve_step_def)
qed

lemma serve_capacity [simp]:
  "rc_capacity (attempt (serve_step lib secret skew) c x) = rc_capacity c"
  using verify_request_cache [of lib "fst x" secret "snd x" skew c]
  by (auto simp: attempt_def serve_step_def)

lemma history_holds_entry:
  assumes "\<forall>x \<in> set calls. snd x \<le> sat_add t (min (int skew) i64_max)"
  shows "holds_entry t k n c \<Longrightarrow> n + length calls < rc_capacity c \<Longrightarrow>
    holds_entry t k (n + length calls) (run_all (serve_step lib secret skew) c calls)"
  using assms
proof (induction calls arbitrary: n c)
  case Nil
  then show ?case by simp
next
  case (Cons x calls)
  obtain r s where x: "x = (r, s)" by fastforce
  have "holds_entry t k (Suc n) (attempt (serve_step lib secret skew) c (r, s))"
    by (rule serve_holds_entry) (use Cons.prems x in auto)
  from Cons.IH [OF this] Cons.prems x show ?case by simp
qed

text \<open>
  C1. An accepted request cannot be replayed: once the agent has accepted a request that was
  not dated in the future, any later verification of it is refused, as expired or as a
  replay, whatever other requests arrive in between, as long as they are fewer
  than the capacity of the cache less one: with one more in between, the full cache drops its
  oldest entry, this one, before it looks the request up.
\<close>

theorem replay_rejected:
  assumes "cache_inv cache" "verify_request lib r secret t1 skew cache = (cache1, Inr c)"
    and "rq_sent_at r \<le> t1"
    and "\<forall>x \<in> set calls. snd x \<le> t2" "Suc (length calls) < rc_capacity cache"
    and "i64_min \<le> t1" "t2 \<le> i64_max" "int skew \<le> i64_max"
  shows "snd (verify_request lib r secret t2 skew
      (run_all (serve_step lib secret skew) cache1 calls)) \<in> {Inl Expired, Inl Replay}"
proof -
  let ?cache = "run_all (serve_step lib secret skew) cache1 calls"
  note i = verify_request_Inr [OF assms(2)]
  note a = i(1) [unfolded authenticate_request_Inr]
  show ?thesis
  proof (cases "int skew < \<bar>rq_sent_at r - t2\<bar>")
    case True
    then have "authenticate_request lib r secret t2 skew = Inl Expired"
      using a by (simp add: authenticate_request_def require_strong_secret_def)
    then show ?thesis by (simp add: verify_request_def)
  next
    case False
    then have auth: "authenticate_request lib r secret t2 skew = Inr ()"
      using a by (simp add: authenticate_request_Inr)
    have t2: "t2 \<le> sat_add t1 (min (int skew) i64_max)"
      using False assms(3,6-8) by (auto simp: sat_add_def)
    obtain pre where "rc_order cache1 = pre @ [(t1, replay_key (rq_id r) (rq_nonce r))]"
      using cache_accept_Inr [OF i(2)] i(3) by auto
    then have "holds_entry t1 (replay_key (rq_id r) (rq_nonce r)) 0 cache1"
      by (force simp: holds_entry_def)
    then have h: "holds_entry t1 (replay_key (rq_id r) (rq_nonce r)) (length calls) ?cache"
      using history_holds_entry [of calls t1 skew _ 0 cache1] assms(4,5) i(3) t2 by force
    have inv: "cache_inv ?cache"
      by (rule guest_channel.run_all_inv) (simp_all add: cache_accept_inv [OF assms(1)] i(3))
    have cap: "rc_capacity ?cache = rc_capacity cache"
    proof -
      have "rc_capacity (run_all (serve_step lib secret skew) d calls) = rc_capacity d" for d
        by (induction calls arbitrary: d) auto
      then show ?thesis using i(3) by simp
    qed
    have "snd (cache_accept ?cache (rq_id r) (rq_nonce r) t2 skew) = Inl Replay"
      using accept_holds_entry(2) [OF h t2 _ inv refl] cap assms(5) by simp
    with auth show ?thesis by (auto simp: verify_request_def Let_def split: prod.splits)
  qed
qed

lemma demo_authentic:
  "\<bar>t - now\<bar> \<le> int skew \<Longrightarrow>
   authenticate_request demo_lib (demo_request t) demo_secret now skew = Inr ()"
  by (simp add: authenticate_request_Inr demo_request_def demo_secret_def
      validate_envelope_def protocol_version_def id_char_def is_ascii_alnum_def
      is_ascii_digit_def is_ascii_lower_def is_ascii_upper_def code_of_def
      decode_nonce_def demo_lib_def demo_nonce_def validate_ciphertext_def decode_either_def
      max_frame_bytes_def unsigned_of_request_def)

lemma demo_decrypts:
  "decrypt_json demo_lib request_enc_domain (rq_nonce (demo_request t)) aad
     (rq_encrypted (demo_request t)) demo_secret (parse_command demo_lib) = Inr Reboot"
  by (simp add: decrypt_json_def require_strong_secret_def demo_secret_def demo_request_def
      decode_either_def encryption_material_def decode_nonce_def demo_lib_def demo_nonce_def)

lemma demo_verified:
  assumes "\<bar>t - now\<bar> \<le> int skew" "replay_key ''r1'' demo_nonce \<notin> rc_seen cache"
  shows "verify_request demo_lib (demo_request t) demo_secret now skew cache
    = (fst (cache_accept cache ''r1'' demo_nonce now skew), Inr Reboot)"
proof -
  have f: "rq_id (demo_request t) = ''r1''" "rq_nonce (demo_request t) = demo_nonce"
    by (simp_all add: demo_request_def)
  show ?thesis
    using cache_accept_fresh [OF assms(2), of now skew] demo_decrypts [of t]
    by (auto simp: verify_request_def demo_authentic [OF assms(1)] f Let_def
        validate_command_def split: prod.splits)
qed

lemma replay_rejected_witness:
  "snd (verify_request demo_lib (demo_request 100) demo_secret 150 60
     (fst (cache_accept (replay_cache_new 8) ''r1'' demo_nonce 110 60))) \<in> {Inl Expired, Inl Replay}"
  using replay_rejected [OF new_cache_inv demo_verified [of 100 110 60 "replay_cache_new 8"],
      of "[]" 150]
  by (simp add: replay_cache_new_def demo_request_def i64_min_def i64_max_def)

lemma evict_old:
  "\<forall>e \<in> set q. \<not> now \<le> sat_add (fst e) age \<Longrightarrow> evict cap age now seen q = (seen - snd ` set q, [])"
  by (induction cap age now seen q rule: evict.induct) auto

text \<open>
  C20. The protection has a gap: the cache keeps an entry for the clock skew after the time of
  acceptance, but a request dated \<open>d\<close> seconds ahead stays valid for \<open>d\<close> seconds longer. Whatever
  well-formed cache an agent has whose clock did not run backwards, a request it accepts
  at \<open>t1\<close> is accepted a second time, unchanged, at any time after \<open>t1\<close> plus the skew at which it is
  still valid.
\<close>

theorem future_dated_request_replayed:
  assumes "cache_inv cache" "\<forall>e \<in> set (rc_order cache). fst e \<le> t1"
    and "verify_request lib r secret t1 skew cache = (cache1, Inr c)"
    and "t1 + int skew < t2" "t2 \<le> rq_sent_at r + int skew"
    and "i64_min \<le> t1" "t2 \<le> i64_max"
  shows "snd (verify_request lib r secret t2 skew cache1) = Inr c"
proof -
  note i = verify_request_Inr [OF assms(3)]
  note a = i(1) [unfolded authenticate_request_Inr]
  have auth: "authenticate_request lib r secret t2 skew = Inr ()"
    using a assms(4,5) by (simp add: authenticate_request_Inr)
  have inv: "cache_inv cache1" using cache_accept_inv [OF assms(1)] i(3) by simp
  have "\<forall>e \<in> set (rc_order cache1). fst e \<le> t1"
  proof -
    obtain seen q where e: "evict (rc_capacity cache) (min (int skew) i64_max) t1 (rc_seen cache) (rc_order cache) = (seen, q)"
      by fastforce
    then show ?thesis
      using evict_suffix [OF e] assms(2) i(3) by (auto simp: cache_accept_def Let_def split: if_splits)
  qed
  then have "\<forall>e \<in> set (rc_order cache1). \<not> t2 \<le> sat_add (fst e) (min (int skew) i64_max)"
    using assms(4,6,7) by (force simp: sat_add_def)
  from evict_old [OF this] have "snd (cache_accept cache1 (rq_id r) (rq_nonce r) t2 skew) = Inr ()"
    using inv by (simp add: cache_accept_def cache_inv_def Let_def)
  with auth i(4,5) show ?thesis
    by (auto simp: verify_request_def Let_def split: prod.splits)
qed

lemma future_dated_request_replayed_witness:
  "snd (verify_request demo_lib (demo_request 160) demo_secret 161 60
     (fst (cache_accept (replay_cache_new 8) ''r1'' demo_nonce 100 60))) = Inr Reboot"
  using future_dated_request_replayed
    [OF new_cache_inv _ demo_verified [of 160 100 60 "replay_cache_new 8"], of 161]
  by (simp add: replay_cache_new_def demo_request_def i64_min_def i64_max_def)

section \<open>Responses and frames\<close>

text \<open>
  Responses are bound to their request: the response the agent signs for a request is
  accepted by the host for that request, with exactly the data or error that was signed; and
  whatever response the host accepts carries exactly one of data and error, as its flag
  says, and data of the type that answers the command.
\<close>

theorem response_round_trip:
  assumes "crypto_round_trip lib"
    and "parse_payload lib (json_payload lib \<lparr>pl_data = data, pl_error = err\<rparr>)
           = Inr \<lparr>pl_data = data, pl_error = err\<rparr>"
    and "response_signed lib req t ok data err secret = Inr r"
    and "validate_ciphertext lib (rs_encrypted r) ''response'' = Inr ()"
    and "request_sent_at \<le> t" "\<bar>t - now\<bar> \<le> int skew"
    and "\<forall>d. data = Some d \<longrightarrow> matches_command command d"
  shows "verify_response lib r secret (rq_id req) (rq_nonce req) command request_sent_at now skew
    = Inr \<lparr>pl_data = data, pl_error = err\<rparr>"
proof -
  from assms(3) have f: "rs_version r = protocol_version" "rs_id r = rq_id req" "rs_sent_at r = t"
      "rs_nonce r = rq_nonce req" "rs_ok r = ok" "require_strong_secret secret = Inr ()"
      "\<not> inconsistent_result ok data err" "validate_option validate_response_data data = Inr ()"
      "validate_option validate_error_body err = Inr ()"
    and e: "encrypt_json lib response_enc_domain (rq_nonce req)
         (json_response_aad lib (aad_of_response r))
         (json_payload lib \<lparr>pl_data = data, pl_error = err\<rparr>) secret = Inr (rs_encrypted r)"
    and g: "rs_signature r = sign_json lib response_domain
       (json_unsigned_response lib (unsigned_of_response r)) secret"
    by (auto simp: response_signed_def result_simps Let_def aad_of_response_def
        unsigned_of_response_def)
  show ?thesis
    using f assms(4-7)
    by (simp add: verify_response_def g verify_sign [OF assms(1)]
        decrypt_encrypt [OF assms(1) e] assms(2) split: option.splits)
qed

lemma response_round_trip_witness:
  "verify_response demo_lib
     \<lparr>rs_version = 2, rs_id = ''r1'', rs_sent_at = 105, rs_nonce = demo_nonce, rs_ok = True,
      rs_encrypted = ''0.9'' @ replicate 16 (CHR ''t''),
      rs_signature = demo_secret @ response_domain @ ''r1'' @ demo_nonce @ ''0.9'' @ replicate 16 (CHR ''t'')\<rparr>
     demo_secret ''r1'' demo_nonce Ping 100 110 60 = Inr \<lparr>pl_data = Some (Pong ''0.9''), pl_error = None\<rparr>"
  using response_round_trip [OF demo_crypto, of "Some (Pong ''0.9'')" None "demo_request 100" 105 True
      demo_secret _ 100 110 60 Ping]
  by (simp add: response_signed_def demo_request_def require_strong_secret_def demo_secret_def
      inconsistent_result_def validate_option_def validate_response_data_def
      validate_response_text_def protocol_version_def code_of_def
      decode_nonce_def demo_lib_def demo_nonce_def encrypt_json_def encryption_material_def
      validate_ciphertext_def decode_either_def max_frame_bytes_def Let_def
      sign_json_def unsigned_of_response_def)

text \<open>
  C3. The host never takes an answer for another question: an accepted response has exactly
  one of data and error, in agreement with its flag; its data answers the command that was
  sent; it names the request's id and nonce and is not older than the request.
\<close>

theorem accepted_response_answers:
  assumes "verify_response lib r secret i n command sent now skew = Inr p"
  shows "(pl_data p = None) \<noteq> (pl_error p = None) \<and> rs_ok r = (pl_data p \<noteq> None)
    \<and> (\<forall>d. pl_data p = Some d \<longrightarrow> matches_command command d \<and> validate_response_data d = Inr ())
    \<and> rs_id r = i \<and> rs_nonce r = n \<and> sent \<le> rs_sent_at r \<and> rs_sent_at r \<le> now + int skew
    \<and> b64_decode lib (rs_signature r) = Some (hmac_sha256 lib secret
         (response_domain @ json_unsigned_response lib (unsigned_of_response r)))"
  using assms
  by (auto simp: verify_response_def result_simps inconsistent_result_def verify_json_def
      validate_option_def split: option.splits)

lemma accepted_response_answers_witness:
  "rs_ok \<lparr>rs_version = 2, rs_id = ''r1'', rs_sent_at = 105, rs_nonce = demo_nonce, rs_ok = True,
      rs_encrypted = ''0.9'' @ replicate 16 (CHR ''t''),
      rs_signature = demo_secret @ response_domain @ ''r1'' @ demo_nonce @ ''0.9'' @ replicate 16 (CHR ''t'')\<rparr>"
  using accepted_response_answers [of demo_lib
     "\<lparr>rs_version = 2, rs_id = ''r1'', rs_sent_at = 105, rs_nonce = demo_nonce, rs_ok = True,
      rs_encrypted = ''0.9'' @ replicate 16 (CHR ''t''),
      rs_signature = demo_secret @ response_domain @ ''r1'' @ demo_nonce @ ''0.9'' @ replicate 16 (CHR ''t'')\<rparr>"
     demo_secret "''r1''" demo_nonce Ping 100 110 60 "\<lparr>pl_data = Some (Pong ''0.9''), pl_error = None\<rparr>"]
  by (simp add: verify_response_def require_strong_secret_def demo_secret_def
      inconsistent_result_def validate_option_def validate_response_data_def
      validate_response_text_def protocol_version_def code_of_def verify_json_def decrypt_json_def
      decode_nonce_def demo_lib_def demo_nonce_def encryption_material_def
      validate_ciphertext_def decode_either_def max_frame_bytes_def unsigned_of_response_def)

lemma be32_round_trip:
  assumes "n < 2 ^ 32" shows "of_be32 (be32 n) = n"
proof -
  have "n div 256 div 256 = n div 65536" "n div 65536 div 256 = n div 16777216"
    by (simp_all add: div_mult2_eq [symmetric])
  moreover have "n div 16777216 mod 256 = n div 16777216"
    using assms by (simp add: less_mult_imp_div_less)
  moreover note div_mult_mod_eq [of n 256] div_mult_mod_eq [of "n div 256" 256]
    div_mult_mod_eq [of "n div 65536" 256]
  ultimately show ?thesis by (simp add: of_be32_def be32_def)
qed

lemma length_be32 [simp]: "length (be32 n) = 4"
  by (simp add: be32_def)

text \<open>
  Frames round trip and stay in bounds: a value that fits the limit is written as four
  length bytes and its JSON, and the reader takes exactly that frame off any stream and
  returns the value; a value beyond 64 KiB is refused by the writer, and a header beyond
  64 KiB or of length zero is refused by the reader before any payload is read.
\<close>

theorem frame_round_trip:
  assumes "to_vec v \<noteq> []" "from_slice (to_vec v) = Inr v"
  shows "(length (to_vec v) \<le> 65536 \<longrightarrow>
      (\<exists>f. write_frame to_vec v = Inr f \<and> length f = 4 + length (to_vec v)
         \<and> read_frame from_slice (f @ rest) = Inr (v, rest)))
    \<and> (65536 < length (to_vec v) \<longrightarrow> write_frame to_vec v = Inl (FrameTooLarge (length (to_vec v))))
    \<and> (n = 0 \<or> 65536 < n \<longrightarrow> n < 2 ^ 32 \<longrightarrow> read_frame from_slice (be32 n @ rest) = Inl (FrameTooLarge n))"
proof (intro conjI impI)
  assume l: "length (to_vec v) \<le> 65536"
  then have "of_be32 (be32 (length (to_vec v))) = length (to_vec v)"
    by (intro be32_round_trip) simp
  with l assms show "\<exists>f. write_frame to_vec v = Inr f \<and> length f = 4 + length (to_vec v)
      \<and> read_frame from_slice (f @ rest) = Inr (v, rest)"
    by (simp add: write_frame_def read_frame_def read_exact_def max_frame_bytes_def Let_def)
next
  assume "n = 0 \<or> 65536 < n" "n < 2 ^ 32"
  then show "read_frame from_slice (be32 n @ rest) = Inl (FrameTooLarge n)"
    using be32_round_trip [of n]
    by (auto simp: read_frame_def read_exact_def max_frame_bytes_def Let_def)
qed (simp add: write_frame_def max_frame_bytes_def)

lemma frame_round_trip_witness:
  "\<exists>f. write_frame (\<lambda>s. s) ''{}'' = Inr f \<and> read_frame Inr (f @ ''next'') = Inr (''{}'', ''next'')"
  using frame_round_trip [of "\<lambda>s. s" "''{}''" Inr "''next''" 0] by auto

end
