(* ===== verification/Json.thy ===== *)
theory Json
  imports Rust_Text
begin

text \<open>
  JSON values as the panel stores them: \<open>serde_json::Value\<close> (whose objects are maps sorted
  by key) on the Rust side, and SQLite's JSON functions on the same text. A number is kept as
  its literal, since nothing in the modelled code computes with one.
\<close>

datatype json =
    JNull
  | JBool bool
  | JNum string
  | JStr string
  | JArr "json list"
  | JObj "(string \<times> json) list"

text \<open>\<open>Value::get(key)\<close>, \<open>as_str\<close>, \<open>as_bool\<close>.\<close>

definition json_get :: "string \<Rightarrow> json \<Rightarrow> json option" where
  "json_get k j = (case j of JObj m \<Rightarrow> map_of m k | _ \<Rightarrow> None)"

definition json_str :: "json \<Rightarrow> string option" where
  "json_str j = (case j of JStr s \<Rightarrow> Some s | _ \<Rightarrow> None)"

definition json_bool :: "json \<Rightarrow> bool option" where
  "json_bool j = (case j of JBool b \<Rightarrow> Some b | _ \<Rightarrow> None)"

definition get_str :: "string \<Rightarrow> json \<Rightarrow> string option" where
  "get_str k j = Option.bind (json_get k j) json_str"

text \<open>\<open>get(key).and_then(Value::as_bool).unwrap_or(false)\<close>.\<close>

definition get_flag :: "string \<Rightarrow> json \<Rightarrow> bool" where
  "get_flag k j = (Option.bind (json_get k j) json_bool = Some True)"

text \<open>The order of keys: byte-wise, the shorter first.\<close>

fun str_less :: "string \<Rightarrow> string \<Rightarrow> bool" where
  "str_less a [] = False"
| "str_less [] (b # bs) = True"
| "str_less (a # as) (b # bs) = (code_of a < code_of b \<or> (a = b \<and> str_less as bs))"

fun object_insert :: "string \<Rightarrow> json \<Rightarrow> (string \<times> json) list \<Rightarrow> (string \<times> json) list" where
  "object_insert k v [] = [(k, v)]"
| "object_insert k v ((k', v') # m) =
     (if k = k' then (k, v) # m
      else if str_less k k' then (k, v) # (k', v') # m
      else (k', v') # object_insert k v m)"

definition object_remove :: "string \<Rightarrow> (string \<times> json) list \<Rightarrow> (string \<times> json) list" where
  "object_remove k m = filter (\<lambda>(k', v). k' \<noteq> k) m"

text \<open>
  SQLite: \<open>json_remove(j, '$.k')\<close> and \<open>json_set(j, '$.k', v)\<close> change objects only.
\<close>

definition json_remove :: "string \<Rightarrow> json \<Rightarrow> json" where
  "json_remove k j = (case j of JObj m \<Rightarrow> JObj (object_remove k m) | _ \<Rightarrow> j)"

definition json_set :: "string \<Rightarrow> json \<Rightarrow> json \<Rightarrow> json" where
  "json_set k v j = (case j of JObj m \<Rightarrow> JObj (object_insert k v m) | _ \<Rightarrow> j)"

text \<open>
  The value of \<open>json_extract(j, '$.k')\<close>. Text compares equal to text; a number compares equal
  to a text column that holds its literal (text affinity) and to no bound text parameter;
  an array or object is its own text, which no generation, fingerprint or identifier equals,
  since those are never the text of a JSON array or object.
\<close>

datatype sql_value = SqlNull | SqlText string | SqlNumber string | SqlJson json

definition json_extract :: "string \<Rightarrow> json \<Rightarrow> sql_value" where
  "json_extract k j = (case json_get k j of
     None \<Rightarrow> SqlNull | Some JNull \<Rightarrow> SqlNull
   | Some (JStr s) \<Rightarrow> SqlText s
   | Some (JNum n) \<Rightarrow> SqlNumber n
   | Some (JBool b) \<Rightarrow> SqlNumber (if b then ''1'' else ''0'')
   | Some other \<Rightarrow> SqlJson other)"

definition equals_column :: "sql_value \<Rightarrow> string option \<Rightarrow> bool" where
  "equals_column v c = (case (v, c) of
     (SqlText s, Some t) \<Rightarrow> s = t | (SqlNumber s, Some t) \<Rightarrow> s = t | _ \<Rightarrow> False)"

definition is_param :: "sql_value \<Rightarrow> string option \<Rightarrow> bool" where
  "is_param v p = (case v of SqlText s \<Rightarrow> p = Some s | SqlNull \<Rightarrow> p = None | _ \<Rightarrow> False)"

text \<open>\<open>json_type(j, '$.k') = 'text'\<close>.\<close>

definition is_json_text :: "string \<Rightarrow> json \<Rightarrow> bool" where
  "is_json_text k j = (case json_get k j of Some (JStr _) \<Rightarrow> True | _ \<Rightarrow> False)"

lemma map_of_object_remove: "map_of (object_remove k m) k' = (if k' = k then None else map_of m k')"
  by (induction m) (auto simp: object_remove_def)

lemma json_get_remove [simp]: "json_get k' (json_remove k j) = (if k' = k then None else json_get k' j)"
  by (auto simp: json_get_def json_remove_def map_of_object_remove split: json.splits)

lemma map_of_object_insert: "map_of (object_insert k v m) k' = (if k' = k then Some v else map_of m k')"
  by (induction m) auto

lemma json_get_set: "json_get k' (json_set k v (JObj m)) = (if k' = k then Some v else json_get k' (JObj m))"
  by (simp add: json_get_def json_set_def map_of_object_insert)

lemma object_remove_absent: "map_of m k = None \<Longrightarrow> object_remove k m = m"
  by (induction m) (auto simp: object_remove_def split: if_splits)

lemma json_remove_absent: "json_get k j = None \<Longrightarrow> json_remove k j = j"
  by (auto simp: json_get_def json_remove_def object_remove_absent split: json.splits)

lemma object_remove_insert: "map_of m k = None \<Longrightarrow> object_remove k (object_insert k v m) = m"
proof (induction m)
  case Nil
  then show ?case by (simp add: object_remove_def)
next
  case (Cons a m)
  obtain k' v' where a: "a = (k', v')" by fastforce
  with Cons.prems have k: "k' \<noteq> k" "map_of m k = None" by (auto split: if_splits)
  show ?case
    using Cons.IH [OF k(2)] object_remove_absent [OF k(2)] k(1) a
    by (simp add: object_remove_def)
qed

lemma json_remove_set: "json_get k (JObj m) = None \<Longrightarrow> json_remove k (json_set k v (JObj m)) = JObj m"
  by (simp add: json_get_def json_remove_def json_set_def object_remove_insert)

end
