(* ===== verification/Panel_Db.thy ===== *)
theory Panel_Db
  imports App_Error Json Ip_Text
begin

text \<open>
  The panel's database (\<open>src/db.rs\<close>, \<open>migrations/\<close>): rows with the columns the modelled
  operations read or write, tables as lists of rows in row-id order, and the database as the
  record of its tables. Operations are transactions: they return an error, and the database
  is the one before, or the changed database with a value. Fresh UUIDs and the clock are
  arguments. A violated UNIQUE, CHECK or FOREIGN KEY constraint is a \<open>Database\<close> error.
\<close>

datatype vm_state =
    VmCreating | VmRunning | VmStopped | VmPaused | VmReinstalling | VmMigrating | VmError | VmUnknown

datatype job_status = Queued | Running | Succeeded | Failed | Cancelled

datatype snapshot_state = SnapCreating | SnapReady | SnapReverting | SnapDeleting | SnapError

datatype tools_platform = LinuxGuest | WindowsGuest

datatype tools_provisioner = CloudInit | CloudbaseNocloud

datatype tools_status = ToolsPending | ToolsReady | ToolsUnavailable | ToolsError

datatype address_family = V4 | V6

datatype ip_scope = PublicScope | PrivateScope

datatype ip_status = IpFree | IpReserved | IpUsed | IpMain

record vm_row =
  v_id :: string
  v_name :: string
  v_hostname :: string
  v_description :: string
  v_os_family :: string
  v_iso :: "string option"
  v_state :: vm_state
  v_desired :: vm_state
  v_vcpus :: nat
  v_memory_mib :: nat
  v_disk_gib :: nat
  v_disk_format :: string
  v_firmware :: string
  v_machine_type :: "string option"
  v_bridge :: "string option"
  v_tap :: "string option"
  v_mac :: "string option"
  v_network_limit :: "nat option"
  v_traffic_limit :: "nat option"
  v_traffic_used :: nat
  v_root_username :: string
  v_password_envelope :: "string option"
  v_password_updated_at :: "timestamp option"
  v_guest_agent :: bool
  v_autostart :: bool
  v_timezone :: "string option"
  v_libvirt_uuid :: "string option"
  v_vnc_display :: "int option"
  v_metadata :: json
  v_created_at :: timestamp
  v_updated_at :: timestamp

record job_row =
  j_id :: string
  j_kind :: string
  j_vm :: "string option"
  j_status :: job_status
  j_payload :: json
  j_result :: "json option"
  j_error :: "string option"
  j_progress :: rat
  j_key :: "string option"
  j_attempts :: nat
  j_max_attempts :: nat
  j_run_after :: timestamp
  j_locked_by :: "string option"
  j_locked_at :: "timestamp option"
  j_actor_type :: "string option"
  j_actor_id :: "string option"
  j_created_at :: timestamp
  j_updated_at :: timestamp
  j_finished_at :: "timestamp option"

record snapshot_row =
  s_id :: string
  s_vm :: string
  s_name :: string
  s_description :: string
  s_state :: snapshot_state
  s_disk_path :: "string option"
  s_size :: "nat option"
  s_memory_included :: bool
  s_metadata :: json
  s_created_at :: timestamp
  s_updated_at :: timestamp
  s_completed_at :: "timestamp option"

record tools_row =
  t_vm :: string
  t_enabled :: bool
  t_platform :: tools_platform
  t_provisioner :: tools_provisioner
  t_envelope :: string
  t_desired_version :: string
  t_installed_version :: "string option"
  t_status :: tools_status
  t_last_seen_at :: "timestamp option"
  t_last_error :: "string option"
  t_pending_envelope :: "string option"
  t_pending_platform :: "tools_platform option"
  t_pending_provisioner :: "tools_provisioner option"
  t_pending_version :: "string option"
  t_pending_generation :: "string option"
  t_pending_installed :: bool
  t_created_at :: timestamp
  t_updated_at :: timestamp

record ip_row =
  a_id :: string
  a_pool :: "string option"
  a_address :: string
  a_family :: address_family
  a_prefix :: nat
  a_scope :: ip_scope
  a_status :: ip_status
  a_gateway :: "string option"
  a_vm :: "string option"
  a_primary :: bool
  a_reverse_dns :: "string option"
  a_metadata :: json
  a_created_at :: timestamp
  a_updated_at :: timestamp

record pool_row =
  p_id :: string
  p_name :: string
  p_cidr :: string
  p_family :: address_family
  p_scope :: ip_scope
  p_gateway :: "string option"
  p_bridge :: "string option"
  p_vlan :: "nat option"
  p_mtu :: nat
  p_enabled :: bool
  p_created_at :: timestamp
  p_updated_at :: timestamp

record blacklist_row =
  b_id :: string
  b_cidr :: string
  b_family :: address_family
  b_reason :: string
  b_source :: string
  b_enabled :: bool
  b_expires_at :: "timestamp option"
  b_created_by :: "string option"
  b_metadata :: json
  b_created_at :: timestamp
  b_updated_at :: timestamp

record traffic_row =
  e_vm :: string
  e_blocked :: bool
  e_blocked_at :: "timestamp option"
  e_last_error :: "string option"
  e_updated_at :: timestamp

text \<open>Customer and VNC links share their columns; only customer links have scopes.\<close>

record link_row =
  l_id :: string
  l_vm :: string
  l_token_hash :: string
  l_session_hash :: "string option"
  l_scopes :: "string list"
  l_bound_ip :: "string option"
  l_created_at :: timestamp
  l_expires_at :: timestamp
  l_consumed_at :: "timestamp option"
  l_session_expires_at :: "timestamp option"
  l_last_used_at :: "timestamp option"
  l_revoked_at :: "timestamp option"

record db =
  vms :: "vm_row list"
  jobs :: "job_row list"
  snapshots :: "snapshot_row list"
  tools :: "tools_row list"
  ips :: "ip_row list"
  pools :: "pool_row list"
  blacklist :: "blacklist_row list"
  traffic :: "traffic_row list"
  customer_links :: "link_row list"
  vnc_links :: "link_row list"

type_synonym 'a transaction = "app_error + (db \<times> 'a)"

text \<open>The database a transaction leaves, for histories that do not read its answer.\<close>

definition result_db :: "'a transaction \<Rightarrow> app_error + db" where
  "result_db r = and_then r (\<lambda>(d, _). Inr d)"

lemma result_db_Inr: "result_db r = Inr t \<longleftrightarrow> (\<exists>x. r = Inr (t, x))"
  by (auto simp: result_db_def result_simps)

section \<open>Small helpers of db.rs\<close>

definition validate_non_empty :: "string \<Rightarrow> string \<Rightarrow> app_error + unit" where
  "validate_non_empty label value =
     (if trim value = [] then Inl (Validation (label @ '' cannot be empty'')) else Inr ())"

definition require_changed :: "nat \<Rightarrow> string \<Rightarrow> app_error + unit" where
  "require_changed changed resource = (if changed = 0 then Inl (NotFound resource) else Inr ())"

definition foreign_key_error :: app_error where
  "foreign_key_error = Database ''FOREIGN KEY constraint failed''"

definition unique_error :: app_error where
  "unique_error = Database ''UNIQUE constraint failed''"

definition check_error :: app_error where
  "check_error = Database ''CHECK constraint failed''"

definition vm_exists :: "db \<Rightarrow> string \<Rightarrow> bool" where
  "vm_exists d vm = (\<exists>v \<in> set (vms d). v_id v = vm)"

text \<open>\<open>COLLATE NOCASE\<close> compares ASCII letters without case.\<close>

definition query_vm :: "db \<Rightarrow> string \<Rightarrow> vm_row option" where
  "query_vm d id_or_name =
     select_one (\<lambda>v. v_id v = id_or_name \<or> ascii_lower (v_name v) = ascii_lower id_or_name) (vms d)"

definition query_job :: "db \<Rightarrow> string \<Rightarrow> job_row option" where
  "query_job d i = select_one (\<lambda>j. j_id j = i) (jobs d)"

definition query_tools :: "db \<Rightarrow> string \<Rightarrow> tools_row option" where
  "query_tools d vm = select_one (\<lambda>t. t_vm t = vm) (tools d)"

section \<open>Addresses in canonical text\<close>

definition family_for_ip :: "ip_addr \<Rightarrow> address_family" where
  "family_for_ip a = (case a of IpV4 _ \<Rightarrow> V4 | IpV6 _ \<Rightarrow> V6)"

definition canonical_ip :: "string \<Rightarrow> app_error + string" where
  "canonical_ip value = (case parse_ip (trim value) of
     None \<Rightarrow> Inl (Validation (''invalid IP address: '' @ value))
   | Some a \<Rightarrow> Inr (show_ip a))"

definition canonical_optional_ip ::
  "string option \<Rightarrow> address_family option \<Rightarrow> app_error + string option" where
  "canonical_optional_ip value expected =
     (case map_option trim value of
        None \<Rightarrow> Inr None
      | Some t \<Rightarrow>
          if t = [] then Inr None
          else and_then (ok_or (parse_ip t) (Validation (''invalid IP address: '' @ t))) (\<lambda>a.
            and_then (require (expected = None \<or> expected = Some (family_for_ip a))
              (Validation ''IP address family does not match its pool'')) (\<lambda>_.
            Inr (Some (show_ip a)))))"

text \<open>\<open>family.as_i64()\<close> stores 4 or 6; \<open>{family:?}\<close> is the name of the variant.\<close>

definition show_family :: "address_family \<Rightarrow> string" where
  "show_family f = (case f of V4 \<Rightarrow> ''V4'' | V6 \<Rightarrow> ''V6'')"

definition max_prefix :: "address_family \<Rightarrow> nat" where
  "max_prefix f = (case f of V4 \<Rightarrow> 32 | V6 \<Rightarrow> 128)"

definition validate_prefix :: "address_family \<Rightarrow> nat \<Rightarrow> app_error + unit" where
  "validate_prefix f prefix = require (prefix \<le> max_prefix f)
     (Validation (''prefix length '' @ show_dec (int prefix) @ '' is invalid for '' @ show_family f))"

section \<open>Deleting VM rows\<close>

text \<open>
  \<open>DELETE FROM vms\<close> with the schema's actions: the trigger
  \<open>release_ip_addresses_before_vm_delete\<close> frees the addresses of the VM, \<open>ON DELETE CASCADE\<close>
  removes its snapshots, guest-tools row, traffic row and links, and \<open>ON DELETE SET NULL\<close>
  clears the VM of its jobs.
\<close>

definition free_address :: "timestamp \<Rightarrow> ip_row \<Rightarrow> ip_row" where
  "free_address now a = a\<lparr>a_status := IpFree, a_vm := None, a_primary := False, a_updated_at := now\<rparr>"

definition delete_vm_rows :: "timestamp \<Rightarrow> string set \<Rightarrow> db \<Rightarrow> db" where
  "delete_vm_rows now gone d = d\<lparr>
     vms := delete_where (\<lambda>v. v_id v \<in> gone) (vms d),
     jobs := update_where (\<lambda>j. \<exists>i \<in> gone. j_vm j = Some i) (\<lambda>j. j\<lparr>j_vm := None\<rparr>) (jobs d),
     snapshots := delete_where (\<lambda>s. s_vm s \<in> gone) (snapshots d),
     tools := delete_where (\<lambda>t. t_vm t \<in> gone) (tools d),
     ips := update_where (\<lambda>a. \<exists>i \<in> gone. a_vm a = Some i) (free_address now) (ips d),
     traffic := delete_where (\<lambda>e. e_vm e \<in> gone) (traffic d),
     customer_links := delete_where (\<lambda>l. l_vm l \<in> gone) (customer_links d),
     vnc_links := delete_where (\<lambda>l. l_vm l \<in> gone) (vnc_links d)\<rparr>"

text \<open>\<open>delete_vm\<close>.\<close>

definition delete_vm :: "string \<Rightarrow> timestamp \<Rightarrow> db \<Rightarrow> unit transaction" where
  "delete_vm id_or_name now d =
     and_then (ok_or (query_vm d id_or_name) (NotFound ''VM'')) (\<lambda>vm.
       let d1 = d\<lparr>ips := update_where (\<lambda>a. a_vm a = Some (v_id vm)) (free_address now) (ips d)\<rparr>;
           changed = count_where (\<lambda>v. v_id v = v_id vm) (vms d1);
           d2 = delete_vm_rows now {v_id vm} d1
       in and_then (require_changed changed ''VM'') (\<lambda>_. Inr (d2, ())))"

lemma validate_non_empty_Inr [simp]: "validate_non_empty l v = Inr u \<longleftrightarrow> trim v \<noteq> []"
  by (simp add: validate_non_empty_def)

lemma require_changed_Inr [simp]: "require_changed n r = Inr u \<longleftrightarrow> n \<noteq> 0"
  by (simp add: require_changed_def)

text \<open>A VM row for the examples of the development.\<close>

definition sample_vm :: "string \<Rightarrow> string \<Rightarrow> vm_row" where
  "sample_vm i name = \<lparr>v_id = i, v_name = name, v_hostname = name, v_description = [],
     v_os_family = ''linux'', v_iso = None, v_state = VmRunning, v_desired = VmRunning, v_vcpus = 1,
     v_memory_mib = 512, v_disk_gib = 8, v_disk_format = ''qcow2'', v_firmware = ''uefi'',
     v_machine_type = None, v_bridge = None, v_tap = None, v_mac = None, v_network_limit = None,
     v_traffic_limit = None, v_traffic_used = 0, v_root_username = ''root'',
     v_password_envelope = None, v_password_updated_at = None, v_guest_agent = False,
     v_autostart = False, v_timezone = None, v_libvirt_uuid = None, v_vnc_display = None,
     v_metadata = JObj [], v_created_at = 0, v_updated_at = 0\<rparr>"

lemma sample_vm_simps [simp]: "v_id (sample_vm i name) = i" "v_name (sample_vm i name) = name"
  by (simp_all add: sample_vm_def)

end
