(* ===== verification/Job_Queue.thy ===== *)
theory Job_Queue
  imports Panel_Db "HOL-Library.Product_Lexorder"
begin

text \<open>
  The durable job queue of \<open>src/db.rs\<close>: enqueueing (generic, guest-tools bootstrap, delete and
  reinstall), claiming, progress, finishing, failing, cancelling, and the recovery of jobs a
  previous process left running.
\<close>

definition staged_password_field :: string where
  "staged_password_field = ''_staged_password_envelope''"

definition staged_generation_field :: string where
  "staged_generation_field = ''_guest_tools_rotation_generation''"

record new_job =
  nj_kind :: string
  nj_vm :: "string option"
  nj_payload :: json
  nj_key :: "string option"
  nj_run_after :: "timestamp option"
  nj_max_attempts :: nat
  nj_actor_type :: "string option"
  nj_actor_id :: "string option"

section \<open>Generations are canonical UUIDs\<close>

text \<open>
  The forms \<open>Uuid::parse_str\<close> accepts (hyphenated, simple, braced, URN; hexadecimal digits of
  either case), and the one \<open>to_string\<close> writes (hyphenated, lower case).
\<close>

definition uuid_hyphenated :: "string \<Rightarrow> bool" where
  "uuid_hyphenated s \<longleftrightarrow> length s = 36 \<and>
     list_all (\<lambda>i. if i \<in> {8, 13, 18, 23} then s ! i = CHR ''-'' else is_ascii_hex (s ! i)) [0..<36]"

definition uuid_parses :: "string \<Rightarrow> bool" where
  "uuid_parses s \<longleftrightarrow> uuid_hyphenated s
     \<or> (length s = 32 \<and> list_all is_ascii_hex s)
     \<or> (length s = 38 \<and> hd s = CHR ''{'' \<and> last s = CHR ''}'' \<and> uuid_hyphenated (butlast (tl s)))
     \<or> (length s = 45 \<and> starts_with s ''urn:uuid:'' \<and> uuid_hyphenated (drop 9 s))"

definition uuid_canonical :: "string \<Rightarrow> bool" where
  "uuid_canonical s \<longleftrightarrow> uuid_hyphenated s \<and> ascii_lower s = s"

definition validate_generation :: "string \<Rightarrow> app_error + unit" where
  "validate_generation g =
     and_then (require (uuid_parses g) (Validation ''guest-tools rotation generation is invalid''))
       (\<lambda>_. require (uuid_canonical g) (Validation ''guest-tools rotation generation is not canonical''))"

section \<open>Enqueueing\<close>

definition active :: "job_row \<Rightarrow> bool" where
  "active j \<longleftrightarrow> j_status j = Queued \<or> j_status j = Running"

text \<open>\<open>INSERT INTO jobs\<close> with the constraints of the table.\<close>

definition insert_job ::
  "string \<Rightarrow> timestamp \<Rightarrow> new_job \<Rightarrow> string option \<Rightarrow> json \<Rightarrow> db \<Rightarrow> job_row transaction" where
  "insert_job fresh now req key payload d =
     (let row = \<lparr>j_id = fresh, j_kind = nj_kind req, j_vm = nj_vm req, j_status = Queued,
        j_payload = payload, j_result = None, j_error = None, j_progress = 0, j_key = key,
        j_attempts = 0, j_max_attempts = max (nj_max_attempts req) 1,
        j_run_after = (case nj_run_after req of None \<Rightarrow> now | Some t \<Rightarrow> t),
        j_locked_by = None, j_locked_at = None, j_actor_type = nj_actor_type req,
        j_actor_id = nj_actor_id req, j_created_at = now, j_updated_at = now,
        j_finished_at = None\<rparr>
      in if (\<exists>j \<in> set (jobs d). j_id j = fresh \<or> (key \<noteq> None \<and> j_key j = key))
         then Inl unique_error
         else if (case nj_vm req of None \<Rightarrow> False | Some vm \<Rightarrow> \<not> vm_exists d vm)
         then Inl foreign_key_error
         else Inr (d\<lparr>jobs := jobs d @ [row]\<rparr>, row))"

text \<open>
  The idempotency check: nothing to replay, the job of an earlier equal request, or a
  conflict. \<open>strip\<close> is what the stored payload is compared without.
\<close>

definition replayed_job ::
  "(json \<Rightarrow> json) \<Rightarrow> new_job \<Rightarrow> db \<Rightarrow> app_error + job_row option" where
  "replayed_job strip req d =
     (case nj_key req of
        None \<Rightarrow> Inr None
      | Some k \<Rightarrow>
          (case select_one (\<lambda>j. j_key j = Some k) (jobs d) of
             None \<Rightarrow> Inr None
           | Some j \<Rightarrow>
               if j_kind j \<noteq> nj_kind req \<or> j_vm j \<noteq> nj_vm req \<or> strip (j_payload j) \<noteq> nj_payload req
               then Inl (Conflict ''idempotency key was already used for a different request'')
               else Inr (Some j)))"

definition enqueue_job :: "string \<Rightarrow> timestamp \<Rightarrow> new_job \<Rightarrow> db \<Rightarrow> job_row transaction" where
  "enqueue_job fresh now req d =
     and_then (validate_non_empty ''job kind'' (nj_kind req)) (\<lambda>_.
     and_then (replayed_job (\<lambda>p. p) req d) (\<lambda>hit.
       case hit of Some j \<Rightarrow> Inr (d, j)
       | None \<Rightarrow> insert_job fresh now req (nj_key req) (nj_payload req) d))"

definition enqueue_bootstrap_job :: "string \<Rightarrow> timestamp \<Rightarrow> new_job \<Rightarrow> db \<Rightarrow> job_row transaction" where
  "enqueue_bootstrap_job fresh now req d =
     and_then (require (nj_kind req = ''vm.guest_tools.bootstrap'')
       (Validation ''Guest Tools bootstrap transaction requires a vm.guest_tools.bootstrap job'')) (\<lambda>_.
     and_then (ok_or (nj_vm req) (Validation ''Guest Tools bootstrap job requires vm_id'')) (\<lambda>vm.
       let expected = get_str ''expected_generation'' (nj_payload req) in
     and_then (case expected of None \<Rightarrow> Inr () | Some g \<Rightarrow> validate_generation g) (\<lambda>_.
       case select_least j_created_at (filter (\<lambda>j. j_kind j = ''vm.guest_tools.bootstrap''
              \<and> j_vm j = Some vm \<and> active j
              \<and> is_param (json_extract ''expected_generation'' (j_payload j)) expected) (jobs d)) of
         Some j \<Rightarrow> Inr (d, j)
       | None \<Rightarrow> insert_job fresh now req None (nj_payload req) d)))"

definition enqueue_delete_job :: "string \<Rightarrow> timestamp \<Rightarrow> new_job \<Rightarrow> db \<Rightarrow> job_row transaction" where
  "enqueue_delete_job fresh now req d =
     and_then (require (nj_kind req = ''vm.delete'')
       (Validation ''delete transaction requires a vm.delete job'')) (\<lambda>_.
     and_then (ok_or (nj_vm req) (Validation ''delete job requires vm_id'')) (\<lambda>vm.
     and_then (replayed_job (\<lambda>p. p) req d) (\<lambda>hit.
       case hit of Some j \<Rightarrow> Inr (d, j)
       | None \<Rightarrow>
         (case select_least j_created_at
            (filter (\<lambda>j. j_kind j = ''vm.delete'' \<and> j_vm j = Some vm \<and> active j) (jobs d)) of
            Some j \<Rightarrow> Inr (d, j)
          | None \<Rightarrow> insert_job fresh now req (nj_key req) (nj_payload req) d))))"

text \<open>\<open>payload_without_staged_password\<close>.\<close>

definition without_staged_password :: "json \<Rightarrow> json" where
  "without_staged_password p = json_remove staged_password_field p"

definition staged_payload :: "json \<Rightarrow> string option \<Rightarrow> app_error + json" where
  "staged_payload p envelope = (case envelope of None \<Rightarrow> Inr p
     | Some e \<Rightarrow>
         and_then (validate_non_empty ''password envelope'' e) (\<lambda>_.
           case p of JObj _ \<Rightarrow> Inr (json_set staged_password_field (JStr e) p)
           | _ \<Rightarrow> Inl (Validation ''reinstall job payload must be an object'')))"

definition enqueue_reinstall_job ::
  "string \<Rightarrow> timestamp \<Rightarrow> new_job \<Rightarrow> string option \<Rightarrow> vm_state \<Rightarrow> db \<Rightarrow> job_row transaction" where
  "enqueue_reinstall_job fresh now req envelope desired d =
     and_then (require (nj_kind req = ''vm.reinstall'')
       (Validation ''reinstall transaction requires a vm.reinstall job'')) (\<lambda>_.
     and_then (ok_or (nj_vm req) (Validation ''reinstall job requires vm_id'')) (\<lambda>vm.
     and_then (require (json_get staged_password_field (nj_payload req) = None)
       (Validation ''reinstall payload contains a reserved field'')) (\<lambda>_.
     and_then (require (\<not> (envelope \<noteq> None
         \<and> get_flag ''clear_password_after_success'' (nj_payload req)))
       (Validation ''manual reinstall cannot stage a guest password'')) (\<lambda>_.
     and_then (staged_payload (nj_payload req) envelope) (\<lambda>payload.
     and_then (replayed_job without_staged_password req d) (\<lambda>hit.
       case hit of Some j \<Rightarrow> Inr (d, j)
       | None \<Rightarrow>
         and_then (require (\<not> (\<exists>j \<in> set (jobs d). j_kind j = ''vm.reinstall''
             \<and> j_vm j = Some vm \<and> active j))
           (Conflict ''a reinstall is already queued or running for this VM'')) (\<lambda>_.
           let changed = count_where (\<lambda>v. v_id v = vm) (vms d);
               d1 = d\<lparr>vms := update_where (\<lambda>v. v_id v = vm)
                 (\<lambda>v. v\<lparr>v_state := VmReinstalling, v_desired := desired, v_updated_at := now\<rparr>) (vms d)\<rparr> in
         and_then (require_changed changed ''VM'') (\<lambda>_.
           insert_job fresh now req (nj_key req) payload d1))))))))"

section \<open>Unarmed generations\<close>

text \<open>The assignments that clear the pending rotation of a guest-tools row.\<close>

definition clear_pending :: "timestamp \<Rightarrow> tools_row \<Rightarrow> tools_row" where
  "clear_pending now t = t\<lparr>t_pending_envelope := None, t_pending_platform := None,
     t_pending_provisioner := None, t_pending_version := None, t_pending_generation := None,
     t_pending_installed := False, t_updated_at := now\<rparr>"

text \<open>\<open>cleanup_unarmed_reinstall_guest_tools\<close>.\<close>

definition cleanup_unarmed :: "job_row \<Rightarrow> timestamp \<Rightarrow> db \<Rightarrow> db" where
  "cleanup_unarmed job now d =
     (if j_kind job \<noteq> ''vm.reinstall'' then d
      else case (j_vm job, get_str staged_generation_field (j_payload job)) of
        (Some vm, Some g) \<Rightarrow>
          if g = [] \<or> 64 < length g then d
          else
            let owned = (\<lambda>t. t_vm t = vm \<and> t_pending_generation t = Some g \<and> \<not> t_pending_installed t)
            in if get_flag ''guest_tools_new_configuration'' (j_payload job)
               then d\<lparr>tools := delete_where owned (tools d)\<rparr>
               else d\<lparr>tools := update_where owned (clear_pending now) (tools d)\<rparr>
      | _ \<Rightarrow> d)"

section \<open>Claiming and running\<close>

definition claimable :: "timestamp \<Rightarrow> job_row \<Rightarrow> bool" where
  "claimable now j \<longleftrightarrow> j_status j = Queued \<and> j_run_after j \<le> now \<and> j_attempts j < j_max_attempts j"

definition claim_next_job :: "string \<Rightarrow> timestamp \<Rightarrow> db \<Rightarrow> job_row option transaction" where
  "claim_next_job worker now d =
     and_then (validate_non_empty ''worker name'' worker) (\<lambda>_.
       case select_least (\<lambda>j. (j_run_after j, j_created_at j)) (filter (claimable now) (jobs d)) of
         None \<Rightarrow> Inr (d, None)
       | Some c \<Rightarrow>
           let p = (\<lambda>j. j_id j = j_id c \<and> j_status j = Queued);
               d1 = d\<lparr>jobs := update_where p (\<lambda>j. j\<lparr>j_status := Running,
                 j_attempts := j_attempts j + 1, j_locked_by := Some worker,
                 j_locked_at := Some now, j_updated_at := now\<rparr>) (jobs d)\<rparr>
           in if count_where p (jobs d) = 0 then Inr (d, None)
              else Inr (d1, query_job d1 (j_id c)))"

definition update_job_progress :: "string \<Rightarrow> rat option \<Rightarrow> timestamp \<Rightarrow> db \<Rightarrow> unit transaction" where
  "update_job_progress i progress now d =
     (case progress of
        Some x \<Rightarrow>
          if 0 \<le> x \<and> x \<le> 100
          then let p = (\<lambda>j. j_id j = i \<and> j_status j = Running)
               in and_then (require_changed (count_where p (jobs d)) ''running job'') (\<lambda>_.
                    Inr (d\<lparr>jobs := update_where p
                      (\<lambda>j. j\<lparr>j_progress := x, j_updated_at := now\<rparr>) (jobs d)\<rparr>, ()))
          else Inl (Validation ''job progress must be between 0 and 100'')
      | None \<Rightarrow> Inl (Validation ''job progress must be between 0 and 100''))"

definition finish_job :: "string \<Rightarrow> json \<Rightarrow> timestamp \<Rightarrow> db \<Rightarrow> unit transaction" where
  "finish_job i result now d =
     (let p = (\<lambda>j. j_id j = i \<and> j_status j = Running)
      in and_then (require_changed (count_where p (jobs d)) ''running job'') (\<lambda>_.
           Inr (d\<lparr>jobs := update_where p (\<lambda>j. j\<lparr>j_status := Succeeded, j_result := Some result,
             j_error := None, j_progress := 100, j_locked_by := None, j_locked_at := None,
             j_updated_at := now, j_finished_at := Some now,
             j_payload := json_remove staged_password_field (j_payload j)\<rparr>) (jobs d)\<rparr>, ())))"

definition fail_job ::
  "string \<Rightarrow> string \<Rightarrow> timestamp option \<Rightarrow> timestamp \<Rightarrow> db \<Rightarrow> job_row transaction" where
  "fail_job i err retry_at now d =
     and_then (ok_or (query_job d i) (NotFound ''job'')) (\<lambda>job.
     and_then (require (j_status job = Running) (Conflict ''job is not running'')) (\<lambda>_.
       let retry = (retry_at \<noteq> None \<and> j_attempts job < j_max_attempts job);
           d1 = (if retry then d else cleanup_unarmed job now d);
           d2 = d1\<lparr>jobs := update_where (\<lambda>j. j_id j = i) (\<lambda>j. j\<lparr>
             j_status := (if retry then Queued else Failed), j_error := Some err,
             j_run_after := (case retry_at of None \<Rightarrow> j_run_after j | Some t \<Rightarrow> t),
             j_locked_by := None, j_locked_at := None, j_updated_at := now,
             j_finished_at := (if retry then None else Some now),
             j_payload := (if retry then j_payload j
               else json_remove staged_password_field (j_payload j))\<rparr>) (jobs d1)\<rparr>
       in and_then (ok_or (query_job d2 i) (NotFound ''job'')) (\<lambda>j. Inr (d2, j))))"

section \<open>Cancelling\<close>

definition cancel_job :: "string \<Rightarrow> timestamp \<Rightarrow> db \<Rightarrow> unit transaction" where
  "cancel_job i now d =
     and_then (ok_or (query_job d i) (NotFound ''job'')) (\<lambda>job.
     and_then (require (j_status job = Queued) (Conflict ''only a queued job can be cancelled'')) (\<lambda>_.
       let p = (\<lambda>j. j_id j = i \<and> j_status j = Queued);
           d1 = d\<lparr>jobs := update_where p (\<lambda>j. j\<lparr>j_status := Cancelled, j_locked_by := None,
             j_locked_at := None, j_updated_at := now, j_finished_at := Some now,
             j_payload := json_remove staged_password_field (j_payload j)\<rparr>) (jobs d)\<rparr> in
     and_then (require_changed (count_where p (jobs d)) ''queued job'') (\<lambda>_.
       if j_kind job = ''vm.create'' then
         (case j_vm job of
            None \<Rightarrow> Inr (d1, ())
          | Some vm \<Rightarrow>
              let d2 = d1\<lparr>ips := update_where (\<lambda>a. a_vm a = Some vm) (free_address now) (ips d1)\<rparr>;
                  gone = set (map v_id (filter (\<lambda>v. v_id v = vm \<and> v_state v = VmCreating
                           \<and> v_libvirt_uuid v = None) (vms d2)))
              in Inr (delete_vm_rows now gone d2, ()))
       else if j_kind job = ''vm.reinstall'' then
         (case j_vm job of
            None \<Rightarrow> Inr (d1, ())
          | Some vm \<Rightarrow>
              let d2 = cleanup_unarmed job now d1
              in Inr (d2\<lparr>vms := update_where (\<lambda>v. v_id v = vm \<and> v_state v = VmReinstalling)
                   (\<lambda>v. v\<lparr>v_state := VmUnknown, v_updated_at := now\<rparr>) (vms d2)\<rparr>, ()))
       else if j_kind job = ''vm.snapshot.create'' then
         (case get_str ''snapshot_id'' (j_payload job) of
            None \<Rightarrow> Inr (d1, ())
          | Some s \<Rightarrow> Inr (d1\<lparr>snapshots := update_where
              (\<lambda>r. s_id r = s \<and> s_state r = SnapCreating)
              (\<lambda>r. r\<lparr>s_state := SnapError, s_updated_at := now, s_completed_at := Some now,
                 s_metadata := json_set ''error'' (JStr ''job cancelled'') (s_metadata r)\<rparr>)
              (snapshots d1)\<rparr>, ()))
       else Inr (d1, ()))))"

section \<open>Recovery after a crash\<close>

definition exhausted :: "job_row \<Rightarrow> bool" where
  "exhausted j \<longleftrightarrow> j_status j = Running \<and> j_max_attempts j \<le> j_attempts j"

definition delete_finalizer :: "job_row \<Rightarrow> bool" where
  "delete_finalizer j \<longleftrightarrow> j_status j = Running \<and> j_kind j = ''vm.delete'' \<and> j_vm j = None
     \<and> is_json_text ''target_vm_id'' (j_payload j) \<and> is_json_text ''target_vm_name'' (j_payload j)"

definition requeue :: "timestamp \<Rightarrow> job_row \<Rightarrow> job_row" where
  "requeue now j = j\<lparr>j_status := Queued, j_locked_by := None, j_locked_at := None,
     j_run_after := now, j_updated_at := now\<rparr>"

definition clean_exhausted_reinstalls :: "timestamp \<Rightarrow> db \<Rightarrow> db" where
  "clean_exhausted_reinstalls now d =
     foldl (\<lambda>d i. case query_job d i of None \<Rightarrow> d | Some j \<Rightarrow> cleanup_unarmed j now d) d
       (map j_id (filter (\<lambda>j. exhausted j \<and> j_kind j = ''vm.reinstall'') (jobs d)))"

definition requeue_interrupted :: "timestamp \<Rightarrow> db \<Rightarrow> db \<times> nat" where
  "requeue_interrupted now d =
     (let jobs1 = update_where delete_finalizer
            (\<lambda>j. (requeue now j)\<lparr>j_max_attempts := max (j_max_attempts j) (j_attempts j + 1)\<rparr>) (jobs d);
          again = (\<lambda>j. j_status j = Running \<and> j_attempts j < j_max_attempts j)
      in (d\<lparr>jobs := update_where again (requeue now) jobs1\<rparr>,
          count_where delete_finalizer (jobs d) + count_where again jobs1))"

definition references_generation :: "(job_row \<Rightarrow> bool) \<Rightarrow> string \<Rightarrow> db \<Rightarrow> tools_row \<Rightarrow> bool" where
  "references_generation p field d t \<longleftrightarrow> (\<exists>j \<in> set (jobs d). p j \<and> j_vm j = Some (t_vm t)
     \<and> equals_column (json_extract field (j_payload j)) (t_pending_generation t))"

definition clear_orphaned_generations :: "timestamp \<Rightarrow> db \<Rightarrow> db" where
  "clear_orphaned_generations now d = d\<lparr>tools := update_where
     (\<lambda>t. \<not> t_pending_installed t \<and> t_pending_generation t \<noteq> None
        \<and> \<not> references_generation (\<lambda>j. j_kind j = ''vm.reinstall'' \<and> active j)
              staged_generation_field d t)
     (clear_pending now) (tools d)\<rparr>"

definition mark_failed_vms :: "timestamp \<Rightarrow> db \<Rightarrow> db" where
  "mark_failed_vms now d = d\<lparr>vms := update_where
     (\<lambda>v. \<exists>j \<in> set (jobs d). exhausted j \<and> j_kind j \<in> {''vm.create'', ''vm.reinstall''}
        \<and> j_vm j = Some (v_id v))
     (\<lambda>v. v\<lparr>v_state := VmError, v_updated_at := now\<rparr>) (vms d)\<rparr>"

definition mark_failed_snapshots :: "timestamp \<Rightarrow> db \<Rightarrow> db" where
  "mark_failed_snapshots now d = d\<lparr>snapshots := update_where
     (\<lambda>s. \<exists>j \<in> set (jobs d). exhausted j \<and> j_kind j = ''vm.snapshot.create''
        \<and> equals_column (json_extract ''snapshot_id'' (j_payload j)) (Some (s_id s)))
     (\<lambda>s. s\<lparr>s_state := SnapError, s_updated_at := now, s_completed_at := Some now,
        s_metadata := json_set ''error'' (JStr ''worker interrupted before completion'')
          (s_metadata s)\<rparr>) (snapshots d)\<rparr>"

definition tools_failed :: "timestamp \<Rightarrow> string \<Rightarrow> tools_row \<Rightarrow> tools_row" where
  "tools_failed now msg t = t\<lparr>t_status := ToolsError, t_last_error := Some msg, t_updated_at := now\<rparr>"

text \<open>The bootstrap job reached the guest after it was locked.\<close>

definition seen_since :: "job_row \<Rightarrow> tools_row \<Rightarrow> bool" where
  "seen_since j t \<longleftrightarrow> t_status t = ToolsReady
     \<and> (case (t_last_seen_at t, j_locked_at j) of (Some s, Some l) \<Rightarrow> l \<le> s | _ \<Rightarrow> False)"

definition mark_failed_tools :: "timestamp \<Rightarrow> db \<Rightarrow> db" where
  "mark_failed_tools now d =
     (let d1 = d\<lparr>tools := update_where (\<lambda>t. t_pending_installed t
              \<and> references_generation (\<lambda>j. exhausted j \<and> j_kind j = ''vm.reinstall'')
                  staged_generation_field d t)
            (tools_failed now ''reinstall worker interrupted after Guest Tools media was armed'')
            (tools d)\<rparr>;
          d2 = d1\<lparr>tools := update_where (\<lambda>t. \<exists>j \<in> set (jobs d1). exhausted j
                \<and> j_kind j = ''vm.create'' \<and> j_vm j = Some (t_vm t))
            (tools_failed now ''VM creation worker interrupted before Guest Tools bootstrap'')
            (tools d1)\<rparr>
      in d2\<lparr>tools := update_where (\<lambda>t. \<exists>j \<in> set (jobs d2). exhausted j
                \<and> j_kind j = ''vm.guest_tools.bootstrap'' \<and> j_vm j = Some (t_vm t)
                \<and> ((t_pending_installed t
                      \<and> equals_column (json_extract ''expected_generation'' (j_payload j))
                          (t_pending_generation t))
                   \<or> (\<not> t_pending_installed t
                      \<and> json_extract ''expected_generation'' (j_payload j) = SqlNull
                      \<and> \<not> seen_since j t)))
            (tools_failed now ''Guest Tools bootstrap worker interrupted before completion'')
            (tools d2)\<rparr>)"

definition fail_exhausted :: "timestamp \<Rightarrow> db \<Rightarrow> db \<times> nat" where
  "fail_exhausted now d =
     (d\<lparr>jobs := update_where exhausted (\<lambda>j. j\<lparr>j_status := Failed,
        j_error := Some ''worker interrupted before completion'', j_locked_by := None,
        j_locked_at := None, j_updated_at := now, j_finished_at := Some now,
        j_payload := json_remove staged_password_field (j_payload j)\<rparr>) (jobs d)\<rparr>,
      count_where exhausted (jobs d))"

definition recover_interrupted_jobs :: "timestamp \<Rightarrow> db \<Rightarrow> (nat \<times> nat) transaction" where
  "recover_interrupted_jobs now d =
     (let d1 = clean_exhausted_reinstalls now d;
          (d2, requeued) = requeue_interrupted now d1;
          d3 = clear_orphaned_generations now d2;
          d4 = mark_failed_vms now d3;
          d5 = mark_failed_snapshots now d4;
          d6 = mark_failed_tools now d5;
          (d7, failed) = fail_exhausted now d6
      in Inr (d7, (requeued, failed)))"

section \<open>The credential of a reinstall\<close>

definition commit_reinstall_password :: "string \<Rightarrow> timestamp \<Rightarrow> db \<Rightarrow> unit transaction" where
  "commit_reinstall_password i now d =
     and_then (ok_or (query_job d i) (NotFound ''job'')) (\<lambda>job.
     and_then (require (j_kind job = ''vm.reinstall'')
       (Validation ''credential commit requires a vm.reinstall job'')) (\<lambda>_.
     and_then (require (j_status job = Running)
       (Conflict ''reinstall credential can only be committed by its running worker'')) (\<lambda>_.
     and_then (ok_or (j_vm job) (Conflict ''reinstall job no longer owns a VM'')) (\<lambda>vm.
       let staged = get_str staged_password_field (j_payload job);
           clear = get_flag ''clear_password_after_success'' (j_payload job);
           p = (\<lambda>v. v_id v = vm);
           changed = count_where p (vms d) in
     and_then (require (\<not> (clear \<and> staged \<noteq> None))
       (Validation ''manual reinstall job cannot stage a guest password'')) (\<lambda>_.
       if clear then
         and_then (require_changed changed ''VM'') (\<lambda>_.
           Inr (d\<lparr>vms := update_where p (\<lambda>v. v\<lparr>v_password_envelope := None,
             v_password_updated_at := None, v_updated_at := now\<rparr>) (vms d)\<rparr>, ()))
       else case staged of
         Some e \<Rightarrow>
           and_then (validate_non_empty ''password envelope'' e) (\<lambda>_.
           and_then (require_changed changed ''VM'') (\<lambda>_.
             Inr (d\<lparr>vms := update_where p (\<lambda>v. v\<lparr>v_password_envelope := Some e,
               v_password_updated_at := Some now, v_updated_at := now\<rparr>) (vms d)\<rparr>, ())))
       | None \<Rightarrow>
           if changed = 0 then Inl (Database ''Query returned no rows'') else Inr (d, ()))))))"

end
