(* ===== verification/Job_Safety.thy ===== *)
theory Job_Safety
  imports Job_Queue
begin

text \<open>
  What the job queue promises: the invariant of every job row over all histories of requests,
  the legal transitions of a job, terminal jobs that never change again, the exclusive claim,
  one active reinstall and one active delete per VM, recovery that accounts for every
  interrupted job, and idempotent requests.
\<close>

datatype job_request =
    Enqueue string timestamp new_job
  | EnqueueBootstrap string timestamp new_job
  | EnqueueDelete string timestamp new_job
  | EnqueueReinstall string timestamp new_job "string option" vm_state
  | Claim string timestamp
  | Progress string "rat option" timestamp
  | Finish string json timestamp
  | Fail string string "timestamp option" timestamp
  | Cancel string timestamp
  | Recover timestamp
  | CommitPassword string timestamp
  | DeleteVm string timestamp

fun job_step :: "db \<Rightarrow> job_request \<Rightarrow> app_error + db" where
  "job_step d (Enqueue f now r) = result_db (enqueue_job f now r d)"
| "job_step d (EnqueueBootstrap f now r) = result_db (enqueue_bootstrap_job f now r d)"
| "job_step d (EnqueueDelete f now r) = result_db (enqueue_delete_job f now r d)"
| "job_step d (EnqueueReinstall f now r e s) = result_db (enqueue_reinstall_job f now r e s d)"
| "job_step d (Claim w now) = result_db (claim_next_job w now d)"
| "job_step d (Progress i x now) = result_db (update_job_progress i x now d)"
| "job_step d (Finish i x now) = result_db (finish_job i x now d)"
| "job_step d (Fail i e retry now) = result_db (fail_job i e retry now d)"
| "job_step d (Cancel i now) = result_db (cancel_job i now d)"
| "job_step d (Recover now) = result_db (recover_interrupted_jobs now d)"
| "job_step d (CommitPassword i now) = result_db (commit_reinstall_password i now d)"
| "job_step d (DeleteVm v now) = result_db (delete_vm v now d)"

definition terminal :: "job_row \<Rightarrow> bool" where
  "terminal j \<longleftrightarrow> j_status j \<in> {Succeeded, Failed, Cancelled}"

section \<open>The shape of a request's effect on the jobs\<close>

text \<open>
  What one request may do to one row: identity, kind and key stay, the status follows an edge
  of the life cycle, attempts never fall, the VM is kept or cleared, and a terminal row
  changes in nothing else.
\<close>

fun edge :: "job_status \<Rightarrow> job_status \<Rightarrow> bool" where
  "edge Queued s = (s \<in> {Queued, Running, Cancelled})"
| "edge Running s = (s \<in> {Running, Queued, Succeeded, Failed})"
| "edge Succeeded s = (s = Succeeded)"
| "edge Failed s = (s = Failed)"
| "edge Cancelled s = (s = Cancelled)"

text \<open>
  The invariant of a row: a queued job has attempts left and no lock; a running job is locked
  and was claimed within its budget; a terminal job is unlocked, has its end time, and its
  payload holds no staged password any more.
\<close>

definition job_ok :: "job_row \<Rightarrow> bool" where
  "job_ok j \<longleftrightarrow> (case j_status j of
     Queued \<Rightarrow> j_attempts j < j_max_attempts j \<and> j_locked_by j = None \<and> j_locked_at j = None
       \<and> j_finished_at j = None
   | Running \<Rightarrow> 0 < j_attempts j \<and> j_attempts j \<le> j_max_attempts j \<and> j_locked_by j \<noteq> None
       \<and> j_locked_at j \<noteq> None \<and> j_finished_at j = None
   | _ \<Rightarrow> j_attempts j \<le> j_max_attempts j \<and> j_locked_by j = None \<and> j_locked_at j = None
       \<and> j_finished_at j \<noteq> None \<and> json_get staged_password_field (j_payload j) = None)"

definition moved :: "job_row \<Rightarrow> job_row \<Rightarrow> bool" where
  "moved j j' \<longleftrightarrow> j_id j' = j_id j \<and> j_kind j' = j_kind j \<and> j_key j' = j_key j
     \<and> edge (j_status j) (j_status j') \<and> j_attempts j \<le> j_attempts j'
     \<and> (j_vm j' = j_vm j \<or> j_vm j' = None)
     \<and> (terminal j \<longrightarrow> j' = j\<lparr>j_vm := j_vm j'\<rparr>) \<and> (job_ok j \<longrightarrow> job_ok j')"

text \<open>A row an \<open>INSERT\<close> adds.\<close>

definition fresh_row :: "job_row \<Rightarrow> bool" where
  "fresh_row j \<longleftrightarrow> j_status j = Queued \<and> j_attempts j = 0 \<and> 0 < j_max_attempts j
     \<and> j_locked_by j = None \<and> j_locked_at j = None \<and> j_finished_at j = None"

definition new_row_for :: "db \<Rightarrow> job_row \<Rightarrow> bool" where
  "new_row_for d j \<longleftrightarrow> fresh_row j
     \<and> (\<forall>i \<in> set (jobs d). j_id i \<noteq> j_id j \<and> (j_key j \<noteq> None \<longrightarrow> j_key i \<noteq> j_key j))"

definition extends :: "db \<Rightarrow> db \<Rightarrow> bool" where
  "extends d t \<longleftrightarrow> (\<exists>js. list_all2 moved (jobs d) js
     \<and> (jobs t = js \<or> (\<exists>j. jobs t = js @ [j] \<and> new_row_for d j)))"

lemma moved_refl [simp, intro]: "moved j j"
  by (cases "j_status j") (auto simp: moved_def)

lemma list_all2_update_where:
  "(\<And>x. x \<in> set xs \<Longrightarrow> p x \<Longrightarrow> P x (f x)) \<Longrightarrow> (\<And>x. P x x) \<Longrightarrow> list_all2 P xs (update_where p f xs)"
  by (induction xs) auto

lemma extendsI: "list_all2 moved (jobs d) (jobs t) \<Longrightarrow> extends d t"
  by (auto simp: extends_def)

lemma extends_same: "jobs t = jobs d \<Longrightarrow> extends d t"
  by (rule extendsI) (auto intro: list_all2_refl)

lemma extends_refl [simp]: "extends d d"
  by (rule extends_same) simp

lemma extends_update:
  "jobs t = update_where p f (jobs d) \<Longrightarrow> (\<And>j. j \<in> set (jobs d) \<Longrightarrow> p j \<Longrightarrow> moved j (f j)) \<Longrightarrow> extends d t"
  by (rule extendsI) (auto intro: list_all2_update_where)

lemma extends_append: "jobs t = jobs d @ [j] \<Longrightarrow> new_row_for d j \<Longrightarrow> extends d t"
  by (auto simp: extends_def intro!: exI [of _ "jobs d"] list_all2_refl)

text \<open>A job that is not terminal may move along an edge with its other columns.\<close>

lemma moved_live:
  "\<not> terminal j \<Longrightarrow> edge (j_status j) (j_status j') \<Longrightarrow> j_id j' = j_id j \<Longrightarrow> j_kind j' = j_kind j
    \<Longrightarrow> j_key j' = j_key j \<Longrightarrow> j_attempts j \<le> j_attempts j' \<Longrightarrow> j_vm j' = j_vm j
    \<Longrightarrow> (job_ok j \<Longrightarrow> job_ok j') \<Longrightarrow> moved j j'"
  by (simp add: moved_def)

lemma job_ok_unlink [simp]: "job_ok (j\<lparr>j_vm := x\<rparr>) = job_ok j"
  by (cases "j_status j") (simp_all add: job_ok_def)

lemma moved_unlink: "moved j (j\<lparr>j_vm := None\<rparr>)"
  by (cases "j_status j") (simp_all add: moved_def)

section \<open>Effects on other tables leave the jobs alone\<close>

lemma jobs_cleanup [simp]: "jobs (cleanup_unarmed j now d) = jobs d"
  by (auto simp: cleanup_unarmed_def Let_def split: option.splits)

lemma jobs_clean_exhausted [simp]: "jobs (clean_exhausted_reinstalls now d) = jobs d"
proof -
  have "jobs (foldl (\<lambda>d i. case query_job d i of None \<Rightarrow> d | Some j \<Rightarrow> cleanup_unarmed j now d) d is)
    = jobs d" for "is"
    by (induction "is" arbitrary: d) (auto split: option.splits)
  then show ?thesis by (simp add: clean_exhausted_reinstalls_def)
qed

lemma jobs_recovery_marks [simp]:
  "jobs (clear_orphaned_generations now d) = jobs d"
  "jobs (mark_failed_vms now d) = jobs d"
  "jobs (mark_failed_snapshots now d) = jobs d"
  "jobs (mark_failed_tools now d) = jobs d"
  by (simp_all add: clear_orphaned_generations_def mark_failed_vms_def mark_failed_snapshots_def
      mark_failed_tools_def Let_def)

text \<open>The rows of the jobs table after a recovery, as one update of each row.\<close>

definition finalize :: "timestamp \<Rightarrow> job_row \<Rightarrow> job_row" where
  "finalize now j = (requeue now j)\<lparr>j_max_attempts := max (j_max_attempts j) (j_attempts j + 1)\<rparr>"

definition fail_row :: "timestamp \<Rightarrow> job_row \<Rightarrow> job_row" where
  "fail_row now j = j\<lparr>j_status := Failed, j_error := Some ''worker interrupted before completion'',
     j_locked_by := None, j_locked_at := None, j_updated_at := now, j_finished_at := Some now,
     j_payload := json_remove staged_password_field (j_payload j)\<rparr>"

definition recovered :: "timestamp \<Rightarrow> job_row \<Rightarrow> job_row" where
  "recovered now j =
     (if delete_finalizer j then finalize now j
      else if j_status j = Running \<and> j_attempts j < j_max_attempts j then requeue now j
      else if exhausted j then fail_row now j
      else j)"

lemma status_after_requeue [simp]:
  "j_status (requeue now j) = Queued" "j_status (finalize now j) = Queued"
  by (simp_all add: requeue_def finalize_def)

lemma jobs_recover:
  assumes "recover_interrupted_jobs now d = Inr (t, x)"
  shows "jobs t = map (recovered now) (jobs d)"
proof -
  let ?again = "\<lambda>j. j_status j = Running \<and> j_attempts j < j_max_attempts j"
  have t: "jobs t = update_where exhausted (fail_row now)
      (update_where ?again (requeue now) (update_where delete_finalizer (finalize now) (jobs d)))"
    using assms by (auto simp: recover_interrupted_jobs_def requeue_interrupted_def
        fail_exhausted_def Let_def fail_row_def [abs_def] finalize_def [abs_def])
  have q: "\<not> exhausted (requeue now j)" "\<not> exhausted (finalize now j)" "\<not> ?again (finalize now j)" for j
    by (simp_all add: exhausted_def)
  show ?thesis by (simp add: t update_where_def recovered_def q)
qed

lemma recovered_fields [simp]:
  "j_id (recovered now j) = j_id j" "j_kind (recovered now j) = j_kind j"
  "j_key (recovered now j) = j_key j" "j_attempts (recovered now j) = j_attempts j"
  "j_vm (recovered now j) = j_vm j"
  by (simp_all add: recovered_def requeue_def finalize_def fail_row_def)

lemma recovered_other: "j_status j \<noteq> Running \<Longrightarrow> recovered now j = j"
  by (simp add: recovered_def delete_finalizer_def exhausted_def)

lemma recovered_status:
  "j_status j = Running \<Longrightarrow> j_status (recovered now j) = Queued \<or> j_status (recovered now j) = Failed"
  by (simp add: recovered_def exhausted_def fail_row_def)

lemma job_ok_recovered: "job_ok j \<Longrightarrow> job_ok (recovered now j)"
  by (cases "j_status j") (simp_all add: recovered_other, simp add: job_ok_def recovered_def
      finalize_def requeue_def fail_row_def exhausted_def)

lemma moved_recovered: "moved j (recovered now j)"
proof (cases "j_status j = Running")
  case True
  with recovered_status [OF True, of now] show ?thesis
    by (intro moved_live) (auto simp: terminal_def job_ok_recovered)
next
  case False
  then show ?thesis by (simp add: recovered_other)
qed

section \<open>Every request extends the table\<close>

lemma insert_job_Inr:
  "insert_job f now req key payload d = Inr (t, j) \<Longrightarrow>
     t = d\<lparr>jobs := jobs d @ [j]\<rparr> \<and> new_row_for d j \<and> j_id j = f \<and> j_key j = key
     \<and> j_kind j = nj_kind req \<and> j_vm j = nj_vm req \<and> j_payload j = payload"
  by (auto simp: insert_job_def Let_def fresh_row_def new_row_for_def split: if_splits)

lemma extends_insert: "insert_job f now req key payload d = Inr (t, j) \<Longrightarrow> extends d t"
  by (drule insert_job_Inr) (auto intro: extends_append)

lemma moved_then_unlink: "moved j j' \<Longrightarrow> moved j (j'\<lparr>j_vm := None\<rparr>)"
  by (auto simp: moved_def)

lemma extends_delete_vm_rows:
  assumes "list_all2 moved (jobs d) (jobs e)"
  shows "extends d (delete_vm_rows now gone e)"
  using assms
  by (intro extendsI)
    (auto simp: delete_vm_rows_def update_where_def list_all2_conv_all_nth moved_then_unlink)

lemma enqueue_reinstall_Inr:
  assumes "enqueue_reinstall_job f now r e s d = Inr (t, j)"
  shows "(t = d \<and> replayed_job without_staged_password r d = Inr (Some j))
    \<or> (\<exists>vm payload d1. nj_vm r = Some vm \<and> staged_payload (nj_payload r) e = Inr payload
         \<and> \<not> (\<exists>j \<in> set (jobs d). j_kind j = ''vm.reinstall'' \<and> j_vm j = Some vm \<and> active j)
         \<and> jobs d1 = jobs d \<and> nj_kind r = ''vm.reinstall''
         \<and> insert_job f now r (nj_key r) payload d1 = Inr (t, j))"
  using assms by (fastforce simp: enqueue_reinstall_job_def result_simps Let_def split: option.splits)

lemma extends_enqueues:
  "enqueue_job f now r d = Inr (t, j) \<Longrightarrow> extends d t"
  "enqueue_bootstrap_job f now r d = Inr (t, j) \<Longrightarrow> extends d t"
  "enqueue_delete_job f now r d = Inr (t, j) \<Longrightarrow> extends d t"
  by (auto simp: enqueue_job_def enqueue_bootstrap_job_def enqueue_delete_job_def result_simps Let_def
      intro: extends_insert extends_refl split: option.splits)

lemma extends_reinstall:
  assumes "enqueue_reinstall_job f now r e s d = Inr (t, j)"
  shows "extends d t"
proof -
  have "extends d t" if "insert_job f now r k p d1 = Inr (t, j)" "jobs d1 = jobs d" for k p d1
    using extends_insert [OF that(1)] that(2) by (simp add: extends_def new_row_for_def)
  then show ?thesis using enqueue_reinstall_Inr [OF assms] by auto
qed

lemma extends_claim: "claim_next_job w now d = Inr (t, x) \<Longrightarrow> extends d t"
  by (auto simp: claim_next_job_def result_simps Let_def intro: extends_refl
      intro!: extends_update moved_live simp: terminal_def job_ok_def split: option.splits if_splits)

lemma extends_progress: "update_job_progress i x now d = Inr (t, u) \<Longrightarrow> extends d t"
  by (auto simp: update_job_progress_def result_simps Let_def
      intro!: extends_update moved_live simp: terminal_def job_ok_def split: option.splits if_splits)

lemma extends_finish: "finish_job i x now d = Inr (t, u) \<Longrightarrow> extends d t"
  by (auto simp: finish_job_def result_simps Let_def
      intro!: extends_update moved_live simp: terminal_def job_ok_def)

text \<open>\<open>query_job\<close> finds the only row of its id.\<close>

lemma query_job_unique:
  assumes "distinct (map j_id (jobs d))" "query_job d i = Some j" "k \<in> set (jobs d)" "j_id k = i"
  shows "k = j"
proof -
  have "j \<in> set (jobs d)" "j_id j = i"
    using assms(2) by (auto simp: query_job_def dest: select_one_Some)
  with assms show ?thesis by (metis distinct_map inj_onD)
qed

lemma extends_fail:
  assumes "distinct (map j_id (jobs d))" "fail_job i e retry now d = Inr (t, u)"
  shows "extends d t"
proof -
  from assms(2) obtain job where q: "query_job d i = Some job" "j_status job = Running"
    by (auto simp: fail_job_def result_simps)
  have run: "k = job" if "k \<in> set (jobs d)" "j_id k = i" for k
    by (rule query_job_unique [OF assms(1) q(1) that])
  let ?again = "retry \<noteq> None \<and> j_attempts job < j_max_attempts job"
  have "jobs t = update_where (\<lambda>j. j_id j = i) (\<lambda>j. j\<lparr>
             j_status := (if ?again then Queued else Failed), j_error := Some e,
             j_run_after := (case retry of None \<Rightarrow> j_run_after j | Some t \<Rightarrow> t),
             j_locked_by := None, j_locked_at := None, j_updated_at := now,
             j_finished_at := (if ?again then None else Some now),
             j_payload := (if ?again then j_payload j
               else json_remove staged_password_field (j_payload j))\<rparr>) (jobs d)"
    using assms(2) q by (simp add: fail_job_def result_simps Let_def split: if_splits) force+
  then show ?thesis
    by (rule extends_update)
      (use run q(2) in \<open>auto intro!: moved_live simp: terminal_def job_ok_def\<close>)
qed

lemma extends_cancel:
  assumes "cancel_job i now d = Inr (t, u)"
  shows "extends d t"
proof -
  let ?p = "\<lambda>j. j_id j = i \<and> j_status j = Queued"
  let ?f = "\<lambda>j. j\<lparr>j_status := Cancelled, j_locked_by := None,
             j_locked_at := None, j_updated_at := now, j_finished_at := Some now,
             j_payload := json_remove staged_password_field (j_payload j)\<rparr>"
  let ?d1 = "d\<lparr>jobs := update_where ?p ?f (jobs d)\<rparr>"
  have e: "list_all2 moved (jobs d) (jobs ?d1)"
    by (simp, rule list_all2_update_where) (auto intro!: moved_live simp: terminal_def job_ok_def)
  from assms obtain job where q: "query_job d i = Some job" "j_status job = Queued"
    by (auto simp: cancel_job_def result_simps)
  have "(\<exists>gone x. jobs x = jobs ?d1 \<and> t = delete_vm_rows now gone x) \<or> jobs t = jobs ?d1"
    using assms q
    by (auto simp: cancel_job_def result_simps Let_def split: if_splits option.splits) force+
  then show ?thesis using e by (auto intro: extendsI extends_delete_vm_rows)
qed

lemma extends_recover: "recover_interrupted_jobs now d = Inr (t, x) \<Longrightarrow> extends d t"
  by (rule extendsI) (auto simp: jobs_recover list_all2_conv_all_nth moved_recovered)

lemma extends_commit: "commit_reinstall_password i now d = Inr (t, x) \<Longrightarrow> extends d t"
  by (rule extends_same)
    (auto simp: commit_reinstall_password_def result_simps Let_def split: if_splits option.splits)

lemma extends_delete_vm: "delete_vm v now d = Inr (t, x) \<Longrightarrow> extends d t"
  by (auto simp: delete_vm_def result_simps Let_def intro!: extends_delete_vm_rows list_all2_refl)

lemma job_step_extends:
  assumes "distinct (map j_id (jobs d))" "job_step d r = Inr t"
  shows "extends d t"
  using assms(2)
  by (cases r) (auto simp: result_db_Inr intro: extends_enqueues extends_reinstall extends_claim
      extends_progress extends_finish extends_fail [OF assms(1)] extends_cancel extends_recover
      extends_commit extends_delete_vm)

section \<open>The invariant of the table\<close>

definition keys_distinct :: "job_row list \<Rightarrow> bool" where
  "keys_distinct js \<longleftrightarrow> distinct (filter (\<lambda>k. k \<noteq> None) (map j_key js))"

definition jobs_inv :: "db \<Rightarrow> bool" where
  "jobs_inv d \<longleftrightarrow> distinct (map j_id (jobs d)) \<and> keys_distinct (jobs d) \<and> list_all job_ok (jobs d)"

lemma map_moved:
  assumes "list_all2 moved js js'"
  shows "map j_id js' = map j_id js" "map j_key js' = map j_key js" "map j_kind js' = map j_kind js"
  using assms by (induction rule: list_all2_induct) (auto simp: moved_def)

lemma moved_job_ok: "list_all2 moved js js' \<Longrightarrow> list_all job_ok js \<Longrightarrow> list_all job_ok js'"
  by (induction rule: list_all2_induct) (auto simp: moved_def)

lemma fresh_row_ok: "fresh_row j \<Longrightarrow> job_ok j"
  by (simp add: fresh_row_def job_ok_def)

lemma new_row_disjoint:
  "new_row_for d j \<Longrightarrow> j_id j \<notin> set (map j_id (jobs d))
    \<and> (j_key j \<noteq> None \<longrightarrow> j_key j \<notin> set (map j_key (jobs d)))"
  unfolding new_row_for_def set_map image_iff by metis

lemma extends_inv:
  assumes "extends d t" "jobs_inv d"
  shows "jobs_inv t"
proof -
  obtain js where js: "list_all2 moved (jobs d) js"
    "jobs t = js \<or> (\<exists>j. jobs t = js @ [j] \<and> new_row_for d j)"
    using assms(1) by (auto simp: extends_def)
  have *: "distinct (map j_id js)" "keys_distinct js" "list_all job_ok js"
    using assms(2) map_moved [OF js(1)] moved_job_ok [OF js(1)]
    by (simp_all add: jobs_inv_def keys_distinct_def)
  have "jobs_inv t" if j: "jobs t = js @ [j]" "new_row_for d j" for j
  proof -
    have "j_id j \<notin> set (map j_id js)" "j_key j \<noteq> None \<Longrightarrow> j_key j \<notin> set (map j_key js)"
      using new_row_disjoint [OF j(2)] unfolding map_moved [OF js(1)] by auto
    moreover have "job_ok j" using j(2) by (simp add: new_row_for_def fresh_row_ok)
    ultimately show ?thesis using * by (simp add: jobs_inv_def keys_distinct_def j(1))
  qed
  with * js(2) show ?thesis by (auto simp: jobs_inv_def)
qed

lemma extends_rows:
  assumes "extends d t" "j \<in> set (jobs d)"
  shows "\<exists>j' \<in> set (jobs t). moved j j'"
proof -
  obtain js where js: "list_all2 moved (jobs d) js" "jobs t = js \<or> (\<exists>j. jobs t = js @ [j])"
    using assms(1) by (auto simp: extends_def)
  obtain j' where "j' \<in> set js" "moved j j'"
    using js(1) assms(2) by (metis in_set_conv_nth list_all2_conv_all_nth)
  with js(2) show ?thesis by auto
qed

interpretation job_queue: guarded_machine job_step jobs_inv "\<lambda>_. True"
proof
  fix d r t
  assume inv: "jobs_inv d" "job_step d r = Inr t"
  then have "extends d t" by (simp add: jobs_inv_def job_step_extends)
  then show "jobs_inv t" using inv(1) by (rule extends_inv)
qed

definition empty_db :: db where
  "empty_db = \<lparr>vms = [], jobs = [], snapshots = [], tools = [], ips = [], pools = [],
     blacklist = [], traffic = [], customer_links = [], vnc_links = []\<rparr>"

text \<open>
  C6. Every job row stays well formed through every history of requests, from any database
  without jobs: job ids are unique, and each row satisfies the invariant of its status: a
  queued job has attempts left, a running job is locked and within its budget, a finished
  job is unlocked, has its end time and keeps no staged password.
\<close>

theorem job_rows_well_formed:
  assumes "jobs d = []"
  shows "(\<forall>j \<in> set (jobs (run_all job_step d rs)). job_ok j)
    \<and> distinct (map j_id (jobs (run_all job_step d rs)))"
proof -
  have "jobs_inv d" using assms by (simp add: jobs_inv_def keys_distinct_def)
  then have "jobs_inv (run_all job_step d rs)" by (rule job_queue.run_all_inv) simp
  then show ?thesis by (simp add: jobs_inv_def list_all_iff)
qed

definition demo_new_job :: new_job where
  "demo_new_job = \<lparr>nj_kind = ''p'', nj_vm = None, nj_payload = JObj [], nj_key = Some ''k'',
     nj_run_after = None, nj_max_attempts = 1, nj_actor_type = None, nj_actor_id = None\<rparr>"

lemma job_rows_well_formed_witness:
  "list_all job_ok (jobs (run_all job_step empty_db
      [Enqueue ''a'' 5 demo_new_job, Claim ''w'' 10, Finish ''a'' JNull 20]))
   \<and> map j_status (jobs (run_all job_step empty_db
      [Enqueue ''a'' 5 demo_new_job, Claim ''w'' 10, Finish ''a'' JNull 20])) = [Succeeded]"
proof
  show "list_all job_ok (jobs (run_all job_step empty_db
      [Enqueue ''a'' 5 demo_new_job, Claim ''w'' 10, Finish ''a'' JNull 20]))"
    using job_rows_well_formed [of empty_db
        "[Enqueue ''a'' 5 demo_new_job, Claim ''w'' 10, Finish ''a'' JNull 20]"]
    unfolding list_all_iff by (simp add: empty_db_def del: run_all_simps)
  have "trim ''p'' \<noteq> []" "trim ''w'' \<noteq> []" by (simp_all add: trim_def ascii_ws_def code_of_def)
  then show "map j_status (jobs (run_all job_step empty_db
      [Enqueue ''a'' 5 demo_new_job, Claim ''w'' 10, Finish ''a'' JNull 20])) = [Succeeded]"
    by (simp add: attempt_def result_db_def enqueue_job_def demo_new_job_def validate_non_empty_def
        replayed_job_def empty_db_def insert_job_def claim_next_job_def claimable_def query_job_def
        finish_job_def json_remove_def require_changed_def Let_def)
qed

section \<open>The life cycle\<close>

text \<open>
  C7. A request moves each job along at most one edge of its life cycle (queued to running or
  cancelled, running to queued, succeeded or failed), never lowers its attempts and never
  removes or renames it.
\<close>

theorem job_transitions_legal:
  assumes "jobs_inv d" "job_step d r = Inr t" "j \<in> set (jobs d)"
  shows "\<exists>j' \<in> set (jobs t). j_id j' = j_id j \<and> j_kind j' = j_kind j
    \<and> edge (j_status j) (j_status j') \<and> j_attempts j \<le> j_attempts j'"
proof -
  have "extends d t" using assms(1,2) by (auto simp: jobs_inv_def intro: job_step_extends)
  from extends_rows [OF this assms(3)] show ?thesis by (auto simp: moved_def)
qed

text \<open>What stays of the terminal jobs over a history.\<close>

definition keeps_terminal :: "db \<Rightarrow> db \<Rightarrow> bool" where
  "keeps_terminal d t \<longleftrightarrow> (\<forall>j \<in> set (jobs d). terminal j \<longrightarrow>
     (\<exists>j' \<in> set (jobs t). j' = j\<lparr>j_vm := j_vm j'\<rparr>))"

lemma keeps_terminal_step: "extends d t \<Longrightarrow> keeps_terminal d t"
  unfolding keeps_terminal_def by (auto dest!: extends_rows simp: moved_def)

lemma terminal_unlink: "j' = j\<lparr>j_vm := x\<rparr> \<Longrightarrow> terminal j' = terminal j"
  by (simp add: terminal_def)

lemma keeps_terminal_trans: "keeps_terminal d t \<Longrightarrow> keeps_terminal t u \<Longrightarrow> keeps_terminal d u"
  unfolding keeps_terminal_def
proof (intro ballI impI)
  fix j assume a: "\<forall>j \<in> set (jobs d). terminal j \<longrightarrow> (\<exists>j' \<in> set (jobs t). j' = j\<lparr>j_vm := j_vm j'\<rparr>)"
    and b: "\<forall>j \<in> set (jobs t). terminal j \<longrightarrow> (\<exists>j' \<in> set (jobs u). j' = j\<lparr>j_vm := j_vm j'\<rparr>)"
    and j: "j \<in> set (jobs d)" "terminal j"
  from a j obtain j1 where j1: "j1 \<in> set (jobs t)" "j1 = j\<lparr>j_vm := j_vm j1\<rparr>" by blast
  with b j(2) terminal_unlink [OF j1(2)] obtain j2 where j2: "j2 \<in> set (jobs u)" "j2 = j1\<lparr>j_vm := j_vm j2\<rparr>"
    by blast
  have "j2 = j\<lparr>j_vm := j_vm j2\<rparr>"
    by (subst j2(2), subst j1(2)) simp
  with j2(1) show "\<exists>j' \<in> set (jobs u). j' = j\<lparr>j_vm := j_vm j'\<rparr>" by blast
qed

text \<open>
  A finished job is final: through any history of requests, recovery included, a
  succeeded, failed or cancelled job keeps its status, result, error, payload, attempts and
  times; only the reference to its VM may be cleared, when the VM is deleted.
\<close>

theorem terminal_jobs_final:
  assumes "jobs_inv d" "j \<in> set (jobs d)" "terminal j"
  shows "\<exists>j' \<in> set (jobs (run_all job_step d rs)). j' = j\<lparr>j_vm := j_vm j'\<rparr>"
proof -
  have "keeps_terminal d (run_all job_step d rs)"
  proof (rule job_queue.run_all_rel)
    show "keeps_terminal s s" for s by (rule keeps_terminal_step) simp
    show "keeps_terminal s u" if "keeps_terminal s t" "keeps_terminal t u" for s t u
      by (rule keeps_terminal_trans [OF that])
    show "keeps_terminal s t" if "jobs_inv s" "job_step s a = Inr t" for s t a
      using that by (auto simp: jobs_inv_def intro: keeps_terminal_step job_step_extends)
  qed (use assms in auto)
  with assms(2,3) show ?thesis by (simp add: keeps_terminal_def)
qed

text \<open>A database with one queued job, for the witnesses.\<close>

definition demo_job :: job_row where
  "demo_job = \<lparr>j_id = ''j1'', j_kind = ''vm.power'', j_vm = None, j_status = Queued,
     j_payload = JObj [], j_result = None, j_error = None, j_progress = 0, j_key = None,
     j_attempts = 0, j_max_attempts = 1, j_run_after = 10, j_locked_by = None,
     j_locked_at = None, j_actor_type = None, j_actor_id = None, j_created_at = 10,
     j_updated_at = 10, j_finished_at = None\<rparr>"

definition demo_db :: "job_row list \<Rightarrow> db" where
  "demo_db js = empty_db\<lparr>jobs := js\<rparr>"

lemma demo_inv: "job_ok j \<Longrightarrow> jobs_inv (demo_db [j])"
  by (simp add: jobs_inv_def demo_db_def keys_distinct_def)

lemma job_transitions_legal_witness:
  "\<exists>j' \<in> set (jobs (demo_db [recovered 20 (demo_job\<lparr>j_status := Running, j_attempts := 1,
      j_locked_by := Some ''w'', j_locked_at := Some 12\<rparr>)])). edge Running (j_status j')"
  using job_transitions_legal [of "demo_db [demo_job\<lparr>j_status := Running, j_attempts := 1,
      j_locked_by := Some ''w'', j_locked_at := Some 12\<rparr>]" "Recover 20"
      "demo_db [recovered 20 (demo_job\<lparr>j_status := Running, j_attempts := 1,
      j_locked_by := Some ''w'', j_locked_at := Some 12\<rparr>)]"]
  by (simp add: demo_inv job_ok_def demo_job_def demo_db_def empty_db_def
      result_db_def recover_interrupted_jobs_def clean_exhausted_reinstalls_def
      requeue_interrupted_def delete_finalizer_def clear_orphaned_generations_def
      mark_failed_vms_def mark_failed_snapshots_def mark_failed_tools_def fail_exhausted_def
      exhausted_def recovered_def fail_row_def Let_def)

lemma terminal_jobs_final_witness:
  "\<exists>j' \<in> set (jobs (run_all job_step (demo_db [demo_job\<lparr>j_status := Cancelled, j_finished_at := Some 11\<rparr>])
      [Claim ''w'' 50, Recover 60])). j_status j' = Cancelled"
proof -
  let ?j = "demo_job\<lparr>j_status := Cancelled, j_finished_at := Some 11\<rparr>"
  have ok: "job_ok ?j" by (simp add: job_ok_def demo_job_def json_get_def)
  obtain j' where j': "j' \<in> set (jobs (run_all job_step (demo_db [?j]) [Claim ''w'' 50, Recover 60]))"
      "j' = ?j\<lparr>j_vm := j_vm j'\<rparr>"
    using terminal_jobs_final [OF demo_inv [OF ok], of ?j "[Claim ''w'' 50, Recover 60]"]
    by (auto simp: demo_db_def terminal_def)
  have "j_status j' = Cancelled" by (subst j'(2)) simp
  with j'(1) show ?thesis by blast
qed

section \<open>Claiming\<close>

definition claimed :: "string \<Rightarrow> timestamp \<Rightarrow> job_row \<Rightarrow> job_row" where
  "claimed worker now j = j\<lparr>j_status := Running, j_attempts := j_attempts j + 1,
     j_locked_by := Some worker, j_locked_at := Some now, j_updated_at := now\<rparr>"

lemma claim_Inr:
  assumes "jobs_inv d" "claim_next_job worker now d = Inr (t, x)"
  shows "(x = None \<and> t = d \<and> (\<forall>j \<in> set (jobs d). \<not> claimable now j))
    \<or> (\<exists>j \<in> set (jobs d). claimable now j
         \<and> (\<forall>k \<in> set (jobs d). claimable now k \<longrightarrow>
              (j_run_after j, j_created_at j) \<le> (j_run_after k, j_created_at k))
         \<and> x = Some (claimed worker now j)
         \<and> t = d\<lparr>jobs := update_where (\<lambda>k. j_id k = j_id j) (claimed worker now) (jobs d)\<rparr>)"
proof (cases "select_least (\<lambda>j. (j_run_after j, j_created_at j)) (filter (claimable now) (jobs d))")
  case None
  then have "filter (claimable now) (jobs d) = []" by (simp add: select_least_None)
  then show ?thesis
    using assms(2) None by (auto simp: claim_next_job_def result_simps filter_empty_conv)
next
  case (Some c)
  from select_least_Some [OF Some] have c: "c \<in> set (jobs d)" "claimable now c"
    "\<And>k. k \<in> set (jobs d) \<Longrightarrow> claimable now k \<Longrightarrow>
       (j_run_after c, j_created_at c) \<le> (j_run_after k, j_created_at k)" by auto
  have d: "distinct (map j_id (jobs d))" using assms(1) by (simp add: jobs_inv_def)
  have same: "k = c" if "k \<in> set (jobs d)" "j_id k = j_id c" for k
    using d c(1) that by (metis distinct_map inj_onD)
  let ?p = "\<lambda>k. j_id k = j_id c \<and> j_status k = Queued"
  have pos: "count_where ?p (jobs d) \<noteq> 0"
    using c(1,2) by (auto simp: count_where_0 claimable_def)
  have eq: "update_where ?p f (jobs d) = update_where (\<lambda>k. j_id k = j_id c) f (jobs d)" for f
    using same c(2) by (force simp: update_where_def claimable_def)
  have q: "query_job (d\<lparr>jobs := update_where (\<lambda>k. j_id k = j_id c) (claimed worker now) (jobs d)\<rparr>) (j_id c)
      = Some (claimed worker now c)"
    unfolding query_job_def
  proof (rule select_one_unique)
    show "claimed worker now c
      \<in> set (jobs (d\<lparr>jobs := update_where (\<lambda>k. j_id k = j_id c) (claimed worker now) (jobs d)\<rparr>))"
      using c(1) by (auto simp: set_update_where)
  qed (use same in \<open>auto simp: claimed_def set_update_where split: if_splits\<close>)
  have "x = Some (claimed worker now c)
      \<and> t = d\<lparr>jobs := update_where (\<lambda>k. j_id k = j_id c) (claimed worker now) (jobs d)\<rparr>"
    using assms(2) Some pos q
    by (auto simp: claim_next_job_def result_simps Let_def eq claimed_def [abs_def])
  with c show ?thesis by blast
qed

text \<open>
  Claiming takes the right job and reports the truth: the worker gets the claimable job
  that is due first (then the one created first), locked in its name with one more attempt,
  and no other row changes; it gets none exactly when no job is claimable.
\<close>

theorem claim_takes_first_due:
  assumes "jobs_inv d" "claim_next_job worker now d = Inr (t, x)"
  shows "(x = None) = (\<forall>j \<in> set (jobs d). \<not> claimable now j)
    \<and> (\<forall>c. x = Some c \<longrightarrow> j_status c = Running \<and> j_locked_by c = Some worker
         \<and> (\<exists>j \<in> set (jobs d). claimable now j \<and> j_id c = j_id j \<and> j_attempts c = j_attempts j + 1
              \<and> (\<forall>k \<in> set (jobs d). claimable now k \<longrightarrow>
                   j_run_after j < j_run_after k
                   \<or> (j_run_after j = j_run_after k \<and> j_created_at j \<le> j_created_at k))
              \<and> filter (\<lambda>k. j_id k \<noteq> j_id j) (jobs t) = filter (\<lambda>k. j_id k \<noteq> j_id j) (jobs d)
              \<and> c \<in> set (jobs t)))"
proof -
  have filt: "filter (\<lambda>k. j_id k \<noteq> i) (update_where (\<lambda>k. j_id k = i) (claimed worker now) js)
      = filter (\<lambda>k. j_id k \<noteq> i) js" for i js
    by (induction js) (auto simp: claimed_def)
  from claim_Inr [OF assms] consider
      "x = None" "t = d" "\<forall>j \<in> set (jobs d). \<not> claimable now j"
    | j where "j \<in> set (jobs d)" "claimable now j" "x = Some (claimed worker now j)"
      "\<forall>k \<in> set (jobs d). claimable now k \<longrightarrow>
         (j_run_after j, j_created_at j) \<le> (j_run_after k, j_created_at k)"
      "t = d\<lparr>jobs := update_where (\<lambda>k. j_id k = j_id j) (claimed worker now) (jobs d)\<rparr>"
    by blast
  then show ?thesis
  proof cases
    case 1
    then show ?thesis by simp
  next
    case 2
    have "claimed worker now j \<in> set (jobs t)" using 2(1,5) by (auto simp: set_update_where)
    then show ?thesis
      using 2 filt [of "j_id j" "jobs d"] by (auto simp: claimed_def less_eq_prod_def intro!: bexI [of _ j])
  qed
qed

lemma demo_job_ok: "job_ok demo_job"
  by (simp add: job_ok_def demo_job_def)

lemma demo_claim:
  "claim_next_job ''w'' 50 (demo_db [demo_job])
    = Inr (demo_db [claimed ''w'' 50 demo_job], Some (claimed ''w'' 50 demo_job))"
proof -
  have c: "claimable 50 demo_job" "j_status demo_job = Queued"
    by (simp_all add: claimable_def demo_job_def)
  have w: "trim ''w'' \<noteq> []" by (simp add: trim_def ascii_ws_def code_of_def)
  show ?thesis
    by (simp add: claim_next_job_def validate_non_empty_def w demo_db_def c Let_def query_job_def
        claimed_def)
qed

lemma claim_takes_first_due_witness:
  "j_locked_by (claimed ''w'' 50 demo_job) = Some ''w''"
  using claim_takes_first_due [OF demo_inv [OF demo_job_ok] demo_claim] by blast

text \<open>The ids a list of claims hands out.\<close>

fun claim_all :: "db \<Rightarrow> (string \<times> timestamp) list \<Rightarrow> string list" where
  "claim_all d [] = []"
| "claim_all d ((worker, now) # cs) =
     (case claim_next_job worker now d of
        Inl _ \<Rightarrow> claim_all d cs
      | Inr (t, None) \<Rightarrow> claim_all t cs
      | Inr (t, Some c) \<Rightarrow> j_id c # claim_all t cs)"

definition queued_ids :: "db \<Rightarrow> string set" where
  "queued_ids d = j_id ` set (filter (\<lambda>j. j_status j = Queued) (jobs d))"

lemma claim_queued_ids:
  assumes "jobs_inv d" "claim_next_job worker now d = Inr (t, Some c)"
  shows "j_id c \<in> queued_ids d" "queued_ids t = queued_ids d - {j_id c}"
proof -
  obtain j where j: "j \<in> set (jobs d)" "claimable now j" "c = claimed worker now j"
    "t = d\<lparr>jobs := update_where (\<lambda>k. j_id k = j_id j) (claimed worker now) (jobs d)\<rparr>"
    using claim_Inr [OF assms] by auto
  have i: "j_id c = j_id j" "j_status (claimed worker now k) = Running" for k
    by (simp_all add: j(3) claimed_def)
  show "j_id c \<in> queued_ids d"
    using j(1,2) i by (auto simp: queued_ids_def claimable_def)
  have "claimed worker now k \<noteq> k" if "j_status k = Queued" for k
    using i(2) [of k] that by auto
  then show "queued_ids t = queued_ids d - {j_id c}"
    using i by (auto simp: queued_ids_def j(4) set_update_where split: if_splits)
qed

lemma claim_all_ids: "jobs_inv d \<Longrightarrow> distinct (claim_all d cs) \<and> set (claim_all d cs) \<subseteq> queued_ids d"
proof (induction cs arbitrary: d)
  case Nil
  then show ?case by simp
next
  case (Cons x cs)
  obtain worker now where x: "x = (worker, now)" by fastforce
  show ?case
  proof (cases "claim_next_job worker now d")
    case (Inl e)
    then show ?thesis using Cons by (simp add: x)
  next
    case (Inr r)
    obtain t y where r: "r = (t, y)" by fastforce
    have inv: "jobs_inv t"
      by (rule job_queue.step_inv [OF Cons.prems, of "Claim worker now"])
        (simp_all add: result_db_def Inr r)
    show ?thesis
    proof (cases y)
      case None
      then have "t = d" using claim_Inr [OF Cons.prems Inr [unfolded r]] by auto
      then show ?thesis using Cons Inr r None by (simp add: x)
    next
      case (Some c)
      note q = claim_queued_ids [OF Cons.prems Inr [unfolded r Some]]
      show ?thesis using Cons.IH [OF inv] q by (auto simp: x Inr r Some)
    qed
  qed
qed

text \<open>
  C4. No job is handed out twice: whatever the workers and their clocks, the jobs that a
  series of claims returns are pairwise different and were queued before.
\<close>

theorem claims_exclusive:
  assumes "jobs_inv d"
  shows "distinct (claim_all d cs) \<and> set (claim_all d cs) \<subseteq> queued_ids d"
  using assms by (rule claim_all_ids)

lemma claims_exclusive_witness:
  "distinct (claim_all (demo_db [demo_job]) [(''a'', 50), (''b'', 60)])"
  using claims_exclusive [OF demo_inv [OF demo_job_ok]] by blast

section \<open>One active reinstall and one active delete per VM\<close>

definition active_on :: "string \<Rightarrow> string \<Rightarrow> job_row \<Rightarrow> bool" where
  "active_on kind vm j \<longleftrightarrow> j_kind j = kind \<and> j_vm j = Some vm \<and> active j"

definition single_active :: "string \<Rightarrow> db \<Rightarrow> bool" where
  "single_active kind d \<longleftrightarrow> (\<forall>vm. count_where (active_on kind vm) (jobs d) \<le> 1)"

text \<open>The generic entry point is not used for the two kinds that have their own.\<close>

fun proper_request :: "job_request \<Rightarrow> bool" where
  "proper_request (Enqueue f now r) = (nj_kind r \<notin> {''vm.reinstall'', ''vm.delete''})"
| "proper_request _ = True"

lemma length_update_jobs:
  "claim_next_job w now d = Inr (t, x) \<Longrightarrow> length (jobs t) = length (jobs d)"
  "update_job_progress i p now d = Inr (t, u) \<Longrightarrow> length (jobs t) = length (jobs d)"
  "finish_job i r now d = Inr (t, u) \<Longrightarrow> length (jobs t) = length (jobs d)"
  "fail_job i e retry now d = Inr (t, j) \<Longrightarrow> length (jobs t) = length (jobs d)"
  "commit_reinstall_password i now d = Inr (t, u) \<Longrightarrow> length (jobs t) = length (jobs d)"
  "recover_interrupted_jobs now d = Inr (t, y) \<Longrightarrow> length (jobs t) = length (jobs d)"
  "delete_vm v now d = Inr (t, u) \<Longrightarrow> length (jobs t) = length (jobs d)"
  by (auto simp: claim_next_job_def update_job_progress_def finish_job_def fail_job_def
      commit_reinstall_password_def jobs_recover delete_vm_def delete_vm_rows_def
      result_simps Let_def split: option.splits if_splits)

lemma length_cancel: "cancel_job i now d = Inr (t, u) \<Longrightarrow> length (jobs t) = length (jobs d)"
  by (auto simp: cancel_job_def delete_vm_rows_def result_simps Let_def split: option.splits if_splits)

lemma select_least_filter_None:
  "select_least k (filter p xs) = None \<Longrightarrow> \<forall>x \<in> set xs. \<not> p x"
  by (simp add: select_least_None filter_empty_conv)

lemma delete_Inr:
  assumes "enqueue_delete_job f now r d = Inr (t, j)"
  shows "t = d \<or> (\<exists>vm. nj_vm r = Some vm \<and> nj_kind r = ''vm.delete''
     \<and> (\<forall>j \<in> set (jobs d). \<not> active_on ''vm.delete'' vm j)
     \<and> insert_job f now r (nj_key r) (nj_payload r) d = Inr (t, j))"
proof -
  obtain vm hit where r: "nj_kind r = ''vm.delete''" "nj_vm r = Some vm"
    "(case hit of Some j \<Rightarrow> Inr (d, j)
       | None \<Rightarrow>
         (case select_least j_created_at
            (filter (\<lambda>j. j_kind j = ''vm.delete'' \<and> j_vm j = Some vm \<and> active j) (jobs d)) of
            Some j \<Rightarrow> Inr (d, j)
          | None \<Rightarrow> insert_job f now r (nj_key r) (nj_payload r) d)) = Inr (t, j)"
    using assms by (auto simp: enqueue_delete_job_def result_simps)
  show ?thesis
  proof (cases hit)
    case None
    show ?thesis
    proof (cases "select_least j_created_at
        (filter (\<lambda>j. j_kind j = ''vm.delete'' \<and> j_vm j = Some vm \<and> active j) (jobs d))")
      case none: None
      with None r select_least_filter_None [OF none] show ?thesis by (auto simp: active_on_def)
    qed (use None r in auto)
  qed (use r in auto)
qed

text \<open>Either no row is added, or one row whose kind, if protected, was not active.\<close>

lemma job_step_new_row:
  assumes "job_step d r = Inr t" "proper_request r"
  shows "length (jobs t) = length (jobs d)
    \<or> (\<exists>j. jobs t = jobs d @ [j] \<and> (\<forall>vm. j_kind j \<in> {''vm.reinstall'', ''vm.delete''}
          \<longrightarrow> j_vm j = Some vm \<longrightarrow> (\<forall>i \<in> set (jobs d). \<not> active_on (j_kind j) vm i)))"
  using assms
proof (cases r)
  case (Enqueue f now n)
  with assms show ?thesis
    by (auto simp: result_db_Inr enqueue_job_def result_simps dest!: insert_job_Inr split: option.splits)
next
  case (EnqueueBootstrap f now n)
  with assms show ?thesis
    by (auto simp: result_db_Inr enqueue_bootstrap_job_def result_simps Let_def
        dest!: insert_job_Inr split: option.splits)
next
  case (EnqueueDelete f now n)
  with assms show ?thesis
    by (auto simp: result_db_Inr dest!: delete_Inr insert_job_Inr)
next
  case (EnqueueReinstall f now n e s)
  with assms obtain j where "enqueue_reinstall_job f now n e s d = Inr (t, j)"
    by (auto simp: result_db_Inr)
  from enqueue_reinstall_Inr [OF this] show ?thesis
    by (auto dest!: insert_job_Inr simp: active_on_def)
qed (auto simp: result_db_Inr intro: length_update_jobs length_cancel)

lemma active_on_moved: "moved j j' \<Longrightarrow> active_on k vm j' \<Longrightarrow> active_on k vm j"
  by (cases "j_status j") (auto simp: moved_def active_on_def active_def)

lemma count_moved:
  "list_all2 moved js js' \<Longrightarrow> count_where (active_on k vm) js' \<le> count_where (active_on k vm) js"
  by (induction rule: list_all2_induct) (auto dest: active_on_moved)

lemma single_active_step:
  assumes "jobs_inv d" "job_step d r = Inr t" "proper_request r"
    and "single_active k d" "k \<in> {''vm.reinstall'', ''vm.delete''}"
  shows "single_active k t"
proof -
  have "extends d t" using assms(1,2) by (simp add: jobs_inv_def job_step_extends)
  then obtain js where js: "list_all2 moved (jobs d) js" "jobs t = js \<or> (\<exists>j. jobs t = js @ [j])"
    by (auto simp: extends_def)
  note len = list_all2_lengthD [OF js(1)]
  from job_step_new_row [OF assms(2,3)] show ?thesis
  proof
    assume "length (jobs t) = length (jobs d)"
    with js(2) len have "jobs t = js" by auto
    then show ?thesis
      using count_moved [OF js(1)] assms(4) unfolding single_active_def by (metis order_trans)
  next
    assume "\<exists>j. jobs t = jobs d @ [j] \<and> (\<forall>vm. j_kind j \<in> {''vm.reinstall'', ''vm.delete''}
          \<longrightarrow> j_vm j = Some vm \<longrightarrow> (\<forall>i \<in> set (jobs d). \<not> active_on (j_kind j) vm i))"
    then obtain j where j: "jobs t = jobs d @ [j]"
      "\<And>vm. j_kind j = k \<Longrightarrow> j_vm j = Some vm \<Longrightarrow> \<forall>i \<in> set (jobs d). \<not> active_on k vm i"
      using assms(5) by auto
    show ?thesis
      unfolding single_active_def
    proof
      fix vm
      show "count_where (active_on k vm) (jobs t) \<le> 1"
      proof (cases "active_on k vm j")
        case True
        then have "\<forall>i \<in> set (jobs d). \<not> active_on k vm i" using j(2) by (auto simp: active_on_def)
        then have "count_where (active_on k vm) (jobs d) = 0" by (simp add: count_where_0)
        then show ?thesis by (simp add: j(1))
      next
        case False
        then show ?thesis using assms(4) by (simp add: j(1) single_active_def)
      qed
    qed
  qed
qed

definition exclusive_inv :: "db \<Rightarrow> bool" where
  "exclusive_inv d \<longleftrightarrow> jobs_inv d \<and> single_active ''vm.reinstall'' d \<and> single_active ''vm.delete'' d"

interpretation exclusive_jobs: guarded_machine job_step exclusive_inv proper_request
proof
  fix d r t
  assume a: "exclusive_inv d" "proper_request r" "job_step d r = Inr t"
  then show "exclusive_inv t"
    by (auto simp: exclusive_inv_def intro: single_active_step job_queue.step_inv)
qed

text \<open>
  C5. Destructive work on a VM is exclusive: as long as reinstalls and deletes are enqueued
  through their own entry points, no history of requests, retries and recoveries brings two
  reinstalls, or two deletes, of one VM to be queued or running together.
\<close>

theorem destructive_jobs_exclusive:
  assumes "jobs d = []" "\<forall>r \<in> set rs. proper_request r" "kind \<in> {''vm.reinstall'', ''vm.delete''}"
  shows "count_where (\<lambda>j. j_kind j = kind \<and> j_vm j = Some vm \<and> active j)
    (jobs (run_all job_step d rs)) \<le> 1"
proof -
  have "exclusive_inv d" using assms(1) by (simp add: exclusive_inv_def jobs_inv_def
      keys_distinct_def single_active_def)
  then have "exclusive_inv (run_all job_step d rs)" by (rule exclusive_jobs.run_all_inv [OF _ assms(2)])
  then show ?thesis
    using assms(3) by (auto simp: exclusive_inv_def single_active_def active_on_def [abs_def])
qed

text \<open>
  Three deletions of one VM are asked for, the last while the first runs: one job answers them all. Of
  two reinstalls the second is refused.
\<close>

definition destructive :: "string \<Rightarrow> new_job" where
  "destructive kind = \<lparr>nj_kind = kind, nj_vm = Some ''v1'', nj_payload = JObj [], nj_key = None,
     nj_run_after = None, nj_max_attempts = 3, nj_actor_type = None, nj_actor_id = None\<rparr>"

definition demo_destruction :: "job_request list" where
  "demo_destruction = [EnqueueDelete ''a'' 5 (destructive ''vm.delete''), EnqueueDelete ''b'' 6 (destructive ''vm.delete''),
     Claim ''w'' 10, EnqueueDelete ''c'' 11 (destructive ''vm.delete''),
     EnqueueReinstall ''d'' 12 (destructive ''vm.reinstall'') None VmRunning,
     EnqueueReinstall ''e'' 13 (destructive ''vm.reinstall'') None VmRunning]"

definition one_vm_db :: db where
  "one_vm_db = empty_db\<lparr>vms := [sample_vm ''v1'' ''web'']\<rparr>"

lemma destructive_jobs_exclusive_witness:
  "count_where (\<lambda>j. j_kind j = ''vm.delete'' \<and> j_vm j = Some ''v1'' \<and> active j)
      (jobs (run_all job_step one_vm_db demo_destruction)) \<le> 1
   \<and> count_where (\<lambda>j. j_kind j = ''vm.reinstall'' \<and> j_vm j = Some ''v1'' \<and> active j)
      (jobs (run_all job_step one_vm_db demo_destruction)) \<le> 1
   \<and> map (\<lambda>j. (j_id j, j_kind j, j_vm j, j_status j)) (jobs (run_all job_step one_vm_db demo_destruction))
     = [(''a'', ''vm.delete'', Some ''v1'', Running), (''d'', ''vm.reinstall'', Some ''v1'', Queued)]"
proof (intro conjI)
  have start: "jobs one_vm_db = []" "\<forall>r \<in> set demo_destruction. proper_request r"
    by (simp_all add: one_vm_db_def empty_db_def demo_destruction_def)
  show "count_where (\<lambda>j. j_kind j = ''vm.delete'' \<and> j_vm j = Some ''v1'' \<and> active j)
      (jobs (run_all job_step one_vm_db demo_destruction)) \<le> 1"
    by (rule destructive_jobs_exclusive [OF start]) simp
  show "count_where (\<lambda>j. j_kind j = ''vm.reinstall'' \<and> j_vm j = Some ''v1'' \<and> active j)
      (jobs (run_all job_step one_vm_db demo_destruction)) \<le> 1"
    by (rule destructive_jobs_exclusive [OF start]) simp
  show "map (\<lambda>j. (j_id j, j_kind j, j_vm j, j_status j)) (jobs (run_all job_step one_vm_db demo_destruction))
     = [(''a'', ''vm.delete'', Some ''v1'', Running), (''d'', ''vm.reinstall'', Some ''v1'', Queued)]"
    by code_simp
qed

section \<open>Recovery\<close>

definition retried :: "job_row \<Rightarrow> bool" where
  "retried j \<longleftrightarrow> j_status j = Running \<and> j_attempts j < j_max_attempts j"

lemma recover_counts:
  assumes "recover_interrupted_jobs now d = Inr (t, (requeued, failed))"
  shows "requeued = count_where (\<lambda>j. delete_finalizer j \<or> retried j) (jobs d)
    \<and> failed = count_where (\<lambda>j. exhausted j \<and> \<not> delete_finalizer j) (jobs d)"
proof -
  let ?jobs1 = "update_where delete_finalizer (finalize now) (jobs d)"
  have c: "requeued = count_where delete_finalizer (jobs d) + count_where retried ?jobs1"
    "failed = count_where exhausted (update_where retried (requeue now) ?jobs1)"
    using assms by (auto simp: recover_interrupted_jobs_def requeue_interrupted_def
        fail_exhausted_def Let_def finalize_def [abs_def] retried_def [abs_def])
  have q: "\<not> exhausted (requeue now j)" "\<not> exhausted (finalize now j)" "\<not> retried (finalize now j)" for j
    by (simp_all add: exhausted_def retried_def)
  have e: "retried j \<Longrightarrow> \<not> exhausted j" for j by (simp add: exhausted_def retried_def)
  have "count_where delete_finalizer js + count_where retried (update_where delete_finalizer (finalize now) js)
      = count_where (\<lambda>j. delete_finalizer j \<or> retried j) js" for js
    by (induction js) (auto simp: q)
  moreover have "count_where exhausted (update_where retried (requeue now)
        (update_where delete_finalizer (finalize now) js))
      = count_where (\<lambda>j. exhausted j \<and> \<not> delete_finalizer j) js" for js
    by (induction js) (auto simp: q dest: e)
  ultimately show ?thesis by (simp add: c)
qed

text \<open>
  Recovery resolves every interrupted job: afterwards no job is running; each job that
  was running is queued again with attempts left, or failed with no attempts left and its
  staged password removed; jobs that were not running are unchanged; and the two numbers it
  returns add up to the interrupted jobs.
\<close>

theorem recovery_complete:
  assumes "jobs_inv d" "recover_interrupted_jobs now d = Inr (t, (requeued, failed))"
  shows "(\<forall>j \<in> set (jobs t). j_status j \<noteq> Running) \<and> list_all2 (\<lambda>j j'.
      (if j_status j = Running
       then (j_status j' = Queued \<and> j_attempts j' < j_max_attempts j')
         \<or> (j_status j' = Failed \<and> j_max_attempts j \<le> j_attempts j
             \<and> json_get staged_password_field (j_payload j') = None)
       else j' = j)) (jobs d) (jobs t)
    \<and> requeued + failed = count_where (\<lambda>j. j_status j = Running) (jobs d)"
proof (intro conjI)
  have t: "jobs t = map (recovered now) (jobs d)" by (rule jobs_recover [OF assms(2)])
  have "j_status (recovered now j) \<noteq> Running" for j
    using recovered_status [of j now] recovered_other [of j now] by (cases "j_status j = Running") auto
  then show "\<forall>j \<in> set (jobs t). j_status j \<noteq> Running" by (auto simp: t)
  show "list_all2 (\<lambda>j j'. (if j_status j = Running
       then (j_status j' = Queued \<and> j_attempts j' < j_max_attempts j')
         \<or> (j_status j' = Failed \<and> j_max_attempts j \<le> j_attempts j
             \<and> json_get staged_password_field (j_payload j') = None)
       else j' = j)) (jobs d) (jobs t)"
    unfolding t list_all2_map2
    by (rule list_all2_refl)
      (simp add: recovered_other, simp add: recovered_def finalize_def requeue_def fail_row_def
        exhausted_def delete_finalizer_def)
  have "count_where (\<lambda>j. delete_finalizer j \<or> retried j) js
      + count_where (\<lambda>j. exhausted j \<and> \<not> delete_finalizer j) js
      = count_where (\<lambda>j. j_status j = Running) js" for js
    by (induction js) (auto simp: retried_def exhausted_def delete_finalizer_def)
  with recover_counts [OF assms(2)]
  show "requeued + failed = count_where (\<lambda>j. j_status j = Running) (jobs d)" by simp
qed

definition demo_running :: job_row where
  "demo_running = demo_job\<lparr>j_status := Running, j_attempts := 1, j_locked_by := Some ''w'',
     j_locked_at := Some 12\<rparr>"

lemma demo_recover:
  "recover_interrupted_jobs 20 (demo_db [demo_running]) = Inr (demo_db [fail_row 20 demo_running], (0, 1))"
proof -
  have r: "exhausted demo_running" "\<not> delete_finalizer demo_running"
    "j_kind demo_running = ''vm.power''" "\<not> j_attempts demo_running < j_max_attempts demo_running"
    by (simp_all add: exhausted_def delete_finalizer_def demo_running_def demo_job_def)
  show ?thesis
    by (simp add: recover_interrupted_jobs_def clean_exhausted_reinstalls_def
        requeue_interrupted_def clear_orphaned_generations_def mark_failed_vms_def
        mark_failed_snapshots_def mark_failed_tools_def fail_exhausted_def demo_db_def
        empty_db_def r fail_row_def Let_def)
qed

lemma recovery_complete_witness:
  "list_all (\<lambda>j. j_status j \<noteq> Running) (jobs (demo_db [fail_row 20 demo_running]))"
proof -
  have "job_ok demo_running" by (simp add: job_ok_def demo_running_def demo_job_def)
  from recovery_complete [OF demo_inv [OF this] demo_recover] show ?thesis
    unfolding list_all_iff by blast
qed

section \<open>Idempotent requests\<close>

lemma replayed_after_insert:
  assumes "insert_job f now r (Some k) p d = Inr (t, j)" "nj_key r = Some k" "strip p = nj_payload r"
  shows "replayed_job strip r t = Inr (Some j)"
proof -
  note i = insert_job_Inr [OF assms(1)]
  have "select_one (\<lambda>j. j_key j = Some k) (jobs d) = None"
    using i by (auto simp: select_one_None new_row_for_def)
  then have "select_one (\<lambda>j. j_key j = Some k) (jobs t) = Some j"
    using i by (simp add: select_one_append)
  then show ?thesis using assms(2,3) i by (simp add: replayed_job_def)
qed

lemma replayed_job_again: "replayed_job strip r d = Inr (Some j) \<Longrightarrow> nj_key r \<noteq> None"
  by (auto simp: replayed_job_def split: option.splits)

lemma staged_payload_Inr:
  "staged_payload p e = Inr q \<Longrightarrow> json_get staged_password_field p = None \<Longrightarrow>
   without_staged_password q = p"
  by (auto simp: staged_payload_def result_simps without_staged_password_def json_remove_set
      json_remove_absent split: option.splits json.splits)

text \<open>
  Idempotency keys work: repeating a request with a key, at any later time and with
  another fresh id, returns the same job and changes nothing; for a reinstall also when a
  password is staged, which the comparison of payloads leaves out.
\<close>

theorem enqueue_idempotent:
  assumes "nj_key r \<noteq> None"
  shows "(enqueue_job f now r d = Inr (t, j) \<longrightarrow> enqueue_job f' now' r t = Inr (t, j))
    \<and> (enqueue_reinstall_job f now r e s d = Inr (t, j) \<longrightarrow>
         enqueue_reinstall_job f' now' r e s' t = Inr (t, j))"
proof (intro conjI impI)
  obtain k where k: "nj_key r = Some k" using assms by auto
  show "enqueue_job f' now' r t = Inr (t, j)" if "enqueue_job f now r d = Inr (t, j)"
    using that replayed_after_insert [OF _ k]
    by (auto simp: enqueue_job_def result_simps k split: option.splits)
  show "enqueue_reinstall_job f' now' r e s' t = Inr (t, j)"
    if q: "enqueue_reinstall_job f now r e s d = Inr (t, j)"
  proof -
    have pre: "nj_kind r = ''vm.reinstall''" "\<exists>vm. nj_vm r = Some vm"
      "json_get staged_password_field (nj_payload r) = None"
      "\<not> (e \<noteq> None \<and> get_flag ''clear_password_after_success'' (nj_payload r))"
      "\<exists>p. staged_payload (nj_payload r) e = Inr p"
      using q by (auto simp: enqueue_reinstall_job_def result_simps)
    have "replayed_job without_staged_password r t = Inr (Some j)"
      using enqueue_reinstall_Inr [OF q] replayed_after_insert [OF _ k] staged_payload_Inr [OF _ pre(3)] k
      by auto
    with pre show ?thesis by (auto simp: enqueue_reinstall_job_def)
  qed
qed

lemma enqueue_idempotent_witness:
  "\<exists>t j. enqueue_job ''a'' 5 demo_new_job empty_db = Inr (t, j)
     \<and> enqueue_job ''b'' 9 demo_new_job t = Inr (t, j)"
proof -
  have "trim ''p'' \<noteq> []" by (simp add: trim_def ascii_ws_def code_of_def)
  then have "\<exists>x. enqueue_job ''a'' 5 demo_new_job empty_db = Inr x"
    by (simp add: enqueue_job_def demo_new_job_def validate_non_empty_def
        replayed_job_def empty_db_def insert_job_def Let_def)
  then obtain t j where e: "enqueue_job ''a'' 5 demo_new_job empty_db = Inr (t, j)" by auto
  have "enqueue_job ''b'' 9 demo_new_job t = Inr (t, j)"
    using enqueue_idempotent [of demo_new_job "''a''" 5 empty_db t j "''b''" 9] e
    by (simp add: demo_new_job_def)
  with e show ?thesis by blast
qed

end
