(* ===== verification/Secret_Envelope.thy ===== *)
theory Secret_Envelope
  imports App_Error
begin

text \<open>
  \<open>src/security.rs\<close>: envelope encryption of secrets at rest and bearer tokens. AES-256-GCM,
  SHA-256, URL-safe base64 and the JSON of the envelope are third-party code, the fields of
  the record \<open>seal_lib\<close>; random bytes are arguments. Argon2 password hashing is not modelled
  beyond the length checks.
\<close>

text \<open>\<open>String::from_utf8\<close>: the well-formed UTF-8 sequences.\<close>

definition continuation :: "int \<Rightarrow> int \<Rightarrow> char \<Rightarrow> bool" where
  "continuation lo hi c \<longleftrightarrow> lo \<le> code_of c \<and> code_of c \<le> hi"

fun valid_utf8 :: "string \<Rightarrow> bool" where
  "valid_utf8 [] = True"
| "valid_utf8 (a # s) =
     (let n = code_of a in
      if n < 128 then valid_utf8 s
      else if 194 \<le> n \<and> n \<le> 223 then
        (case s of b # t \<Rightarrow> continuation 128 191 b \<and> valid_utf8 t | _ \<Rightarrow> False)
      else if 224 \<le> n \<and> n \<le> 239 then
        (case s of b # c # t \<Rightarrow>
           continuation (if n = 224 then 160 else 128) (if n = 237 then 159 else 191) b
           \<and> continuation 128 191 c \<and> valid_utf8 t | _ \<Rightarrow> False)
      else if 240 \<le> n \<and> n \<le> 244 then
        (case s of b # c # d # t \<Rightarrow>
           continuation (if n = 240 then 144 else 128) (if n = 244 then 143 else 191) b
           \<and> continuation 128 191 c \<and> continuation 128 191 d \<and> valid_utf8 t | _ \<Rightarrow> False)
      else False)"

record envelope =
  env_version :: nat
  env_algorithm :: string
  env_key_nonce :: string
  env_key :: string
  env_data_nonce :: string
  env_ciphertext :: string

record seal_lib =
  url_encode :: "string \<Rightarrow> string"
  url_decode :: "string \<Rightarrow> string option"
  aead_seal :: "string \<Rightarrow> string \<Rightarrow> string \<Rightarrow> string \<Rightarrow> string option"
  aead_open :: "string \<Rightarrow> string \<Rightarrow> string \<Rightarrow> string \<Rightarrow> string option"
  envelope_json :: "envelope \<Rightarrow> string"
  parse_envelope :: "string \<Rightarrow> envelope option"
  token_digest :: "string \<Rightarrow> string"

text \<open>
  Documented behaviour: base64 and JSON read back what they write, AES-GCM opens what it
  sealed and refuses any other associated data.
\<close>

definition seal_laws :: "seal_lib \<Rightarrow> bool" where
  "seal_laws lib \<longleftrightarrow>
     (\<forall>s. url_decode lib (url_encode lib s) = Some s) \<and>
     (\<forall>e. parse_envelope lib (envelope_json lib e) = Some e) \<and>
     (\<forall>k n a m c. aead_seal lib k n a m = Some c \<longrightarrow>
        aead_open lib k n a c = Some m \<and> (\<forall>a'. a' \<noteq> a \<longrightarrow> aead_open lib k n a' c = None))"

definition crypto_error :: "string \<Rightarrow> app_error" where
  "crypto_error m = Internal (''cryptographic operation failed: '' @ m)"

definition max_secret_bytes :: nat where
  "max_secret_bytes = 1024 * 1024"

definition validate_context :: "string \<Rightarrow> app_error + unit" where
  "validate_context c = require (\<not> (c = [] \<or> 512 < length c))
     (Validation ''encryption context must contain between 1 and 512 bytes'')"

definition envelope_aad :: "string \<Rightarrow> string \<Rightarrow> string" where
  "envelope_aad purpose context = ''vexa-vm/envelope/v1/'' @ purpose @ [CHR 0x00] @ context"

definition envelope_algorithm :: string where
  "envelope_algorithm = ''AES-256-GCM+AES-256-GCM''"

text \<open>The random bytes one encryption draws.\<close>

record envelope_random =
  rnd_data_key :: string
  rnd_key_nonce :: string
  rnd_data_nonce :: string

definition encrypt_secret ::
  "seal_lib \<Rightarrow> string \<Rightarrow> envelope_random \<Rightarrow> string \<Rightarrow> string \<Rightarrow> app_error + string" where
  "encrypt_secret lib master rnd plaintext context =
     and_then (validate_context context) (\<lambda>_.
     and_then (require (\<not> max_secret_bytes < length plaintext) (Validation ''secret is too large'')) (\<lambda>_.
     and_then (ok_or (aead_seal lib master (rnd_key_nonce rnd) (envelope_aad ''wrapped-key'' context)
         (rnd_data_key rnd)) (crypto_error ''could not wrap data key'')) (\<lambda>wrapped.
     and_then (ok_or (aead_seal lib (rnd_data_key rnd) (rnd_data_nonce rnd)
         (envelope_aad ''ciphertext'' context) plaintext) (crypto_error ''could not encrypt secret'')) (\<lambda>c.
     Inr (envelope_json lib \<lparr>env_version = 1, env_algorithm = envelope_algorithm,
       env_key_nonce = url_encode lib (rnd_key_nonce rnd), env_key = url_encode lib wrapped,
       env_data_nonce = url_encode lib (rnd_data_nonce rnd),
       env_ciphertext = url_encode lib c\<rparr>)))))"

definition decode_field :: "seal_lib \<Rightarrow> string \<Rightarrow> string \<Rightarrow> app_error + string" where
  "decode_field lib encoded field =
     ok_or (url_decode lib encoded) (crypto_error (''encrypted '' @ field @ '' is malformed''))"

definition decode_fixed :: "seal_lib \<Rightarrow> nat \<Rightarrow> string \<Rightarrow> string \<Rightarrow> app_error + string" where
  "decode_fixed lib n encoded field =
     and_then (decode_field lib encoded field) (\<lambda>b.
     and_then (require (length b = n) (crypto_error (''encrypted '' @ field @ '' has the wrong length'')))
       (\<lambda>_. Inr b))"

definition decrypt_secret :: "seal_lib \<Rightarrow> string \<Rightarrow> string \<Rightarrow> string \<Rightarrow> app_error + string" where
  "decrypt_secret lib master encoded context =
     and_then (validate_context context) (\<lambda>_.
     and_then (require (\<not> max_secret_bytes * 2 < length encoded)
       (crypto_error ''encrypted envelope is too large'')) (\<lambda>_.
     and_then (ok_or (parse_envelope lib encoded) (crypto_error ''encrypted envelope is malformed'')) (\<lambda>e.
     and_then (require (\<not> (env_version e \<noteq> 1 \<or> env_algorithm e \<noteq> envelope_algorithm))
       (crypto_error ''encrypted envelope version is unsupported'')) (\<lambda>_.
     and_then (decode_fixed lib 12 (env_key_nonce e) ''wrapped-key nonce'') (\<lambda>kn.
     and_then (decode_fixed lib 12 (env_data_nonce e) ''data nonce'') (\<lambda>dn.
     and_then (decode_field lib (env_key e) ''wrapped key'') (\<lambda>wrapped.
     and_then (decode_field lib (env_ciphertext e) ''ciphertext'') (\<lambda>c.
     and_then (ok_or (aead_open lib master kn (envelope_aad ''wrapped-key'' context) wrapped)
       (crypto_error ''encrypted secret authentication failed'')) (\<lambda>data_key.
     and_then (require (length data_key = 32)
       (crypto_error ''encrypted data key has the wrong length'')) (\<lambda>_.
     and_then (ok_or (aead_open lib data_key dn (envelope_aad ''ciphertext'' context) c)
       (crypto_error ''encrypted secret authentication failed'')) (\<lambda>p.
     if valid_utf8 p then Inr p
     else Inl (crypto_error ''encrypted secret is not valid UTF-8''))))))))))))"

section \<open>Contexts\<close>

definition vm_password_context :: "string \<Rightarrow> string" where
  "vm_password_context vm = ''vm:'' @ vm @ '':password''"

definition tools_secret_context :: "string \<Rightarrow> string" where
  "tools_secret_context vm = ''vm:'' @ vm @ '':guest-tools''"

definition tools_pending_context :: "string \<Rightarrow> string \<Rightarrow> string" where
  "tools_pending_context vm generation = ''vm:'' @ vm @ '':guest-tools:pending:'' @ generation"

section \<open>Bearer tokens and passwords\<close>

definition hash_token :: "seal_lib \<Rightarrow> string \<Rightarrow> string" where
  "hash_token lib t = token_digest lib t"

record issued_token =
  it_secret :: string
  it_hash :: string
  it_prefix :: string

definition issue_token :: "seal_lib \<Rightarrow> string \<Rightarrow> string \<Rightarrow> issued_token" where
  "issue_token lib kind random =
     (let secret = kind @ ''_'' @ url_encode lib random
      in \<lparr>it_secret = secret, it_hash = hash_token lib secret,
          it_prefix = take (length kind + 1 + 8) secret\<rparr>)"

definition verify_token :: "seal_lib \<Rightarrow> string \<Rightarrow> string \<Rightarrow> bool" where
  "verify_token lib token expected = (length expected = 32 \<and> hash_token lib token = expected)"

definition validate_admin_password :: "string \<Rightarrow> app_error + unit" where
  "validate_admin_password p =
     and_then (require (\<not> char_count p < 12)
       (Validation ''admin passwords must contain at least 12 characters''))
     (\<lambda>_. require (\<not> 4096 < length p) (Validation ''admin password is too long''))"

section \<open>Round trip and binding\<close>

lemma envelope_aad_inject: "envelope_aad p c = envelope_aad p c' \<longleftrightarrow> c = c'"
  by (simp add: envelope_aad_def)

lemma decode_fixed_encode:
  "seal_laws lib \<Longrightarrow> length s = n \<Longrightarrow> decode_fixed lib n (url_encode lib s) f = Inr s"
  by (simp add: decode_fixed_def decode_field_def seal_laws_def)

definition good_random :: "envelope_random \<Rightarrow> bool" where
  "good_random rnd \<longleftrightarrow> length (rnd_data_key rnd) = 32 \<and> length (rnd_key_nonce rnd) = 12
     \<and> length (rnd_data_nonce rnd) = 12"

lemma encrypt_Inr:
  assumes "encrypt_secret lib master rnd p ctx = Inr e"
  obtains wrapped c where
    "aead_seal lib master (rnd_key_nonce rnd) (envelope_aad ''wrapped-key'' ctx) (rnd_data_key rnd) = Some wrapped"
    "aead_seal lib (rnd_data_key rnd) (rnd_data_nonce rnd) (envelope_aad ''ciphertext'' ctx) p = Some c"
    "validate_context ctx = Inr ()"
    "e = envelope_json lib \<lparr>env_version = 1, env_algorithm = envelope_algorithm,
       env_key_nonce = url_encode lib (rnd_key_nonce rnd), env_key = url_encode lib wrapped,
       env_data_nonce = url_encode lib (rnd_data_nonce rnd), env_ciphertext = url_encode lib c\<rparr>"
  using assms by (auto simp: encrypt_secret_def result_simps)

lemma encrypt_decrypt:
  assumes "seal_laws lib" "good_random rnd" "encrypt_secret lib master rnd p ctx = Inr e"
    "length e \<le> 2097152" "valid_utf8 p"
  shows "decrypt_secret lib master e ctx = Inr p"
proof -
  obtain wrapped c where s:
    "aead_seal lib master (rnd_key_nonce rnd) (envelope_aad ''wrapped-key'' ctx) (rnd_data_key rnd) = Some wrapped"
    "aead_seal lib (rnd_data_key rnd) (rnd_data_nonce rnd) (envelope_aad ''ciphertext'' ctx) p = Some c"
    "validate_context ctx = Inr ()"
    "e = envelope_json lib \<lparr>env_version = 1, env_algorithm = envelope_algorithm,
       env_key_nonce = url_encode lib (rnd_key_nonce rnd), env_key = url_encode lib wrapped,
       env_data_nonce = url_encode lib (rnd_data_nonce rnd), env_ciphertext = url_encode lib c\<rparr>"
    using encrypt_Inr [OF assms(3)] .
  have "parse_envelope lib e = Some \<lparr>env_version = 1, env_algorithm = envelope_algorithm,
       env_key_nonce = url_encode lib (rnd_key_nonce rnd), env_key = url_encode lib wrapped,
       env_data_nonce = url_encode lib (rnd_data_nonce rnd), env_ciphertext = url_encode lib c\<rparr>"
    using assms(1) by (simp add: seal_laws_def s(4))
  moreover have "aead_open lib master (rnd_key_nonce rnd) (envelope_aad ''wrapped-key'' ctx) wrapped
      = Some (rnd_data_key rnd)"
    "aead_open lib (rnd_data_key rnd) (rnd_data_nonce rnd) (envelope_aad ''ciphertext'' ctx) c = Some p"
    using assms(1) s(1,2) by (simp_all add: seal_laws_def)
  moreover have "decode_field lib (url_encode lib x) f = Inr x" for x f
    using assms(1) by (simp add: decode_field_def seal_laws_def)
  ultimately show ?thesis
    using assms(2,4,5) s(3)
    by (simp add: decrypt_secret_def decode_fixed_encode [OF assms(1)] good_random_def
        max_secret_bytes_def)
qed

lemma decrypt_elsewhere:
  assumes "seal_laws lib" "good_random rnd" "encrypt_secret lib master rnd p ctx = Inr e" "ctx' \<noteq> ctx"
  shows "\<not> is_ok (decrypt_secret lib master e ctx')"
proof -
  obtain wrapped c where s:
    "aead_seal lib master (rnd_key_nonce rnd) (envelope_aad ''wrapped-key'' ctx) (rnd_data_key rnd) = Some wrapped"
    "aead_seal lib (rnd_data_key rnd) (rnd_data_nonce rnd) (envelope_aad ''ciphertext'' ctx) p = Some c"
    "validate_context ctx = Inr ()"
    "e = envelope_json lib \<lparr>env_version = 1, env_algorithm = envelope_algorithm,
       env_key_nonce = url_encode lib (rnd_key_nonce rnd), env_key = url_encode lib wrapped,
       env_data_nonce = url_encode lib (rnd_data_nonce rnd), env_ciphertext = url_encode lib c\<rparr>"
    using encrypt_Inr [OF assms(3)] .
  have p: "parse_envelope lib e = Some \<lparr>env_version = 1, env_algorithm = envelope_algorithm,
       env_key_nonce = url_encode lib (rnd_key_nonce rnd), env_key = url_encode lib wrapped,
       env_data_nonce = url_encode lib (rnd_data_nonce rnd), env_ciphertext = url_encode lib c\<rparr>"
    using assms(1) by (simp add: seal_laws_def s(4))
  have "aead_open lib master (rnd_key_nonce rnd) (envelope_aad ''wrapped-key'' ctx') wrapped = None"
    using assms(1,4) s(1) envelope_aad_inject [of "''wrapped-key''" ctx' ctx] by (auto simp: seal_laws_def)
  moreover have "decode_field lib (url_encode lib x) f = Inr x" for x f
    using assms(1) by (simp add: decode_field_def seal_laws_def)
  ultimately show ?thesis
    using assms(2)
    by (auto simp: decrypt_secret_def p decode_fixed_encode [OF assms(1)] good_random_def
        is_ok_iff result_simps)
qed

text \<open>
  C18. A secret at rest can be read back under its own context and under no other: the
  envelope written for a context decrypts to the secret there, and to an error in every
  other context, such as another VM's or another rotation's.
\<close>

theorem envelope_bound_to_context:
  assumes "seal_laws lib" "good_random rnd" "encrypt_secret lib master rnd p ctx = Inr e"
    and "length e \<le> 2097152" "valid_utf8 p"
  shows "decrypt_secret lib master e ctx = Inr p
    \<and> (\<forall>ctx'. ctx' \<noteq> ctx \<longrightarrow> \<not> is_ok (decrypt_secret lib master e ctx'))"
  using encrypt_decrypt [OF assms] decrypt_elsewhere [OF assms(1-3)] by blast

text \<open>
  A stand-in for the third-party code: a string is written with its length in unary before
  it, an envelope as its fields one after the other, and a sealed message as its associated
  data and the message.
\<close>

definition demo_put :: "string \<Rightarrow> string" where
  "demo_put s = replicate (length s) (CHR ''a'') @ [CHR 0x00] @ s"

definition demo_take :: "string \<Rightarrow> string \<times> string" where
  "demo_take s = (let n = length (takeWhile (\<lambda>c. c \<noteq> CHR 0x00) s); r = drop (Suc n) s
                  in (take n r, drop n r))"

lemma demo_take_put: "demo_take (demo_put s @ t) = (s, t)"
proof -
  have "takeWhile (\<lambda>c. c \<noteq> CHR 0x00) (replicate n (CHR ''a'') @ CHR 0x00 # r) = replicate n (CHR ''a'')"
    for n r by (induction n) auto
  then show ?thesis by (simp add: demo_take_def demo_put_def Let_def)
qed

definition demo_seal :: seal_lib where
  "demo_seal = \<lparr>url_encode = (\<lambda>s. s), url_decode = Some,
     aead_seal = (\<lambda>k n a m. Some (demo_put a @ m)),
     aead_open = (\<lambda>k n a c. let (x, m) = demo_take c in if x = a then Some m else None),
     envelope_json = (\<lambda>e. demo_put (replicate (env_version e) (CHR ''v'')) @ demo_put (env_algorithm e)
        @ demo_put (env_key_nonce e) @ demo_put (env_key e) @ demo_put (env_data_nonce e)
        @ demo_put (env_ciphertext e)),
     parse_envelope = (\<lambda>s. let (v, s) = demo_take s; (a, s) = demo_take s; (kn, s) = demo_take s;
        (k, s) = demo_take s; (dn, s) = demo_take s; (c, s) = demo_take s
        in Some \<lparr>env_version = length v, env_algorithm = a, env_key_nonce = kn, env_key = k,
             env_data_nonce = dn, env_ciphertext = c\<rparr>),
     token_digest = (\<lambda>t. t)\<rparr>"

lemma demo_take_put_Nil: "demo_take (demo_put s) = (s, [])"
  using demo_take_put [of s "[]"] by simp

lemma demo_seal_laws: "seal_laws demo_seal"
  by (simp add: seal_laws_def demo_seal_def demo_take_put demo_take_put_Nil)

definition demo_random :: envelope_random where
  "demo_random = \<lparr>rnd_data_key = replicate 32 (CHR ''k''), rnd_key_nonce = replicate 12 (CHR ''n''),
     rnd_data_nonce = replicate 12 (CHR ''d'')\<rparr>"

lemma demo_good_random: "good_random demo_random"
  by (simp add: good_random_def demo_random_def)

lemma envelope_bound_to_context_witness:
  "\<exists>e. encrypt_secret demo_seal ''m'' demo_random ''pw'' (vm_password_context ''1'') = Inr e
     \<and> decrypt_secret demo_seal ''m'' e (vm_password_context ''1'') = Inr ''pw''
     \<and> \<not> is_ok (decrypt_secret demo_seal ''m'' e (vm_password_context ''2''))"
proof -
  obtain e where e: "encrypt_secret demo_seal ''m'' demo_random ''pw'' (vm_password_context ''1'') = Inr e"
    and l: "length e \<le> 2097152"
    by (simp add: encrypt_secret_def validate_context_def vm_password_context_def max_secret_bytes_def
        demo_seal_def demo_put_def demo_random_def envelope_aad_def envelope_algorithm_def)
  have "valid_utf8 ''pw''" by (simp add: code_of_def)
  from envelope_bound_to_context [OF demo_seal_laws demo_good_random e l this] e
  show ?thesis by (auto simp: vm_password_context_def)
qed

end
