(* ===== verification/Guest_Tools_Rotation.thy ===== *)
theory Guest_Tools_Rotation
  imports Job_Safety Secret_Envelope
begin

text \<open>
  The guest-tools rows of \<open>src/db.rs\<close>: configuring, the two-phase rotation of a VM's channel
  key (stage, arm, promote, discard), retiring, and which key a client uses. Enveloped
  secrets come from \<open>Secret_Envelope\<close>; an operation that encrypts takes the random bytes it
  draws.
\<close>

definition validate_tools_version :: "string \<Rightarrow> string \<Rightarrow> app_error + unit" where
  "validate_tools_version label v =
     and_then (validate_non_empty label v) (\<lambda>_.
       require (\<not> (64 < length v \<or> has_control v))
         (Validation (label @ '' must contain at most 64 bytes and no control characters'')))"

definition tools_missing :: app_error where
  "tools_missing = NotFound ''VM guest-tools configuration''"

text \<open>The row after a statement, as \<open>query_vm_guest_tools\<close> reads it back.\<close>

definition with_tools_row :: "string \<Rightarrow> db \<Rightarrow> tools_row transaction" where
  "with_tools_row vm d = and_then (ok_or (query_tools d vm) tools_missing) (\<lambda>t. Inr (d, t))"

definition configure_tools ::
  "seal_lib \<Rightarrow> string \<Rightarrow> envelope_random \<Rightarrow> string \<Rightarrow> tools_platform \<Rightarrow> tools_provisioner \<Rightarrow> string
    \<Rightarrow> string \<Rightarrow> timestamp \<Rightarrow> db \<Rightarrow> tools_row transaction" where
  "configure_tools lib master rnd vm platform provisioner secret version now d =
     and_then (validate_non_empty ''guest-tools secret'' secret) (\<lambda>_.
     and_then (validate_tools_version ''guest-tools version'' version) (\<lambda>_.
     and_then (encrypt_secret lib master rnd secret (tools_secret_context vm)) (\<lambda>env.
       case query_tools d vm of
         None \<Rightarrow>
           if \<not> vm_exists d vm then Inl foreign_key_error
           else with_tools_row vm (d\<lparr>tools := tools d @ [\<lparr>t_vm = vm, t_enabled = True,
             t_platform = platform, t_provisioner = provisioner, t_envelope = env,
             t_desired_version = version, t_installed_version = None, t_status = ToolsPending,
             t_last_seen_at = None, t_last_error = None, t_pending_envelope = None,
             t_pending_platform = None, t_pending_provisioner = None, t_pending_version = None,
             t_pending_generation = None, t_pending_installed = False, t_created_at = now,
             t_updated_at = now\<rparr>]\<rparr>)
       | Some row \<Rightarrow>
           if t_pending_installed row
           then Inl (Conflict ''an armed Vexa Guest Tools rotation cannot be replaced'')
           else with_tools_row vm (d\<lparr>tools := update_where (\<lambda>t. t_vm t = vm) (\<lambda>t. (clear_pending now t)\<lparr>
             t_enabled := True, t_platform := platform, t_provisioner := provisioner,
             t_envelope := env, t_desired_version := version, t_installed_version := None,
             t_status := ToolsPending, t_last_seen_at := None, t_last_error := None\<rparr>) (tools d)\<rparr>))))"

definition delete_tools_configuration :: "string \<Rightarrow> db \<Rightarrow> unit transaction" where
  "delete_tools_configuration vm d =
     (let p = (\<lambda>t. t_vm t = vm \<and> \<not> t_pending_installed t)
      in if count_where p (tools d) = 1 then Inr (d\<lparr>tools := delete_where p (tools d)\<rparr>, ())
         else case query_tools (d\<lparr>tools := delete_where p (tools d)\<rparr>) vm of
           Some t \<Rightarrow>
             if t_pending_installed t
             then Inl (Conflict ''an armed Vexa Guest Tools configuration cannot be deleted'')
             else Inl tools_missing
         | None \<Rightarrow> Inl tools_missing)"

definition retire_tools :: "string \<Rightarrow> db \<Rightarrow> bool transaction" where
  "retire_tools vm d =
     Inr (d\<lparr>tools := delete_where (\<lambda>t. t_vm t = vm) (tools d)\<rparr>,
          count_where (\<lambda>t. t_vm t = vm) (tools d) = 1)"

definition stage_rotation ::
  "seal_lib \<Rightarrow> string \<Rightarrow> envelope_random \<Rightarrow> string \<Rightarrow> string \<Rightarrow> tools_platform \<Rightarrow> tools_provisioner
    \<Rightarrow> string \<Rightarrow> string \<Rightarrow> timestamp \<Rightarrow> db \<Rightarrow> string transaction" where
  "stage_rotation lib master rnd generation vm platform provisioner secret version now d =
     and_then (validate_non_empty ''guest-tools secret'' secret) (\<lambda>_.
     and_then (validate_tools_version ''guest-tools version'' version) (\<lambda>_.
     and_then (encrypt_secret lib master rnd secret (tools_pending_context vm generation)) (\<lambda>env.
       let p = (\<lambda>t. t_vm t = vm \<and> t_enabled t \<and> t_pending_generation t = None) in
       if count_where p (tools d) = 1 then
         if \<exists>t \<in> set (tools d). t_pending_generation t = Some generation then Inl unique_error
         else Inr (d\<lparr>tools := update_where p (\<lambda>t. t\<lparr>t_pending_envelope := Some env,
           t_pending_platform := Some platform, t_pending_provisioner := Some provisioner,
           t_pending_version := Some version, t_pending_generation := Some generation,
           t_pending_installed := False, t_updated_at := now\<rparr>) (tools d)\<rparr>, generation)
       else case query_tools d vm of
         None \<Rightarrow> Inl tools_missing
       | Some t \<Rightarrow>
           if \<not> t_enabled t then Inl (Conflict ''Vexa Guest Tools is disabled'')
           else if t_pending_generation t \<noteq> None
           then Inl (Conflict ''a Vexa Guest Tools key rotation is already pending'')
           else Inl (Conflict ''Vexa Guest Tools key rotation could not be staged''))))"

text \<open>\<open>rotation_generation_conflict\<close>: why a generation-scoped statement changed nothing.\<close>

definition generation_conflict :: "db \<Rightarrow> string \<Rightarrow> app_error" where
  "generation_conflict d vm = (case query_tools d vm of
     None \<Rightarrow> tools_missing
   | Some t \<Rightarrow>
       if \<not> t_enabled t then Conflict ''Vexa Guest Tools is disabled''
       else if t_pending_generation t = None
         then Conflict ''no Vexa Guest Tools key rotation is pending''
       else if \<not> t_pending_installed t
         then Conflict ''the Vexa Guest Tools key rotation generation does not match or is not installed''
       else Conflict ''the Vexa Guest Tools key rotation generation does not match'')"

record pending_seed =
  ps_generation :: string
  ps_platform :: "tools_platform option"
  ps_provisioner :: "tools_provisioner option"
  ps_version :: "string option"
  ps_secret :: string
  ps_installed :: bool

text \<open>
  Reading a pending column as a value (\<open>row.get\<close> of a non-null type) fails on NULL.
\<close>

definition null_column :: app_error where
  "null_column = Database ''Invalid column type Null''"

definition pending_tools_seed ::
  "seal_lib \<Rightarrow> string \<Rightarrow> string \<Rightarrow> db \<Rightarrow> app_error + pending_seed option" where
  "pending_tools_seed lib master vm d =
     (case select_one (\<lambda>t. t_vm t = vm \<and> t_enabled t \<and> t_pending_generation t \<noteq> None) (tools d) of
        None \<Rightarrow> Inr None
      | Some t \<Rightarrow>
          and_then (ok_or (t_pending_envelope t) null_column) (\<lambda>env.
          and_then (require (t_pending_platform t \<noteq> None \<and> t_pending_provisioner t \<noteq> None
            \<and> t_pending_version t \<noteq> None) null_column) (\<lambda>_.
          and_then (ok_or (t_pending_generation t) null_column) (\<lambda>g.
          and_then (decrypt_secret lib master env (tools_pending_context vm g)) (\<lambda>secret.
          Inr (Some \<lparr>ps_generation = g, ps_platform = t_pending_platform t,
            ps_provisioner = t_pending_provisioner t, ps_version = t_pending_version t,
            ps_secret = secret, ps_installed = t_pending_installed t\<rparr>))))))"

record client_secret =
  cs_secret :: string
  cs_desired_version :: string
  cs_generation :: "string option"

definition tools_client_secret ::
  "seal_lib \<Rightarrow> string \<Rightarrow> string \<Rightarrow> db \<Rightarrow> app_error + client_secret option" where
  "tools_client_secret lib master vm d =
     (case select_one (\<lambda>t. t_vm t = vm \<and> t_enabled t) (tools d) of
        None \<Rightarrow> Inr None
      | Some t \<Rightarrow>
          if t_pending_installed t then
            and_then (ok_or (t_pending_envelope t) (Internal ''pending guest-tools key is missing'')) (\<lambda>env.
            and_then (ok_or (t_pending_generation t) (Internal ''pending guest-tools generation is missing'')) (\<lambda>g.
            and_then (ok_or (t_pending_version t) (Internal ''pending guest-tools version is missing'')) (\<lambda>v.
            and_then (decrypt_secret lib master env (tools_pending_context vm g)) (\<lambda>secret.
            Inr (Some \<lparr>cs_secret = secret, cs_desired_version = v, cs_generation = Some g\<rparr>)))))
          else
            and_then (decrypt_secret lib master (t_envelope t) (tools_secret_context vm)) (\<lambda>secret.
            Inr (Some \<lparr>cs_secret = secret, cs_desired_version = t_desired_version t,
              cs_generation = None\<rparr>)))"

definition installed_rotation_generation :: "string \<Rightarrow> db \<Rightarrow> string option" where
  "installed_rotation_generation vm d =
     Option.bind (select_one (\<lambda>t. t_vm t = vm \<and> t_enabled t \<and> t_pending_installed t) (tools d))
       t_pending_generation"

text \<open>Arming.\<close>

definition mark_rotation_installed :: "string \<Rightarrow> string \<Rightarrow> timestamp \<Rightarrow> db \<Rightarrow> tools_row transaction" where
  "mark_rotation_installed vm generation now d =
     and_then (validate_generation generation) (\<lambda>_.
       let p = (\<lambda>t. t_vm t = vm \<and> t_enabled t \<and> t_pending_generation t = Some generation) in
       if count_where p (tools d) = 0 then Inl (generation_conflict d vm)
       else with_tools_row vm (d\<lparr>tools := update_where p (\<lambda>t. t\<lparr>t_pending_installed := True,
         t_status := ToolsPending, t_last_error := None, t_updated_at := now\<rparr>) (tools d)\<rparr>))"

definition promote_rotation ::
  "seal_lib \<Rightarrow> string \<Rightarrow> envelope_random \<Rightarrow> string \<Rightarrow> string \<Rightarrow> string \<Rightarrow> timestamp \<Rightarrow> db
    \<Rightarrow> tools_row transaction" where
  "promote_rotation lib master rnd vm generation installed now d =
     and_then (validate_generation generation) (\<lambda>_.
     and_then (validate_tools_version ''installed guest-tools version'' installed) (\<lambda>_.
       let p = (\<lambda>t. t_vm t = vm \<and> t_enabled t \<and> t_pending_generation t = Some generation
                 \<and> t_pending_installed t) in
       case select_one p (tools d) of
         None \<Rightarrow> Inl (generation_conflict d vm)
       | Some t \<Rightarrow>
           (case (t_pending_envelope t, t_pending_platform t, t_pending_provisioner t,
                  t_pending_version t) of
              (Some env, Some platform, Some provisioner, Some desired) \<Rightarrow>
                and_then (require (installed = desired) (Conflict (''guest-tools version '' @ installed
                  @ '' does not match required version '' @ desired))) (\<lambda>_.
                and_then (decrypt_secret lib master env (tools_pending_context vm generation)) (\<lambda>secret.
                and_then (encrypt_secret lib master rnd secret (tools_secret_context vm)) (\<lambda>active.
                  with_tools_row vm (d\<lparr>tools := update_where p (\<lambda>t. (clear_pending now t)\<lparr>
                    t_platform := platform, t_provisioner := provisioner, t_envelope := active,
                    t_desired_version := desired, t_installed_version := Some desired,
                    t_status := ToolsReady, t_last_seen_at := Some now, t_last_error := None\<rparr>)
                    (tools d)\<rparr>))))
            | _ \<Rightarrow> Inl null_column)))"

definition discard_rotation :: "string \<Rightarrow> string \<Rightarrow> timestamp \<Rightarrow> db \<Rightarrow> tools_row transaction" where
  "discard_rotation vm generation now d =
     and_then (validate_generation generation) (\<lambda>_.
       let p = (\<lambda>t. t_vm t = vm \<and> t_enabled t \<and> t_pending_generation t = Some generation
                 \<and> \<not> t_pending_installed t) in
       if count_where p (tools d) = 0 then
         (case select_one (\<lambda>t. t_vm t = vm \<and> t_enabled t \<and> t_pending_generation t = Some generation)
            (tools d) of
            Some t \<Rightarrow>
              if t_pending_installed t
              then Inl (Conflict ''an armed Vexa Guest Tools rotation cannot be discarded'')
              else Inl (generation_conflict d vm)
          | None \<Rightarrow> Inl (generation_conflict d vm))
       else with_tools_row vm (d\<lparr>tools := update_where p (clear_pending now) (tools d)\<rparr>))"

text \<open>\<open>chars().take(n).collect()\<close>: the first \<open>n\<close> code points.\<close>

fun take_chars :: "nat \<Rightarrow> string \<Rightarrow> string" where
  "take_chars n [] = []"
| "take_chars n (c # s) =
     (if 128 \<le> code_of c \<and> code_of c < 192 then c # take_chars n s
      else case n of 0 \<Rightarrow> [] | Suc m \<Rightarrow> c # take_chars m s)"

definition update_tools_status ::
  "string \<Rightarrow> tools_status \<Rightarrow> string option \<Rightarrow> string option \<Rightarrow> bool \<Rightarrow> timestamp \<Rightarrow> db
    \<Rightarrow> tools_row transaction" where
  "update_tools_status vm status installed last_error contacted now d =
     and_then (case installed of None \<Rightarrow> Inr ()
       | Some v \<Rightarrow> validate_tools_version ''installed guest-tools version'' v) (\<lambda>_.
       let p = (\<lambda>t. t_vm t = vm \<and> t_enabled t) in
     and_then (require_changed (count_where p (tools d)) ''VM guest-tools configuration'') (\<lambda>_.
       with_tools_row vm (d\<lparr>tools := update_where p (\<lambda>t. t\<lparr>
         t_status := (if t_pending_installed t \<and> status = ToolsReady then ToolsPending else status),
         t_installed_version := (if t_pending_installed t then t_installed_version t
           else case installed of None \<Rightarrow> t_installed_version t | Some v \<Rightarrow> Some v),
         t_last_seen_at := (if contacted then Some now else t_last_seen_at t),
         t_last_error := map_option (take_chars 500) last_error, t_updated_at := now\<rparr>) (tools d)\<rparr>)))"

text \<open>
  \<open>reusable_vm_guest_tools_rotation\<close>: the armed generation a failed reinstall with the same
  fingerprint left, with that job (the latest finished, then the latest created).
\<close>

definition reusable_rotation ::
  "string \<Rightarrow> string \<Rightarrow> db \<Rightarrow> app_error + (tools_row \<times> string) option" where
  "reusable_rotation vm fingerprint d =
     and_then (require (\<not> (length fingerprint \<noteq> 64
         \<or> \<not> list_all (\<lambda>c. is_ascii_digit c \<or> (97 \<le> code_of c \<and> code_of c \<le> 102)) fingerprint))
       (Validation ''reinstall request fingerprint is invalid'')) (\<lambda>_.
       case select_one (\<lambda>t. t_vm t = vm \<and> t_enabled t \<and> t_pending_installed t) (tools d) of
         None \<Rightarrow> Inr None
       | Some t \<Rightarrow>
           (case select_least (\<lambda>j. (- (case j_finished_at j of None \<Rightarrow> i64_min - 1 | Some f \<Rightarrow> f),
                                    - j_created_at j))
              (filter (\<lambda>j. j_vm j = Some vm \<and> j_kind j = ''vm.reinstall'' \<and> j_status j = Failed
                 \<and> equals_column (json_extract staged_generation_field (j_payload j))
                     (t_pending_generation t)
                 \<and> is_param (json_extract ''request_fingerprint'' (j_payload j)) (Some fingerprint))
                (jobs d)) of
              None \<Rightarrow> Inr None
            | Some j \<Rightarrow> Inr (Some (t, j_id j))))"

end
