(* ===== verification/Rotation_Safety.thy ===== *)
theory Rotation_Safety
  imports Guest_Tools_Rotation
begin

text \<open>
  What the rotation of guest-tools keys promises, over histories that mix its operations with
  those of the job queue: a pending rotation is complete or absent, an armed key is never
  lost while its VM exists, and the key a client uses changes only where the protocol says.
\<close>

datatype tools_request =
    Configure envelope_random string tools_platform tools_provisioner string string timestamp
  | DeleteConfiguration string
  | Retire string
  | Stage envelope_random string string tools_platform tools_provisioner string string timestamp
  | MarkInstalled string string timestamp
  | Promote envelope_random string string string timestamp
  | Discard string string timestamp
  | UpdateStatus string tools_status "string option" "string option" bool timestamp

fun tools_step :: "seal_lib \<Rightarrow> string \<Rightarrow> db \<Rightarrow> tools_request \<Rightarrow> app_error + db" where
  "tools_step lib m d (Configure rnd vm pl pr s v now) = result_db (configure_tools lib m rnd vm pl pr s v now d)"
| "tools_step lib m d (DeleteConfiguration vm) = result_db (delete_tools_configuration vm d)"
| "tools_step lib m d (Retire vm) = result_db (retire_tools vm d)"
| "tools_step lib m d (Stage rnd g vm pl pr s v now) = result_db (stage_rotation lib m rnd g vm pl pr s v now d)"
| "tools_step lib m d (MarkInstalled vm g now) = result_db (mark_rotation_installed vm g now d)"
| "tools_step lib m d (Promote rnd vm g v now) = result_db (promote_rotation lib m rnd vm g v now d)"
| "tools_step lib m d (Discard vm g now) = result_db (discard_rotation vm g now d)"
| "tools_step lib m d (UpdateStatus vm st v e c now) = result_db (update_tools_status vm st v e c now d)"

datatype panel_request = JobRequest job_request | ToolsRequest tools_request

fun panel_step :: "seal_lib \<Rightarrow> string \<Rightarrow> db \<Rightarrow> panel_request \<Rightarrow> app_error + db" where
  "panel_step lib m d (JobRequest r) = job_step d r"
| "panel_step lib m d (ToolsRequest r) = tools_step lib m d r"

text \<open>The only requests that may take the key of \<open>vm\<close> away: retiring it or promoting it.\<close>

fun hands_off :: "string \<Rightarrow> panel_request \<Rightarrow> bool" where
  "hands_off vm (ToolsRequest (Retire v)) = (v \<noteq> vm)"
| "hands_off vm (ToolsRequest (Promote rnd v g i now)) = (v \<noteq> vm)"
| "hands_off vm _ = True"

section \<open>What one request does to the guest-tools rows\<close>

definition pending_ok :: "tools_row \<Rightarrow> bool" where
  "pending_ok t \<longleftrightarrow>
     (t_pending_generation t = None \<and> t_pending_envelope t = None \<and> t_pending_platform t = None
       \<and> t_pending_provisioner t = None \<and> t_pending_version t = None \<and> \<not> t_pending_installed t)
     \<or> (t_pending_generation t \<noteq> None \<and> t_pending_envelope t \<noteq> None \<and> t_pending_platform t \<noteq> None
       \<and> t_pending_provisioner t \<noteq> None \<and> t_pending_version t \<noteq> None)"

definition same_pending :: "tools_row \<Rightarrow> tools_row \<Rightarrow> bool" where
  "same_pending r r' \<longleftrightarrow> t_vm r' = t_vm r \<and> t_pending_installed r' \<and> t_pending_generation r' = t_pending_generation r
     \<and> t_pending_envelope r' = t_pending_envelope r \<and> t_pending_version r' = t_pending_version r
     \<and> t_pending_platform r' = t_pending_platform r \<and> t_pending_provisioner r' = t_pending_provisioner r"

definition tools_rel :: "string \<Rightarrow> db \<Rightarrow> db \<Rightarrow> bool" where
  "tools_rel vm d t \<longleftrightarrow>
     (\<forall>r \<in> set (tools d). t_vm r = vm \<and> t_pending_installed r \<longrightarrow>
        (\<exists>r' \<in> set (tools t). same_pending r r') \<or> \<not> vm_exists t vm)
     \<and> (vm_exists t vm \<longrightarrow> vm_exists d vm)"

lemma tools_rel_refl: "tools_rel vm d d"
  by (auto simp: tools_rel_def same_pending_def)

lemma tools_rel_trans: "tools_rel vm d t \<Longrightarrow> tools_rel vm t u \<Longrightarrow> tools_rel vm d u"
  unfolding tools_rel_def same_pending_def by (metis (no_types, lifting))

lemma tools_rel_same: "tools t = tools d \<Longrightarrow> (vm_exists t vm \<Longrightarrow> vm_exists d vm) \<Longrightarrow> tools_rel vm d t"
  by (auto simp: tools_rel_def same_pending_def)

lemma same_pending_refl: "t_pending_installed r \<Longrightarrow> same_pending r r"
  by (simp add: same_pending_def)

lemma tools_rel_update:
  assumes "tools t = update_where p f (tools d)" "vms t = vms d"
    and "\<And>r. r \<in> set (tools d) \<Longrightarrow> p r \<Longrightarrow> t_vm r = vm \<Longrightarrow> t_pending_installed r \<Longrightarrow> same_pending r (f r)"
  shows "tools_rel vm d t"
  unfolding tools_rel_def
proof (intro conjI ballI impI disjI1)
  fix r assume r: "r \<in> set (tools d)" "t_vm r = vm \<and> t_pending_installed r"
  then have "(if p r then f r else r) \<in> set (tools t)" by (auto simp: assms(1) set_update_where)
  moreover have "same_pending r (if p r then f r else r)"
    using r assms(3) by (simp add: same_pending_refl)
  ultimately show "\<exists>r' \<in> set (tools t). same_pending r r'" by blast
qed (simp add: vm_exists_def assms(2))

lemma tools_rel_delete:
  assumes "tools t = delete_where p (tools d)" "vm_exists t vm \<Longrightarrow> vm_exists d vm"
    and "\<And>r. r \<in> set (tools d) \<Longrightarrow> p r \<Longrightarrow> t_vm r = vm \<Longrightarrow> t_pending_installed r \<Longrightarrow> \<not> vm_exists t vm"
  shows "tools_rel vm d t"
  unfolding tools_rel_def
proof (intro conjI ballI impI)
  fix r assume r: "r \<in> set (tools d)" "t_vm r = vm \<and> t_pending_installed r"
  show "(\<exists>r' \<in> set (tools t). same_pending r r') \<or> \<not> vm_exists t vm"
  proof (cases "p r")
    case False
    with r(1) have "r \<in> set (tools t)" by (simp add: assms(1) set_delete_where)
    with r(2) show ?thesis by (auto intro: same_pending_refl)
  qed (use r assms(3) in blast)
qed (rule assms(2))

definition pending_all :: "db \<Rightarrow> bool" where
  "pending_all d \<longleftrightarrow> distinct (map t_vm (tools d)) \<and> (\<forall>t \<in> set (tools d). pending_ok t)"

lemma pending_all_update:
  "tools t = update_where p f (tools d) \<Longrightarrow> (\<And>r. p r \<Longrightarrow> pending_ok r \<Longrightarrow> pending_ok (f r))
    \<Longrightarrow> (\<And>r. p r \<Longrightarrow> t_vm (f r) = t_vm r) \<Longrightarrow> pending_all d \<Longrightarrow> pending_all t"
  by (auto simp: pending_all_def set_update_where map_update_where)

lemma pending_all_delete: "tools t = delete_where p (tools d) \<Longrightarrow> pending_all d \<Longrightarrow> pending_all t"
  by (auto simp: pending_all_def set_delete_where map_delete_where_distinct)

lemma pending_all_unique:
  "pending_all d \<Longrightarrow> query_tools d vm = Some r \<Longrightarrow> r' \<in> set (tools d) \<Longrightarrow> t_vm r' = vm \<Longrightarrow> r' = r"
  unfolding pending_all_def query_tools_def
  by (metis (mono_tags, lifting) distinct_map inj_onD select_one_Some)

lemma pending_all_same: "tools t = tools d \<Longrightarrow> pending_all d \<Longrightarrow> pending_all t"
  by (simp add: pending_all_def)

lemma pending_ok_clear [simp]: "pending_ok (clear_pending now t)" "t_vm (clear_pending now t) = t_vm t"
  by (simp_all add: pending_ok_def clear_pending_def)

text \<open>Both facts together, for the steps of the job queue.\<close>

definition tools_safe :: "string \<Rightarrow> db \<Rightarrow> db \<Rightarrow> bool" where
  "tools_safe vm d t \<longleftrightarrow> tools_rel vm d t \<and> (pending_all d \<longrightarrow> pending_all t)"

lemma tools_safe_trans: "tools_safe vm d t \<Longrightarrow> tools_safe vm t u \<Longrightarrow> tools_safe vm d u"
  unfolding tools_safe_def by (blast intro: tools_rel_trans)

lemma tools_safe_refl: "tools_safe vm d d"
  by (simp add: tools_safe_def tools_rel_refl)

lemma tools_safe_vms:
  assumes "tools t = tools d" "map v_id (vms t) = map v_id (vms d)"
  shows "tools_safe vm d t"
proof -
  have "vm_exists x vm \<longleftrightarrow> vm \<in> set (map v_id (vms x))" for x
    by (auto simp: vm_exists_def)
  then have "vm_exists t vm = vm_exists d vm" by (simp only: assms(2))
  then show ?thesis
    unfolding tools_safe_def using tools_rel_same [OF assms(1)] pending_all_same [OF assms(1)] by blast
qed

lemma tools_safe_same: "tools t = tools d \<Longrightarrow> vms t = vms d \<Longrightarrow> tools_safe vm d t"
  by (rule tools_safe_vms) simp_all

lemma tools_safe_update:
  assumes "tools t = update_where p f (tools d)" "vms t = vms d"
    and "\<And>r. p r \<Longrightarrow> t_pending_installed r \<Longrightarrow> same_pending r (f r)"
    and "\<And>r. p r \<Longrightarrow> pending_ok r \<Longrightarrow> pending_ok (f r)"
    and "\<And>r. p r \<Longrightarrow> t_vm (f r) = t_vm r"
  shows "tools_safe vm d t"
  unfolding tools_safe_def
  using tools_rel_update [OF assms(1,2)] pending_all_update [OF assms(1)] assms(3-5) by blast

lemma tools_safe_delete:
  assumes "tools t = delete_where p (tools d)" "vms t = vms d"
    and "\<And>r. p r \<Longrightarrow> t_pending_installed r \<Longrightarrow> t_vm r \<noteq> vm"
  shows "tools_safe vm d t"
proof -
  have "tools_rel vm d t"
    by (rule tools_rel_delete [OF assms(1)]) (use assms in \<open>auto simp: vm_exists_def\<close>)
  then show ?thesis
    using pending_all_delete [OF assms(1)] by (simp add: tools_safe_def)
qed

lemma tools_safe_cleanup: "tools_safe vm d (cleanup_unarmed j now d)"
proof -
  let ?p = "\<lambda>v g t. t_vm t = v \<and> t_pending_generation t = Some g \<and> \<not> t_pending_installed t"
  have del: "tools_safe vm d (d\<lparr>tools := delete_where (?p v g) (tools d)\<rparr>)" for v g
    by (rule tools_safe_delete [where p = "?p v g"]) simp_all
  have upd: "tools_safe vm d (d\<lparr>tools := update_where (?p v g) (clear_pending now) (tools d)\<rparr>)" for v g
    by (rule tools_safe_update [where p = "?p v g" and f = "clear_pending now"]) simp_all
  show ?thesis
    by (auto simp: cleanup_unarmed_def Let_def tools_safe_refl del upd split: option.splits)
qed

lemma tools_safe_delete_vm_rows:
  assumes "tools e = tools d" "vms e = vms d"
  shows "tools_safe vm d (delete_vm_rows now gone e)"
  unfolding tools_safe_def
proof (intro conjI impI)
  show "tools_rel vm d (delete_vm_rows now gone e)"
    by (rule tools_rel_delete [where p = "\<lambda>t. t_vm t \<in> gone"])
      (use assms in \<open>auto simp: delete_vm_rows_def vm_exists_def set_delete_where\<close>)
  show "pending_all (delete_vm_rows now gone e)" if "pending_all d"
    by (rule pending_all_delete [OF _ that, where p = "\<lambda>t. t_vm t \<in> gone"])
      (use assms in \<open>auto simp: delete_vm_rows_def\<close>)
qed

section \<open>The requests of the job queue\<close>

lemma tools_safe_from: "tools_safe vm d t \<Longrightarrow> tools u = tools t \<Longrightarrow> vms u = vms t \<Longrightarrow> tools_safe vm d u"
  by (rule tools_safe_trans [OF _ tools_safe_same])

lemma tools_safe_clean_exhausted: "tools_safe vm d (clean_exhausted_reinstalls now d)"
proof -
  have "tools_safe vm d (foldl (\<lambda>d i. case query_job d i of None \<Rightarrow> d | Some j \<Rightarrow> cleanup_unarmed j now d) d is)"
    for "is"
  proof (induction "is" arbitrary: d)
    case Nil
    then show ?case by (simp add: tools_safe_refl)
  next
    case (Cons i "is")
    have "tools_safe vm d (case query_job d i of None \<Rightarrow> d | Some j \<Rightarrow> cleanup_unarmed j now d)"
      by (simp add: tools_safe_refl tools_safe_cleanup split: option.splits)
    from tools_safe_trans [OF this Cons.IH] show ?case by simp
  qed
  then show ?thesis by (simp add: clean_exhausted_reinstalls_def)
qed

lemma tools_safe_clear_orphaned: "tools_safe vm d (clear_orphaned_generations now d)"
  by (rule tools_safe_update [where f = "clear_pending now" and p = "\<lambda>t. \<not> t_pending_installed t
        \<and> t_pending_generation t \<noteq> None
        \<and> \<not> references_generation (\<lambda>j. j_kind j = ''vm.reinstall'' \<and> active j)
              staged_generation_field d t"])
    (simp_all add: clear_orphaned_generations_def)

lemma tools_failed_fields [simp]:
  "t_vm (tools_failed now m t) = t_vm t" "t_pending_installed (tools_failed now m t) = t_pending_installed t"
  "t_pending_generation (tools_failed now m t) = t_pending_generation t"
  "t_pending_envelope (tools_failed now m t) = t_pending_envelope t"
  "t_pending_platform (tools_failed now m t) = t_pending_platform t"
  "t_pending_provisioner (tools_failed now m t) = t_pending_provisioner t"
  "t_pending_version (tools_failed now m t) = t_pending_version t"
  by (simp_all add: tools_failed_def)

lemma tools_safe_failed: "tools_safe vm d (d\<lparr>tools := update_where p (tools_failed now m) (tools d)\<rparr>)"
  by (rule tools_safe_update [where f = "tools_failed now m" and p = p])
    (simp_all add: same_pending_def pending_ok_def)

lemma tools_safe_mark_tools: "tools_safe vm d (mark_failed_tools now d)"
  unfolding mark_failed_tools_def Let_def
  by (rule tools_safe_trans [OF tools_safe_trans [OF tools_safe_failed tools_safe_failed] tools_safe_failed])

lemma tools_safe_recover:
  assumes "recover_interrupted_jobs now d = Inr (t, x)"
  shows "tools_safe vm d t"
proof -
  let ?d1 = "clean_exhausted_reinstalls now d"
  let ?d2 = "fst (requeue_interrupted now ?d1)"
  let ?d3 = "clear_orphaned_generations now ?d2"
  let ?d4 = "mark_failed_vms now ?d3"
  let ?d5 = "mark_failed_snapshots now ?d4"
  let ?d6 = "mark_failed_tools now ?d5"
  have t: "t = fst (fail_exhausted now ?d6)"
    using assms by (auto simp: recover_interrupted_jobs_def Let_def split: prod.splits)
  have "tools_safe vm ?d1 ?d2" by (rule tools_safe_same) (simp_all add: requeue_interrupted_def Let_def)
  moreover have "tools_safe vm ?d3 ?d4"
    by (rule tools_safe_vms) (simp_all add: mark_failed_vms_def map_update_where)
  moreover have "tools_safe vm ?d4 ?d5"
    by (rule tools_safe_same) (simp_all add: mark_failed_snapshots_def)
  moreover have "tools_safe vm ?d6 t"
    unfolding t by (rule tools_safe_same) (simp_all add: fail_exhausted_def)
  ultimately show ?thesis
    by (meson tools_safe_trans tools_safe_clean_exhausted tools_safe_clear_orphaned tools_safe_mark_tools)
qed

lemma tools_safe_insert: "insert_job f now r k p d = Inr (t, j) \<Longrightarrow> tools_safe vm d t"
  by (drule insert_job_Inr) (auto intro: tools_safe_same)

lemma tools_safe_reinstall:
  assumes "enqueue_reinstall_job f now r e s d = Inr (t, j)"
  shows "tools_safe vm d t"
proof -
  let ?d1 = "\<lambda>v. d\<lparr>vms := update_where (\<lambda>x. v_id x = v)
      (\<lambda>x. x\<lparr>v_state := VmReinstalling, v_desired := s, v_updated_at := now\<rparr>) (vms d)\<rparr>"
  have "t = d \<or> (\<exists>v p. insert_job f now r (nj_key r) p (?d1 v) = Inr (t, j))"
    using assms by (auto simp: enqueue_reinstall_job_def result_simps Let_def split: option.splits)
  moreover have "tools_safe vm d (?d1 v)" for v
    by (rule tools_safe_vms) (simp_all add: map_update_where)
  ultimately show ?thesis by (blast intro: tools_safe_refl tools_safe_trans tools_safe_insert)
qed

definition cancelled_row :: "string \<Rightarrow> timestamp \<Rightarrow> db \<Rightarrow> db" where
  "cancelled_row i now d = d\<lparr>jobs := update_where (\<lambda>j. j_id j = i \<and> j_status j = Queued)
     (\<lambda>j. j\<lparr>j_status := Cancelled, j_locked_by := None, j_locked_at := None, j_updated_at := now,
        j_finished_at := Some now, j_payload := json_remove staged_password_field (j_payload j)\<rparr>)
     (jobs d)\<rparr>"

definition reinstall_undone :: "string \<Rightarrow> timestamp \<Rightarrow> db \<Rightarrow> db" where
  "reinstall_undone v now e = e\<lparr>vms := update_where (\<lambda>x. v_id x = v \<and> v_state x = VmReinstalling)
     (\<lambda>x. x\<lparr>v_state := VmUnknown, v_updated_at := now\<rparr>) (vms e)\<rparr>"

text \<open>The four shapes of a database after a cancellation.\<close>

lemma cancel_cases:
  assumes "cancel_job i now d = Inr (t, u)"
  obtains (row) "t = cancelled_row i now d"
    | (create) gone x where "t = delete_vm_rows now gone ((cancelled_row i now d)\<lparr>ips := x\<rparr>)"
    | (reinstall) job v where "t = reinstall_undone v now (cleanup_unarmed job now (cancelled_row i now d))"
    | (snapshot) x where "t = (cancelled_row i now d)\<lparr>snapshots := x\<rparr>"
proof -
  from assms obtain job where q: "query_job d i = Some job" "j_status job = Queued"
    and p: "count_where (\<lambda>j. j_id j = i \<and> j_status j = Queued) (jobs d) \<noteq> 0"
    by (auto simp: cancel_job_def result_simps Let_def)
  note a = assms [unfolded cancel_job_def Let_def, folded cancelled_row_def reinstall_undone_def]
  consider "j_kind job = ''vm.create''" | "j_kind job = ''vm.reinstall''"
    | "j_kind job = ''vm.snapshot.create''"
    | "j_kind job \<notin> {''vm.create'', ''vm.reinstall'', ''vm.snapshot.create''}" by blast
  then show thesis
  proof cases
    case 1
    then show ?thesis using a q p row create by (auto simp: require_changed_def split: option.splits)
  next
    case 2
    then show ?thesis using a q p row reinstall by (auto simp: require_changed_def split: option.splits)
  next
    case 3
    then show ?thesis using a q p row snapshot by (auto simp: require_changed_def split: option.splits)
  next
    case 4
    then show ?thesis using a q p row by (auto simp: require_changed_def)
  qed
qed

lemma tools_safe_cancel:
  assumes "cancel_job i now d = Inr (t, u)"
  shows "tools_safe vm d t"
proof -
  have c: "tools_safe vm d (cancelled_row i now d)"
    by (rule tools_safe_same) (simp_all add: cancelled_row_def)
  from assms show ?thesis
  proof (cases rule: cancel_cases)
    case row
    then show ?thesis using c by simp
  next
    case (create gone x)
    then show ?thesis by (simp add: tools_safe_delete_vm_rows cancelled_row_def)
  next
    case (reinstall job v)
    let ?e = "cleanup_unarmed job now (cancelled_row i now d)"
    have "tools_safe vm ?e t"
      unfolding reinstall by (rule tools_safe_vms) (simp_all add: reinstall_undone_def map_update_where)
    then show ?thesis using c by (blast intro: tools_safe_trans tools_safe_cleanup)
  next
    case (snapshot x)
    then show ?thesis by (auto intro: tools_safe_from [OF c])
  qed
qed

lemma tools_safe_jobs:
  assumes "job_step d r = Inr t"
  shows "tools_safe vm d t"
proof -
  have e: "tools_safe vm d t" if "enqueue_job f now q d = Inr (t, j)" for f now q j
    using that by (auto simp: enqueue_job_def result_simps
        intro: tools_safe_refl tools_safe_insert split: option.splits)
  have b: "tools_safe vm d t" if "enqueue_bootstrap_job f now q d = Inr (t, j)" for f now q j
    using that by (auto simp: enqueue_bootstrap_job_def result_simps Let_def
        intro: tools_safe_refl tools_safe_insert split: option.splits)
  have x: "tools_safe vm d t" if "enqueue_delete_job f now q d = Inr (t, j)" for f now q j
    using delete_Inr [OF that] by (auto intro: tools_safe_refl tools_safe_insert)
  have c: "tools_safe vm d t" if "claim_next_job w now d = Inr (t, y)" for w now y
    using that by (intro tools_safe_same)
      (auto simp: claim_next_job_def result_simps Let_def split: option.splits if_splits)
  have p: "tools_safe vm d t" if "update_job_progress i z now d = Inr (t, u)" for i z now u
    using that by (intro tools_safe_same)
      (auto simp: update_job_progress_def result_simps Let_def split: option.splits if_splits)
  have f: "tools_safe vm d t" if "finish_job i z now d = Inr (t, u)" for i z now u
    using that by (intro tools_safe_same) (auto simp: finish_job_def result_simps Let_def)
  have f': "tools_safe vm d t" if "fail_job i z retry now d = Inr (t, u)" for i z retry now u
  proof -
    have "\<exists>job e. (e = d \<or> e = cleanup_unarmed job now d) \<and> tools t = tools e \<and> vms t = vms e"
      using that by (auto simp: fail_job_def result_simps Let_def split: if_splits) force+
    then show ?thesis
      by (auto intro: tools_safe_from tools_safe_refl tools_safe_cleanup)
  qed
  have co: "tools_safe vm d t" if "commit_reinstall_password i now d = Inr (t, u)" for i now u
    using that by (intro tools_safe_vms)
      (auto simp: commit_reinstall_password_def result_simps Let_def map_update_where
        split: option.splits if_splits)
  have de: "tools_safe vm d t" if "delete_vm v now d = Inr (t, u)" for v now u
    using that by (auto simp: delete_vm_def result_simps Let_def intro!: tools_safe_delete_vm_rows)
  from assms show ?thesis
    by (cases r) (auto simp: result_db_Inr intro: e b x c p f f' co de tools_safe_reinstall
        tools_safe_cancel tools_safe_recover)
qed

section \<open>The requests of the rotation\<close>

lemma with_tools_row_Inr: "with_tools_row vm d = Inr (t, r) \<longleftrightarrow> t = d \<and> query_tools d vm = Some r"
  by (auto simp: with_tools_row_def result_simps)

text \<open>An update of guest-tools rows that arms nothing away, among well-formed rows.\<close>

lemma tools_step_update:
  assumes "pending_all d" "tools t = update_where p f (tools d)" "vms t = vms d"
    and "\<And>r. p r \<Longrightarrow> pending_ok r \<Longrightarrow> t_vm r = vm \<Longrightarrow> t_pending_installed r \<Longrightarrow> same_pending r (f r)"
    and "\<And>r. p r \<Longrightarrow> pending_ok r \<Longrightarrow> pending_ok (f r)"
    and "\<And>r. p r \<Longrightarrow> t_vm (f r) = t_vm r"
  shows "tools_rel vm d t \<and> pending_all t"
proof
  show "tools_rel vm d t"
    by (rule tools_rel_update [OF assms(2,3)]) (use assms(1,4) in \<open>auto simp: pending_all_def\<close>)
  show "pending_all t"
    by (rule pending_all_update [OF assms(2,5,6,1)])
qed

lemma configure_safe:
  assumes "pending_all d" "configure_tools lib m rnd v pl pr s ver now d = Inr (t, r)"
  shows "tools_rel vm d t \<and> pending_all t"
proof -
  obtain env where enc: "encrypt_secret lib m rnd s (tools_secret_context v) = Inr env"
    using assms(2) by (auto simp: configure_tools_def result_simps)
  show ?thesis
  proof (cases "query_tools d v")
    case None
    then have new: "v \<notin> t_vm ` set (tools d)"
      by (auto simp: query_tools_def select_one_None)
    obtain row where row: "t = d\<lparr>tools := tools d @ [row]\<rparr>" "t_vm row = v" "pending_ok row"
      using assms(2) None enc
      by (auto simp: configure_tools_def result_simps with_tools_row_Inr pending_ok_def split: if_splits)
    have "tools_rel vm d t"
      using row(1) by (auto simp: tools_rel_def vm_exists_def same_pending_def)
    moreover have "pending_all t" using assms(1) row new by (auto simp: pending_all_def)
    ultimately show ?thesis ..
  next
    case (Some q)
    let ?f = "\<lambda>t. (clear_pending now t)\<lparr>t_enabled := True, t_platform := pl,
        t_provisioner := pr, t_envelope := env, t_desired_version := ver, t_installed_version := None,
        t_status := ToolsPending, t_last_seen_at := None, t_last_error := None\<rparr>"
    have t: "\<not> t_pending_installed q" "t = d\<lparr>tools := update_where (\<lambda>t. t_vm t = v) ?f (tools d)\<rparr>"
      using assms(2) Some enc
      by (auto simp: configure_tools_def result_simps with_tools_row_Inr split: if_splits)
    have no: "\<not> t_pending_installed r" if "r \<in> set (tools d)" "t_vm r = v" for r
      using pending_all_unique [OF assms(1) Some that] t(1) by simp
    have "tools_rel vm d t"
      by (rule tools_rel_update [where p = "\<lambda>t. t_vm t = v" and f = ?f])
        (use t(2) no in auto)
    moreover have "pending_all t"
      by (rule pending_all_update [where p = "\<lambda>t. t_vm t = v" and f = ?f, OF _ _ _ assms(1)])
        (simp_all add: t(2) pending_ok_def clear_pending_def)
    ultimately show ?thesis ..
  qed
qed

lemma delete_configuration_safe:
  assumes "pending_all d" "delete_tools_configuration v d = Inr (t, u)"
  shows "tools_rel vm d t \<and> pending_all t"
proof -
  let ?p = "\<lambda>t. t_vm t = v \<and> \<not> t_pending_installed t"
  have t: "t = d\<lparr>tools := delete_where ?p (tools d)\<rparr>"
    using assms(2) by (auto simp: delete_tools_configuration_def Let_def split: if_splits option.splits)
  have "tools_safe vm d t" by (rule tools_safe_delete [where p = ?p]) (simp_all add: t)
  then show ?thesis using assms(1) by (simp add: tools_safe_def)
qed

lemma retire_safe:
  assumes "pending_all d" "retire_tools v d = Inr (t, b)"
  shows "v \<noteq> vm \<Longrightarrow> tools_rel vm d t" "pending_all t"
proof -
  have t: "t = d\<lparr>tools := delete_where (\<lambda>t. t_vm t = v) (tools d)\<rparr>"
    using assms(2) by (simp add: retire_tools_def)
  show "pending_all t" by (rule pending_all_delete [OF _ assms(1)]) (simp add: t)
  assume "v \<noteq> vm"
  then have "tools_safe vm d t" by (intro tools_safe_delete [where p = "\<lambda>t. t_vm t = v"]) (simp_all add: t)
  then show "tools_rel vm d t" by (simp add: tools_safe_def)
qed

lemma stage_safe:
  assumes "pending_all d" "stage_rotation lib m rnd g v pl pr s ver now d = Inr (t, x)"
  shows "tools_rel vm d t \<and> pending_all t"
proof -
  let ?p = "\<lambda>t. t_vm t = v \<and> t_enabled t \<and> t_pending_generation t = None"
  obtain env where t: "t = d\<lparr>tools := update_where ?p (\<lambda>t. t\<lparr>t_pending_envelope := Some env,
           t_pending_platform := Some pl, t_pending_provisioner := Some pr,
           t_pending_version := Some ver, t_pending_generation := Some g,
           t_pending_installed := False, t_updated_at := now\<rparr>) (tools d)\<rparr>"
    using assms(2) by (auto simp: stage_rotation_def result_simps Let_def split: if_splits option.splits)
  show ?thesis
    by (rule tools_step_update [OF assms(1), where p = ?p])
      (use t in \<open>auto simp: pending_ok_def\<close>)
qed

lemma mark_installed_safe:
  assumes "pending_all d" "mark_rotation_installed v g now d = Inr (t, r)"
  shows "tools_rel vm d t \<and> pending_all t"
proof -
  let ?p = "\<lambda>t. t_vm t = v \<and> t_enabled t \<and> t_pending_generation t = Some g"
  have t: "t = d\<lparr>tools := update_where ?p (\<lambda>t. t\<lparr>t_pending_installed := True,
         t_status := ToolsPending, t_last_error := None, t_updated_at := now\<rparr>) (tools d)\<rparr>"
    using assms(2) by (auto simp: mark_rotation_installed_def result_simps Let_def with_tools_row_Inr
        split: if_splits)
  show ?thesis
    by (rule tools_step_update [OF assms(1), where p = ?p])
      (use t in \<open>auto simp: pending_ok_def same_pending_def\<close>)
qed

lemma discard_safe:
  assumes "pending_all d" "discard_rotation v g now d = Inr (t, r)"
  shows "tools_rel vm d t \<and> pending_all t"
proof -
  let ?p = "\<lambda>t. t_vm t = v \<and> t_enabled t \<and> t_pending_generation t = Some g \<and> \<not> t_pending_installed t"
  have t: "t = d\<lparr>tools := update_where ?p (clear_pending now) (tools d)\<rparr>"
    using assms(2) by (auto simp: discard_rotation_def result_simps Let_def with_tools_row_Inr
        split: if_splits option.splits)
  show ?thesis
    by (rule tools_step_update [OF assms(1), where p = ?p and f = "clear_pending now"]) (simp_all add: t)
qed

lemma update_status_safe:
  assumes "pending_all d" "update_tools_status v st ver e c now d = Inr (t, r)"
  shows "tools_rel vm d t \<and> pending_all t"
proof -
  let ?p = "\<lambda>t. t_vm t = v \<and> t_enabled t"
  let ?f = "\<lambda>t. t\<lparr>t_status := (if t_pending_installed t \<and> st = ToolsReady then ToolsPending else st),
         t_installed_version := (if t_pending_installed t then t_installed_version t
           else case ver of None \<Rightarrow> t_installed_version t | Some v \<Rightarrow> Some v),
         t_last_seen_at := (if c then Some now else t_last_seen_at t),
         t_last_error := map_option (take_chars 500) e, t_updated_at := now\<rparr>"
  have t: "t = d\<lparr>tools := update_where ?p ?f (tools d)\<rparr>"
    using assms(2) by (auto simp: update_tools_status_def result_simps Let_def with_tools_row_Inr)
  show ?thesis
    by (rule tools_step_update [OF assms(1), where p = ?p and f = ?f])
      (simp_all add: t pending_ok_def same_pending_def)
qed

lemma promote_Inr:
  assumes "promote_rotation lib m rnd v g ver now d = Inr (t, r)"
  obtains q env pl pr s active where
    "select_one (\<lambda>t. t_vm t = v \<and> t_enabled t \<and> t_pending_generation t = Some g \<and> t_pending_installed t)
       (tools d) = Some q"
    "t_pending_envelope q = Some env" "t_pending_platform q = Some pl" "t_pending_provisioner q = Some pr"
    "t_pending_version q = Some ver"
    "decrypt_secret lib m env (tools_pending_context v g) = Inr s"
    "encrypt_secret lib m rnd s (tools_secret_context v) = Inr active"
    "t = d\<lparr>tools := update_where (\<lambda>t. t_vm t = v \<and> t_enabled t \<and> t_pending_generation t = Some g
            \<and> t_pending_installed t) (\<lambda>t. (clear_pending now t)\<lparr>
                    t_platform := pl, t_provisioner := pr, t_envelope := active,
                    t_desired_version := ver, t_installed_version := Some ver,
                    t_status := ToolsReady, t_last_seen_at := Some now, t_last_error := None\<rparr>)
                    (tools d)\<rparr>"
proof -
  note a = assms [unfolded promote_rotation_def Let_def]
  let ?p = "\<lambda>t. t_vm t = v \<and> t_enabled t \<and> t_pending_generation t = Some g \<and> t_pending_installed t"
  obtain q where q: "select_one ?p (tools d) = Some q"
    using a by (cases "select_one ?p (tools d)") (auto simp: result_simps)
  obtain env where env: "t_pending_envelope q = Some env"
    using a q by (cases "t_pending_envelope q") (auto simp: result_simps)
  obtain pl where pl: "t_pending_platform q = Some pl"
    using a q env by (cases "t_pending_platform q") (auto simp: result_simps)
  obtain pr where pr: "t_pending_provisioner q = Some pr"
    using a q env pl by (cases "t_pending_provisioner q") (auto simp: result_simps)
  obtain w where w: "t_pending_version q = Some w"
    using a q env pl pr by (cases "t_pending_version q") (auto simp: result_simps)
  let ?f = "\<lambda>active t. (clear_pending now t)\<lparr>t_platform := pl, t_provisioner := pr, t_envelope := active,
      t_desired_version := w, t_installed_version := Some w, t_status := ToolsReady,
      t_last_seen_at := Some now, t_last_error := None\<rparr>"
  have b: "and_then (require (ver = w) (Conflict (''guest-tools version '' @ ver
                  @ '' does not match required version '' @ w))) (\<lambda>_.
                and_then (decrypt_secret lib m env (tools_pending_context v g)) (\<lambda>secret.
                and_then (encrypt_secret lib m rnd secret (tools_secret_context v)) (\<lambda>active.
                  with_tools_row v (d\<lparr>tools := update_where ?p (?f active) (tools d)\<rparr>)))) = Inr (t, r)"
    using a by (simp add: and_then_Inr [of "validate_generation g"]
        and_then_Inr [of "validate_tools_version ''installed guest-tools version'' ver"] q env pl pr w)
  then obtain s active where s: "w = ver" "decrypt_secret lib m env (tools_pending_context v g) = Inr s"
      "encrypt_secret lib m rnd s (tools_secret_context v) = Inr active"
      "with_tools_row v (d\<lparr>tools := update_where ?p (?f active) (tools d)\<rparr>) = Inr (t, r)"
    unfolding and_then_Inr by auto
  show thesis
    by (rule that [OF q env pl pr w [unfolded s(1)] s(2,3)])
      (use s(1,4) in \<open>simp add: with_tools_row_Inr\<close>)
qed

lemma promote_safe:
  assumes "pending_all d" "promote_rotation lib m rnd v g ver now d = Inr (t, r)"
  shows "v \<noteq> vm \<Longrightarrow> tools_rel vm d t" "pending_all t"
proof -
  let ?p = "\<lambda>t. t_vm t = v \<and> t_enabled t \<and> t_pending_generation t = Some g \<and> t_pending_installed t"
  obtain q env pl pr s active where t:
    "t = d\<lparr>tools := update_where ?p (\<lambda>t. (clear_pending now t)\<lparr>
                    t_platform := pl, t_provisioner := pr, t_envelope := active,
                    t_desired_version := ver, t_installed_version := Some ver,
                    t_status := ToolsReady, t_last_seen_at := Some now, t_last_error := None\<rparr>)
                    (tools d)\<rparr>" using promote_Inr [OF assms(2)] .
  show "pending_all t"
    by (rule pending_all_update [where p = ?p, OF _ _ _ assms(1)])
      (use t in \<open>auto simp: pending_ok_def clear_pending_def\<close>)
  show "tools_rel vm d t" if "v \<noteq> vm"
    by (rule tools_rel_update [where p = ?p]) (use t that in auto)
qed

lemma panel_step_pending:
  assumes "pending_all d" "panel_step lib m d q = Inr t"
  shows "pending_all t"
proof (cases q)
  case (JobRequest r)
  then show ?thesis using assms tools_safe_jobs [of d r t] by (auto simp: tools_safe_def)
next
  case (ToolsRequest r)
  with assms show ?thesis
    by (cases r) (auto simp: result_db_Inr dest: configure_safe delete_configuration_safe retire_safe(2)
        stage_safe mark_installed_safe promote_safe(2) discard_safe update_status_safe)
qed

lemma panel_step_rel:
  assumes "pending_all d" "panel_step lib m d q = Inr t" "hands_off vm q"
  shows "tools_rel vm d t"
proof (cases q)
  case (JobRequest r)
  then show ?thesis using assms tools_safe_jobs [of d r t] by (auto simp: tools_safe_def)
next
  case (ToolsRequest r)
  with assms show ?thesis
    by (cases r) (auto simp: result_db_Inr dest: configure_safe delete_configuration_safe retire_safe(1)
        stage_safe mark_installed_safe promote_safe(1) discard_safe update_status_safe)
qed

interpretation rotation: guarded_machine "panel_step lib m" pending_all "\<lambda>_. True"
  by unfold_locales (rule panel_step_pending)

interpretation armed_rotation: guarded_machine "panel_step lib m" pending_all "hands_off vm"
  by unfold_locales (rule panel_step_pending)

text \<open>
  A pending rotation is all or nothing: from a database without guest-tools rows, through
  every history of queue and rotation requests (crash recovery and VM deletion included),
  each VM has at most one row, and its pending envelope, platform, provisioner, version and
  generation are all present or all absent; nothing is armed without them.
\<close>

theorem pending_rotation_complete:
  assumes "tools d = []"
  shows "distinct (map t_vm (tools (run_all (panel_step lib m) d qs)))
    \<and> (\<forall>t \<in> set (tools (run_all (panel_step lib m) d qs)).
         (t_pending_generation t = None) = (t_pending_envelope t = None)
         \<and> (t_pending_generation t = None) = (t_pending_platform t = None)
         \<and> (t_pending_generation t = None) = (t_pending_provisioner t = None)
         \<and> (t_pending_generation t = None) = (t_pending_version t = None)
         \<and> (t_pending_installed t \<longrightarrow> t_pending_generation t \<noteq> None))"
proof -
  have "pending_all d" using assms by (simp add: pending_all_def)
  then have "pending_all (run_all (panel_step lib m) d qs)" by (rule rotation.run_all_inv) simp
  then show ?thesis by (auto simp: pending_all_def pending_ok_def)
qed

lemma pending_rotation_complete_witness:
  "distinct (map t_vm (tools (run_all (panel_step demo_seal ''m'') empty_db
     [ToolsRequest (Retire ''v1''), JobRequest (Recover 5)])))"
proof -
  have "tools empty_db = []" by (simp add: empty_db_def)
  from pending_rotation_complete [OF this] show ?thesis by blast
qed

text \<open>
  C16. An armed key is never lost: whatever happens to a VM whose replacement media was
  published with a pending key (other requests, failed or cancelled reinstalls, crash
  recovery, reconfiguration, discards), the same generation stays armed with the same
  envelope, until it is promoted or retired or the VM itself is deleted.
\<close>

theorem armed_key_never_lost:
  assumes "pending_all d" "r \<in> set (tools d)" "t_vm r = vm" "t_pending_installed r"
    and "\<forall>q \<in> set qs. hands_off vm q"
  shows "(\<exists>r' \<in> set (tools (run_all (panel_step lib m) d qs)). t_vm r' = vm \<and> t_pending_installed r'
      \<and> t_pending_generation r' = t_pending_generation r \<and> t_pending_envelope r' = t_pending_envelope r)
    \<or> \<not> vm_exists (run_all (panel_step lib m) d qs) vm"
proof -
  have "tools_rel vm d (run_all (panel_step lib m) d qs)"
    by (rule armed_rotation.run_all_rel [where vm = vm])
      (use assms(1,5) in \<open>auto intro: tools_rel_refl tools_rel_trans panel_step_rel\<close>)
  then show ?thesis using assms(2-4) by (fastforce simp: tools_rel_def same_pending_def)
qed

definition demo_generation :: string where
  "demo_generation = ''01234567-89ab-cdef-0123-456789abcdef''"

definition demo_tools :: tools_row where
  "demo_tools = \<lparr>t_vm = ''v1'', t_enabled = True, t_platform = LinuxGuest, t_provisioner = CloudInit,
     t_envelope = ''x'', t_desired_version = ''1'', t_installed_version = None,
     t_status = ToolsReady, t_last_seen_at = None, t_last_error = None, t_pending_envelope = None,
     t_pending_platform = None, t_pending_provisioner = None, t_pending_version = None,
     t_pending_generation = None, t_pending_installed = False, t_created_at = 1, t_updated_at = 1\<rparr>"

definition demo_armed :: tools_row where
  "demo_armed = demo_tools\<lparr>t_pending_envelope := Some ''e'', t_pending_platform := Some LinuxGuest,
     t_pending_provisioner := Some CloudInit, t_pending_version := Some ''2'',
     t_pending_generation := Some demo_generation, t_pending_installed := True\<rparr>"

definition demo_vm :: vm_row where
  "demo_vm = sample_vm ''v1'' ''n''"

definition demo_armed_db :: db where
  "demo_armed_db = empty_db\<lparr>vms := [demo_vm], tools := [demo_armed]\<rparr>"

lemma demo_vm_kept:
  "vm_exists (run_all (panel_step demo_seal ''m'') (demo_armed_db)
      [ToolsRequest (DeleteConfiguration ''v1''), JobRequest (Recover 9)]) ''v1''"
  by (simp add: attempt_def demo_armed_db_def demo_armed_def demo_tools_def demo_vm_def empty_db_def
      result_db_def delete_tools_configuration_def recover_interrupted_jobs_def
      clean_exhausted_reinstalls_def requeue_interrupted_def clear_orphaned_generations_def
      mark_failed_vms_def mark_failed_snapshots_def mark_failed_tools_def fail_exhausted_def
      vm_exists_def require_def Let_def with_tools_row_def query_tools_def)

lemma armed_key_never_lost_witness:
  "\<exists>r' \<in> set (tools (run_all (panel_step demo_seal ''m'') demo_armed_db
      [ToolsRequest (DeleteConfiguration ''v1''), JobRequest (Recover 9)])). t_pending_installed r'"
proof -
  have p: "pending_all demo_armed_db" "demo_armed \<in> set (tools demo_armed_db)"
    "t_vm demo_armed = ''v1''" "t_pending_installed demo_armed"
    by (simp_all add: pending_all_def pending_ok_def demo_armed_def demo_tools_def demo_armed_db_def)
  show ?thesis
    using armed_key_never_lost [OF p, of "[ToolsRequest (DeleteConfiguration ''v1''), JobRequest (Recover 9)]"
        demo_seal "''m''"] demo_vm_kept by auto
qed

section \<open>The key a client uses\<close>

text \<open>Reading the only row of a VM after an update of it.\<close>

lemma select_enabled:
  assumes "pending_all d" "r \<in> set (tools d)" "t_vm r = vm" "t_enabled r"
  shows "select_one (\<lambda>t. t_vm t = vm \<and> t_enabled t) (tools d) = Some r"
proof (rule select_one_unique)
  fix r' assume "r' \<in> set (tools d)" "t_vm r' = vm \<and> t_enabled r'"
  with assms show "r' = r" by (metis distinct_map inj_onD pending_all_def)
qed (use assms in auto)

lemma client_secret_updated:
  assumes "pending_all d" "select_one (\<lambda>t. t_vm t = vm \<and> t_enabled t) (tools d) = Some r" "p r"
    and "\<And>x. p x \<Longrightarrow> t_vm (f x) = t_vm x \<and> t_enabled (f x) = t_enabled x"
  shows "select_one (\<lambda>t. t_vm t = vm \<and> t_enabled t) (update_where p f (tools d)) = Some (f r)"
  using assms(2-4) by (simp add: select_one_update_where)

text \<open>
  C17. A rotation hands the client over without a gap: staging leaves the key the client uses
  as it was; arming switches the client to the staged key; and promoting makes the very same
  key, encrypted again for its new place, the active one.
\<close>

theorem rotation_hands_over:
  assumes "seal_laws lib" "good_random rnd" "good_random rnd'" "valid_utf8 s" "pending_all d"
    and "stage_rotation lib m rnd g vm pl pr s v now d = Inr (d1, x)"
    and "mark_rotation_installed vm g now1 d1 = Inr (d2, r2)"
    and "promote_rotation lib m rnd' vm g v now2 d2 = Inr (d3, r3)"
    and "\<forall>e. encrypt_secret lib m rnd s (tools_pending_context vm g) = Inr e \<longrightarrow> length e \<le> 2097152"
    and "\<forall>e. encrypt_secret lib m rnd' s (tools_secret_context vm) = Inr e \<longrightarrow> length e \<le> 2097152"
  shows "tools_client_secret lib m vm d1 = tools_client_secret lib m vm d
    \<and> tools_client_secret lib m vm d2
        = Inr (Some \<lparr>cs_secret = s, cs_desired_version = v, cs_generation = Some g\<rparr>)
    \<and> tools_client_secret lib m vm d3
        = Inr (Some \<lparr>cs_secret = s, cs_desired_version = v, cs_generation = None\<rparr>)"
proof -
  let ?sel = "\<lambda>t. t_vm t = vm \<and> t_enabled t"
  let ?p = "\<lambda>t. t_vm t = vm \<and> t_enabled t \<and> t_pending_generation t = None"
  let ?f = "\<lambda>env t. t\<lparr>t_pending_envelope := Some env,
           t_pending_platform := Some pl, t_pending_provisioner := Some pr,
           t_pending_version := Some v, t_pending_generation := Some g,
           t_pending_installed := False, t_updated_at := now\<rparr>"
  obtain env where enc: "encrypt_secret lib m rnd s (tools_pending_context vm g) = Inr env"
    and one: "count_where ?p (tools d) = 1"
    and d1: "d1 = d\<lparr>tools := update_where ?p (?f env) (tools d)\<rparr>"
    using assms(6) by (auto simp: stage_rotation_def result_simps Let_def split: if_splits option.splits)
  have "0 < count_where ?p (tools d)" using one by simp
  then obtain r where r: "r \<in> set (tools d)" "?p r" unfolding count_where_pos by blast
  then have s0: "select_one ?sel (tools d) = Some r" by (intro select_enabled [OF assms(5)]) auto
  have "pending_ok r" using assms(5) r(1) by (simp add: pending_all_def)
  then have ni: "\<not> t_pending_installed r" using r(2) by (simp add: pending_ok_def)
  have s1: "select_one ?sel (tools d1) = Some (?f env r)"
    using client_secret_updated [OF assms(5) s0, of ?p "?f env"] r(2) by (simp add: d1)
  have p1: "pending_all d1" using stage_safe [OF assms(5,6)] by simp
  let ?q = "\<lambda>t. t_vm t = vm \<and> t_enabled t \<and> t_pending_generation t = Some g"
  let ?h = "\<lambda>t. t\<lparr>t_pending_installed := True,
         t_status := ToolsPending, t_last_error := None, t_updated_at := now1\<rparr>"
  have d2: "d2 = d1\<lparr>tools := update_where ?q ?h (tools d1)\<rparr>"
    using assms(7) by (auto simp: mark_rotation_installed_def result_simps Let_def with_tools_row_Inr
        split: if_splits)
  have s2: "select_one ?sel (tools d2) = Some (?h (?f env r))"
    using client_secret_updated [OF p1 s1, of ?q ?h] r(2) by (simp add: d2)
  have p2: "pending_all d2" using mark_installed_safe [OF p1 assms(7)] by simp
  have dec: "decrypt_secret lib m env (tools_pending_context vm g) = Inr s"
    using encrypt_decrypt [OF assms(1,2) enc] assms(4,9) enc by simp
  let ?z = "\<lambda>t. t_vm t = vm \<and> t_enabled t \<and> t_pending_generation t = Some g \<and> t_pending_installed t"
  obtain q env' pl' pr' s' active where z: "select_one ?z (tools d2) = Some q"
      "t_pending_envelope q = Some env'" "t_pending_platform q = Some pl'"
      "t_pending_provisioner q = Some pr'" "t_pending_version q = Some v"
      "decrypt_secret lib m env' (tools_pending_context vm g) = Inr s'"
      "encrypt_secret lib m rnd' s' (tools_secret_context vm) = Inr active"
      "d3 = d2\<lparr>tools := update_where ?z (\<lambda>t. (clear_pending now2 t)\<lparr>
                    t_platform := pl', t_provisioner := pr', t_envelope := active,
                    t_desired_version := v, t_installed_version := Some v,
                    t_status := ToolsReady, t_last_seen_at := Some now2, t_last_error := None\<rparr>)
                    (tools d2)\<rparr>"
    using promote_Inr [OF assms(8)] .
  have "q \<in> set (tools d2)" "?z q" using select_one_Some [OF z(1)] by auto
  then have "q = ?h (?f env r)"
    using select_enabled [OF p2, of q vm] s2 by simp
  then have "env' = env" using z(2) by simp
  then have s': "s' = s" using z(6) dec by simp
  have s3: "select_one ?sel (tools d3) = Some ((clear_pending now2 (?h (?f env r)))\<lparr>
                    t_platform := pl', t_provisioner := pr', t_envelope := active,
                    t_desired_version := v, t_installed_version := Some v,
                    t_status := ToolsReady, t_last_seen_at := Some now2, t_last_error := None\<rparr>)"
    using client_secret_updated [OF p2 s2, of ?z "\<lambda>t. (clear_pending now2 t)\<lparr>
                    t_platform := pl', t_provisioner := pr', t_envelope := active,
                    t_desired_version := v, t_installed_version := Some v,
                    t_status := ToolsReady, t_last_seen_at := Some now2, t_last_error := None\<rparr>"] r(2)
    by (simp add: z(8) clear_pending_def)
  have dec': "decrypt_secret lib m active (tools_secret_context vm) = Inr s"
    using encrypt_decrypt [OF assms(1,3) z(7)] assms(4,10) z(7) s' by simp
  show ?thesis
    by (simp add: tools_client_secret_def s0 s1 s2 s3 ni dec dec' clear_pending_def)
qed

lemma demo_encrypts:
  assumes "ctx \<noteq> []" "length ctx \<le> 512"
  shows "\<exists>e. encrypt_secret demo_seal ''m'' demo_random ''k'' ctx = Inr e \<and> length e \<le> 2097152"
  using assms
  by (simp add: encrypt_secret_def validate_context_def max_secret_bytes_def demo_seal_def demo_put_def
      demo_random_def envelope_aad_def envelope_algorithm_def)

lemma demo_generation_ok: "validate_generation demo_generation = Inr ()"
  by code_simp

lemma demo_texts:
  "validate_non_empty l ''k'' = Inr ()" "validate_tools_version l ''2'' = Inr ()"
  by (simp_all add: validate_non_empty_def validate_tools_version_def trim_def ascii_ws_def code_of_def)

lemma rotation_hands_over_witness:
  "\<exists>d1 d2 d3 r2 r3.
     stage_rotation demo_seal ''m'' demo_random demo_generation ''v1'' LinuxGuest CloudInit ''k'' ''2'' 5
       (empty_db\<lparr>tools := [demo_tools]\<rparr>) = Inr (d1, demo_generation)
     \<and> mark_rotation_installed ''v1'' demo_generation 6 d1 = Inr (d2, r2)
     \<and> promote_rotation demo_seal ''m'' demo_random ''v1'' demo_generation ''2'' 7 d2 = Inr (d3, r3)
     \<and> tools_client_secret demo_seal ''m'' ''v1'' d3
         = Inr (Some \<lparr>cs_secret = ''k'', cs_desired_version = ''2'', cs_generation = None\<rparr>)"
proof -
  obtain env where env: "encrypt_secret demo_seal ''m'' demo_random ''k''
      (tools_pending_context ''v1'' demo_generation) = Inr env" "length env \<le> 2097152"
    using demo_encrypts [of "tools_pending_context ''v1'' demo_generation"]
    by (auto simp: tools_pending_context_def demo_generation_def)
  obtain act where act: "encrypt_secret demo_seal ''m'' demo_random ''k''
      (tools_secret_context ''v1'') = Inr act" "length act \<le> 2097152"
    using demo_encrypts [of "tools_secret_context ''v1''"] by (auto simp: tools_secret_context_def)
  have utf: "valid_utf8 ''k''" by (simp add: code_of_def)
  have dec: "decrypt_secret demo_seal ''m'' env (tools_pending_context ''v1'' demo_generation) = Inr ''k''"
    by (rule encrypt_decrypt [OF demo_seal_laws demo_good_random env utf])
  let ?d0 = "empty_db\<lparr>tools := [demo_tools]\<rparr>"
  have p0: "pending_all ?d0" by (simp add: pending_all_def pending_ok_def demo_tools_def)
  let ?r1 = "demo_tools\<lparr>t_pending_envelope := Some env, t_pending_platform := Some LinuxGuest,
      t_pending_provisioner := Some CloudInit, t_pending_version := Some ''2'',
      t_pending_generation := Some demo_generation, t_pending_installed := False, t_updated_at := 5\<rparr>"
  have 1: "stage_rotation demo_seal ''m'' demo_random demo_generation ''v1'' LinuxGuest CloudInit ''k'' ''2'' 5 ?d0
      = Inr (empty_db\<lparr>tools := [?r1]\<rparr>, demo_generation)"
    by (simp add: stage_rotation_def demo_texts env(1) demo_tools_def Let_def)
  let ?r2 = "?r1\<lparr>t_pending_installed := True, t_status := ToolsPending, t_last_error := None, t_updated_at := 6\<rparr>"
  have 2: "mark_rotation_installed ''v1'' demo_generation 6 (empty_db\<lparr>tools := [?r1]\<rparr>)
      = Inr (empty_db\<lparr>tools := [?r2]\<rparr>, ?r2)"
    by (simp add: mark_rotation_installed_def demo_generation_ok with_tools_row_def query_tools_def
        demo_tools_def Let_def)
  obtain d3 r3 where 3: "promote_rotation demo_seal ''m'' demo_random ''v1'' demo_generation ''2'' 7
      (empty_db\<lparr>tools := [?r2]\<rparr>) = Inr (d3, r3)"
    by (simp add: promote_rotation_def demo_generation_ok demo_texts dec act(1) with_tools_row_def
        query_tools_def demo_tools_def clear_pending_def Let_def)
  have "tools_client_secret demo_seal ''m'' ''v1'' d3
      = Inr (Some \<lparr>cs_secret = ''k'', cs_desired_version = ''2'', cs_generation = None\<rparr>)"
    using rotation_hands_over [OF demo_seal_laws demo_good_random demo_good_random utf p0 1 2 3] env act
    by simp
  with 1 2 3 show ?thesis by blast
qed

end
