(* ===== verification/Ip_Inventory.thy ===== *)
theory Ip_Inventory
  imports Panel_Db
begin

text \<open>
  IP pools, addresses and the blacklist (\<open>src/db.rs\<close>, the operations from
  \<open>create_ip_pool\<close> to \<open>set_ip_status\<close> and the blacklist entries). Networks are values of
  the crate \<open>ipnet\<close>, which is not part of the repository: its type and the functions the
  source calls are the record \<open>ipnet_lib\<close>, and what the properties need of them is stated in
  \<open>ipnet_laws\<close>. The CHECK and partial UNIQUE constraints on address rows are not repeated in
  the operations: the invariant proved of all histories says they are never violated.
\<close>

record 'n ipnet_lib =
  net_parse :: "string \<Rightarrow> 'n option"
  net_show :: "'n \<Rightarrow> string"
  net_addr :: "'n \<Rightarrow> ip_addr"
  net_prefix_len :: "'n \<Rightarrow> nat"
  net_trunc :: "'n \<Rightarrow> 'n"
  net_new :: "ip_addr \<Rightarrow> nat \<Rightarrow> 'n option"
  net_contains :: "'n \<Rightarrow> ip_addr \<Rightarrow> bool"

definition networks_overlap :: "'n ipnet_lib \<Rightarrow> 'n \<Rightarrow> 'n \<Rightarrow> bool" where
  "networks_overlap lib left right \<longleftrightarrow>
     family_for_ip (net_addr lib left) = family_for_ip (net_addr lib right)
     \<and> (net_contains lib left (net_addr lib right) \<or> net_contains lib right (net_addr lib left))"

definition query_pool :: "db \<Rightarrow> string \<Rightarrow> pool_row option" where
  "query_pool d i = select_one (\<lambda>p. p_id p = i) (pools d)"

definition query_address :: "db \<Rightarrow> string \<Rightarrow> ip_row option" where
  "query_address d address_or_id =
     select_one (\<lambda>a. a_address a = address_or_id \<or> a_id a = address_or_id) (ips d)"

section \<open>Pools\<close>

record new_pool =
  np_name :: string
  np_cidr :: string
  np_scope :: ip_scope
  np_gateway :: "string option"
  np_bridge :: "string option"
  np_vlan :: "nat option"
  np_mtu :: nat
  np_enabled :: bool

record pool_patch =
  pp_name :: "string option"
  pp_scope :: "ip_scope option"
  pp_gateway :: "string option"
  pp_bridge :: "string option"
  pp_vlan :: "nat option"
  pp_mtu :: "nat option"
  pp_enabled :: "bool option"

text \<open>The column checks of \<open>ip_pools\<close> that the operations can meet.\<close>

definition pool_checks :: "nat option \<Rightarrow> nat \<Rightarrow> bool" where
  "pool_checks vlan mtu \<longleftrightarrow>
     (case vlan of None \<Rightarrow> True | Some v \<Rightarrow> 1 \<le> v \<and> v \<le> 4094) \<and> 576 \<le> mtu \<and> mtu \<le> 9216"

definition gateway_inside :: "'n ipnet_lib \<Rightarrow> 'n \<Rightarrow> string option \<Rightarrow> app_error + unit" where
  "gateway_inside lib network gateway = (case gateway of
     None \<Rightarrow> Inr ()
   | Some g \<Rightarrow>
       and_then (ok_or (parse_ip g) (Validation ''gateway is invalid'')) (\<lambda>address.
         require (net_contains lib network address)
           (Validation ''IP pool gateway must be inside its CIDR'')))"

definition check_no_overlap :: "'n ipnet_lib \<Rightarrow> 'n \<Rightarrow> pool_row \<Rightarrow> app_error + unit" where
  "check_no_overlap lib network p =
     and_then (ok_or (net_parse lib (p_cidr p)) (Internal ''stored IP pool CIDR is invalid'')) (\<lambda>other.
       require (\<not> networks_overlap lib network other)
         (Conflict (''IP pool '' @ p_cidr p @ '' overlaps an existing range'')))"

text \<open>\<open>create_ip_pool\<close>.\<close>

definition create_ip_pool ::
  "'n ipnet_lib \<Rightarrow> string \<Rightarrow> timestamp \<Rightarrow> new_pool \<Rightarrow> db \<Rightarrow> pool_row transaction" where
  "create_ip_pool lib i now spec d =
     and_then (validate_non_empty ''IP pool name'' (np_name spec)) (\<lambda>_.
     and_then (ok_or (net_parse lib (np_cidr spec)) (Validation ''IP pool CIDR is invalid'')) (\<lambda>network.
     let family = family_for_ip (net_addr lib network) in
     and_then (canonical_optional_ip (np_gateway spec) (Some family)) (\<lambda>gateway.
     and_then (gateway_inside lib network gateway) (\<lambda>_.
     and_then (check_all (check_no_overlap lib network) (pools d)) (\<lambda>_.
     let row = \<lparr>p_id = i, p_name = trim (np_name spec), p_cidr = net_show lib network,
           p_family = family, p_scope = np_scope spec, p_gateway = gateway,
           p_bridge = np_bridge spec, p_vlan = np_vlan spec, p_mtu = np_mtu spec,
           p_enabled = np_enabled spec, p_created_at = now, p_updated_at = now\<rparr> in
     and_then (require (pool_checks (np_vlan spec) (np_mtu spec)) check_error) (\<lambda>_.
     and_then (require (\<forall>p \<in> set (pools d). p_id p \<noteq> i \<and> p_cidr p \<noteq> p_cidr row
         \<and> ascii_lower (p_name p) \<noteq> ascii_lower (p_name row)) unique_error) (\<lambda>_.
     let d1 = d\<lparr>pools := pools d @ [row]\<rparr> in
     and_then (ok_or (query_pool d1 i) (NotFound ''IP pool'')) (\<lambda>p. Inr (d1, p)))))))))"

text \<open>\<open>patch_ip_pool\<close>.\<close>

definition patched_pool ::
  "timestamp \<Rightarrow> string \<Rightarrow> string option \<Rightarrow> nat \<Rightarrow> pool_patch \<Rightarrow> pool_row \<Rightarrow> pool_row \<Rightarrow> pool_row" where
  "patched_pool now name gateway mtu patch current p = p\<lparr>
     p_name := name,
     p_scope := (case pp_scope patch of Some s \<Rightarrow> s | None \<Rightarrow> p_scope current),
     p_gateway := gateway,
     p_bridge := (case pp_bridge patch of Some b \<Rightarrow> Some b | None \<Rightarrow> p_bridge current),
     p_vlan := (case pp_vlan patch of Some v \<Rightarrow> Some v | None \<Rightarrow> p_vlan current),
     p_mtu := mtu,
     p_enabled := (case pp_enabled patch of Some e \<Rightarrow> e | None \<Rightarrow> p_enabled current),
     p_updated_at := now\<rparr>"

definition patch_ip_pool ::
  "'n ipnet_lib \<Rightarrow> string \<Rightarrow> timestamp \<Rightarrow> pool_patch \<Rightarrow> db \<Rightarrow> pool_row transaction" where
  "patch_ip_pool lib i now patch d =
     and_then (ok_or (query_pool d i) (NotFound ''IP pool'')) (\<lambda>current.
     let name = trim (case pp_name patch of Some n \<Rightarrow> n | None \<Rightarrow> p_name current) in
     and_then (validate_non_empty ''IP pool name'' name) (\<lambda>_.
     and_then (ok_or (net_parse lib (p_cidr current))
         (Validation ''stored IP pool CIDR is invalid'')) (\<lambda>network.
     let family = family_for_ip (net_addr lib network) in
     and_then (canonical_optional_ip
         (case pp_gateway patch of Some g \<Rightarrow> Some g | None \<Rightarrow> p_gateway current)
         (Some family)) (\<lambda>gateway.
     and_then (gateway_inside lib network gateway) (\<lambda>_.
     let mtu = (case pp_mtu patch of Some m \<Rightarrow> m | None \<Rightarrow> p_mtu current) in
     and_then (require (576 \<le> mtu \<and> mtu \<le> 9216)
         (Validation ''MTU must be between 576 and 9216'')) (\<lambda>_.
     let row = patched_pool now name gateway mtu patch current current in
     and_then (require (pool_checks (p_vlan row) mtu) check_error) (\<lambda>_.
     and_then (require (\<forall>p \<in> set (pools d). p_id p = i \<or> ascii_lower (p_name p) \<noteq> ascii_lower name)
         unique_error) (\<lambda>_.
     let d1 = d\<lparr>pools := update_where (\<lambda>p. p_id p = i)
           (patched_pool now name gateway mtu patch current) (pools d)\<rparr> in
     and_then (ok_or (query_pool d1 i) (NotFound ''IP pool'')) (\<lambda>p. Inr (d1, p))))))))))"

text \<open>\<open>delete_ip_pool\<close> and \<open>delete_ip_pool_with_unassigned_addresses\<close>.\<close>

definition delete_pool_row :: "string \<Rightarrow> db \<Rightarrow> unit transaction" where
  "delete_pool_row i d =
     and_then (require_changed (count_where (\<lambda>p. p_id p = i) (pools d)) ''IP pool'') (\<lambda>_.
       Inr (d\<lparr>pools := delete_where (\<lambda>p. p_id p = i) (pools d)\<rparr>, ()))"

definition delete_ip_pool :: "string \<Rightarrow> db \<Rightarrow> unit transaction" where
  "delete_ip_pool i d =
     and_then (require (count_where (\<lambda>a. a_pool a = Some i) (ips d) = 0)
       (Conflict (''remove the pool'' @ [CHR 0x27] @ ''s explicit addresses before deleting it''))) (\<lambda>_.
     delete_pool_row i d)"

definition delete_unassigned_pool :: "string \<Rightarrow> db \<Rightarrow> unit transaction" where
  "delete_unassigned_pool i d =
     and_then (require (count_where (\<lambda>a. a_pool a = Some i
         \<and> (a_status a \<in> {IpUsed, IpMain} \<or> a_vm a \<noteq> None)) (ips d) = 0)
       (Conflict ''pool contains an assigned or host-owned address'')) (\<lambda>_.
     delete_pool_row i (d\<lparr>ips := delete_where (\<lambda>a. a_pool a = Some i) (ips d)\<rparr>))"

section \<open>Addresses\<close>

record new_address =
  ia_pool :: "string option"
  ia_address :: string
  ia_prefix :: nat
  ia_scope :: ip_scope
  ia_status :: ip_status
  ia_gateway :: "string option"
  ia_reverse_dns :: "string option"
  ia_metadata :: json

definition json_object :: "json \<Rightarrow> (string \<times> json) list option" where
  "json_object j = (case j of JObj m \<Rightarrow> Some m | _ \<Rightarrow> None)"

definition object_extend ::
  "(string \<times> json) list \<Rightarrow> (string \<times> json) list \<Rightarrow> (string \<times> json) list" where
  "object_extend m extra = foldl (\<lambda>m (k, v). object_insert k v m) m extra"

text \<open>The row \<open>ON CONFLICT(address) DO UPDATE\<close> writes over the stored one.\<close>

definition overwrite_address :: "ip_row \<Rightarrow> ip_row \<Rightarrow> ip_row" where
  "overwrite_address excluded a = a\<lparr>
     a_pool := a_pool excluded, a_family := a_family excluded, a_prefix := a_prefix excluded,
     a_scope := a_scope excluded, a_status := a_status excluded,
     a_gateway := a_gateway excluded, a_vm := None, a_primary := False,
     a_reverse_dns := a_reverse_dns excluded, a_metadata := a_metadata excluded,
     a_updated_at := a_updated_at excluded\<rparr>"

definition store_address :: "ip_row \<Rightarrow> db \<Rightarrow> app_error + db" where
  "store_address row d =
     (if \<exists>a \<in> set (ips d). a_address a = a_address row
      then Inr (d\<lparr>ips := update_where (\<lambda>a. a_address a = a_address row) (overwrite_address row) (ips d)\<rparr>)
      else if \<exists>a \<in> set (ips d). a_id a = a_id row then Inl unique_error
      else Inr (d\<lparr>ips := ips d @ [row]\<rparr>))"

text \<open>What the stored row says about the request: assigned and host addresses are protected.\<close>

definition check_existing :: "string \<Rightarrow> ip_status \<Rightarrow> ip_row option \<Rightarrow> app_error + unit" where
  "check_existing address status existing = (case existing of
     None \<Rightarrow> Inr ()
   | Some a \<Rightarrow>
       and_then (require (a_vm a = None \<and> a_status a \<noteq> IpUsed)
         (Conflict (''IP address '' @ address @ '' is already assigned''))) (\<lambda>_.
       require (a_status a \<noteq> IpMain \<or> status = IpMain)
         (Conflict ''the detected host address is protected'')))"

text \<open>Pool, gateway, reverse DNS and metadata: kept for a host address, else the requested.\<close>

definition address_details ::
  "bool \<Rightarrow> ip_row option \<Rightarrow> string option \<Rightarrow> new_address
    \<Rightarrow> app_error + (string option \<times> string option \<times> string option \<times> json)" where
  "address_details preserve existing gateway spec = (case existing of
     Some a \<Rightarrow>
       if preserve \<and> a_status a = IpMain
       then and_then (ok_or (json_object (a_metadata a)) (Conflict
              (''existing main host-address metadata is not an object and cannot be safely merged''))) (\<lambda>m.
            and_then (ok_or (json_object (ia_metadata spec)) (Validation
              ''detected host-address metadata must be an object'')) (\<lambda>detected.
            Inr (a_pool a, a_gateway a, a_reverse_dns a, JObj (object_extend m detected))))
       else Inr (ia_pool spec, gateway, ia_reverse_dns spec, ia_metadata spec)
   | None \<Rightarrow> Inr (ia_pool spec, gateway, ia_reverse_dns spec, ia_metadata spec))"

definition check_pool_member ::
  "'n ipnet_lib \<Rightarrow> db \<Rightarrow> ip_addr \<Rightarrow> new_address \<Rightarrow> string option \<Rightarrow> app_error + unit" where
  "check_pool_member lib d parsed spec pool_id = (case pool_id of
     None \<Rightarrow> Inr ()
   | Some i \<Rightarrow>
       and_then (ok_or (query_pool d i) (NotFound ''IP pool'')) (\<lambda>pool.
       and_then (ok_or (net_parse lib (p_cidr pool)) (Internal ''stored IP pool CIDR is invalid'')) (\<lambda>network.
       and_then (require (p_family pool = family_for_ip parsed \<and> p_scope pool = ia_scope spec
           \<and> net_contains lib network parsed)
         (Validation ''address family, scope, and value must match its IP pool'')) (\<lambda>_.
       require (net_prefix_len lib network \<le> ia_prefix spec)
         (Validation ''address prefix length cannot be broader than its IP pool'')))))"

text \<open>\<open>upsert_ip_address_with_policy\<close>.\<close>

definition upsert_with_policy ::
  "'n ipnet_lib \<Rightarrow> string \<Rightarrow> timestamp \<Rightarrow> new_address \<Rightarrow> bool \<Rightarrow> db \<Rightarrow> ip_row transaction" where
  "upsert_with_policy lib i now spec preserve d =
     and_then (ok_or (parse_ip (ia_address spec)) (Validation ''IP address is invalid'')) (\<lambda>parsed.
     let family = family_for_ip parsed in
     and_then (validate_prefix family (ia_prefix spec)) (\<lambda>_.
     and_then (require (ia_status spec \<noteq> IpUsed)
         (Validation ''use assign_ip to mark an address as used'')) (\<lambda>_.
     and_then (canonical_optional_ip (ia_gateway spec) (Some family)) (\<lambda>requested.
     let address = show_ip parsed; existing = query_address d address in
     and_then (check_existing address (ia_status spec) existing) (\<lambda>_.
     and_then (address_details preserve existing requested spec)
       (\<lambda>(pool, gateway, reverse_dns, metadata).
     and_then (check_pool_member lib d parsed spec pool) (\<lambda>_.
     let row = \<lparr>a_id = (case existing of Some a \<Rightarrow> a_id a | None \<Rightarrow> i), a_pool = pool,
           a_address = address, a_family = family, a_prefix = ia_prefix spec,
           a_scope = ia_scope spec, a_status = ia_status spec, a_gateway = gateway,
           a_vm = None, a_primary = False, a_reverse_dns = reverse_dns,
           a_metadata = metadata, a_created_at = now, a_updated_at = now\<rparr> in
     and_then (store_address row d) (\<lambda>d1.
     and_then (ok_or (query_address d1 address) (NotFound ''IP address'')) (\<lambda>a. Inr (d1, a))))))))))"

definition upsert_ip_address ::
  "'n ipnet_lib \<Rightarrow> string \<Rightarrow> timestamp \<Rightarrow> new_address \<Rightarrow> db \<Rightarrow> ip_row transaction" where
  "upsert_ip_address lib i now spec d = upsert_with_policy lib i now spec False d"

definition upsert_detected_host_address ::
  "'n ipnet_lib \<Rightarrow> string \<Rightarrow> timestamp \<Rightarrow> new_address \<Rightarrow> db \<Rightarrow> ip_row transaction" where
  "upsert_detected_host_address lib i now spec d =
     and_then (require (ia_status spec = IpMain)
       (Validation ''a detected host address must have main status'')) (\<lambda>_.
     and_then (require (get_flag ''detected_host_address'' (ia_metadata spec))
       (Validation ''detected host address metadata is missing its detection marker'')) (\<lambda>_.
     upsert_with_policy lib i now spec True d))"

definition delete_ip_address :: "string \<Rightarrow> db \<Rightarrow> unit transaction" where
  "delete_ip_address address_or_id d =
     and_then (ok_or (query_address d address_or_id) (NotFound ''IP address'')) (\<lambda>a.
     and_then (require (a_status a \<noteq> IpMain \<and> a_vm a = None)
       (Conflict ''assigned and detected host addresses cannot be deleted'')) (\<lambda>_.
     and_then (require_changed (count_where (\<lambda>b. a_id b = a_id a) (ips d)) ''IP address'') (\<lambda>_.
     Inr (d\<lparr>ips := delete_where (\<lambda>b. a_id b = a_id a) (ips d)\<rparr>, ()))))"

section \<open>Assignment\<close>

definition active_entry :: "address_family \<Rightarrow> timestamp \<Rightarrow> blacklist_row \<Rightarrow> bool" where
  "active_entry family time b \<longleftrightarrow> b_enabled b \<and> b_family b = family
     \<and> (case b_expires_at b of None \<Rightarrow> True | Some e \<Rightarrow> time < e)"

fun any_entry_contains :: "'n ipnet_lib \<Rightarrow> ip_addr \<Rightarrow> blacklist_row list \<Rightarrow> app_error + bool" where
  "any_entry_contains lib address [] = Inr False"
| "any_entry_contains lib address (b # bs) =
     (case net_parse lib (b_cidr b) of
        None \<Rightarrow> Inl (Internal (''stored blacklist CIDR is invalid: '' @ b_cidr b))
      | Some network \<Rightarrow>
          if net_contains lib network address then Inr True else any_entry_contains lib address bs)"

definition ip_is_blacklisted ::
  "'n ipnet_lib \<Rightarrow> db \<Rightarrow> ip_addr \<Rightarrow> timestamp \<Rightarrow> app_error + bool" where
  "ip_is_blacklisted lib d address time =
     any_entry_contains lib address (filter (active_entry (family_for_ip address) time) (blacklist d))"

text \<open>A new owner needs the pool enabled, if the address has one.\<close>

definition check_pool_enabled :: "db \<Rightarrow> string \<Rightarrow> ip_row \<Rightarrow> app_error + unit" where
  "check_pool_enabled d address current = (case a_pool current of
     None \<Rightarrow> Inr ()
   | Some i \<Rightarrow>
       and_then (ok_or (query_pool d i) (Internal ''IP address references a missing pool'')) (\<lambda>pool.
         require (p_enabled pool) (Conflict (''IP address '' @ address
           @ '' belongs to a disabled pool and cannot be newly assigned''))))"

definition check_not_blacklisted ::
  "'n ipnet_lib \<Rightarrow> db \<Rightarrow> string \<Rightarrow> timestamp \<Rightarrow> app_error + unit" where
  "check_not_blacklisted lib d address now =
     and_then (ok_or (parse_ip address) (Validation ''IP address is invalid'')) (\<lambda>parsed.
     and_then (ip_is_blacklisted lib d parsed now) (\<lambda>listed.
       require (\<not> listed) (Conflict (''IP address '' @ address
         @ '' is blacklisted and cannot be assigned''))))"

definition demote_primary :: "string \<Rightarrow> address_family \<Rightarrow> timestamp \<Rightarrow> ip_row list \<Rightarrow> ip_row list" where
  "demote_primary vm family now =
     update_where (\<lambda>a. a_vm a = Some vm \<and> a_family a = family)
       (\<lambda>a. a\<lparr>a_primary := False, a_updated_at := now\<rparr>)"

definition give_address :: "string \<Rightarrow> string \<Rightarrow> bool \<Rightarrow> timestamp \<Rightarrow> ip_row list \<Rightarrow> ip_row list" where
  "give_address address vm primary now =
     update_where (\<lambda>a. a_address a = address)
       (\<lambda>a. a\<lparr>a_status := IpUsed, a_vm := Some vm, a_primary := primary, a_updated_at := now\<rparr>)"

text \<open>
  \<open>assign_ip\<close>. The address was printed by \<open>canonical_ip\<close> and is parsed again before the
  blacklist is read, for every request; the pool and blacklist checks are for a new owner.
\<close>

definition assign_ip ::
  "'n ipnet_lib \<Rightarrow> string \<Rightarrow> string \<Rightarrow> bool \<Rightarrow> timestamp \<Rightarrow> db \<Rightarrow> ip_row transaction" where
  "assign_ip lib value vm primary now d =
     and_then (canonical_ip value) (\<lambda>address.
     and_then (ok_or (query_address d address) (NotFound ''IP address'')) (\<lambda>current.
     let owned = (a_vm current = Some vm) in
     and_then (if owned then Inr () else check_pool_enabled d address current) (\<lambda>_.
     and_then (ok_or (parse_ip address) (Validation ''IP address is invalid'')) (\<lambda>_.
     and_then (if owned then Inr () else check_not_blacklisted lib d address now) (\<lambda>_.
     and_then (require (a_status current = IpFree \<or> owned)
         (Conflict (''IP address '' @ address @ '' is not free''))) (\<lambda>_.
     let rows = (if primary then demote_primary vm (a_family current) now (ips d) else ips d) in
     and_then (require (vm_exists d vm) foreign_key_error) (\<lambda>_.
     let d1 = d\<lparr>ips := give_address address vm primary now rows\<rparr> in
     and_then (ok_or (query_address d1 address) (NotFound ''IP address'')) (\<lambda>a. Inr (d1, a)))))))))"

text \<open>\<open>release_ip\<close>.\<close>

definition release_ip :: "string \<Rightarrow> timestamp \<Rightarrow> db \<Rightarrow> ip_row transaction" where
  "release_ip value now d =
     and_then (canonical_ip value) (\<lambda>address.
     let p = (\<lambda>a. a_address a = address \<and> a_status a = IpUsed) in
     and_then (require (count_where p (ips d) \<noteq> 0)
       (Conflict (''IP address '' @ address @ '' is not assigned''))) (\<lambda>_.
     let d1 = d\<lparr>ips := update_where p (free_address now) (ips d)\<rparr> in
     and_then (ok_or (query_address d1 address) (NotFound ''IP address'')) (\<lambda>a. Inr (d1, a))))"

text \<open>\<open>set_ip_status\<close>.\<close>

definition set_ip_status :: "string \<Rightarrow> ip_status \<Rightarrow> timestamp \<Rightarrow> db \<Rightarrow> ip_row transaction" where
  "set_ip_status value status now d =
     and_then (require (status \<noteq> IpUsed) (Validation ''use assign_ip to mark an address as used'')) (\<lambda>_.
     and_then (canonical_ip value) (\<lambda>address.
     and_then (require (case query_address d address of
           None \<Rightarrow> True | Some a \<Rightarrow> \<not> (a_status a = IpMain \<and> status \<noteq> IpMain))
       (Conflict ''the detected host address is protected'')) (\<lambda>_.
     and_then (require_changed (count_where (\<lambda>a. a_address a = address) (ips d)) ''IP address'') (\<lambda>_.
     let d1 = d\<lparr>ips := update_where (\<lambda>a. a_address a = address)
           (\<lambda>a. a\<lparr>a_status := status, a_vm := None, a_primary := False, a_updated_at := now\<rparr>) (ips d)\<rparr> in
     and_then (ok_or (query_address d1 address) (NotFound ''IP address'')) (\<lambda>a. Inr (d1, a))))))"

section \<open>The blacklist\<close>

definition canonical_ip_network :: "'n ipnet_lib \<Rightarrow> string \<Rightarrow> app_error + 'n" where
  "canonical_ip_network lib value =
     (let v = trim value; bad = Validation (''invalid IP address or CIDR: '' @ v) in
      if v = [] then Inl (Validation ''IP address or CIDR cannot be empty'')
      else (case net_parse lib v of
        Some network \<Rightarrow> Inr (net_trunc lib network)
      | None \<Rightarrow>
          and_then (ok_or (parse_ip v) bad) (\<lambda>address.
            ok_or (net_new lib address (if is_ipv4 address then 32 else 128)) bad)))"

definition query_entry :: "db \<Rightarrow> string \<Rightarrow> blacklist_row option" where
  "query_entry d id_or_cidr = select_one (\<lambda>b. b_id b = id_or_cidr \<or> b_cidr b = id_or_cidr) (blacklist d)"

record new_entry =
  nb_cidr :: string
  nb_reason :: string
  nb_source :: string
  nb_enabled :: bool
  nb_expires_at :: "timestamp option"
  nb_created_by :: "string option"
  nb_metadata :: json

definition create_ip_blacklist_entry ::
  "'n ipnet_lib \<Rightarrow> string \<Rightarrow> timestamp \<Rightarrow> new_entry \<Rightarrow> db \<Rightarrow> blacklist_row transaction" where
  "create_ip_blacklist_entry lib i now spec d =
     and_then (validate_non_empty ''blacklist reason'' (nb_reason spec)) (\<lambda>_.
     and_then (validate_non_empty ''blacklist source'' (nb_source spec)) (\<lambda>_.
     and_then (canonical_ip_network lib (nb_cidr spec)) (\<lambda>network.
     and_then (require (case nb_expires_at spec of None \<Rightarrow> True | Some e \<Rightarrow> now < e)
         (Validation ''blacklist expiration must be in the future'')) (\<lambda>_.
     let row = \<lparr>b_id = i, b_cidr = net_show lib network,
           b_family = family_for_ip (net_addr lib network), b_reason = trim (nb_reason spec),
           b_source = trim (nb_source spec), b_enabled = nb_enabled spec,
           b_expires_at = nb_expires_at spec, b_created_by = nb_created_by spec,
           b_metadata = nb_metadata spec, b_created_at = now, b_updated_at = now\<rparr> in
     and_then (require (\<forall>b \<in> set (blacklist d). b_id b \<noteq> i \<and> b_cidr b \<noteq> b_cidr row)
         unique_error) (\<lambda>_.
     let d1 = d\<lparr>blacklist := blacklist d @ [row]\<rparr> in
     and_then (ok_or (query_entry d1 i) (NotFound ''IP blacklist entry'')) (\<lambda>b. Inr (d1, b)))))))"

text \<open>In a patch, an absent expiry keeps the stored one and a null expiry clears it.\<close>

record entry_patch =
  bp_reason :: "string option"
  bp_source :: "string option"
  bp_enabled :: "bool option"
  bp_expires_at :: "timestamp option option"
  bp_metadata :: "json option"

definition patch_text :: "string \<Rightarrow> string option \<Rightarrow> string \<Rightarrow> app_error + string" where
  "patch_text label value current = (case value of
     None \<Rightarrow> Inr current
   | Some v \<Rightarrow> and_then (validate_non_empty label v) (\<lambda>_. Inr (trim v)))"

definition patch_ip_blacklist_entry ::
  "string \<Rightarrow> timestamp \<Rightarrow> entry_patch \<Rightarrow> db \<Rightarrow> blacklist_row transaction" where
  "patch_ip_blacklist_entry i now patch d =
     and_then (ok_or (query_entry d i) (NotFound ''IP blacklist entry'')) (\<lambda>entry.
     if bp_reason patch = None \<and> bp_source patch = None \<and> bp_enabled patch = None
        \<and> bp_expires_at patch = None \<and> bp_metadata patch = None
     then Inr (d, entry)
     else
     and_then (patch_text ''blacklist reason'' (bp_reason patch) (b_reason entry)) (\<lambda>reason.
     and_then (patch_text ''blacklist source'' (bp_source patch) (b_source entry)) (\<lambda>source.
     and_then (require (case bp_expires_at patch of Some (Some e) \<Rightarrow> b_created_at entry < e | _ \<Rightarrow> True)
         (Validation ''blacklist expiration must be after its creation time'')) (\<lambda>_.
     let f = (\<lambda>b. b\<lparr>b_reason := reason, b_source := source,
           b_enabled := (case bp_enabled patch of Some e \<Rightarrow> e | None \<Rightarrow> b_enabled entry),
           b_expires_at := (case bp_expires_at patch of Some e \<Rightarrow> e | None \<Rightarrow> b_expires_at entry),
           b_metadata := (case bp_metadata patch of Some m \<Rightarrow> m | None \<Rightarrow> b_metadata entry),
           b_updated_at := now\<rparr>);
         d1 = d\<lparr>blacklist := update_where (\<lambda>b. b_id b = b_id entry) f (blacklist d)\<rparr> in
     and_then (ok_or (query_entry d1 i) (NotFound ''IP blacklist entry'')) (\<lambda>b. Inr (d1, b))))))"

definition delete_ip_blacklist_entry :: "string \<Rightarrow> db \<Rightarrow> unit transaction" where
  "delete_ip_blacklist_entry i d =
     and_then (require_changed (count_where (\<lambda>b. b_id b = i) (blacklist d)) ''IP blacklist entry'') (\<lambda>_.
       Inr (d\<lparr>blacklist := delete_where (\<lambda>b. b_id b = i) (blacklist d)\<rparr>, ()))"

end
