(* ===== verification/Inventory_Safety.thy ===== *)
theory Inventory_Safety
  imports Ip_Inventory
begin

text \<open>
  What the IP inventory promises over all histories of requests: well-formed rows that never
  meet the schema's constraints, addresses that lie in their pool, pools that never share an
  address, assignments only of free and admitted addresses, owners that change only by
  release, and host addresses that stay.
\<close>

datatype inventory_request =
    CreatePool string timestamp new_pool
  | PatchPool string timestamp pool_patch
  | DeletePool string
  | DeleteUnassignedPool string
  | UpsertAddress string timestamp new_address
  | UpsertDetected string timestamp new_address
  | DeleteAddress string
  | AssignAddress string string bool timestamp
  | ReleaseAddress string timestamp
  | SetAddressStatus string ip_status timestamp
  | CreateEntry string timestamp new_entry
  | PatchEntry string timestamp entry_patch
  | DeleteEntry string
  | RemoveVm string timestamp

fun inventory_step :: "'n ipnet_lib \<Rightarrow> db \<Rightarrow> inventory_request \<Rightarrow> app_error + db" where
  "inventory_step lib d (CreatePool i now s) = result_db (create_ip_pool lib i now s d)"
| "inventory_step lib d (PatchPool i now s) = result_db (patch_ip_pool lib i now s d)"
| "inventory_step lib d (DeletePool i) = result_db (delete_ip_pool i d)"
| "inventory_step lib d (DeleteUnassignedPool i) = result_db (delete_unassigned_pool i d)"
| "inventory_step lib d (UpsertAddress i now s) = result_db (upsert_ip_address lib i now s d)"
| "inventory_step lib d (UpsertDetected i now s) = result_db (upsert_detected_host_address lib i now s d)"
| "inventory_step lib d (DeleteAddress a) = result_db (delete_ip_address a d)"
| "inventory_step lib d (AssignAddress a vm p now) = result_db (assign_ip lib a vm p now d)"
| "inventory_step lib d (ReleaseAddress a now) = result_db (release_ip a now d)"
| "inventory_step lib d (SetAddressStatus a s now) = result_db (set_ip_status a s now d)"
| "inventory_step lib d (CreateEntry i now s) = result_db (create_ip_blacklist_entry lib i now s d)"
| "inventory_step lib d (PatchEntry i now s) = result_db (patch_ip_blacklist_entry i now s d)"
| "inventory_step lib d (DeleteEntry i) = result_db (delete_ip_blacklist_entry i d)"
| "inventory_step lib d (RemoveVm v now) = result_db (delete_vm v now d)"

text \<open>Fresh identifiers are UUIDs; all that matters is that they are not address text.\<close>

fun fresh_ids :: "inventory_request \<Rightarrow> bool" where
  "fresh_ids (UpsertAddress i _ _) = (CHR ''-'' \<in> set i)"
| "fresh_ids (UpsertDetected i _ _) = (CHR ''-'' \<in> set i)"
| "fresh_ids _ = True"

section \<open>The characters of address text\<close>

definition address_char :: "char \<Rightarrow> bool" where
  "address_char c \<longleftrightarrow> is_ascii_alnum c \<or> c = CHR ''.'' \<or> c = CHR '':''"

lemma address_char_digit: "0 \<le> d \<Longrightarrow> d < 16 \<Longrightarrow> address_char (digit_char d)"
  using to_digit_digit_char [of d 16] by (auto dest: to_digit_ascii simp: address_char_def)

lemma show_base_chars:
  "0 \<le> n \<Longrightarrow> r \<le> 16 \<Longrightarrow> 2 \<le> r \<Longrightarrow> \<forall>c \<in> set (show_base r n). address_char c"
proof (induction r n rule: show_base.induct)
  case (1 r n)
  show ?case
  proof (cases "r < 2 \<or> n < r")
    case True
    then show ?thesis using "1.prems" address_char_digit [of n] by (simp add: show_base.simps)
  next
    case False
    have "0 \<le> n div r" "0 \<le> n mod r" "n mod r < r"
      using "1.prems" False by (auto simp: pos_imp_zdiv_nonneg_iff)
    with "1.IH" "1.prems" False address_char_digit [of "n mod r"] show ?thesis
      by (subst show_base.simps) auto
  qed
qed

lemma join_with_chars: "c \<in> set (join_with sep ss) \<Longrightarrow> c \<in> set sep \<or> (\<exists>s \<in> set ss. c \<in> set s)"
  by (induction sep ss rule: join_with.induct) auto

lemma show_ipv4_chars: "c \<in> set (show_ipv4 w) \<Longrightarrow> address_char c"
  unfolding show_ipv4_def show_dec_def using show_base_chars [where r = 10] octet_range [of w]
  by (auto dest!: join_with_chars simp: address_char_def)

lemma show_groups_chars: "\<forall>g \<in> set gs. 0 \<le> g \<Longrightarrow> c \<in> set (show_groups gs) \<Longrightarrow> address_char c"
proof -
  assume g: "\<forall>g \<in> set gs. 0 \<le> g" "c \<in> set (show_groups gs)"
  then consider "c = CHR '':''" | x where "x \<in> set gs" "c \<in> set (show_base 16 x)"
    unfolding show_groups_def by (auto dest!: join_with_chars)
  then show ?thesis using g(1) show_base_chars [where r = 16] by cases (auto simp: address_char_def)
qed

lemma segments_nonneg: "g \<in> set (segments v) \<Longrightarrow> 0 \<le> g"
  by (auto simp: segments_def)

lemma show_ip_chars: "c \<in> set (show_ip x) \<Longrightarrow> address_char c"
proof (cases x)
  case (IpV4 w)
  then show "c \<in> set (show_ip x) \<Longrightarrow> address_char c" by (simp add: show_ip_def show_ipv4_chars)
next
  case (IpV6 v)
  have seg: "\<forall>g \<in> set (take n (segments v)). 0 \<le> g" "\<forall>g \<in> set (drop n (segments v)). 0 \<le> g"
    "\<forall>g \<in> set (segments v). 0 \<le> g" for n
    using segments_nonneg by (auto dest: in_set_takeD in_set_dropD)
  have "address_char (CHR '':'')" "\<forall>c \<in> set ''::ffff:''. address_char c" by (simp_all add: address_char_def
      is_ascii_alnum_def is_ascii_digit_def is_ascii_upper_def is_ascii_lower_def code_of_def)
  then show "c \<in> set (show_ip x) \<Longrightarrow> address_char c"
    using show_groups_chars [OF seg(1)] show_groups_chars [OF seg(2)] show_groups_chars [OF seg(3)]
    by (auto simp: IpV6 show_ip_def show_ipv6_def Let_def show_ipv4_chars split: prod.splits if_splits)
qed

lemma not_address_char [simp]: "\<not> address_char (CHR ''-'')" "\<not> address_char (CHR ''/'')"
  by (simp_all add: address_char_def is_ascii_alnum_def is_ascii_digit_def is_ascii_upper_def
      is_ascii_lower_def code_of_def)

lemma show_ip_hyphen: "CHR ''-'' \<notin> set (show_ip x)"
  using show_ip_chars by fastforce

section \<open>The invariant\<close>

text \<open>A row's pool, when it has one, holds the address and is no narrower than its prefix.\<close>

definition lies_in_pool :: "'n ipnet_lib \<Rightarrow> pool_row list \<Rightarrow> ip_addr \<Rightarrow> ip_row \<Rightarrow> bool" where
  "lies_in_pool lib ps x a \<longleftrightarrow> (\<forall>i. a_pool a = Some i \<longrightarrow>
     (\<exists>p \<in> set ps. p_id p = i \<and> (\<exists>n. net_parse lib (p_cidr p) = Some n
        \<and> net_contains lib n x \<and> net_prefix_len lib n \<le> a_prefix a)))"

definition address_ok :: "'n ipnet_lib \<Rightarrow> string set \<Rightarrow> pool_row list \<Rightarrow> ip_row \<Rightarrow> bool" where
  "address_ok lib known ps a \<longleftrightarrow>
     (a_status a = IpUsed \<longleftrightarrow> a_vm a \<noteq> None) \<and> (a_primary a \<longrightarrow> a_vm a \<noteq> None)
     \<and> (\<forall>v. a_vm a = Some v \<longrightarrow> v \<in> known) \<and> CHR ''-'' \<in> set (a_id a)
     \<and> a_prefix a \<le> max_prefix (a_family a)
     \<and> (\<exists>x. a_address a = show_ip x \<and> a_family a = family_for_ip x \<and> lies_in_pool lib ps x a)"

definition single_primary :: "ip_row list \<Rightarrow> bool" where
  "single_primary rows \<longleftrightarrow> (\<forall>a \<in> set rows. \<forall>b \<in> set rows. a_primary a \<longrightarrow> a_primary b
     \<longrightarrow> a_vm a = a_vm b \<longrightarrow> a_family a = a_family b \<longrightarrow> a_address a = a_address b)"

definition pool_ok :: "'n ipnet_lib \<Rightarrow> pool_row \<Rightarrow> bool" where
  "pool_ok lib p \<longleftrightarrow> (\<exists>n. net_parse lib (p_cidr p) = Some n \<and> p_family p = family_for_ip (net_addr lib n))"

definition apart :: "'n ipnet_lib \<Rightarrow> pool_row \<Rightarrow> pool_row \<Rightarrow> bool" where
  "apart lib p q \<longleftrightarrow> (\<forall>m n. net_parse lib (p_cidr p) = Some m \<longrightarrow> net_parse lib (p_cidr q) = Some n
     \<longrightarrow> \<not> networks_overlap lib m n)"

definition pools_ok :: "'n ipnet_lib \<Rightarrow> pool_row list \<Rightarrow> bool" where
  "pools_ok lib ps \<longleftrightarrow> distinct (map p_id ps) \<and> (\<forall>p \<in> set ps. pool_ok lib p)
     \<and> (\<forall>p \<in> set ps. \<forall>q \<in> set ps. p_id p \<noteq> p_id q \<longrightarrow> apart lib p q)"

definition addresses_ok :: "'n ipnet_lib \<Rightarrow> db \<Rightarrow> bool" where
  "addresses_ok lib d \<longleftrightarrow> distinct (map a_id (ips d)) \<and> distinct (map a_address (ips d))
     \<and> (\<forall>a \<in> set (ips d). address_ok lib (v_id ` set (vms d)) (pools d) a) \<and> single_primary (ips d)"

definition inventory_inv :: "'n ipnet_lib \<Rightarrow> db \<Rightarrow> bool" where
  "inventory_inv lib d \<longleftrightarrow> addresses_ok lib d \<and> pools_ok lib (pools d)"

section \<open>What keeps the invariant\<close>

lemma map_update_rows:
  "(\<And>r. r \<in> set rows \<Longrightarrow> p r \<Longrightarrow> g (f r) = g r) \<Longrightarrow> map g (update_where p f rows) = map g rows"
  by (simp add: update_where_def)

lemma addresses_ok_update:
  assumes "addresses_ok lib d" "ips t = update_where p f (ips d)" "vms t = vms d" "pools t = pools d"
    and "\<And>a. a \<in> set (ips d) \<Longrightarrow> p a \<Longrightarrow> a_id (f a) = a_id a \<and> a_address (f a) = a_address a
           \<and> address_ok lib (v_id ` set (vms d)) (pools d) (f a)"
    and "single_primary (ips t)"
  shows "addresses_ok lib t"
proof -
  have "map a_id (ips t) = map a_id (ips d)" "map a_address (ips t) = map a_address (ips d)"
    using assms(5) by (auto simp: assms(2) intro!: map_update_rows)
  then show ?thesis
    using assms(1,3-6) by (auto simp: addresses_ok_def assms(2) set_update_where)
qed

lemma single_primary_subset:
  "single_primary rows \<Longrightarrow> (\<And>a. a \<in> set rows' \<Longrightarrow> a_primary a \<Longrightarrow> a \<in> set rows) \<Longrightarrow> single_primary rows'"
  unfolding single_primary_def by blast

lemma single_primary_update:
  "single_primary rows \<Longrightarrow> (\<And>a. p a \<Longrightarrow> \<not> a_primary (f a)) \<Longrightarrow> single_primary (update_where p f rows)"
  by (rule single_primary_subset) (auto simp: set_update_where split: if_splits)

lemma single_primary_delete: "single_primary rows \<Longrightarrow> single_primary (delete_where p rows)"
  by (rule single_primary_subset) (auto simp: set_delete_where)

lemma addresses_ok_delete:
  assumes "addresses_ok lib d" "ips t = delete_where p (ips d)" "vms t = vms d"
    and "\<And>a. a \<in> set (ips d) \<Longrightarrow> \<not> p a \<Longrightarrow> address_ok lib (v_id ` set (vms d)) (pools t) a"
  shows "addresses_ok lib t"
  unfolding addresses_ok_def assms(2,3)
proof (intro conjI ballI)
  fix a assume "a \<in> set (delete_where p (ips d))"
  then show "address_ok lib (v_id ` set (vms d)) (pools t) a"
    by (intro assms(4)) (simp_all add: set_delete_where)
qed (use assms(1) in \<open>simp_all add: addresses_ok_def map_delete_where_distinct single_primary_delete\<close>)

lemma address_ok_known:
  "address_ok lib K ps a \<Longrightarrow> (\<And>v. a_vm a = Some v \<Longrightarrow> v \<in> K') \<Longrightarrow> address_ok lib K' ps a"
  by (simp add: address_ok_def)

lemma address_ok_pools:
  assumes "address_ok lib K ps a"
    and "\<And>p. p \<in> set ps \<Longrightarrow> a_pool a = Some (p_id p) \<Longrightarrow>
           \<exists>q \<in> set ps'. p_id q = p_id p \<and> p_cidr q = p_cidr p"
  shows "address_ok lib K ps' a"
proof -
  have "lies_in_pool lib ps' x a" if "lies_in_pool lib ps x a" for x
    unfolding lies_in_pool_def
  proof (intro allI impI)
    fix i assume i: "a_pool a = Some i"
    with that obtain p n where p: "p \<in> set ps" "p_id p = i" "net_parse lib (p_cidr p) = Some n"
      "net_contains lib n x" "net_prefix_len lib n \<le> a_prefix a"
      by (auto simp: lies_in_pool_def)
    from assms(2) [OF p(1)] i p(2) obtain q where "q \<in> set ps'" "p_id q = p_id p" "p_cidr q = p_cidr p"
      by auto
    with p show "\<exists>p \<in> set ps'. p_id p = i \<and> (\<exists>n. net_parse lib (p_cidr p) = Some n
        \<and> net_contains lib n x \<and> net_prefix_len lib n \<le> a_prefix a)" by auto
  qed
  with assms(1) show ?thesis by (auto simp: address_ok_def)
qed

lemma addresses_ok_pools:
  assumes "addresses_ok lib d" "ips t = ips d" "vms t = vms d"
    and "\<And>p. p \<in> set (pools d) \<Longrightarrow> \<exists>q \<in> set (pools t). p_id q = p_id p \<and> p_cidr q = p_cidr p"
  shows "addresses_ok lib t"
  unfolding addresses_ok_def assms(2,3)
proof (intro conjI ballI)
  fix a assume "a \<in> set (ips d)"
  with assms(1) have "address_ok lib (v_id ` set (vms d)) (pools d) a" by (simp add: addresses_ok_def)
  then show "address_ok lib (v_id ` set (vms d)) (pools t) a"
    by (rule address_ok_pools) (rule assms(4))
qed (use assms(1) in \<open>simp_all add: addresses_ok_def\<close>)

text \<open>Taking an address from its owner leaves a well-formed row.\<close>

lemma address_ok_detached:
  "address_ok lib K ps a \<Longrightarrow> s \<noteq> IpUsed \<Longrightarrow>
   address_ok lib K ps (a\<lparr>a_status := s, a_vm := None, a_primary := False, a_updated_at := now\<rparr>)"
  by (simp add: address_ok_def lies_in_pool_def)

lemma query_canonical:
  assumes "addresses_ok lib d"
  shows "query_address d (show_ip x) = select_one (\<lambda>a. a_address a = show_ip x) (ips d)"
proof -
  have "a_id a \<noteq> show_ip x" if "a \<in> set (ips d)" for a
    using that assms show_ip_hyphen [of x] by (auto simp: addresses_ok_def address_ok_def)
  then show ?thesis
    unfolding query_address_def select_one_def by (intro find_cong) auto
qed

lemma canonical_ip_Inr: "canonical_ip s = Inr c \<Longrightarrow> \<exists>x. parse_ip (trim s) = Some x \<and> c = show_ip x"
  by (auto simp: canonical_ip_def split: option.splits)

section \<open>Assignment\<close>

lemma assign_Inr:
  assumes "addresses_ok lib d" "assign_ip lib value vm primary now d = Inr (t, r)"
  shows "\<exists>x current. parse_ip (trim value) = Some x
    \<and> select_one (\<lambda>a. a_address a = show_ip x) (ips d) = Some current
    \<and> (a_vm current = Some vm \<or> (a_status current = IpFree
         \<and> check_pool_enabled d (show_ip x) current = Inr ()
         \<and> check_not_blacklisted lib d (show_ip x) now = Inr ()))
    \<and> vm_exists d vm
    \<and> t = d\<lparr>ips := give_address (show_ip x) vm primary now
          (if primary then demote_primary vm (a_family current) now (ips d) else ips d)\<rparr>
    \<and> query_address t (show_ip x) = Some r"
proof -
  from assms(2) obtain address where a: "canonical_ip value = Inr address"
    by (auto simp: assign_ip_def result_simps)
  then obtain x where x: "parse_ip (trim value) = Some x" "address = show_ip x"
    by (auto dest: canonical_ip_Inr)
  from assms(2) a x(2) obtain current where c: "query_address d (show_ip x) = Some current"
    by (auto simp: assign_ip_def result_simps)
  have s: "select_one (\<lambda>a. a_address a = show_ip x) (ips d) = Some current"
    using c by (simp add: query_canonical [OF assms(1)])
  have rest: "(a_vm current = Some vm \<or> (a_status current = IpFree
         \<and> check_pool_enabled d (show_ip x) current = Inr ()
         \<and> check_not_blacklisted lib d (show_ip x) now = Inr ()))
    \<and> vm_exists d vm
    \<and> t = d\<lparr>ips := give_address (show_ip x) vm primary now
          (if primary then demote_primary vm (a_family current) now (ips d) else ips d)\<rparr>
    \<and> query_address t (show_ip x) = Some r"
    using assms(2) a x(2) c
    by (cases "a_vm current = Some vm") (simp_all add: assign_ip_def result_simps Let_def, blast+)
  show ?thesis using x(1) s rest by blast
qed

lemma single_primary_give:
  assumes "single_primary rows" "\<And>a. a \<in> set rows \<Longrightarrow> a_address a = address \<Longrightarrow> a_family a = family"
  shows "single_primary (give_address address vm primary now
    (if primary then demote_primary vm family now rows else rows))"
proof (cases primary)
  case False
  then show ?thesis unfolding give_address_def by (simp add: assms(1) single_primary_update)
next
  case True
  let ?rows = "demote_primary vm family now rows"
  let ?f = "\<lambda>a. a\<lparr>a_status := IpUsed, a_vm := Some vm, a_primary := primary, a_updated_at := now\<rparr>"
  have demoted: "b \<in> set rows \<and> \<not> (a_vm b = Some vm \<and> a_family b = family)"
    if b: "b \<in> set ?rows" "a_primary b" for b
  proof -
    from b(1) obtain c where c: "c \<in> set rows"
      "b = (if a_vm c = Some vm \<and> a_family c = family then c\<lparr>a_primary := False, a_updated_at := now\<rparr> else c)"
      by (auto simp: demote_primary_def set_update_where)
    with b(2) show ?thesis by (cases "a_vm c = Some vm \<and> a_family c = family") auto
  qed
  have given: "(a_address b = address \<and> a_vm b = Some vm \<and> a_family b = family)
      \<or> (b \<in> set rows \<and> a_primary b \<and> \<not> (a_vm b = Some vm \<and> a_family b = family))"
    if b: "b \<in> set (give_address address vm primary now ?rows)" "a_primary b" for b
  proof -
    from b(1) obtain c where c: "c \<in> set ?rows" "b = (if a_address c = address then ?f c else c)"
      by (auto simp: give_address_def set_update_where)
    show ?thesis
    proof (cases "a_address c = address")
      case True
      from c(1) obtain c' where "c' \<in> set rows" "a_address c = a_address c'" "a_family c = a_family c'"
        by (auto simp: demote_primary_def set_update_where)
      with True assms(2) c(2) show ?thesis by simp
    next
      case False
      with b(2) c demoted [of c] show ?thesis by simp
    qed
  qed
  have "single_primary (give_address address vm primary now ?rows)"
    unfolding single_primary_def
  proof (intro ballI impI)
    fix b c
    assume a: "b \<in> set (give_address address vm primary now ?rows)"
      "c \<in> set (give_address address vm primary now ?rows)"
      "a_primary b" "a_primary c" "a_vm b = a_vm c" "a_family b = a_family c"
    with given [OF a(1,3)] given [OF a(2,4)] assms(1) show "a_address b = a_address c"
      unfolding single_primary_def by auto
  qed
  with True show ?thesis by simp
qed

lemma unique_address:
  "addresses_ok lib d \<Longrightarrow> a \<in> set (ips d) \<Longrightarrow> b \<in> set (ips d) \<Longrightarrow> a_address a = a_address b \<Longrightarrow> a = b"
  by (metis addresses_ok_def distinct_map inj_onD)

lemma assign_ok:
  assumes "addresses_ok lib d" "assign_ip lib value vm primary now d = Inr (t, r)"
  shows "addresses_ok lib t \<and> pools t = pools d"
proof -
  from assign_Inr [OF assms] obtain x current where
    c: "select_one (\<lambda>a. a_address a = show_ip x) (ips d) = Some current" "vm_exists d vm"
    and t: "t = d\<lparr>ips := give_address (show_ip x) vm primary now
      (if primary then demote_primary vm (a_family current) now (ips d) else ips d)\<rparr>"
    by blast
  let ?rows = "if primary then demote_primary vm (a_family current) now (ips d) else ips d"
  let ?d = "d\<lparr>ips := ?rows\<rparr>"
  have cur: "current \<in> set (ips d)" "a_address current = show_ip x"
    using select_one_Some [OF c(1)] by auto
  have one: "single_primary (ips d)" using assms(1) by (simp add: addresses_ok_def)
  have fam: "a \<in> set (ips d) \<Longrightarrow> a_address a = show_ip x \<Longrightarrow> a_family a = a_family current" for a
    using unique_address [OF assms(1) _ cur(1)] cur(2) by metis
  have ok: "address_ok lib (v_id ` set (vms d)) (pools d) a" if "a \<in> set (ips d)" for a
    using that assms(1) by (simp add: addresses_ok_def)
  have mid: "addresses_ok lib ?d"
  proof (cases primary)
    case True
    have "addresses_ok lib (d\<lparr>ips := demote_primary vm (a_family current) now (ips d)\<rparr>)"
      unfolding demote_primary_def
    proof (rule addresses_ok_update [OF assms(1)])
      fix a assume "a \<in> set (ips d)"
      with ok [of a] show "a_id (a\<lparr>a_primary := False, a_updated_at := now\<rparr>) = a_id a
        \<and> a_address (a\<lparr>a_primary := False, a_updated_at := now\<rparr>) = a_address a
        \<and> address_ok lib (v_id ` set (vms d)) (pools d) (a\<lparr>a_primary := False, a_updated_at := now\<rparr>)"
        by (simp add: address_ok_def lies_in_pool_def)
    qed (simp_all add: one single_primary_update)
    with True show ?thesis by simp
  next
    case False
    then show ?thesis using assms(1) by simp
  qed
  have "addresses_ok lib t"
    unfolding t give_address_def
  proof (rule addresses_ok_update [OF mid])
    show "single_primary (ips (d\<lparr>ips := update_where (\<lambda>a. a_address a = show_ip x)
        (\<lambda>a. a\<lparr>a_status := IpUsed, a_vm := Some vm, a_primary := primary, a_updated_at := now\<rparr>) ?rows\<rparr>))"
      using single_primary_give [OF one fam] by (simp add: give_address_def)
  next
    fix a assume "a \<in> set (ips ?d)"
    with mid have "address_ok lib (v_id ` set (vms d)) (pools d) a" by (simp add: addresses_ok_def)
    moreover have "vm \<in> v_id ` set (vms d)" using c(2) by (auto simp: vm_exists_def)
    ultimately show "a_id (a\<lparr>a_status := IpUsed, a_vm := Some vm, a_primary := primary, a_updated_at := now\<rparr>) = a_id a
      \<and> a_address (a\<lparr>a_status := IpUsed, a_vm := Some vm, a_primary := primary, a_updated_at := now\<rparr>) = a_address a
      \<and> address_ok lib (v_id ` set (vms ?d)) (pools ?d)
          (a\<lparr>a_status := IpUsed, a_vm := Some vm, a_primary := primary, a_updated_at := now\<rparr>)"
      by (simp add: address_ok_def lies_in_pool_def)
  qed simp_all
  then show ?thesis by (simp add: t)
qed

section \<open>What one request may do to the rows\<close>

text \<open>
  Besides keeping the invariant, a request never hands an address from one owner directly to
  another, and never takes away a host address.
\<close>

definition keeps_owner :: "db \<Rightarrow> db \<Rightarrow> bool" where
  "keeps_owner d t \<longleftrightarrow> (\<forall>a \<in> set (ips d). \<forall>b \<in> set (ips t). \<forall>v w.
     a_address a = a_address b \<longrightarrow> a_vm a = Some v \<longrightarrow> a_vm b = Some w \<longrightarrow> v = w)"

definition keeps_main :: "db \<Rightarrow> db \<Rightarrow> bool" where
  "keeps_main d t \<longleftrightarrow> (\<forall>a \<in> set (ips d). a_status a = IpMain \<longrightarrow>
     (\<exists>b \<in> set (ips t). a_address b = a_address a \<and> a_status b = IpMain))"

definition safe_change :: "'n ipnet_lib \<Rightarrow> db \<Rightarrow> db \<Rightarrow> bool" where
  "safe_change lib d t \<longleftrightarrow> addresses_ok lib t \<and> keeps_owner d t \<and> keeps_main d t"

lemma keeps_owner_rows:
  assumes "addresses_ok lib d" "\<And>b w. b \<in> set (ips t) \<Longrightarrow> a_vm b = Some w \<Longrightarrow> b \<in> set (ips d)"
  shows "keeps_owner d t"
  unfolding keeps_owner_def
proof (intro ballI allI impI)
  fix a b v w
  assume "a \<in> set (ips d)" "b \<in> set (ips t)" "a_address a = a_address b" "a_vm a = Some v" "a_vm b = Some w"
  with assms(2) [of b w] unique_address [OF assms(1), of a b] show "v = w" by simp
qed

lemma safe_same:
  "addresses_ok lib d \<Longrightarrow> addresses_ok lib t \<Longrightarrow> ips t = ips d \<Longrightarrow> safe_change lib d t"
  by (auto simp: safe_change_def keeps_main_def intro: keeps_owner_rows)

lemma safe_update:
  assumes "addresses_ok lib d" "ips t = update_where p f (ips d)" "vms t = vms d" "pools t = pools d"
    and f: "\<And>a. a \<in> set (ips d) \<Longrightarrow> p a \<Longrightarrow> a_id (f a) = a_id a \<and> a_address (f a) = a_address a
           \<and> address_ok lib (v_id ` set (vms d)) (pools d) (f a)
           \<and> (a_status a = IpMain \<longrightarrow> a_status (f a) = IpMain)"
    and n: "\<And>a. \<not> a_primary (f a) \<and> a_vm (f a) = None"
  shows "safe_change lib d t"
  unfolding safe_change_def
proof (intro conjI)
  have "single_primary (ips t)"
    using assms(1) n unfolding assms(2) by (intro single_primary_update) (auto simp: addresses_ok_def)
  then show "addresses_ok lib t"
    using f by (intro addresses_ok_update [OF assms(1-4)]) auto
  show "keeps_owner d t"
    by (rule keeps_owner_rows [OF assms(1)]) (auto simp: assms(2) set_update_where n split: if_splits)
  show "keeps_main d t"
    unfolding keeps_main_def
  proof (intro ballI impI)
    fix a assume a: "a \<in> set (ips d)" "a_status a = IpMain"
    then have "(if p a then f a else a) \<in> set (ips t)" by (auto simp: assms(2) set_update_where)
    with a f [of a] show "\<exists>b \<in> set (ips t). a_address b = a_address a \<and> a_status b = IpMain"
      by (metis (full_types))
  qed
qed

lemma safe_delete:
  assumes "addresses_ok lib d" "ips t = delete_where p (ips d)" "vms t = vms d"
    and "\<And>a. a \<in> set (ips d) \<Longrightarrow> \<not> p a \<Longrightarrow> address_ok lib (v_id ` set (vms d)) (pools t) a"
    and "\<And>a. a \<in> set (ips d) \<Longrightarrow> p a \<Longrightarrow> a_status a \<noteq> IpMain"
  shows "safe_change lib d t"
proof -
  have "addresses_ok lib t" by (rule addresses_ok_delete [OF assms(1-4)])
  moreover have "keeps_owner d t"
    by (rule keeps_owner_rows [OF assms(1)]) (simp add: assms(2) set_delete_where)
  moreover have "keeps_main d t"
    unfolding keeps_main_def
  proof (intro ballI impI)
    fix a assume a: "a \<in> set (ips d)" "a_status a = IpMain"
    with assms(5) [of a] have "a \<in> set (ips t)" by (auto simp: assms(2) set_delete_where)
    with a show "\<exists>b \<in> set (ips t). a_address b = a_address a \<and> a_status b = IpMain" by blast
  qed
  ultimately show ?thesis by (simp add: safe_change_def)
qed

lemma safe_append:
  assumes "addresses_ok lib d" "ips t = ips d @ [row]" "vms t = vms d" "pools t = pools d"
    and "address_ok lib (v_id ` set (vms d)) (pools d) row" "a_vm row = None" "\<not> a_primary row"
    and "\<forall>a \<in> set (ips d). a_address a \<noteq> a_address row \<and> a_id a \<noteq> a_id row"
  shows "safe_change lib d t"
proof -
  have "single_primary (ips t)"
    by (rule single_primary_subset [of "ips d"]) (use assms(1,2,7) in \<open>auto simp: addresses_ok_def\<close>)
  moreover have "distinct (map a_id (ips t))" "distinct (map a_address (ips t))"
    using assms(1,2,8) by (auto simp: addresses_ok_def)
  ultimately have "addresses_ok lib t"
    using assms(1-5) by (auto simp: addresses_ok_def)
  moreover have "keeps_owner d t"
    by (rule keeps_owner_rows [OF assms(1)]) (use assms(2,6) in auto)
  moreover have "keeps_main d t" by (auto simp: keeps_main_def assms(2))
  ultimately show ?thesis by (simp add: safe_change_def)
qed

lemma row_ok: "addresses_ok lib d \<Longrightarrow> a \<in> set (ips d) \<Longrightarrow> address_ok lib (v_id ` set (vms d)) (pools d) a"
  by (simp add: addresses_ok_def)

lemma assign_safe:
  assumes "addresses_ok lib d" "assign_ip lib value vm primary now d = Inr (t, r)"
  shows "safe_change lib d t \<and> pools t = pools d"
proof -
  from assign_Inr [OF assms] obtain x current where
    c: "select_one (\<lambda>a. a_address a = show_ip x) (ips d) = Some current"
    and free: "a_vm current = Some vm \<or> a_status current = IpFree"
    and t: "t = d\<lparr>ips := give_address (show_ip x) vm primary now
      (if primary then demote_primary vm (a_family current) now (ips d) else ips d)\<rparr>"
    by blast
  have cur: "current \<in> set (ips d)" "a_address current = show_ip x"
    using select_one_Some [OF c] by auto
  note ok = row_ok [OF assms(1) cur(1)]
  have own: "a_vm current = Some v \<Longrightarrow> v = vm" "a_status current \<noteq> IpMain" for v
    using ok free by (auto simp: address_ok_def)
  let ?rows = "if primary then demote_primary vm (a_family current) now (ips d) else ips d"
  have origin: "\<exists>a \<in> set (ips d). a_address a = a_address b
      \<and> (if a_address a = show_ip x then a_vm b = Some vm else a_vm b = a_vm a)"
    if b: "b \<in> set (ips t)" for b
  proof -
    from b obtain c where c: "c \<in> set ?rows" "a_address b = a_address c"
      "if a_address c = show_ip x then a_vm b = Some vm else a_vm b = a_vm c"
      by (auto simp: t give_address_def set_update_where)
    moreover from c(1) obtain a where "a \<in> set (ips d)" "a_address a = a_address c" "a_vm a = a_vm c"
      by (cases primary) (auto simp: demote_primary_def set_update_where)
    ultimately show ?thesis by metis
  qed
  have "keeps_owner d t"
    unfolding keeps_owner_def
  proof (intro ballI allI impI)
    fix a b v w
    assume a: "a \<in> set (ips d)" "b \<in> set (ips t)" "a_address a = a_address b" "a_vm a = Some v" "a_vm b = Some w"
    from origin [OF a(2)] obtain a' where a': "a' \<in> set (ips d)" "a_address a' = a_address b"
      "if a_address a' = show_ip x then a_vm b = Some vm else a_vm b = a_vm a'" by auto
    have "a' = a" using unique_address [OF assms(1) a'(1) a(1)] a(3) a'(2) by simp
    show "v = w"
    proof (cases "a_address a = show_ip x")
      case True
      then have "a = current" using unique_address [OF assms(1) a(1) cur(1)] cur(2) by simp
      with own(1) a(4,5) a'(3) True \<open>a' = a\<close> show ?thesis by simp
    next
      case False
      with a'(3) a(4,5) \<open>a' = a\<close> show ?thesis by simp
    qed
  qed
  moreover have "keeps_main d t"
    unfolding keeps_main_def
  proof (intro ballI impI)
    fix a assume a: "a \<in> set (ips d)" "a_status a = IpMain"
    then have "a_address a \<noteq> show_ip x"
      using unique_address [OF assms(1) a(1) cur(1)] cur(2) own(2) by auto
    moreover have "a_vm a = None" using row_ok [OF assms(1) a(1)] a(2) by (auto simp: address_ok_def)
    then have "a \<in> set ?rows"
      using a(1) by (auto simp: demote_primary_def set_update_where intro!: bexI [of _ a])
    ultimately have "a \<in> set (ips t)"
      by (auto simp: t give_address_def set_update_where intro!: bexI [of _ a])
    with a(2) show "\<exists>b \<in> set (ips t). a_address b = a_address a \<and> a_status b = IpMain" by blast
  qed
  ultimately show ?thesis using assign_ok [OF assms] by (simp add: safe_change_def)
qed

section \<open>The other address operations\<close>

lemma select_address:
  assumes "addresses_ok lib d" "a \<in> set (ips d)" "a_address a = c"
  shows "select_one (\<lambda>b. a_address b = c) (ips d) = Some a"
proof (rule select_one_unique [OF assms(2)])
  show "b = a" if "b \<in> set (ips d)" "a_address b = c" for b
    by (rule unique_address [OF assms(1) that(1) assms(2)]) (simp add: that(2) assms(3))
qed (rule assms(3))

lemma free_address_safe:
  assumes "addresses_ok lib d" "ips t = update_where p (free_address now) (ips d)" "vms t = vms d"
    "pools t = pools d" "\<And>a. a \<in> set (ips d) \<Longrightarrow> p a \<Longrightarrow> a_status a = IpUsed"
  shows "safe_change lib d t"
proof (rule safe_update [OF assms(1-4)])
  fix a assume a: "a \<in> set (ips d)" "p a"
  have "address_ok lib (v_id ` set (vms d)) (pools d) (free_address now a)"
    unfolding free_address_def by (rule address_ok_detached [OF row_ok [OF assms(1) a(1)]]) simp
  with assms(5) [OF a] show "a_id (free_address now a) = a_id a \<and> a_address (free_address now a) = a_address a
      \<and> address_ok lib (v_id ` set (vms d)) (pools d) (free_address now a)
      \<and> (a_status a = IpMain \<longrightarrow> a_status (free_address now a) = IpMain)"
    by (simp add: free_address_def)
qed (simp add: free_address_def)

lemma release_safe:
  assumes "addresses_ok lib d" "release_ip value now d = Inr (t, r)"
  shows "safe_change lib d t \<and> pools t = pools d"
proof -
  from assms(2) obtain c where t: "t = d\<lparr>ips := update_where
      (\<lambda>a. a_address a = c \<and> a_status a = IpUsed) (free_address now) (ips d)\<rparr>"
    by (auto simp: release_ip_def result_simps Let_def)
  have "safe_change lib d t"
    by (rule free_address_safe [OF assms(1), where p = "\<lambda>a. a_address a = c \<and> a_status a = IpUsed"])
      (simp_all add: t)
  then show ?thesis by (simp add: t)
qed

lemma set_status_safe:
  assumes "addresses_ok lib d" "set_ip_status value s now d = Inr (t, r)"
  shows "safe_change lib d t \<and> pools t = pools d"
proof -
  let ?f = "\<lambda>a. a\<lparr>a_status := s, a_vm := None, a_primary := False, a_updated_at := now\<rparr>"
  from assms(2) have used: "s \<noteq> IpUsed" by (auto simp: set_ip_status_def result_simps)
  from assms(2) obtain c where c: "canonical_ip value = Inr c"
    "\<forall>a. query_address d c = Some a \<longrightarrow> a_status a = IpMain \<longrightarrow> s = IpMain"
    and t: "t = d\<lparr>ips := update_where (\<lambda>a. a_address a = c) ?f (ips d)\<rparr>"
    by (auto simp: set_ip_status_def result_simps Let_def split: option.splits)
  from c(1) obtain x where x: "c = show_ip x" by (auto dest: canonical_ip_Inr)
  have main: "s = IpMain" if a: "a \<in> set (ips d)" "a_address a = c" "a_status a = IpMain" for a
  proof -
    have "select_one (\<lambda>b. a_address b = c) (ips d) = Some a"
      by (rule select_address [OF assms(1) a(1,2)])
    with c(2) a(3) show ?thesis by (simp add: x query_canonical [OF assms(1)])
  qed
  have "safe_change lib d t"
  proof (rule safe_update [OF assms(1), where p = "\<lambda>a. a_address a = c" and f = ?f])
    fix a assume a: "a \<in> set (ips d)" "a_address a = c"
    from address_ok_detached [OF row_ok [OF assms(1) a(1)] used] main [OF a]
    show "a_id (?f a) = a_id a \<and> a_address (?f a) = a_address a
        \<and> address_ok lib (v_id ` set (vms d)) (pools d) (?f a)
        \<and> (a_status a = IpMain \<longrightarrow> a_status (?f a) = IpMain)" by simp
  qed (simp_all add: t)
  then show ?thesis by (simp add: t)
qed

lemma delete_address_safe:
  assumes "addresses_ok lib d" "delete_ip_address i d = Inr (t, u)"
  shows "safe_change lib d t \<and> pools t = pools d"
proof -
  from assms(2) obtain a where a: "query_address d i = Some a" "a_status a \<noteq> IpMain"
    and t: "t = d\<lparr>ips := delete_where (\<lambda>b. a_id b = a_id a) (ips d)\<rparr>"
    by (auto simp: delete_ip_address_def result_simps)
  have "a \<in> set (ips d)" using select_one_Some a(1) by (fastforce simp: query_address_def)
  moreover have "distinct (map a_id (ips d))" using assms(1) by (simp add: addresses_ok_def)
  ultimately have same: "b = a" if "b \<in> set (ips d)" "a_id b = a_id a" for b
    using that by (metis distinct_map inj_onD)
  have "safe_change lib d t"
    by (rule safe_delete [OF assms(1), where p = "\<lambda>b. a_id b = a_id a"])
      (use a(2) same row_ok [OF assms(1)] in \<open>auto simp: t\<close>)
  then show ?thesis by (simp add: t)
qed

text \<open>What an accepted upsert is about to store.\<close>

lemma check_pool_member_Inr:
  "check_pool_member lib d x spec pool = Inr u \<Longrightarrow> a_pool row = pool \<Longrightarrow> a_prefix row = ia_prefix spec
    \<Longrightarrow> lies_in_pool lib (pools d) x row"
  by (auto simp: check_pool_member_def lies_in_pool_def query_pool_def result_simps
      dest!: select_one_Some split: option.splits)

lemma upsert_Inr:
  assumes "addresses_ok lib d" "CHR ''-'' \<in> set i"
    and "upsert_with_policy lib i now spec preserve d = Inr (t, r)"
  shows "\<exists>row. store_address row d = Inr t \<and> a_vm row = None \<and> \<not> a_primary row
    \<and> address_ok lib (v_id ` set (vms d)) (pools d) row
    \<and> (\<forall>a \<in> set (ips d). a_address a = a_address row \<longrightarrow>
         a_vm a = None \<and> (a_status a = IpMain \<longrightarrow> a_status row = IpMain))"
proof -
  from assms(3) obtain x where x: "parse_ip (ia_address spec) = Some x"
    by (auto simp: upsert_with_policy_def result_simps)
  let ?existing = "query_address d (show_ip x)"
  from assms(3) x obtain gateway pool gw dns meta where
    p: "ia_prefix spec \<le> max_prefix (family_for_ip x)" "ia_status spec \<noteq> IpUsed"
    and e: "check_existing (show_ip x) (ia_status spec) ?existing = Inr ()"
    and m: "check_pool_member lib d x spec pool = Inr ()"
    and st: "store_address \<lparr>a_id = (case ?existing of Some a \<Rightarrow> a_id a | None \<Rightarrow> i), a_pool = pool,
           a_address = show_ip x, a_family = family_for_ip x, a_prefix = ia_prefix spec,
           a_scope = ia_scope spec, a_status = ia_status spec, a_gateway = gw,
           a_vm = None, a_primary = False, a_reverse_dns = dns,
           a_metadata = meta, a_created_at = now, a_updated_at = now\<rparr> d = Inr t"
    by (auto simp: upsert_with_policy_def validate_prefix_def result_simps Let_def)
  let ?row = "\<lparr>a_id = (case ?existing of Some a \<Rightarrow> a_id a | None \<Rightarrow> i), a_pool = pool,
           a_address = show_ip x, a_family = family_for_ip x, a_prefix = ia_prefix spec,
           a_scope = ia_scope spec, a_status = ia_status spec, a_gateway = gw,
           a_vm = None, a_primary = False, a_reverse_dns = dns,
           a_metadata = meta, a_created_at = now, a_updated_at = now\<rparr>"
  have q: "?existing = select_one (\<lambda>a. a_address a = show_ip x) (ips d)"
    by (rule query_canonical [OF assms(1)])
  have "CHR ''-'' \<in> set (a_id ?row)"
    using assms(2) row_ok [OF assms(1)] select_one_Some [of _ "ips d"]
    by (auto simp: q address_ok_def split: option.split)
  moreover have "lies_in_pool lib (pools d) x ?row"
    by (rule check_pool_member_Inr [OF m]) simp_all
  ultimately have ok: "address_ok lib (v_id ` set (vms d)) (pools d) ?row"
    using p by (auto simp: address_ok_def)
  have "a_vm a = None \<and> (a_status a = IpMain \<longrightarrow> ia_status spec = IpMain)"
    if a: "a \<in> set (ips d)" "a_address a = show_ip x" for a
  proof -
    have "?existing = Some a"
      unfolding q by (rule select_address [OF assms(1) a])
    with e show ?thesis by (auto simp: check_existing_def result_simps)
  qed
  with st ok show ?thesis by (intro exI [of _ ?row]) simp
qed

lemma upsert_safe:
  assumes "addresses_ok lib d" "CHR ''-'' \<in> set i"
    and "upsert_with_policy lib i now spec preserve d = Inr (t, r)"
  shows "safe_change lib d t \<and> pools t = pools d"
proof -
  from upsert_Inr [OF assms] obtain row where st: "store_address row d = Inr t"
    and r: "a_vm row = None" "\<not> a_primary row" "address_ok lib (v_id ` set (vms d)) (pools d) row"
    and e: "\<forall>a \<in> set (ips d). a_address a = a_address row \<longrightarrow>
         a_vm a = None \<and> (a_status a = IpMain \<longrightarrow> a_status row = IpMain)"
    by blast
  show ?thesis
  proof (cases "\<exists>a \<in> set (ips d). a_address a = a_address row")
    case True
    with st have t: "t = d\<lparr>ips := update_where (\<lambda>a. a_address a = a_address row)
        (overwrite_address row) (ips d)\<rparr>" by (simp add: store_address_def)
    have "address_ok lib (v_id ` set (vms d)) (pools d) (overwrite_address row a)"
      if "a \<in> set (ips d)" "a_address a = a_address row" for a
      using r row_ok [OF assms(1) that(1)] that(2)
      by (auto simp: address_ok_def overwrite_address_def lies_in_pool_def)
    then have "safe_change lib d t"
      by (intro safe_update [OF assms(1), where p = "\<lambda>a. a_address a = a_address row"
            and f = "overwrite_address row"])
        (use e in \<open>simp_all add: t overwrite_address_def\<close>)
    then show ?thesis by (simp add: t)
  next
    case False
    with st have t: "t = d\<lparr>ips := ips d @ [row]\<rparr>" "\<forall>a \<in> set (ips d). a_id a \<noteq> a_id row"
      by (auto simp: store_address_def split: if_splits)
    have "safe_change lib d t"
      by (rule safe_append [OF assms(1)]) (use r t False in auto)
    then show ?thesis by (simp add: t(1))
  qed
qed

lemma delete_vm_safe:
  assumes "addresses_ok lib d" "delete_vm v now d = Inr (t, u)"
  shows "safe_change lib d t \<and> pools t = pools d"
proof -
  from assms(2) obtain vm where "query_vm d v = Some vm" by (auto simp: delete_vm_def result_simps)
  with assms(2) have t: "t = delete_vm_rows now {v_id vm}
      (d\<lparr>ips := update_where (\<lambda>a. a_vm a = Some (v_id vm)) (free_address now) (ips d)\<rparr>)"
    by (simp add: delete_vm_def result_simps Let_def)
  let ?rows = "update_where (\<lambda>a. a_vm a = Some (v_id vm)) (free_address now) (ips d)"
  have gone: "a_vm a \<noteq> Some (v_id vm)" if a: "a \<in> set ?rows" for a
  proof -
    from a obtain c where "a = (if a_vm c = Some (v_id vm) then free_address now c else c)"
      by (auto simp: set_update_where)
    then show ?thesis by (cases "a_vm c = Some (v_id vm)") (simp_all add: free_address_def)
  qed
  then have "update_where (\<lambda>a. a_vm a = Some (v_id vm)) (free_address now) ?rows = ?rows"
    by (intro update_where_none) (simp add: count_where_0)
  then have rows: "ips t = ?rows" by (simp add: t delete_vm_rows_def)
  have mid: "safe_change lib d (d\<lparr>ips := ?rows\<rparr>)"
  proof (rule free_address_safe [OF assms(1), where p = "\<lambda>a. a_vm a = Some (v_id vm)"])
    fix a assume "a \<in> set (ips d)" "a_vm a = Some (v_id vm)"
    with row_ok [OF assms(1), of a] show "a_status a = IpUsed" by (simp add: address_ok_def)
  qed simp_all
  then have ok: "addresses_ok lib (d\<lparr>ips := ?rows\<rparr>)" by (simp add: safe_change_def)
  have "address_ok lib (v_id ` set (vms t)) (pools d) a" if a: "a \<in> set ?rows" for a
  proof (rule address_ok_known)
    show "address_ok lib (v_id ` set (vms d)) (pools d) a" using row_ok [OF ok] a by simp
    fix w assume w: "a_vm a = Some w"
    with row_ok [OF ok] a have "w \<in> v_id ` set (vms d)" by (simp add: address_ok_def)
    with gone [OF a] w show "w \<in> v_id ` set (vms t)"
      by (auto simp: t delete_vm_rows_def set_delete_where)
  qed
  with ok have "addresses_ok lib t" by (simp add: addresses_ok_def rows) (simp add: t delete_vm_rows_def)
  with mid show ?thesis
    by (simp add: safe_change_def keeps_owner_def keeps_main_def rows) (simp add: t delete_vm_rows_def)
qed

section \<open>Pools\<close>

text \<open>
  What the crate documents of its networks: text written by \<open>Display\<close> parses to the same
  network, the prefix length is at most the width of the address, and an address is contained
  when it is of the same family and agrees in the leading bits of the prefix.
\<close>

definition same_prefix :: "nat \<Rightarrow> ip_addr \<Rightarrow> ip_addr \<Rightarrow> bool" where
  "same_prefix k a b = (case (a, b) of
     (IpV4 v, IpV4 w) \<Rightarrow> drop_bit (32 - k) v = drop_bit (32 - k) w
   | (IpV6 v, IpV6 w) \<Rightarrow> drop_bit (128 - k) v = drop_bit (128 - k) w
   | _ \<Rightarrow> False)"

definition ipnet_laws :: "'n ipnet_lib \<Rightarrow> bool" where
  "ipnet_laws lib \<longleftrightarrow> (\<forall>n. net_parse lib (net_show lib n) = Some n)
     \<and> (\<forall>n. net_prefix_len lib n \<le> max_prefix (family_for_ip (net_addr lib n)))
     \<and> (\<forall>n x. net_contains lib n x = same_prefix (net_prefix_len lib n) (net_addr lib n) x)"

lemma same_prefix_sym: "same_prefix k a b \<Longrightarrow> same_prefix k b a"
  by (auto simp: same_prefix_def split: ip_addr.splits)

lemma same_prefix_trans: "same_prefix k a b \<Longrightarrow> same_prefix k b c \<Longrightarrow> same_prefix k a c"
  by (auto simp: same_prefix_def split: ip_addr.splits)

lemma same_prefix_family: "same_prefix k a b \<Longrightarrow> family_for_ip a = family_for_ip b"
  by (auto simp: same_prefix_def family_for_ip_def split: ip_addr.splits)

lemma drop_bit_shorter:
  "j \<le> k \<Longrightarrow> k \<le> n \<Longrightarrow> drop_bit (n - k) (v :: 'a::len word) = drop_bit (n - k) w
    \<Longrightarrow> drop_bit (n - j) v = drop_bit (n - j) w"
proof -
  assume a: "j \<le> k" "k \<le> n" "drop_bit (n - k) v = drop_bit (n - k) w"
  then have "n - j = (k - j) + (n - k)" by simp
  then have u: "drop_bit (n - j) u = drop_bit (k - j) (drop_bit (n - k) u)" for u :: "'a word"
    by (simp add: drop_bit_drop_bit)
  show ?thesis unfolding u a(3) by (rule refl)
qed

lemma same_prefix_shorter:
  "same_prefix k a b \<Longrightarrow> j \<le> k \<Longrightarrow> k \<le> max_prefix (family_for_ip a) \<Longrightarrow> same_prefix j a b"
  by (cases a; cases b; simp add: same_prefix_def family_for_ip_def max_prefix_def)
    (erule (2) drop_bit_shorter [rotated 2])+

text \<open>Two networks that share an address overlap in the sense of the source's test.\<close>

lemma shared_address_overlaps:
  assumes "ipnet_laws lib" "net_contains lib m x" "net_contains lib n x"
  shows "networks_overlap lib m n"
proof -
  have contains: "net_contains lib k y = same_prefix (net_prefix_len lib k) (net_addr lib k) y"
    and len: "net_prefix_len lib k \<le> max_prefix (family_for_ip (net_addr lib k))" for k y
    using assms(1) by (simp_all add: ipnet_laws_def)
  have wider: "net_contains lib k (net_addr lib l)"
    if "net_prefix_len lib k \<le> net_prefix_len lib l" "net_contains lib k x" "net_contains lib l x" for k l
  proof -
    have "same_prefix (net_prefix_len lib k) (net_addr lib l) x"
      using same_prefix_shorter [OF _ that(1) len] that(3) by (simp add: contains)
    with that(2) show ?thesis
      unfolding contains by (blast intro: same_prefix_trans same_prefix_sym)
  qed
  have "family_for_ip (net_addr lib m) = family_for_ip (net_addr lib n)"
    using assms(2,3) by (auto simp: contains dest!: same_prefix_family)
  then show ?thesis
    using wider [of m n] wider [of n m] assms(2,3) linear [of "net_prefix_len lib m" "net_prefix_len lib n"]
    by (auto simp: networks_overlap_def)
qed

lemma apart_sym: "apart lib p q \<Longrightarrow> apart lib q p"
  by (auto simp: apart_def networks_overlap_def)

lemma create_pool_safe:
  assumes "ipnet_laws lib" "inventory_inv lib d" "create_ip_pool lib i now s d = Inr (t, p)"
  shows "safe_change lib d t \<and> pools_ok lib (pools t)"
proof -
  let ?row = "\<lambda>n gateway. \<lparr>p_id = i, p_name = trim (np_name s), p_cidr = net_show lib n,
      p_family = family_for_ip (net_addr lib n), p_scope = np_scope s, p_gateway = gateway,
      p_bridge = np_bridge s, p_vlan = np_vlan s, p_mtu = np_mtu s, p_enabled = np_enabled s,
      p_created_at = now, p_updated_at = now\<rparr>"
  from assms(3) obtain n gateway where n: "check_all (check_no_overlap lib n) (pools d) = Inr ()"
    and ids: "\<forall>p \<in> set (pools d). p_id p \<noteq> i"
    and t': "t = d\<lparr>pools := pools d @ [?row n gateway]\<rparr>"
    by (auto simp: create_ip_pool_def result_simps Let_def)
  obtain row where r: "row = ?row n gateway" by blast
  note t = t' [folded r]
  have row: "p_cidr row = net_show lib n" "p_family row = family_for_ip (net_addr lib n)" "p_id row = i"
    by (simp_all add: r)
  have parse: "net_parse lib (p_cidr row) = Some n" using assms(1) row(1) by (simp add: ipnet_laws_def)
  have far: "apart lib row q" if "q \<in> set (pools d)" for q
    using n that by (auto simp: apart_def parse check_no_overlap_def result_simps)
  have "pools_ok lib (pools t)"
    using assms(2) row ids far apart_sym [OF far] parse
    by (auto simp: inventory_inv_def pools_ok_def t pool_ok_def)
  moreover have "safe_change lib d t"
    using assms(2) by (intro safe_same addresses_ok_pools [of lib d t]) (auto simp: inventory_inv_def t)
  ultimately show ?thesis by simp
qed

lemma patch_pool_safe:
  assumes "inventory_inv lib d" "patch_ip_pool lib i now s d = Inr (t, p)"
  shows "safe_change lib d t \<and> pools_ok lib (pools t)"
proof -
  from assms(2) obtain name g m c where
    t: "t = d\<lparr>pools := update_where (\<lambda>p. p_id p = i) (patched_pool now name g m s c) (pools d)\<rparr>"
    by (auto simp: patch_ip_pool_def result_simps Let_def)
  let ?f = "patched_pool now name g m s c"
  have f: "p_id (?f q) = p_id q" "p_cidr (?f q) = p_cidr q" "p_family (?f q) = p_family q" for q
    by (simp_all add: patched_pool_def)
  have "map p_id (pools t) = map p_id (pools d)" by (simp add: t map_update_where f)
  moreover have "\<exists>q \<in> set (pools d). p_id q = p_id r \<and> p_cidr q = p_cidr r \<and> p_family q = p_family r"
    if "r \<in> set (pools t)" for r
    using that by (auto simp: t set_update_where f)
  ultimately have "pools_ok lib (pools t)"
    using assms(1) unfolding inventory_inv_def pools_ok_def pool_ok_def apart_def by metis
  moreover have "\<exists>q \<in> set (pools t). p_id q = p_id r \<and> p_cidr q = p_cidr r" if "r \<in> set (pools d)" for r
  proof (rule bexI)
    show "(if p_id r = i then ?f r else r) \<in> set (pools t)" using that by (auto simp: t set_update_where)
  qed (simp add: f)
  then have "safe_change lib d t"
    using assms(1) by (intro safe_same addresses_ok_pools [of lib d t]) (auto simp: inventory_inv_def t)
  ultimately show ?thesis by simp
qed

lemma pools_ok_delete: "pools_ok lib ps \<Longrightarrow> pools_ok lib (delete_where p ps)"
  by (simp add: pools_ok_def set_delete_where map_delete_where_distinct)

text \<open>Deleting a pool that no remaining address names.\<close>

lemma drop_pool_safe:
  assumes "inventory_inv lib d" "delete_pool_row i d' = Inr (t, u)"
    and "d' = d\<lparr>ips := delete_where p (ips d)\<rparr>"
    and "\<And>a. a \<in> set (ips d) \<Longrightarrow> p a \<Longrightarrow> a_status a \<noteq> IpMain"
    and "\<And>a. a \<in> set (ips d) \<Longrightarrow> \<not> p a \<Longrightarrow> a_pool a \<noteq> Some i"
  shows "safe_change lib d t \<and> pools_ok lib (pools t)"
proof -
  have ok: "addresses_ok lib d" "pools_ok lib (pools d)" using assms(1) by (simp_all add: inventory_inv_def)
  have t: "t = d\<lparr>ips := delete_where p (ips d), pools := delete_where (\<lambda>q. p_id q = i) (pools d)\<rparr>"
    using assms(2) by (simp add: delete_pool_row_def result_simps assms(3))
  have "safe_change lib d t"
  proof (rule safe_delete [OF ok(1), where p = p])
    fix a assume a: "a \<in> set (ips d)" "\<not> p a"
    show "address_ok lib (v_id ` set (vms d)) (pools t) a"
      by (rule address_ok_pools [OF row_ok [OF ok(1) a(1)]])
        (use assms(5) [OF a] in \<open>auto simp: t set_delete_where\<close>)
  qed (use assms(4) in \<open>simp_all add: t\<close>)
  then show ?thesis using ok(2) by (simp add: t pools_ok_delete)
qed

lemma delete_pool_safe:
  assumes "inventory_inv lib d" "delete_ip_pool i d = Inr (t, u)"
  shows "safe_change lib d t \<and> pools_ok lib (pools t)"
proof (rule drop_pool_safe [OF assms(1), where p = "\<lambda>_. False"])
  show "delete_pool_row i d = Inr (t, u)" using assms(2) by (auto simp: delete_ip_pool_def result_simps)
  show "d = d\<lparr>ips := delete_where (\<lambda>_. False) (ips d)\<rparr>" by (simp add: delete_where_def)
  show "a \<in> set (ips d) \<Longrightarrow> \<not> False \<Longrightarrow> a_pool a \<noteq> Some i" for a
    using assms(2) by (auto simp: delete_ip_pool_def result_simps count_where_0)
qed simp

lemma delete_unassigned_safe:
  assumes "inventory_inv lib d" "delete_unassigned_pool i d = Inr (t, u)"
  shows "safe_change lib d t \<and> pools_ok lib (pools t)"
proof (rule drop_pool_safe [OF assms(1)])
  show "delete_pool_row i (d\<lparr>ips := delete_where (\<lambda>a. a_pool a = Some i) (ips d)\<rparr>) = Inr (t, u)"
    using assms(2) by (auto simp: delete_unassigned_pool_def result_simps)
  show "a \<in> set (ips d) \<Longrightarrow> a_pool a = Some i \<Longrightarrow> a_status a \<noteq> IpMain" for a
    using assms(2) by (auto simp: delete_unassigned_pool_def result_simps count_where_0)
qed simp_all

text \<open>The blacklist's own operations leave addresses, pools and VMs alone.\<close>

lemma create_entry_rows:
  "create_ip_blacklist_entry lib i now s d = Inr (t, b) \<Longrightarrow> \<exists>rows. t = d\<lparr>blacklist := rows\<rparr>"
  by (auto simp: create_ip_blacklist_entry_def result_simps Let_def)

lemma patch_entry_rows:
  "patch_ip_blacklist_entry i now s d = Inr (t, b) \<Longrightarrow> \<exists>rows. t = d\<lparr>blacklist := rows\<rparr>"
  by (auto simp: patch_ip_blacklist_entry_def result_simps Let_def split: if_splits
      intro: exI [of _ "blacklist d"])

lemma delete_entry_rows:
  "delete_ip_blacklist_entry i d = Inr (t, b) \<Longrightarrow> \<exists>rows. t = d\<lparr>blacklist := rows\<rparr>"
  by (auto simp: delete_ip_blacklist_entry_def result_simps)

lemma blacklist_safe:
  "inventory_inv lib d \<Longrightarrow> \<exists>rows. t = d\<lparr>blacklist := rows\<rparr> \<Longrightarrow> safe_change lib d t \<and> pools_ok lib (pools t)"
  by (auto simp: inventory_inv_def addresses_ok_def intro!: safe_same)

section \<open>All histories\<close>

definition sound_inventory :: "'n ipnet_lib \<Rightarrow> db \<Rightarrow> bool" where
  "sound_inventory lib d \<longleftrightarrow> ipnet_laws lib \<and> inventory_inv lib d"

lemmas address_safe = assign_safe release_safe set_status_safe delete_address_safe delete_vm_safe
lemmas pool_safe = patch_pool_safe delete_pool_safe delete_unassigned_safe

lemma step_safe:
  assumes "sound_inventory lib d" "fresh_ids r" "inventory_step lib d r = Inr t"
  shows "safe_change lib d t \<and> pools_ok lib (pools t)"
proof -
  have s: "ipnet_laws lib" "inventory_inv lib d" using assms(1) by (simp_all add: sound_inventory_def)
  have ok: "addresses_ok lib d" "pools_ok lib (pools d)" using s by (simp_all add: inventory_inv_def)
  have addr: "safe_change lib d t \<and> pools t = pools d \<Longrightarrow> ?thesis" using ok(2) by simp
  show ?thesis
  proof (cases r)
    case (CreatePool i now n)
    with assms(3) show ?thesis by (auto simp: result_db_Inr dest: create_pool_safe [OF s])
  next
    case (UpsertAddress i now n)
    with assms(2,3) show ?thesis
      by (intro addr) (auto simp: result_db_Inr upsert_ip_address_def dest!: upsert_safe [OF ok(1)])
  next
    case (UpsertDetected i now n)
    with assms(2,3) show ?thesis
      by (intro addr) (auto simp: result_db_Inr upsert_detected_host_address_def result_simps
          dest!: upsert_safe [OF ok(1)])
  next
    case (CreateEntry i now n)
    with assms(3) show ?thesis by (auto simp: result_db_Inr dest!: create_entry_rows blacklist_safe [OF s(2)])
  next
    case (PatchEntry i now n)
    with assms(3) show ?thesis by (auto simp: result_db_Inr dest!: patch_entry_rows blacklist_safe [OF s(2)])
  next
    case (DeleteEntry i)
    with assms(3) show ?thesis by (auto simp: result_db_Inr dest!: delete_entry_rows blacklist_safe [OF s(2)])
  qed (use assms(3) addr in \<open>auto simp: result_db_Inr dest: address_safe [OF ok(1)] pool_safe [OF s(2)]\<close>)
qed

interpretation inventory: guarded_machine "inventory_step lib" "sound_inventory lib" fresh_ids
  for lib :: "'n ipnet_lib"
proof
  fix d r t
  assume "sound_inventory lib d" "fresh_ids r" "inventory_step lib d r = Inr t"
  with step_safe [OF this] show "sound_inventory lib t"
    by (simp add: sound_inventory_def safe_change_def inventory_inv_def)
qed

text \<open>
  A concrete network library for the examples: an address with the prefix length in unary.
\<close>

definition demo_net :: "(32 word \<times> nat) ipnet_lib" where
  "demo_net = \<lparr>net_parse = (\<lambda>s. map_option
       (\<lambda>w. (w, length (dropWhile (\<lambda>c. c \<noteq> CHR ''/'') s) - 1))
       (parse_ipv4 (takeWhile (\<lambda>c. c \<noteq> CHR ''/'') s))),
     net_show = (\<lambda>(w, k). show_ipv4 w @ CHR ''/'' # replicate k (CHR ''1'')),
     net_addr = (\<lambda>(w, k). IpV4 w), net_prefix_len = (\<lambda>(w, k). min 32 k),
     net_trunc = (\<lambda>n. n), net_new = (\<lambda>a k. None),
     net_contains = (\<lambda>(w, k) a. same_prefix (min 32 k) (IpV4 w) a)\<rparr>"

lemma demo_net_laws: "ipnet_laws demo_net"
proof -
  have "c \<noteq> CHR ''/''" if "c \<in> set (show_ipv4 w)" for c w
    using show_ipv4_chars [OF that] not_address_char by metis
  then have "takeWhile (\<lambda>c. c \<noteq> CHR ''/'') (show_ipv4 w @ CHR ''/'' # t) = show_ipv4 w"
    "dropWhile (\<lambda>c. c \<noteq> CHR ''/'') (show_ipv4 w @ CHR ''/'' # t) = CHR ''/'' # t" for w t
    by (simp_all add: takeWhile_append2 dropWhile_append2)
  then show ?thesis
    by (auto simp: ipnet_laws_def demo_net_def parse_ipv4_show max_prefix_def family_for_ip_def)
qed

definition demo_inventory :: db where
  "demo_inventory = \<lparr>vms = [sample_vm ''v1'' ''n''],
     jobs = [], snapshots = [], tools = [], ips = [], pools = [], blacklist = [], traffic = [],
     customer_links = [], vnc_links = []\<rparr>"

definition demo_pool :: new_pool where
  "demo_pool = \<lparr>np_name = ''lan'', np_cidr = ''10.0.0.0/11111111'', np_scope = PrivateScope,
     np_gateway = None, np_bridge = None, np_vlan = None, np_mtu = 1500, np_enabled = True\<rparr>"

definition demo_address :: new_address where
  "demo_address = \<lparr>ia_pool = Some ''p'', ia_address = ''10.0.0.5'', ia_prefix = 24,
     ia_scope = PrivateScope, ia_status = IpFree, ia_gateway = None, ia_reverse_dns = None,
     ia_metadata = JObj []\<rparr>"

definition demo_requests :: "inventory_request list" where
  "demo_requests = [CreatePool ''p'' 1 demo_pool, UpsertAddress ''a-1'' 2 demo_address,
     AssignAddress ''10.0.0.5'' ''v1'' True 3]"

lemma demo_run: "map (\<lambda>a. (a_address a, a_vm a, a_primary a))
    (ips (run_all (inventory_step demo_net) demo_inventory demo_requests))
  = [(''10.0.0.5'', Some ''v1'', True)]"
  by code_simp

section \<open>The promises\<close>

lemma sound_start:
  "ipnet_laws lib \<Longrightarrow> ips d = [] \<Longrightarrow> pools d = [] \<Longrightarrow> sound_inventory lib d"
  by (simp add: sound_inventory_def inventory_inv_def addresses_ok_def single_primary_def pools_ok_def)

lemma sound_run:
  "ipnet_laws lib \<Longrightarrow> ips d = [] \<Longrightarrow> pools d = [] \<Longrightarrow> \<forall>r \<in> set rs. fresh_ids r
    \<Longrightarrow> sound_inventory lib (run_all (inventory_step lib) d rs)"
  by (rule inventory.run_all_inv [OF sound_start])

text \<open>
  C13. Address rows stay well formed over all histories of requests on pools, addresses, the
  blacklist and VMs: every address has one row; it is in use exactly when it has an owner,
  and then the owner exists; its prefix length fits its family; and a VM has at most one
  primary address per family. The CHECK and UNIQUE constraints of the table therefore never
  reject a request.
\<close>

theorem inventory_rows_well_formed:
  assumes "ipnet_laws lib" "ips d = []" "pools d = []" "\<forall>r \<in> set rs. fresh_ids r"
  shows "distinct (map a_address (ips (run_all (inventory_step lib) d rs)))
    \<and> (\<forall>a \<in> set (ips (run_all (inventory_step lib) d rs)).
         (a_status a = IpUsed) = (a_vm a \<noteq> None)
         \<and> (\<forall>v. a_vm a = Some v \<longrightarrow> vm_exists (run_all (inventory_step lib) d rs) v)
         \<and> a_prefix a \<le> max_prefix (a_family a)
         \<and> (\<forall>b \<in> set (ips (run_all (inventory_step lib) d rs)).
              a_primary a \<and> a_primary b \<and> a_vm a = a_vm b \<and> a_family a = a_family b
              \<longrightarrow> a_vm a \<noteq> None \<and> a_address a = a_address b))"
proof -
  let ?t = "run_all (inventory_step lib) d rs"
  have ok: "addresses_ok lib ?t"
    using sound_run [OF assms] by (simp add: sound_inventory_def inventory_inv_def)
  have row: "(a_status a = IpUsed) = (a_vm a \<noteq> None) \<and> (a_primary a \<longrightarrow> a_vm a \<noteq> None)
      \<and> (\<forall>v. a_vm a = Some v \<longrightarrow> vm_exists ?t v) \<and> a_prefix a \<le> max_prefix (a_family a)"
    if "a \<in> set (ips ?t)" for a
    using row_ok [OF ok that] by (auto simp: address_ok_def vm_exists_def)
  have "distinct (map a_address (ips ?t))" "single_primary (ips ?t)"
    using ok by (simp_all add: addresses_ok_def)
  with row show ?thesis unfolding single_primary_def by blast
qed

lemma inventory_rows_well_formed_witness:
  "distinct (map a_address (ips (run_all (inventory_step demo_net) demo_inventory demo_requests)))
   \<and> length (ips (run_all (inventory_step demo_net) demo_inventory demo_requests)) = 1"
  using inventory_rows_well_formed [OF demo_net_laws, of demo_inventory demo_requests]
    arg_cong [OF demo_run, of length]
  by (simp add: demo_inventory_def demo_requests_def del: run_all_simps)

text \<open>
  C15. Pools never share an address: over all histories, any address lies in the network of at
  most one pool, and an address row that names a pool lies in that pool's network with a
  prefix no broader than the pool's.
\<close>

theorem pools_never_share_an_address:
  assumes "ipnet_laws lib" "ips d = []" "pools d = []" "\<forall>r \<in> set rs. fresh_ids r"
    and "t = run_all (inventory_step lib) d rs"
  shows "(\<forall>p \<in> set (pools t). \<forall>q \<in> set (pools t). \<forall>m n x.
      net_parse lib (p_cidr p) = Some m \<and> net_parse lib (p_cidr q) = Some n
      \<and> net_contains lib m x \<and> net_contains lib n x \<longrightarrow> p = q)
    \<and> (\<forall>a \<in> set (ips t). \<forall>i. a_pool a = Some i \<longrightarrow> (\<exists>p \<in> set (pools t). \<exists>n x. p_id p = i
         \<and> net_parse lib (p_cidr p) = Some n \<and> a_address a = show_ip x
         \<and> net_contains lib n x \<and> net_prefix_len lib n \<le> a_prefix a))"
proof (intro conjI ballI allI impI)
  have inv: "inventory_inv lib t"
    using sound_run [OF assms(1-4)] by (simp add: assms(5) sound_inventory_def)
  fix p q m n x
  assume pq: "p \<in> set (pools t)" "q \<in> set (pools t)"
    and c: "net_parse lib (p_cidr p) = Some m \<and> net_parse lib (p_cidr q) = Some n
      \<and> net_contains lib m x \<and> net_contains lib n x"
  then have "networks_overlap lib m n" using shared_address_overlaps [OF assms(1)] by blast
  with c have "\<not> apart lib p q" by (auto simp: apart_def)
  with inv pq have "p_id p = p_id q" "distinct (map p_id (pools t))"
    by (auto simp: inventory_inv_def pools_ok_def)
  with pq show "p = q" by (metis distinct_map inj_onD)
next
  have inv: "addresses_ok lib t"
    using sound_run [OF assms(1-4)] by (simp add: assms(5) sound_inventory_def inventory_inv_def)
  fix a i assume "a \<in> set (ips t)" "a_pool a = Some i"
  with row_ok [OF inv] show "\<exists>p \<in> set (pools t). \<exists>n x. p_id p = i
         \<and> net_parse lib (p_cidr p) = Some n \<and> a_address a = show_ip x
         \<and> net_contains lib n x \<and> net_prefix_len lib n \<le> a_prefix a"
    unfolding address_ok_def lies_in_pool_def by blast
qed

lemma pools_never_share_an_address_witness:
  "\<exists>p \<in> set (pools (run_all (inventory_step demo_net) demo_inventory demo_requests)). p_id p = ''p''"
proof -
  let ?t = "run_all (inventory_step demo_net) demo_inventory demo_requests"
  have "map a_pool (ips ?t) = [Some ''p'']" by code_simp
  then obtain a where "a \<in> set (ips ?t)" "a_pool a = Some ''p''" by auto
  with pools_never_share_an_address [OF demo_net_laws, of demo_inventory demo_requests ?t]
  show ?thesis by (fastforce simp: demo_inventory_def demo_requests_def simp del: run_all_simps)
qed

lemma any_entry_contains_none:
  "any_entry_contains lib y bs = Inr False \<Longrightarrow>
   \<forall>b \<in> set bs. \<exists>n. net_parse lib (b_cidr b) = Some n \<and> \<not> net_contains lib n y"
  by (induction bs) (auto split: option.splits if_splits)

lemma not_blacklisted:
  assumes "check_not_blacklisted lib d c now = Inr ()"
  shows "\<exists>y. parse_ip c = Some y \<and> (\<forall>b \<in> set (blacklist d). active_entry (family_for_ip y) now b
    \<longrightarrow> (\<exists>n. net_parse lib (b_cidr b) = Some n \<and> \<not> net_contains lib n y))"
proof -
  from assms obtain y where "parse_ip c = Some y" "ip_is_blacklisted lib d y now = Inr False"
    by (auto simp: check_not_blacklisted_def result_simps)
  then show ?thesis using any_entry_contains_none unfolding ip_is_blacklisted_def by fastforce
qed

lemma pool_enabled:
  assumes "check_pool_enabled d c a = Inr ()" "pools_ok lib (pools d)" "p \<in> set (pools d)"
    "a_pool a = Some (p_id p)"
  shows "p_enabled p"
proof -
  from assms(1,4) obtain q where q: "query_pool d (p_id p) = Some q" "p_enabled q"
    by (auto simp: check_pool_enabled_def result_simps)
  then have "q \<in> set (pools d)" "p_id q = p_id p"
    by (auto simp: query_pool_def dest: select_one_Some)
  moreover have "distinct (map p_id (pools d))" using assms(2) by (simp add: pools_ok_def)
  ultimately have "q = p" using assms(3) by (metis distinct_map inj_onD)
  with q(2) show ?thesis by simp
qed

lemma give_others:
  "map (\<lambda>a. (a_vm a, a_status a)) (filter (\<lambda>a. a_address a \<noteq> c)
     (give_address c vm primary now (if primary then demote_primary vm f now rows else rows)))
   = map (\<lambda>a. (a_vm a, a_status a)) (filter (\<lambda>a. a_address a \<noteq> c) rows)"
  by (cases primary; induction rows) (simp_all add: give_address_def demote_primary_def)

lemma give_row:
  assumes "r \<in> set (give_address c vm primary now rows)" "a_address r = c"
  shows "a_vm r = Some vm \<and> a_status r = IpUsed \<and> a_primary r = primary"
proof -
  from assms(1) obtain a where "r = (if a_address a = c
      then a\<lparr>a_status := IpUsed, a_vm := Some vm, a_primary := primary, a_updated_at := now\<rparr> else a)"
    by (auto simp: give_address_def set_update_where)
  with assms(2) show ?thesis by (cases "a_address a = c") simp_all
qed

text \<open>
  C14. Only admitted addresses are assigned: when an assignment to a VM succeeds, the VM exists
  and the row returned is used by it with the requested flag; unless the VM owned the address
  already, the address was free, its pool is enabled and no active blacklist entry covers it;
  and every other address keeps its owner and status.
\<close>

theorem assignment_admitted:
  assumes "inventory_inv lib d" "assign_ip lib value vm primary now d = Inr (t, r)"
  shows "vm_exists d vm \<and> a_vm r = Some vm \<and> a_status r = IpUsed \<and> a_primary r = primary \<and> r \<in> set (ips t)
    \<and> (\<exists>a \<in> set (ips d). a_address a = a_address r \<and> (a_vm a = Some vm \<or>
         (a_status a = IpFree
          \<and> (\<forall>p \<in> set (pools d). a_pool a = Some (p_id p) \<longrightarrow> p_enabled p)
          \<and> (\<exists>y. parse_ip (a_address a) = Some y
               \<and> (\<forall>b \<in> set (blacklist d). active_entry (family_for_ip y) now b \<longrightarrow>
                    (\<exists>n. net_parse lib (b_cidr b) = Some n \<and> \<not> net_contains lib n y))))))
    \<and> map (\<lambda>a. (a_vm a, a_status a)) (filter (\<lambda>a. a_address a \<noteq> a_address r) (ips t))
      = map (\<lambda>a. (a_vm a, a_status a)) (filter (\<lambda>a. a_address a \<noteq> a_address r) (ips d))"
proof -
  have ok: "addresses_ok lib d" "pools_ok lib (pools d)" using assms(1) by (simp_all add: inventory_inv_def)
  from assign_Inr [OF ok(1) assms(2)] obtain x a where
    a: "select_one (\<lambda>a. a_address a = show_ip x) (ips d) = Some a" and vm: "vm_exists d vm"
    and admitted: "a_vm a = Some vm \<or> (a_status a = IpFree
         \<and> check_pool_enabled d (show_ip x) a = Inr ()
         \<and> check_not_blacklisted lib d (show_ip x) now = Inr ())"
    and t: "t = d\<lparr>ips := give_address (show_ip x) vm primary now
          (if primary then demote_primary vm (a_family a) now (ips d) else ips d)\<rparr>"
    and q: "query_address t (show_ip x) = Some r"
    by blast
  have "addresses_ok lib t" using assign_ok [OF ok(1) assms(2)] by simp
  with q have r: "r \<in> set (ips t)" "a_address r = show_ip x"
    by (auto simp: query_canonical dest: select_one_Some)
  have row: "a_vm r = Some vm \<and> a_status r = IpUsed \<and> a_primary r = primary"
    by (rule give_row [OF _ r(2)]) (use r(1) in \<open>simp add: t\<close>)
  have a': "a \<in> set (ips d)" "a_address a = show_ip x" using select_one_Some [OF a] by auto
  have "a_vm a = Some vm \<or> (a_status a = IpFree
          \<and> (\<forall>p \<in> set (pools d). a_pool a = Some (p_id p) \<longrightarrow> p_enabled p)
          \<and> (\<exists>y. parse_ip (a_address a) = Some y
               \<and> (\<forall>b \<in> set (blacklist d). active_entry (family_for_ip y) now b \<longrightarrow>
                    (\<exists>n. net_parse lib (b_cidr b) = Some n \<and> \<not> net_contains lib n y))))"
    using admitted pool_enabled [OF _ ok(2)] not_blacklisted unfolding a'(2) by blast
  with a' r row vm show ?thesis by (auto simp: t give_others simp del: split_paired_Ex)
qed

lemma assignment_admitted_witness:
  "\<exists>t r. assign_ip demo_net ''10.0.0.5'' ''v1'' True 3
      (run_all (inventory_step demo_net) demo_inventory (take 2 demo_requests)) = Inr (t, r)
    \<and> a_vm r = Some ''v1'' \<and> a_status r = IpUsed"
proof -
  let ?d = "run_all (inventory_step demo_net) demo_inventory (take 2 demo_requests)"
  have "is_ok (assign_ip demo_net ''10.0.0.5'' ''v1'' True 3 ?d)" by code_simp
  then obtain t r where r: "assign_ip demo_net ''10.0.0.5'' ''v1'' True 3 ?d = Inr (t, r)"
    by (auto simp: is_ok_iff simp del: run_all_simps)
  have "sound_inventory demo_net ?d"
    by (rule sound_run [OF demo_net_laws]) (simp_all add: demo_inventory_def demo_requests_def)
  then have "inventory_inv demo_net ?d" by (simp add: sound_inventory_def)
  from assignment_admitted [OF this r] r show ?thesis by blast
qed

text \<open>
  An address is never taken from one VM for another: whatever one request does, an address
  that has an owner before and after has the same one; a new owner is only possible after a
  release.
\<close>

theorem owner_changes_only_through_release:
  assumes "sound_inventory lib d" "fresh_ids r" "inventory_step lib d r = Inr t"
    and "a \<in> set (ips d)" "b \<in> set (ips t)" "a_address a = a_address b"
    and "a_vm a = Some v" "a_vm b = Some w"
  shows "v = w"
  using step_safe [OF assms(1-3)] assms(4-) by (auto simp: safe_change_def keeps_owner_def)

lemma owner_changes_only_through_release_witness:
  "\<exists>t. inventory_step demo_net (run_all (inventory_step demo_net) demo_inventory demo_requests)
      (AssignAddress ''10.0.0.5'' ''v1'' False 4) = Inr t \<and> map a_vm (ips t) = [Some ''v1'']"
proof -
  let ?d = "run_all (inventory_step demo_net) demo_inventory demo_requests"
  let ?r = "AssignAddress ''10.0.0.5'' ''v1'' False 4"
  have "is_ok (inventory_step demo_net ?d ?r)" by code_simp
  then obtain t where t: "inventory_step demo_net ?d ?r = Inr t"
    by (auto simp: is_ok_iff simp del: run_all_simps)
  have "case inventory_step demo_net ?d ?r of Inl _ \<Rightarrow> False
      | Inr t \<Rightarrow> map a_address (ips t) = [''10.0.0.5''] \<and> list_all (\<lambda>a. a_vm a \<noteq> None) (ips t)"
    by code_simp
  then have "map a_address (ips t) = [''10.0.0.5'']" "list_all (\<lambda>a. a_vm a \<noteq> None) (ips t)"
    unfolding t by simp_all
  then obtain b w where b: "ips t = [b]" "a_address b = ''10.0.0.5''" "a_vm b = Some w" by auto
  from demo_run obtain a where a: "a \<in> set (ips ?d)" "a_address a = ''10.0.0.5''" "a_vm a = Some ''v1''"
    by (cases "ips ?d") auto
  have "sound_inventory demo_net ?d"
    by (rule sound_run [OF demo_net_laws]) (simp_all add: demo_inventory_def demo_requests_def)
  from owner_changes_only_through_release [OF this _ t a(1) _ _ a(3) b(3)] a(2) b t show ?thesis by simp
qed

text \<open>
  Host addresses stay: an address detected on the host keeps its row, as a host address,
  over all histories; neither deletion, nor assignment, nor a change of status, nor the removal
  of its pool takes it away.
\<close>

theorem host_addresses_stay:
  assumes "sound_inventory lib d" "\<forall>r \<in> set rs. fresh_ids r" "a \<in> set (ips d)" "a_status a = IpMain"
  shows "\<exists>b \<in> set (ips (run_all (inventory_step lib) d rs)). a_address b = a_address a \<and> a_status b = IpMain"
proof -
  have "keeps_main d (run_all (inventory_step lib) d rs)"
  proof (rule inventory.run_all_rel [OF _ _ _ assms(1,2)])
    show "keeps_main s u" if "keeps_main s t" "keeps_main t u" for s t u :: db
      using that unfolding keeps_main_def by metis
    show "keeps_main s t" if "sound_inventory lib s" "fresh_ids q" "inventory_step lib s q = Inr t" for s t q
      using step_safe [OF that] by (simp add: safe_change_def)
  qed (auto simp: keeps_main_def)
  with assms(3,4) show ?thesis by (simp add: keeps_main_def)
qed

definition demo_main :: inventory_request where
  "demo_main = UpsertAddress ''a-2'' 1 (demo_address\<lparr>ia_pool := None, ia_status := IpMain\<rparr>)"

lemma host_addresses_stay_witness:
  "\<exists>b \<in> set (ips (run_all (inventory_step demo_net) demo_inventory
      [demo_main, DeleteAddress ''10.0.0.5'', SetAddressStatus ''10.0.0.5'' IpFree 3])). a_status b = IpMain"
proof -
  let ?d = "run_all (inventory_step demo_net) demo_inventory [demo_main]"
  have "map a_status (ips ?d) = [IpMain]" by code_simp
  then obtain a where "a \<in> set (ips ?d)" "a_status a = IpMain" by auto
  moreover have "sound_inventory demo_net ?d"
    by (rule sound_run [OF demo_net_laws]) (simp_all add: demo_inventory_def demo_main_def)
  ultimately show ?thesis
    using host_addresses_stay [of demo_net ?d "[DeleteAddress ''10.0.0.5'', SetAddressStatus ''10.0.0.5'' IpFree 3]" a]
    by auto
qed

end
