(* ===== verification/Access_Links.thy ===== *)
theory Access_Links
  imports Panel_Db
begin

text \<open>
  One-time links (\<open>src/db.rs\<close>): the customer status links and the VNC console links. A link
  is stored by the hash of its token, exchanged once for a browser session stored by the hash
  of a second token, and revoked or pruned. Token hashes are the \<open>[u8; 32]\<close> values the
  routes pass; the clock is the argument \<open>now\<close>. The two tables have their own operations in
  the source, which the model follows; they share only the conditions written here.
\<close>

text \<open>\<open>consumed_at IS NULL AND revoked_at IS NULL AND expires_at > now\<close>, for a token.\<close>

definition redeemable :: "string \<Rightarrow> timestamp \<Rightarrow> link_row \<Rightarrow> bool" where
  "redeemable h now l \<longleftrightarrow> l_token_hash l = h \<and> l_consumed_at l = None \<and> l_revoked_at l = None
     \<and> now < l_expires_at l"

definition bound_elsewhere :: "link_row \<Rightarrow> string option \<Rightarrow> bool" where
  "bound_elsewhere l source \<longleftrightarrow> l_bound_ip l \<noteq> None \<and> l_bound_ip l \<noteq> source"

text \<open>
  The session query: an equation or comparison with NULL is not true, so a bound link needs a
  source address.
\<close>

definition live_session :: "string \<Rightarrow> timestamp \<Rightarrow> string option \<Rightarrow> link_row \<Rightarrow> bool" where
  "live_session s now source l \<longleftrightarrow> l_session_hash l = Some s
     \<and> (case l_session_expires_at l of None \<Rightarrow> False | Some e \<Rightarrow> now < e)
     \<and> l_revoked_at l = None
     \<and> (l_bound_ip l = None \<or> (source \<noteq> None \<and> l_bound_ip l = source))"

text \<open>\<open>revoked_at = COALESCE(revoked_at, now)\<close>.\<close>

definition revoke_link :: "timestamp \<Rightarrow> link_row \<Rightarrow> link_row" where
  "revoke_link now l = l\<lparr>l_revoked_at := (case l_revoked_at l of None \<Rightarrow> Some now | Some r \<Rightarrow> Some r)\<rparr>"

text \<open>\<open>COALESCE(session_expires_at, expires_at) <= now OR revoked_at IS NOT NULL\<close>.\<close>

definition prunable :: "timestamp \<Rightarrow> link_row \<Rightarrow> bool" where
  "prunable now l \<longleftrightarrow>
     (case l_session_expires_at l of None \<Rightarrow> l_expires_at l | Some e \<Rightarrow> e) \<le> now \<or> l_revoked_at l \<noteq> None"

text \<open>The constraints an \<open>INSERT\<close> of a link can meet.\<close>

definition new_link :: "string \<Rightarrow> string \<Rightarrow> string \<Rightarrow> string list \<Rightarrow> string option
    \<Rightarrow> timestamp \<Rightarrow> timestamp \<Rightarrow> link_row" where
  "new_link i vm h scopes bound now expires = \<lparr>l_id = i, l_vm = vm, l_token_hash = h,
     l_session_hash = None, l_scopes = scopes, l_bound_ip = bound, l_created_at = now,
     l_expires_at = expires, l_consumed_at = None, l_session_expires_at = None,
     l_last_used_at = None, l_revoked_at = None\<rparr>"

definition link_constraints :: "db \<Rightarrow> link_row list \<Rightarrow> link_row \<Rightarrow> app_error + unit" where
  "link_constraints d rows l =
     and_then (require (l_created_at l < l_expires_at l) check_error) (\<lambda>_.
     and_then (require (\<forall>r \<in> set rows. l_id r \<noteq> l_id l \<and> l_token_hash r \<noteq> l_token_hash l)
       unique_error) (\<lambda>_.
     require (vm_exists d (l_vm l)) foreign_key_error))"

text \<open>A session hash is unique in its table.\<close>

definition session_taken :: "string \<Rightarrow> string \<Rightarrow> link_row list \<Rightarrow> bool" where
  "session_taken s i rows \<longleftrightarrow> (\<exists>r \<in> set rows. l_session_hash r = Some s \<and> l_id r \<noteq> i)"

section \<open>Customer links\<close>

definition query_customer_token :: "db \<Rightarrow> string \<Rightarrow> link_row option" where
  "query_customer_token d i = select_one (\<lambda>l. l_id l = i) (customer_links d)"

text \<open>\<open>create_customer_link\<close>, and \<open>create_customer_token\<close> without a bound address.\<close>

definition create_customer_link ::
  "string \<Rightarrow> timestamp \<Rightarrow> string \<Rightarrow> string \<Rightarrow> string list \<Rightarrow> string option \<Rightarrow> timestamp
    \<Rightarrow> db \<Rightarrow> link_row transaction" where
  "create_customer_link i now vm h scopes bound expires d =
     and_then (require (now < expires) (Validation ''customer token expiry must be in the future'')) (\<lambda>_.
     and_then (canonical_optional_ip bound None) (\<lambda>bound.
     let l = new_link i vm h scopes bound now expires in
     and_then (link_constraints d (customer_links d) l) (\<lambda>_.
     let d1 = d\<lparr>customer_links := customer_links d @ [l]\<rparr> in
     and_then (ok_or (query_customer_token d1 i) (NotFound ''customer token'')) (\<lambda>r. Inr (d1, r)))))"

definition create_customer_token ::
  "string \<Rightarrow> timestamp \<Rightarrow> string \<Rightarrow> string \<Rightarrow> string list \<Rightarrow> timestamp \<Rightarrow> db \<Rightarrow> link_row transaction" where
  "create_customer_token i now vm h scopes expires d =
     create_customer_link i now vm h scopes None expires d"

text \<open>\<open>exchange_customer_link\<close>: the session lives at most an hour and never past the link.\<close>

definition open_customer_session :: "string \<Rightarrow> timestamp \<Rightarrow> timestamp \<Rightarrow> link_row \<Rightarrow> link_row" where
  "open_customer_session s now until l = l\<lparr>l_session_hash := Some s, l_consumed_at := Some now,
     l_session_expires_at := Some until, l_last_used_at := Some now\<rparr>"

definition exchange_customer_link ::
  "string \<Rightarrow> string \<Rightarrow> string option \<Rightarrow> timestamp \<Rightarrow> nat \<Rightarrow> db \<Rightarrow> link_row option transaction" where
  "exchange_customer_link h s source now ttl_seconds d =
     and_then (require (ttl_seconds \<noteq> 0)
       (Validation ''customer session TTL must be greater than zero'')) (\<lambda>_.
     let ttl = int (min ttl_seconds 3600) in
     and_then (canonical_optional_ip source None) (\<lambda>source.
     case select_one (redeemable h now) (customer_links d) of
       None \<Rightarrow> Inr (d, None)
     | Some link \<Rightarrow>
         if bound_elsewhere link source then Inr (d, None)
         else
           let until = min (l_expires_at link) (sat_add now ttl);
               p = (\<lambda>l. l_id l = l_id link \<and> l_consumed_at l = None) in
           if count_where p (customer_links d) = 0 then Inr (d, None)
           else if session_taken s (l_id link) (customer_links d) then Inl unique_error
           else let d1 = d\<lparr>customer_links :=
                      update_where p (open_customer_session s now until) (customer_links d)\<rparr>
                in Inr (d1, query_customer_token d1 (l_id link))))"

text \<open>\<open>authenticate_customer_session\<close> returns the row as read, then notes the use.\<close>

definition authenticate_customer_session ::
  "string \<Rightarrow> string option \<Rightarrow> timestamp \<Rightarrow> db \<Rightarrow> link_row option transaction" where
  "authenticate_customer_session s source now d =
     and_then (canonical_optional_ip source None) (\<lambda>source.
     case select_one (live_session s now source) (customer_links d) of
       None \<Rightarrow> Inr (d, None)
     | Some l \<Rightarrow> Inr (d\<lparr>customer_links := update_where (\<lambda>l. l_session_hash l = Some s)
           (\<lambda>l. l\<lparr>l_last_used_at := Some now\<rparr>) (customer_links d)\<rparr>, Some l))"

definition list_customer_tokens :: "string \<Rightarrow> timestamp \<Rightarrow> db \<Rightarrow> link_row list" where
  "list_customer_tokens vm now d = sort_key (\<lambda>l. - l_created_at l)
     (filter (\<lambda>l. l_vm l = vm \<and> l_revoked_at l = None \<and> now < l_expires_at l) (customer_links d))"

definition revoke_customer_token_for_vm :: "string \<Rightarrow> string \<Rightarrow> timestamp \<Rightarrow> db \<Rightarrow> unit transaction" where
  "revoke_customer_token_for_vm vm i now d =
     (let p = (\<lambda>l. l_id l = i \<and> l_vm l = vm) in
      and_then (require_changed (count_where p (customer_links d)) ''customer token'') (\<lambda>_.
        Inr (d\<lparr>customer_links := update_where p (revoke_link now) (customer_links d)\<rparr>, ())))"

definition revoke_customer_session :: "string \<Rightarrow> timestamp \<Rightarrow> db \<Rightarrow> nat transaction" where
  "revoke_customer_session s now d =
     (let p = (\<lambda>l. l_session_hash l = Some s \<and> l_revoked_at l = None) in
      Inr (d\<lparr>customer_links := update_where p (revoke_link now) (customer_links d)\<rparr>,
        count_where p (customer_links d)))"

section \<open>VNC links\<close>

definition query_vnc_token :: "db \<Rightarrow> string \<Rightarrow> link_row option" where
  "query_vnc_token d i = select_one (\<lambda>l. l_id l = i) (vnc_links d)"

text \<open>\<open>create_vnc_link\<close>: ten minutes from its creation.\<close>

definition create_vnc_link ::
  "string \<Rightarrow> string \<Rightarrow> string \<Rightarrow> string option \<Rightarrow> timestamp \<Rightarrow> db \<Rightarrow> link_row transaction" where
  "create_vnc_link i vm h bound created d =
     and_then (canonical_optional_ip bound None) (\<lambda>bound.
     let l = new_link i vm h [] bound created (created + 600) in
     and_then (link_constraints d (vnc_links d) l) (\<lambda>_.
     let d1 = d\<lparr>vnc_links := vnc_links d @ [l]\<rparr> in
     and_then (ok_or (query_vnc_token d1 i) (NotFound ''VNC token'')) (\<lambda>r. Inr (d1, r))))"

definition open_vnc_session :: "string \<Rightarrow> timestamp \<Rightarrow> timestamp \<Rightarrow> link_row \<Rightarrow> link_row" where
  "open_vnc_session s now until l =
     l\<lparr>l_session_hash := Some s, l_consumed_at := Some now, l_session_expires_at := Some until\<rparr>"

definition exchange_vnc_link ::
  "string \<Rightarrow> string \<Rightarrow> string option \<Rightarrow> timestamp \<Rightarrow> db \<Rightarrow> link_row option transaction" where
  "exchange_vnc_link h s source now d =
     and_then (canonical_optional_ip source None) (\<lambda>source.
     case select_one (redeemable h now) (vnc_links d) of
       None \<Rightarrow> Inr (d, None)
     | Some link \<Rightarrow>
         if bound_elsewhere link source then Inr (d, None)
         else
           let p = (\<lambda>l. l_id l = l_id link \<and> l_consumed_at l = None) in
           if count_where p (vnc_links d) = 0 then Inr (d, None)
           else if session_taken s (l_id link) (vnc_links d) then Inl unique_error
           else let d1 = d\<lparr>vnc_links :=
                      update_where p (open_vnc_session s now (l_expires_at link)) (vnc_links d)\<rparr>
                in Inr (d1, query_vnc_token d1 (l_id link)))"

definition authenticate_vnc_session ::
  "string \<Rightarrow> string option \<Rightarrow> timestamp \<Rightarrow> db \<Rightarrow> app_error + link_row option" where
  "authenticate_vnc_session s source now d =
     and_then (canonical_optional_ip source None) (\<lambda>source.
     Inr (select_one (live_session s now source) (vnc_links d)))"

definition revoke_vm_vnc_tokens :: "string \<Rightarrow> timestamp \<Rightarrow> db \<Rightarrow> nat transaction" where
  "revoke_vm_vnc_tokens vm now d =
     Inr (d\<lparr>vnc_links := update_where (\<lambda>l. l_vm l = vm) (revoke_link now) (vnc_links d)\<rparr>,
       count_where (\<lambda>l. l_vm l = vm) (vnc_links d))"

definition revoke_vnc_session :: "string \<Rightarrow> timestamp \<Rightarrow> db \<Rightarrow> nat transaction" where
  "revoke_vnc_session s now d =
     (let p = (\<lambda>l. l_session_hash l = Some s \<and> l_revoked_at l = None) in
      Inr (d\<lparr>vnc_links := update_where p (revoke_link now) (vnc_links d)\<rparr>,
        count_where p (vnc_links d)))"

definition prune_expired_tokens :: "timestamp \<Rightarrow> db \<Rightarrow> (nat \<times> nat) transaction" where
  "prune_expired_tokens now d =
     Inr (d\<lparr>customer_links := delete_where (prunable now) (customer_links d),
            vnc_links := delete_where (prunable now) (vnc_links d)\<rparr>,
       (count_where (prunable now) (customer_links d), count_where (prunable now) (vnc_links d)))"

end
