(* ===== verification/Link_Safety.thy ===== *)
theory Link_Safety
  imports Access_Links
begin

text \<open>
  What the one-time links promise. The few things an operation may do to a table of links are
  an inductive relation; the locale \<open>link_table\<close> proves what follows for whole histories, and
  is interpreted on the customer and on the VNC table.
\<close>

datatype link_request =
    CreateCustomer string timestamp string string "string list" "string option" timestamp
  | ExchangeCustomer string string "string option" timestamp nat
  | VisitCustomer string "string option" timestamp
  | RevokeCustomer string string timestamp
  | LogoutCustomer string timestamp
  | CreateVnc string string string "string option" timestamp
  | ExchangeVnc string string "string option" timestamp
  | RevokeVmVnc string timestamp
  | LogoutVnc string timestamp
  | PruneLinks timestamp
  | DropVm string timestamp

fun link_step :: "db \<Rightarrow> link_request \<Rightarrow> app_error + db" where
  "link_step d (CreateCustomer i now vm h sc b e) = result_db (create_customer_link i now vm h sc b e d)"
| "link_step d (ExchangeCustomer h s src now ttl) = result_db (exchange_customer_link h s src now ttl d)"
| "link_step d (VisitCustomer s src now) = result_db (authenticate_customer_session s src now d)"
| "link_step d (RevokeCustomer vm i now) = result_db (revoke_customer_token_for_vm vm i now d)"
| "link_step d (LogoutCustomer s now) = result_db (revoke_customer_session s now d)"
| "link_step d (CreateVnc i vm h b now) = result_db (create_vnc_link i vm h b now d)"
| "link_step d (ExchangeVnc h s src now) = result_db (exchange_vnc_link h s src now d)"
| "link_step d (RevokeVmVnc vm now) = result_db (revoke_vm_vnc_tokens vm now d)"
| "link_step d (LogoutVnc s now) = result_db (revoke_vnc_session s now d)"
| "link_step d (PruneLinks now) = result_db (prune_expired_tokens now d)"
| "link_step d (DropVm v now) = result_db (delete_vm v now d)"

text \<open>The token hash a request stores in a table, and the session hash it may open.\<close>

fun mints_customer :: "link_request \<Rightarrow> string option" where
  "mints_customer (CreateCustomer i now vm h sc b e) = Some h"
| "mints_customer _ = None"

fun opens_customer :: "link_request \<Rightarrow> string option" where
  "opens_customer (ExchangeCustomer h s src now ttl) = Some s"
| "opens_customer _ = None"

fun mints_vnc :: "link_request \<Rightarrow> string option" where
  "mints_vnc (CreateVnc i vm h b now) = Some h"
| "mints_vnc _ = None"

fun opens_vnc :: "link_request \<Rightarrow> string option" where
  "opens_vnc (ExchangeVnc h s src now) = Some s"
| "opens_vnc _ = None"

section \<open>What may happen to a table of links\<close>

definition opened :: "string \<Rightarrow> timestamp \<Rightarrow> timestamp \<Rightarrow> timestamp option \<Rightarrow> link_row \<Rightarrow> link_row" where
  "opened s now until used l = l\<lparr>l_session_hash := Some s, l_consumed_at := Some now,
     l_session_expires_at := Some until,
     l_last_used_at := (case used of None \<Rightarrow> l_last_used_at l | Some u \<Rightarrow> Some u)\<rparr>"

inductive link_effect ::
  "string option \<Rightarrow> string option \<Rightarrow> link_row list \<Rightarrow> link_row list \<Rightarrow> bool" where
  quiet: "link_effect m s rows rows"
| mint: "l = new_link i vm h scopes bound now expires \<Longrightarrow>
    \<forall>r \<in> set rows. l_id r \<noteq> i \<and> l_token_hash r \<noteq> h \<Longrightarrow>
    link_effect (Some h) s rows (rows @ [l])"
| consume: "l \<in> set rows \<Longrightarrow> l_consumed_at l = None \<Longrightarrow> l_revoked_at l = None \<Longrightarrow>
    until \<le> l_expires_at l \<Longrightarrow> \<not> session_taken x (l_id l) rows \<Longrightarrow>
    link_effect m (Some x) rows
      (update_where (\<lambda>r. l_id r = l_id l \<and> l_consumed_at r = None) (opened x now until used) rows)"
| touch: "link_effect m s rows (update_where p (\<lambda>r. r\<lparr>l_last_used_at := Some now\<rparr>) rows)"
| revoke: "link_effect m s rows (update_where p (revoke_link now) rows)"
| remove: "link_effect m s rows (delete_where p rows)"

text \<open>
  The invariant of a table: ids, tokens and sessions are unique; a link has a session exactly
  when it was consumed; and no session outlives its link.
\<close>

definition link_ok :: "link_row \<Rightarrow> bool" where
  "link_ok l \<longleftrightarrow> (l_session_hash l = None) = (l_consumed_at l = None)
     \<and> (l_session_hash l = None) = (l_session_expires_at l = None)
     \<and> (\<forall>e. l_session_expires_at l = Some e \<longrightarrow> e \<le> l_expires_at l)"

definition links_ok :: "link_row list \<Rightarrow> bool" where
  "links_ok rows \<longleftrightarrow> distinct (map l_id rows) \<and> distinct (map l_token_hash rows)
     \<and> (\<forall>l \<in> set rows. link_ok l)
     \<and> (\<forall>l \<in> set rows. \<forall>r \<in> set rows. \<forall>s. l_session_hash l = Some s \<longrightarrow> l_session_hash r = Some s
          \<longrightarrow> l_id l = l_id r)"

definition spent :: "string \<Rightarrow> link_row list \<Rightarrow> bool" where
  "spent h rows \<longleftrightarrow> (\<forall>l \<in> set rows. l_token_hash l = h \<longrightarrow> l_consumed_at l \<noteq> None)"

definition closed_session :: "string \<Rightarrow> link_row list \<Rightarrow> bool" where
  "closed_session s rows \<longleftrightarrow> (\<forall>l \<in> set rows. l_session_hash l = Some s \<longrightarrow> l_revoked_at l \<noteq> None)"

lemma opened_fields [simp]:
  "l_id (opened s now until used l) = l_id l" "l_token_hash (opened s now until used l) = l_token_hash l"
  "l_session_hash (opened s now until used l) = Some s" "l_consumed_at (opened s now until used l) = Some now"
  "l_session_expires_at (opened s now until used l) = Some until"
  "l_expires_at (opened s now until used l) = l_expires_at l"
  "l_revoked_at (opened s now until used l) = l_revoked_at l"
  by (simp_all add: opened_def)

lemma revoke_link_fields [simp]:
  "l_id (revoke_link now l) = l_id l" "l_token_hash (revoke_link now l) = l_token_hash l"
  "l_session_hash (revoke_link now l) = l_session_hash l" "l_consumed_at (revoke_link now l) = l_consumed_at l"
  "l_session_expires_at (revoke_link now l) = l_session_expires_at l"
  "l_expires_at (revoke_link now l) = l_expires_at l" "l_revoked_at (revoke_link now l) \<noteq> None"
  by (simp_all add: revoke_link_def split: option.split)

lemma links_ok_id: "links_ok rows \<Longrightarrow> l \<in> set rows \<Longrightarrow> r \<in> set rows \<Longrightarrow> l_id l = l_id r \<Longrightarrow> l = r"
  unfolding links_ok_def by (metis distinct_map inj_onD)

lemma links_ok_token:
  "links_ok rows \<Longrightarrow> l \<in> set rows \<Longrightarrow> r \<in> set rows \<Longrightarrow> l_token_hash l = l_token_hash r \<Longrightarrow> l = r"
  unfolding links_ok_def by (metis distinct_map inj_onD)

lemma links_ok_row: "links_ok rows \<Longrightarrow> l \<in> set rows \<Longrightarrow> link_ok l"
  unfolding links_ok_def by blast

lemma links_ok_session:
  "links_ok rows \<Longrightarrow> l \<in> set rows \<Longrightarrow> r \<in> set rows \<Longrightarrow> l_session_hash l = Some s
    \<Longrightarrow> l_session_hash r = Some s \<Longrightarrow> l_id l = l_id r"
  unfolding links_ok_def by blast

text \<open>Updates that leave the identity and session columns alone.\<close>

lemma links_ok_update:
  assumes "links_ok rows"
    and "\<And>l. l_id (f l) = l_id l \<and> l_token_hash (f l) = l_token_hash l \<and> l_session_hash (f l) = l_session_hash l
           \<and> link_ok (f l) = link_ok l"
  shows "links_ok (update_where p f rows)"
proof -
  have origin: "\<exists>r \<in> set rows. l_id l = l_id r \<and> l_session_hash l = l_session_hash r \<and> link_ok l = link_ok r"
    if "l \<in> set (update_where p f rows)" for l
    using that assms(2) by (auto simp: set_update_where)
  have "map l_id (update_where p f rows) = map l_id rows"
    "map l_token_hash (update_where p f rows) = map l_token_hash rows"
    by (simp_all add: map_update_where assms(2))
  then show ?thesis using assms(1) origin unfolding links_ok_def by metis
qed

lemma links_ok_consume:
  assumes "links_ok rows" "l \<in> set rows" "l_consumed_at l = None" "until \<le> l_expires_at l"
    and "\<not> session_taken x (l_id l) rows"
  shows "links_ok (update_where (\<lambda>r. l_id r = l_id l \<and> l_consumed_at r = None) (opened x now until used) rows)"
proof -
  let ?p = "\<lambda>r. l_id r = l_id l \<and> l_consumed_at r = None"
  let ?rows = "update_where ?p (opened x now until used) rows"
  have origin: "\<exists>r \<in> set rows. l_id k = l_id r \<and> (if r = l then k = opened x now until used l else k = r)"
    if "k \<in> set ?rows" for k
  proof -
    from that obtain r where r: "r \<in> set rows" "k = (if ?p r then opened x now until used r else r)"
      by (auto simp: set_update_where)
    have "?p r \<longleftrightarrow> r = l" using links_ok_id [OF assms(1) r(1) assms(2)] assms(3) by auto
    with r show ?thesis by auto
  qed
  have "distinct (map l_id rows)" "distinct (map l_token_hash rows)"
    using assms(1) unfolding links_ok_def by blast+
  then have "distinct (map l_id ?rows)" "distinct (map l_token_hash ?rows)"
    by (simp_all add: map_update_where)
  moreover have "link_ok k" if "k \<in> set ?rows" for k
  proof -
    from origin [OF that] obtain r where "r \<in> set rows" "if r = l then k = opened x now until used l else k = r"
      by blast
    moreover have "link_ok (opened x now until used l)" using assms(4) by (simp add: link_ok_def)
    moreover have "link_ok q" if "q \<in> set rows" for q using assms(1) that by (simp add: links_ok_row)
    ultimately show ?thesis by metis
  qed
  moreover have "l_id k = l_id k'"
    if k: "k \<in> set ?rows" "k' \<in> set ?rows" "l_session_hash k = Some s" "l_session_hash k' = Some s" for k k' s
  proof -
    from origin [OF k(1)] obtain r where r: "r \<in> set rows" "l_id k = l_id r"
      "if r = l then k = opened x now until used l else k = r" by blast
    from origin [OF k(2)] obtain r' where r': "r' \<in> set rows" "l_id k' = l_id r'"
      "if r' = l then k' = opened x now until used l else k' = r'" by blast
    have away: "l_session_hash q \<noteq> Some x" if q: "q \<in> set rows" "q \<noteq> l" for q
    proof -
      have "l_id q \<noteq> l_id l" using links_ok_id [OF assms(1) q(1) assms(2)] q(2) by blast
      then show ?thesis using assms(5) q(1) unfolding session_taken_def by blast
    qed
    show ?thesis
    proof (cases "r = l \<or> r' = l")
      case True
      then show ?thesis
        using r r' k(3,4) away [OF r(1)] away [OF r'(1)]
        by (cases "r = l"; cases "r' = l") auto
    next
      case False
      then have "k = r" "k' = r'" using r(3) r'(3) by simp_all
      then show ?thesis using links_ok_session [OF assms(1) r(1) r'(1)] k(3,4) by simp
    qed
  qed
  ultimately show ?thesis unfolding links_ok_def by blast
qed

lemma links_ok_subset:
  "links_ok rows \<Longrightarrow> distinct (map l_id rows') \<Longrightarrow> distinct (map l_token_hash rows')
    \<Longrightarrow> (\<And>l. l \<in> set rows' \<Longrightarrow> l \<in> set rows) \<Longrightarrow> links_ok rows'"
  unfolding links_ok_def by blast

lemma effect_links_ok: "link_effect m s rows rows' \<Longrightarrow> links_ok rows \<Longrightarrow> links_ok rows'"
proof (induction rule: link_effect.induct)
  case (mint l i vm h scopes bound now expires rows s)
  have new: "l_id l = i" "l_token_hash l = h" "l_session_hash l = None" "link_ok l"
    by (simp_all add: mint(1) new_link_def link_ok_def)
  show ?case
    unfolding links_ok_def
  proof (intro conjI ballI allI impI)
    have "distinct (map l_id rows)" "distinct (map l_token_hash rows)"
      using mint(3) unfolding links_ok_def by blast+
    then show "distinct (map l_id (rows @ [l]))" "distinct (map l_token_hash (rows @ [l]))"
      using mint(2) by (auto simp: new(1,2))
    show "link_ok k" if "k \<in> set (rows @ [l])" for k
      using that new(4) links_ok_row [OF mint(3)] by auto
    show "l_id k = l_id r" if "k \<in> set (rows @ [l])" "r \<in> set (rows @ [l])"
      "l_session_hash k = Some x" "l_session_hash r = Some x" for k r x
      using that new(3) by (intro links_ok_session [OF mint(3) _ _ that(3,4)]) auto
  qed
next
  case (consume l rows until x m now used)
  then show ?case by (intro links_ok_consume)
next
  case (touch m s rows p now)
  then show ?case by (intro links_ok_update) (simp_all add: link_ok_def)
next
  case (revoke m s rows p now)
  then show ?case by (intro links_ok_update) (simp_all add: link_ok_def)
next
  case (remove m s rows p)
  from remove have d: "distinct (map l_id rows)" "distinct (map l_token_hash rows)"
    unfolding links_ok_def by blast+
  show ?case
    by (rule links_ok_subset [OF remove map_delete_where_distinct [OF d(1)] map_delete_where_distinct [OF d(2)]])
      (simp add: set_delete_where)
qed simp_all

text \<open>Rows of an updated table are rows of the old one, changed or not.\<close>

lemma ball_update:
  "(\<forall>l \<in> set (update_where p f rows). P l) \<longleftrightarrow> (\<forall>l \<in> set rows. if p l then P (f l) else P l)"
  by (auto simp: update_where_def)

lemma spent_update:
  assumes "spent h rows" "\<And>l. l_token_hash (f l) = l_token_hash l"
    "\<And>l. l_consumed_at l \<noteq> None \<Longrightarrow> l_consumed_at (f l) \<noteq> None"
  shows "spent h (update_where p f rows)"
  unfolding spent_def ball_update
proof
  fix l assume "l \<in> set rows"
  with assms(1) have "l_token_hash l = h \<longrightarrow> l_consumed_at l \<noteq> None" by (simp add: spent_def)
  with assms(2,3) [of l] show "if p l then l_token_hash (f l) = h \<longrightarrow> l_consumed_at (f l) \<noteq> None
      else l_token_hash l = h \<longrightarrow> l_consumed_at l \<noteq> None" by simp
qed

lemma closed_update:
  assumes "closed_session x rows"
    "\<And>l. l_session_hash (f l) = Some x \<Longrightarrow> l_session_hash l = Some x \<and> l_revoked_at l \<noteq> None
       \<Longrightarrow> l_revoked_at (f l) \<noteq> None"
    "\<And>l. l_session_hash (f l) = Some x \<Longrightarrow> l_session_hash l = Some x"
  shows "closed_session x (update_where p f rows)"
  unfolding closed_session_def ball_update
proof
  fix l assume "l \<in> set rows"
  with assms(1) have "l_session_hash l = Some x \<longrightarrow> l_revoked_at l \<noteq> None" by (simp add: closed_session_def)
  with assms(2,3) [of l] show "if p l then l_session_hash (f l) = Some x \<longrightarrow> l_revoked_at (f l) \<noteq> None
      else l_session_hash l = Some x \<longrightarrow> l_revoked_at l \<noteq> None" by simp
qed

lemma effect_spent: "link_effect m s rows rows' \<Longrightarrow> spent h rows \<Longrightarrow> m \<noteq> Some h \<Longrightarrow> spent h rows'"
proof (induction rule: link_effect.induct)
  case (mint l i vm g scopes bound now expires rows s)
  then show ?case by (simp add: spent_def new_link_def)
next
  case (remove m s rows p)
  then show ?case by (simp add: spent_def set_delete_where)
qed (simp_all add: spent_update)

lemma effect_closed:
  "link_effect m s rows rows' \<Longrightarrow> closed_session x rows \<Longrightarrow> s \<noteq> Some x \<Longrightarrow> closed_session x rows'"
proof (induction rule: link_effect.induct)
  case (mint l i vm g scopes bound now expires rows s)
  then show ?case by (simp add: closed_session_def new_link_def)
next
  case (remove m s rows p)
  then show ?case by (simp add: closed_session_def set_delete_where)
qed (simp, (rule closed_update; simp)+)

lemma spent_not_redeemable: "spent h rows \<Longrightarrow> select_one (redeemable h now) rows = None"
  by (auto simp: spent_def redeemable_def select_one_None)

lemma closed_not_live: "closed_session s rows \<Longrightarrow> select_one (live_session s now source) rows = None"
  by (auto simp: closed_session_def live_session_def select_one_None)

section \<open>Tables of links over histories\<close>

locale link_table =
  fixes rows :: "'s \<Rightarrow> link_row list"
    and step :: "'s \<Rightarrow> 'a \<Rightarrow> 'e + 's"
    and mints :: "'a \<Rightarrow> string option"
    and opens :: "'a \<Rightarrow> string option"
  assumes step_effect: "step d r = Inr t \<Longrightarrow> link_effect (mints r) (opens r) (rows d) (rows t)"

sublocale link_table \<subseteq> ok: guarded_machine step "\<lambda>d. links_ok (rows d)" "\<lambda>_. True"
  by unfold_locales (blast intro: effect_links_ok dest: step_effect)

sublocale link_table \<subseteq> used: guarded_machine step "\<lambda>d. spent h (rows d)" "\<lambda>r. mints r \<noteq> Some h" for h
  by unfold_locales (blast intro: effect_spent dest: step_effect)

sublocale link_table \<subseteq> shut: guarded_machine step "\<lambda>d. closed_session s (rows d)" "\<lambda>r. opens r \<noteq> Some s" for s
  by unfold_locales (blast intro: effect_closed dest: step_effect)

context link_table
begin

lemma never_redeemed_again:
  "spent h (rows d) \<Longrightarrow> \<forall>r \<in> set rs. mints r \<noteq> Some h
    \<Longrightarrow> select_one (redeemable h now) (rows (run_all step d rs)) = None"
  by (rule spent_not_redeemable) (rule used.run_all_inv)

lemma never_live_again:
  "closed_session s (rows d) \<Longrightarrow> \<forall>r \<in> set rs. opens r \<noteq> Some s
    \<Longrightarrow> select_one (live_session s now source) (rows (run_all step d rs)) = None"
  by (rule closed_not_live) (rule shut.run_all_inv)

lemma always_ok: "links_ok (rows d) \<Longrightarrow> links_ok (rows (run_all step d rs))"
  by (rule ok.run_all_inv) simp_all

end

section \<open>The operations as effects\<close>

lemma open_sessions:
  "open_customer_session s now until = opened s now until (Some now)"
  "open_vnc_session s now until = opened s now until None"
  by (auto simp: open_customer_session_def open_vnc_session_def opened_def)

lemma exchange_customer_Inr:
  assumes "exchange_customer_link h s source now n d = Inr (t, x)"
  shows "(t = d \<and> x = None) \<or> (\<exists>l src. canonical_optional_ip source None = Inr src
    \<and> select_one (redeemable h now) (customer_links d) = Some l \<and> \<not> bound_elsewhere l src
    \<and> \<not> session_taken s (l_id l) (customer_links d)
    \<and> t = d\<lparr>customer_links := update_where (\<lambda>r. l_id r = l_id l \<and> l_consumed_at r = None)
          (opened s now (min (l_expires_at l) (sat_add now (int (min n 3600)))) (Some now)) (customer_links d)\<rparr>
    \<and> x = query_customer_token t (l_id l))"
proof -
  from assms obtain src where src: "canonical_optional_ip source None = Inr src" and n: "n \<noteq> 0"
    by (auto simp: exchange_customer_link_def result_simps)
  note e = assms [unfolded exchange_customer_link_def src and_then_simps Let_def open_sessions]
  show ?thesis
  proof (cases "select_one (redeemable h now) (customer_links d)")
    case None
    with e n show ?thesis by (simp add: require_def)
  next
    case (Some l)
    show ?thesis
    proof (cases "t = d \<and> x = None")
      case False
      with e n Some have "\<not> bound_elsewhere l src" "\<not> session_taken s (l_id l) (customer_links d)"
        "t = d\<lparr>customer_links := update_where (\<lambda>r. l_id r = l_id l \<and> l_consumed_at r = None)
          (opened s now (min (l_expires_at l) (sat_add now (int (min n 3600)))) (Some now)) (customer_links d)\<rparr>"
        "x = query_customer_token t (l_id l)"
        by (simp_all add: require_def split: if_split_asm) (elim conjE; simp)
      with src Some show ?thesis by blast
    qed simp
  qed
qed

lemma exchange_vnc_Inr:
  assumes "exchange_vnc_link h s source now d = Inr (t, x)"
  shows "(t = d \<and> x = None) \<or> (\<exists>l src. canonical_optional_ip source None = Inr src
    \<and> select_one (redeemable h now) (vnc_links d) = Some l \<and> \<not> bound_elsewhere l src
    \<and> \<not> session_taken s (l_id l) (vnc_links d)
    \<and> t = d\<lparr>vnc_links := update_where (\<lambda>r. l_id r = l_id l \<and> l_consumed_at r = None)
          (opened s now (l_expires_at l) None) (vnc_links d)\<rparr>
    \<and> x = query_vnc_token t (l_id l))"
proof -
  from assms obtain src where src: "canonical_optional_ip source None = Inr src"
    by (auto simp: exchange_vnc_link_def result_simps)
  note e = assms [unfolded exchange_vnc_link_def src and_then_simps Let_def open_sessions]
  show ?thesis
  proof (cases "select_one (redeemable h now) (vnc_links d)")
    case None
    with e show ?thesis by simp
  next
    case (Some l)
    show ?thesis
    proof (cases "t = d \<and> x = None")
      case False
      with e Some have "\<not> bound_elsewhere l src" "\<not> session_taken s (l_id l) (vnc_links d)"
        "t = d\<lparr>vnc_links := update_where (\<lambda>r. l_id r = l_id l \<and> l_consumed_at r = None)
          (opened s now (l_expires_at l) None) (vnc_links d)\<rparr>"
        "x = query_vnc_token t (l_id l)"
        by (simp_all split: if_split_asm) (elim conjE; simp)
      with src Some show ?thesis by blast
    qed simp
  qed
qed

lemma redeemed:
  "select_one (redeemable h now) rows = Some l \<Longrightarrow> l \<in> set rows \<and> l_token_hash l = h
    \<and> l_consumed_at l = None \<and> l_revoked_at l = None \<and> now < l_expires_at l"
  by (auto simp: redeemable_def dest!: select_one_Some)

lemma create_customer_Inr:
  assumes "create_customer_link i now vm h sc b e d = Inr (t, x)"
  shows "\<exists>bound. t = d\<lparr>customer_links := customer_links d @ [new_link i vm h sc bound now e]\<rparr>
    \<and> (\<forall>r \<in> set (customer_links d). l_id r \<noteq> i \<and> l_token_hash r \<noteq> h)"
proof -
  from assms obtain bound where b: "canonical_optional_ip b None = Inr bound"
    by (auto simp: create_customer_link_def result_simps)
  have new: "l_id (new_link i vm h sc bound now e) = i" "l_token_hash (new_link i vm h sc bound now e) = h"
    by (simp_all add: new_link_def)
  from assms have "t = d\<lparr>customer_links := customer_links d @ [new_link i vm h sc bound now e]\<rparr>"
    "\<forall>r \<in> set (customer_links d). l_id r \<noteq> i \<and> l_token_hash r \<noteq> h"
    by (simp_all add: create_customer_link_def link_constraints_def b new result_simps Let_def)
  then show ?thesis by blast
qed

lemma create_vnc_Inr:
  assumes "create_vnc_link i vm h b now d = Inr (t, x)"
  shows "\<exists>bound. t = d\<lparr>vnc_links := vnc_links d @ [new_link i vm h [] bound now (now + 600)]\<rparr>
    \<and> (\<forall>r \<in> set (vnc_links d). l_id r \<noteq> i \<and> l_token_hash r \<noteq> h)"
proof -
  from assms obtain bound where b: "canonical_optional_ip b None = Inr bound"
    by (auto simp: create_vnc_link_def result_simps)
  have new: "l_id (new_link i vm h [] bound now (now + 600)) = i"
    "l_token_hash (new_link i vm h [] bound now (now + 600)) = h"
    by (simp_all add: new_link_def)
  from assms have "t = d\<lparr>vnc_links := vnc_links d @ [new_link i vm h [] bound now (now + 600)]\<rparr>"
    "\<forall>r \<in> set (vnc_links d). l_id r \<noteq> i \<and> l_token_hash r \<noteq> h"
    by (simp_all add: create_vnc_link_def link_constraints_def b new result_simps Let_def)
  then show ?thesis by blast
qed

lemma visit_Inr:
  assumes "authenticate_customer_session s source now d = Inr (t, x)"
  shows "vnc_links t = vnc_links d \<and> (customer_links t = customer_links d
    \<or> customer_links t = update_where (\<lambda>l. l_session_hash l = Some s) (\<lambda>l. l\<lparr>l_last_used_at := Some now\<rparr>) (customer_links d))"
  using assms by (auto simp: authenticate_customer_session_def result_simps split: option.splits)

lemma delete_vm_links:
  assumes "delete_vm v now d = Inr (t, u)"
  shows "\<exists>i. customer_links t = delete_where (\<lambda>l. l_vm l \<in> {i}) (customer_links d)
    \<and> vnc_links t = delete_where (\<lambda>l. l_vm l \<in> {i}) (vnc_links d)"
proof -
  from assms obtain vm where "query_vm d v = Some vm" by (auto simp: delete_vm_def result_simps)
  with assms show ?thesis
    by (intro exI [of _ "v_id vm"]) (auto simp: delete_vm_def delete_vm_rows_def result_simps Let_def)
qed

lemma customer_effect:
  assumes "link_step d r = Inr t"
  shows "link_effect (mints_customer r) (opens_customer r) (customer_links d) (customer_links t)"
proof (cases r)
  case (CreateCustomer i now vm h sc b e)
  with assms show ?thesis
    by (auto simp: result_db_Inr dest!: create_customer_Inr intro: link_effect.mint)
next
  case (ExchangeCustomer h s src now n)
  with assms obtain x where "exchange_customer_link h s src now n d = Inr (t, x)"
    by (auto simp: result_db_Inr)
  from exchange_customer_Inr [OF this] show ?thesis
    by (elim disjE exE conjE)
      (simp_all add: ExchangeCustomer link_effect.quiet redeemed link_effect.consume)
next
  case (VisitCustomer s src now)
  with assms show ?thesis
    by (auto simp: result_db_Inr dest!: visit_Inr intro: link_effect.touch link_effect.quiet)
next
  case (CreateVnc i vm h b now)
  with assms show ?thesis by (auto simp: result_db_Inr dest!: create_vnc_Inr intro: link_effect.quiet)
next
  case (ExchangeVnc h s src now)
  with assms show ?thesis by (auto simp: result_db_Inr dest!: exchange_vnc_Inr intro: link_effect.quiet)
next
  case (DropVm v now)
  with assms show ?thesis
    by (auto simp: result_db_Inr dest!: delete_vm_links intro: link_effect.remove)
qed (use assms in \<open>auto simp: result_db_Inr result_simps revoke_customer_token_for_vm_def
    revoke_customer_session_def revoke_vm_vnc_tokens_def revoke_vnc_session_def prune_expired_tokens_def Let_def
    intro: link_effect.revoke link_effect.remove link_effect.quiet\<close>)

lemma vnc_effect:
  assumes "link_step d r = Inr t"
  shows "link_effect (mints_vnc r) (opens_vnc r) (vnc_links d) (vnc_links t)"
proof (cases r)
  case (CreateVnc i vm h b now)
  with assms show ?thesis by (auto simp: result_db_Inr dest!: create_vnc_Inr intro: link_effect.mint)
next
  case (ExchangeVnc h s src now)
  with assms obtain x where "exchange_vnc_link h s src now d = Inr (t, x)"
    by (auto simp: result_db_Inr)
  from exchange_vnc_Inr [OF this] show ?thesis
    by (elim disjE exE conjE)
      (simp_all add: ExchangeVnc link_effect.quiet redeemed link_effect.consume)
next
  case (VisitCustomer s src now)
  with assms show ?thesis by (auto simp: result_db_Inr dest!: visit_Inr intro: link_effect.quiet)
next
  case (CreateCustomer i now vm h sc b e)
  with assms show ?thesis by (auto simp: result_db_Inr dest!: create_customer_Inr intro: link_effect.quiet)
next
  case (ExchangeCustomer h s src now n)
  with assms show ?thesis by (auto simp: result_db_Inr dest!: exchange_customer_Inr intro: link_effect.quiet)
next
  case (DropVm v now)
  with assms show ?thesis
    by (auto simp: result_db_Inr dest!: delete_vm_links intro: link_effect.remove)
qed (use assms in \<open>auto simp: result_db_Inr result_simps revoke_customer_token_for_vm_def
    revoke_customer_session_def revoke_vm_vnc_tokens_def revoke_vnc_session_def prune_expired_tokens_def Let_def
    intro: link_effect.revoke link_effect.remove link_effect.quiet\<close>)

interpretation customer: link_table customer_links link_step mints_customer opens_customer
  by unfold_locales (rule customer_effect)

interpretation vnc: link_table vnc_links link_step mints_vnc opens_vnc
  by unfold_locales (rule vnc_effect)

section \<open>The promises\<close>

lemma spent_after_consume:
  assumes "links_ok rows" "l \<in> set rows" "l_token_hash l = h" "l_consumed_at l = None"
  shows "spent h (update_where (\<lambda>r. l_id r = l_id l \<and> l_consumed_at r = None) (opened s now until used) rows)"
  unfolding spent_def ball_update
proof
  fix r assume r: "r \<in> set rows"
  have "r = l" if "l_token_hash r = h" using links_ok_token [OF assms(1) r assms(2)] that assms(3) by simp
  with assms(4) show "if l_id r = l_id l \<and> l_consumed_at r = None
      then l_token_hash (opened s now until used r) = h \<longrightarrow> l_consumed_at (opened s now until used r) \<noteq> None
      else l_token_hash r = h \<longrightarrow> l_consumed_at r \<noteq> None" by auto
qed

text \<open>
  C21. A customer link opens once: after a link was exchanged for a session, every later exchange
  of the same link, with whatever session, address and time, opens nothing, over all histories
  of requests on links that do not issue the same token again.
\<close>

theorem customer_link_opens_once:
  assumes "links_ok (customer_links d)" "exchange_customer_link h s src now n d = Inr (d1, Some l)"
    and "\<forall>r \<in> set rs. mints_customer r \<noteq> Some h"
    and "exchange_customer_link h s' src' now' n' (run_all link_step d1 rs) = Inr (t, x)"
  shows "x = None"
proof -
  from exchange_customer_Inr [OF assms(2)] obtain k where
    k: "select_one (redeemable h now) (customer_links d) = Some k"
    and d1: "d1 = d\<lparr>customer_links := update_where (\<lambda>r. l_id r = l_id k \<and> l_consumed_at r = None)
          (opened s now (min (l_expires_at k) (sat_add now (int (min n 3600)))) (Some now)) (customer_links d)\<rparr>"
    by blast
  have "spent h (customer_links d1)"
    using spent_after_consume [OF assms(1)] redeemed [OF k] by (simp add: d1)
  from customer.never_redeemed_again [OF this assms(3)] exchange_customer_Inr [OF assms(4)]
  show ?thesis by auto
qed

text \<open>
  A console link opens once, in the same sense.
\<close>

theorem vnc_link_opens_once:
  assumes "links_ok (vnc_links d)" "exchange_vnc_link h s src now d = Inr (d1, Some l)"
    and "\<forall>r \<in> set rs. mints_vnc r \<noteq> Some h"
    and "exchange_vnc_link h s' src' now' (run_all link_step d1 rs) = Inr (t, x)"
  shows "x = None"
proof -
  from exchange_vnc_Inr [OF assms(2)] obtain k where
    k: "select_one (redeemable h now) (vnc_links d) = Some k"
    and d1: "d1 = d\<lparr>vnc_links := update_where (\<lambda>r. l_id r = l_id k \<and> l_consumed_at r = None)
          (opened s now (l_expires_at k) None) (vnc_links d)\<rparr>"
    by blast
  have "spent h (vnc_links d1)"
    using spent_after_consume [OF assms(1)] redeemed [OF k] by (simp add: d1)
  from vnc.never_redeemed_again [OF this assms(3)] exchange_vnc_Inr [OF assms(4)]
  show ?thesis by auto
qed

text \<open>The row an authentication returns.\<close>

lemma authenticated:
  "authenticate_customer_session s src now d = Inr (t, Some l) \<Longrightarrow>
     \<exists>ip. canonical_optional_ip src None = Inr ip \<and> select_one (live_session s now ip) (customer_links d) = Some l"
  "authenticate_vnc_session s src now d = Inr (Some l) \<Longrightarrow>
     \<exists>ip. canonical_optional_ip src None = Inr ip \<and> select_one (live_session s now ip) (vnc_links d) = Some l"
  by (auto simp: authenticate_customer_session_def authenticate_vnc_session_def result_simps
      split: option.splits)

lemma live_link:
  assumes "links_ok rows" "select_one (live_session s now ip) rows = Some l"
  shows "l_session_hash l = Some s \<and> l_consumed_at l \<noteq> None \<and> l_revoked_at l = None
    \<and> now < l_expires_at l \<and> (l_bound_ip l = None \<or> l_bound_ip l = ip)"
proof -
  have l: "l \<in> set rows" "live_session s now ip l" using select_one_Some [OF assms(2)] by auto
  then obtain e where "l_session_expires_at l = Some e" "now < e"
    by (auto simp: live_session_def split: option.splits)
  moreover have "link_ok l" by (rule links_ok_row [OF assms(1) l(1)])
  ultimately show ?thesis using l(2) by (auto simp: link_ok_def live_session_def)
qed

text \<open>
  A session lives only within its link: over all histories from empty tables, a session that
  is accepted, of the customer portal or of a console, belongs to a consumed, unrevoked link
  that has not expired, and is used from the address the link is bound to, when it is.
\<close>

theorem sessions_live_within_links:
  assumes "customer_links d = []" "vnc_links d = []"
  shows "(authenticate_customer_session s src now (run_all link_step d rs) = Inr (t, Some l) \<longrightarrow>
      l_session_hash l = Some s \<and> l_consumed_at l \<noteq> None \<and> l_revoked_at l = None \<and> now < l_expires_at l
      \<and> (l_bound_ip l = None \<or> canonical_optional_ip src None = Inr (l_bound_ip l)))
    \<and> (authenticate_vnc_session s src now (run_all link_step d rs) = Inr (Some k) \<longrightarrow>
      l_session_hash k = Some s \<and> l_consumed_at k \<noteq> None \<and> l_revoked_at k = None \<and> now < l_expires_at k
      \<and> (l_bound_ip k = None \<or> canonical_optional_ip src None = Inr (l_bound_ip k)))"
proof -
  have e: "links_ok []" by (simp add: links_ok_def)
  have ok: "links_ok (customer_links (run_all link_step d rs))" "links_ok (vnc_links (run_all link_step d rs))"
    using customer.always_ok [of d] vnc.always_ok [of d] assms e by simp_all
  show ?thesis
    by (intro conjI impI; drule authenticated; elim exE conjE)
      (auto dest: live_link [OF ok(1)] live_link [OF ok(2)])
qed

text \<open>
  A session that was ended stays ended: after the holder of a session hash logs out, the
  session is never accepted again, in either table, over all histories that do not open a new
  session with the same hash.
\<close>

theorem ended_sessions_stay_ended:
  assumes "revoke_customer_session s now d = Inr (d1, n)" "revoke_vnc_session s now d1 = Inr (d2, m)"
    and "\<forall>r \<in> set rs. opens_customer r \<noteq> Some s \<and> opens_vnc r \<noteq> Some s"
  shows "\<not> (\<exists>t l. authenticate_customer_session s src now' (run_all link_step d2 rs) = Inr (t, Some l))
    \<and> \<not> (\<exists>l. authenticate_vnc_session s src now' (run_all link_step d2 rs) = Inr (Some l))"
proof -
  have "closed_session s (update_where (\<lambda>l. l_session_hash l = Some s \<and> l_revoked_at l = None) (revoke_link now) rows)"
    for rows
    unfolding closed_session_def ball_update by simp
  then have "closed_session s (customer_links d2)" "closed_session s (vnc_links d2)"
    using assms(1,2) by (auto simp: revoke_customer_session_def revoke_vnc_session_def Let_def)
  then have "select_one (live_session s now' ip) (customer_links (run_all link_step d2 rs)) = None"
    "select_one (live_session s now' ip) (vnc_links (run_all link_step d2 rs)) = None" for ip
    using assms(3) by (auto intro: customer.never_live_again vnc.never_live_again)
  then show ?thesis by (auto dest!: authenticated)
qed

text \<open>Reading the row an exchange wrote.\<close>

lemma select_opened:
  assumes "links_ok rows" "l \<in> set rows" "l_consumed_at l = None" "\<not> session_taken x (l_id l) rows"
    and "\<And>r. r \<in> set rows \<Longrightarrow> q (if r = l then opened x now until used l else r) = (r = l)"
  shows "select_one q (update_where (\<lambda>r. l_id r = l_id l \<and> l_consumed_at r = None)
      (opened x now until used) rows) = Some (opened x now until used l)"
proof (rule select_one_unique)
  let ?rows = "update_where (\<lambda>r. l_id r = l_id l \<and> l_consumed_at r = None) (opened x now until used) rows"
  show "opened x now until used l \<in> set ?rows" using assms(2,3) by (auto simp: set_update_where)
  show "q (opened x now until used l)" using assms(5) [OF assms(2)] by simp
  fix k assume k: "k \<in> set ?rows" "q k"
  then obtain r where r: "r \<in> set rows"
    "k = (if l_id r = l_id l \<and> l_consumed_at r = None then opened x now until used r else r)"
    by (auto simp: set_update_where)
  have "l_id r = l_id l \<longleftrightarrow> r = l" using links_ok_id [OF assms(1) r(1) assms(2)] by auto
  with r(2) assms(3) have "k = (if r = l then opened x now until used l else r)" by auto
  with assms(5) [OF r(1)] k(2) show "k = opened x now until used l" by auto
qed

text \<open>
  An exchanged customer link gives a session that works for its time: the exchange returns
  the link's row with the session's end, the earlier of the link's expiry and the requested
  time capped at an hour; and from then on the session hash is accepted from the same address
  exactly before that end.
\<close>

theorem customer_session_lasts_its_time:
  assumes "links_ok (customer_links d)" "exchange_customer_link h s src now n d = Inr (t, Some l)"
  shows "l_token_hash l = h \<and> now < l_expires_at l
    \<and> l_session_expires_at l = Some (min (l_expires_at l) (sat_add now (int (min n 3600))))
    \<and> (\<exists>u x. authenticate_customer_session s src now' t = Inr (u, x)
        \<and> x = (if now' < min (l_expires_at l) (sat_add now (int (min n 3600))) then Some l else None))"
proof -
  from exchange_customer_Inr [OF assms(2)] obtain k ip where
    ip: "canonical_optional_ip src None = Inr ip" and bound: "\<not> bound_elsewhere k ip"
    and k: "select_one (redeemable h now) (customer_links d) = Some k"
    and free: "\<not> session_taken s (l_id k) (customer_links d)"
    and t: "t = d\<lparr>customer_links := update_where (\<lambda>r. l_id r = l_id k \<and> l_consumed_at r = None)
          (opened s now (min (l_expires_at k) (sat_add now (int (min n 3600)))) (Some now)) (customer_links d)\<rparr>"
    and q: "Some l = query_customer_token t (l_id k)"
    by blast
  let ?until = "min (l_expires_at k) (sat_add now (int (min n 3600)))"
  let ?l = "opened s now ?until (Some now) k"
  note r = redeemed [OF k]
  have k_in: "k \<in> set (customer_links d)" and fresh: "l_consumed_at k = None" using r by auto
  have same: "(l_id a = l_id k) = (a = k)" if "a \<in> set (customer_links d)" for a
    using links_ok_id [OF assms(1) that k_in] by auto
  have l: "l = ?l"
    using q select_opened [OF assms(1) k_in fresh free, of "\<lambda>a. l_id a = l_id k"] same
    by (simp add: query_customer_token_def t)
  have other: "\<not> live_session s now' ip a" if "a \<in> set (customer_links d)" "a \<noteq> k" for a
    using that free same [OF that(1)] by (auto simp: live_session_def session_taken_def)
  have "l_bound_ip ?l = l_bound_ip k" "l_revoked_at ?l = None" using r by (simp_all add: opened_def)
  then have live: "live_session s now' ip ?l \<longleftrightarrow> now' < ?until"
    using bound by (auto simp: live_session_def bound_elsewhere_def)
  have "\<exists>u x. authenticate_customer_session s src now' t = Inr (u, x) \<and> x = (if now' < ?until then Some l else None)"
  proof (cases "now' < ?until")
    case True
    then have "select_one (live_session s now' ip) (customer_links t) = Some ?l"
      using select_opened [OF assms(1) k_in fresh free, of "live_session s now' ip"] live other
      by (simp add: t)
    with True show ?thesis by (simp add: authenticate_customer_session_def ip l)
  next
    case False
    have "select_one (live_session s now' ip) (customer_links t) = None"
      unfolding select_one_None
    proof
      fix b assume "b \<in> set (customer_links t)"
      then obtain a where a: "a \<in> set (customer_links d)"
        "b = (if l_id a = l_id k \<and> l_consumed_at a = None then opened s now ?until (Some now) a else a)"
        by (auto simp: t set_update_where)
      show "\<not> live_session s now' ip b"
        using a same [OF a(1)] fresh other [OF a(1)] live False by (cases "a = k") auto
    qed
    with False show ?thesis by (simp add: authenticate_customer_session_def ip)
  qed
  with r show ?thesis unfolding l by simp
qed

section \<open>A concrete history\<close>

definition demo_links :: db where
  "demo_links = \<lparr>vms = [sample_vm ''v1'' ''n''],
     jobs = [], snapshots = [], tools = [], ips = [], pools = [], blacklist = [], traffic = [],
     customer_links = [new_link ''c1'' ''v1'' ''H'' [] None 0 1000],
     vnc_links = [new_link ''w1'' ''v1'' ''K'' [] None 0 600]\<rparr>"

lemma demo_links_ok: "links_ok (customer_links demo_links)" "links_ok (vnc_links demo_links)"
  by (simp_all add: demo_links_def links_ok_def link_ok_def new_link_def)

lemma demo_exchange:
  "\<exists>d1 l. exchange_customer_link ''H'' ''S'' None 10 60 demo_links = Inr (d1, Some l)"
  "\<exists>d1 l. exchange_vnc_link ''K'' ''S'' None 10 demo_links = Inr (d1, Some l)"
  by (simp_all add: exchange_customer_link_def exchange_vnc_link_def canonical_optional_ip_def demo_links_def
      redeemable_def new_link_def bound_elsewhere_def session_taken_def query_customer_token_def
      query_vnc_token_def open_customer_session_def open_vnc_session_def Let_def)

lemma customer_link_opens_once_witness:
  "\<exists>d1. \<not> (\<exists>t l. exchange_customer_link ''H'' ''T'' None 20 60
      (run_all link_step d1 [VisitCustomer ''S'' None 12]) = Inr (t, Some l))"
proof -
  from demo_exchange(1) obtain d1 l where
    "exchange_customer_link ''H'' ''S'' None 10 60 demo_links = Inr (d1, Some l)" by blast
  from customer_link_opens_once [OF demo_links_ok(1) this, of "[VisitCustomer ''S'' None 12]" "''T''" None 20 60]
  show ?thesis by fastforce
qed

lemma vnc_link_opens_once_witness:
  "\<exists>d1. \<not> (\<exists>t l. exchange_vnc_link ''K'' ''T'' None 20
      (run_all link_step d1 [PruneLinks 12]) = Inr (t, Some l))"
proof -
  from demo_exchange(2) obtain d1 l where
    "exchange_vnc_link ''K'' ''S'' None 10 demo_links = Inr (d1, Some l)" by blast
  from vnc_link_opens_once [OF demo_links_ok(2) this, of "[PruneLinks 12]" "''T''" None 20]
  show ?thesis by fastforce
qed

definition demo_visit :: "link_request list" where
  "demo_visit = [CreateCustomer ''c1'' 0 ''v1'' ''H'' [] None 1000, ExchangeCustomer ''H'' ''S'' None 10 60]"

lemma sessions_live_within_links_witness:
  "\<exists>t l. authenticate_customer_session ''S'' None 20
      (run_all link_step (demo_links\<lparr>customer_links := [], vnc_links := []\<rparr>) demo_visit) = Inr (t, Some l)
    \<and> l_consumed_at l \<noteq> None \<and> 20 < l_expires_at l"
proof -
  let ?d = "demo_links\<lparr>customer_links := [], vnc_links := []\<rparr>"
  have "case authenticate_customer_session ''S'' None 20 (run_all link_step ?d demo_visit) of
      Inl e \<Rightarrow> False | Inr p \<Rightarrow> snd p \<noteq> None" by code_simp
  then obtain t l where l: "authenticate_customer_session ''S'' None 20 (run_all link_step ?d demo_visit) = Inr (t, Some l)"
    by (auto split: sum.splits simp del: run_all_simps)
  moreover have "l_consumed_at l \<noteq> None \<and> 20 < l_expires_at l"
    using sessions_live_within_links [of ?d "''S''" None 20 demo_visit t l] l by simp
  ultimately show ?thesis by blast
qed

lemma ended_sessions_stay_ended_witness:
  "\<exists>d1. \<not> (\<exists>t l. authenticate_customer_session ''S'' None 30 (run_all link_step d1 [PruneLinks 12]) = Inr (t, Some l))"
proof -
  let ?d = "run_all link_step demo_links [ExchangeCustomer ''H'' ''S'' None 10 60]"
  obtain d1 n d2 m where "revoke_customer_session ''S'' 11 ?d = Inr (d1, n)" "revoke_vnc_session ''S'' 11 d1 = Inr (d2, m)"
    by (simp add: revoke_customer_session_def revoke_vnc_session_def Let_def del: run_all_simps)
  from ended_sessions_stay_ended [OF this, of "[PruneLinks 12]" None 30] show ?thesis by auto
qed

lemma customer_session_lasts_its_time_witness:
  "\<exists>t l u. exchange_customer_link ''H'' ''S'' None 10 60 demo_links = Inr (t, Some l)
    \<and> authenticate_customer_session ''S'' None 69 t = Inr (u, Some l)
    \<and> l_session_expires_at l = Some 70"
proof -
  from demo_exchange(1) obtain t l where
    e: "exchange_customer_link ''H'' ''S'' None 10 60 demo_links = Inr (t, Some l)" by blast
  have "case exchange_customer_link ''H'' ''S'' None 10 60 demo_links of
      Inr (t, Some l) \<Rightarrow> l_expires_at l = 1000 | _ \<Rightarrow> False" by code_simp
  with e have "l_expires_at l = 1000" by simp
  moreover have "sat_add 10 60 = 70" by (simp add: sat_add_def i64_min_def i64_max_def)
  ultimately show ?thesis
    using customer_session_lasts_its_time [OF demo_links_ok(1) e, of 69] e by auto
qed

end
