(* ===== verification/Admin_Db.thy ===== *)
theory Admin_Db
  imports Ip_Inventory
begin

text \<open>
  Administrators, their browser sessions and API keys (\<open>src/db.rs\<close>, from \<open>bootstrap_admin\<close> to
  \<open>revoke_api_key\<close>). These three tables are independent of the rest of the database and are
  the record \<open>auth_db\<close>. Tokens appear as the hashes the routes pass.
\<close>

datatype admin_role = SuperAdmin | Admin | ReadOnly

record admin_row =
  d_id :: string
  d_username :: string
  d_password_hash :: string
  d_role :: admin_role
  d_enabled :: bool
  d_created_at :: timestamp
  d_updated_at :: timestamp
  d_last_login_at :: "timestamp option"

record session_row =
  n_token_hash :: string
  n_csrf_hash :: string
  n_admin :: string
  n_source_ip :: "string option"
  n_user_agent :: "string option"
  n_created_at :: timestamp
  n_expires_at :: timestamp
  n_last_seen_at :: timestamp

record key_row =
  k_id :: string
  k_name :: string
  k_token_hash :: string
  k_prefix :: string
  k_permissions :: "string list"
  k_allowlist :: "string list"
  k_created_by :: "string option"
  k_created_at :: timestamp
  k_expires_at :: "timestamp option"
  k_last_used_at :: "timestamp option"
  k_revoked_at :: "timestamp option"

record auth_db =
  admins :: "admin_row list"
  sessions :: "session_row list"
  api_keys :: "key_row list"

type_synonym 'a auth_transaction = "app_error + (auth_db \<times> 'a)"

section \<open>Administrators\<close>

definition query_admin :: "auth_db \<Rightarrow> string \<Rightarrow> admin_row option" where
  "query_admin d i = select_one (\<lambda>a. d_id a = i) (admins d)"

text \<open>The UNIQUE constraints of \<open>admins\<close>: id, and username without case.\<close>

definition admin_unique :: "string \<Rightarrow> string \<Rightarrow> admin_row list \<Rightarrow> bool" where
  "admin_unique i name rows \<longleftrightarrow>
     (\<forall>a \<in> set rows. d_id a \<noteq> i \<and> ascii_lower (d_username a) \<noteq> ascii_lower name)"

definition new_admin :: "string \<Rightarrow> timestamp \<Rightarrow> string \<Rightarrow> string \<Rightarrow> admin_role \<Rightarrow> admin_row" where
  "new_admin i now username hash role = \<lparr>d_id = i, d_username = trim username,
     d_password_hash = hash, d_role = role, d_enabled = True, d_created_at = now,
     d_updated_at = now, d_last_login_at = None\<rparr>"

definition bootstrap_admin ::
  "string \<Rightarrow> timestamp \<Rightarrow> string \<Rightarrow> string \<Rightarrow> auth_db \<Rightarrow> admin_row auth_transaction" where
  "bootstrap_admin i now username hash d =
     and_then (validate_non_empty ''username'' username) (\<lambda>_.
     and_then (validate_non_empty ''password hash'' hash) (\<lambda>_.
     case select_least d_created_at (admins d) of
       Some a \<Rightarrow> Inr (d, a)
     | None \<Rightarrow>
         let a = new_admin i now username hash SuperAdmin
         in Inr (d\<lparr>admins := admins d @ [a]\<rparr>, a)))"

definition create_admin ::
  "string \<Rightarrow> timestamp \<Rightarrow> string \<Rightarrow> string \<Rightarrow> admin_role \<Rightarrow> auth_db \<Rightarrow> admin_row auth_transaction" where
  "create_admin i now username hash role d =
     and_then (validate_non_empty ''username'' username) (\<lambda>_.
     and_then (validate_non_empty ''password hash'' hash) (\<lambda>_.
     and_then (require (admin_unique i (trim username) (admins d)) unique_error) (\<lambda>_.
     let d1 = d\<lparr>admins := admins d @ [new_admin i now username hash role]\<rparr> in
     and_then (ok_or (query_admin d1 i) (NotFound ''admin'')) (\<lambda>a. Inr (d1, a)))))"

definition admin_auth_by_username :: "auth_db \<Rightarrow> string \<Rightarrow> admin_row option" where
  "admin_auth_by_username d username =
     select_one (\<lambda>a. ascii_lower (d_username a) = ascii_lower username) (admins d)"

text \<open>An \<open>UPDATE\<close> of the rows of one id that must have changed one.\<close>

definition update_admin :: "string \<Rightarrow> (admin_row \<Rightarrow> admin_row) \<Rightarrow> auth_db \<Rightarrow> unit auth_transaction" where
  "update_admin i f d =
     and_then (require_changed (count_where (\<lambda>a. d_id a = i) (admins d)) ''admin'') (\<lambda>_.
     Inr (d\<lparr>admins := update_where (\<lambda>a. d_id a = i) f (admins d)\<rparr>, ()))"

definition update_admin_credentials ::
  "string \<Rightarrow> string option \<Rightarrow> string option \<Rightarrow> timestamp \<Rightarrow> auth_db \<Rightarrow> unit auth_transaction" where
  "update_admin_credentials i username hash now d =
     (if username = None \<and> hash = None then Inr (d, ())
      else
     and_then (case username of None \<Rightarrow> Inr () | Some u \<Rightarrow> validate_non_empty ''username'' u) (\<lambda>_.
     and_then (case hash of None \<Rightarrow> Inr () | Some h \<Rightarrow> validate_non_empty ''password hash'' h) (\<lambda>_.
     and_then (require (case username of None \<Rightarrow> True | Some u \<Rightarrow>
         \<forall>a \<in> set (admins d). d_id a = i \<or> query_admin d i = None
           \<or> ascii_lower (d_username a) \<noteq> ascii_lower (trim u)) unique_error) (\<lambda>_.
     update_admin i (\<lambda>a. a\<lparr>
       d_username := (case username of None \<Rightarrow> d_username a | Some u \<Rightarrow> trim u),
       d_password_hash := (case hash of None \<Rightarrow> d_password_hash a | Some h \<Rightarrow> h),
       d_updated_at := now\<rparr>) d))))"

definition set_admin_enabled :: "string \<Rightarrow> bool \<Rightarrow> timestamp \<Rightarrow> auth_db \<Rightarrow> unit auth_transaction" where
  "set_admin_enabled i enabled now d =
     update_admin i (\<lambda>a. a\<lparr>d_enabled := enabled, d_updated_at := now\<rparr>) d"

definition super_admin :: "admin_row \<Rightarrow> bool" where
  "super_admin a \<longleftrightarrow> d_role a = SuperAdmin \<and> d_enabled a"

definition other_super_admins :: "string \<Rightarrow> auth_db \<Rightarrow> nat" where
  "other_super_admins i d = count_where (\<lambda>a. super_admin a \<and> d_id a \<noteq> i) (admins d)"

definition update_admin_access ::
  "string \<Rightarrow> admin_role option \<Rightarrow> bool option \<Rightarrow> timestamp \<Rightarrow> auth_db \<Rightarrow> admin_row auth_transaction" where
  "update_admin_access i role enabled now d =
     and_then (ok_or (query_admin d i) (NotFound ''admin'')) (\<lambda>current.
     let next_role = (case role of Some r \<Rightarrow> r | None \<Rightarrow> d_role current);
         next_enabled = (case enabled of Some e \<Rightarrow> e | None \<Rightarrow> d_enabled current) in
     and_then (require (\<not> (super_admin current \<and> (next_role \<noteq> SuperAdmin \<or> \<not> next_enabled)
         \<and> other_super_admins i d = 0))
       (Conflict ''at least one enabled super administrator is required'')) (\<lambda>_.
     let d1 = d\<lparr>admins := update_where (\<lambda>a. d_id a = i)
           (\<lambda>a. a\<lparr>d_role := next_role, d_enabled := next_enabled, d_updated_at := now\<rparr>) (admins d)\<rparr> in
     and_then (ok_or (query_admin d1 i) (NotFound ''admin'')) (\<lambda>a. Inr (d1, a))))"

text \<open>
  \<open>delete_admin\<close>: \<open>ON DELETE CASCADE\<close> removes the sessions and \<open>ON DELETE SET NULL\<close> clears the
  author of API keys.
\<close>

definition delete_admin :: "string \<Rightarrow> auth_db \<Rightarrow> unit auth_transaction" where
  "delete_admin i d =
     and_then (ok_or (query_admin d i) (NotFound ''admin'')) (\<lambda>current.
     and_then (require (\<not> (super_admin current \<and> other_super_admins i d = 0))
       (Conflict ''the last enabled super administrator cannot be deleted'')) (\<lambda>_.
     and_then (require_changed (count_where (\<lambda>a. d_id a = i) (admins d)) ''admin'') (\<lambda>_.
     Inr (d\<lparr>admins := delete_where (\<lambda>a. d_id a = i) (admins d),
            sessions := delete_where (\<lambda>n. n_admin n = i) (sessions d),
            api_keys := update_where (\<lambda>k. k_created_by k = Some i) (\<lambda>k. k\<lparr>k_created_by := None\<rparr>)
              (api_keys d)\<rparr>, ()))))"

definition record_admin_login :: "string \<Rightarrow> timestamp \<Rightarrow> auth_db \<Rightarrow> unit auth_transaction" where
  "record_admin_login i time d =
     update_admin i (\<lambda>a. a\<lparr>d_last_login_at := Some time, d_updated_at := time\<rparr>) d"

section \<open>Browser sessions\<close>

definition create_admin_session ::
  "string \<Rightarrow> string \<Rightarrow> string \<Rightarrow> timestamp \<Rightarrow> string option \<Rightarrow> string option \<Rightarrow> timestamp
    \<Rightarrow> auth_db \<Rightarrow> unit auth_transaction" where
  "create_admin_session admin token csrf expires source agent now d =
     and_then (require (now < expires) (Validation ''session expiry must be in the future'')) (\<lambda>_.
     and_then (require (\<forall>n \<in> set (sessions d). n_token_hash n \<noteq> token \<and> n_csrf_hash n \<noteq> csrf)
       unique_error) (\<lambda>_.
     and_then (require (query_admin d admin \<noteq> None) foreign_key_error) (\<lambda>_.
     Inr (d\<lparr>sessions := sessions d @ [\<lparr>n_token_hash = token, n_csrf_hash = csrf, n_admin = admin,
       n_source_ip = source, n_user_agent = agent, n_created_at = now, n_expires_at = expires,
       n_last_seen_at = now\<rparr>]\<rparr>, ()))))"

text \<open>The session joined with its enabled administrator, as read before the update.\<close>

definition live_admin_session :: "string \<Rightarrow> timestamp \<Rightarrow> auth_db \<Rightarrow> (session_row \<times> admin_row) option" where
  "live_admin_session token now d =
     (case select_one (\<lambda>n. n_token_hash n = token \<and> now < n_expires_at n
             \<and> (\<exists>a \<in> set (admins d). d_id a = n_admin n \<and> d_enabled a)) (sessions d) of
        None \<Rightarrow> None
      | Some n \<Rightarrow> map_option (\<lambda>a. (n, a)) (select_one (\<lambda>a. d_id a = n_admin n \<and> d_enabled a) (admins d)))"

definition authenticate_admin_session ::
  "string \<Rightarrow> timestamp \<Rightarrow> auth_db \<Rightarrow> (session_row \<times> admin_row) option auth_transaction" where
  "authenticate_admin_session token now d =
     (case live_admin_session token now d of
        None \<Rightarrow> Inr (d, None)
      | Some na \<Rightarrow> Inr (d\<lparr>sessions := update_where (\<lambda>n. n_token_hash n = token)
            (\<lambda>n. n\<lparr>n_last_seen_at := now\<rparr>) (sessions d)\<rparr>, Some na))"

definition verify_admin_session_csrf :: "string \<Rightarrow> string \<Rightarrow> timestamp \<Rightarrow> auth_db \<Rightarrow> bool" where
  "verify_admin_session_csrf token csrf now d \<longleftrightarrow>
     (\<exists>n \<in> set (sessions d). \<exists>a \<in> set (admins d). d_id a = n_admin n \<and> n_token_hash n = token
        \<and> n_csrf_hash n = csrf \<and> now < n_expires_at n \<and> d_enabled a)"

definition revoke_admin_session :: "string \<Rightarrow> auth_db \<Rightarrow> bool auth_transaction" where
  "revoke_admin_session token d =
     Inr (d\<lparr>sessions := delete_where (\<lambda>n. n_token_hash n = token) (sessions d)\<rparr>,
       0 < count_where (\<lambda>n. n_token_hash n = token) (sessions d))"

definition revoke_admin_sessions :: "string \<Rightarrow> auth_db \<Rightarrow> nat auth_transaction" where
  "revoke_admin_sessions admin d =
     Inr (d\<lparr>sessions := delete_where (\<lambda>n. n_admin n = admin) (sessions d)\<rparr>,
       count_where (\<lambda>n. n_admin n = admin) (sessions d))"

definition prune_expired_sessions :: "timestamp \<Rightarrow> auth_db \<Rightarrow> nat auth_transaction" where
  "prune_expired_sessions now d =
     Inr (d\<lparr>sessions := delete_where (\<lambda>n. n_expires_at n \<le> now) (sessions d)\<rparr>,
       count_where (\<lambda>n. n_expires_at n \<le> now) (sessions d))"

section \<open>API keys\<close>

definition query_api_key :: "auth_db \<Rightarrow> string \<Rightarrow> key_row option" where
  "query_api_key d i = select_one (\<lambda>k. k_id k = i) (api_keys d)"

text \<open>The allowlist in canonical text, without repetition.\<close>

fun normalize_allowlist ::
  "'n ipnet_lib \<Rightarrow> string list \<Rightarrow> string list \<Rightarrow> app_error + string list" where
  "normalize_allowlist lib seen [] = Inr seen"
| "normalize_allowlist lib seen (cidr # rest) =
     and_then (ok_or (net_parse lib (trim cidr))
       (Validation (''invalid API key CIDR: '' @ cidr))) (\<lambda>network.
     let canonical = net_show lib network in
     normalize_allowlist lib (if canonical \<in> set seen then seen else seen @ [canonical]) rest)"

definition create_api_key ::
  "'n ipnet_lib \<Rightarrow> string \<Rightarrow> timestamp \<Rightarrow> string \<Rightarrow> string \<Rightarrow> string \<Rightarrow> string list \<Rightarrow> string list
    \<Rightarrow> string option \<Rightarrow> timestamp option \<Rightarrow> auth_db \<Rightarrow> key_row auth_transaction" where
  "create_api_key lib i now name token prefix permissions allowlist created_by expires d =
     and_then (validate_non_empty ''API key name'' name) (\<lambda>_.
     and_then (require (case expires of None \<Rightarrow> True | Some e \<Rightarrow> now < e)
       (Validation ''API key expiry must be in the future'')) (\<lambda>_.
     and_then (normalize_allowlist lib [] allowlist) (\<lambda>nets.
     and_then (require (\<forall>k \<in> set (api_keys d). k_id k \<noteq> i \<and> k_token_hash k \<noteq> token) unique_error) (\<lambda>_.
     and_then (require (case created_by of None \<Rightarrow> True | Some a \<Rightarrow> query_admin d a \<noteq> None)
       foreign_key_error) (\<lambda>_.
     let d1 = d\<lparr>api_keys := api_keys d @ [\<lparr>k_id = i, k_name = trim name, k_token_hash = token,
           k_prefix = prefix, k_permissions = permissions, k_allowlist = nets,
           k_created_by = created_by, k_created_at = now, k_expires_at = expires,
           k_last_used_at = None, k_revoked_at = None\<rparr>]\<rparr> in
     and_then (ok_or (query_api_key d1 i) (NotFound ''API key'')) (\<lambda>k. Inr (d1, k)))))))"

definition live_api_key :: "string \<Rightarrow> timestamp \<Rightarrow> key_row \<Rightarrow> bool" where
  "live_api_key token now k \<longleftrightarrow> k_token_hash k = token \<and> k_revoked_at k = None
     \<and> (case k_expires_at k of None \<Rightarrow> True | Some e \<Rightarrow> now < e)"

definition authenticate_api_key :: "string \<Rightarrow> timestamp \<Rightarrow> auth_db \<Rightarrow> key_row option auth_transaction" where
  "authenticate_api_key token now d =
     (case select_one (live_api_key token now) (api_keys d) of
        None \<Rightarrow> Inr (d, None)
      | Some k \<Rightarrow> Inr (d\<lparr>api_keys := update_where (\<lambda>k. k_token_hash k = token)
            (\<lambda>k. k\<lparr>k_last_used_at := Some now\<rparr>) (api_keys d)\<rparr>, Some k))"

definition revoke_api_key :: "string \<Rightarrow> timestamp \<Rightarrow> auth_db \<Rightarrow> unit auth_transaction" where
  "revoke_api_key i now d =
     and_then (require_changed (count_where (\<lambda>k. k_id k = i) (api_keys d)) ''API key'') (\<lambda>_.
     Inr (d\<lparr>api_keys := update_where (\<lambda>k. k_id k = i)
       (\<lambda>k. k\<lparr>k_revoked_at := (case k_revoked_at k of None \<Rightarrow> Some now | Some r \<Rightarrow> Some r)\<rparr>)
       (api_keys d)\<rparr>, ()))"

end
