(* ===== verification/Api_Guard.thy ===== *)
theory Api_Guard
  imports Admin_Db Secret_Envelope Rate_Limit "HOL-Library.Char_ord" "HOL-Library.List_Lexorder"
begin

text \<open>
  Authentication of HTTP requests (\<open>src/routes/auth.rs\<close>) and the handlers that change
  administrators and API keys (\<open>src/routes/api.rs\<close>). A request is its method, its header
  lookup (the value of a header when it is present and readable as text) and the address of
  its peer. Argon2 and the encoding of header values are the record \<open>auth_lib\<close>; tokens are
  made from random text by \<open>issue_token\<close>; settings and clock readings are arguments. The
  audit log, whose write failures the source ignores, is not modelled.
\<close>

record auth_lib =
  phc_hash :: "string \<Rightarrow> string \<Rightarrow> string option"
  phc_check :: "string \<Rightarrow> string \<Rightarrow> bool option"
  header_value_ok :: "string \<Rightarrow> bool"

definition hash_password :: "auth_lib \<Rightarrow> string \<Rightarrow> string \<Rightarrow> app_error + string" where
  "hash_password lib salt password =
     and_then (validate_admin_password password) (\<lambda>_.
     ok_or (phc_hash lib salt password) (crypto_error ''could not hash password''))"

definition verify_password :: "auth_lib \<Rightarrow> string \<Rightarrow> string \<Rightarrow> app_error + bool" where
  "verify_password lib password encoded =
     (if 4096 < length password \<or> 4096 < length encoded then Inr False
      else ok_or (phc_check lib password encoded) (crypto_error ''stored password hash is malformed''))"

record http_request =
  hr_method :: string
  hr_header :: "string \<Rightarrow> string option"
  hr_peer :: "ip_addr option"

record auth_context =
  ac_type :: string
  ac_id :: string
  ac_admin :: "admin_row option"
  ac_permissions :: "string list"
  ac_session :: "string option"

definition allows :: "auth_context \<Rightarrow> string \<Rightarrow> bool" where
  "allows ctx permission \<longleftrightarrow> (\<exists>item \<in> set (ac_permissions ctx). item = ''*'' \<or> item = permission)"

definition require_permission :: "auth_context \<Rightarrow> string \<Rightarrow> app_error + unit" where
  "require_permission ctx permission = (if allows ctx permission then Inr () else Inl Forbidden)"

text \<open>\<open>u64::clamp\<close> and \<open>i64::clamp\<close>.\<close>

definition clamp :: "'a::linorder \<Rightarrow> 'a \<Rightarrow> 'a \<Rightarrow> 'a" where
  "clamp lo hi x = (if x < lo then lo else if hi < x then hi else x)"

section \<open>Reading a request\<close>

text \<open>Forwarded addresses count only when the peer is the local proxy.\<close>

definition forwarded_ip :: "(string \<Rightarrow> string option) \<Rightarrow> ip_addr option" where
  "forwarded_ip header =
     (case (case header ''x-real-ip'' of
              Some v \<Rightarrow> Some v
            | None \<Rightarrow> map_option (\<lambda>v. hd (split_on (CHR '','') v)) (header ''x-forwarded-for'')) of
        None \<Rightarrow> None
      | Some v \<Rightarrow> parse_ip (trim v))"

definition client_ip :: "http_request \<Rightarrow> string option" where
  "client_ip r =
     (case hr_peer r of
        None \<Rightarrow> None
      | Some peer \<Rightarrow>
          (case (if ip_is_loopback peer then forwarded_ip (hr_header r) else None) of
             Some a \<Rightarrow> Some (show_ip a)
           | None \<Rightarrow> Some (show_ip peer)))"

fun find_cookie :: "string \<Rightarrow> string list \<Rightarrow> string option" where
  "find_cookie name [] = None"
| "find_cookie name (item # items) =
     (case split_once (CHR ''='') (trim item) of
        Some (key, v) \<Rightarrow> if key = name then Some v else find_cookie name items
      | None \<Rightarrow> find_cookie name items)"

definition cookie :: "http_request \<Rightarrow> string \<Rightarrow> string option" where
  "cookie r name =
     (case hr_header r ''cookie'' of
        None \<Rightarrow> None
      | Some v \<Rightarrow> find_cookie name (split_on (CHR '';'') v))"

definition cookie_value :: "string \<Rightarrow> string \<Rightarrow> int \<Rightarrow> bool \<Rightarrow> bool \<Rightarrow> string" where
  "cookie_value name v max_age http_only secure =
     name @ ''='' @ v @ ''; Path=/; Max-Age='' @ show_dec max_age @ ''; SameSite=Strict''
     @ (if http_only then ''; HttpOnly'' else '''') @ (if secure then ''; Secure'' else '''')"

definition append_cookie :: "auth_lib \<Rightarrow> string \<Rightarrow> string list \<Rightarrow> app_error + string list" where
  "append_cookie lib v cookies =
     (if header_value_ok lib v then Inr (cookies @ [v])
      else Inl (Internal ''could not encode response cookie''))"

definition bearer_token :: "http_request \<Rightarrow> string option" where
  "bearer_token r =
     (case hr_header r ''authorization'' of
        None \<Rightarrow> None
      | Some v \<Rightarrow>
          if starts_with v ''Bearer '' \<and> drop 7 v \<noteq> [] then Some (drop 7 v) else None)"

definition is_mutating :: "string \<Rightarrow> bool" where
  "is_mutating m \<longleftrightarrow> m \<notin> {''GET'', ''HEAD'', ''OPTIONS''}"

definition session_cookie :: string where
  "session_cookie = ''vexa_session''"

definition csrf_cookie :: string where
  "csrf_cookie = ''vexa_csrf''"

section \<open>Who is asking\<close>

fun permissions_for_role :: "admin_role \<Rightarrow> string list" where
  "permissions_for_role SuperAdmin = [''*'']"
| "permissions_for_role Admin =
     [''host:read'', ''vms:read'', ''vms:write'', ''vms:power'', ''vms:reinstall'',
      ''vms:password:read'', ''vms:password:write'', ''vms:vnc'', ''network:read'',
      ''network:write'', ''isos:read'', ''isos:write'', ''settings:read'', ''settings:write'',
      ''admins:read'', ''api_keys:read'', ''api_keys:write'', ''audit:read'', ''updates:read'',
      ''updates:write'', ''jobs:read'', ''jobs:write'']"
| "permissions_for_role ReadOnly =
     [''host:read'', ''vms:read'', ''network:read'', ''isos:read'', ''settings:read'',
      ''admins:read'', ''api_keys:read'', ''audit:read'', ''updates:read'', ''jobs:read'']"

definition admin_context :: "string \<Rightarrow> admin_row \<Rightarrow> auth_context" where
  "admin_context hash a = \<lparr>ac_type = ''admin'', ac_id = d_id a, ac_admin = Some a,
     ac_permissions = permissions_for_role (d_role a), ac_session = Some hash\<rparr>"

definition key_context :: "key_row \<Rightarrow> auth_context" where
  "key_context k = \<lparr>ac_type = ''api_key'', ac_id = k_id k, ac_admin = None,
     ac_permissions = k_permissions k, ac_session = None\<rparr>"

definition session_context ::
  "seal_lib \<Rightarrow> http_request \<Rightarrow> timestamp \<Rightarrow> auth_db \<Rightarrow> auth_context option auth_transaction" where
  "session_context seal r now d =
     (case cookie r session_cookie of
        None \<Rightarrow> Inr (d, None)
      | Some token \<Rightarrow>
          let hash = hash_token seal token in
          and_then (authenticate_admin_session hash now d) (\<lambda>(d1, found).
            Inr (d1, map_option (\<lambda>(_, a). admin_context hash a) found)))"

definition admin_page_guard ::
  "seal_lib \<Rightarrow> http_request \<Rightarrow> timestamp \<Rightarrow> auth_db \<Rightarrow> auth_db \<times> auth_context option" where
  "admin_page_guard seal r now d =
     (case session_context seal r now d of Inl _ \<Rightarrow> (d, None) | Inr result \<Rightarrow> result)"

definition source_allowed :: "'n ipnet_lib \<Rightarrow> string option \<Rightarrow> key_row \<Rightarrow> bool" where
  "source_allowed lib source k \<longleftrightarrow>
     k_allowlist k = []
     \<or> (case source of
          None \<Rightarrow> False
        | Some v \<Rightarrow>
            (case parse_ip v of
               None \<Rightarrow> False
             | Some address \<Rightarrow> \<exists>cidr \<in> set (k_allowlist k).
                 (case net_parse lib cidr of None \<Rightarrow> False | Some n \<Rightarrow> net_contains lib n address)))"

definition authenticate_api_request ::
  "'n ipnet_lib \<Rightarrow> seal_lib \<Rightarrow> http_request \<Rightarrow> string option \<Rightarrow> timestamp \<Rightarrow> auth_db
    \<Rightarrow> auth_context option auth_transaction" where
  "authenticate_api_request lib seal r source now d =
     (case bearer_token r of
        Some token \<Rightarrow>
          and_then (authenticate_api_key (hash_token seal token) now d) (\<lambda>(d1, found).
            Inr (d1, case found of
                 None \<Rightarrow> None
               | Some k \<Rightarrow> if source_allowed lib source k then Some (key_context k) else None))
      | None \<Rightarrow> session_context seal r now d)"

section \<open>The guards\<close>

record security_settings =
  sec_api_limit :: "nat option"
  sec_login_limit :: "nat option"
  sec_session_minutes :: "nat option"

record auth_panel =
  panel_auth :: auth_db
  panel_buckets :: buckets

definition or_unknown :: "string option \<Rightarrow> string" where
  "or_unknown source = (case source of None \<Rightarrow> ''unknown'' | Some v \<Rightarrow> v)"

definition api_rate_key :: "auth_context \<Rightarrow> string option \<Rightarrow> string" where
  "api_rate_key ctx source = ac_type ctx @ '':'' @ ac_id ctx @ '':'' @ or_unknown source"

definition limited :: "string \<Rightarrow> string \<Rightarrow> nat \<Rightarrow> int \<Rightarrow> timestamp \<Rightarrow> auth_panel
    \<Rightarrow> auth_panel \<times> (app_error + unit)" where
  "limited namespace key limit w now p =
     (let (m, r) = rate_check namespace key limit w now (panel_buckets p)
      in (p\<lparr>panel_buckets := m\<rparr>, r))"

text \<open>A browser session needs its CSRF token for a request that changes something.\<close>

definition csrf_ok :: "seal_lib \<Rightarrow> http_request \<Rightarrow> auth_context \<Rightarrow> timestamp \<Rightarrow> auth_db \<Rightarrow> bool" where
  "csrf_ok seal r ctx now d \<longleftrightarrow>
     (case (is_mutating (hr_method r), ac_session ctx) of
        (True, Some session) \<Rightarrow>
          (case hr_header r ''x-csrf-token'' of
             None \<Rightarrow> False
           | Some csrf \<Rightarrow> verify_admin_session_csrf session (hash_token seal csrf) now d)
      | _ \<Rightarrow> True)"

text \<open>
  \<open>api_guard\<close>: the request is answered with an error, or handled in the context. The three
  clock readings are the arguments \<open>t1 t2 t3\<close>.
\<close>

definition api_guard ::
  "'n ipnet_lib \<Rightarrow> seal_lib \<Rightarrow> security_settings \<Rightarrow> http_request
    \<Rightarrow> timestamp \<Rightarrow> timestamp \<Rightarrow> timestamp \<Rightarrow> auth_panel
    \<Rightarrow> auth_panel \<times> (app_error + auth_context)" where
  "api_guard lib seal settings r t1 t2 t3 p =
     (let source = client_ip r in
      case authenticate_api_request lib seal r source t1 (panel_auth p) of
        Inl e \<Rightarrow> (p, Inl e)
      | Inr (d, None) \<Rightarrow> (p\<lparr>panel_auth := d\<rparr>, Inl Unauthorized)
      | Inr (d, Some ctx) \<Rightarrow>
          let limit = clamp 10 100000 (case sec_api_limit settings of Some n \<Rightarrow> n | None \<Rightarrow> 600)
          in case limited ''authenticated-api'' (api_rate_key ctx source) limit 60 t2
                    (p\<lparr>panel_auth := d\<rparr>) of
               (p1, Inl e) \<Rightarrow> (p1, Inl e)
             | (p1, Inr _) \<Rightarrow>
                 if csrf_ok seal r ctx t3 (panel_auth p1) then (p1, Inr ctx)
                 else (p1, Inl Forbidden))"

definition public_api_rate_limit ::
  "security_settings \<Rightarrow> http_request \<Rightarrow> timestamp \<Rightarrow> auth_panel \<Rightarrow> auth_panel \<times> (app_error + unit)" where
  "public_api_rate_limit settings r now p =
     (let limit = clamp 30 10000 (case sec_api_limit settings of Some n \<Rightarrow> n | None \<Rightarrow> 600)
      in limited ''public-api-ip'' (or_unknown (client_ip r)) limit 60 now p)"

section \<open>Logging in and out\<close>

record login_result =
  lr_admin :: admin_row
  lr_expires_at :: timestamp
  lr_cookies :: "string list"

definition session_seconds :: "security_settings \<Rightarrow> int" where
  "session_seconds settings =
     clamp 300 86400 (case sec_session_minutes settings of
        None \<Rightarrow> 43200
      | Some m \<Rightarrow> if int m \<le> i64_max then min i64_max (int m * 60) else 43200)"

definition login_limit :: "security_settings \<Rightarrow> nat" where
  "login_limit settings =
     clamp 1 1000 (case sec_login_limit settings of Some n \<Rightarrow> n | None \<Rightarrow> 8)"

definition account_key :: "string \<Rightarrow> string \<Rightarrow> string" where
  "account_key ip username = ip @ '':'' @ ascii_lower (trim username)"

text \<open>Both limits: four times the account's for the address, then the account's.\<close>

definition login_allowed :: "security_settings \<Rightarrow> string \<Rightarrow> string \<Rightarrow> timestamp \<Rightarrow> auth_panel
    \<Rightarrow> auth_panel \<times> (app_error + unit)" where
  "login_allowed settings ip username now p =
     (case limited ''admin-login-ip'' ip (min 4294967295 (login_limit settings * 4)) 900 now p of
        (p1, Inl e) \<Rightarrow> (p1, Inl e)
      | (p1, Inr _) \<Rightarrow>
          limited ''admin-login-account'' (account_key ip username) (login_limit settings) 900 now p1)"

definition verify_login :: "auth_lib \<Rightarrow> auth_db \<Rightarrow> string \<Rightarrow> string \<Rightarrow> app_error + admin_row" where
  "verify_login lib d username password =
     and_then (ok_or (admin_auth_by_username d (trim username)) Unauthorized) (\<lambda>a.
     if \<not> d_enabled a then Inl Unauthorized
     else and_then (verify_password lib password (d_password_hash a)) (\<lambda>valid.
       if valid then Inr a else Inl Unauthorized))"

text \<open>\<open>login\<close> commits step by step: what was written before a failure stays.\<close>

definition open_session ::
  "auth_lib \<Rightarrow> security_settings \<Rightarrow> bool \<Rightarrow> issued_token \<Rightarrow> issued_token \<Rightarrow> string option
    \<Rightarrow> string option \<Rightarrow> timestamp \<Rightarrow> timestamp \<Rightarrow> admin_row \<Rightarrow> auth_db
    \<Rightarrow> auth_db \<times> (app_error + login_result)" where
  "open_session lib settings secure session csrf source agent clock now a d =
     (let seconds = session_seconds settings; expires = now + seconds in
      case create_admin_session (d_id a) (it_hash session) (it_hash csrf) expires source agent clock d of
        Inl e \<Rightarrow> (d, Inl e)
      | Inr (d1, _) \<Rightarrow>
          (case record_admin_login (d_id a) now d1 of
             Inl e \<Rightarrow> (d1, Inl e)
           | Inr (d2, _) \<Rightarrow>
               (d2, and_then (append_cookie lib
                       (cookie_value session_cookie (it_secret session) seconds True secure) []) (\<lambda>c1.
                    and_then (append_cookie lib
                       (cookie_value csrf_cookie (it_secret csrf) seconds False secure) c1) (\<lambda>c2.
                    Inr \<lparr>lr_admin = a, lr_expires_at = expires, lr_cookies = c2\<rparr>)))))"

definition login ::
  "auth_lib \<Rightarrow> security_settings \<Rightarrow> bool \<Rightarrow> issued_token \<Rightarrow> issued_token \<Rightarrow> http_request
    \<Rightarrow> string \<Rightarrow> string \<Rightarrow> timestamp \<Rightarrow> timestamp \<Rightarrow> auth_panel \<Rightarrow> auth_panel \<times> (app_error + login_result)" where
  "login lib settings secure session csrf r username password now clock p =
     (let source = client_ip r; ip = or_unknown source in
      case login_allowed settings ip username now p of
        (p1, Inl e) \<Rightarrow> (p1, Inl e)
      | (p1, Inr _) \<Rightarrow>
          (case verify_login lib (panel_auth p1) username password of
             Inl e \<Rightarrow> (p1, Inl e)
           | Inr a \<Rightarrow>
               let p2 = p1\<lparr>panel_buckets :=
                     rate_reset ''admin-login-account'' (account_key ip username) (panel_buckets p1)\<rparr>;
                   (d, result) = open_session lib settings secure session csrf source
                     (hr_header r ''user-agent'') clock now a (panel_auth p2)
               in (p2\<lparr>panel_auth := d\<rparr>, result)))"

definition logout :: "auth_context \<Rightarrow> auth_db \<Rightarrow> unit auth_transaction" where
  "logout ctx d =
     (case ac_session ctx of
        None \<Rightarrow> Inr (d, ())
      | Some hash \<Rightarrow> and_then (revoke_admin_session hash d) (\<lambda>(d1, _). Inr (d1, ())))"

section \<open>Handlers for administrators\<close>

definition short_password :: app_error where
  "short_password = Validation ''administrator password must contain at least 12 characters''"

definition handle_create_admin ::
  "auth_lib \<Rightarrow> auth_context \<Rightarrow> string \<Rightarrow> timestamp \<Rightarrow> string \<Rightarrow> string \<Rightarrow> string \<Rightarrow> admin_role
    \<Rightarrow> auth_db \<Rightarrow> admin_row auth_transaction" where
  "handle_create_admin lib ctx i now salt username password role d =
     and_then (require_permission ctx ''admins:write'') (\<lambda>_.
     and_then (require (\<not> length password < 12) short_password) (\<lambda>_.
     and_then (hash_password lib salt password) (\<lambda>hash.
     create_admin i now username hash role d)))"

definition handle_patch_admin ::
  "auth_context \<Rightarrow> string \<Rightarrow> admin_role option \<Rightarrow> bool option \<Rightarrow> timestamp \<Rightarrow> auth_db
    \<Rightarrow> admin_row auth_transaction" where
  "handle_patch_admin ctx i role enabled now d =
     and_then (require_permission ctx ''admins:write'') (\<lambda>_.
     and_then (update_admin_access i role enabled now d) (\<lambda>(d1, a).
     if enabled = Some False
     then and_then (revoke_admin_sessions (d_id a) d1) (\<lambda>(d2, _). Inr (d2, a))
     else Inr (d1, a)))"

definition handle_admin_credentials ::
  "auth_lib \<Rightarrow> auth_context \<Rightarrow> string \<Rightarrow> string \<Rightarrow> string option \<Rightarrow> string option \<Rightarrow> timestamp
    \<Rightarrow> auth_db \<Rightarrow> unit auth_transaction" where
  "handle_admin_credentials lib ctx i salt username password now d =
     and_then (require_permission ctx ''admins:write'') (\<lambda>_.
     and_then (require (username \<noteq> None \<or> password \<noteq> None)
       (Validation ''username or password is required'')) (\<lambda>_.
     and_then (require (case password of None \<Rightarrow> True | Some w \<Rightarrow> \<not> length w < 12) short_password) (\<lambda>_.
     and_then (case password of None \<Rightarrow> Inr None
         | Some w \<Rightarrow> and_then (hash_password lib salt w) (\<lambda>h. Inr (Some h))) (\<lambda>hash.
     and_then (update_admin_credentials i username hash now d) (\<lambda>(d1, _).
     and_then (revoke_admin_sessions i d1) (\<lambda>(d2, _). Inr (d2, ())))))))"

text \<open>\<open>update_credentials\<close>: an administrator changes its own, with the current password.\<close>

definition handle_own_credentials ::
  "auth_lib \<Rightarrow> auth_context \<Rightarrow> string \<Rightarrow> string \<Rightarrow> string option \<Rightarrow> string option \<Rightarrow> timestamp
    \<Rightarrow> auth_db \<Rightarrow> unit auth_transaction" where
  "handle_own_credentials lib ctx salt current username password now d =
     and_then (ok_or (ac_admin ctx) Forbidden) (\<lambda>admin.
     and_then (ok_or (admin_auth_by_username d (d_username admin)) Unauthorized) (\<lambda>stored.
     and_then (verify_password lib current (d_password_hash stored)) (\<lambda>valid.
     and_then (require valid Unauthorized) (\<lambda>_.
     and_then (case password of None \<Rightarrow> Inr None
         | Some w \<Rightarrow> and_then (hash_password lib salt w) (\<lambda>h. Inr (Some h))) (\<lambda>hash.
     and_then (update_admin_credentials (d_id admin) username hash now d) (\<lambda>(d1, _).
     and_then (revoke_admin_sessions (d_id admin) d1) (\<lambda>(d2, _). Inr (d2, ()))))))))"

definition handle_delete_admin :: "auth_context \<Rightarrow> string \<Rightarrow> auth_db \<Rightarrow> unit auth_transaction" where
  "handle_delete_admin ctx i d =
     and_then (require_permission ctx ''admins:write'') (\<lambda>_.
     and_then (require (\<not> (case ac_admin ctx of None \<Rightarrow> False | Some a \<Rightarrow> d_id a = i))
       (Conflict ''the current administrator cannot delete itself'')) (\<lambda>_.
     delete_admin i d))"

section \<open>Handlers for API keys\<close>

definition grantable_permissions :: "string list" where
  "grantable_permissions =
     [''*'', ''host:read'', ''vms:read'', ''vms:write'', ''vms:power'', ''vms:reinstall'',
      ''vms:password:read'', ''vms:password:write'', ''vms:vnc'', ''network:read'',
      ''network:write'', ''isos:read'', ''isos:write'', ''settings:read'', ''settings:write'',
      ''admins:read'', ''admins:write'', ''api_keys:read'', ''api_keys:write'', ''audit:read'',
      ''updates:read'', ''updates:write'', ''jobs:read'', ''jobs:write'']"

text \<open>Trimmed, without empty entries, sorted and without repetition.\<close>

definition requested_permissions :: "string list \<Rightarrow> string list" where
  "requested_permissions items = remdups_adj (sort (filter (\<lambda>s. s \<noteq> []) (map trim items)))"

definition handle_create_api_key ::
  "'n ipnet_lib \<Rightarrow> auth_context \<Rightarrow> string \<Rightarrow> timestamp \<Rightarrow> issued_token \<Rightarrow> string \<Rightarrow> string list
    \<Rightarrow> string list \<Rightarrow> (app_error + timestamp option) \<Rightarrow> auth_db \<Rightarrow> key_row auth_transaction" where
  "handle_create_api_key lib ctx i now token name items allowlist expires d =
     and_then (require_permission ctx ''api_keys:write'') (\<lambda>_.
     and_then (require (items \<noteq> []) (Validation ''at least one API permission is required'')) (\<lambda>_.
     let permissions = requested_permissions items in
     and_then (require (permissions \<noteq> [] \<and> (\<forall>x \<in> set permissions. x \<in> set grantable_permissions))
       (Validation ''one or more API key permissions are unsupported'')) (\<lambda>_.
     and_then (if \<exists>x \<in> set permissions. \<not> allows ctx x then Inl Forbidden else Inr ()) (\<lambda>_.
     and_then expires (\<lambda>expires_at.
     create_api_key lib i now name (it_hash token) (it_prefix token) permissions allowlist
       (map_option d_id (ac_admin ctx)) expires_at d)))))"

definition handle_revoke_api_key :: "auth_context \<Rightarrow> string \<Rightarrow> timestamp \<Rightarrow> auth_db \<Rightarrow> unit auth_transaction" where
  "handle_revoke_api_key ctx i now d =
     and_then (require_permission ctx ''api_keys:write'') (\<lambda>_. revoke_api_key i now d)"

end
