(* ===== verification/Admin_Safety.thy ===== *)
theory Admin_Safety
  imports Api_Guard
begin

text \<open>
  What authentication promises. Every request on administrators, sessions and keys is a
  sequence of the database's operations, the relation \<open>auth_change\<close>; the invariants are
  proved once per operation and carried to whole histories of requests.
\<close>

section \<open>Requests\<close>

datatype auth_request =
    Bootstrap string timestamp string string
  | Guarded http_request timestamp timestamp timestamp
  | PageGuard http_request timestamp
  | PublicApi http_request timestamp
  | Login issued_token issued_token http_request string string timestamp timestamp
  | Logout auth_context
  | CreateAdmin auth_context string timestamp string string string admin_role
  | PatchAdmin auth_context string "admin_role option" "bool option" timestamp
  | AdminCredentials auth_context string string "string option" "string option" timestamp
  | OwnCredentials auth_context string string "string option" "string option" timestamp
  | DeleteAdmin auth_context string
  | CreateKey auth_context string timestamp issued_token string "string list" "string list"
      "app_error + timestamp option"
  | RevokeKey auth_context string timestamp
  | PruneSessions timestamp

text \<open>The libraries and settings of a running panel.\<close>

record 'n auth_env =
  env_net :: "'n ipnet_lib"
  env_auth :: auth_lib
  env_seal :: seal_lib
  env_settings :: security_settings
  env_secure :: bool

definition on_auth :: "auth_panel \<Rightarrow> 'a auth_transaction \<Rightarrow> app_error + auth_panel" where
  "on_auth p r = and_then r (\<lambda>(d, _). Inr (p\<lparr>panel_auth := d\<rparr>))"

fun auth_step :: "'n auth_env \<Rightarrow> auth_panel \<Rightarrow> auth_request \<Rightarrow> app_error + auth_panel" where
  "auth_step env p (Bootstrap i now u h) = on_auth p (bootstrap_admin i now u h (panel_auth p))"
| "auth_step env p (Guarded r t1 t2 t3) =
     Inr (fst (api_guard (env_net env) (env_seal env) (env_settings env) r t1 t2 t3 p))"
| "auth_step env p (PageGuard r now) =
     Inr (p\<lparr>panel_auth := fst (admin_page_guard (env_seal env) r now (panel_auth p))\<rparr>)"
| "auth_step env p (PublicApi r now) = Inr (fst (public_api_rate_limit (env_settings env) r now p))"
| "auth_step env p (Login session csrf r username password now clock) =
     Inr (fst (login (env_auth env) (env_settings env) (env_secure env) session csrf r
       username password now clock p))"
| "auth_step env p (Logout ctx) = on_auth p (logout ctx (panel_auth p))"
| "auth_step env p (CreateAdmin ctx i now salt username password role) =
     on_auth p (handle_create_admin (env_auth env) ctx i now salt username password role (panel_auth p))"
| "auth_step env p (PatchAdmin ctx i role enabled now) =
     on_auth p (handle_patch_admin ctx i role enabled now (panel_auth p))"
| "auth_step env p (AdminCredentials ctx i salt username password now) =
     on_auth p (handle_admin_credentials (env_auth env) ctx i salt username password now (panel_auth p))"
| "auth_step env p (OwnCredentials ctx salt current username password now) =
     on_auth p (handle_own_credentials (env_auth env) ctx salt current username password now (panel_auth p))"
| "auth_step env p (DeleteAdmin ctx i) = on_auth p (handle_delete_admin ctx i (panel_auth p))"
| "auth_step env p (CreateKey ctx i now token name items allowlist expires) =
     on_auth p (handle_create_api_key (env_net env) ctx i now token name items allowlist expires (panel_auth p))"
| "auth_step env p (RevokeKey ctx i now) = on_auth p (handle_revoke_api_key ctx i now (panel_auth p))"
| "auth_step env p (PruneSessions now) = on_auth p (prune_expired_sessions now (panel_auth p))"

section \<open>The operations behind a request\<close>

inductive auth_change :: "'n ipnet_lib \<Rightarrow> auth_db \<Rightarrow> auth_db \<Rightarrow> bool"
  for lib :: "'n ipnet_lib" where
  bootstrap: "bootstrap_admin i now u h d = Inr (d', a) \<Longrightarrow> auth_change lib d d'"
| created: "create_admin i now u h role d = Inr (d', a) \<Longrightarrow> auth_change lib d d'"
| access: "update_admin_access i role' enabled now d = Inr (d', a) \<Longrightarrow> auth_change lib d d'"
| credentials: "update_admin_credentials i u' h' now d = Inr (d', x) \<Longrightarrow> auth_change lib d d'"
| deleted: "delete_admin i d = Inr (d', x) \<Longrightarrow> auth_change lib d d'"
| logged_in: "record_admin_login i now d = Inr (d', x) \<Longrightarrow> auth_change lib d d'"
| session: "create_admin_session i tok csrf expires src agent now d = Inr (d', x) \<Longrightarrow> auth_change lib d d'"
| seen: "authenticate_admin_session tok now d = Inr (d', s) \<Longrightarrow> auth_change lib d d'"
| logged_out: "revoke_admin_session tok d = Inr (d', b) \<Longrightarrow> auth_change lib d d'"
| ended: "revoke_admin_sessions i d = Inr (d', n) \<Longrightarrow> auth_change lib d d'"
| pruned: "prune_expired_sessions now d = Inr (d', n) \<Longrightarrow> auth_change lib d d'"
| key: "create_api_key lib i now name tok prefix perms nets by until d = Inr (d', k) \<Longrightarrow> auth_change lib d d'"
| used: "authenticate_api_key tok now d = Inr (d', y) \<Longrightarrow> auth_change lib d d'"
| revoked: "revoke_api_key i now d = Inr (d', x) \<Longrightarrow> auth_change lib d d'"

lemma auth_change1: "auth_change lib d d' \<Longrightarrow> (auth_change lib)\<^sup>*\<^sup>* d d'"
  by (rule r_into_rtranclp)

lemmas single_change = auth_change.intros [THEN auth_change1]

lemma session_context_change:
  "session_context seal r now d = Inr (d', x) \<Longrightarrow> (auth_change lib)\<^sup>*\<^sup>* d d'"
  by (auto simp: session_context_def Let_def result_simps split: option.splits
      intro: auth_change1 auth_change.seen)

lemma authenticate_change:
  "authenticate_api_request lib seal r source now d = Inr (d', x) \<Longrightarrow> (auth_change lib)\<^sup>*\<^sup>* d d'"
  by (auto simp: authenticate_api_request_def result_simps split: option.splits
      intro: auth_change1 auth_change.used session_context_change)

lemma limited_auth: "panel_auth (fst (limited ns key limit w now p)) = panel_auth p"
  by (auto simp: limited_def split: prod.splits)

lemma api_guard_change:
  "(auth_change lib)\<^sup>*\<^sup>* (panel_auth p) (panel_auth (fst (api_guard lib seal settings r t1 t2 t3 p)))"
proof (cases "authenticate_api_request lib seal r (client_ip r) t1 (panel_auth p)")
  case (Inl e)
  then show ?thesis by (simp add: api_guard_def)
next
  case (Inr dx)
  obtain d x where dx: "dx = (d, x)" by (cases dx)
  have change: "(auth_change lib)\<^sup>*\<^sup>* (panel_auth p) d"
    using Inr dx by (auto intro: authenticate_change)
  show ?thesis
  proof (cases x)
    case None
    then show ?thesis using Inr dx change by (simp add: api_guard_def)
  next
    case (Some ctx)
    let ?r = "limited ''authenticated-api'' (api_rate_key ctx (client_ip r))
        (clamp 10 100000 (case sec_api_limit settings of Some n \<Rightarrow> n | None \<Rightarrow> 600)) 60 t2
        (p\<lparr>panel_auth := d\<rparr>)"
    obtain p1 y where e: "?r = (p1, y)" by (cases ?r)
    have "panel_auth (fst ?r) = panel_auth (p\<lparr>panel_auth := d\<rparr>)" by (rule limited_auth)
    then have "panel_auth p1 = d" by (simp add: e)
    with e show ?thesis using Inr dx Some change by (cases y) (simp_all add: api_guard_def)
  qed
qed

lemma page_guard_change:
  "(auth_change lib)\<^sup>*\<^sup>* d (fst (admin_page_guard seal r now d))"
  by (auto simp: admin_page_guard_def split: sum.splits intro: session_context_change)

lemma open_session_change:
  "(auth_change lib)\<^sup>*\<^sup>* d (fst (open_session al settings secure session csrf source agent clock now a d))"
proof (cases "create_admin_session (d_id a) (it_hash session) (it_hash csrf)
    (now + session_seconds settings) source agent clock d")
  case (Inl e)
  then show ?thesis by (simp add: open_session_def Let_def)
next
  case (Inr dx)
  obtain d1 x where dx: "dx = (d1, x)" by (cases dx)
  have one: "auth_change lib d d1" using Inr dx by (auto intro: auth_change.session)
  show ?thesis
  proof (cases "record_admin_login (d_id a) now d1")
    case (Inl e)
    then show ?thesis using Inr dx one by (simp add: open_session_def Let_def auth_change1)
  next
    case R: (Inr dy)
    obtain d2 y where "dy = (d2, y)" by (cases dy)
    with R have "auth_change lib d1 d2" by (auto intro: auth_change.logged_in)
    then show ?thesis using Inr dx R one \<open>dy = (d2, y)\<close>
      by (auto simp: open_session_def Let_def intro: converse_rtranclp_into_rtranclp)
  qed
qed

lemma login_allowed_auth: "panel_auth (fst (login_allowed settings ip username now p)) = panel_auth p"
proof -
  let ?r = "limited ''admin-login-ip'' ip (min 4294967295 (login_limit settings * 4)) 900 now p"
  obtain p1 x where e: "?r = (p1, x)" by (cases ?r)
  have "panel_auth (fst ?r) = panel_auth p" by (rule limited_auth)
  with e have p1: "panel_auth p1 = panel_auth p" by simp
  show ?thesis by (cases x) (simp_all add: login_allowed_def e limited_auth p1)
qed

lemma login_change:
  "(auth_change lib)\<^sup>*\<^sup>* (panel_auth p)
     (panel_auth (fst (login al settings secure session csrf r username password now clock p)))"
proof -
  let ?r = "login_allowed settings (or_unknown (client_ip r)) username now p"
  obtain p1 x where e: "?r = (p1, x)" by (cases ?r)
  have "panel_auth (fst ?r) = panel_auth p" by (rule login_allowed_auth)
  with e have p1: "panel_auth p1 = panel_auth p" by simp
  show ?thesis
  proof (cases x)
    case (Inl err)
    then show ?thesis by (simp add: login_def Let_def e p1)
  next
    case (Inr u)
    show ?thesis
    proof (cases "verify_login al (panel_auth p1) username password")
      case (Inl err)
      then show ?thesis by (simp add: login_def Let_def e p1 \<open>x = Inr u\<close>)
    next
      case (Inr a)
      let ?o = "open_session al settings secure session csrf (client_ip r) (hr_header r ''user-agent'')
        clock now a (panel_auth p)"
      obtain d result where o: "?o = (d, result)" by (cases ?o)
      have "(auth_change lib)\<^sup>*\<^sup>* (panel_auth p) (fst ?o)" by (rule open_session_change)
      then show ?thesis using Inr by (simp add: login_def Let_def e p1 \<open>x = Inr u\<close> o)
    qed
  qed
qed

lemma on_auth_Inr: "on_auth p r = Inr p' \<longleftrightarrow> (\<exists>d x. r = Inr (d, x) \<and> p' = p\<lparr>panel_auth := d\<rparr>)"
  by (auto simp: on_auth_def result_simps)

lemma two_changes:
  "auth_change lib d d1 \<Longrightarrow> auth_change lib d1 d2 \<Longrightarrow> (auth_change lib)\<^sup>*\<^sup>* d d2"
  by (meson r_into_rtranclp rtranclp.rtrancl_into_rtrancl)

lemma credentials_end:
  "update_admin_credentials i u h now d = Inr (d1, x) \<Longrightarrow> revoke_admin_sessions i d1 = Inr (d2, n)
    \<Longrightarrow> (auth_change lib)\<^sup>*\<^sup>* d d2"
  by (rule two_changes [OF auth_change.credentials auth_change.ended])

lemma access_end:
  "update_admin_access i role e now d = Inr (d1, x) \<Longrightarrow> revoke_admin_sessions j d1 = Inr (d2, n)
    \<Longrightarrow> (auth_change lib)\<^sup>*\<^sup>* d d2"
  by (rule two_changes [OF auth_change.access auth_change.ended])

lemma auth_step_change:
  assumes "auth_step env p a = Inr p'"
  shows "(auth_change (env_net env))\<^sup>*\<^sup>* (panel_auth p) (panel_auth p')"
proof (cases a)
  case (Bootstrap i now u h)
  with assms obtain d x where "bootstrap_admin i now u h (panel_auth p) = Inr (d, x)"
    "p' = p\<lparr>panel_auth := d\<rparr>" by (auto simp: on_auth_Inr)
  then show ?thesis by (simp add: auth_change1 [OF auth_change.bootstrap])
next
  case (Guarded r t1 t2 t3)
  with assms show ?thesis by (auto intro: api_guard_change)
next
  case (PageGuard r now)
  with assms show ?thesis by (auto intro: page_guard_change)
next
  case (PublicApi r now)
  with assms show ?thesis by (auto simp: public_api_rate_limit_def Let_def limited_auth)
next
  case (Login session csrf r username password now clock)
  with assms show ?thesis by (auto intro: login_change)
next
  case (Logout ctx)
  with assms show ?thesis
    by (auto simp: on_auth_Inr logout_def result_simps split: option.splits
        intro: single_change)
next
  case (CreateAdmin ctx i now salt username password role)
  with assms show ?thesis
    by (auto simp: on_auth_Inr handle_create_admin_def result_simps intro: single_change)
next
  case (PatchAdmin ctx i role enabled now)
  with assms show ?thesis
    by (auto simp: on_auth_Inr handle_patch_admin_def result_simps split: if_splits
        intro: single_change dest: access_end)
next
  case (AdminCredentials ctx i salt username password now)
  with assms show ?thesis
    by (auto simp: on_auth_Inr handle_admin_credentials_def result_simps
        dest: credentials_end)
next
  case (OwnCredentials ctx salt current username password now)
  with assms show ?thesis
    by (auto simp: on_auth_Inr handle_own_credentials_def result_simps
        dest: credentials_end)
next
  case (DeleteAdmin ctx i)
  with assms show ?thesis
    by (auto simp: on_auth_Inr handle_delete_admin_def result_simps intro: single_change)
next
  case (CreateKey ctx i now token name items allowlist expires)
  with assms show ?thesis
    by (auto simp: on_auth_Inr handle_create_api_key_def Let_def result_simps split: if_splits
        intro: single_change)
next
  case (RevokeKey ctx i now)
  with assms show ?thesis
    by (auto simp: on_auth_Inr handle_revoke_api_key_def result_simps intro: single_change)
next
  case (PruneSessions now)
  with assms show ?thesis by (auto simp: on_auth_Inr intro: single_change)
qed

section \<open>The rows stay well formed\<close>

definition admins_ok :: "admin_row list \<Rightarrow> bool" where
  "admins_ok rows \<longleftrightarrow> distinct (map d_id rows) \<and> distinct (map (ascii_lower \<circ> d_username) rows)"

definition sessions_ok :: "string set \<Rightarrow> session_row list \<Rightarrow> bool" where
  "sessions_ok ids rows \<longleftrightarrow> distinct (map n_token_hash rows) \<and> distinct (map n_csrf_hash rows)
     \<and> (\<forall>n \<in> set rows. n_admin n \<in> ids \<and> n_created_at n < n_expires_at n)"

definition keys_ok :: "string set \<Rightarrow> key_row list \<Rightarrow> bool" where
  "keys_ok ids rows \<longleftrightarrow> distinct (map k_id rows) \<and> distinct (map k_token_hash rows)
     \<and> (\<forall>k \<in> set rows. \<forall>i. k_created_by k = Some i \<longrightarrow> i \<in> ids)"

definition admin_ids :: "auth_db \<Rightarrow> string set" where
  "admin_ids d = d_id ` set (admins d)"

definition auth_ok :: "auth_db \<Rightarrow> bool" where
  "auth_ok d \<longleftrightarrow> admins_ok (admins d) \<and> sessions_ok (admin_ids d) (sessions d)
     \<and> keys_ok (admin_ids d) (api_keys d)"

lemma query_admin_ids: "query_admin d i \<noteq> None \<longleftrightarrow> i \<in> admin_ids d"
  unfolding query_admin_def select_one_None admin_ids_def by auto

lemma admins_ok_add:
  "admins_ok rows \<Longrightarrow> admin_unique (d_id a) (d_username a) rows \<Longrightarrow> admins_ok (rows @ [a])"
  by (auto simp: admins_ok_def admin_unique_def image_iff)

lemma admins_ok_keep:
  "admins_ok rows \<Longrightarrow> (\<And>a. d_id (f a) = d_id a \<and> d_username (f a) = d_username a)
    \<Longrightarrow> admins_ok (update_where p f rows)"
  by (simp add: admins_ok_def map_update_where)

lemma admins_ok_rename:
  assumes "admins_ok rows" "\<And>a. d_id (f a) = d_id a" "\<And>a. d_username (f a) = u"
    "\<forall>a \<in> set rows. d_id a = i \<or> ascii_lower (d_username a) \<noteq> ascii_lower u"
  shows "admins_ok (update_where (\<lambda>a. d_id a = i) f rows)"
  using assms unfolding admins_ok_def
  by (auto simp: map_update_where intro!: distinct_update_where [where v = "ascii_lower u"])

lemma ids_update: "(\<And>a. d_id (f a) = d_id a) \<Longrightarrow> d_id ` set (update_where p f rows) = d_id ` set rows"
  by (metis map_update_where set_map)

lemma sessions_ok_mono: "sessions_ok ids rows \<Longrightarrow> ids \<subseteq> ids' \<Longrightarrow> sessions_ok ids' rows"
  by (auto simp: sessions_ok_def)

lemma keys_ok_mono: "keys_ok ids rows \<Longrightarrow> ids \<subseteq> ids' \<Longrightarrow> keys_ok ids' rows"
  by (auto simp: keys_ok_def)

lemma sessions_ok_delete: "sessions_ok ids rows \<Longrightarrow> sessions_ok ids (delete_where p rows)"
  by (auto simp: sessions_ok_def map_delete_where_distinct set_delete_where)

lemma auth_ok_admins:
  assumes "auth_ok d" "admins_ok rows" "admin_ids d \<subseteq> d_id ` set rows"
  shows "auth_ok (d\<lparr>admins := rows\<rparr>)"
  using assms by (auto simp: auth_ok_def admin_ids_def intro: sessions_ok_mono keys_ok_mono)

lemma auth_ok_update:
  assumes "auth_ok d" "\<And>a. d_id (f a) = d_id a" "admins_ok (update_where p f (admins d))"
  shows "auth_ok (d\<lparr>admins := update_where p f (admins d)\<rparr>)"
  by (rule auth_ok_admins [OF assms(1,3)]) (simp add: admin_ids_def ids_update assms(2))

lemma auth_ok_sessions: "auth_ok d \<Longrightarrow> sessions_ok (admin_ids d) rows \<Longrightarrow> auth_ok (d\<lparr>sessions := rows\<rparr>)"
  by (simp add: auth_ok_def admin_ids_def)

lemma auth_ok_keys: "auth_ok d \<Longrightarrow> keys_ok (admin_ids d) rows \<Longrightarrow> auth_ok (d\<lparr>api_keys := rows\<rparr>)"
  by (simp add: auth_ok_def admin_ids_def)

lemma update_admin_Inr:
  "update_admin i f d = Inr (d', x) \<longleftrightarrow>
     count_where (\<lambda>a. d_id a = i) (admins d) \<noteq> 0
     \<and> d' = d\<lparr>admins := update_where (\<lambda>a. d_id a = i) f (admins d)\<rparr>"
  by (auto simp: update_admin_def require_changed_def result_simps)

lemma bootstrap_ok:
  assumes "auth_ok d" "bootstrap_admin i now u h d = Inr (d', a)"
  shows "auth_ok d'"
proof (cases "admins d")
  case Nil
  with assms show ?thesis
    by (auto simp: bootstrap_admin_def result_simps new_admin_def Let_def
        intro!: auth_ok_admins simp: admins_ok_def admin_ids_def)
next
  case (Cons b rows)
  then have "select_least d_created_at (admins d) \<noteq> None" by (simp del: select_least.simps add: select_least_None)
  with assms show ?thesis by (auto simp: bootstrap_admin_def result_simps)
qed

lemma create_ok:
  assumes "auth_ok d" "create_admin i now u h role d = Inr (d', a)"
  shows "auth_ok d'"
proof -
  from assms(2) have "admin_unique i (trim u) (admins d)"
    and d': "d' = d\<lparr>admins := admins d @ [new_admin i now u h role]\<rparr>"
    by (auto simp: create_admin_def result_simps Let_def)
  then have "admins_ok (admins d @ [new_admin i now u h role])"
    using assms(1) by (intro admins_ok_add) (simp_all add: auth_ok_def new_admin_def)
  then show ?thesis unfolding d' using assms(1) by (intro auth_ok_admins) (auto simp: admin_ids_def)
qed

lemma auth_ok_keep:
  "auth_ok d \<Longrightarrow> (\<And>a. d_id (f a) = d_id a \<and> d_username (f a) = d_username a)
    \<Longrightarrow> auth_ok (d\<lparr>admins := update_where p f (admins d)\<rparr>)"
  by (intro auth_ok_update admins_ok_keep) (simp_all add: auth_ok_def)

definition with_access :: "admin_role \<Rightarrow> bool \<Rightarrow> timestamp \<Rightarrow> admin_row \<Rightarrow> admin_row" where
  "with_access r e now a = a\<lparr>d_role := r, d_enabled := e, d_updated_at := now\<rparr>"

lemma access_Inr:
  assumes "update_admin_access i role enabled now d = Inr (d', x)"
  obtains a r e where "query_admin d i = Some a"
    "super_admin a \<Longrightarrow> r \<noteq> SuperAdmin \<or> \<not> e \<Longrightarrow> other_super_admins i d \<noteq> 0"
    "d' = d\<lparr>admins := update_where (\<lambda>a. d_id a = i) (with_access r e now) (admins d)\<rparr>"
proof -
  from assms obtain a where a: "query_admin d i = Some a"
    by (auto simp: update_admin_access_def result_simps)
  show ?thesis
    by (rule that [OF a, of "case role of Some r \<Rightarrow> r | None \<Rightarrow> d_role a"
          "case enabled of Some e \<Rightarrow> e | None \<Rightarrow> d_enabled a"])
      (use assms a in \<open>auto simp: update_admin_access_def result_simps Let_def with_access_def [abs_def]\<close>)
qed

lemma access_ok:
  assumes "auth_ok d" "update_admin_access i role enabled now d = Inr (d', a)"
  shows "auth_ok d'"
proof -
  have "auth_ok (d\<lparr>admins := update_where (\<lambda>a. d_id a = i) (with_access r e now) (admins d)\<rparr>)" for r e
    using assms(1) by (intro auth_ok_keep) (simp_all add: with_access_def)
  then show ?thesis using access_Inr [OF assms(2)] by metis
qed

lemma credentials_ok:
  assumes "auth_ok d" "update_admin_credentials i u h now d = Inr (d', x)"
  shows "auth_ok d'"
proof (cases "u = None \<and> h = None")
  case True
  with assms show ?thesis by (simp add: update_admin_credentials_def)
next
  case False
  let ?f = "\<lambda>a. a\<lparr>d_username := (case u of None \<Rightarrow> d_username a | Some u \<Rightarrow> trim u),
       d_password_hash := (case h of None \<Rightarrow> d_password_hash a | Some h \<Rightarrow> h), d_updated_at := now\<rparr>"
  from False assms(2) have d': "d' = d\<lparr>admins := update_where (\<lambda>a. d_id a = i) ?f (admins d)\<rparr>"
    and present: "count_where (\<lambda>a. d_id a = i) (admins d) \<noteq> 0"
    and free: "case u of None \<Rightarrow> True | Some u \<Rightarrow> \<forall>a \<in> set (admins d). d_id a = i \<or> query_admin d i = None
        \<or> ascii_lower (d_username a) \<noteq> ascii_lower (trim u)"
    by (auto simp: update_admin_credentials_def result_simps update_admin_Inr)
  show ?thesis
  proof (cases u)
    case None
    then show ?thesis unfolding d' using assms(1) by (intro auth_ok_keep) simp_all
  next
    case (Some w)
    have "query_admin d i \<noteq> None"
      using present unfolding query_admin_def select_one_None count_where_0 by blast
    then have "\<forall>a \<in> set (admins d). d_id a = i \<or> ascii_lower (d_username a) \<noteq> ascii_lower (trim w)"
      using free Some by auto
    then have "admins_ok (update_where (\<lambda>a. d_id a = i) ?f (admins d))"
      using assms(1) Some by (intro admins_ok_rename) (simp_all add: auth_ok_def)
    then show ?thesis unfolding d' using assms(1) by (intro auth_ok_update) simp_all
  qed
qed

lemma login_ok: "auth_ok d \<Longrightarrow> record_admin_login i now d = Inr (d', x) \<Longrightarrow> auth_ok d'"
  by (auto simp: record_admin_login_def update_admin_Inr intro!: auth_ok_keep)

lemma delete_admin_Inr:
  assumes "delete_admin i d = Inr (d', x)"
  obtains a where "query_admin d i = Some a" "super_admin a \<Longrightarrow> other_super_admins i d \<noteq> 0"
    "d' = d\<lparr>admins := delete_where (\<lambda>a. d_id a = i) (admins d),
       sessions := delete_where (\<lambda>n. n_admin n = i) (sessions d),
       api_keys := update_where (\<lambda>k. k_created_by k = Some i) (\<lambda>k. k\<lparr>k_created_by := None\<rparr>)
         (api_keys d)\<rparr>"
  using assms by (auto simp: delete_admin_def result_simps)

lemma delete_ok:
  assumes "auth_ok d" "delete_admin i d = Inr (d', x)"
  shows "auth_ok d'"
proof -
  from assms(1) have old: "admins_ok (admins d)" "sessions_ok (admin_ids d) (sessions d)"
    "keys_ok (admin_ids d) (api_keys d)" by (simp_all add: auth_ok_def)
  have ids: "d_id ` set (delete_where (\<lambda>a. d_id a = i) (admins d)) = admin_ids d - {i}"
    by (auto simp: admin_ids_def set_delete_where)
  have "admins_ok (delete_where (\<lambda>a. d_id a = i) (admins d))"
    using old(1) by (simp add: admins_ok_def map_delete_where_distinct)
  moreover have "sessions_ok (admin_ids d - {i}) (delete_where (\<lambda>n. n_admin n = i) (sessions d))"
    using old(2) by (auto simp: sessions_ok_def map_delete_where_distinct set_delete_where)
  moreover have "keys_ok (admin_ids d - {i})
      (update_where (\<lambda>k. k_created_by k = Some i) (\<lambda>k. k\<lparr>k_created_by := None\<rparr>) (api_keys d))"
    using old(3) unfolding keys_ok_def by (simp add: map_update_where) (auto simp: update_where_def)
  moreover obtain a where "d' = d\<lparr>admins := delete_where (\<lambda>a. d_id a = i) (admins d),
       sessions := delete_where (\<lambda>n. n_admin n = i) (sessions d),
       api_keys := update_where (\<lambda>k. k_created_by k = Some i) (\<lambda>k. k\<lparr>k_created_by := None\<rparr>)
         (api_keys d)\<rparr>" using delete_admin_Inr [OF assms(2)] by blast
  ultimately show ?thesis using ids by (simp add: auth_ok_def admin_ids_def)
qed

lemma auth_ok_parts:
  "auth_ok d \<Longrightarrow> admins_ok (admins d)" "auth_ok d \<Longrightarrow> sessions_ok (admin_ids d) (sessions d)"
  "auth_ok d \<Longrightarrow> keys_ok (admin_ids d) (api_keys d)"
  by (simp_all add: auth_ok_def)

lemma session_ok:
  assumes "auth_ok d" "create_admin_session i tok csrf expires src agent now d = Inr (d', x)"
  shows "auth_ok d'"
proof -
  define n where "n = \<lparr>n_token_hash = tok, n_csrf_hash = csrf, n_admin = i, n_source_ip = src,
    n_user_agent = agent, n_created_at = now, n_expires_at = expires, n_last_seen_at = now\<rparr>"
  then have n: "n_token_hash n = tok" "n_csrf_hash n = csrf" "n_admin n = i"
    "n_created_at n = now" "n_expires_at n = expires" by simp_all
  from assms(2) have d': "d' = d\<lparr>sessions := sessions d @ [n]\<rparr>"
    and t: "now < expires" "query_admin d i \<noteq> None"
    and new: "\<forall>n \<in> set (sessions d). n_token_hash n \<noteq> tok \<and> n_csrf_hash n \<noteq> csrf"
    by (auto simp: create_admin_session_def result_simps n_def)
  have "i \<in> admin_ids d" using t(2) by (simp only: query_admin_ids)
  then have "sessions_ok (admin_ids d) (sessions d @ [n])"
    using auth_ok_parts(2) [OF assms(1)] new n t(1) by (auto simp: sessions_ok_def image_iff)
  then show ?thesis unfolding d' by (rule auth_ok_sessions [OF assms(1)])
qed

lemma sessions_ok_keep:
  "sessions_ok ids rows \<Longrightarrow> (\<And>n. n_token_hash (f n) = n_token_hash n \<and> n_csrf_hash (f n) = n_csrf_hash n
      \<and> n_admin (f n) = n_admin n \<and> n_created_at (f n) = n_created_at n \<and> n_expires_at (f n) = n_expires_at n)
    \<Longrightarrow> sessions_ok ids (update_where p f rows)"
  unfolding sessions_ok_def by (simp add: map_update_where) (auto simp: update_where_def)

lemma keys_ok_keep:
  "keys_ok ids rows \<Longrightarrow> (\<And>k. k_id (f k) = k_id k \<and> k_token_hash (f k) = k_token_hash k
      \<and> k_created_by (f k) = k_created_by k) \<Longrightarrow> keys_ok ids (update_where p f rows)"
  unfolding keys_ok_def by (simp add: map_update_where) (auto simp: update_where_def)

lemma key_Inr:
  assumes "create_api_key lib i now name tok prefix perms nets by_admin until d = Inr (d', x)"
  obtains list where "d' = d\<lparr>api_keys := api_keys d @ [x]\<rparr>" "k_id x = i" "k_token_hash x = tok"
    "k_created_by x = by_admin" "k_permissions x = perms" "k_revoked_at x = None"
    "normalize_allowlist lib [] nets = Inr list" "k_allowlist x = list"
    "\<forall>k \<in> set (api_keys d). k_id k \<noteq> i \<and> k_token_hash k \<noteq> tok"
    "\<forall>j. by_admin = Some j \<longrightarrow> j \<in> admin_ids d"
proof -
  from assms obtain list where list: "normalize_allowlist lib [] nets = Inr list"
    by (auto simp: create_api_key_def result_simps)
  define k where "k = \<lparr>k_id = i, k_name = trim name, k_token_hash = tok, k_prefix = prefix,
    k_permissions = perms, k_allowlist = list, k_created_by = by_admin, k_created_at = now,
    k_expires_at = until, k_last_used_at = None, k_revoked_at = None\<rparr>"
  then have k: "k_id k = i" "k_token_hash k = tok" "k_created_by k = by_admin" "k_permissions k = perms"
      "k_allowlist k = list" "k_revoked_at k = None" by simp_all
  from assms list have d': "d' = d\<lparr>api_keys := api_keys d @ [k]\<rparr>" "query_api_key d' i = Some x"
    and new: "\<forall>k \<in> set (api_keys d). k_id k \<noteq> i \<and> k_token_hash k \<noteq> tok"
    and author: "case by_admin of None \<Rightarrow> True | Some a \<Rightarrow> query_admin d a \<noteq> None"
    by (auto simp: create_api_key_def result_simps Let_def k_def)
  have "select_one (\<lambda>k. k_id k = i) (api_keys d) = None" using new by (simp add: select_one_None)
  then have "x = k" using d' k(1) by (simp add: query_api_key_def select_one_append)
  moreover have "\<forall>j. by_admin = Some j \<longrightarrow> j \<in> admin_ids d"
    using author query_admin_ids by (auto split: option.splits)
  ultimately show ?thesis using that list k d'(1) new by blast
qed

lemma key_ok:
  assumes "auth_ok d" "create_api_key lib i now name tok prefix perms nets by_admin until d = Inr (d', x)"
  shows "auth_ok d'"
proof -
  from key_Inr [OF assms(2)] obtain list where x: "d' = d\<lparr>api_keys := api_keys d @ [x]\<rparr>" "k_id x = i"
    "k_token_hash x = tok" "k_created_by x = by_admin"
    "\<forall>k \<in> set (api_keys d). k_id k \<noteq> i \<and> k_token_hash k \<noteq> tok"
    "\<forall>j. by_admin = Some j \<longrightarrow> j \<in> admin_ids d" by metis
  then have "keys_ok (admin_ids d) (api_keys d @ [x])"
    using auth_ok_parts(3) [OF assms(1)] by (auto simp: keys_ok_def image_iff)
  then show ?thesis unfolding x(1) by (rule auth_ok_keys [OF assms(1)])
qed

lemma change_ok: "auth_change lib d d' \<Longrightarrow> auth_ok d \<Longrightarrow> auth_ok d'"
proof (induction rule: auth_change.induct)
  case (seen tok now d d' s)
  then show ?case
    by (auto simp: authenticate_admin_session_def split: option.splits
        intro!: auth_ok_sessions sessions_ok_keep auth_ok_parts)
next
  case (logged_out tok d d' b)
  then show ?case
    by (auto simp: revoke_admin_session_def intro!: auth_ok_sessions sessions_ok_delete auth_ok_parts)
next
  case (ended i d d' n)
  then show ?case
    by (auto simp: revoke_admin_sessions_def intro!: auth_ok_sessions sessions_ok_delete auth_ok_parts)
next
  case (pruned now d d' n)
  then show ?case
    by (auto simp: prune_expired_sessions_def intro!: auth_ok_sessions sessions_ok_delete auth_ok_parts)
next
  case (used tok now d d' y)
  then show ?case
    by (auto simp: authenticate_api_key_def split: option.splits intro!: auth_ok_keys keys_ok_keep auth_ok_parts)
next
  case (revoked i now d d' x)
  then show ?case
    by (auto simp: revoke_api_key_def result_simps intro!: auth_ok_keys keys_ok_keep auth_ok_parts)
qed (blast intro: bootstrap_ok create_ok access_ok credentials_ok delete_ok login_ok session_ok key_ok)+

lemma changes_ok: "(auth_change lib)\<^sup>*\<^sup>* d d' \<Longrightarrow> auth_ok d \<Longrightarrow> auth_ok d'"
  by (induction rule: rtranclp_induct) (auto intro: change_ok)

interpretation auth: guarded_machine "auth_step env" "\<lambda>p. auth_ok (panel_auth p)" "\<lambda>_. True" for env
  by unfold_locales (blast intro: changes_ok auth_step_change)

section \<open>A super administrator remains\<close>

definition super_left :: "auth_db \<Rightarrow> bool" where
  "super_left d \<longleftrightarrow> (\<exists>a \<in> set (admins d). super_admin a)"

lemma super_left_keep:
  "super_left d \<Longrightarrow> (\<And>a. super_admin (f a) = super_admin a)
    \<Longrightarrow> super_left (d\<lparr>admins := update_where p f (admins d)\<rparr>)"
  by (auto simp: super_left_def update_where_def)

lemma super_left_same: "super_left d \<Longrightarrow> admins d' = admins d \<Longrightarrow> super_left d'"
  by (simp add: super_left_def)

lemma other_super: "other_super_admins i d \<noteq> 0 \<Longrightarrow> \<exists>a \<in> set (admins d). super_admin a \<and> d_id a \<noteq> i"
  by (auto simp: other_super_admins_def count_where_0)

lemma admin_row_unique:
  "auth_ok d \<Longrightarrow> query_admin d i = Some a \<Longrightarrow> b \<in> set (admins d) \<Longrightarrow> d_id b = i \<Longrightarrow> b = a"
  unfolding auth_ok_def admins_ok_def query_admin_def
  by (metis (mono_tags, lifting) distinct_map inj_onD select_one_Some)

text \<open>Either another super administrator exists, or the named row is the one that counts.\<close>

lemma super_elsewhere:
  assumes "auth_ok d" "super_left d" "query_admin d i = Some a"
  obtains b where "b \<in> set (admins d)" "super_admin b" "d_id b \<noteq> i"
  | "super_admin a" "other_super_admins i d = 0"
proof (cases "other_super_admins i d = 0")
  case True
  from assms(2) obtain b where b: "b \<in> set (admins d)" "super_admin b" by (auto simp: super_left_def)
  show ?thesis
  proof (cases "d_id b = i")
    case True
    then have "b = a" using admin_row_unique [OF assms(1,3) b(1)] by simp
    then show ?thesis using that(2) b(2) \<open>other_super_admins i d = 0\<close> by simp
  qed (use that(1) b in blast)
next
  case False
  then show ?thesis using that(1) other_super by blast
qed

lemma super_access:
  assumes "auth_ok d" "super_left d" "update_admin_access i role enabled now d = Inr (d', x)"
  shows "super_left d'"
proof -
  from access_Inr [OF assms(3)] obtain a r e where a: "query_admin d i = Some a"
    and guard: "super_admin a \<Longrightarrow> r \<noteq> SuperAdmin \<or> \<not> e \<Longrightarrow> other_super_admins i d \<noteq> 0"
    and d': "d' = d\<lparr>admins := update_where (\<lambda>a. d_id a = i) (with_access r e now) (admins d)\<rparr>" by metis
  from a have row: "a \<in> set (admins d)" "d_id a = i" by (auto simp: query_admin_def dest: select_one_Some)
  show ?thesis
  proof (rule super_elsewhere [OF assms(1,2) a])
    fix b assume "b \<in> set (admins d)" "super_admin b" "d_id b \<noteq> i"
    then show ?thesis unfolding d' super_left_def update_where_def by auto
  next
    assume "super_admin a" "other_super_admins i d = 0"
    with guard have "r = SuperAdmin" "e" by blast+
    then have "super_admin (with_access r e now a)" by (simp add: super_admin_def with_access_def)
    moreover have "with_access r e now a \<in> set (admins d')"
      unfolding d' update_where_def using row by (auto simp: image_iff)
    ultimately show ?thesis unfolding super_left_def by blast
  qed
qed

lemma super_delete:
  assumes "auth_ok d" "super_left d" "delete_admin i d = Inr (d', x)"
  shows "super_left d'"
proof -
  from delete_admin_Inr [OF assms(3)] obtain a where a: "query_admin d i = Some a"
    and guard: "super_admin a \<Longrightarrow> other_super_admins i d \<noteq> 0"
    and full: "d' = d\<lparr>admins := delete_where (\<lambda>a. d_id a = i) (admins d),
       sessions := delete_where (\<lambda>n. n_admin n = i) (sessions d),
       api_keys := update_where (\<lambda>k. k_created_by k = Some i) (\<lambda>k. k\<lparr>k_created_by := None\<rparr>)
         (api_keys d)\<rparr>" by blast
  from full have d': "admins d' = delete_where (\<lambda>a. d_id a = i) (admins d)" by simp
  show ?thesis
  proof (rule super_elsewhere [OF assms(1,2) a])
    fix b assume "b \<in> set (admins d)" "super_admin b" "d_id b \<noteq> i"
    then show ?thesis unfolding super_left_def d' delete_where_def by auto
  qed (use guard in blast)
qed

lemma change_super: "auth_change lib d d' \<Longrightarrow> auth_ok d \<Longrightarrow> super_left d \<Longrightarrow> super_left d'"
proof (induction rule: auth_change.induct)
  case (bootstrap i now u h d d' a)
  then show ?case
    by (cases "select_least d_created_at (admins d)")
      (auto simp: bootstrap_admin_def result_simps Let_def super_left_def)
next
  case (created i now u h role d d' a)
  then show ?case by (auto simp: create_admin_def result_simps Let_def super_left_def)
next
  case (credentials i u' h' now d d' x)
  then show ?case
    by (auto simp: update_admin_credentials_def result_simps update_admin_Inr super_admin_def
        split: if_splits intro!: super_left_keep)
next
  case (logged_in i now d d' x)
  then show ?case by (auto simp: record_admin_login_def update_admin_Inr super_admin_def intro!: super_left_keep)
next
  case (session i tok csrf expires src agent now d d' x)
  then show ?case by (auto simp: create_admin_session_def result_simps super_left_def)
next
  case (seen tok now d d' s)
  then show ?case by (auto simp: authenticate_admin_session_def super_left_def split: option.splits)
next
  case (used tok now d d' y)
  then show ?case by (auto simp: authenticate_api_key_def super_left_def split: option.splits)
next
  case (key i now name tok prefix perms nets by_admin until d d' k)
  then show ?case by (elim key_Inr) (simp add: super_left_def)
qed (auto simp: revoke_admin_session_def revoke_admin_sessions_def prune_expired_sessions_def
    revoke_api_key_def result_simps super_left_def [symmetric] intro: super_access super_delete super_left_same)

lemma changes_super:
  "(auth_change lib)\<^sup>*\<^sup>* d d' \<Longrightarrow> auth_ok d \<Longrightarrow> super_left d \<Longrightarrow> auth_ok d' \<and> super_left d'"
  by (induction rule: rtranclp_induct) (auto intro: change_ok change_super)

interpretation supervised: guarded_machine "auth_step env"
  "\<lambda>p. auth_ok (panel_auth p) \<and> super_left (panel_auth p)" "\<lambda>_. True" for env
  by unfold_locales (blast dest: changes_super auth_step_change)

section \<open>Revoked keys\<close>

definition key_revoked :: "string \<Rightarrow> auth_db \<Rightarrow> bool" where
  "key_revoked h d \<longleftrightarrow> h \<in> set (map k_token_hash (api_keys d))
     \<and> (\<forall>k \<in> set (api_keys d). k_token_hash k = h \<longrightarrow> k_revoked_at k \<noteq> None)"

lemma key_revoked_same: "key_revoked h d \<Longrightarrow> api_keys d' = api_keys d \<Longrightarrow> key_revoked h d'"
  by (simp add: key_revoked_def)

lemma key_revoked_keep:
  "key_revoked h d \<Longrightarrow> (\<And>k. k_token_hash (f k) = k_token_hash k
      \<and> (k_revoked_at k \<noteq> None \<longrightarrow> k_revoked_at (f k) \<noteq> None))
    \<Longrightarrow> key_revoked h (d\<lparr>api_keys := update_where p f (api_keys d)\<rparr>)"
  unfolding key_revoked_def by (simp add: map_update_where del: set_map) (auto simp: update_where_def)

lemma change_revoked: "auth_change lib d d' \<Longrightarrow> key_revoked h d \<Longrightarrow> key_revoked h d'"
proof (induction rule: auth_change.induct)
  case (bootstrap i now u h d d' a)
  then show ?case
    by (auto simp: bootstrap_admin_def result_simps Let_def split: option.splits intro: key_revoked_same)
next
  case (created i now u h role d d' a)
  then show ?case by (auto simp: create_admin_def result_simps Let_def intro: key_revoked_same)
next
  case (access i role' enabled now d d' a)
  then show ?case by (elim access_Inr) (auto intro: key_revoked_same)
next
  case (credentials i u' h' now d d' x)
  then show ?case
    by (auto simp: update_admin_credentials_def result_simps update_admin_Inr split: if_splits
        intro: key_revoked_same)
next
  case (deleted i d d' x)
  from deleted(1) obtain a where "d' = d\<lparr>admins := delete_where (\<lambda>a. d_id a = i) (admins d),
       sessions := delete_where (\<lambda>n. n_admin n = i) (sessions d),
       api_keys := update_where (\<lambda>k. k_created_by k = Some i) (\<lambda>k. k\<lparr>k_created_by := None\<rparr>)
         (api_keys d)\<rparr>" by (elim delete_admin_Inr)
  then have "api_keys d' = api_keys (d\<lparr>api_keys := update_where (\<lambda>k. k_created_by k = Some i)
      (\<lambda>k. k\<lparr>k_created_by := None\<rparr>) (api_keys d)\<rparr>)" by simp
  then show ?case by (rule key_revoked_same [OF key_revoked_keep [OF deleted(2)], rotated]) simp
next
  case (logged_in i now d d' x)
  then show ?case by (auto simp: record_admin_login_def update_admin_Inr intro: key_revoked_same)
next
  case (session i tok csrf expires src agent now d d' x)
  then show ?case by (auto simp: create_admin_session_def result_simps intro: key_revoked_same)
next
  case (seen tok now d d' s)
  then show ?case
    by (auto simp: authenticate_admin_session_def split: option.splits intro: key_revoked_same)
next
  case (key i now name tok prefix perms nets by_admin until d d' k)
  from key(1) obtain list where "d' = d\<lparr>api_keys := api_keys d @ [k]\<rparr>" "k_token_hash k = tok"
    "\<forall>k \<in> set (api_keys d). k_id k \<noteq> i \<and> k_token_hash k \<noteq> tok" by (elim key_Inr)
  then show ?case using key(2) by (auto simp: key_revoked_def)
next
  case (used tok now d d' y)
  then show ?case by (auto simp: authenticate_api_key_def split: option.splits intro!: key_revoked_keep)
next
  case (revoked i now d d' x)
  then show ?case
    by (auto simp: revoke_api_key_def result_simps split: option.splits intro!: key_revoked_keep)
qed (auto simp: revoke_admin_session_def revoke_admin_sessions_def prune_expired_sessions_def
    intro: key_revoked_same)

lemma changes_revoked: "(auth_change lib)\<^sup>*\<^sup>* d d' \<Longrightarrow> key_revoked h d \<Longrightarrow> key_revoked h d'"
  by (induction rule: rtranclp_induct) (auto intro: change_revoked)

interpretation revoking: guarded_machine "auth_step env" "\<lambda>p. key_revoked h (panel_auth p)" "\<lambda>_. True" for env h
  by unfold_locales (blast dest: changes_revoked auth_step_change)

lemma revoked_unauthenticated:
  "key_revoked h d \<Longrightarrow> authenticate_api_key h now d = Inr (d, None)"
  by (auto simp: authenticate_api_key_def key_revoked_def live_api_key_def select_one_None
      split: option.splits dest!: select_one_Some)

section \<open>Properties\<close>

text \<open>
  C9. A panel that was bootstrapped keeps an enabled super administrator: over all histories of
  requests from the first administrator on, whoever makes them, one remains.
\<close>

theorem super_admin_always_remains:
  assumes "admins d = []" "sessions d = []" "api_keys d = []"
    and "bootstrap_admin i now username hash d = Inr (d1, a)"
  shows "\<exists>a \<in> set (admins (panel_auth (run_all (auth_step env) \<lparr>panel_auth = d1, panel_buckets = m\<rparr> as))).
    d_role a = SuperAdmin \<and> d_enabled a"
proof -
  have "auth_ok d" using assms(1-3) by (simp add: auth_ok_def admins_ok_def sessions_ok_def keys_ok_def)
  moreover have "super_left d1"
    using assms(1,4)
    by (auto simp: bootstrap_admin_def result_simps Let_def super_left_def new_admin_def super_admin_def)
  ultimately have "auth_ok d1 \<and> super_left d1" using assms(4) bootstrap_ok by blast
  then have "super_left (panel_auth (run_all (auth_step env) \<lparr>panel_auth = d1, panel_buckets = m\<rparr> as))"
    using supervised.run_all_inv [of "\<lparr>panel_auth = d1, panel_buckets = m\<rparr>" as env] by simp
  then show ?thesis by (auto simp: super_left_def super_admin_def)
qed

text \<open>
  The rows stay well formed: over all histories from an empty database, identifiers,
  usernames without case, tokens and CSRF tokens are unique, every session belongs to an
  existing administrator and ends after it began, and every key names an existing author or
  none.
\<close>

theorem auth_rows_well_formed:
  assumes "admins (panel_auth p) = []" "sessions (panel_auth p) = []" "api_keys (panel_auth p) = []"
    and "d = panel_auth (run_all (auth_step env) p as)"
  shows "distinct (map d_id (admins d)) \<and> distinct (map (ascii_lower \<circ> d_username) (admins d))
    \<and> distinct (map n_token_hash (sessions d)) \<and> distinct (map n_csrf_hash (sessions d))
    \<and> distinct (map k_id (api_keys d)) \<and> distinct (map k_token_hash (api_keys d))
    \<and> (\<forall>n \<in> set (sessions d). n_created_at n < n_expires_at n \<and> (\<exists>a \<in> set (admins d). d_id a = n_admin n))
    \<and> (\<forall>k \<in> set (api_keys d). \<forall>i. k_created_by k = Some i \<longrightarrow> (\<exists>a \<in> set (admins d). d_id a = i))"
proof -
  have "auth_ok (panel_auth p)"
    using assms(1-3) by (simp add: auth_ok_def admins_ok_def sessions_ok_def keys_ok_def)
  then have "auth_ok d" using auth.run_all_inv [of p as env] by (simp add: assms(4))
  then have "admins_ok (admins d)" "sessions_ok (admin_ids d) (sessions d)" "keys_ok (admin_ids d) (api_keys d)"
    by (rule auth_ok_parts)+
  moreover have "i \<in> admin_ids d \<longleftrightarrow> (\<exists>a \<in> set (admins d). d_id a = i)" for i
    by (auto simp: admin_ids_def)
  ultimately show ?thesis by (simp add: admins_ok_def sessions_ok_def keys_ok_def)
qed

text \<open>
  C12. A revoked key stays revoked: after a key was revoked, its token is never admitted again,
  from any address and at any time, over all histories of requests, the creation of other keys
  and the deletion of its author included.
\<close>

theorem revoked_key_never_admitted:
  assumes "auth_ok (panel_auth p)" "k \<in> set (api_keys (panel_auth p))"
    and "revoke_api_key (k_id k) now (panel_auth p) = Inr (d, x)"
    and "bearer_token r = Some token" "hash_token (env_seal env) token = k_token_hash k"
  shows "snd (api_guard (env_net env) (env_seal env) (env_settings env) r t1 t2 t3
    (run_all (auth_step env) (p\<lparr>panel_auth := d\<rparr>) as)) = Inl Unauthorized"
proof -
  let ?h = "k_token_hash k" and ?p = "run_all (auth_step env) (p\<lparr>panel_auth := d\<rparr>) as"
  have "keys_ok (admin_ids (panel_auth p)) (api_keys (panel_auth p))" using assms(1) by (rule auth_ok_parts)
  then have own: "b = k" if "b \<in> set (api_keys (panel_auth p))" "k_token_hash b = ?h" for b
    using that assms(2) unfolding keys_ok_def by (metis distinct_map inj_onD)
  have d: "d = (panel_auth p)\<lparr>api_keys := update_where (\<lambda>b. k_id b = k_id k)
      (\<lambda>b. b\<lparr>k_revoked_at := (case k_revoked_at b of None \<Rightarrow> Some now | Some r \<Rightarrow> Some r)\<rparr>)
      (api_keys (panel_auth p))\<rparr>"
    using assms(3) by (auto simp: revoke_api_key_def result_simps)
  have "?h \<in> set (map k_token_hash (api_keys (panel_auth p)))" using assms(2) by simp
  then have "key_revoked ?h d"
    unfolding d key_revoked_def using own
    by (simp add: map_update_where del: set_map) (auto simp: update_where_def split: option.splits)
  then have "key_revoked ?h (panel_auth ?p)"
    using revoking.run_all_inv [of ?h "p\<lparr>panel_auth := d\<rparr>" as env] by simp
  then have "authenticate_api_key ?h t1 (panel_auth ?p) = Inr (panel_auth ?p, None)"
    by (rule revoked_unauthenticated)
  then show ?thesis using assms(4,5) by (simp add: api_guard_def authenticate_api_request_def)
qed

definition empty_auth :: auth_db where
  "empty_auth = \<lparr>admins = [], sessions = [], api_keys = []\<rparr>"

definition tiny_net :: "ip_addr ipnet_lib" where
  "tiny_net = \<lparr>net_parse = parse_ip, net_show = show_ip, net_addr = (\<lambda>a. a), net_prefix_len = (\<lambda>_. 0),
     net_trunc = (\<lambda>a. a), net_new = (\<lambda>a _. Some a), net_contains = (\<lambda>a b. a = b)\<rparr>"

definition tiny_auth :: auth_lib where
  "tiny_auth = \<lparr>phc_hash = (\<lambda>salt w. Some w), phc_check = (\<lambda>w h. Some (w = h)), header_value_ok = (\<lambda>_. True)\<rparr>"

definition tiny_env :: "ip_addr auth_env" where
  "tiny_env = \<lparr>env_net = tiny_net, env_auth = tiny_auth, env_seal = demo_seal,
     env_settings = \<lparr>sec_api_limit = None, sec_login_limit = Some 1, sec_session_minutes = None\<rparr>,
     env_secure = True\<rparr>"

definition root_context :: auth_context where
  "root_context = \<lparr>ac_type = ''admin'', ac_id = ''a'', ac_admin = None, ac_permissions = [''*''],
     ac_session = None\<rparr>"

definition tiny_token :: "string \<Rightarrow> issued_token" where
  "tiny_token t = \<lparr>it_secret = t, it_hash = t, it_prefix = []\<rparr>"

lemma super_admin_always_remains_witness:
  "\<exists>d1 a. bootstrap_admin ''a'' 0 ''root'' ''pw'' empty_auth = Inr (d1, a)
    \<and> (\<exists>a \<in> set (admins (panel_auth (run_all (auth_step tiny_env) \<lparr>panel_auth = d1, panel_buckets = []\<rparr>
         [DeleteAdmin root_context ''a'', PatchAdmin root_context ''a'' (Some ReadOnly) None 5]))).
         d_role a = SuperAdmin \<and> d_enabled a)"
proof -
  have "case bootstrap_admin ''a'' 0 ''root'' ''pw'' empty_auth of Inl e \<Rightarrow> False | Inr x \<Rightarrow> True"
    by code_simp
  then obtain d1 a where "bootstrap_admin ''a'' 0 ''root'' ''pw'' empty_auth = Inr (d1, a)"
    by (auto split: sum.splits)
  from this super_admin_always_remains [OF _ _ _ this, of tiny_env "[]"
      "[DeleteAdmin root_context ''a'', PatchAdmin root_context ''a'' (Some ReadOnly) None 5]"]
  show ?thesis by (auto simp: empty_auth_def simp del: run_all_simps)
qed

definition two_admins :: "auth_request list" where
  "two_admins = [Bootstrap ''a'' 0 ''root'' ''pw'',
     CreateAdmin root_context ''b'' 1 [] ''Root'' ''long password'' Admin,
     CreateAdmin root_context ''c'' 1 [] ''bob'' ''long password'' Admin]"

definition two_admins_db :: auth_db where
  "two_admins_db = panel_auth (run_all (auth_step tiny_env) \<lparr>panel_auth = empty_auth, panel_buckets = []\<rparr>
     two_admins)"

lemma auth_rows_well_formed_witness:
  "map d_id (admins two_admins_db) = [''a'', ''c''] \<and> distinct (map d_id (admins two_admins_db))"
proof
  show "map d_id (admins two_admins_db) = [''a'', ''c'']" by code_simp
  show "distinct (map d_id (admins two_admins_db))"
    by (rule conjunct1 [OF auth_rows_well_formed [OF _ _ _ two_admins_db_def]]) (simp_all add: empty_auth_def)
qed

definition keyed_panel :: auth_panel where
  "keyed_panel = run_all (auth_step tiny_env) \<lparr>panel_auth = empty_auth, panel_buckets = []\<rparr>
     [Bootstrap ''a'' 0 ''root'' ''pw'',
      CreateKey root_context ''k'' 1 (tiny_token ''T'') ''ci'' [''vms:read''] [''10.0.0.1''] (Inr None)]"

definition with_key :: "string \<Rightarrow> http_request" where
  "with_key t = \<lparr>hr_method = ''GET'', hr_header = [''authorization'' \<mapsto> ''Bearer '' @ t],
     hr_peer = Some (IpV4 0x0A000001)\<rparr>"

lemma keyed_ok: "auth_ok (panel_auth keyed_panel)"
  unfolding keyed_panel_def
  by (rule auth.run_all_inv) (simp_all add: empty_auth_def auth_ok_def admins_ok_def sessions_ok_def keys_ok_def)

lemma revoked_key_never_admitted_witness:
  "is_ok (authenticate_api_request tiny_net demo_seal (with_key ''T'') (Some ''10.0.0.1'') 2 (panel_auth keyed_panel))
   \<and> (\<exists>d x. revoke_api_key ''k'' 3 (panel_auth keyed_panel) = Inr (d, x)
        \<and> snd (api_guard tiny_net demo_seal (env_settings tiny_env) (with_key ''T'') 4 4 4
            (run_all (auth_step tiny_env) (keyed_panel\<lparr>panel_auth := d\<rparr>) [DeleteAdmin root_context ''a'']))
          = Inl Unauthorized)"
proof
  show "is_ok (authenticate_api_request tiny_net demo_seal (with_key ''T'') (Some ''10.0.0.1'') 2 (panel_auth keyed_panel))"
    by code_simp
  have "map (\<lambda>k. (k_id k, k_token_hash k)) (api_keys (panel_auth keyed_panel)) = [(''k'', ''T'')]"
    by code_simp
  then have "(''k'', ''T'') \<in> (\<lambda>k. (k_id k, k_token_hash k)) ` set (api_keys (panel_auth keyed_panel))"
    by (metis list.set_intros(1) set_map)
  then obtain k where k: "k \<in> set (api_keys (panel_auth keyed_panel))" "k_id k = ''k''" "k_token_hash k = ''T''"
    by auto
  have "is_ok (revoke_api_key ''k'' 3 (panel_auth keyed_panel))" by code_simp
  then obtain d x where d: "revoke_api_key ''k'' 3 (panel_auth keyed_panel) = Inr (d, x)"
    by (metis is_ok_iff surj_pair)
  have "bearer_token (with_key ''T'') = Some ''T''" by code_simp
  moreover have "hash_token (env_seal tiny_env) ''T'' = k_token_hash k"
    by (simp add: k hash_token_def tiny_env_def demo_seal_def)
  ultimately show "\<exists>d x. revoke_api_key ''k'' 3 (panel_auth keyed_panel) = Inr (d, x)
        \<and> snd (api_guard tiny_net demo_seal (env_settings tiny_env) (with_key ''T'') 4 4 4
            (run_all (auth_step tiny_env) (keyed_panel\<lparr>panel_auth := d\<rparr>) [DeleteAdmin root_context ''a'']))
          = Inl Unauthorized"
    using d k revoked_key_never_admitted [OF keyed_ok k(1), of 3 d x "with_key ''T''" "''T''" tiny_env 4 4 4
        "[DeleteAdmin root_context ''a'']"]
    by (auto simp: tiny_env_def simp del: run_all_simps)
qed

end
