(* ===== verification/Guard_Safety.thy ===== *)
theory Guard_Safety
  imports Admin_Safety
begin

text \<open>
  Who the API guard lets in, that the address an allowlist judges is the peer's own, and that
  an API key never allows more than its creator.
\<close>

section \<open>What authentication returns\<close>

lemma authenticate_session_Some:
  assumes "authenticate_admin_session h now d = Inr (d', Some (n, a))"
  shows "n \<in> set (sessions d) \<and> n_token_hash n = h \<and> now < n_expires_at n
    \<and> a \<in> set (admins d) \<and> d_id a = n_admin n \<and> d_enabled a"
  using assms
  by (auto simp: authenticate_admin_session_def live_admin_session_def split: option.splits
      dest!: select_one_Some)

lemma authenticate_session_rows:
  assumes "authenticate_admin_session h now d = Inr (d', x)"
  shows "admins d' = admins d
    \<and> (\<forall>n \<in> set (sessions d'). \<exists>m \<in> set (sessions d). n_token_hash n = n_token_hash m
        \<and> n_csrf_hash n = n_csrf_hash m \<and> n_expires_at n = n_expires_at m)"
proof -
  have rows: "\<exists>m \<in> set rows. n_token_hash n = n_token_hash m \<and> n_csrf_hash n = n_csrf_hash m
      \<and> n_expires_at n = n_expires_at m"
    if n: "n \<in> set (update_where p (\<lambda>n. n\<lparr>n_last_seen_at := now\<rparr>) rows)" for n p rows
  proof -
    from n obtain m where "m \<in> set rows" "n = (if p m then m\<lparr>n_last_seen_at := now\<rparr> else m)"
      by (auto simp: set_update_where)
    then show ?thesis by (intro bexI [of _ m]) simp_all
  qed
  from assms consider "d' = d"
    | "d' = d\<lparr>sessions := update_where (\<lambda>n. n_token_hash n = h) (\<lambda>n. n\<lparr>n_last_seen_at := now\<rparr>) (sessions d)\<rparr>"
    by (auto simp: authenticate_admin_session_def split: option.splits)
  then show ?thesis using rows by cases auto
qed

lemma authenticate_key_Some:
  assumes "authenticate_api_key h now d = Inr (d', Some k)"
  shows "k \<in> set (api_keys d) \<and> live_api_key h now k"
  using assms by (auto simp: authenticate_api_key_def split: option.splits dest!: select_one_Some)

lemma session_context_Some:
  assumes "session_context seal r now d = Inr (d', Some ctx)"
  obtains token n a where "cookie r session_cookie = Some token"
    "authenticate_admin_session (hash_token seal token) now d = Inr (d', Some (n, a))"
    "ctx = admin_context (hash_token seal token) a"
  using assms by (auto simp: session_context_def Let_def result_simps split: option.splits)

lemma authenticate_request_Some:
  assumes "authenticate_api_request lib seal r source now d = Inr (d', Some ctx)"
  obtains (key) token k where "bearer_token r = Some token"
      "authenticate_api_key (hash_token seal token) now d = Inr (d', Some k)"
      "source_allowed lib source k" "ctx = key_context k"
  | (session) "bearer_token r = None" "session_context seal r now d = Inr (d', Some ctx)"
  using assms by (auto simp: authenticate_api_request_def result_simps split: option.splits if_splits)

lemma api_guard_Inr:
  assumes "api_guard lib seal settings r t1 t2 t3 p = (p', Inr ctx)"
  obtains d where "authenticate_api_request lib seal r (client_ip r) t1 (panel_auth p) = Inr (d, Some ctx)"
    "csrf_ok seal r ctx t3 d" "panel_auth p' = d"
proof -
  from assms obtain d where d: "authenticate_api_request lib seal r (client_ip r) t1 (panel_auth p)
      = Inr (d, Some ctx)"
    by (auto simp: api_guard_def Let_def split: sum.splits prod.splits option.splits if_splits)
  let ?n = "clamp 10 100000 (case sec_api_limit settings of Some n \<Rightarrow> n | None \<Rightarrow> 600)"
  obtain p1 y where e: "limited ''authenticated-api'' (api_rate_key ctx (client_ip r)) ?n 60 t2
      (p\<lparr>panel_auth := d\<rparr>) = (p1, y)"
    by (cases "limited ''authenticated-api'' (api_rate_key ctx (client_ip r)) ?n 60 t2 (p\<lparr>panel_auth := d\<rparr>)")
  have "panel_auth p1 = d"
    using e limited_auth [of "''authenticated-api''" "api_rate_key ctx (client_ip r)" ?n 60 t2 "p\<lparr>panel_auth := d\<rparr>"]
    by simp
  then show ?thesis
    using that [OF d] assms d e by (cases y) (auto simp: api_guard_def split: if_splits)
qed

lemma csrf_ok_session:
  "csrf_ok seal r (admin_context h a) now d \<Longrightarrow> is_mutating (hr_method r) \<Longrightarrow>
   \<exists>csrf. hr_header r ''x-csrf-token'' = Some csrf \<and> verify_admin_session_csrf h (hash_token seal csrf) now d"
  by (auto simp: csrf_ok_def admin_context_def split: option.splits)

section \<open>Properties\<close>

text \<open>
  C8. The guard admits only the authenticated. A request that is admitted carries either the
  token of an unrevoked, unexpired API key whose allowlist contains its address, and acts with
  the permissions of that key; or the cookie of a live session of an enabled administrator,
  and acts with the permissions of the administrator's role, and a request that changes
  something then also carries the CSRF token of that very session.
\<close>

theorem guard_admits_only_authenticated:
  assumes "auth_ok (panel_auth p)" "api_guard lib seal settings r t1 t2 t3 p = (p', Inr ctx)"
  shows "(\<exists>token k. bearer_token r = Some token \<and> k \<in> set (api_keys (panel_auth p))
       \<and> k_token_hash k = hash_token seal token \<and> k_revoked_at k = None
       \<and> (\<forall>e. k_expires_at k = Some e \<longrightarrow> t1 < e) \<and> source_allowed lib (client_ip r) k
       \<and> ac_admin ctx = None \<and> ac_permissions ctx = k_permissions k)
    \<or> (\<exists>token n a. cookie r ''vexa_session'' = Some token \<and> n \<in> set (sessions (panel_auth p))
       \<and> n_token_hash n = hash_token seal token \<and> t1 < n_expires_at n
       \<and> a \<in> set (admins (panel_auth p)) \<and> d_id a = n_admin n \<and> d_enabled a
       \<and> ac_admin ctx = Some a \<and> ac_permissions ctx = permissions_for_role (d_role a)
       \<and> (is_mutating (hr_method r) \<longrightarrow> (\<exists>csrf. hr_header r ''x-csrf-token'' = Some csrf
            \<and> n_csrf_hash n = hash_token seal csrf \<and> t3 < n_expires_at n)))"
proof -
  obtain d where d: "authenticate_api_request lib seal r (client_ip r) t1 (panel_auth p) = Inr (d, Some ctx)"
    and csrf: "csrf_ok seal r ctx t3 d" by (rule api_guard_Inr [OF assms(2)])
  from d show ?thesis
  proof (cases rule: authenticate_request_Some)
    case (key token k)
    then show ?thesis using authenticate_key_Some [OF key(2)]
      by (auto simp: live_api_key_def key_context_def split: option.splits)
  next
    case session
    then obtain token n a where c: "cookie r session_cookie = Some token"
      and auth: "authenticate_admin_session (hash_token seal token) t1 (panel_auth p) = Inr (d, Some (n, a))"
      and ctx: "ctx = admin_context (hash_token seal token) a" by (elim session_context_Some)
    note row = authenticate_session_Some [OF auth]
    have unique: "m = n" if "m \<in> set (sessions (panel_auth p))" "n_token_hash m = n_token_hash n" for m
      using that row auth_ok_parts(2) [OF assms(1)] unfolding sessions_ok_def by (metis distinct_map inj_onD)
    have "\<exists>csrf. hr_header r ''x-csrf-token'' = Some csrf \<and> n_csrf_hash n = hash_token seal csrf
        \<and> t3 < n_expires_at n" if "is_mutating (hr_method r)"
    proof -
      from csrf_ok_session [OF csrf [unfolded ctx] that] obtain v where
        v: "hr_header r ''x-csrf-token'' = Some v"
        "verify_admin_session_csrf (hash_token seal token) (hash_token seal v) t3 d" by blast
      then obtain m where m: "m \<in> set (sessions d)" "n_token_hash m = hash_token seal token"
        "n_csrf_hash m = hash_token seal v" "t3 < n_expires_at m"
        by (auto simp: verify_admin_session_csrf_def)
      with authenticate_session_rows [OF auth] obtain o' where "o' \<in> set (sessions (panel_auth p))"
        "n_token_hash o' = hash_token seal token" "n_csrf_hash o' = hash_token seal v" "t3 < n_expires_at o'"
        by metis
      with unique row v(1) show ?thesis by metis
    qed
    then show ?thesis using c row ctx by (auto simp: session_cookie_def admin_context_def)
  qed
qed

text \<open>
  An allowlist judges the peer itself: when the peer is not the local proxy, no header
  changes the address the panel sees, and a request of an IPv4 peer admitted with a key that
  has an allowlist comes from an address in one of its networks.
\<close>

theorem allowlist_binds_peer:
  assumes "hr_peer r = Some a" "\<not> ip_is_loopback a"
  shows "client_ip r = Some (show_ip a)
    \<and> client_ip (r\<lparr>hr_header := headers\<rparr>) = client_ip r
    \<and> (\<forall>w k. a = IpV4 w \<and> k_allowlist k \<noteq> [] \<and> source_allowed lib (client_ip r) k \<longrightarrow>
        (\<exists>cidr \<in> set (k_allowlist k). \<exists>n. net_parse lib cidr = Some n \<and> net_contains lib n a))"
proof (intro conjI allI impI)
  show ip: "client_ip r = Some (show_ip a)" using assms by (simp add: client_ip_def)
  show "client_ip (r\<lparr>hr_header := headers\<rparr>) = client_ip r" using assms by (simp add: client_ip_def)
  fix w k assume k: "a = IpV4 w \<and> k_allowlist k \<noteq> [] \<and> source_allowed lib (client_ip r) k"
  then show "\<exists>cidr \<in> set (k_allowlist k). \<exists>n. net_parse lib cidr = Some n \<and> net_contains lib n a"
    by (auto simp: source_allowed_def ip parse_show_ipv4 split: option.splits)
qed

text \<open>
  C10. No privilege escalation through keys: a key that is created carries known permissions
  only, at least one, and allows nothing that its creator is not allowed; its creator may write
  API keys, and nothing else in the database changes.
\<close>

theorem no_privilege_escalation:
  assumes "handle_create_api_key lib ctx i now token name items allowlist expires d = Inr (d', k)"
  shows "(\<forall>x. allows (key_context k) x \<longrightarrow> allows ctx x)
    \<and> allows ctx ''api_keys:write'' \<and> k_permissions k \<noteq> []
    \<and> set (k_permissions k) \<subseteq> set grantable_permissions
    \<and> d' = d\<lparr>api_keys := api_keys d @ [k]\<rparr>"
proof -
  let ?ps = "requested_permissions items"
  from assms obtain e where writer: "allows ctx ''api_keys:write''"
    and ps: "?ps \<noteq> []" "\<forall>x \<in> set ?ps. x \<in> set grantable_permissions" "\<forall>x \<in> set ?ps. allows ctx x"
    and key: "create_api_key lib i now name (it_hash token) (it_prefix token) ?ps allowlist
      (map_option d_id (ac_admin ctx)) e d = Inr (d', k)"
    by (auto simp: handle_create_api_key_def Let_def result_simps require_permission_def split: if_splits)
  from key have k: "k_permissions k = ?ps" "d' = d\<lparr>api_keys := api_keys d @ [k]\<rparr>"
    by (elim key_Inr; simp)+
  have "allows ctx x" if "allows (key_context k) x" for x
  proof -
    from that obtain item where "item \<in> set ?ps" "item = ''*'' \<or> item = x"
      by (auto simp: allows_def key_context_def k)
    with ps(3) show ?thesis by (auto simp: allows_def)
  qed
  then show ?thesis using writer ps k by auto
qed

definition session_panel :: auth_panel where
  "session_panel = \<lparr>panel_auth = empty_auth\<lparr>admins := [new_admin ''a'' 0 ''root'' ''pw'' SuperAdmin],
     sessions := [\<lparr>n_token_hash = ''T'', n_csrf_hash = ''C'', n_admin = ''a'', n_source_ip = None,
       n_user_agent = None, n_created_at = 0, n_expires_at = 100, n_last_seen_at = 0\<rparr>]\<rparr>,
     panel_buckets = []\<rparr>"

definition browser_request :: http_request where
  "browser_request = \<lparr>hr_method = ''POST'',
     hr_header = [''cookie'' \<mapsto> ''a=b; vexa_session=T'', ''x-csrf-token'' \<mapsto> ''C''], hr_peer = None\<rparr>"

lemma browser_client: "client_ip browser_request = None"
  by (simp add: client_ip_def browser_request_def)

lemma limited_fresh:
  assumes "panel_buckets p = []" "0 < l" "0 < w" "w \<le> i64_max"
  shows "\<exists>p'. limited ns k l w now p = (p', Inr ()) \<and> panel_auth p' = panel_auth p"
proof -
  have "current_bucket now w None = fresh_bucket now w" by (simp add: current_bucket_def Let_def)
  then show ?thesis using assms
    by (simp add: limited_def rate_check_def Let_def max_buckets_def fresh_bucket_def)
qed

lemma browser_admitted:
  "\<exists>p' ctx. api_guard tiny_net demo_seal (env_settings tiny_env) browser_request 5 5 5 session_panel = (p', Inr ctx)"
proof -
  have "case authenticate_api_request tiny_net demo_seal browser_request None 5 (panel_auth session_panel) of
      Inr (d, Some ctx) \<Rightarrow> csrf_ok demo_seal browser_request ctx 5 d | _ \<Rightarrow> False" by code_simp
  then obtain d ctx where d:
    "authenticate_api_request tiny_net demo_seal browser_request None 5 (panel_auth session_panel) = Inr (d, Some ctx)"
    "csrf_ok demo_seal browser_request ctx 5 d" by (auto split: sum.splits prod.splits option.splits)
  have "panel_buckets (session_panel\<lparr>panel_auth := d\<rparr>) = []" by (simp add: session_panel_def)
  from limited_fresh [OF this, of "clamp 10 100000 600" 60 "''authenticated-api''" "api_rate_key ctx None" 5]
  obtain p' where "limited ''authenticated-api'' (api_rate_key ctx None) (clamp 10 100000 600) 60 5
      (session_panel\<lparr>panel_auth := d\<rparr>) = (p', Inr ())" "panel_auth p' = d"
    by (auto simp: clamp_def i64_max_def)
  then show ?thesis using d by (simp add: api_guard_def browser_client tiny_env_def)
qed

lemma guard_admits_only_authenticated_witness:
  "\<exists>p' ctx. api_guard tiny_net demo_seal (env_settings tiny_env) browser_request 5 5 5 session_panel = (p', Inr ctx)
    \<and> (\<exists>a. ac_admin ctx = Some a \<and> d_enabled a)"
proof -
  have ok: "auth_ok (panel_auth session_panel)"
    by (simp add: session_panel_def empty_auth_def auth_ok_def admins_ok_def sessions_ok_def keys_ok_def
        admin_ids_def new_admin_def)
  obtain p' ctx where g: "api_guard tiny_net demo_seal (env_settings tiny_env) browser_request 5 5 5 session_panel
      = (p', Inr ctx)" using browser_admitted by blast
  have "bearer_token browser_request = None" by (simp add: bearer_token_def browser_request_def)
  with guard_admits_only_authenticated [OF ok g] g show ?thesis by auto
qed

definition remote_request :: http_request where
  "remote_request = \<lparr>hr_method = ''GET'', hr_header = (\<lambda>_. None), hr_peer = Some (IpV4 0x08080808)\<rparr>"

lemma allowlist_binds_peer_witness:
  "client_ip (remote_request\<lparr>hr_header := [''x-real-ip'' \<mapsto> ''10.0.0.1'']\<rparr>) = client_ip remote_request"
proof -
  have "\<not> ip_is_loopback (IpV4 0x08080808)" by code_simp
  then have "client_ip remote_request = Some (show_ip (IpV4 0x08080808))
      \<and> client_ip (remote_request\<lparr>hr_header := [''x-real-ip'' \<mapsto> ''10.0.0.1'']\<rparr>) = client_ip remote_request
      \<and> (\<forall>w k. IpV4 0x08080808 = IpV4 w \<and> k_allowlist k \<noteq> [] \<and> source_allowed tiny_net (client_ip remote_request) k
        \<longrightarrow> (\<exists>cidr \<in> set (k_allowlist k). \<exists>n. net_parse tiny_net cidr = Some n
              \<and> net_contains tiny_net n (IpV4 0x08080808)))"
    by (intro allowlist_binds_peer) (simp_all add: remote_request_def)
  then show ?thesis by blast
qed

definition reader_context :: auth_context where
  "reader_context = \<lparr>ac_type = ''admin'', ac_id = ''a'', ac_admin = None,
     ac_permissions = [''api_keys:write'', ''vms:read''], ac_session = None\<rparr>"

lemma no_privilege_escalation_witness:
  "\<exists>d k. handle_create_api_key tiny_net reader_context ''k'' 1 (tiny_token ''T'') ''ci'' ['' vms:read ''] []
       (Inr None) empty_auth = Inr (d, k) \<and> d = empty_auth\<lparr>api_keys := [k]\<rparr> \<and> \<not> allows (key_context k) ''*''"
proof -
  have "is_ok (handle_create_api_key tiny_net reader_context ''k'' 1 (tiny_token ''T'') ''ci'' ['' vms:read ''] []
       (Inr None) empty_auth)" by code_simp
  then obtain d k where e: "handle_create_api_key tiny_net reader_context ''k'' 1 (tiny_token ''T'') ''ci''
       ['' vms:read ''] [] (Inr None) empty_auth = Inr (d, k)" by (metis is_ok_iff surj_pair)
  have "\<not> allows reader_context ''*''" by code_simp
  with e no_privilege_escalation [OF e] show ?thesis by (auto simp: empty_auth_def)
qed

end
