(* ===== verification/Login_Safety.thy ===== *)
theory Login_Safety
  imports Admin_Safety
begin

text \<open>
  What the login limits promise: whatever is tried, from one address only a bounded number of
  logins reach the check of a password in a quarter of an hour. A request's effect on the
  limiter's table is a list of limiter requests, so that the limiter's own lemma applies to
  a history of all requests.
\<close>

section \<open>Login attempts\<close>

text \<open>
  Whether a login from the address \<open>ip\<close> gets past the limits, to the check of the password,
  and how many logins of a history do.
\<close>

fun guess :: "'n auth_env \<Rightarrow> string \<Rightarrow> auth_panel \<Rightarrow> auth_request \<Rightarrow> nat" where
  "guess env ip p (Login session csrf r username password now clock) =
     (if or_unknown (client_ip r) = ip
         \<and> is_ok (snd (login_allowed (env_settings env) (or_unknown (client_ip r)) username now p))
      then 1 else 0)"
| "guess env ip p _ = 0"

fun guesses :: "'n auth_env \<Rightarrow> string \<Rightarrow> auth_panel \<Rightarrow> auth_request list \<Rightarrow> nat" where
  "guesses env ip p [] = 0"
| "guesses env ip p (a # as) = guess env ip p a + guesses env ip (attempt (auth_step env) p a) as"

text \<open>The limiter's clock readings of a request lie in a window.\<close>

fun during :: "timestamp \<Rightarrow> int \<Rightarrow> auth_request \<Rightarrow> bool" where
  "during s w (Guarded r t1 t2 t3) \<longleftrightarrow> s \<le> t2 \<and> t2 < s + w"
| "during s w (PublicApi r now) \<longleftrightarrow> s \<le> now \<and> now < s + w"
| "during s w (Login session csrf r username password now clock) \<longleftrightarrow> s \<le> now \<and> now < s + w"
| "during s w _ \<longleftrightarrow> True"

definition ip_bucket :: "string \<Rightarrow> string" where
  "ip_bucket ip = bucket_key ''admin-login-ip'' ip"

lemma ip_bucket_simps:
  "bucket_key ''admin-login-ip'' ip' = ip_bucket ip \<longleftrightarrow> ip' = ip"
  "bucket_key ''admin-login-account'' x \<noteq> ip_bucket ip"
  "bucket_key ''authenticated-api'' x \<noteq> ip_bucket ip"
  "bucket_key ''public-api-ip'' x \<noteq> ip_bucket ip"
  by (auto simp: ip_bucket_def bucket_key_def)

text \<open>
  The limiter requests \<open>rs\<close> lead from one table to another within the window, and grant the
  address's key \<open>c\<close> times.
\<close>

definition moves :: "string \<Rightarrow> nat \<Rightarrow> timestamp \<Rightarrow> rate_request list \<Rightarrow> buckets \<Rightarrow> nat \<Rightarrow> buckets \<Rightarrow> bool" where
  "moves ip limit s rs m c m' \<longleftrightarrow> (\<forall>r \<in> set rs. within_window (ip_bucket ip) limit 900 s r)
     \<and> m' = run_all rate_step m rs \<and> granted (ip_bucket ip) m rs = c"

lemma granted_append:
  "granted k m (rs @ rs') = granted k m rs + granted k (run_all rate_step m rs) rs'"
proof (induction rs arbitrary: m)
  case (Cons r rs)
  then show ?case by (cases r) (auto simp: attempt_def split: prod.splits)
qed simp

lemma run_all_append: "run_all step s (as @ bs) = run_all step (run_all step s as) bs"
  by (simp add: run_all_def)

lemma moves_nil: "moves ip limit s [] m 0 m"
  by (simp add: moves_def)

lemma moves_append:
  "moves ip limit s rs m c m1 \<Longrightarrow> moves ip limit s rs' m1 c' m' \<Longrightarrow> moves ip limit s (rs @ rs') m (c + c') m'"
  by (auto simp: moves_def run_all_append granted_append)

lemma moves_reset:
  "bucket_key ns key \<noteq> ip_bucket ip \<Longrightarrow> moves ip limit s [Reset ns key] m 0 (rate_reset ns key m)"
  by (simp add: moves_def within_window_def attempt_def)

lemma moves_limited:
  assumes "limited ns key l w now p = (p', x)" "s \<le> now" "now < s + 900"
    and "bucket_key ns key = ip_bucket ip \<Longrightarrow> l = limit \<and> w = 900"
  shows "moves ip limit s [Check ns key l w now] (panel_buckets p)
    (if bucket_key ns key = ip_bucket ip \<and> is_ok x then 1 else 0) (panel_buckets p')"
proof -
  obtain m where m: "rate_check ns key l w now (panel_buckets p) = (m, x)" "panel_buckets p' = m"
    using assms(1) by (auto simp: limited_def split: prod.splits)
  then show ?thesis using assms(2-4) by (auto simp: moves_def within_window_def attempt_def)
qed

definition login_cap :: "security_settings \<Rightarrow> nat" where
  "login_cap settings = min 4294967295 (login_limit settings * 4)"

lemma moves_login_allowed:
  assumes "login_allowed settings ip' u now p = (p', x)" "s \<le> now" "now < s + 900"
  obtains rs c where "moves ip (login_cap settings) s rs (panel_buckets p) c (panel_buckets p')"
    "(if ip' = ip \<and> is_ok x then 1 else 0) \<le> c"
proof -
  let ?l = "login_cap settings"
  obtain p1 y where e: "limited ''admin-login-ip'' ip' ?l 900 now p = (p1, y)"
    by (cases "limited ''admin-login-ip'' ip' ?l 900 now p")
  have first: "moves ip ?l s [Check ''admin-login-ip'' ip' ?l 900 now] (panel_buckets p)
      (if ip' = ip \<and> is_ok y then 1 else 0) (panel_buckets p1)"
    using moves_limited [OF e assms(2,3), of ip ?l] by (simp add: ip_bucket_simps)
  show ?thesis
  proof (cases y)
    case (Inl err)
    then have "p' = p1" "\<not> is_ok x" using e assms(1) by (auto simp: login_allowed_def login_cap_def)
    then show ?thesis using that first by simp
  next
    case (Inr u')
    then have e2: "limited ''admin-login-account'' (account_key ip' u) (login_limit settings) 900 now p1 = (p', x)"
      using assms(1) e by (simp add: login_allowed_def login_cap_def)
    have "moves ip ?l s [Check ''admin-login-account'' (account_key ip' u) (login_limit settings) 900 now]
        (panel_buckets p1) 0 (panel_buckets p')"
      using moves_limited [OF e2 assms(2,3), of ip ?l] by (simp add: ip_bucket_simps)
    from moves_append [OF first this] show ?thesis using that Inr by simp
  qed
qed

lemma moves_login:
  assumes "s \<le> now" "now < s + 900"
  obtains rs c where "moves ip (login_cap settings) s rs (panel_buckets p) c
      (panel_buckets (fst (login al settings secure session csrf r u password now clock p)))"
    "(if or_unknown (client_ip r) = ip
        \<and> is_ok (snd (login_allowed settings (or_unknown (client_ip r)) u now p)) then 1 else 0) \<le> c"
proof -
  obtain p1 x where e: "login_allowed settings (or_unknown (client_ip r)) u now p = (p1, x)"
    by (cases "login_allowed settings (or_unknown (client_ip r)) u now p")
  obtain rs c where first: "moves ip (login_cap settings) s rs (panel_buckets p) c (panel_buckets p1)"
      "(if or_unknown (client_ip r) = ip \<and> is_ok x then 1 else 0) \<le> c"
    by (rule moves_login_allowed [OF e assms])
  show ?thesis
  proof (cases "x = Inr () \<and> is_ok (verify_login al (panel_auth p1) u password)")
    case False
    then have "fst (login al settings secure session csrf r u password now clock p) = p1"
      using e by (cases x; cases "verify_login al (panel_auth p1) u password") (simp_all add: login_def Let_def)
    then show ?thesis using that first e by simp
  next
    case True
    let ?k = "account_key (or_unknown (client_ip r)) u"
    from True obtain a where a: "verify_login al (panel_auth p1) u password = Inr a"
      by (auto simp: is_ok_iff)
    have b: "panel_buckets (fst (login al settings secure session csrf r u password now clock p))
        = rate_reset ''admin-login-account'' ?k (panel_buckets p1)"
      using e True a by (auto simp: login_def Let_def split: prod.splits)
    have "moves ip (login_cap settings) s [Reset ''admin-login-account'' ?k] (panel_buckets p1) 0
        (rate_reset ''admin-login-account'' ?k (panel_buckets p1))"
      by (rule moves_reset) (simp add: ip_bucket_simps)
    from moves_append [OF first(1) this] show ?thesis using that first(2) e b by simp
  qed
qed

lemma moves_guard:
  assumes "s \<le> t2" "t2 < s + 900"
  obtains rs c where "moves ip l s rs (panel_buckets p) c
      (panel_buckets (fst (api_guard lib seal settings r t1 t2 t3 p)))"
proof (cases "authenticate_api_request lib seal r (client_ip r) t1 (panel_auth p)")
  case (Inl e)
  then have e: "fst (api_guard lib seal settings r t1 t2 t3 p) = p" by (simp add: api_guard_def)
  show ?thesis by (rule that [of "[]" 0]) (simp add: e moves_nil)
next
  case (Inr dx)
  obtain d x where dx: "dx = (d, x)" by (cases dx)
  show ?thesis
  proof (cases x)
    case None
    then have e: "fst (api_guard lib seal settings r t1 t2 t3 p) = p\<lparr>panel_auth := d\<rparr>"
      using Inr dx by (simp add: api_guard_def)
    show ?thesis by (rule that [of "[]" 0]) (simp add: e moves_nil)
  next
    case (Some ctx)
    let ?n = "clamp 10 100000 (case sec_api_limit settings of Some n \<Rightarrow> n | None \<Rightarrow> 600)"
    obtain p1 y where e: "limited ''authenticated-api'' (api_rate_key ctx (client_ip r)) ?n 60 t2
        (p\<lparr>panel_auth := d\<rparr>) = (p1, y)"
      by (cases "limited ''authenticated-api'' (api_rate_key ctx (client_ip r)) ?n 60 t2 (p\<lparr>panel_auth := d\<rparr>)")
    have "moves ip l s [Check ''authenticated-api'' (api_rate_key ctx (client_ip r)) ?n 60 t2]
        (panel_buckets p) 0 (panel_buckets p1)"
      using moves_limited [OF e assms, of ip l] by (simp add: ip_bucket_simps)
    moreover have "fst (api_guard lib seal settings r t1 t2 t3 p) = p1"
      using Inr dx Some e by (cases y) (simp_all add: api_guard_def)
    ultimately show ?thesis using that by simp
  qed
qed

lemma on_auth_buckets:
  "panel_buckets (case on_auth p r of Inl e \<Rightarrow> p | Inr p' \<Rightarrow> p') = panel_buckets p"
  by (auto simp: on_auth_Inr split: sum.splits)

lemma moves_step:
  assumes "during s 900 a"
  obtains rs c where "moves ip (login_cap (env_settings env)) s rs (panel_buckets p) c
      (panel_buckets (attempt (auth_step env) p a))" "guess env ip p a \<le> c"
proof -
  note step = that
  have quiet: thesis
    if "guess env ip p a = 0" "panel_buckets (attempt (auth_step env) p a) = panel_buckets p"
    by (rule step [of "[]" 0]) (simp_all add: that moves_nil)
  show thesis
  proof (cases a)
    case (Guarded r t1 t2 t3)
    with assms obtain rs c where "moves ip (login_cap (env_settings env)) s rs (panel_buckets p) c
      (panel_buckets (fst (api_guard (env_net env) (env_seal env) (env_settings env) r t1 t2 t3 p)))"
      using moves_guard by (metis during.simps(1))
    then show thesis using step Guarded by (simp add: attempt_def)
  next
    case (PublicApi r now)
    let ?n = "clamp 30 10000 (case sec_api_limit (env_settings env) of Some n \<Rightarrow> n | None \<Rightarrow> 600)"
    obtain p1 y where e: "limited ''public-api-ip'' (or_unknown (client_ip r)) ?n 60 now p = (p1, y)"
      by (cases "limited ''public-api-ip'' (or_unknown (client_ip r)) ?n 60 now p")
    have "moves ip (login_cap (env_settings env)) s [Check ''public-api-ip'' (or_unknown (client_ip r)) ?n 60 now]
        (panel_buckets p) 0 (panel_buckets p1)"
      using moves_limited [OF e, of s ip] assms PublicApi by (simp add: ip_bucket_simps)
    then show thesis using step PublicApi e by (simp add: attempt_def public_api_rate_limit_def Let_def)
  next
    case (Login session csrf r u password now clock)
    with assms have t: "s \<le> now" "now < s + 900" by simp_all
    show thesis
      by (rule moves_login [OF t, of ip "env_settings env" p "env_auth env" "env_secure env" session csrf r u
            password clock], rule step) (simp_all add: Login attempt_def)
  qed (use quiet in \<open>simp_all add: attempt_def on_auth_buckets\<close>)
qed

lemma moves_all:
  "\<forall>a \<in> set as. during s 900 a \<Longrightarrow>
   \<exists>rs c m. moves ip (login_cap (env_settings env)) s rs (panel_buckets p) c m \<and> guesses env ip p as \<le> c"
proof (induction as arbitrary: p)
  case Nil
  show ?case using moves_nil by fastforce
next
  case (Cons a as)
  obtain rs c where one: "moves ip (login_cap (env_settings env)) s rs (panel_buckets p) c
      (panel_buckets (attempt (auth_step env) p a))" "guess env ip p a \<le> c"
    by (rule moves_step [of s a ip env p]) (use Cons.prems in auto)
  obtain rs' c' m where "moves ip (login_cap (env_settings env)) s rs'
      (panel_buckets (attempt (auth_step env) p a)) c' m"
      "guesses env ip (attempt (auth_step env) p a) as \<le> c'"
    using Cons by fastforce
  with moves_append [OF one(1)] one(2) show ?case by fastforce
qed

section \<open>Properties\<close>

text \<open>
  C11. Password guessing is bounded: from any panel whose limiter holds no live window of the
  address at time \<open>s\<close>, over any history of requests in which the limiter's clock readings lie
  in the quarter of an hour from \<open>s\<close>, logins of any accounts from that address reach the check
  of a password at most four times the configured limit, and at most four thousand times,
  also when logins succeed in between and reset the account's own limit.
\<close>

theorem password_guesses_bounded:
  assumes "distinct (map fst (panel_buckets p))" "window_closed (ip_bucket ip) s (panel_buckets p)"
    and "\<forall>a \<in> set as. during s 900 a"
  shows "guesses env ip p as \<le> 4 * login_limit (env_settings env) \<and> guesses env ip p as \<le> 4000"
proof -
  obtain rs c m where rs: "moves ip (login_cap (env_settings env)) s rs (panel_buckets p) c m"
    and c: "guesses env ip p as \<le> c"
    using moves_all [OF assms(3), of ip env p] by blast
  have "granted (ip_bucket ip) (panel_buckets p) rs \<le> login_cap (env_settings env)"
    by (rule granted_closed [where s = s and w = 900])
      (use rs assms(1,2) in \<open>simp_all add: moves_def i64_max_def login_cap_def\<close>)
  moreover have "login_limit (env_settings env) \<le> 1000" by (simp add: login_limit_def clamp_def)
  ultimately show ?thesis using rs c by (simp add: moves_def login_cap_def)
qed

definition from_peer :: "string \<Rightarrow> (string \<Rightarrow> string option) \<Rightarrow> http_request" where
  "from_peer m h = \<lparr>hr_method = m, hr_header = h, hr_peer = Some (IpV4 0x0A000001)\<rparr>"

definition root_panel :: auth_panel where
  "root_panel = \<lparr>panel_auth = \<lparr>admins = [new_admin ''a'' 0 ''root'' ''pw'' SuperAdmin], sessions = [],
     api_keys = []\<rparr>, panel_buckets = []\<rparr>"

definition try_login :: "string \<Rightarrow> string \<Rightarrow> timestamp \<Rightarrow> auth_request" where
  "try_login name password now = Login (tiny_token ''s'') (tiny_token ''c'') (from_peer ''POST'' (\<lambda>_. None))
     name password now now"

lemma password_guesses_bounded_witness:
  "guesses tiny_env ''10.0.0.1'' root_panel (map (\<lambda>n. try_login ''root'' ''pw'' (100 + int n)) [0..<3]) \<le> 4
    \<and> guesses tiny_env ''10.0.0.1'' root_panel [try_login ''root'' ''pw'' 100] = 1"
proof
  show "guesses tiny_env ''10.0.0.1'' root_panel (map (\<lambda>n. try_login ''root'' ''pw'' (100 + int n)) [0..<3]) \<le> 4"
    by (rule conjunct1 [OF password_guesses_bounded [where s = 100], THEN order_trans])
      (simp_all add: root_panel_def window_closed_def try_login_def tiny_env_def login_limit_def clamp_def)
  have "show_ip (IpV4 167772161) = ''10.0.0.1''" by code_simp
  then show "guesses tiny_env ''10.0.0.1'' root_panel [try_login ''root'' ''pw'' 100] = 1"
    by (simp add: try_login_def from_peer_def root_panel_def login_allowed_def limited_def rate_check_def
        Let_def current_bucket_def fresh_bucket_def login_limit_def clamp_def tiny_env_def max_buckets_def
        client_ip_def ip_is_loopback_def or_unknown_def sat_sub_def i64_min_def i64_max_def
        octet_def bucket_key_def split: prod.splits)
qed

end
