(* ===== verification/Network_Policy.thy ===== *)
theory Network_Policy
  imports Ip_Inventory "HOL-Library.Char_ord" "HOL-Library.List_Lexorder" "HOL-Library.Product_Lexorder"
begin

text \<open>
  Network-security policy of VMs: validation and compilation
  (\<open>src/services/network_security.rs\<close>) and the operations of the database on profiles, firewall
  rules and the host policy (\<open>src/db.rs\<close>). The three tables are the record \<open>policy_db\<close>; they are touched by
  the rest of the database only when a VM is created or deleted.
\<close>

datatype fw_direction = Ingress | Egress

datatype fw_action = FwAccept | FwDrop | FwReject

datatype fw_protocol = FwAny | FwTcp | FwUdp | FwIcmp | FwIcmpv6

fun direction_text :: "fw_direction \<Rightarrow> string" where
  "direction_text Ingress = ''ingress''"
| "direction_text Egress = ''egress''"

fun action_text :: "fw_action \<Rightarrow> string" where
  "action_text FwAccept = ''accept''"
| "action_text FwDrop = ''drop''"
| "action_text FwReject = ''reject''"

fun protocol_text :: "fw_protocol \<Rightarrow> string" where
  "protocol_text FwAny = ''any''"
| "protocol_text FwTcp = ''tcp''"
| "protocol_text FwUdp = ''udp''"
| "protocol_text FwIcmp = ''icmp''"
| "protocol_text FwIcmpv6 = ''icmpv6''"

record port_range =
  pr_start :: nat
  pr_end :: nat

record rule_spec =
  f_priority :: nat
  f_direction :: fw_direction
  f_action :: fw_action
  f_protocol :: fw_protocol
  f_source :: "string option"
  f_destination :: "string option"
  f_source_ports :: "port_range list"
  f_destination_ports :: "port_range list"
  f_log :: bool
  f_enabled :: bool
  f_description :: string

text \<open>A stored rule: the specification with its identity and owner.\<close>

record rule_row = rule_spec +
  f_id :: string
  f_vm :: string
  f_owner_type :: string
  f_owner_id :: "string option"
  f_created_at :: timestamp
  f_updated_at :: timestamp

record net_profile =
  w_vm :: string
  w_firewall :: bool
  w_ddos :: bool
  w_ingress :: fw_action
  w_egress :: fw_action
  w_syn :: "nat option"
  w_udp :: "nat option"
  w_icmp :: "nat option"
  w_new :: "nat option"
  w_concurrent :: "nat option"
  w_port_scan :: bool
  w_drop_invalid :: bool
  w_revision :: nat
  w_applied_revision :: "nat option"
  w_applied_at :: "timestamp option"
  w_error :: "string option"
  w_created_at :: timestamp
  w_updated_at :: timestamp

record host_policy =
  h_guard :: bool
  h_bcp38 :: bool
  h_revision :: nat
  h_applied_revision :: "nat option"
  h_applied_at :: "timestamp option"
  h_error :: "string option"
  h_updated_by :: "string option"
  h_updated_at :: timestamp

section \<open>Validation\<close>

definition normalize_optional_network ::
  "'n ipnet_lib \<Rightarrow> string option \<Rightarrow> app_error + string option" where
  "normalize_optional_network lib value =
     (case value of
        None \<Rightarrow> Inr None
      | Some v \<Rightarrow>
          if trim v = [] then Inr None
          else and_then (canonical_ip_network lib (trim v)) (\<lambda>n. Inr (Some (net_show lib n))))"

definition bad_port_range :: "port_range \<Rightarrow> bool" where
  "bad_port_range r \<longleftrightarrow> pr_start r = 0 \<or> pr_end r = 0 \<or> pr_end r < pr_start r"

definition show_nat :: "nat \<Rightarrow> string" where
  "show_nat n = show_dec (int n)"

definition validate_port_ranges ::
  "string \<Rightarrow> fw_protocol \<Rightarrow> port_range list \<Rightarrow> app_error + unit" where
  "validate_port_ranges label protocol ranges =
     and_then (require (\<not> 64 < length ranges)
       (Validation (''at most 64 '' @ label @ '' port ranges are allowed''))) (\<lambda>_.
     and_then (require (ranges = [] \<or> protocol \<in> {FwTcp, FwUdp})
       (Validation ''port ranges are only valid for TCP and UDP rules'')) (\<lambda>_.
     check_all (\<lambda>r. require (\<not> bad_port_range r) (Validation (''invalid '' @ label @ '' port range ''
       @ show_nat (pr_start r) @ ''-'' @ show_nat (pr_end r)))) ranges))"

definition normalize_port_ranges :: "port_range list \<Rightarrow> port_range list" where
  "normalize_port_ranges ranges = remdups_adj (sort_key (\<lambda>r. (pr_start r, pr_end r)) ranges)"

definition parse_optional_net ::
  "'n ipnet_lib \<Rightarrow> string \<Rightarrow> string option \<Rightarrow> app_error + 'n option" where
  "parse_optional_net lib message value =
     (case value of
        None \<Rightarrow> Inr None
      | Some v \<Rightarrow> and_then (ok_or (net_parse lib v) (Validation message)) (\<lambda>n. Inr (Some n)))"

definition validate_protocol_families ::
  "'n ipnet_lib \<Rightarrow> fw_protocol \<Rightarrow> string option \<Rightarrow> string option \<Rightarrow> app_error + unit" where
  "validate_protocol_families lib protocol source destination =
     and_then (parse_optional_net lib ''normalized source CIDR is invalid'' source) (\<lambda>left.
     and_then (parse_optional_net lib ''normalized destination CIDR is invalid'' destination) (\<lambda>right.
     and_then (require (\<not> (case (left, right) of
           (Some l, Some r) \<Rightarrow> is_ipv4 (net_addr lib l) \<noteq> is_ipv4 (net_addr lib r) | _ \<Rightarrow> False))
       (Validation ''source and destination CIDRs must use the same address family'')) (\<lambda>_.
     let one = (case left of Some l \<Rightarrow> Some l | None \<Rightarrow> right);
         has_ipv6 = (case one of None \<Rightarrow> False | Some n \<Rightarrow> is_ipv6 (net_addr lib n));
         has_ipv4 = (case one of None \<Rightarrow> False | Some n \<Rightarrow> is_ipv4 (net_addr lib n)) in
     and_then (require (\<not> (protocol = FwIcmp \<and> has_ipv6))
       (Validation ''ICMP rules require IPv4 CIDRs'')) (\<lambda>_.
     require (\<not> (protocol = FwIcmpv6 \<and> has_ipv4))
       (Validation ''ICMPv6 rules require IPv6 CIDRs'')))))"

definition normalize_firewall_rule :: "'n ipnet_lib \<Rightarrow> rule_spec \<Rightarrow> app_error + rule_spec" where
  "normalize_firewall_rule lib spec =
     and_then (require (\<not> 512 < length (f_description spec))
       (Validation ''firewall rule description cannot exceed 512 bytes'')) (\<lambda>_.
     and_then (validate_port_ranges ''source'' (f_protocol spec) (f_source_ports spec)) (\<lambda>_.
     and_then (validate_port_ranges ''destination'' (f_protocol spec) (f_destination_ports spec)) (\<lambda>_.
     and_then (normalize_optional_network lib (f_source spec)) (\<lambda>source.
     and_then (normalize_optional_network lib (f_destination spec)) (\<lambda>destination.
     and_then (validate_protocol_families lib (f_protocol spec) source destination) (\<lambda>_.
     Inr (spec\<lparr>f_source := source, f_destination := destination,
       f_description := trim (f_description spec),
       f_source_ports := normalize_port_ranges (f_source_ports spec),
       f_destination_ports := normalize_port_ranges (f_destination_ports spec)\<rparr>)))))))"

definition validate_vm_network_security :: "net_profile \<Rightarrow> app_error + unit" where
  "validate_vm_network_security p =
     and_then (check_all (\<lambda>(label, limit). require (limit \<noteq> Some (0::nat))
         (Validation (label @ '' must be greater than zero'')))
       [(''syn_rate_limit_pps'', w_syn p), (''udp_rate_limit_pps'', w_udp p),
        (''icmp_rate_limit_pps'', w_icmp p), (''new_connection_limit_pps'', w_new p),
        (''concurrent_connection_limit'', w_concurrent p)]) (\<lambda>_.
     and_then (require (w_concurrent p = None)
       (Validation ''concurrent_connection_limit is not supported by this firewall backend'')) (\<lambda>_.
     require (\<not> (w_ddos p \<and> w_syn p = None \<and> w_udp p = None \<and> w_icmp p = None \<and> w_new p = None
         \<and> \<not> w_port_scan p \<and> \<not> w_drop_invalid p))
       (Validation ''DDoS protection requires at least one configured limit or packet check'')))"

section \<open>Compilation\<close>

record ddos_policy =
  c_syn :: "nat option"
  c_udp :: "nat option"
  c_icmp :: "nat option"
  c_new :: "nat option"
  c_concurrent :: "nat option"
  c_port_scan :: bool
  c_drop_invalid :: bool

record compiled_policy =
  cp_vm :: string
  cp_revision :: nat
  cp_firewall :: bool
  cp_ingress :: fw_action
  cp_egress :: fw_action
  cp_rules :: "rule_row list"
  cp_ddos :: "ddos_policy option"

definition spec_of :: "rule_row \<Rightarrow> rule_spec" where
  "spec_of r = rule_spec.truncate r"

definition rule_order :: "rule_row \<Rightarrow> string \<times> nat \<times> timestamp" where
  "rule_order r = (direction_text (f_direction r), f_priority r, f_created_at r)"

definition check_rule :: "'n ipnet_lib \<Rightarrow> string \<Rightarrow> rule_row \<Rightarrow> app_error + unit" where
  "check_rule lib vm r =
     and_then (require (f_vm r = vm) (Validation ''firewall rule belongs to a different VM'')) (\<lambda>_.
     and_then (normalize_firewall_rule lib (spec_of r)) (\<lambda>_. Inr ()))"

definition compiled_ddos :: "net_profile \<Rightarrow> ddos_policy option" where
  "compiled_ddos p =
     (if w_ddos p
      then Some \<lparr>c_syn = w_syn p, c_udp = w_udp p, c_icmp = w_icmp p, c_new = w_new p,
        c_concurrent = w_concurrent p, c_port_scan = w_port_scan p, c_drop_invalid = w_drop_invalid p\<rparr>
      else None)"

definition compile_vm_network_policy ::
  "'n ipnet_lib \<Rightarrow> net_profile \<Rightarrow> rule_row list \<Rightarrow> app_error + compiled_policy" where
  "compile_vm_network_policy lib p rules =
     and_then (validate_vm_network_security p) (\<lambda>_.
     and_then (check_all (check_rule lib (w_vm p)) rules) (\<lambda>_.
     Inr \<lparr>cp_vm = w_vm p, cp_revision = w_revision p, cp_firewall = w_firewall p,
       cp_ingress = w_ingress p, cp_egress = w_egress p,
       cp_rules = sort_key rule_order (filter (\<lambda>r. w_firewall p \<and> f_enabled r) rules),
       cp_ddos = compiled_ddos p\<rparr>))"

section \<open>Profiles in the database\<close>

record policy_db =
  profiles :: "net_profile list"
  fw_rules :: "rule_row list"
  host :: host_policy

type_synonym 'a policy_transaction = "app_error + (policy_db \<times> 'a)"

text \<open>The trigger on new VMs, and the cascade of deleted ones.\<close>

definition new_profile :: "string \<Rightarrow> timestamp \<Rightarrow> net_profile" where
  "new_profile vm now = \<lparr>w_vm = vm, w_firewall = False, w_ddos = False, w_ingress = FwAccept,
     w_egress = FwAccept, w_syn = Some 5000, w_udp = Some 25000, w_icmp = Some 1000,
     w_new = Some 10000, w_concurrent = None, w_port_scan = False, w_drop_invalid = False,
     w_revision = 0, w_applied_revision = None, w_applied_at = None, w_error = None,
     w_created_at = now, w_updated_at = now\<rparr>"

definition create_vm_network_security_profile :: "string \<Rightarrow> timestamp \<Rightarrow> policy_db \<Rightarrow> unit policy_transaction" where
  "create_vm_network_security_profile vm now d =
     and_then (require (\<forall>p \<in> set (profiles d). w_vm p \<noteq> vm) unique_error) (\<lambda>_.
     Inr (d\<lparr>profiles := profiles d @ [new_profile vm now]\<rparr>, ()))"

definition drop_vm_policy :: "string \<Rightarrow> policy_db \<Rightarrow> unit policy_transaction" where
  "drop_vm_policy vm d =
     Inr (d\<lparr>profiles := delete_where (\<lambda>p. w_vm p = vm) (profiles d),
            fw_rules := delete_where (\<lambda>r. f_vm r = vm) (fw_rules d)\<rparr>, ())"

definition vm_network_security :: "policy_db \<Rightarrow> string \<Rightarrow> net_profile option" where
  "vm_network_security d vm = select_one (\<lambda>p. w_vm p = vm) (profiles d)"

record profile_patch =
  x_firewall :: "bool option"
  x_ddos :: "bool option"
  x_ingress :: "fw_action option"
  x_egress :: "fw_action option"
  x_syn :: "nat option option"
  x_udp :: "nat option option"
  x_icmp :: "nat option option"
  x_new :: "nat option option"
  x_concurrent :: "nat option option"
  x_port_scan :: "bool option"
  x_drop_invalid :: "bool option"

definition or_else :: "'a \<Rightarrow> 'a option \<Rightarrow> 'a" where
  "or_else old new = (case new of None \<Rightarrow> old | Some v \<Rightarrow> v)"

definition profile_changed :: "profile_patch \<Rightarrow> bool" where
  "profile_changed x \<longleftrightarrow> x_firewall x \<noteq> None \<or> x_ddos x \<noteq> None \<or> x_ingress x \<noteq> None
     \<or> x_egress x \<noteq> None \<or> x_syn x \<noteq> None \<or> x_udp x \<noteq> None \<or> x_icmp x \<noteq> None \<or> x_new x \<noteq> None
     \<or> x_concurrent x \<noteq> None \<or> x_port_scan x \<noteq> None \<or> x_drop_invalid x \<noteq> None"

definition apply_profile_patch :: "profile_patch \<Rightarrow> net_profile \<Rightarrow> net_profile" where
  "apply_profile_patch x p = p\<lparr>
     w_firewall := or_else (w_firewall p) (x_firewall x), w_ddos := or_else (w_ddos p) (x_ddos x),
     w_ingress := or_else (w_ingress p) (x_ingress x), w_egress := or_else (w_egress p) (x_egress x),
     w_syn := or_else (w_syn p) (x_syn x), w_udp := or_else (w_udp p) (x_udp x),
     w_icmp := or_else (w_icmp p) (x_icmp x), w_new := or_else (w_new p) (x_new x),
     w_concurrent := or_else (w_concurrent p) (x_concurrent x),
     w_port_scan := or_else (w_port_scan p) (x_port_scan x),
     w_drop_invalid := or_else (w_drop_invalid p) (x_drop_invalid x)\<rparr>"

definition bumped :: "timestamp \<Rightarrow> net_profile \<Rightarrow> net_profile" where
  "bumped now p = p\<lparr>w_revision := w_revision p + 1, w_error := None, w_updated_at := now\<rparr>"

definition patch_vm_network_security ::
  "string \<Rightarrow> profile_patch \<Rightarrow> timestamp \<Rightarrow> policy_db \<Rightarrow> net_profile policy_transaction" where
  "patch_vm_network_security vm x now d =
     and_then (ok_or (vm_network_security d vm) (NotFound ''VM network security profile'')) (\<lambda>p.
     if \<not> profile_changed x then Inr (d, p)
     else
       let q = apply_profile_patch x p in
       and_then (validate_vm_network_security q) (\<lambda>_.
       let d1 = d\<lparr>profiles := update_where (\<lambda>p. w_vm p = vm)
             (\<lambda>p. bumped now (apply_profile_patch x p)) (profiles d)\<rparr> in
       and_then (ok_or (vm_network_security d1 vm) (NotFound ''VM network security profile'')) (\<lambda>r.
         Inr (d1, r))))"

definition revision_fits :: "nat \<Rightarrow> string \<Rightarrow> app_error + unit" where
  "revision_fits n label = require (int n \<le> i64_max) (Validation (label @ '' exceeds SQLite integer range''))"

definition marked_applied :: "nat \<Rightarrow> string option \<Rightarrow> timestamp \<Rightarrow> net_profile \<Rightarrow> net_profile" where
  "marked_applied revision err now p = p\<lparr>
     w_applied_revision := (if err = None then Some revision else w_applied_revision p),
     w_applied_at := (if err = None then Some now else w_applied_at p),
     w_error := err, w_updated_at := now\<rparr>"

definition mark_vm_network_security_applied ::
  "string \<Rightarrow> nat \<Rightarrow> string option \<Rightarrow> timestamp \<Rightarrow> policy_db \<Rightarrow> net_profile policy_transaction" where
  "mark_vm_network_security_applied vm revision err now d =
     and_then (revision_fits revision ''network security revision'') (\<lambda>_.
     and_then (ok_or (vm_network_security d vm) (NotFound ''VM network security profile'')) (\<lambda>current.
     and_then (require (w_revision current = revision)
       (Conflict ''network security policy changed before it could be applied'')) (\<lambda>_.
     let d1 = d\<lparr>profiles := update_where (\<lambda>p. w_vm p = vm) (marked_applied revision err now) (profiles d)\<rparr> in
     and_then (ok_or (vm_network_security d1 vm) (NotFound ''VM network security profile'')) (\<lambda>r.
       Inr (d1, r)))))"

section \<open>Firewall rules in the database\<close>

definition bump_vm_network_security_revision ::
  "string \<Rightarrow> timestamp \<Rightarrow> policy_db \<Rightarrow> unit policy_transaction" where
  "bump_vm_network_security_revision vm now d =
     and_then (require_changed (count_where (\<lambda>p. w_vm p = vm) (profiles d)) ''VM network security profile'') (\<lambda>_.
     Inr (d\<lparr>profiles := update_where (\<lambda>p. w_vm p = vm) (bumped now) (profiles d)\<rparr>, ()))"

definition get_vm_firewall_rule :: "policy_db \<Rightarrow> string \<Rightarrow> string \<Rightarrow> rule_row option" where
  "get_vm_firewall_rule d vm i = select_one (\<lambda>r. f_vm r = vm \<and> f_id r = i) (fw_rules d)"

definition list_vm_firewall_rules :: "policy_db \<Rightarrow> string \<Rightarrow> rule_row list" where
  "list_vm_firewall_rules d vm = sort_key (\<lambda>r. (rule_order r, f_id r)) (filter (\<lambda>r. f_vm r = vm) (fw_rules d))"

definition new_rule :: "string \<Rightarrow> string \<Rightarrow> string \<Rightarrow> string option \<Rightarrow> timestamp \<Rightarrow> rule_spec \<Rightarrow> rule_row" where
  "new_rule i vm owner_type owner_id now spec = rule_spec.extend spec
     (rule_row.fields i vm owner_type owner_id now now)"

definition create_vm_firewall_rule_owned ::
  "'n ipnet_lib \<Rightarrow> string \<Rightarrow> string \<Rightarrow> rule_spec \<Rightarrow> string \<Rightarrow> string option \<Rightarrow> timestamp
    \<Rightarrow> policy_db \<Rightarrow> rule_row policy_transaction" where
  "create_vm_firewall_rule_owned lib i vm spec owner_type owner_id now d =
     and_then (require (owner_type \<in> {''admin'', ''customer_token'', ''system''})
       (Validation ''firewall rule owner type is invalid'')) (\<lambda>_.
     and_then (require (\<not> (owner_type = ''customer_token'' \<and> owner_id = None))
       (Validation ''customer firewall rules require an owner ID'')) (\<lambda>_.
     and_then (normalize_firewall_rule lib spec) (\<lambda>spec.
     and_then (require (vm_network_security d vm \<noteq> None) (NotFound ''VM network security profile'')) (\<lambda>_.
     and_then (require (\<not> 256 \<le> count_where (\<lambda>r. f_vm r = vm) (fw_rules d))
       (Conflict ''a VM cannot have more than 256 firewall rules'')) (\<lambda>_.
     and_then (require (\<forall>r \<in> set (fw_rules d). f_id r \<noteq> i) unique_error) (\<lambda>_.
     and_then (bump_vm_network_security_revision vm now
         (d\<lparr>fw_rules := fw_rules d @ [new_rule i vm owner_type owner_id now spec]\<rparr>)) (\<lambda>(d1, _).
     and_then (ok_or (get_vm_firewall_rule d1 vm i) (NotFound ''VM firewall rule'')) (\<lambda>r. Inr (d1, r)))))))))"

record rule_patch =
  y_priority :: "nat option"
  y_direction :: "fw_direction option"
  y_action :: "fw_action option"
  y_protocol :: "fw_protocol option"
  y_source :: "string option option"
  y_destination :: "string option option"
  y_source_ports :: "port_range list option"
  y_destination_ports :: "port_range list option"
  y_log :: "bool option"
  y_enabled :: "bool option"
  y_description :: "string option"

definition rule_changed :: "rule_patch \<Rightarrow> bool" where
  "rule_changed y \<longleftrightarrow> y_priority y \<noteq> None \<or> y_direction y \<noteq> None \<or> y_action y \<noteq> None
     \<or> y_protocol y \<noteq> None \<or> y_source y \<noteq> None \<or> y_destination y \<noteq> None \<or> y_source_ports y \<noteq> None
     \<or> y_destination_ports y \<noteq> None \<or> y_log y \<noteq> None \<or> y_enabled y \<noteq> None \<or> y_description y \<noteq> None"

definition merged_rule :: "rule_patch \<Rightarrow> rule_row \<Rightarrow> rule_spec" where
  "merged_rule y r = \<lparr>f_priority = or_else (f_priority r) (y_priority y),
     f_direction = or_else (f_direction r) (y_direction y), f_action = or_else (f_action r) (y_action y),
     f_protocol = or_else (f_protocol r) (y_protocol y), f_source = or_else (f_source r) (y_source y),
     f_destination = or_else (f_destination r) (y_destination y),
     f_source_ports = or_else (f_source_ports r) (y_source_ports y),
     f_destination_ports = or_else (f_destination_ports r) (y_destination_ports y),
     f_log = or_else (f_log r) (y_log y), f_enabled = or_else (f_enabled r) (y_enabled y),
     f_description = or_else (f_description r) (y_description y)\<rparr>"

definition rewritten_rule :: "rule_spec \<Rightarrow> timestamp \<Rightarrow> rule_row \<Rightarrow> rule_row" where
  "rewritten_rule spec now r = rule_spec.extend spec (rule_row.fields (f_id r) (f_vm r)
     (f_owner_type r) (f_owner_id r) (f_created_at r) now)"

definition patch_vm_firewall_rule ::
  "'n ipnet_lib \<Rightarrow> string \<Rightarrow> string \<Rightarrow> rule_patch \<Rightarrow> timestamp \<Rightarrow> policy_db \<Rightarrow> rule_row policy_transaction" where
  "patch_vm_firewall_rule lib vm i y now d =
     and_then (ok_or (get_vm_firewall_rule d vm i) (NotFound ''VM firewall rule'')) (\<lambda>current.
     if \<not> rule_changed y then Inr (d, current)
     else
       and_then (normalize_firewall_rule lib (merged_rule y current)) (\<lambda>spec.
       and_then (bump_vm_network_security_revision vm now
           (d\<lparr>fw_rules := update_where (\<lambda>r. f_vm r = vm \<and> f_id r = i) (rewritten_rule spec now) (fw_rules d)\<rparr>))
         (\<lambda>(d1, _).
       and_then (ok_or (get_vm_firewall_rule d1 vm i) (NotFound ''VM firewall rule'')) (\<lambda>r. Inr (d1, r)))))"

definition delete_vm_firewall_rule :: "string \<Rightarrow> string \<Rightarrow> timestamp \<Rightarrow> policy_db \<Rightarrow> unit policy_transaction" where
  "delete_vm_firewall_rule vm i now d =
     (let p = (\<lambda>r. f_vm r = vm \<and> f_id r = i) in
      and_then (require_changed (count_where p (fw_rules d)) ''VM firewall rule'') (\<lambda>_.
      bump_vm_network_security_revision vm now (d\<lparr>fw_rules := delete_where p (fw_rules d)\<rparr>)))"

section \<open>The host policy\<close>

definition patch_hypervisor_network_security ::
  "bool option \<Rightarrow> bool option \<Rightarrow> string option \<Rightarrow> timestamp \<Rightarrow> policy_db \<Rightarrow> host_policy policy_transaction" where
  "patch_hypervisor_network_security guard bcp38 updated_by now d =
     (let current = host d; g = or_else (h_guard current) guard; b = or_else (h_bcp38 current) bcp38 in
      if g = h_guard current \<and> b = h_bcp38 current then Inr (d, current)
      else let d1 = d\<lparr>host := current\<lparr>h_guard := g, h_bcp38 := b, h_revision := h_revision current + 1,
                  h_error := None, h_updated_by := updated_by, h_updated_at := now\<rparr>\<rparr>
           in Inr (d1, host d1))"

definition mark_hypervisor_network_security_applied ::
  "nat \<Rightarrow> string option \<Rightarrow> timestamp \<Rightarrow> policy_db \<Rightarrow> host_policy policy_transaction" where
  "mark_hypervisor_network_security_applied revision err now d =
     and_then (revision_fits revision ''hypervisor network security revision'') (\<lambda>_.
     let current = host d in
     and_then (require (h_revision current = revision)
       (Conflict ''hypervisor network security policy changed before it could be applied'')) (\<lambda>_.
     let d1 = d\<lparr>host := current\<lparr>
           h_applied_revision := (if err = None then Some revision else h_applied_revision current),
           h_applied_at := (if err = None then Some now else h_applied_at current),
           h_error := err, h_updated_at := now\<rparr>\<rparr>
     in Inr (d1, host d1)))"

end
