(* ===== verification/Firewall_Rules.thy ===== *)
theory Firewall_Rules
  imports Network_Policy
begin

text \<open>
  The nftables script of \<open>src/services/firewall.rs\<close>: one base chain per hook with a jump for
  every protected TAP, and an ingress and an egress chain per VM. The functions append to a
  \<open>String\<close> in the source; here they return the text they append, or the error.
\<close>

definition nl :: string where
  "nl = [CHR 0x0A]"

definition dquote :: string where
  "dquote = [CHR 0x22]"

text \<open>\<open>validate_mac_address\<close> (\<open>src/hypervisor/mod.rs\<close>).\<close>

definition validate_mac_address :: "string \<Rightarrow> hv_error + unit" where
  "validate_mac_address mac =
     (let parts = split_on (CHR '':'') mac in
      require (\<not> (length parts \<noteq> 6 \<or> (\<exists>p \<in> set parts. length p \<noteq> 2 \<or> \<not> list_all is_ascii_hex p)))
        (HvInvalidInput ''MAC address must use six colon-separated hexadecimal octets''))"

definition interface_char :: "char \<Rightarrow> bool" where
  "interface_char c \<longleftrightarrow> is_ascii_alnum c \<or> c \<in> {CHR ''_'', CHR ''-'', CHR ''.'', CHR '':''}"

definition validated_interface_name :: "string option \<Rightarrow> app_error + string" where
  "validated_interface_name v =
     and_then (ok_or v (Conflict
       ''VM network protection requires a detected host interface; start the VM and retry'')) (\<lambda>i.
     if 1 \<le> length i \<and> length i \<le> 15 \<and> is_ascii_alnum (hd i) \<and> list_all interface_char i
     then Inr i else Inl (Validation ''stored VM host interface name is invalid''))"

section \<open>Single rules\<close>

definition render_port :: "port_range \<Rightarrow> string" where
  "render_port r = (if pr_start r = pr_end r then show_nat (pr_start r)
     else show_nat (pr_start r) @ ''-'' @ show_nat (pr_end r))"

definition render_ports :: "port_range list \<Rightarrow> string" where
  "render_ports ranges = ''{ '' @ join_with '', '' (map render_port ranges) @ '' }''"

definition network_token :: "'n ipnet_lib \<Rightarrow> string \<Rightarrow> 'n \<Rightarrow> string" where
  "network_token lib side n =
     (if is_ipv4 (net_addr lib n) then ''ip'' else ''ip6'') @ '' '' @ side @ '' '' @ net_show lib n"

definition network_tokens ::
  "'n ipnet_lib \<Rightarrow> string \<Rightarrow> string \<Rightarrow> string option \<Rightarrow> app_error + string list" where
  "network_tokens lib label side v =
     (case v of
        None \<Rightarrow> Inr []
      | Some c \<Rightarrow> and_then (ok_or (net_parse lib c) (Validation (''stored firewall '' @ label @ '' CIDR is invalid'')))
          (\<lambda>n. Inr [network_token lib side n]))"

fun protocol_tokens :: "fw_protocol \<Rightarrow> string list" where
  "protocol_tokens FwAny = []"
| "protocol_tokens FwTcp = [''meta l4proto tcp'']"
| "protocol_tokens FwUdp = [''meta l4proto udp'']"
| "protocol_tokens FwIcmp = [''meta l4proto icmp'']"
| "protocol_tokens FwIcmpv6 = [''meta l4proto ipv6-icmp'']"

definition port_tokens :: "'a rule_spec_scheme \<Rightarrow> string list" where
  "port_tokens r =
     (if f_protocol r \<in> {FwTcp, FwUdp}
      then (if f_source_ports r = [] then []
            else [protocol_text (f_protocol r) @ '' sport '' @ render_ports (f_source_ports r)])
         @ (if f_destination_ports r = [] then []
            else [protocol_text (f_protocol r) @ '' dport '' @ render_ports (f_destination_ports r)])
      else [])"

definition log_tokens :: "bool \<Rightarrow> string list" where
  "log_tokens logged =
     (if logged then [''limit rate 10/second burst 20 packets'',
        ''log prefix '' @ dquote @ ''vexa-vm '' @ dquote @ '' flags all''] else [])"

definition render_firewall_rule :: "'n ipnet_lib \<Rightarrow> 'a rule_spec_scheme \<Rightarrow> app_error + string" where
  "render_firewall_rule lib r =
     and_then (network_tokens lib ''source'' ''saddr'' (f_source r)) (\<lambda>src.
     and_then (network_tokens lib ''destination'' ''daddr'' (f_destination r)) (\<lambda>dst.
     Inr (''    '' @ join_with '' '' (src @ dst @ protocol_tokens (f_protocol r) @ port_tokens r
       @ log_tokens (f_log r) @ [''counter'', action_text (f_action r)]) @ nl)))"

section \<open>Ownership of managed addresses\<close>

definition assigned_address :: "bool \<Rightarrow> string \<Rightarrow> app_error + ip_addr" where
  "assigned_address v4 s =
     and_then (ok_or (parse_ip s) (Validation ''stored assigned IP address is invalid'')) (\<lambda>a.
     if is_ipv4 a \<noteq> v4 then Inl (Validation ''stored assigned IP address has the wrong family'') else Inr a)"

definition validated_assigned_addresses :: "string list \<Rightarrow> bool \<Rightarrow> app_error + ip_addr list" where
  "validated_assigned_addresses values v4 = map_all (assigned_address v4) values"

definition render_managed_subnet_drop ::
  "'n ipnet_lib \<Rightarrow> string \<Rightarrow> string \<Rightarrow> 'n \<Rightarrow> string list \<Rightarrow> string" where
  "render_managed_subnet_drop lib selector address_selector subnet owned =
     ''    '' @ selector @ '' '' @ net_show lib subnet
     @ (if owned = [] then [] else '' '' @ address_selector @ '' != { '' @ join_with '', '' owned @ '' }'')
     @ '' counter drop'' @ nl"

fun guard_selectors :: "fw_direction \<Rightarrow> bool \<Rightarrow> string \<times> string" where
  "guard_selectors Ingress True = (''ether type ip ip daddr'', ''ip daddr'')"
| "guard_selectors Ingress False = (''ether type ip6 ip6 daddr'', ''ip6 daddr'')"
| "guard_selectors Egress True = (''ether type ip ip saddr'', ''ip saddr'')"
| "guard_selectors Egress False = (''ether type ip6 ip6 saddr'', ''ip6 saddr'')"

definition owned_in :: "'n ipnet_lib \<Rightarrow> 'n \<Rightarrow> ip_addr list \<Rightarrow> ip_addr list \<Rightarrow> ip_addr list" where
  "owned_in lib subnet v4 v6 =
     filter (net_contains lib subnet) (if is_ipv4 (net_addr lib subnet) then v4 else v6)"

definition render_subnet_guard ::
  "'n ipnet_lib \<Rightarrow> fw_direction \<Rightarrow> ip_addr list \<Rightarrow> ip_addr list \<Rightarrow> 'n \<Rightarrow> string" where
  "render_subnet_guard lib direction v4 v6 subnet =
     (let owned = map show_ip (owned_in lib subnet v4 v6);
          (selector, address_selector) = guard_selectors direction (is_ipv4 (net_addr lib subnet)) in
      render_managed_subnet_drop lib selector address_selector subnet owned
      @ (if direction = Egress \<and> is_ipv4 (net_addr lib subnet)
         then render_managed_subnet_drop lib ''ether type arp arp saddr ip'' ''arp saddr ip'' subnet owned
         else []))"

definition render_ip_ownership_guard ::
  "'n ipnet_lib \<Rightarrow> fw_direction \<Rightarrow> 'n list \<Rightarrow> string list \<Rightarrow> string list \<Rightarrow> app_error + string" where
  "render_ip_ownership_guard lib direction subnets ipv4 ipv6 =
     and_then (validated_assigned_addresses ipv4 True) (\<lambda>v4.
     and_then (validated_assigned_addresses ipv6 False) (\<lambda>v6.
     Inr (concat (map (render_subnet_guard lib direction v4 v6) subnets))))"

section \<open>DDoS limits and source validation\<close>

definition u32_max :: nat where
  "u32_max = 4294967295"

text \<open>\<open>limit.saturating_mul(2).max(1)\<close>.\<close>

definition burst :: "nat \<Rightarrow> nat" where
  "burst limit = max (min (limit * 2) u32_max) 1"

definition limit_text :: "nat \<Rightarrow> string" where
  "limit_text limit = ''limit rate over '' @ show_nat limit @ ''/second burst '' @ show_nat (burst limit)
     @ '' packets counter drop'' @ nl"

definition new_limit :: "ddos_policy \<Rightarrow> nat option" where
  "new_limit c = (case c_new c of Some n \<Rightarrow> Some n | None \<Rightarrow> if c_port_scan c then Some 50 else None)"

definition when_some :: "'a option \<Rightarrow> ('a \<Rightarrow> 'b list) \<Rightarrow> 'b list" where
  "when_some v f = (case v of None \<Rightarrow> [] | Some x \<Rightarrow> f x)"

definition render_ddos_rules :: "compiled_policy \<Rightarrow> string" where
  "render_ddos_rules policy =
     when_some (cp_ddos policy) (\<lambda>c.
       (if c_drop_invalid c then ''    ct state invalid counter drop'' @ nl else [])
       @ when_some (c_syn c) (\<lambda>n. ''    tcp flags & (syn | ack) == syn '' @ limit_text n)
       @ when_some (c_udp c) (\<lambda>n. ''    meta l4proto udp '' @ limit_text n)
       @ when_some (c_icmp c) (\<lambda>n. ''    meta l4proto { icmp, ipv6-icmp } '' @ limit_text n)
       @ when_some (new_limit c) (\<lambda>n. ''    ct state new meta l4proto tcp '' @ limit_text n))"

definition allowed_address :: "bool \<Rightarrow> string \<Rightarrow> app_error + string" where
  "allowed_address v4 s =
     and_then (ok_or (parse_ip s) (Validation (''stored assigned '' @ (if v4 then ''IPv4'' else ''IPv6'')
       @ '' address is invalid''))) (\<lambda>a.
     if is_ipv4 a \<noteq> v4 then Inl (Validation (''stored assigned '' @ (if v4 then ''IPv4'' else ''IPv6'')
       @ '' address has the wrong family'')) else Inr (show_ip a))"

definition source_rule :: "string \<Rightarrow> string list \<Rightarrow> string" where
  "source_rule selector allowed =
     ''    '' @ selector @ '' != { '' @ join_with '', '' allowed @ '' } counter drop'' @ nl"

definition render_bcp38 :: "string option \<Rightarrow> string list \<Rightarrow> string list \<Rightarrow> app_error + string" where
  "render_bcp38 mac ipv4 ipv6 =
     and_then (ok_or mac (Conflict ''BCP38 requires the VM's configured MAC address'')) (\<lambda>m.
     and_then (map_err app_error_of_hv (validate_mac_address m)) (\<lambda>_.
     and_then (map_all (allowed_address True) ipv4) (\<lambda>a4.
     and_then (map_all (allowed_address False) ipv6) (\<lambda>a6.
     let v4 = ''0.0.0.0'' # a4; v6 = ''::'' # ''fe80::/10'' # a6 in
     Inr (''    ether saddr != '' @ ascii_lower m @ '' counter drop'' @ nl
       @ source_rule ''ether type arp arp saddr ip'' v4
       @ source_rule ''ether type ip ip saddr'' v4
       @ source_rule ''ether type ip6 ip6 saddr'' v6)))))"

section \<open>The rule set\<close>

record 'n guard_switches =
  gs_ownership :: bool
  gs_bcp38 :: bool
  gs_subnets :: "'n list"

record vm_policy =
  vp_vm :: vm_row
  vp_profile :: net_profile
  vp_rules :: "rule_row list"
  vp_ipv4 :: "string list"
  vp_ipv6 :: "string list"

definition guard_active :: "'n guard_switches \<Rightarrow> bool" where
  "guard_active g \<longleftrightarrow> gs_ownership g \<and> gs_subnets g \<noteq> []"

definition policy_active :: "'n guard_switches \<Rightarrow> vm_policy \<Rightarrow> bool" where
  "policy_active g v \<longleftrightarrow> v_libvirt_uuid (vp_vm v) \<noteq> None
     \<and> (w_firewall (vp_profile v) \<or> w_ddos (vp_profile v) \<or> guard_active g \<or> gs_bcp38 g)"

definition delete_table_text :: string where
  "delete_table_text = ''delete table bridge vexa_vm'' @ nl"

definition jump_text :: "string \<Rightarrow> string \<Rightarrow> nat \<Rightarrow> string \<Rightarrow> string" where
  "jump_text side interface k chain =
     ''    '' @ side @ '' '' @ dquote @ interface @ dquote @ '' jump vm'' @ show_nat k @ chain @ nl"

definition egress_jump :: "nat \<Rightarrow> string \<Rightarrow> string" where
  "egress_jump k interface = jump_text ''iifname'' interface k ''_egress''"

definition ingress_jump :: "nat \<Rightarrow> string \<Rightarrow> string" where
  "ingress_jump k interface = jump_text ''oifname'' interface k ''_ingress''"

definition base_chain ::
  "string \<Rightarrow> (nat \<Rightarrow> string \<Rightarrow> string) \<Rightarrow> (nat \<times> vm_policy) list \<Rightarrow> app_error + string" where
  "base_chain hook jumps active =
     and_then (map_all (\<lambda>(k, v). and_then (validated_interface_name (v_tap (vp_vm v)))
         (\<lambda>i. Inr (jumps k i))) active) (\<lambda>lines.
     Inr (''  chain '' @ hook @ '' { type filter hook '' @ hook @ '' priority -10; policy accept;'' @ nl
       @ concat lines @ ''  }'' @ nl))"

definition established_text :: "compiled_policy \<Rightarrow> string" where
  "established_text c =
     (if cp_firewall c then ''    ct state established,related counter accept'' @ nl else [])"

definition default_text :: "compiled_policy \<Rightarrow> fw_action \<Rightarrow> string" where
  "default_text c a =
     (if cp_firewall c \<and> action_text a \<noteq> ''accept'' then ''    counter '' @ action_text a @ nl else [])"

definition directed :: "fw_direction \<Rightarrow> compiled_policy \<Rightarrow> rule_row list" where
  "directed direction c = filter (\<lambda>r. f_direction r = direction) (cp_rules c)"

definition guard_text ::
  "'n ipnet_lib \<Rightarrow> 'n guard_switches \<Rightarrow> fw_direction \<Rightarrow> vm_policy \<Rightarrow> app_error + string" where
  "guard_text lib g direction v =
     (if guard_active g
      then render_ip_ownership_guard lib direction (gs_subnets g) (vp_ipv4 v) (vp_ipv6 v) else Inr [])"

definition render_vm_chains ::
  "'n ipnet_lib \<Rightarrow> 'n guard_switches \<Rightarrow> nat \<times> vm_policy \<Rightarrow> app_error + string" where
  "render_vm_chains lib g = (\<lambda>(k, v).
     and_then (compile_vm_network_policy lib (vp_profile v) (vp_rules v)) (\<lambda>c.
     and_then (guard_text lib g Ingress v) (\<lambda>guard_in.
     and_then (map_all (render_firewall_rule lib) (directed Ingress c)) (\<lambda>rules_in.
     and_then (guard_text lib g Egress v) (\<lambda>guard_out.
     and_then (if gs_bcp38 g then render_bcp38 (v_mac (vp_vm v)) (vp_ipv4 v) (vp_ipv6 v) else Inr []) (\<lambda>bcp38.
     and_then (map_all (render_firewall_rule lib) (directed Egress c)) (\<lambda>rules_out.
     Inr (''  chain vm'' @ show_nat k @ ''_ingress {'' @ nl @ guard_in @ render_ddos_rules c
       @ established_text c @ concat rules_in @ default_text c (cp_ingress c) @ ''  }'' @ nl
       @ ''  chain vm'' @ show_nat k @ ''_egress {'' @ nl @ guard_out @ bcp38
       @ established_text c @ concat rules_out @ default_text c (cp_egress c) @ ''  }'' @ nl))))))))"

definition render_ruleset ::
  "'n ipnet_lib \<Rightarrow> 'n guard_switches \<Rightarrow> vm_policy list \<Rightarrow> bool \<Rightarrow> app_error + string" where
  "render_ruleset lib g desired table_exists =
     (let active = filter (policy_active g) desired;
          indexed = enumerate 0 active;
          delete = (if table_exists then delete_table_text else []) in
      if active = [] then Inr delete
      else
        and_then (base_chain ''forward'' (\<lambda>k i. egress_jump k i @ ingress_jump k i) indexed) (\<lambda>forward.
        and_then (base_chain ''input'' egress_jump indexed) (\<lambda>input.
        and_then (base_chain ''output'' ingress_jump indexed) (\<lambda>output.
        and_then (map_all (render_vm_chains lib g) indexed) (\<lambda>chains.
        Inr (delete @ ''table bridge vexa_vm {'' @ nl @ forward @ input @ output @ concat chains
          @ ''}'' @ nl))))))"

end
