(* ===== verification/Firewall_Spec.thy ===== *)
theory Firewall_Spec
  imports Firewall_Rules
begin

text \<open>
  What the nftables script means: an abstract rule is a list of matches and a verdict, a table
  has for each protected TAP its ingress and its egress rules, and a packet is decided by the
  first rule that matches. Rate limiters depend on earlier traffic: whether one is exhausted
  for the packet at hand is the environment \<open>nft_env\<close>. The refinement theorem says that the
  script is the text of the table.
\<close>

section \<open>Rules and their text\<close>

datatype addr_field = Ip4Src | Ip4Dst | Ip6Src | Ip6Dst | ArpSrc

fun field_ether :: "addr_field \<Rightarrow> string" where
  "field_ether Ip4Src = ''ether type ip''"
| "field_ether Ip4Dst = ''ether type ip''"
| "field_ether Ip6Src = ''ether type ip6''"
| "field_ether Ip6Dst = ''ether type ip6''"
| "field_ether ArpSrc = ''ether type arp''"

fun field_text :: "addr_field \<Rightarrow> string" where
  "field_text Ip4Src = ''ip saddr''"
| "field_text Ip4Dst = ''ip daddr''"
| "field_text Ip6Src = ''ip6 saddr''"
| "field_text Ip6Dst = ''ip6 daddr''"
| "field_text ArpSrc = ''arp saddr ip''"

text \<open>An element of an address set: an address, or a network given by its text.\<close>

datatype addr_item = OneAddress ip_addr | AddressRange string

fun item_text :: "addr_item \<Rightarrow> string" where
  "item_text (OneAddress a) = show_ip a"
| "item_text (AddressRange s) = s"

datatype 'n nft_match =
    EtherType addr_field
  | FieldIn addr_field 'n
  | FieldNotIn addr_field "addr_item list"
  | MacIsNot string
  | CtEstablished | CtInvalid | CtNew
  | TcpSyn | AnyIcmp | Proto fw_protocol
  | SourcePort fw_protocol "port_range list"
  | DestinationPort fw_protocol "port_range list"
  | RateOver nat nat
  | SampleLimit | LogPacket

definition set_text :: "string list \<Rightarrow> string" where
  "set_text items = ''{ '' @ join_with '', '' items @ '' }''"

fun match_text :: "'n ipnet_lib \<Rightarrow> 'n nft_match \<Rightarrow> string" where
  "match_text lib (EtherType f) = field_ether f"
| "match_text lib (FieldIn f n) = field_text f @ '' '' @ net_show lib n"
| "match_text lib (FieldNotIn f items) = field_text f @ '' != '' @ set_text (map item_text items)"
| "match_text lib (MacIsNot m) = ''ether saddr != '' @ m"
| "match_text lib CtEstablished = ''ct state established,related''"
| "match_text lib CtInvalid = ''ct state invalid''"
| "match_text lib CtNew = ''ct state new''"
| "match_text lib TcpSyn = ''tcp flags & (syn | ack) == syn''"
| "match_text lib AnyIcmp = ''meta l4proto { icmp, ipv6-icmp }''"
| "match_text lib (Proto p) = concat (protocol_tokens p)"
| "match_text lib (SourcePort p rs) = protocol_text p @ '' sport '' @ render_ports rs"
| "match_text lib (DestinationPort p rs) = protocol_text p @ '' dport '' @ render_ports rs"
| "match_text lib (RateOver n b) =
     ''limit rate over '' @ show_nat n @ ''/second burst '' @ show_nat b @ '' packets''"
| "match_text lib SampleLimit = ''limit rate 10/second burst 20 packets''"
| "match_text lib LogPacket = ''log prefix '' @ dquote @ ''vexa-vm '' @ dquote @ '' flags all''"

type_synonym 'n nft_rule = "'n nft_match list \<times> fw_action"

definition rule_text :: "'n ipnet_lib \<Rightarrow> 'n nft_rule \<Rightarrow> string" where
  "rule_text lib r = ''    '' @ join_with '' '' (map (match_text lib) (fst r) @ [''counter'', action_text (snd r)]) @ nl"

definition rules_text :: "'n ipnet_lib \<Rightarrow> 'n nft_rule list \<Rightarrow> string" where
  "rules_text lib rs = concat (map (rule_text lib) rs)"

text \<open>A VM's part of the table: its TAP, its ingress and its egress rules.\<close>

record 'n tap_rules =
  tr_tap :: string
  tr_ingress :: "'n nft_rule list"
  tr_egress :: "'n nft_rule list"

definition chain_text :: "string \<Rightarrow> nat \<Rightarrow> 'n ipnet_lib \<Rightarrow> 'n nft_rule list \<Rightarrow> string" where
  "chain_text side k lib rs =
     ''  chain vm'' @ show_nat k @ side @ '' {'' @ nl @ rules_text lib rs @ ''  }'' @ nl"

definition hook_text :: "string \<Rightarrow> (nat \<Rightarrow> string \<Rightarrow> string) \<Rightarrow> (nat \<times> 'n tap_rules) list \<Rightarrow> string" where
  "hook_text hook jumps table =
     ''  chain '' @ hook @ '' { type filter hook '' @ hook @ '' priority -10; policy accept;'' @ nl
     @ concat (map (\<lambda>(k, t). jumps k (tr_tap t)) table) @ ''  }'' @ nl"

definition table_text :: "'n ipnet_lib \<Rightarrow> 'n tap_rules list \<Rightarrow> string" where
  "table_text lib table =
     (if table = [] then []
      else let indexed = enumerate 0 table in
        ''table bridge vexa_vm {'' @ nl
        @ hook_text ''forward'' (\<lambda>k i. egress_jump k i @ ingress_jump k i) indexed
        @ hook_text ''input'' egress_jump indexed
        @ hook_text ''output'' ingress_jump indexed
        @ concat (map (\<lambda>(k, t). chain_text ''_ingress'' k lib (tr_ingress t)
            @ chain_text ''_egress'' k lib (tr_egress t)) indexed)
        @ ''}'' @ nl)"

section \<open>The rules of a VM\<close>

definition side_field :: "string \<Rightarrow> bool \<Rightarrow> addr_field" where
  "side_field side v4 =
     (if side = ''saddr'' then if v4 then Ip4Src else Ip6Src else if v4 then Ip4Dst else Ip6Dst)"

definition network_matches ::
  "'n ipnet_lib \<Rightarrow> string \<Rightarrow> string \<Rightarrow> string option \<Rightarrow> app_error + 'n nft_match list" where
  "network_matches lib label side v =
     (case v of
        None \<Rightarrow> Inr []
      | Some c \<Rightarrow> and_then (ok_or (net_parse lib c) (Validation (''stored firewall '' @ label @ '' CIDR is invalid'')))
          (\<lambda>n. Inr [FieldIn (side_field side (is_ipv4 (net_addr lib n))) n]))"

definition port_matches :: "'a rule_spec_scheme \<Rightarrow> 'n nft_match list" where
  "port_matches r =
     (if f_protocol r \<in> {FwTcp, FwUdp}
      then (if f_source_ports r = [] then [] else [SourcePort (f_protocol r) (f_source_ports r)])
         @ (if f_destination_ports r = [] then [] else [DestinationPort (f_protocol r) (f_destination_ports r)])
      else [])"

definition tenant_rule :: "'n ipnet_lib \<Rightarrow> 'a rule_spec_scheme \<Rightarrow> app_error + 'n nft_rule" where
  "tenant_rule lib r =
     and_then (network_matches lib ''source'' ''saddr'' (f_source r)) (\<lambda>src.
     and_then (network_matches lib ''destination'' ''daddr'' (f_destination r)) (\<lambda>dst.
     Inr (src @ dst @ (if f_protocol r = FwAny then [] else [Proto (f_protocol r)]) @ port_matches r
       @ (if f_log r then [SampleLimit, LogPacket] else []), f_action r)))"

definition managed_drop :: "addr_field \<Rightarrow> 'n \<Rightarrow> ip_addr list \<Rightarrow> 'n nft_rule" where
  "managed_drop f subnet owned =
     ([EtherType f, FieldIn f subnet] @ (if owned = [] then [] else [FieldNotIn f (map OneAddress owned)]), FwDrop)"

definition subnet_guard ::
  "'n ipnet_lib \<Rightarrow> fw_direction \<Rightarrow> ip_addr list \<Rightarrow> ip_addr list \<Rightarrow> 'n \<Rightarrow> 'n nft_rule list" where
  "subnet_guard lib direction v4 v6 subnet =
     (let owned = owned_in lib subnet v4 v6; four = is_ipv4 (net_addr lib subnet) in
      managed_drop (case direction of Ingress \<Rightarrow> if four then Ip4Dst else Ip6Dst
        | Egress \<Rightarrow> if four then Ip4Src else Ip6Src) subnet owned
      # (if direction = Egress \<and> four then [managed_drop ArpSrc subnet owned] else []))"

definition ownership_rules ::
  "'n ipnet_lib \<Rightarrow> 'n guard_switches \<Rightarrow> fw_direction \<Rightarrow> vm_policy \<Rightarrow> app_error + 'n nft_rule list" where
  "ownership_rules lib g direction v =
     (if guard_active g
      then and_then (validated_assigned_addresses (vp_ipv4 v) True) (\<lambda>v4.
           and_then (validated_assigned_addresses (vp_ipv6 v) False) (\<lambda>v6.
           Inr (concat (map (subnet_guard lib direction v4 v6) (gs_subnets g)))))
      else Inr [])"

definition over_limit :: "nat \<Rightarrow> 'n nft_match list \<Rightarrow> 'n nft_rule list" where
  "over_limit n ms = [(ms @ [RateOver n (burst n)], FwDrop)]"

definition ddos_rules :: "compiled_policy \<Rightarrow> 'n nft_rule list" where
  "ddos_rules policy =
     when_some (cp_ddos policy) (\<lambda>c.
       (if c_drop_invalid c then [([CtInvalid], FwDrop)] else [])
       @ when_some (c_syn c) (\<lambda>n. over_limit n [TcpSyn])
       @ when_some (c_udp c) (\<lambda>n. over_limit n [Proto FwUdp])
       @ when_some (c_icmp c) (\<lambda>n. over_limit n [AnyIcmp])
       @ when_some (new_limit c) (\<lambda>n. over_limit n [CtNew, Proto FwTcp]))"

definition allowed_item :: "bool \<Rightarrow> string \<Rightarrow> app_error + addr_item" where
  "allowed_item v4 s =
     and_then (ok_or (parse_ip s) (Validation (''stored assigned '' @ (if v4 then ''IPv4'' else ''IPv6'')
       @ '' address is invalid''))) (\<lambda>a.
     if is_ipv4 a \<noteq> v4 then Inl (Validation (''stored assigned '' @ (if v4 then ''IPv4'' else ''IPv6'')
       @ '' address has the wrong family'')) else Inr (OneAddress a))"

definition source_rules :: "string option \<Rightarrow> string list \<Rightarrow> string list \<Rightarrow> app_error + 'n nft_rule list" where
  "source_rules mac ipv4 ipv6 =
     and_then (ok_or mac (Conflict ''BCP38 requires the VM's configured MAC address'')) (\<lambda>m.
     and_then (map_err app_error_of_hv (validate_mac_address m)) (\<lambda>_.
     and_then (map_all (allowed_item True) ipv4) (\<lambda>a4.
     and_then (map_all (allowed_item False) ipv6) (\<lambda>a6.
     let v4 = AddressRange ''0.0.0.0'' # a4; v6 = AddressRange ''::'' # AddressRange ''fe80::/10'' # a6 in
     Inr [([MacIsNot (ascii_lower m)], FwDrop),
          ([EtherType ArpSrc, FieldNotIn ArpSrc v4], FwDrop),
          ([EtherType Ip4Src, FieldNotIn Ip4Src v4], FwDrop),
          ([EtherType Ip6Src, FieldNotIn Ip6Src v6], FwDrop)]))))"

definition established_rule :: "compiled_policy \<Rightarrow> 'n nft_rule list" where
  "established_rule c = (if cp_firewall c then [([CtEstablished], FwAccept)] else [])"

definition default_rule :: "compiled_policy \<Rightarrow> fw_action \<Rightarrow> 'n nft_rule list" where
  "default_rule c a = (if cp_firewall c \<and> a \<noteq> FwAccept then [([], a)] else [])"

definition vm_rules ::
  "'n ipnet_lib \<Rightarrow> 'n guard_switches \<Rightarrow> vm_policy \<Rightarrow> app_error + 'n nft_rule list \<times> 'n nft_rule list" where
  "vm_rules lib g v =
     and_then (compile_vm_network_policy lib (vp_profile v) (vp_rules v)) (\<lambda>c.
     and_then (ownership_rules lib g Ingress v) (\<lambda>guard_in.
     and_then (map_all (tenant_rule lib) (directed Ingress c)) (\<lambda>rules_in.
     and_then (ownership_rules lib g Egress v) (\<lambda>guard_out.
     and_then (if gs_bcp38 g then source_rules (v_mac (vp_vm v)) (vp_ipv4 v) (vp_ipv6 v) else Inr []) (\<lambda>bcp38.
     and_then (map_all (tenant_rule lib) (directed Egress c)) (\<lambda>rules_out.
     Inr (guard_in @ ddos_rules c @ established_rule c @ rules_in @ default_rule c (cp_ingress c),
          guard_out @ bcp38 @ established_rule c @ rules_out @ default_rule c (cp_egress c))))))))"

definition firewall_table ::
  "'n ipnet_lib \<Rightarrow> 'n guard_switches \<Rightarrow> vm_policy list \<Rightarrow> app_error + 'n tap_rules list" where
  "firewall_table lib g desired =
     (let active = filter (policy_active g) desired in
      and_then (map_all (\<lambda>v. validated_interface_name (v_tap (vp_vm v))) active) (\<lambda>taps.
      and_then (map_all (vm_rules lib g) active) (\<lambda>rules.
      Inr (map2 (\<lambda>i (a, b). \<lparr>tr_tap = i, tr_ingress = a, tr_egress = b\<rparr>) taps rules))))"

section \<open>The script is the text of the table\<close>

lemma map_all_map:
  "map_all (\<lambda>x. and_then (f x) (\<lambda>y. Inr (h y))) xs = and_then (map_all f xs) (\<lambda>ys. Inr (map h ys))"
proof (induction xs)
  case (Cons x xs)
  then show ?case by (cases "f x"; cases "map_all f xs") simp_all
qed simp

lemma map_all_cong: "(\<And>x. x \<in> set xs \<Longrightarrow> f x = g x) \<Longrightarrow> map_all f xs = map_all g xs"
  by (induction xs) simp_all

lemma map_all_enumerate:
  "map_all (\<lambda>(k, v). and_then (f v) (\<lambda>y. Inr (h k y))) (enumerate n vs)
    = and_then (map_all f vs) (\<lambda>ys. Inr (map (\<lambda>(k, y). h k y) (enumerate n ys)))"
proof (induction vs arbitrary: n)
  case (Cons v vs)
  then show ?case by (cases "f v"; cases "map_all f vs") simp_all
qed simp

lemma and_then_twice: "and_then m (\<lambda>a. and_then m (h a)) = and_then m (\<lambda>a. h a a)"
  by (cases m) simp_all

lemma and_then_assoc: "and_then (and_then m f) h = and_then m (\<lambda>x. and_then (f x) h)"
  by (cases m) simp_all

lemma join_append: "ys \<noteq> [] \<Longrightarrow> join_with sep (x # ys) = x @ sep @ join_with sep ys"
  by (cases ys) simp_all

lemma rules_text_simps [simp]:
  "rules_text lib [] = []" "rules_text lib (r # rs) = rule_text lib r @ rules_text lib rs"
  "rules_text lib (rs @ qs) = rules_text lib rs @ rules_text lib qs"
  by (simp_all add: rules_text_def)

lemma network_token_match:
  "network_token lib ''saddr'' n = match_text lib (FieldIn (side_field ''saddr'' (is_ipv4 (net_addr lib n))) n)"
  "network_token lib ''daddr'' n = match_text lib (FieldIn (side_field ''daddr'' (is_ipv4 (net_addr lib n))) n)"
  by (cases "is_ipv4 (net_addr lib n)"; simp add: network_token_def side_field_def)+

lemma network_tokens_option:
  assumes "\<And>n. network_token lib side n = match_text lib (FieldIn (side_field side (is_ipv4 (net_addr lib n))) n)"
  shows "network_tokens lib label side v
     = and_then (network_matches lib label side v) (\<lambda>ms. Inr (map (match_text lib) ms))"
proof (cases v)
  case (Some c)
  then show ?thesis
    by (cases "net_parse lib c") (simp_all only: network_tokens_def network_matches_def option.case ok_or_simps
        and_then_simps assms list.map)
qed (simp only: network_tokens_def network_matches_def option.case and_then_simps list.map)

lemmas network_tokens_matches =
  network_tokens_option [OF network_token_match(1)] network_tokens_option [OF network_token_match(2)]

lemma protocol_tokens_matches:
  "map (match_text lib) (if p = FwAny then [] else [Proto p]) = protocol_tokens p"
  by (cases p) simp_all

lemma port_tokens_matches: "map (match_text lib) (port_matches r) = port_tokens r"
  by (simp add: port_matches_def port_tokens_def)

lemma log_tokens_matches:
  "map (match_text lib) (if l then [SampleLimit, LogPacket] else []) = log_tokens l"
  by (simp add: log_tokens_def)

lemma render_firewall_rule_text:
  "render_firewall_rule lib r = and_then (tenant_rule lib r) (\<lambda>q. Inr (rule_text lib q))"
proof (cases "network_matches lib ''source'' ''saddr'' (f_source r)")
  case (Inr src)
  note src = Inr
  show ?thesis
  proof (cases "network_matches lib ''destination'' ''daddr'' (f_destination r)")
    case (Inr dst)
    show ?thesis
      by (simp only: render_firewall_rule_def tenant_rule_def network_tokens_matches src Inr and_then_simps
          rule_text_def fst_conv snd_conv map_append protocol_tokens_matches port_tokens_matches
          log_tokens_matches append_assoc)
  qed (simp only: render_firewall_rule_def tenant_rule_def network_tokens_matches src and_then_simps)
qed (simp only: render_firewall_rule_def tenant_rule_def network_tokens_matches and_then_simps)

lemma render_rules_text:
  "map_all (render_firewall_rule lib) rs = and_then (map_all (tenant_rule lib) rs) (\<lambda>qs. Inr (map (rule_text lib) qs))"
  by (simp only: map_all_map [symmetric] render_firewall_rule_text [abs_def])

lemma managed_drop_text:
  "render_managed_subnet_drop lib (field_ether f @ '' '' @ field_text f) (field_text f) subnet (map show_ip owned)
    = rule_text lib (managed_drop f subnet owned)"
  by (simp add: render_managed_subnet_drop_def rule_text_def managed_drop_def set_text_def o_def)

lemma subnet_guard_text: "render_subnet_guard lib direction v4 v6 subnet = rules_text lib (subnet_guard lib direction v4 v6 subnet)"
  using managed_drop_text [of lib Ip4Src subnet] managed_drop_text [of lib Ip6Src subnet]
    managed_drop_text [of lib Ip4Dst subnet] managed_drop_text [of lib Ip6Dst subnet] managed_drop_text [of lib ArpSrc subnet]
  by (cases direction; cases "is_ipv4 (net_addr lib subnet)")
    (simp_all add: render_subnet_guard_def subnet_guard_def Let_def)

lemma rules_text_concat: "rules_text lib (concat (map f xs)) = concat (map (\<lambda>x. rules_text lib (f x)) xs)"
  by (induction xs) simp_all

lemma guard_text_rules:
  "guard_text lib g direction v = and_then (ownership_rules lib g direction v) (\<lambda>rs. Inr (rules_text lib rs))"
  unfolding guard_text_def ownership_rules_def render_ip_ownership_guard_def
  by (cases "validated_assigned_addresses (vp_ipv4 v) True"; cases "validated_assigned_addresses (vp_ipv6 v) False")
    (simp_all add: subnet_guard_text [abs_def] rules_text_concat)

lemma limit_rule_text:
  "ms \<noteq> [] \<Longrightarrow> ''    '' @ join_with '' '' (map (match_text lib) ms) @ '' '' @ limit_text n = rules_text lib (over_limit n ms)"
proof (induction ms)
  case (Cons m ms)
  have j: "join_with '' '' (xs @ [a, b, c]) = join_with '' '' xs @ '' '' @ a @ '' '' @ b @ '' '' @ c"
    if "xs \<noteq> []" for xs a b c
    using that by (induction xs rule: list_nonempty_induct) (simp_all add: join_append)
  show ?case
    using j [of "map (match_text lib) (m # ms)"]
    by (simp add: over_limit_def rule_text_def limit_text_def)
qed simp

lemma ddos_text: "render_ddos_rules c = rules_text lib (ddos_rules c)"
proof -
  have w: "rules_text lib (when_some x f) = when_some x (\<lambda>n. rules_text lib (f n))" for x :: "'b option" and f
    by (simp add: when_some_def split: option.split)
  have l: "''    tcp flags & (syn | ack) == syn '' @ limit_text n = rules_text lib (over_limit n [TcpSyn])"
    "''    meta l4proto udp '' @ limit_text n = rules_text lib (over_limit n [Proto FwUdp])"
    "''    meta l4proto { icmp, ipv6-icmp } '' @ limit_text n = rules_text lib (over_limit n [AnyIcmp])"
    "''    ct state new meta l4proto tcp '' @ limit_text n = rules_text lib (over_limit n [CtNew, Proto FwTcp])" for n
    using limit_rule_text [of "[TcpSyn]" lib n] limit_rule_text [of "[Proto FwUdp]" lib n]
      limit_rule_text [of "[AnyIcmp]" lib n] limit_rule_text [of "[CtNew, Proto FwTcp]" lib n] by simp_all
  have i: "''    ct state invalid counter drop'' @ nl = rule_text lib ([CtInvalid], FwDrop)"
    by (simp add: rule_text_def)
  show ?thesis
    unfolding render_ddos_rules_def ddos_rules_def w rules_text_simps l i if_distrib [of "rules_text lib"] append_Nil2
    by (rule refl)
qed

lemma allowed_item_text:
  "map_all (allowed_address v4) xs = and_then (map_all (allowed_item v4) xs) (\<lambda>ys. Inr (map item_text ys))"
proof -
  have "allowed_address v4 = (\<lambda>s. and_then (allowed_item v4 s) (\<lambda>y. Inr (item_text y)))"
  proof
    show "allowed_address v4 s = and_then (allowed_item v4 s) (\<lambda>y. Inr (item_text y))" for s
      by (cases "parse_ip s") (simp_all add: allowed_address_def allowed_item_def)
  qed
  then show ?thesis by (simp only: map_all_map)
qed

lemma source_rule_text:
  "source_rule (field_ether f @ '' '' @ field_text f) (map item_text items) = rule_text lib ([EtherType f, FieldNotIn f items], FwDrop)"
  by (simp add: source_rule_def rule_text_def set_text_def)

lemma bcp38_text:
  "render_bcp38 mac ipv4 ipv6 = and_then (source_rules mac ipv4 ipv6) (\<lambda>rs. Inr (rules_text lib rs))"
proof -
  have m: "''    ether saddr != '' @ m @ '' counter drop'' @ nl = rule_text lib ([MacIsNot m], FwDrop)" for m
    by (simp add: rule_text_def)
  have s: "source_rule ''ether type arp arp saddr ip'' (map item_text items) = rule_text lib ([EtherType ArpSrc, FieldNotIn ArpSrc items], FwDrop)"
    "source_rule ''ether type ip ip saddr'' (map item_text items) = rule_text lib ([EtherType Ip4Src, FieldNotIn Ip4Src items], FwDrop)"
    "source_rule ''ether type ip6 ip6 saddr'' (map item_text items) = rule_text lib ([EtherType Ip6Src, FieldNotIn Ip6Src items], FwDrop)"
    for items using source_rule_text [of ArpSrc] source_rule_text [of Ip4Src] source_rule_text [of Ip6Src] by simp_all
  have i: "''0.0.0.0'' # map item_text a = map item_text (AddressRange ''0.0.0.0'' # a)"
    "''::'' # ''fe80::/10'' # map item_text a = map item_text (AddressRange ''::'' # AddressRange ''fe80::/10'' # a)" for a
    by simp_all
  show ?thesis
  proof (cases mac)
    case (Some a)
    show ?thesis
      unfolding render_bcp38_def source_rules_def allowed_item_text Some ok_or_simps and_then_simps and_then_assoc Let_def i s
      by (simp add: rules_text_def m [symmetric])
  qed (simp add: render_bcp38_def source_rules_def)
qed

lemma established_text_rule: "established_text c = rules_text lib (established_rule c)"
  by (simp add: established_text_def established_rule_def rule_text_def)

lemma default_text_rule: "default_text c a = rules_text lib (default_rule c a)"
  by (cases a) (simp_all add: default_text_def default_rule_def rule_text_def)

text \<open>The two chains of a VM.\<close>

lemma vm_chains_text:
  "render_vm_chains lib g (k, v) = and_then (vm_rules lib g v) (\<lambda>(a, b).
     Inr (chain_text ''_ingress'' k lib a @ chain_text ''_egress'' k lib b))"
proof -
  have bcp: "(if gs_bcp38 g then render_bcp38 mac ipv4 ipv6 else Inr []) =
    and_then (if gs_bcp38 g then source_rules mac ipv4 ipv6 else Inr []) (\<lambda>rs. Inr (rules_text lib rs))" for mac ipv4 ipv6
    by (simp add: bcp38_text)
  have c: "concat (map (rule_text lib) qs) = rules_text lib qs" for qs by (simp add: rules_text_def)
  show ?thesis
    unfolding render_vm_chains_def vm_rules_def guard_text_rules bcp render_rules_text prod.case
      ddos_text [of _ lib] established_text_rule [of _ lib] default_text_rule [of _ _ lib] and_then_assoc and_then_simps c
    by (simp only: chain_text_def rules_text_simps append_assoc append.simps)
qed

definition tap_entry :: "string \<Rightarrow> 'n nft_rule list \<times> 'n nft_rule list \<Rightarrow> 'n tap_rules" where
  "tap_entry i r = \<lparr>tr_tap = i, tr_ingress = fst r, tr_egress = snd r\<rparr>"

lemma firewall_table_entries:
  "firewall_table lib g desired =
     (let active = filter (policy_active g) desired in
      and_then (map_all (\<lambda>v. validated_interface_name (v_tap (vp_vm v))) active) (\<lambda>taps.
      and_then (map_all (vm_rules lib g) active) (\<lambda>rules. Inr (map2 tap_entry taps rules))))"
  by (simp add: firewall_table_def tap_entry_def case_prod_beta)

lemma enumerate_taps:
  "length taps = length rules \<Longrightarrow>
   map (\<lambda>(k, t). h k (tr_tap t)) (enumerate n (map2 tap_entry taps rules)) = map (\<lambda>(k, i). h k i) (enumerate n taps)"
  by (induction taps rules arbitrary: n rule: list_induct2) (simp_all add: tap_entry_def)

lemma enumerate_rules:
  "length taps = length rules \<Longrightarrow>
   map (\<lambda>(k, t). h k (tr_ingress t) (tr_egress t)) (enumerate n (map2 tap_entry taps rules))
     = map (\<lambda>(k, a, b). h k a b) (enumerate n rules)"
  by (induction taps rules arbitrary: n rule: list_induct2) (simp_all add: tap_entry_def case_prod_beta)

definition hook_header :: "string \<Rightarrow> string" where
  "hook_header hook = ''  chain '' @ hook @ '' { type filter hook '' @ hook @ '' priority -10; policy accept;'' @ nl"

lemma base_chain_text:
  "base_chain hook jumps (enumerate n vs) =
     and_then (map_all (\<lambda>v. validated_interface_name (v_tap (vp_vm v))) vs) (\<lambda>taps.
       Inr (hook_header hook @ concat (map (\<lambda>(k, i). jumps k i) (enumerate n taps)) @ ''  }'' @ nl))"
  unfolding base_chain_def map_all_enumerate and_then_assoc and_then_simps hook_header_def append_assoc by (rule refl)

lemma vm_chains_all:
  "map_all (render_vm_chains lib g) (enumerate n vs) =
     and_then (map_all (vm_rules lib g) vs) (\<lambda>rs. Inr (map (\<lambda>(k, a, b). chain_text ''_ingress'' k lib a
       @ chain_text ''_egress'' k lib b) (enumerate n rs)))"
proof -
  have "render_vm_chains lib g = (\<lambda>(k, v). and_then (vm_rules lib g v) (\<lambda>y. Inr (case y of (a, b) \<Rightarrow>
      chain_text ''_ingress'' k lib a @ chain_text ''_egress'' k lib b)))"
    by (rule ext) (simp add: split_paired_all vm_chains_text case_prod_unfold)
  then show ?thesis by (simp only: map_all_enumerate)
qed

lemma table_text_entries:
  assumes "length taps = length rules" "taps \<noteq> []"
  shows "table_text lib (map2 tap_entry taps rules) = ''table bridge vexa_vm {'' @ nl
    @ (hook_header ''forward'' @ concat (map (\<lambda>(k, i). egress_jump k i @ ingress_jump k i) (enumerate 0 taps)) @ ''  }'' @ nl)
    @ (hook_header ''input'' @ concat (map (\<lambda>(k, i). egress_jump k i) (enumerate 0 taps)) @ ''  }'' @ nl)
    @ (hook_header ''output'' @ concat (map (\<lambda>(k, i). ingress_jump k i) (enumerate 0 taps)) @ ''  }'' @ nl)
    @ concat (map (\<lambda>(k, a, b). chain_text ''_ingress'' k lib a @ chain_text ''_egress'' k lib b) (enumerate 0 rules))
    @ ''}'' @ nl"
proof -
  have "map2 tap_entry taps rules \<noteq> []" using assms by (cases taps; cases rules) simp_all
  then show ?thesis
    unfolding table_text_def hook_text_def hook_header_def Let_def
    by (simp only: if_False enumerate_taps [OF assms(1), of "\<lambda>k i. egress_jump k i @ ingress_jump k i"]
        enumerate_taps [OF assms(1), of egress_jump] enumerate_taps [OF assms(1), of ingress_jump]
        enumerate_rules [OF assms(1), of "\<lambda>k a b. chain_text ''_ingress'' k lib a @ chain_text ''_egress'' k lib b"]
        append_assoc)
qed

lemma ruleset_text:
  "render_ruleset lib g desired exists_table =
     and_then (firewall_table lib g desired) (\<lambda>t.
       Inr ((if exists_table then delete_table_text else []) @ table_text lib t))"
proof (cases "filter (policy_active g) desired = []")
  case True
  then show ?thesis by (simp add: render_ruleset_def firewall_table_def table_text_def)
next
  case False
  let ?a = "filter (policy_active g) desired"
  let ?t = "map_all (\<lambda>v. validated_interface_name (v_tap (vp_vm v))) ?a"
  show ?thesis
  proof (cases ?t)
    case (Inl e)
    then show ?thesis
      unfolding render_ruleset_def firewall_table_entries Let_def base_chain_text by (simp add: False)
  next
    case (Inr taps)
    note taps = Inr
    show ?thesis
    proof (cases "map_all (vm_rules lib g) ?a")
      case (Inl e)
      then show ?thesis
        unfolding render_ruleset_def firewall_table_entries Let_def base_chain_text vm_chains_all by (simp add: False taps)
    next
      case (Inr rules)
      have "length taps = length rules" "taps \<noteq> []"
        using map_all_length [OF taps] map_all_length [OF Inr] False by auto
      note shape = table_text_entries [OF this, of lib]
      show ?thesis
        unfolding render_ruleset_def firewall_table_entries Let_def base_chain_text vm_chains_all taps Inr and_then_simps shape
        by (simp only: False if_False append_assoc)
    qed
  qed
qed

text \<open>
  C23. The script handed to nft is the text of the abstract table: for every set of desired
  policies the rendering fails with the error the table has, or yields the deletion of the old
  table where one exists followed by the text of the table, hook by hook and rule by rule.
\<close>

theorem ruleset_refines_table:
  "render_ruleset lib g desired exists_table =
     and_then (firewall_table lib g desired) (\<lambda>t.
       Inr ((if exists_table then delete_table_text else []) @ table_text lib t))"
  by (rule ruleset_text)

end
