(* ===== verification/Firewall_Safety.thy ===== *)
theory Firewall_Safety
  imports Firewall_Spec
begin

text \<open>
  The decisions of the firewall: packets, the evaluation of chains and hooks, and what the
  table guarantees and does not guarantee.
\<close>

section \<open>Packets and decisions\<close>

datatype transport = TcpSegment nat nat bool | UdpDatagram nat nat | IcmpMessage | Icmpv6Message | OtherTransport

datatype frame_body = IpPacket ip_addr ip_addr transport | ArpFrame ip_addr | OtherFrame

datatype ct_state = CtsNew | CtsEstablished | CtsRelated | CtsInvalid

record packet =
  pk_mac :: string
  pk_body :: frame_body
  pk_ct :: ct_state

text \<open>
  Whether a limiter of the given rate and burst is exhausted for this packet, and whether the
  sampling limiter of logged rules has a token left.
\<close>

record nft_env =
  rate_over :: "nat \<Rightarrow> nat \<Rightarrow> bool"
  sample_left :: bool

definition only_if :: "bool \<Rightarrow> 'a \<Rightarrow> 'a option" where
  "only_if b x = (if b then Some x else None)"

fun field_value :: "frame_body \<Rightarrow> addr_field \<Rightarrow> ip_addr option" where
  "field_value (IpPacket s d t) Ip4Src = only_if (is_ipv4 s) s"
| "field_value (IpPacket s d t) Ip4Dst = only_if (is_ipv4 d) d"
| "field_value (IpPacket s d t) Ip6Src = only_if (is_ipv6 s) s"
| "field_value (IpPacket s d t) Ip6Dst = only_if (is_ipv6 d) d"
| "field_value (ArpFrame a) ArpSrc = Some a"
| "field_value _ _ = None"

fun in_item :: "'n ipnet_lib \<Rightarrow> ip_addr \<Rightarrow> addr_item \<Rightarrow> bool" where
  "in_item lib a (OneAddress b) = (a = b)"
| "in_item lib a (AddressRange s) = (case net_parse lib s of None \<Rightarrow> False | Some n \<Rightarrow> net_contains lib n a)"

fun has_protocol :: "frame_body \<Rightarrow> fw_protocol \<Rightarrow> bool" where
  "has_protocol b FwAny = True"
| "has_protocol (IpPacket s d (TcpSegment x y f)) p = (p = FwTcp)"
| "has_protocol (IpPacket s d (UdpDatagram x y)) p = (p = FwUdp)"
| "has_protocol (IpPacket s d IcmpMessage) p = (p = FwIcmp)"
| "has_protocol (IpPacket s d Icmpv6Message) p = (p = FwIcmpv6)"
| "has_protocol _ p = False"

fun frame_ports :: "frame_body \<Rightarrow> (nat \<times> nat) option" where
  "frame_ports (IpPacket s d (TcpSegment x y f)) = Some (x, y)"
| "frame_ports (IpPacket s d (UdpDatagram x y)) = Some (x, y)"
| "frame_ports _ = None"

fun is_syn :: "frame_body \<Rightarrow> bool" where
  "is_syn (IpPacket s d (TcpSegment x y f)) = f"
| "is_syn _ = False"

definition in_ranges :: "nat \<Rightarrow> port_range list \<Rightarrow> bool" where
  "in_ranges p rs \<longleftrightarrow> (\<exists>r \<in> set rs. pr_start r \<le> p \<and> p \<le> pr_end r)"

fun match_holds :: "'n ipnet_lib \<Rightarrow> nft_env \<Rightarrow> packet \<Rightarrow> 'n nft_match \<Rightarrow> bool" where
  "match_holds lib env k (EtherType f) = (field_value (pk_body k) f \<noteq> None)"
| "match_holds lib env k (FieldIn f n) =
     (case field_value (pk_body k) f of None \<Rightarrow> False | Some a \<Rightarrow> net_contains lib n a)"
| "match_holds lib env k (FieldNotIn f items) =
     (case field_value (pk_body k) f of None \<Rightarrow> False | Some a \<Rightarrow> \<not> (\<exists>i \<in> set items. in_item lib a i))"
| "match_holds lib env k (MacIsNot m) = (pk_mac k \<noteq> m)"
| "match_holds lib env k CtEstablished = (pk_ct k \<in> {CtsEstablished, CtsRelated})"
| "match_holds lib env k CtInvalid = (pk_ct k = CtsInvalid)"
| "match_holds lib env k CtNew = (pk_ct k = CtsNew)"
| "match_holds lib env k TcpSyn = is_syn (pk_body k)"
| "match_holds lib env k AnyIcmp = (has_protocol (pk_body k) FwIcmp \<or> has_protocol (pk_body k) FwIcmpv6)"
| "match_holds lib env k (Proto p) = has_protocol (pk_body k) p"
| "match_holds lib env k (SourcePort p rs) = (has_protocol (pk_body k) p
     \<and> (case frame_ports (pk_body k) of None \<Rightarrow> False | Some (s, d) \<Rightarrow> in_ranges s rs))"
| "match_holds lib env k (DestinationPort p rs) = (has_protocol (pk_body k) p
     \<and> (case frame_ports (pk_body k) of None \<Rightarrow> False | Some (s, d) \<Rightarrow> in_ranges d rs))"
| "match_holds lib env k (RateOver n b) = rate_over env n b"
| "match_holds lib env k SampleLimit = sample_left env"
| "match_holds lib env k LogPacket = True"

datatype decision = Passed | Discarded

fun decide :: "fw_action \<Rightarrow> decision" where
  "decide FwAccept = Passed"
| "decide FwDrop = Discarded"
| "decide FwReject = Discarded"

fun eval_chain :: "'n ipnet_lib \<Rightarrow> nft_env \<Rightarrow> packet \<Rightarrow> 'n nft_rule list \<Rightarrow> decision option" where
  "eval_chain lib env k [] = None"
| "eval_chain lib env k ((ms, a) # rs) =
     (if list_all (match_holds lib env k) ms then Some (decide a) else eval_chain lib env k rs)"

text \<open>
  The hooks: a verdict in a chain that was jumped to ends the whole base chain, whose policy is
  to accept. A frame between two TAPs meets the forward hook; one for the host, the input hook.
\<close>

fun forward_hook ::
  "'n ipnet_lib \<Rightarrow> nft_env \<Rightarrow> packet \<Rightarrow> string \<Rightarrow> string \<Rightarrow> 'n tap_rules list \<Rightarrow> decision" where
  "forward_hook lib env k iif oif [] = Passed"
| "forward_hook lib env k iif oif (t # ts) =
     (case (if tr_tap t = iif then eval_chain lib env k (tr_egress t) else None) of
        Some d \<Rightarrow> d
      | None \<Rightarrow>
          (case (if tr_tap t = oif then eval_chain lib env k (tr_ingress t) else None) of
             Some d \<Rightarrow> d
           | None \<Rightarrow> forward_hook lib env k iif oif ts))"

fun input_hook :: "'n ipnet_lib \<Rightarrow> nft_env \<Rightarrow> packet \<Rightarrow> string \<Rightarrow> 'n tap_rules list \<Rightarrow> decision" where
  "input_hook lib env k iif [] = Passed"
| "input_hook lib env k iif (t # ts) =
     (case (if tr_tap t = iif then eval_chain lib env k (tr_egress t) else None) of
        Some d \<Rightarrow> d | None \<Rightarrow> input_hook lib env k iif ts)"

fun output_hook :: "'n ipnet_lib \<Rightarrow> nft_env \<Rightarrow> packet \<Rightarrow> string \<Rightarrow> 'n tap_rules list \<Rightarrow> decision" where
  "output_hook lib env k oif [] = Passed"
| "output_hook lib env k oif (t # ts) =
     (case (if tr_tap t = oif then eval_chain lib env k (tr_ingress t) else None) of
        Some d \<Rightarrow> d | None \<Rightarrow> output_hook lib env k oif ts)"

section \<open>Evaluation\<close>

lemma eval_append:
  "eval_chain lib env k (rs @ qs) = (case eval_chain lib env k rs of Some d \<Rightarrow> Some d | None \<Rightarrow> eval_chain lib env k qs)"
  by (induction lib env k rs rule: eval_chain.induct) auto

text \<open>A chain of drops decides a packet that one of them matches.\<close>

lemma eval_drops:
  assumes "\<forall>r \<in> set rs. snd r = FwDrop" "r \<in> set rs" "list_all (match_holds lib env k) (fst r)"
  shows "eval_chain lib env k rs = Some Discarded"
  using assms by (induction lib env k rs rule: eval_chain.induct) auto

lemma managed_drop_action [simp]: "snd (managed_drop f n owned) = FwDrop"
  by (simp add: managed_drop_def)

lemma subnet_guard_drops: "r \<in> set (subnet_guard lib direction v4 v6 n) \<Longrightarrow> snd r = FwDrop"
  by (auto simp: subnet_guard_def Let_def split: if_splits)

text \<open>The managed-subnet rule of an address field matches exactly the foreign addresses.\<close>

lemma managed_drop_matches:
  assumes "field_value (pk_body k) f = Some a" "net_contains lib n a" "a \<notin> set owned"
  shows "list_all (match_holds lib env k) (fst (managed_drop f n owned))"
  using assms by (auto simp: managed_drop_def)

text \<open>The address a frame claims to come from.\<close>

fun claimed_source :: "frame_body \<Rightarrow> ip_addr option" where
  "claimed_source (IpPacket s d t) = Some s"
| "claimed_source (ArpFrame a) = Some a"
| "claimed_source OtherFrame = None"

definition is_ipv4_arp :: "frame_body \<Rightarrow> bool" where
  "is_ipv4_arp b = (case b of ArpFrame a \<Rightarrow> is_ipv4 a | _ \<Rightarrow> True)"

text \<open>Networks contain addresses of their own family.\<close>

definition family_law :: "'n ipnet_lib \<Rightarrow> bool" where
  "family_law lib \<longleftrightarrow> (\<forall>n a. net_contains lib n a \<longrightarrow> is_ipv4 (net_addr lib n) = is_ipv4 a)"

lemma is_ipv6_iff: "is_ipv6 a \<longleftrightarrow> \<not> is_ipv4 a"
  by (cases a) (simp_all)

lemma guard_discards_source:
  assumes "family_law lib" "n \<in> set subnets" "net_contains lib n s" "claimed_source (pk_body k) = Some s"
    and "is_ipv4_arp (pk_body k)" "s \<notin> set v4" "s \<notin> set v6"
  shows "eval_chain lib env k (concat (map (subnet_guard lib Egress v4 v6) subnets)) = Some Discarded"
proof -
  let ?o = "owned_in lib n v4 v6"
  have o: "s \<notin> set ?o" using assms(6,7) by (simp add: owned_in_def)
  have fam: "is_ipv4 (net_addr lib n) = is_ipv4 s" using assms(1,3) by (simp add: family_law_def)
  obtain f where f: "field_value (pk_body k) f = Some s" "managed_drop f n ?o \<in> set (subnet_guard lib Egress v4 v6 n)"
  proof (cases "pk_body k")
    case (IpPacket a d t)
    then have "a = s" using assms(4) by simp
    with IpPacket fam show thesis
      by (intro that [of "if is_ipv4 s then Ip4Src else Ip6Src"])
        (simp_all add: subnet_guard_def Let_def only_if_def is_ipv6_iff)
  next
    case (ArpFrame a)
    then have "a = s" "is_ipv4 s" using assms(4,5) by (simp_all add: is_ipv4_arp_def)
    with ArpFrame fam show thesis
      by (intro that [of ArpSrc]) (simp_all add: subnet_guard_def Let_def)
  qed (use assms(4) in simp)
  show ?thesis
  proof (rule eval_drops)
    show "managed_drop f n ?o \<in> set (concat (map (subnet_guard lib Egress v4 v6) subnets))"
      using assms(2) f(2) by auto
    show "list_all (match_holds lib env k) (fst (managed_drop f n ?o))"
      by (rule managed_drop_matches [OF f(1) assms(3) o])
  qed (auto dest: subnet_guard_drops)
qed

section \<open>The rules of the table\<close>

lemma map_all_nth: "map_all f xs = Inr ys \<Longrightarrow> i < length xs \<Longrightarrow> f (xs ! i) = Inr (ys ! i)"
proof (induction xs arbitrary: ys i)
  case (Cons x xs)
  then obtain z zs where "f x = Inr z" "map_all f xs = Inr zs" "ys = z # zs" by (auto simp: and_then_Inr)
  with Cons show ?case by (cases i) simp_all
qed simp

text \<open>Every active VM has its entry, and the entries are those of the active VMs.\<close>

lemma table_entry:
  assumes "firewall_table lib g desired = Inr table" "v \<in> set desired" "policy_active g v"
  obtains t a b where "t \<in> set table" "v_tap (vp_vm v) = Some (tr_tap t)" "vm_rules lib g v = Inr (tr_ingress t, tr_egress t)"
proof -
  let ?active = "filter (policy_active g) desired"
  obtain taps rules where r: "map_all (\<lambda>v. validated_interface_name (v_tap (vp_vm v))) ?active = Inr taps"
    "map_all (vm_rules lib g) ?active = Inr rules" "table = map2 tap_entry taps rules"
    using assms(1) by (auto simp: firewall_table_entries and_then_Inr Let_def)
  obtain i where i: "i < length ?active" "?active ! i = v"
    using assms(2,3) by (metis (mono_tags, lifting) filter_set in_set_conv_nth mem_Collect_eq set_filter)
  have l: "length taps = length ?active" "length rules = length ?active"
    using map_all_length [OF r(1)] map_all_length [OF r(2)] by simp_all
  have "validated_interface_name (v_tap (vp_vm v)) = Inr (taps ! i)" "vm_rules lib g v = Inr (rules ! i)"
    using map_all_nth [OF r(1) i(1)] map_all_nth [OF r(2) i(1)] i(2) by simp_all
  moreover from this(1) have "v_tap (vp_vm v) = Some (taps ! i)"
    by (auto simp: validated_interface_name_def and_then_Inr split: if_splits)
  moreover have "tap_entry (taps ! i) (rules ! i) \<in> set table"
    using i(1) l by (auto simp: r(3) set_conv_nth intro!: exI [of _ i])
  ultimately show thesis by (intro that [of "tap_entry (taps ! i) (rules ! i)"]) (simp_all add: tap_entry_def)
qed

lemma vm_rules_egress:
  assumes "vm_rules lib g v = Inr (ing, eg)" "guard_active g"
  obtains v4 v6 rest where "validated_assigned_addresses (vp_ipv4 v) True = Inr v4"
    "validated_assigned_addresses (vp_ipv6 v) False = Inr v6"
    "eg = concat (map (subnet_guard lib Egress v4 v6) (gs_subnets g)) @ rest"
  using assms by (auto simp: vm_rules_def and_then_Inr ownership_rules_def)

text \<open>The addresses of a VM, as the firewall reads them.\<close>

definition own_addresses :: "vm_policy \<Rightarrow> ip_addr set" where
  "own_addresses v = {a. \<exists>s \<in> set (vp_ipv4 v) \<union> set (vp_ipv6 v). parse_ip s = Some a}"

lemma assigned_subset:
  assumes "validated_assigned_addresses ss b = Inr as" "a \<in> set as"
  shows "\<exists>s \<in> set ss. parse_ip s = Some a"
proof -
  obtain i where i: "i < length as" "as ! i = a" using assms(2) by (auto simp: in_set_conv_nth)
  have "length as = length ss" using map_all_length assms(1) by (auto simp: validated_assigned_addresses_def)
  then have "assigned_address b (ss ! i) = Inr a" "ss ! i \<in> set ss"
    using map_all_nth [of _ ss as i] assms(1) i by (auto simp: validated_assigned_addresses_def)
  then show ?thesis by (auto simp: assigned_address_def and_then_Inr split: if_splits)
qed

lemma egress_discards_foreign:
  assumes "vm_rules lib g v = Inr (ing, eg)" "guard_active g" "family_law lib"
    and "n \<in> set (gs_subnets g)" "net_contains lib n s" "claimed_source (pk_body k) = Some s"
    and "is_ipv4_arp (pk_body k)" "s \<notin> own_addresses v"
  shows "eval_chain lib env k eg = Some Discarded"
proof -
  obtain v4 v6 rest where r: "validated_assigned_addresses (vp_ipv4 v) True = Inr v4"
    "validated_assigned_addresses (vp_ipv6 v) False = Inr v6"
    "eg = concat (map (subnet_guard lib Egress v4 v6) (gs_subnets g)) @ rest"
    using assms(1,2) by (rule vm_rules_egress)
  have "s \<notin> set v4" "s \<notin> set v6"
    using assigned_subset [OF r(1)] assigned_subset [OF r(2)] assms(8) by (auto simp: own_addresses_def)
  from guard_discards_source [OF assms(3-7) this] show ?thesis by (simp add: r(3) eval_append)
qed

lemma table_taps:
  assumes "firewall_table lib g desired = Inr table"
  shows "map (\<lambda>t. Some (tr_tap t)) table = map (\<lambda>v. v_tap (vp_vm v)) (filter (policy_active g) desired)"
proof -
  let ?active = "filter (policy_active g) desired"
  obtain taps rules where r: "map_all (\<lambda>v. validated_interface_name (v_tap (vp_vm v))) ?active = Inr taps"
    "map_all (vm_rules lib g) ?active = Inr rules" "table = map2 tap_entry taps rules"
    using assms by (auto simp: firewall_table_entries and_then_Inr Let_def)
  have l: "length taps = length ?active" "length rules = length ?active"
    using map_all_length [OF r(1)] map_all_length [OF r(2)] by simp_all
  show ?thesis
  proof (rule nth_equalityI)
    show "length (map (\<lambda>t. Some (tr_tap t)) table) = length (map (\<lambda>v. v_tap (vp_vm v)) ?active)"
      using l by (simp add: r(3))
    fix i assume "i < length (map (\<lambda>t. Some (tr_tap t)) table)"
    then have i: "i < length ?active" using l by (simp add: r(3))
    have "validated_interface_name (v_tap (vp_vm (?active ! i))) = Inr (taps ! i)"
      by (rule map_all_nth [OF r(1) i])
    then have "v_tap (vp_vm (?active ! i)) = Some (taps ! i)"
      by (auto simp: validated_interface_name_def and_then_Inr split: if_splits)
    then show "map (\<lambda>t. Some (tr_tap t)) table ! i = map (\<lambda>v. v_tap (vp_vm v)) ?active ! i"
      using i l by (simp add: r(3) tap_entry_def)
  qed
qed

lemma table_distinct:
  assumes "firewall_table lib g desired = Inr table" "distinct (map (\<lambda>v. v_tap (vp_vm v)) (filter (policy_active g) desired))"
  shows "distinct (map tr_tap table)"
proof -
  have "distinct (map (\<lambda>t. Some (tr_tap t)) table)" using assms by (simp add: table_taps)
  then have "distinct (map Some (map tr_tap table))" by (simp add: o_def)
  then show ?thesis by (metis distinct_map)
qed

text \<open>The TAP of an entry decides a hook when no other entry has it.\<close>

lemma input_hook_entry:
  "distinct (map tr_tap table) \<Longrightarrow> t \<in> set table \<Longrightarrow> eval_chain lib env k (tr_egress t) = Some d
    \<Longrightarrow> input_hook lib env k (tr_tap t) table = d"
  by (induction table) (auto split: option.split)

lemma forward_hook_entry:
  "distinct (map tr_tap table) \<Longrightarrow> t \<in> set table \<Longrightarrow> eval_chain lib env k (tr_egress t) = Some d
    \<Longrightarrow> oif \<notin> tr_tap ` set table - {tr_tap t} \<Longrightarrow> forward_hook lib env k (tr_tap t) oif table = d"
  by (induction table) (auto split: option.split)

text \<open>
  C22. A VM cannot speak for an address of another. When the script is rendered with the
  ownership guard active, it is the text of a table in which a frame (IPv4, IPv6 or ARP) from
  the TAP of a VM that claims a managed address which is not the VM's is discarded on its way
  to the host, and on its way to any interface that is not another protected TAP, whatever the
  tenant's rules, the connection state and the limiters are.
\<close>

theorem spoofed_source_discarded:
  assumes "render_ruleset lib g desired ex = Inr script" "guard_active g" "family_law lib"
    and "distinct (map (\<lambda>v. v_tap (vp_vm v)) (filter (policy_active g) desired))"
    and "v \<in> set desired" "policy_active g v" "v_tap (vp_vm v) = Some tap"
    and "n \<in> set (gs_subnets g)" "net_contains lib n s" "claimed_source (pk_body k) = Some s"
    and "is_ipv4_arp (pk_body k)" "s \<notin> own_addresses v"
  shows "\<exists>table. firewall_table lib g desired = Inr table
    \<and> script = (if ex then delete_table_text else []) @ table_text lib table
    \<and> input_hook lib env k tap table = Discarded
    \<and> (oif \<notin> tr_tap ` set table - {tap} \<longrightarrow> forward_hook lib env k tap oif table = Discarded)"
proof -
  obtain table where table: "firewall_table lib g desired = Inr table"
    "script = (if ex then delete_table_text else []) @ table_text lib table"
    using assms(1) by (auto simp: ruleset_text and_then_Inr)
  obtain t where t: "t \<in> set table" "v_tap (vp_vm v) = Some (tr_tap t)" "vm_rules lib g v = Inr (tr_ingress t, tr_egress t)"
    using table(1) assms(5,6) by (rule table_entry)
  have e: "eval_chain lib env k (tr_egress t) = Some Discarded"
    using egress_discards_foreign [OF t(3) assms(2,3,8-12)] .
  note d = table_distinct [OF table(1) assms(4)]
  have "tr_tap t = tap" using t(2) assms(7) by simp
  with table input_hook_entry [OF d t(1) e] forward_hook_entry [OF d t(1) e, of oif] show ?thesis by auto
qed

text \<open>
  C26. An accept hides the sender: when the receiver of a frame between two VMs comes earlier
  in the table and its ingress rules accept the frame, the frame passes whatever the egress
  rules of the sender are, so the ownership guard and the source validation of the sender are
  not evaluated.
\<close>

theorem accept_skips_the_sender:
  assumes "render_ruleset lib g desired ex = Inr script" "firewall_table lib g desired = Inr (ts @ t # us)"
    and "\<forall>u \<in> set ts. tr_tap u \<noteq> iif \<and> tr_tap u \<noteq> tr_tap t" "tr_tap t \<noteq> iif"
    and "eval_chain lib env k (tr_ingress t) = Some Passed"
  shows "script = (if ex then delete_table_text else []) @ table_text lib (ts @ t # us)
    \<and> forward_hook lib env k iif (tr_tap t) (ts @ t # us) = Passed"
proof -
  have "forward_hook lib env k iif (tr_tap t) (ts @ t # us) = Passed"
    using assms(3-5) by (induction ts) (auto split: option.split)
  then show ?thesis using assms(1,2) by (simp add: ruleset_text)
qed

text \<open>
  Logging weakens a rule: its sampling limiter is one of the conditions the rule matches
  on, so once the sample of ten packets a second is used up the rule, a drop as well as an
  accept, decides nothing and the packet goes on to the next rule.
\<close>

theorem logged_rule_leaks:
  assumes "render_firewall_rule lib r = Inr line" "f_log r" "\<not> sample_left env"
  shows "\<exists>q. line = rule_text lib q \<and> eval_chain lib env k (q # rs) = eval_chain lib env k rs"
proof -
  obtain q where q: "tenant_rule lib r = Inr q" "line = rule_text lib q"
    using assms(1) by (auto simp: render_firewall_rule_text and_then_Inr)
  then have "SampleLimit \<in> set (fst q)" using assms(2) by (auto simp: tenant_rule_def and_then_Inr)
  moreover have "\<not> match_holds lib env k SampleLimit" using assms(3) by simp
  ultimately have "\<not> list_all (match_holds lib env k) (fst q)" unfolding list_all_iff by blast
  then show ?thesis using q by (cases q) auto
qed

section \<open>Two tenants\<close>

text \<open>Networks that are single addresses, enough for the examples.\<close>

definition host_nets :: "ip_addr ipnet_lib" where
  "host_nets = \<lparr>net_parse = parse_ip, net_show = show_ip, net_addr = (\<lambda>a. a), net_prefix_len = (\<lambda>_. 0),
     net_trunc = (\<lambda>a. a), net_new = (\<lambda>a _. Some a), net_contains = (\<lambda>a b. a = b)\<rparr>"

lemma host_nets_family: "family_law host_nets"
  by (simp add: family_law_def host_nets_def)

definition web_rule :: rule_row where
  "web_rule = new_rule ''r1'' ''v1'' ''admin'' None 0 \<lparr>f_priority = 10, f_direction = Ingress, f_action = FwAccept,
     f_protocol = FwTcp, f_source = None, f_destination = None, f_source_ports = [],
     f_destination_ports = [\<lparr>pr_start = 80, pr_end = 80\<rparr>], f_log = False, f_enabled = True, f_description = []\<rparr>"

definition tenant :: "string \<Rightarrow> string \<Rightarrow> string \<Rightarrow> bool \<Rightarrow> rule_row list \<Rightarrow> vm_policy" where
  "tenant i tap ip on rules = \<lparr>vp_vm = (sample_vm i i)\<lparr>v_tap := Some tap, v_libvirt_uuid := Some i\<rparr>,
     vp_profile = (new_profile i 0)\<lparr>w_firewall := on, w_syn := None, w_udp := None, w_icmp := None, w_new := None\<rparr>, vp_rules = rules, vp_ipv4 = [ip], vp_ipv6 = []\<rparr>"

definition ownership_on :: "ip_addr guard_switches" where
  "ownership_on = \<lparr>gs_ownership = True, gs_bcp38 = False, gs_subnets = [IpV4 9]\<rparr>"

definition quiet_env :: nft_env where
  "quiet_env = \<lparr>rate_over = (\<lambda>_ _. False), sample_left = False\<rparr>"

definition spoofed :: packet where
  "spoofed = \<lparr>pk_mac = ''52:54:00:00:00:02'',
     pk_body = IpPacket (IpV4 9) (IpV4 1) (TcpSegment 9 80 True), pk_ct = CtsNew\<rparr>"

definition first_tenant :: vm_policy where
  "first_tenant = tenant ''v1'' ''vnet0'' ''0.0.0.1'' True [web_rule]"

definition second_tenant :: vm_policy where
  "second_tenant = tenant ''v2'' ''vnet1'' ''0.0.0.2'' False []"

definition web_match :: "ip_addr nft_rule" where
  "web_match = ([Proto FwTcp, DestinationPort FwTcp [\<lparr>pr_start = 80, pr_end = 80\<rparr>]], FwAccept)"

definition first_rules :: "ip_addr tap_rules" where
  "first_rules = \<lparr>tr_tap = ''vnet0'', tr_ingress = [managed_drop Ip4Dst (IpV4 9) [], ([CtEstablished], FwAccept), web_match],
     tr_egress = [managed_drop Ip4Src (IpV4 9) [], managed_drop ArpSrc (IpV4 9) [], ([CtEstablished], FwAccept)]\<rparr>"

definition second_rules :: "ip_addr tap_rules" where
  "second_rules = \<lparr>tr_tap = ''vnet1'', tr_ingress = [managed_drop Ip4Dst (IpV4 9) []],
     tr_egress = [managed_drop Ip4Src (IpV4 9) [], managed_drop ArpSrc (IpV4 9) []]\<rparr>"

lemma web_checked: "check_rule host_nets ''v1'' web_rule = Inr ()" by code_simp

lemma web_tenant_rule: "tenant_rule host_nets web_rule = Inr web_match" by code_simp

lemma demo_taps: "validated_interface_name (Some ''vnet0'') = Inr ''vnet0''" "validated_interface_name (Some ''vnet1'') = Inr ''vnet1''" by code_simp+

lemma demo_parse: "parse_ip ''0.0.0.1'' = Some (IpV4 1)" "parse_ip ''0.0.0.2'' = Some (IpV4 2)" by code_simp+

lemma demo_own: "ownership_rules host_nets ownership_on Ingress first_tenant = Inr [managed_drop Ip4Dst (IpV4 9) []]"
 "ownership_rules host_nets ownership_on Ingress second_tenant = Inr [managed_drop Ip4Dst (IpV4 9) []]"
 "ownership_rules host_nets ownership_on Egress first_tenant = Inr [managed_drop Ip4Src (IpV4 9) [], managed_drop ArpSrc (IpV4 9) []]"
 "ownership_rules host_nets ownership_on Egress second_tenant = Inr [managed_drop Ip4Src (IpV4 9) [], managed_drop ArpSrc (IpV4 9) []]"
  by (simp_all add: ownership_rules_def guard_active_def ownership_on_def first_tenant_def second_tenant_def tenant_def
     validated_assigned_addresses_def assigned_address_def demo_parse subnet_guard_def owned_in_def host_nets_def)
lemma demo_active: "policy_active ownership_on first_tenant" "policy_active ownership_on second_tenant"
  by (simp_all add: policy_active_def guard_active_def ownership_on_def first_tenant_def second_tenant_def tenant_def)

lemma demo_compiled:
  "compile_vm_network_policy host_nets (vp_profile first_tenant) (vp_rules first_tenant) = Inr
     \<lparr>cp_vm = ''v1'', cp_revision = 0, cp_firewall = True, cp_ingress = FwAccept, cp_egress = FwAccept, cp_rules = [web_rule], cp_ddos = None\<rparr>"
  "compile_vm_network_policy host_nets (vp_profile second_tenant) (vp_rules second_tenant) = Inr
     \<lparr>cp_vm = ''v2'', cp_revision = 0, cp_firewall = False, cp_ingress = FwAccept, cp_egress = FwAccept, cp_rules = [], cp_ddos = None\<rparr>"
proof -
  have "f_enabled web_rule" by (simp add: web_rule_def new_rule_def rule_spec.extend_def)
  then show "compile_vm_network_policy host_nets (vp_profile first_tenant) (vp_rules first_tenant) = Inr
     \<lparr>cp_vm = ''v1'', cp_revision = 0, cp_firewall = True, cp_ingress = FwAccept, cp_egress = FwAccept, cp_rules = [web_rule], cp_ddos = None\<rparr>"
    using web_checked
    by (simp add: first_tenant_def tenant_def compile_vm_network_policy_def validate_vm_network_security_def new_profile_def compiled_ddos_def)
qed (simp add: second_tenant_def tenant_def compile_vm_network_policy_def validate_vm_network_security_def new_profile_def compiled_ddos_def)

lemma demo_table: "firewall_table host_nets ownership_on [first_tenant, second_tenant] = Inr [first_rules, second_rules]"
proof -
  have d: "f_direction web_rule = Ingress" by (simp add: web_rule_def new_rule_def rule_spec.extend_def)
  have t: "v_tap (vp_vm first_tenant) = Some ''vnet0''" "v_tap (vp_vm second_tenant) = Some ''vnet1''"
    by (simp_all add: first_tenant_def second_tenant_def tenant_def)
  have b: "\<not> gs_bcp38 ownership_on" by (simp add: ownership_on_def)
  have r: "vm_rules host_nets ownership_on first_tenant = Inr (tr_ingress first_rules, tr_egress first_rules)"
    "vm_rules host_nets ownership_on second_tenant = Inr (tr_ingress second_rules, tr_egress second_rules)"
    unfolding vm_rules_def demo_compiled demo_own
    by (simp_all add: b d directed_def web_tenant_rule ddos_rules_def when_some_def established_rule_def default_rule_def
      first_rules_def second_rules_def)
  show ?thesis by (simp add: firewall_table_def demo_active t demo_taps r) (simp add: first_rules_def second_rules_def)
qed

lemma demo_taps_distinct:
  "map (\<lambda>v. v_tap (vp_vm v)) (filter (policy_active ownership_on) [first_tenant, second_tenant]) = [Some ''vnet0'', Some ''vnet1'']"
  by (simp add: demo_active) (simp add: first_tenant_def second_tenant_def tenant_def)

lemma demo_rendered:
  "render_ruleset host_nets ownership_on [first_tenant, second_tenant] False = Inr (table_text host_nets [first_rules, second_rules])"
  by (simp add: ruleset_text demo_table)

lemma spoofed_source_discarded_witness:
  "render_ruleset host_nets ownership_on [first_tenant, second_tenant] False = Inr (table_text host_nets [first_rules, second_rules])
   \<and> input_hook host_nets quiet_env spoofed ''vnet1'' [first_rules, second_rules] = Discarded"
proof -
  have "v_tap (vp_vm second_tenant) = Some ''vnet1''" by (simp add: second_tenant_def tenant_def)
  moreover have "guard_active ownership_on" "IpV4 9 \<in> set (gs_subnets ownership_on)"
    by (simp_all add: guard_active_def ownership_on_def)
  moreover have "net_contains host_nets (IpV4 9) (IpV4 9)" by (simp add: host_nets_def)
  moreover have "IpV4 9 \<notin> own_addresses second_tenant"
    by (simp add: own_addresses_def second_tenant_def tenant_def demo_parse)
  moreover have "claimed_source (pk_body spoofed) = Some (IpV4 9)" "is_ipv4_arp (pk_body spoofed)"
    by (simp_all add: spoofed_def is_ipv4_arp_def)
  ultimately show ?thesis
    using spoofed_source_discarded [OF demo_rendered _ host_nets_family, where v = second_tenant and tap = "''vnet1''"
      and n = "IpV4 9" and s = "IpV4 9" and k = spoofed and env = quiet_env]
      demo_taps_distinct demo_active demo_table demo_rendered by auto
qed

lemma accept_skips_the_sender_witness:
  "forward_hook host_nets quiet_env spoofed ''vnet1'' ''vnet0'' [first_rules, second_rules] = Passed
   \<and> input_hook host_nets quiet_env spoofed ''vnet1'' [first_rules, second_rules] = Discarded"
proof -
  have e: "eval_chain host_nets quiet_env spoofed (tr_ingress first_rules) = Some Passed" "tr_tap first_rules = ''vnet0''"
    by (simp_all add: first_rules_def web_match_def managed_drop_def spoofed_def host_nets_def only_if_def in_ranges_def)
  have t: "firewall_table host_nets ownership_on [first_tenant, second_tenant] = Inr ([] @ first_rules # [second_rules])"
    by (simp add: demo_table)
  have "forward_hook host_nets quiet_env spoofed ''vnet1'' ''vnet0'' [first_rules, second_rules] = Passed"
    using accept_skips_the_sender [OF demo_rendered t _ _ e(1), of "''vnet1''"] e(2) by simp
  moreover have "input_hook host_nets quiet_env spoofed ''vnet1'' [first_rules, second_rules] = Discarded"
    by (simp add: first_rules_def second_rules_def managed_drop_def spoofed_def host_nets_def only_if_def)
  ultimately show ?thesis ..
qed

definition logged_drop :: rule_spec where
  "logged_drop = \<lparr>f_priority = 1, f_direction = Ingress, f_action = FwDrop, f_protocol = FwTcp, f_source = None,
     f_destination = None, f_source_ports = [], f_destination_ports = [], f_log = True, f_enabled = True, f_description = []\<rparr>"

lemma logged_rule_leaks_witness:
  "\<exists>q. eval_chain host_nets quiet_env spoofed [q] = None
     \<and> render_firewall_rule host_nets logged_drop = Inr (rule_text host_nets q)"
proof -
  have "is_ok (render_firewall_rule host_nets logged_drop)"
    by (simp add: render_firewall_rule_def network_tokens_def logged_drop_def)
  then obtain line where l: "render_firewall_rule host_nets logged_drop = Inr line" by (auto simp: is_ok_iff)
  have "f_log logged_drop" "\<not> sample_left quiet_env" by (simp_all add: logged_drop_def quiet_env_def)
  from logged_rule_leaks [OF l this, of spoofed "[]"]
  obtain q where "line = rule_text host_nets q" "eval_chain host_nets quiet_env spoofed [q] = None"
    unfolding eval_chain.simps(1) by (elim exE conjE) (rule that)
  with l show ?thesis by (intro exI [of _ q] conjI) simp_all
qed

end
