(* ===== verification/Vm_Store.thy ===== *)
theory Vm_Store
  imports Panel_Db Secret_Envelope
begin

text \<open>
  Virtual machines in the database (\<open>src/db.rs\<close>): creation, renaming, patches, state, the
  encrypted password, and the traffic quota with its enforcement record
  (\<open>src/services/traffic.rs\<close>). ISO images are not modelled: whether one exists is an argument.
  The hypervisor's answer to a link change is an argument.
\<close>

section \<open>Creation\<close>

record new_vm =
  o_name :: string
  o_hostname :: string
  o_description :: string
  o_os_family :: string
  o_iso :: "string option"
  o_vcpus :: nat
  o_memory_mib :: nat
  o_disk_gib :: nat
  o_disk_format :: string
  o_firmware :: string
  o_machine_type :: "string option"
  o_bridge :: "string option"
  o_tap :: "string option"
  o_mac :: "string option"
  o_network_limit :: "nat option"
  o_traffic_limit :: "nat option"
  o_root_username :: string
  o_guest_agent :: bool
  o_autostart :: bool
  o_timezone :: "string option"
  o_metadata :: json

definition account_char :: "char \<Rightarrow> bool" where
  "account_char c \<longleftrightarrow> is_ascii_alnum c \<or> c \<in> {CHR ''-'', CHR ''_'', CHR ''.''}"

definition local_account :: "string \<Rightarrow> bool" where
  "local_account u \<longleftrightarrow> \<not> 64 < length u \<and> \<not> starts_with u ''-'' \<and> list_all account_char u"

definition validate_vm_spec :: "new_vm \<Rightarrow> app_error + unit" where
  "validate_vm_spec s =
     and_then (validate_non_empty ''VM name'' (o_name s)) (\<lambda>_.
     and_then (validate_non_empty ''hostname'' (o_hostname s)) (\<lambda>_.
     and_then (validate_non_empty ''disk format'' (o_disk_format s)) (\<lambda>_.
     and_then (validate_non_empty ''root username'' (o_root_username s)) (\<lambda>_.
     and_then (require (local_account (o_root_username s))
       (Validation ''root username must be a local account name containing only letters, numbers, periods, underscores, or hyphens'')) (\<lambda>_.
     and_then (require (o_vcpus s \<noteq> 0) (Validation ''vcpus must be greater than zero'')) (\<lambda>_.
     and_then (require (\<not> o_memory_mib s < 256) (Validation ''memory_mib must be at least 256'')) (\<lambda>_.
     and_then (require (o_disk_gib s \<noteq> 0) (Validation ''disk_gib must be greater than zero'')) (\<lambda>_.
     and_then (require (o_firmware s \<in> {''bios'', ''uefi''}) (Validation ''firmware must be bios or uefi'')) (\<lambda>_.
     and_then (require (o_machine_type s \<in> {None, Some ''q35'', Some ''i440fx''})
       (Validation ''machine_type must be q35 or i440fx'')) (\<lambda>_.
     require (o_network_limit s \<noteq> Some 0)
       (Validation ''network_limit_mbps must be greater than zero'')))))))))))"

definition checked_i64 :: "nat \<Rightarrow> string \<Rightarrow> app_error + unit" where
  "checked_i64 n label = require (int n \<le> i64_max) (Validation (label @ '' exceeds SQLite integer range''))"

definition optional_i64 :: "nat option \<Rightarrow> string \<Rightarrow> app_error + unit" where
  "optional_i64 n label = (case n of None \<Rightarrow> Inr () | Some v \<Rightarrow> checked_i64 v label)"

definition same_some :: "'a option \<Rightarrow> 'a option \<Rightarrow> bool" where
  "same_some a b \<longleftrightarrow> a \<noteq> None \<and> a = b"

text \<open>The UNIQUE columns of \<open>vms\<close>; NULLs are distinct.\<close>

definition vm_clash :: "vm_row \<Rightarrow> vm_row \<Rightarrow> bool" where
  "vm_clash v w \<longleftrightarrow> v_id v = v_id w \<or> ascii_lower (v_name v) = ascii_lower (v_name w)
     \<or> same_some (v_tap v) (v_tap w) \<or> same_some (v_mac v) (v_mac w)
     \<or> same_some (v_libvirt_uuid v) (v_libvirt_uuid w)"

definition vm_of_spec :: "string \<Rightarrow> timestamp \<Rightarrow> new_vm \<Rightarrow> string option \<Rightarrow> vm_row" where
  "vm_of_spec i now s envelope = \<lparr>v_id = i, v_name = trim (o_name s), v_hostname = trim (o_hostname s),
     v_description = o_description s, v_os_family = o_os_family s, v_iso = o_iso s,
     v_state = VmCreating, v_desired = VmStopped, v_vcpus = o_vcpus s, v_memory_mib = o_memory_mib s,
     v_disk_gib = o_disk_gib s, v_disk_format = o_disk_format s, v_firmware = o_firmware s,
     v_machine_type = o_machine_type s, v_bridge = o_bridge s, v_tap = o_tap s,
     v_mac = map_option ascii_lower (o_mac s), v_network_limit = o_network_limit s,
     v_traffic_limit = o_traffic_limit s, v_traffic_used = 0, v_root_username = o_root_username s,
     v_password_envelope = envelope, v_password_updated_at = map_option (\<lambda>_. now) envelope,
     v_guest_agent = o_guest_agent s, v_autostart = o_autostart s, v_timezone = o_timezone s,
     v_libvirt_uuid = None, v_vnc_display = None, v_metadata = o_metadata s,
     v_created_at = now, v_updated_at = now\<rparr>"

definition insert_vm ::
  "(string \<Rightarrow> bool) \<Rightarrow> string \<Rightarrow> timestamp \<Rightarrow> new_vm \<Rightarrow> string option \<Rightarrow> db \<Rightarrow> vm_row transaction" where
  "insert_vm iso_exists i now s envelope d =
     and_then (validate_vm_spec s) (\<lambda>_.
     and_then (checked_i64 (o_memory_mib s) ''memory_mib'') (\<lambda>_.
     and_then (checked_i64 (o_disk_gib s) ''disk_gib'') (\<lambda>_.
     and_then (optional_i64 (o_network_limit s) ''network_limit_mbps'') (\<lambda>_.
     and_then (optional_i64 (o_traffic_limit s) ''traffic_limit_bytes'') (\<lambda>_.
     let v = vm_of_spec i now s envelope in
     and_then (require (\<forall>w \<in> set (vms d). \<not> vm_clash v w) unique_error) (\<lambda>_.
     and_then (require (case o_iso s of None \<Rightarrow> True | Some img \<Rightarrow> iso_exists img) foreign_key_error) (\<lambda>_.
     let d1 = d\<lparr>vms := vms d @ [v]\<rparr> in
     and_then (ok_or (query_vm d1 i) (NotFound ''VM'')) (\<lambda>r. Inr (d1, r)))))))))"

definition create_vm ::
  "(string \<Rightarrow> bool) \<Rightarrow> string \<Rightarrow> timestamp \<Rightarrow> new_vm \<Rightarrow> db \<Rightarrow> vm_row transaction" where
  "create_vm iso_exists i now s d = insert_vm iso_exists i now s None d"

definition create_vm_with_password ::
  "(string \<Rightarrow> bool) \<Rightarrow> seal_lib \<Rightarrow> string \<Rightarrow> envelope_random \<Rightarrow> string \<Rightarrow> timestamp \<Rightarrow> new_vm
    \<Rightarrow> string \<Rightarrow> db \<Rightarrow> vm_row transaction" where
  "create_vm_with_password iso_exists lib master rnd i now s password d =
     and_then (validate_non_empty ''VM password'' password) (\<lambda>_.
     and_then (encrypt_secret lib master rnd password (vm_password_context i)) (\<lambda>envelope.
     insert_vm iso_exists i now s (Some envelope) d))"

section \<open>Changes\<close>

definition valid_vm_name :: "string \<Rightarrow> bool" where
  "valid_vm_name n \<longleftrightarrow> n \<noteq> [] \<and> \<not> 63 < length n \<and> is_ascii_alnum (hd n) \<and> list_all account_char n"

definition reconcile_vm_name :: "string \<Rightarrow> string \<Rightarrow> timestamp \<Rightarrow> db \<Rightarrow> vm_row transaction" where
  "reconcile_vm_name i name now d =
     (let n = trim name in
      and_then (require (valid_vm_name n) (Validation ''reconciled VM name is invalid'')) (\<lambda>_.
      and_then (require (\<not> vm_exists d i
          \<or> (\<forall>v \<in> set (vms d). v_id v = i \<or> ascii_lower (v_name v) \<noteq> ascii_lower n)) unique_error) (\<lambda>_.
      and_then (require_changed (count_where (\<lambda>v. v_id v = i) (vms d)) ''VM'') (\<lambda>_.
      let d1 = d\<lparr>vms := update_where (\<lambda>v. v_id v = i) (\<lambda>v. v\<lparr>v_name := n, v_updated_at := now\<rparr>) (vms d)\<rparr> in
      and_then (ok_or (query_vm d1 i) (NotFound ''VM'')) (\<lambda>r. Inr (d1, r))))))"

record vm_patch =
  z_iso :: "string option option"
  z_os_family :: "string option"
  z_root_username :: "string option"
  z_hostname :: "string option"
  z_description :: "string option"
  z_state :: "vm_state option"
  z_desired :: "vm_state option"
  z_vcpus :: "nat option"
  z_memory_mib :: "nat option"
  z_disk_gib :: "nat option"
  z_tap :: "string option option"
  z_network_limit :: "nat option option"
  z_traffic_limit :: "nat option option"
  z_traffic_used :: "nat option"
  z_guest_agent :: "bool option"
  z_autostart :: "bool option"
  z_timezone :: "string option option"
  z_libvirt_uuid :: "string option option"
  z_vnc_display :: "int option option"
  z_metadata :: "json option"

definition no_patch :: vm_patch where
  "no_patch = \<lparr>z_iso = None, z_os_family = None, z_root_username = None, z_hostname = None,
     z_description = None, z_state = None, z_desired = None, z_vcpus = None, z_memory_mib = None,
     z_disk_gib = None, z_tap = None, z_network_limit = None, z_traffic_limit = None,
     z_traffic_used = None, z_guest_agent = None, z_autostart = None, z_timezone = None,
     z_libvirt_uuid = None, z_vnc_display = None, z_metadata = None\<rparr>"

definition given :: "'a option \<Rightarrow> 'a \<Rightarrow> 'a" where
  "given new old = (case new of None \<Rightarrow> old | Some v \<Rightarrow> v)"

definition check_given :: "'a option \<Rightarrow> ('a \<Rightarrow> app_error + unit) \<Rightarrow> app_error + unit" where
  "check_given new f = (case new of None \<Rightarrow> Inr () | Some v \<Rightarrow> f v)"

text \<open>The checks of \<open>patch_vm\<close>, in the order of the fields.\<close>

definition check_vm_patch :: "vm_patch \<Rightarrow> vm_row \<Rightarrow> app_error + unit" where
  "check_vm_patch z v =
     and_then (check_given (z_os_family z) (validate_non_empty ''os_family'')) (\<lambda>_.
     and_then (check_given (z_root_username z) (validate_non_empty ''root_username'')) (\<lambda>_.
     and_then (check_given (z_hostname z) (validate_non_empty ''hostname'')) (\<lambda>_.
     and_then (check_given (z_vcpus z) (\<lambda>n. require (n \<noteq> 0) (Validation ''vcpus must be greater than zero''))) (\<lambda>_.
     and_then (check_given (z_memory_mib z)
       (\<lambda>n. require (\<not> n < 256) (Validation ''memory_mib must be at least 256''))) (\<lambda>_.
     and_then (check_given (z_disk_gib z)
       (\<lambda>n. require (\<not> n < v_disk_gib v) (Validation ''VM disks cannot be shrunk''))) (\<lambda>_.
     check_given (z_network_limit z)
       (\<lambda>n. require (n \<noteq> Some 0) (Validation ''network_limit_mbps must be greater than zero''))))))))"

text \<open>The patched row in memory, which the operation returns.\<close>

definition patched_vm :: "vm_patch \<Rightarrow> timestamp \<Rightarrow> vm_row \<Rightarrow> vm_row" where
  "patched_vm z now v = v\<lparr>v_iso := given (z_iso z) (v_iso v),
     v_os_family := given (map_option trim (z_os_family z)) (v_os_family v),
     v_root_username := given (map_option trim (z_root_username z)) (v_root_username v),
     v_hostname := given (map_option trim (z_hostname z)) (v_hostname v),
     v_description := given (z_description z) (v_description v),
     v_state := given (z_state z) (v_state v), v_desired := given (z_desired z) (v_desired v),
     v_vcpus := given (z_vcpus z) (v_vcpus v), v_memory_mib := given (z_memory_mib z) (v_memory_mib v),
     v_disk_gib := given (z_disk_gib z) (v_disk_gib v), v_tap := given (z_tap z) (v_tap v),
     v_network_limit := given (z_network_limit z) (v_network_limit v),
     v_traffic_limit := given (z_traffic_limit z) (v_traffic_limit v),
     v_traffic_used := given (z_traffic_used z) (v_traffic_used v),
     v_guest_agent := given (z_guest_agent z) (v_guest_agent v),
     v_autostart := given (z_autostart z) (v_autostart v),
     v_timezone := given (z_timezone z) (v_timezone v),
     v_libvirt_uuid := given (z_libvirt_uuid z) (v_libvirt_uuid v),
     v_vnc_display := given (z_vnc_display z) (v_vnc_display v),
     v_metadata := given (z_metadata z) (v_metadata v), v_updated_at := now\<rparr>"

text \<open>\<open>save_vm\<close> writes the columns its statement names.\<close>

definition saved_columns :: "vm_row \<Rightarrow> vm_row \<Rightarrow> vm_row" where
  "saved_columns vm v = v\<lparr>v_hostname := v_hostname vm, v_description := v_description vm,
     v_state := v_state vm, v_desired := v_desired vm, v_vcpus := v_vcpus vm,
     v_memory_mib := v_memory_mib vm, v_disk_gib := v_disk_gib vm,
     v_network_limit := v_network_limit vm, v_traffic_limit := v_traffic_limit vm,
     v_traffic_used := v_traffic_used vm, v_guest_agent := v_guest_agent vm,
     v_autostart := v_autostart vm, v_timezone := v_timezone vm,
     v_libvirt_uuid := v_libvirt_uuid vm, v_vnc_display := v_vnc_display vm,
     v_metadata := v_metadata vm, v_updated_at := v_updated_at vm\<rparr>"

definition save_vm :: "vm_row \<Rightarrow> db \<Rightarrow> unit transaction" where
  "save_vm vm d =
     and_then (checked_i64 (v_memory_mib vm) ''memory_mib'') (\<lambda>_.
     and_then (checked_i64 (v_disk_gib vm) ''disk_gib'') (\<lambda>_.
     and_then (optional_i64 (v_network_limit vm) ''network_limit_mbps'') (\<lambda>_.
     and_then (optional_i64 (v_traffic_limit vm) ''traffic_limit_bytes'') (\<lambda>_.
     and_then (checked_i64 (v_traffic_used vm) ''traffic_used_bytes'') (\<lambda>_.
     and_then (require (\<forall>w \<in> set (vms d). v_id w = v_id vm
         \<or> \<not> same_some (v_libvirt_uuid vm) (v_libvirt_uuid w)) unique_error) (\<lambda>_.
     Inr (d\<lparr>vms := update_where (\<lambda>v. v_id v = v_id vm) (saved_columns vm) (vms d)\<rparr>, ())))))))"

definition patch_vm :: "string \<Rightarrow> vm_patch \<Rightarrow> timestamp \<Rightarrow> db \<Rightarrow> vm_row transaction" where
  "patch_vm id_or_name z now d =
     and_then (ok_or (query_vm d id_or_name) (NotFound ''VM'')) (\<lambda>v.
     and_then (check_vm_patch z v) (\<lambda>_.
     let vm = patched_vm z now v in
     and_then (save_vm vm d) (\<lambda>(d1, _). Inr (d1, vm))))"

definition set_vm_state ::
  "string \<Rightarrow> vm_state \<Rightarrow> vm_state option \<Rightarrow> string option \<Rightarrow> int option \<Rightarrow> timestamp \<Rightarrow> db \<Rightarrow> unit transaction" where
  "set_vm_state id_or_name state desired uuid vnc now d =
     (let p = (\<lambda>v. v_id v = id_or_name \<or> ascii_lower (v_name v) = ascii_lower id_or_name) in
      and_then (require (uuid = None \<or> count_where p (vms d) = 0
          \<or> (count_where p (vms d) = 1 \<and> (\<forall>v \<in> set (vms d). p v \<or> v_libvirt_uuid v \<noteq> uuid)))
        unique_error) (\<lambda>_.
      and_then (require_changed (count_where p (vms d)) ''VM'') (\<lambda>_.
      Inr (d\<lparr>vms := update_where p (\<lambda>v. v\<lparr>v_state := state, v_desired := given desired (v_desired v),
        v_libvirt_uuid := (if uuid = None then v_libvirt_uuid v else uuid), v_vnc_display := vnc,
        v_updated_at := now\<rparr>) (vms d)\<rparr>, ()))))"

section \<open>The guest password\<close>

definition set_vm_password_envelope :: "string \<Rightarrow> string \<Rightarrow> timestamp \<Rightarrow> db \<Rightarrow> unit transaction" where
  "set_vm_password_envelope vm envelope now d =
     and_then (validate_non_empty ''password envelope'' envelope) (\<lambda>_.
     and_then (require_changed (count_where (\<lambda>v. v_id v = vm) (vms d)) ''VM'') (\<lambda>_.
     Inr (d\<lparr>vms := update_where (\<lambda>v. v_id v = vm) (\<lambda>v. v\<lparr>v_password_envelope := Some envelope,
       v_password_updated_at := Some now, v_updated_at := now\<rparr>) (vms d)\<rparr>, ())))"

definition clear_vm_password :: "string \<Rightarrow> timestamp \<Rightarrow> db \<Rightarrow> unit transaction" where
  "clear_vm_password vm now d =
     and_then (require_changed (count_where (\<lambda>v. v_id v = vm) (vms d)) ''VM'') (\<lambda>_.
     Inr (d\<lparr>vms := update_where (\<lambda>v. v_id v = vm) (\<lambda>v. v\<lparr>v_password_envelope := None,
       v_password_updated_at := None, v_updated_at := now\<rparr>) (vms d)\<rparr>, ()))"

definition set_vm_password ::
  "seal_lib \<Rightarrow> string \<Rightarrow> envelope_random \<Rightarrow> string \<Rightarrow> string \<Rightarrow> timestamp \<Rightarrow> db \<Rightarrow> unit transaction" where
  "set_vm_password lib master rnd vm password now d =
     and_then (validate_non_empty ''VM password'' password) (\<lambda>_.
     and_then (encrypt_secret lib master rnd password (vm_password_context vm)) (\<lambda>envelope.
     set_vm_password_envelope vm envelope now d))"

definition vm_password_envelope :: "db \<Rightarrow> string \<Rightarrow> string option" where
  "vm_password_envelope d vm = Option.bind (select_one (\<lambda>v. v_id v = vm) (vms d)) v_password_envelope"

definition decrypt_vm_password :: "seal_lib \<Rightarrow> string \<Rightarrow> string \<Rightarrow> db \<Rightarrow> app_error + string option" where
  "decrypt_vm_password lib master vm d =
     (case vm_password_envelope d vm of
        None \<Rightarrow> Inr None
      | Some e \<Rightarrow> and_then (decrypt_secret lib master e (vm_password_context vm)) (\<lambda>p. Inr (Some p)))"

section \<open>The traffic quota\<close>

definition vm_traffic_enforcement :: "db \<Rightarrow> string \<Rightarrow> traffic_row option" where
  "vm_traffic_enforcement d vm = select_one (\<lambda>e. e_vm e = vm) (traffic d)"

definition set_vm_traffic_enforcement ::
  "string \<Rightarrow> bool \<Rightarrow> string option \<Rightarrow> timestamp \<Rightarrow> db \<Rightarrow> traffic_row transaction" where
  "set_vm_traffic_enforcement vm blocked last_error now d =
     (let old = vm_traffic_enforcement d vm;
          blocked_at = (if \<not> blocked then None
            else case Option.bind old e_blocked_at of Some t \<Rightarrow> Some t | None \<Rightarrow> Some now);
          row = \<lparr>e_vm = vm, e_blocked = blocked, e_blocked_at = blocked_at,
                 e_last_error = last_error, e_updated_at = now\<rparr> in
      case old of
        None \<Rightarrow> and_then (require (vm_exists d vm) foreign_key_error) (\<lambda>_.
          Inr (d\<lparr>traffic := traffic d @ [row]\<rparr>, row))
      | Some _ \<Rightarrow> Inr (d\<lparr>traffic := update_where (\<lambda>e. e_vm e = vm) (\<lambda>_. row) (traffic d)\<rparr>, row))"

definition is_exceeded :: "nat option \<Rightarrow> nat \<Rightarrow> bool" where
  "is_exceeded limit used \<longleftrightarrow> (case limit of None \<Rightarrow> False | Some l \<Rightarrow> 0 < l \<and> l < used)"

record quota_status =
  u_limit :: "nat option"
  u_used :: nat
  u_unlimited :: bool
  u_exceeded :: bool
  u_blocked :: bool
  u_blocked_at :: "timestamp option"
  u_error :: "string option"

definition quota_status_from :: "vm_row \<Rightarrow> traffic_row option \<Rightarrow> quota_status" where
  "quota_status_from v e =
     (let limit = (case v_traffic_limit v of Some l \<Rightarrow> if 0 < l then Some l else None | None \<Rightarrow> None) in
      \<lparr>u_limit = limit, u_used = v_traffic_used v, u_unlimited = (limit = None),
       u_exceeded = is_exceeded limit (v_traffic_used v),
       u_blocked = (case e of None \<Rightarrow> False | Some r \<Rightarrow> e_blocked r),
       u_blocked_at = Option.bind e e_blocked_at, u_error = Option.bind e e_last_error\<rparr>)"

text \<open>
  \<open>reconcile_vm_locked\<close>. The hypervisor is \<open>links\<close>, the link state of each VM by name, and
  \<open>refuse\<close>, the error its next answer is; a link change is made when it does not refuse.
  Writes commit one by one, so the state is returned with errors too.
\<close>

record traffic_panel =
  tp_db :: db
  tp_links :: "string \<Rightarrow> bool"

definition set_network_enabled ::
  "string option \<Rightarrow> string \<Rightarrow> bool \<Rightarrow> traffic_panel \<Rightarrow> traffic_panel \<times> (string + unit)" where
  "set_network_enabled refuse name enabled p =
     (case refuse of
        Some e \<Rightarrow> (p, Inl e)
      | None \<Rightarrow> (p\<lparr>tp_links := (tp_links p)(name := enabled)\<rparr>, Inr ()))"

definition recorded :: "app_error + (db \<times> 'a) \<Rightarrow> traffic_panel \<Rightarrow> traffic_panel \<times> (app_error + unit)" where
  "recorded r p = (case r of Inl e \<Rightarrow> (p, Inl e) | Inr (d, _) \<Rightarrow> (p\<lparr>tp_db := d\<rparr>, Inr ()))"

definition currently_blocked :: "db \<Rightarrow> string \<Rightarrow> bool" where
  "currently_blocked d vm = (case vm_traffic_enforcement d vm of None \<Rightarrow> False | Some e \<Rightarrow> e_blocked e)"

definition needs_transition :: "bool \<Rightarrow> vm_row \<Rightarrow> db \<Rightarrow> bool" where
  "needs_transition force v d \<longleftrightarrow>
     (let should = is_exceeded (v_traffic_limit v) (v_traffic_used v) in
      should \<noteq> currently_blocked d (v_id v) \<or> (force \<and> should))"

definition traffic_transition ::
  "string option \<Rightarrow> timestamp \<Rightarrow> vm_row \<Rightarrow> traffic_panel \<Rightarrow> traffic_panel \<times> (app_error + unit)" where
  "traffic_transition refuse now v p =
     (let should = is_exceeded (v_traffic_limit v) (v_traffic_used v) in
      case set_network_enabled refuse (v_name v) (\<not> should) p of
        (p1, Inr _) \<Rightarrow> recorded (set_vm_traffic_enforcement (v_id v) should None now (tp_db p1)) p1
      | (p1, Inl e) \<Rightarrow>
          (case recorded (set_vm_traffic_enforcement (v_id v) (currently_blocked (tp_db p) (v_id v))
                   (Some e) now (tp_db p1)) p1 of
             (p2, Inl e') \<Rightarrow> (p2, Inl e')
           | (p2, Inr _) \<Rightarrow> (p2, Inl (HypervisorFailed (''traffic quota could not ''
               @ (if should then ''disable'' else ''restore'') @ '' VM network: '' @ e)))))"

definition reconcile_traffic ::
  "string option \<Rightarrow> string \<Rightarrow> bool \<Rightarrow> timestamp \<Rightarrow> traffic_panel
    \<Rightarrow> traffic_panel \<times> (app_error + quota_status)" where
  "reconcile_traffic refuse vm force now p =
     (case query_vm (tp_db p) vm of
        None \<Rightarrow> (p, Inl (NotFound ''VM''))
      | Some v \<Rightarrow>
          let existing = vm_traffic_enforcement (tp_db p) (v_id v);
              result =
                (if needs_transition force v (tp_db p) then traffic_transition refuse now v p
                 else if (case existing of None \<Rightarrow> False | Some e \<Rightarrow> e_last_error e \<noteq> None)
                 then recorded (set_vm_traffic_enforcement (v_id v)
                        (currently_blocked (tp_db p) (v_id v)) None now (tp_db p)) p
                 else (p, Inr ())) in
          (case result of
             (p1, Inl e) \<Rightarrow> (p1, Inl e)
           | (p1, Inr _) \<Rightarrow>
               (p1, and_then (ok_or (query_vm (tp_db p1) (v_id v)) (NotFound ''VM'')) (\<lambda>c.
                    Inr (quota_status_from c (vm_traffic_enforcement (tp_db p1) (v_id c)))))))"

text \<open>\<open>reset_usage_locked\<close>; the accounting generation is a counter of the workers.\<close>

definition reset_usage :: "string \<Rightarrow> timestamp \<Rightarrow> db \<Rightarrow> vm_row transaction" where
  "reset_usage vm now d = patch_vm vm (no_patch\<lparr>z_traffic_used := Some 0\<rparr>) now d"

end
