(* ===== verification/Vm_Safety.thy ===== *)
theory Vm_Safety
  imports Vm_Store
begin

text \<open>
  What the operations on virtual machines promise: the invariant of the rows over whole
  histories, the hardware that never changes, disks that never shrink, the guest password
  that is read back as it was set, the columns a patch loses, and the traffic quota.
\<close>

datatype vm_request =
    CreateVm string timestamp new_vm
  | CreateVmWithPassword envelope_random string timestamp new_vm string
  | RenameVm string string timestamp
  | PatchVm string vm_patch timestamp
  | SetVmState string vm_state "vm_state option" "string option" "int option" timestamp
  | SetVmPassword envelope_random string string timestamp
  | StoreVmEnvelope string string timestamp
  | ClearVmPassword string timestamp
  | ResetVmTraffic string timestamp
  | EnforceTraffic string bool "string option" timestamp
  | DeleteVmRow string timestamp

text \<open>The images there are and the master key do not change during a history.\<close>

record vm_world =
  wd_iso :: "string \<Rightarrow> bool"
  wd_seal :: seal_lib
  wd_master :: string

fun vm_step :: "vm_world \<Rightarrow> db \<Rightarrow> vm_request \<Rightarrow> app_error + db" where
  "vm_step W d (CreateVm i now s) = result_db (create_vm (wd_iso W) i now s d)"
| "vm_step W d (CreateVmWithPassword rnd i now s pw) =
     result_db (create_vm_with_password (wd_iso W) (wd_seal W) (wd_master W) rnd i now s pw d)"
| "vm_step W d (RenameVm i n now) = result_db (reconcile_vm_name i n now d)"
| "vm_step W d (PatchVm i z now) = result_db (patch_vm i z now d)"
| "vm_step W d (SetVmState i st des uuid vnc now) = result_db (set_vm_state i st des uuid vnc now d)"
| "vm_step W d (SetVmPassword rnd i pw now) =
     result_db (set_vm_password (wd_seal W) (wd_master W) rnd i pw now d)"
| "vm_step W d (StoreVmEnvelope i e now) = result_db (set_vm_password_envelope i e now d)"
| "vm_step W d (ClearVmPassword i now) = result_db (clear_vm_password i now d)"
| "vm_step W d (ResetVmTraffic i now) = result_db (reset_usage i now d)"
| "vm_step W d (EnforceTraffic i b e now) = result_db (set_vm_traffic_enforcement i b e now d)"
| "vm_step W d (DeleteVmRow i now) = result_db (delete_vm i now d)"

section \<open>The invariant\<close>

text \<open>What the columns of a row satisfy, and the UNIQUE columns of the table.\<close>

definition vm_ok :: "vm_row \<Rightarrow> bool" where
  "vm_ok v \<longleftrightarrow> v_name v \<noteq> [] \<and> v_hostname v \<noteq> [] \<and> v_vcpus v \<noteq> 0 \<and> \<not> v_memory_mib v < 256
     \<and> int (v_memory_mib v) \<le> i64_max \<and> v_disk_gib v \<noteq> 0 \<and> int (v_disk_gib v) \<le> i64_max
     \<and> v_firmware v \<in> {''bios'', ''uefi''}
     \<and> v_machine_type v \<in> {None, Some ''q35'', Some ''i440fx''}
     \<and> v_network_limit v \<noteq> Some 0 \<and> local_account (v_root_username v)
     \<and> (v_password_envelope v = None) = (v_password_updated_at v = None)"

definition unique_column :: "(vm_row \<Rightarrow> 'k option) \<Rightarrow> vm_row list \<Rightarrow> bool" where
  "unique_column g rows \<longleftrightarrow> (\<forall>v \<in> set rows. \<forall>w \<in> set rows. same_some (g v) (g w) \<longrightarrow> v_id v = v_id w)"

definition vms_ok :: "vm_row list \<Rightarrow> bool" where
  "vms_ok rows \<longleftrightarrow> (\<forall>v \<in> set rows. vm_ok v) \<and> distinct (map v_id rows)
     \<and> unique_column (\<lambda>v. Some (ascii_lower (v_name v))) rows
     \<and> unique_column v_tap rows \<and> unique_column v_mac rows \<and> unique_column v_libvirt_uuid rows"

lemma vms_ok_id: "vms_ok rows \<Longrightarrow> v \<in> set rows \<Longrightarrow> w \<in> set rows \<Longrightarrow> v_id v = v_id w \<Longrightarrow> v = w"
  unfolding vms_ok_def by (metis distinct_map inj_onD)

lemma vms_ok_row: "vms_ok rows \<Longrightarrow> v \<in> set rows \<Longrightarrow> vm_ok v"
  by (simp add: vms_ok_def)

lemma unique_column_delete: "unique_column g rows \<Longrightarrow> unique_column g (delete_where p rows)"
  by (simp add: unique_column_def table_simps)

lemma vms_ok_delete: "vms_ok rows \<Longrightarrow> vms_ok (delete_where p rows)"
  by (simp add: vms_ok_def unique_column_delete map_delete_where_distinct table_simps)

lemma unique_column_map:
  assumes "\<And>v w. v \<in> set rows \<Longrightarrow> w \<in> set rows \<Longrightarrow> same_some (g (h v)) (g (h w)) \<Longrightarrow> v_id (h v) = v_id (h w)"
  shows "unique_column g (map h rows)"
  using assms by (simp add: unique_column_def)

lemma unique_column_update:
  assumes "unique_column g rows" "\<And>v. v_id (f v) = v_id v" "\<And>v. p v \<Longrightarrow> g (f v) = g v"
  shows "unique_column g (update_where p f rows)"
  unfolding update_where_def
proof (rule unique_column_map)
  fix v w assume vw: "v \<in> set rows" "w \<in> set rows"
    "same_some (g (if p v then f v else v)) (g (if p w then f w else w))"
  then have "same_some (g v) (g w)" using assms(3) by (simp split: if_splits)
  then have "v_id v = v_id w" using assms(1) vw(1,2) unfolding unique_column_def by blast
  then show "v_id (if p v then f v else v) = v_id (if p w then f w else w)" using assms(2) by simp
qed

lemma same_some_sym: "same_some a b = same_some b a"
  unfolding same_some_def by metis

text \<open>A column written on the one row of an id, with a value no other row has.\<close>

lemma unique_column_write:
  assumes "unique_column g rows" "\<And>v. v_id (f v) = v_id v"
    and "\<And>v w. v \<in> set rows \<Longrightarrow> w \<in> set rows \<Longrightarrow> p v \<Longrightarrow> same_some (g (f v)) (g w) \<Longrightarrow> v_id w = v_id v"
    and "\<And>v w. v \<in> set rows \<Longrightarrow> w \<in> set rows \<Longrightarrow> p v \<Longrightarrow> p w \<Longrightarrow> same_some (g (f v)) (g (f w)) \<Longrightarrow> v_id v = v_id w"
  shows "unique_column g (update_where p f rows)"
  unfolding update_where_def
proof (rule unique_column_map)
  fix v w assume vw: "v \<in> set rows" "w \<in> set rows"
    and s: "same_some (g (if p v then f v else v)) (g (if p w then f w else w))"
  have "v_id v = v_id w"
  proof (cases "p v"; cases "p w")
    assume "p v" "p w"
    then show ?thesis using assms(4) [OF vw] s by simp
  next
    assume "p v" "\<not> p w"
    then show ?thesis using assms(3) [OF vw] s by simp
  next
    assume "\<not> p v" "p w"
    then show ?thesis using assms(3) [OF vw(2,1)] s by (simp add: same_some_sym [of "g v"])
  next
    assume "\<not> p v" "\<not> p w"
    then show ?thesis using assms(1) vw s unfolding unique_column_def by simp
  qed
  then show "v_id (if p v then f v else v) = v_id (if p w then f w else w)" using assms(2) by simp
qed

text \<open>An update that writes no unique column.\<close>

definition quiet_columns :: "(vm_row \<Rightarrow> vm_row) \<Rightarrow> bool" where
  "quiet_columns f \<longleftrightarrow> (\<forall>v. v_id (f v) = v_id v \<and> v_name (f v) = v_name v \<and> v_tap (f v) = v_tap v
     \<and> v_mac (f v) = v_mac v)"

lemma vms_ok_update:
  assumes "vms_ok rows" "quiet_columns f" "\<And>v. v \<in> set rows \<Longrightarrow> p v \<Longrightarrow> vm_ok v \<Longrightarrow> vm_ok (f v)"
    and "unique_column v_libvirt_uuid (update_where p f rows)"
  shows "vms_ok (update_where p f rows)"
proof -
  have q: "\<And>v. v_id (f v) = v_id v" "\<And>v. v_name (f v) = v_name v" "\<And>v. v_tap (f v) = v_tap v"
    "\<And>v. v_mac (f v) = v_mac v" using assms(2) by (simp_all add: quiet_columns_def)
  have d: "distinct (map v_id (update_where p f rows))"
    using assms(1) q(1) by (simp add: map_update_where vms_ok_def)
  have ok: "\<forall>v \<in> set (update_where p f rows). vm_ok v"
    using assms(1,3) by (intro update_where_ball) (auto simp: vms_ok_def)
  have "unique_column g (update_where p f rows)" if "unique_column g rows" "\<And>v. g (f v) = g v" for g :: "vm_row \<Rightarrow> string option"
    using that q(1) by (intro unique_column_update) auto
  then show ?thesis
    using assms(1) d ok assms(4) q unfolding vms_ok_def by simp
qed

lemma vms_ok_update_quiet:
  assumes "vms_ok rows" "quiet_columns f" "\<And>v. v \<in> set rows \<Longrightarrow> p v \<Longrightarrow> vm_ok v \<Longrightarrow> vm_ok (f v)"
    and "\<And>v. v_libvirt_uuid (f v) = v_libvirt_uuid v"
  shows "vms_ok (update_where p f rows)"
proof (rule vms_ok_update [OF assms(1,2,3)])
  show "unique_column v_libvirt_uuid (update_where p f rows)"
    using assms(1,2,4) by (intro unique_column_update) (simp_all add: vms_ok_def quiet_columns_def)
qed simp_all

lemma unique_column_append:
  "unique_column g rows \<Longrightarrow> (\<forall>w \<in> set rows. \<not> same_some (g v) (g w)) \<Longrightarrow> unique_column g (rows @ [v])"
proof -
  assume u: "unique_column g rows" and n: "\<forall>w \<in> set rows. \<not> same_some (g v) (g w)"
  then have "\<forall>w \<in> set rows. \<not> same_some (g w) (g v)" unfolding same_some_def by metis
  with u n show ?thesis unfolding unique_column_def by simp
qed

lemma vms_ok_append:
  assumes "vms_ok rows" "vm_ok v" "\<forall>w \<in> set rows. \<not> vm_clash v w"
  shows "vms_ok (rows @ [v])"
proof -
  have "v_id v \<notin> v_id ` set rows" using assms(3) by (auto simp: vm_clash_def)
  moreover have "\<forall>w \<in> set rows. \<not> same_some (Some (ascii_lower (v_name v))) (Some (ascii_lower (v_name w)))"
    using assms(3) by (simp add: vm_clash_def same_some_def)
  ultimately show ?thesis
    using assms by (simp add: vms_ok_def unique_column_append vm_clash_def)
qed

section \<open>Every operation keeps it\<close>

lemma local_account_nonempty: "validate_non_empty l u = Inr x \<Longrightarrow> u \<noteq> []"
  by (auto simp: trim_def)

lemma validate_vm_spec_Inr:
  "validate_vm_spec s = Inr x \<longleftrightarrow> trim (o_name s) \<noteq> [] \<and> trim (o_hostname s) \<noteq> []
     \<and> trim (o_disk_format s) \<noteq> [] \<and> trim (o_root_username s) \<noteq> [] \<and> local_account (o_root_username s)
     \<and> o_vcpus s \<noteq> 0 \<and> \<not> o_memory_mib s < 256 \<and> o_disk_gib s \<noteq> 0 \<and> o_firmware s \<in> {''bios'', ''uefi''}
     \<and> o_machine_type s \<in> {None, Some ''q35'', Some ''i440fx''} \<and> o_network_limit s \<noteq> Some 0"
  by (simp add: validate_vm_spec_def and_then_Inr)

lemma checked_i64_Inr: "checked_i64 n l = Inr x \<longleftrightarrow> int n \<le> i64_max"
  by (simp add: checked_i64_def)

lemma insert_vm_Inr:
  assumes "insert_vm e i now s pw d = Inr (t, r)"
  shows "validate_vm_spec s = Inr ()" "int (o_memory_mib s) \<le> i64_max" "int (o_disk_gib s) \<le> i64_max"
    "\<forall>w \<in> set (vms d). \<not> vm_clash (vm_of_spec i now s pw) w" "t = d\<lparr>vms := vms d @ [vm_of_spec i now s pw]\<rparr>"
  using assms by (auto simp: insert_vm_def and_then_Inr checked_i64_Inr Let_def)

lemma vm_of_spec_ok:
  assumes "validate_vm_spec s = Inr ()" "int (o_memory_mib s) \<le> i64_max" "int (o_disk_gib s) \<le> i64_max"
  shows "vm_ok (vm_of_spec i now s pw)"
  using assms by (auto simp: vm_ok_def vm_of_spec_def validate_vm_spec_Inr)

lemma insert_vm_keeps: "vms_ok (vms d) \<Longrightarrow> insert_vm e i now s pw d = Inr (t, r) \<Longrightarrow> vms_ok (vms t)"
  using vms_ok_append [OF _ vm_of_spec_ok] insert_vm_Inr [of e i now s pw d t r] by simp

lemma create_vm_with_password_insert:
  "create_vm_with_password e lib m rnd i now s pw d = Inr (t, r)
    \<Longrightarrow> \<exists>env. encrypt_secret lib m rnd pw (vm_password_context i) = Inr env
          \<and> insert_vm e i now s (Some env) d = Inr (t, r)"
  by (auto simp: create_vm_with_password_def and_then_Inr)

lemma patch_vm_Inr:
  assumes "patch_vm k z now d = Inr (t, r)"
  obtains v where "query_vm d k = Some v" "check_vm_patch z v = Inr ()" "r = patched_vm z now v"
    "save_vm r d = Inr (t, ())"
  using assms by (auto simp: patch_vm_def and_then_Inr Let_def)

lemma save_vm_Inr:
  "save_vm vm d = Inr (t, u) \<longleftrightarrow> int (v_memory_mib vm) \<le> i64_max \<and> int (v_disk_gib vm) \<le> i64_max
     \<and> optional_i64 (v_network_limit vm) ''network_limit_mbps'' = Inr ()
     \<and> optional_i64 (v_traffic_limit vm) ''traffic_limit_bytes'' = Inr ()
     \<and> int (v_traffic_used vm) \<le> i64_max
     \<and> (\<forall>w \<in> set (vms d). v_id w = v_id vm \<or> \<not> same_some (v_libvirt_uuid vm) (v_libvirt_uuid w))
     \<and> t = d\<lparr>vms := update_where (\<lambda>v. v_id v = v_id vm) (saved_columns vm) (vms d)\<rparr>"
  by (auto simp: save_vm_def and_then_Inr checked_i64_Inr)

lemma quiet_saved: "quiet_columns (saved_columns vm)"
  by (simp add: quiet_columns_def saved_columns_def)

lemma given_simps [simp]: "given None old = old" "given (Some v) old = v"
  by (simp_all add: given_def)

lemma check_given_simps [simp]: "check_given None f = Inr ()" "check_given (Some v) f = f v"
  by (simp_all add: check_given_def)

lemma check_vm_patch_Inr:
  "check_vm_patch z v = Inr u \<longleftrightarrow>
     check_given (z_os_family z) (validate_non_empty ''os_family'') = Inr ()
     \<and> check_given (z_root_username z) (validate_non_empty ''root_username'') = Inr ()
     \<and> (\<forall>h. z_hostname z = Some h \<longrightarrow> trim h \<noteq> []) \<and> z_vcpus z \<noteq> Some 0
     \<and> (\<forall>n. z_memory_mib z = Some n \<longrightarrow> \<not> n < 256) \<and> (\<forall>n. z_disk_gib z = Some n \<longrightarrow> \<not> n < v_disk_gib v)
     \<and> z_network_limit z \<noteq> Some (Some 0)"
  by (simp add: check_vm_patch_def and_then_Inr check_given_def split: option.split)

lemma patched_fields:
  assumes "vm_ok v" "check_vm_patch z v = Inr ()"
  shows "v_hostname (patched_vm z now v) \<noteq> []" "v_vcpus (patched_vm z now v) \<noteq> 0"
    "\<not> v_memory_mib (patched_vm z now v) < 256" "v_disk_gib v \<le> v_disk_gib (patched_vm z now v)"
    "v_network_limit (patched_vm z now v) \<noteq> Some 0"
  using assms by (auto simp: vm_ok_def check_vm_patch_Inr patched_vm_def given_def not_less split: option.splits)

lemma patched_saved_ok:
  assumes "vm_ok v" "check_vm_patch z v = Inr ()" "save_vm (patched_vm z now v) d = Inr (t, ())" "vm_ok w"
  shows "vm_ok (saved_columns (patched_vm z now v) w)"
proof -
  let ?r = "patched_vm z now v"
  have "v_disk_gib v \<noteq> 0" "int (v_memory_mib ?r) \<le> i64_max" "int (v_disk_gib ?r) \<le> i64_max"
    using assms(1,3) by (simp_all add: vm_ok_def save_vm_Inr)
  then show ?thesis
    using assms(4) patched_fields [OF assms(1,2), of now] by (simp add: vm_ok_def saved_columns_def)
qed

lemma patch_vm_keeps:
  assumes "vms_ok (vms d)" "patch_vm k z now d = Inr (t, r)"
  shows "vms_ok (vms t)"
proof -
  obtain v where v: "query_vm d k = Some v" "check_vm_patch z v = Inr ()" "r = patched_vm z now v"
    "save_vm r d = Inr (t, ())" using assms(2) by (rule patch_vm_Inr)
  have vin: "v \<in> set (vms d)" using v(1) by (auto simp: query_vm_def dest: select_one_Some)
  have t: "vms t = update_where (\<lambda>w. v_id w = v_id r) (saved_columns r) (vms d)" using v(4) by (simp add: save_vm_Inr)
  have rid: "v_id r = v_id v" by (simp add: v(3) patched_vm_def)
  show ?thesis unfolding t
  proof (rule vms_ok_update [OF assms(1) quiet_saved])
    fix w assume "w \<in> set (vms d)" "v_id w = v_id r" "vm_ok w"
    then show "vm_ok (saved_columns r w)"
      using patched_saved_ok [OF vms_ok_row [OF assms(1) vin] v(2)] v(3,4) rid by metis
  next
    have u: "v_id w = v_id r" if "w \<in> set (vms d)" "same_some (v_libvirt_uuid r) (v_libvirt_uuid w)" for w
      using that v(4) by (auto simp: save_vm_Inr)
    show "unique_column v_libvirt_uuid (update_where (\<lambda>w. v_id w = v_id r) (saved_columns r) (vms d))"
      using assms(1) u
      by (intro unique_column_write) (auto simp: vms_ok_def saved_columns_def)
  qed
qed

lemma reconcile_vm_name_Inr:
  assumes "reconcile_vm_name i n now d = Inr (t, r)"
  shows "valid_vm_name (trim n)" "\<forall>v \<in> set (vms d). v_id v = i \<or> ascii_lower (v_name v) \<noteq> ascii_lower (trim n)"
    "vms t = update_where (\<lambda>v. v_id v = i) (\<lambda>v. v\<lparr>v_name := trim n, v_updated_at := now\<rparr>) (vms d)"
proof -
  have "valid_vm_name (trim n)" "\<not> vm_exists d i \<or> (\<forall>v \<in> set (vms d). v_id v = i \<or> ascii_lower (v_name v) \<noteq> ascii_lower (trim n))"
    "count_where (\<lambda>v. v_id v = i) (vms d) \<noteq> 0"
    and t: "vms t = update_where (\<lambda>v. v_id v = i) (\<lambda>v. v\<lparr>v_name := trim n, v_updated_at := now\<rparr>) (vms d)"
    using assms by (auto simp: reconcile_vm_name_def and_then_Inr Let_def)
  moreover from this have "vm_exists d i" by (auto simp: vm_exists_def count_where_0)
  ultimately show "valid_vm_name (trim n)"
    "\<forall>v \<in> set (vms d). v_id v = i \<or> ascii_lower (v_name v) \<noteq> ascii_lower (trim n)"
    "vms t = update_where (\<lambda>v. v_id v = i) (\<lambda>v. v\<lparr>v_name := trim n, v_updated_at := now\<rparr>) (vms d)"
    by auto
qed

lemma vms_ok_rename:
  assumes "vms_ok rows" "n \<noteq> []" "\<forall>v \<in> set rows. v_id v = i \<or> ascii_lower (v_name v) \<noteq> ascii_lower n"
  shows "vms_ok (update_where (\<lambda>v. v_id v = i) (\<lambda>v. v\<lparr>v_name := n, v_updated_at := now\<rparr>) rows)"
proof -
  let ?f = "\<lambda>v. v\<lparr>v_name := n, v_updated_at := now\<rparr>" and ?p = "\<lambda>v. v_id v = i"
  have "distinct (map v_id (update_where ?p ?f rows))"
    using assms(1) by (simp add: map_update_where vms_ok_def)
  moreover have "\<forall>v \<in> set (update_where ?p ?f rows). vm_ok v"
    using assms(1,2) by (intro update_where_ball) (auto simp: vms_ok_def vm_ok_def)
  moreover have "unique_column g (update_where ?p ?f rows)"
    if "unique_column g rows" "\<And>v. g (?f v) = g v" for g :: "vm_row \<Rightarrow> string option"
    using that by (intro unique_column_update) auto
  moreover have "unique_column (\<lambda>v. Some (ascii_lower (v_name v))) (update_where ?p ?f rows)"
    using assms(1,3) by (intro unique_column_write) (auto simp: vms_ok_def same_some_def)
  ultimately show ?thesis using assms(1) unfolding vms_ok_def by simp
qed

lemma reconcile_vm_name_keeps:
  "vms_ok (vms d) \<Longrightarrow> reconcile_vm_name i n now d = Inr (t, r) \<Longrightarrow> vms_ok (vms t)"
  using reconcile_vm_name_Inr [of i n now d t r] vms_ok_rename [of "vms d" "trim n" i now]
  by (auto simp: valid_vm_name_def)

lemma count_one_same:
  "count_where p rows = 1 \<Longrightarrow> v \<in> set rows \<Longrightarrow> w \<in> set rows \<Longrightarrow> p v \<Longrightarrow> p w \<Longrightarrow> v = w"
  by (induction rows) (auto split: if_splits simp: count_where_0)

lemma set_vm_state_keeps:
  assumes "vms_ok (vms d)" "set_vm_state i st des uuid vnc now d = Inr (t, u)"
  shows "vms_ok (vms t)"
proof -
  let ?p = "\<lambda>v. v_id v = i \<or> ascii_lower (v_name v) = ascii_lower i"
  let ?f = "\<lambda>v. v\<lparr>v_state := st, v_desired := given des (v_desired v),
        v_libvirt_uuid := (if uuid = None then v_libvirt_uuid v else uuid), v_vnc_display := vnc,
        v_updated_at := now\<rparr>"
  have t: "vms t = update_where ?p ?f (vms d)" and c: "count_where ?p (vms d) \<noteq> 0"
    and u: "uuid \<noteq> None \<Longrightarrow> count_where ?p (vms d) = 1"
      "uuid \<noteq> None \<Longrightarrow> \<forall>v \<in> set (vms d). ?p v \<or> v_libvirt_uuid v \<noteq> uuid"
    using assms(2) by (auto simp: set_vm_state_def and_then_Inr Let_def)
  show ?thesis unfolding t
  proof (rule vms_ok_update [OF assms(1)])
    show "unique_column v_libvirt_uuid (update_where ?p ?f (vms d))"
    proof (cases "uuid = None")
      case True
      then show ?thesis using assms(1) by (intro unique_column_update) (simp_all add: vms_ok_def)
    next
      case False
      note u' = u(1) [OF False] u(2) [OF False]
      show ?thesis
      proof (rule unique_column_write)
        show "unique_column v_libvirt_uuid (vms d)" using assms(1) by (simp add: vms_ok_def)
        fix v w assume vw: "v \<in> set (vms d)" "w \<in> set (vms d)" "?p v"
        then show "same_some (v_libvirt_uuid (?f v)) (v_libvirt_uuid w) \<Longrightarrow> v_id w = v_id v"
          using u' count_one_same [OF u'(1) vw(1,2)] False by (auto simp: same_some_def)
        show "?p w \<Longrightarrow> v_id v = v_id w" using count_one_same [OF u'(1) vw] by metis
      qed simp
    qed
  qed (simp_all add: quiet_columns_def vm_ok_def)
qed

lemma set_vm_password_envelope_Inr:
  "set_vm_password_envelope i e now d = Inr (t, u) \<longleftrightarrow> trim e \<noteq> []
     \<and> (\<exists>v \<in> set (vms d). v_id v = i)
     \<and> t = d\<lparr>vms := update_where (\<lambda>v. v_id v = i) (\<lambda>v. v\<lparr>v_password_envelope := Some e,
         v_password_updated_at := Some now, v_updated_at := now\<rparr>) (vms d)\<rparr>"
  by (auto simp: set_vm_password_envelope_def and_then_Inr count_where_0)

lemma set_envelope_keeps:
  "vms_ok (vms d) \<Longrightarrow> set_vm_password_envelope i e now d = Inr (t, u) \<Longrightarrow> vms_ok (vms t)"
  by (auto simp: set_vm_password_envelope_Inr quiet_columns_def vm_ok_def intro!: vms_ok_update_quiet)

lemma clear_vm_password_Inr:
  "clear_vm_password i now d = Inr (t, u) \<longleftrightarrow> (\<exists>v \<in> set (vms d). v_id v = i)
     \<and> t = d\<lparr>vms := update_where (\<lambda>v. v_id v = i) (\<lambda>v. v\<lparr>v_password_envelope := None,
         v_password_updated_at := None, v_updated_at := now\<rparr>) (vms d)\<rparr>"
  by (auto simp: clear_vm_password_def and_then_Inr count_where_0)

lemma clear_password_keeps: "vms_ok (vms d) \<Longrightarrow> clear_vm_password i now d = Inr (t, u) \<Longrightarrow> vms_ok (vms t)"
  by (auto simp: clear_vm_password_Inr quiet_columns_def vm_ok_def intro!: vms_ok_update_quiet)

lemma delete_vm_Inr:
  "delete_vm i now d = Inr (t, u) \<Longrightarrow> \<exists>v. query_vm d i = Some v \<and> vms t = delete_where (\<lambda>w. v_id w = v_id v) (vms d)"
  by (auto simp: delete_vm_def and_then_Inr delete_vm_rows_def Let_def)

lemma enforcement_vms: "set_vm_traffic_enforcement i b e now d = Inr (t, u) \<Longrightarrow> vms t = vms d"
  by (auto simp: set_vm_traffic_enforcement_def and_then_Inr Let_def split: option.splits)

text \<open>What a request does to the rows of VMs, one case per kind of statement.\<close>

lemma vm_step_keeps: "vms_ok (vms d) \<Longrightarrow> vm_step W d a = Inr t \<Longrightarrow> vms_ok (vms t)"
proof (cases a)
  case (CreateVmWithPassword rnd i now s pw)
  then show "vms_ok (vms d) \<Longrightarrow> vm_step W d a = Inr t \<Longrightarrow> vms_ok (vms t)"
    by (auto simp: result_db_Inr dest!: create_vm_with_password_insert intro: insert_vm_keeps)
next
  case (SetVmPassword rnd i pw now)
  then show "vms_ok (vms d) \<Longrightarrow> vm_step W d a = Inr t \<Longrightarrow> vms_ok (vms t)"
    by (auto simp: result_db_Inr set_vm_password_def and_then_Inr intro: set_envelope_keeps)
qed (auto simp: result_db_Inr create_vm_def reset_usage_def enforcement_vms vms_ok_delete dest: delete_vm_Inr
  intro: insert_vm_keeps patch_vm_keeps reconcile_vm_name_keeps set_vm_state_keeps set_envelope_keeps clear_password_keeps)

interpretation vm_machine: guarded_machine "vm_step W" "\<lambda>d. vms_ok (vms d)" "\<lambda>_. True"
  by unfold_locales (rule vm_step_keeps)

text \<open>
  C24. Over every history of requests the rows of virtual machines stay well formed: names,
  hardware and limits are within the bounds the constraints and the code state, a password has
  an envelope exactly when it has a date, and ids, names (whatever their case), TAP names, MAC
  addresses and libvirt ids are unique.
\<close>

theorem vm_rows_well_formed:
  assumes "vms_ok (vms d)"
  shows "vms_ok (vms (run_all (vm_step W) d as))"
  using vm_machine.run_all_inv [of d as W] assms by simp

section \<open>What never changes\<close>

fun creates :: "vm_request \<Rightarrow> string option" where
  "creates (CreateVm i now s) = Some i"
| "creates (CreateVmWithPassword rnd i now s pw) = Some i"
| "creates _ = None"

fun touches_password :: "vm_request \<Rightarrow> string option" where
  "touches_password (SetVmPassword rnd i pw now) = Some i"
| "touches_password (StoreVmEnvelope i e now) = Some i"
| "touches_password (ClearVmPassword i now) = Some i"
| "touches_password _ = None"

text \<open>The virtual hardware a VM keeps for life; its disk only grows.\<close>

definition same_hardware :: "vm_row \<Rightarrow> vm_row \<Rightarrow> bool" where
  "same_hardware v w \<longleftrightarrow> v_disk_format w = v_disk_format v \<and> v_firmware w = v_firmware v
     \<and> v_machine_type w = v_machine_type v \<and> v_bridge w = v_bridge v \<and> v_tap w = v_tap v
     \<and> v_mac w = v_mac v \<and> v_created_at w = v_created_at v \<and> v_disk_gib v \<le> v_disk_gib w"

definition evolves :: "vm_request \<Rightarrow> vm_row \<Rightarrow> vm_row \<Rightarrow> bool" where
  "evolves a v w \<longleftrightarrow> v_id w = v_id v \<and> same_hardware v w
     \<and> (touches_password a \<noteq> Some (v_id v) \<longrightarrow> v_password_envelope w = v_password_envelope v)"

lemma evolves_refl: "evolves a v v"
  by (simp add: evolves_def same_hardware_def)

lemma evolves_update:
  assumes "vms t = update_where p f (vms d)" "w \<in> set (vms t)"
    and "\<And>v. v \<in> set (vms d) \<Longrightarrow> p v \<Longrightarrow> evolves a v (f v)"
  shows "\<exists>v \<in> set (vms d). evolves a v w"
proof -
  obtain v where v: "v \<in> set (vms d)" "w = (if p v then f v else v)"
    using assms(1,2) by (metis set_update_where)
  then have "evolves a v w" using assms(3) evolves_refl by simp
  with v(1) show ?thesis ..
qed

lemma evolves_insert:
  assumes "insert_vm e i now s pw d = Inr (t, r)" "w \<in> set (vms t)" "v_id w \<noteq> i"
  shows "\<exists>v \<in> set (vms d). evolves a v w"
  using insert_vm_Inr(5) [OF assms(1)] assms(2,3) by (auto simp: vm_of_spec_def intro: evolves_refl)

lemma evolves_patch:
  assumes "vms_ok (vms d)" "patch_vm k z now d = Inr (t, r)" "w \<in> set (vms t)"
  shows "\<exists>v \<in> set (vms d). evolves a v w"
proof -
  obtain v where v: "query_vm d k = Some v" "check_vm_patch z v = Inr ()" "r = patched_vm z now v"
    "save_vm r d = Inr (t, ())" using assms(2) by (rule patch_vm_Inr)
  have vin: "v \<in> set (vms d)" using v(1) by (auto simp: query_vm_def dest: select_one_Some)
  have t: "vms t = update_where (\<lambda>w. v_id w = v_id r) (saved_columns r) (vms d)" using v(4) by (simp add: save_vm_Inr)
  have "v_disk_gib v \<le> v_disk_gib r" "v_id r = v_id v"
    using patched_fields(4) [OF vms_ok_row [OF assms(1) vin] v(2)] by (simp_all add: v(3) patched_vm_def)
  moreover have "u = v" if "u \<in> set (vms d)" "v_id u = v_id v" for u
    using vms_ok_id [OF assms(1) that(1) vin that(2)] .
  ultimately show ?thesis
    by (intro evolves_update [OF t assms(3)]) (auto simp: evolves_def same_hardware_def saved_columns_def)
qed

lemma evolves_rename:
  assumes "reconcile_vm_name i n now d = Inr (t, r)" "w \<in> set (vms t)"
  shows "\<exists>v \<in> set (vms d). evolves a v w"
  by (rule evolves_update [OF reconcile_vm_name_Inr(3) [OF assms(1)] assms(2)])
    (simp add: evolves_def same_hardware_def)

lemma evolves_state:
  assumes "set_vm_state i st des uuid vnc now d = Inr (t, r)" "w \<in> set (vms t)"
  shows "\<exists>v \<in> set (vms d). evolves a v w"
proof -
  have "vms t = update_where (\<lambda>v. v_id v = i \<or> ascii_lower (v_name v) = ascii_lower i)
    (\<lambda>v. v\<lparr>v_state := st, v_desired := given des (v_desired v),
        v_libvirt_uuid := (if uuid = None then v_libvirt_uuid v else uuid), v_vnc_display := vnc,
        v_updated_at := now\<rparr>) (vms d)"
    using assms(1) by (auto simp: set_vm_state_def and_then_Inr Let_def)
  then show ?thesis
    by (rule evolves_update [OF _ assms(2)]) (simp add: evolves_def same_hardware_def)
qed

lemma evolves_envelope:
  assumes "set_vm_password_envelope i e now d = Inr (t, r)" "w \<in> set (vms t)" "touches_password a = Some i"
  shows "\<exists>v \<in> set (vms d). evolves a v w"
proof -
  have "vms t = update_where (\<lambda>v. v_id v = i) (\<lambda>v. v\<lparr>v_password_envelope := Some e,
         v_password_updated_at := Some now, v_updated_at := now\<rparr>) (vms d)"
    using assms(1) by (auto simp: set_vm_password_envelope_Inr)
  then show ?thesis
    by (rule evolves_update [OF _ assms(2)]) (simp add: evolves_def same_hardware_def assms(3))
qed

lemma evolves_clear:
  assumes "clear_vm_password i now d = Inr (t, r)" "w \<in> set (vms t)" "touches_password a = Some i"
  shows "\<exists>v \<in> set (vms d). evolves a v w"
proof -
  have "vms t = update_where (\<lambda>v. v_id v = i) (\<lambda>v. v\<lparr>v_password_envelope := None,
         v_password_updated_at := None, v_updated_at := now\<rparr>) (vms d)"
    using assms(1) by (auto simp: clear_vm_password_Inr)
  then show ?thesis
    by (rule evolves_update [OF _ assms(2)]) (simp add: evolves_def same_hardware_def assms(3))
qed

lemma vm_step_evolves:
  assumes "vms_ok (vms d)" "vm_step W d a = Inr t" "w \<in> set (vms t)" "creates a \<noteq> Some (v_id w)"
  shows "\<exists>v \<in> set (vms d). evolves a v w"
  using assms(2-4)
proof (cases a)
  case (CreateVmWithPassword rnd i now s pw)
  then show ?thesis using assms(2-4) evolves_insert [of "wd_iso W" i now s]
    by (auto simp: result_db_Inr dest!: create_vm_with_password_insert)
next
  case (CreateVm i now s)
  then show ?thesis using assms(2-4) evolves_insert [of "wd_iso W" i now s]
    by (auto simp: result_db_Inr create_vm_def)
next
  case (SetVmPassword rnd i pw now)
  then show ?thesis using assms(2-4) evolves_envelope [of i _ now d t _ w a]
    by (auto simp: result_db_Inr set_vm_password_def and_then_Inr)
next
  case (EnforceTraffic i b e now)
  then show ?thesis using assms(2,3) by (auto simp: result_db_Inr dest!: enforcement_vms intro: evolves_refl)
next
  case (DeleteVmRow i now)
  then show ?thesis using assms(2,3)
    by (auto simp: result_db_Inr table_simps intro: evolves_refl dest!: delete_vm_Inr)
next
  case (RenameVm i n now)
  then show ?thesis using assms(2,3) by (auto simp: result_db_Inr elim: evolves_rename)
next
  case (PatchVm i z now)
  then show ?thesis using assms(2,3) by (auto simp: result_db_Inr elim: evolves_patch [OF assms(1)])
next
  case (SetVmState i st des uuid vnc now)
  then show ?thesis using assms(2,3) by (auto simp: result_db_Inr elim: evolves_state)
next
  case (StoreVmEnvelope i e now)
  then show ?thesis using assms(2,3) by (auto simp: result_db_Inr elim: evolves_envelope)
next
  case (ClearVmPassword i now)
  then show ?thesis using assms(2,3) by (auto simp: result_db_Inr elim: evolves_clear)
next
  case (ResetVmTraffic i now)
  then show ?thesis using assms(2,3) by (auto simp: result_db_Inr reset_usage_def elim: evolves_patch [OF assms(1)])
qed

text \<open>Along a history, for the ids of a set that no request creates.\<close>

definition traced :: "string set \<Rightarrow> (vm_row \<Rightarrow> vm_row \<Rightarrow> bool) \<Rightarrow> db \<Rightarrow> db \<Rightarrow> bool" where
  "traced K Q s t \<longleftrightarrow> (\<forall>w \<in> set (vms t). v_id w \<in> K \<longrightarrow> (\<exists>v \<in> set (vms s). v_id v = v_id w \<and> Q v w))"

lemma traced_refl: "(\<And>v. Q v v) \<Longrightarrow> traced K Q s s"
  unfolding traced_def by blast

lemma traced_trans:
  assumes "\<And>u v w. Q u v \<Longrightarrow> Q v w \<Longrightarrow> Q u w" "traced K Q s t" "traced K Q t r"
  shows "traced K Q s r"
  using assms(2,3) unfolding traced_def by (metis assms(1))

interpretation vm_life: guarded_machine "vm_step W" "\<lambda>d. vms_ok (vms d)"
    "\<lambda>a. (\<forall>i \<in> K. creates a \<noteq> Some i) \<and> P a"
  by unfold_locales (rule vm_step_keeps)

lemma run_traced:
  assumes "vms_ok (vms d)" "\<forall>a \<in> set as. (\<forall>i \<in> K. creates a \<noteq> Some i) \<and> P a"
    and Q: "\<And>v. Q v v" "\<And>u v w. Q u v \<Longrightarrow> Q v w \<Longrightarrow> Q u w"
      "\<And>a v w. P a \<Longrightarrow> v_id v \<in> K \<Longrightarrow> evolves a v w \<Longrightarrow> Q v w"
  shows "traced K Q d (run_all (vm_step W) d as)"
proof (rule vm_life.run_all_rel [where K = K and P = P])
  fix s t a assume a: "vms_ok (vms s)" "(\<forall>i \<in> K. creates a \<noteq> Some i) \<and> P a" "vm_step W s a = Inr t"
  have "\<exists>v \<in> set (vms s). v_id v = v_id w \<and> Q v w" if w: "w \<in> set (vms t)" "v_id w \<in> K" for w
  proof -
    have "creates a \<noteq> Some (v_id w)" using a(2) w(2) by blast
    then obtain v where v: "v \<in> set (vms s)" "evolves a v w"
      using vm_step_evolves [OF a(1,3) w(1)] by blast
    then have "v_id v = v_id w" by (simp add: evolves_def)
    then show ?thesis using v w(2) Q(3) [of a v w] a(2) by auto
  qed
  then show "traced K Q s t" by (simp add: traced_def)
next
  show "traced K Q s s" for s by (rule traced_refl) (rule Q(1))
  show "traced K Q s t \<Longrightarrow> traced K Q t u \<Longrightarrow> traced K Q s u" for s t u
    by (rule traced_trans [where Q = Q]) (rule Q(2))
qed (use assms(1,2) in simp_all)

text \<open>
  A VM keeps the virtual hardware it was created with: over every history in which no
  request creates its id again, its disk format, firmware, machine type, bridge, TAP, MAC
  address and creation date are unchanged and its disk is at least as large.
\<close>

theorem hardware_kept:
  assumes "vms_ok (vms d)" "\<forall>a \<in> set as. creates a \<noteq> Some i"
    and "v \<in> set (vms d)" "v_id v = i" "w \<in> set (vms (run_all (vm_step W) d as))" "v_id w = i"
  shows "same_hardware v w"
proof -
  have "traced {i} same_hardware d (run_all (vm_step W) d as)"
    using assms(1,2) by (intro run_traced [where P = "\<lambda>_. True"]) (auto simp: same_hardware_def evolves_def)
  then obtain u where "u \<in> set (vms d)" "v_id u = i" "same_hardware u w"
    using assms(5,6) by (auto simp: traced_def)
  then show ?thesis using vms_ok_id [OF assms(1)] assms(3,4) by metis
qed

section \<open>The guest password\<close>

lemma password_read:
  assumes "vms_ok (vms d)" "v \<in> set (vms d)" "v_id v = i"
  shows "vm_password_envelope d i = v_password_envelope v"
proof -
  have "select_one (\<lambda>v. v_id v = i) (vms d) = Some v"
    using assms vms_ok_id [OF assms(1)] by (intro select_one_unique) auto
  then show ?thesis by (simp add: vm_password_envelope_def)
qed

lemma set_password_stored:
  assumes "set_vm_password lib m rnd i pw now d = Inr (t, u)"
  obtains e where "encrypt_secret lib m rnd pw (vm_password_context i) = Inr e"
    "\<forall>w \<in> set (vms t). v_id w = i \<longrightarrow> v_password_envelope w = Some e"
proof -
  obtain e where e: "encrypt_secret lib m rnd pw (vm_password_context i) = Inr e"
    "set_vm_password_envelope i e now d = Inr (t, u)"
    using assms by (auto simp: set_vm_password_def and_then_Inr)
  then have "vms t = update_where (\<lambda>v. v_id v = i) (\<lambda>v. v\<lparr>v_password_envelope := Some e,
         v_password_updated_at := Some now, v_updated_at := now\<rparr>) (vms d)"
    by (auto simp: set_vm_password_envelope_Inr)
  then have "v_id w = i \<longrightarrow> v_password_envelope w = Some e" if "w \<in> set (vms t)" for w
    using that by (simp add: set_update_where) (elim bexE, simp)
  then have "\<forall>w \<in> set (vms t). v_id w = i \<longrightarrow> v_password_envelope w = Some e" by blast
  with e(1) show thesis by (rule that)
qed

text \<open>
  The password set for a VM is the one that is shown: after a password was stored, and
  over every later history that does not store or clear this VM's password or create its id
  again, decryption returns it as long as the VM exists. The hypotheses on the cipher are its
  documented laws, and the bound is the one the decryption checks.
\<close>

theorem password_shown_as_set:
  assumes "seal_laws (wd_seal W)" "good_random rnd" "valid_utf8 pw" "vms_ok (vms d)"
    and "set_vm_password (wd_seal W) (wd_master W) rnd i pw now d = Inr (t, u)"
    and "\<forall>e. encrypt_secret (wd_seal W) (wd_master W) rnd pw (vm_password_context i) = Inr e \<longrightarrow> length e \<le> 2097152"
    and "\<forall>a \<in> set as. creates a \<noteq> Some i \<and> touches_password a \<noteq> Some i"
    and "vm_exists (run_all (vm_step W) t as) i"
  shows "decrypt_vm_password (wd_seal W) (wd_master W) i (run_all (vm_step W) t as) = Inr (Some pw)"
proof -
  let ?r = "run_all (vm_step W) t as"
  have ok: "vms_ok (vms t)"
    using vm_step_keeps [OF assms(4), of W "SetVmPassword rnd i pw now"] assms(5) by (simp add: result_db_def)
  obtain e where e: "encrypt_secret (wd_seal W) (wd_master W) rnd pw (vm_password_context i) = Inr e"
    "\<forall>w \<in> set (vms t). v_id w = i \<longrightarrow> v_password_envelope w = Some e"
    using set_password_stored [OF assms(5)] .
  have "traced {i} (\<lambda>v w. v_password_envelope w = v_password_envelope v) t ?r"
    using ok assms(7) by (intro run_traced [where P = "\<lambda>a. touches_password a \<noteq> Some i"]) (auto simp: evolves_def)
  moreover obtain w where w: "w \<in> set (vms ?r)" "v_id w = i" using assms(8) by (auto simp: vm_exists_def)
  ultimately have "v_password_envelope w = Some e" using e(2) by (auto simp: traced_def)
  then have "vm_password_envelope ?r i = Some e"
    using password_read [OF _ w] vm_machine.run_all_inv [of t as W] ok by simp
  moreover have "decrypt_secret (wd_seal W) (wd_master W) e (vm_password_context i) = Inr pw"
    using encrypt_decrypt [OF assms(1,2) e(1)] assms(3,6) e(1) by blast
  ultimately show ?thesis by (simp add: decrypt_vm_password_def)
qed

section \<open>What a patch loses\<close>

text \<open>
  A patch answers with a row the database does not hold: its image, operating-system
  family, root user name and TAP name are in the returned row but the columns keep their old
  values, so the next read of the VM shows the old ones.
\<close>

theorem patched_columns_lost:
  assumes "query_vm d k = Some v" "patch_vm k z now d = Inr (t, r)"
  shows "v_tap r = given (z_tap z) (v_tap v) \<and> v_iso r = given (z_iso z) (v_iso v)
    \<and> (\<exists>w \<in> set (vms t). v_id w = v_id r \<and> v_tap w = v_tap v \<and> v_iso w = v_iso v
         \<and> v_os_family w = v_os_family v \<and> v_root_username w = v_root_username v)"
proof -
  have u: "r = patched_vm z now v" "save_vm r d = Inr (t, ())"
    using patch_vm_Inr [OF assms(2)] assms(1) by auto
  have vin: "v \<in> set (vms d)" using assms(1) by (auto simp: query_vm_def dest: select_one_Some)
  have t: "vms t = update_where (\<lambda>w. v_id w = v_id r) (saved_columns r) (vms d)"
    using u(2) by (simp add: save_vm_Inr)
  have rid: "v_id r = v_id v" by (simp add: u(1) patched_vm_def)
  then have "saved_columns r v \<in> set (vms t)" unfolding t set_update_where using vin by (intro bexI [of _ v]) simp_all
  moreover have "v_id (saved_columns r v) = v_id r \<and> v_tap (saved_columns r v) = v_tap v
    \<and> v_iso (saved_columns r v) = v_iso v \<and> v_os_family (saved_columns r v) = v_os_family v
    \<and> v_root_username (saved_columns r v) = v_root_username v"
    by (simp add: saved_columns_def rid)
  ultimately show ?thesis by (intro conjI) (auto simp: u(1) patched_vm_def)
qed

text \<open>A world and a specification for the examples.\<close>

definition demo_world :: vm_world where
  "demo_world = \<lparr>wd_iso = (\<lambda>i. i = ''debian''), wd_seal = demo_seal, wd_master = ''m''\<rparr>"

definition demo_spec :: new_vm where
  "demo_spec = \<lparr>o_name = ''web'', o_hostname = ''web.example'', o_description = [], o_os_family = ''linux'',
     o_iso = Some ''debian'', o_vcpus = 2, o_memory_mib = 1024, o_disk_gib = 10, o_disk_format = ''qcow2'',
     o_firmware = ''uefi'', o_machine_type = Some ''q35'', o_bridge = None, o_tap = Some ''vnet0'',
     o_mac = Some ''52:54:00:00:00:01'', o_network_limit = None, o_traffic_limit = Some 100,
     o_root_username = ''root'', o_guest_agent = True, o_autostart = False, o_timezone = None,
     o_metadata = JObj []\<rparr>"

definition no_vms :: db where
  "no_vms = \<lparr>vms = [], jobs = [], snapshots = [], tools = [], ips = [], pools = [], blacklist = [],
     traffic = [], customer_links = [], vnc_links = []\<rparr>"

definition one_vm :: db where
  "one_vm = no_vms\<lparr>vms := [vm_of_spec ''v1'' 5 demo_spec None]\<rparr>"

lemma no_vms_ok: "vms_ok (vms no_vms)"
  by (simp add: vms_ok_def no_vms_def unique_column_def)

lemma one_vm_created: "run_all (vm_step demo_world) no_vms [CreateVm ''v1'' 5 demo_spec] = one_vm"
  by code_simp

lemma one_vm_ok: "vms_ok (vms one_vm)"
  using vm_machine.run_all_inv [of no_vms "[CreateVm ''v1'' 5 demo_spec]" demo_world] no_vms_ok
  by (simp add: one_vm_created del: run_all_simps)

definition grow_disk :: vm_request where
  "grow_disk = PatchVm ''v1'' (no_patch\<lparr>z_disk_gib := Some 20\<rparr>) 6"

lemma vm_rows_well_formed_witness:
  "vms_ok (vms (run_all (vm_step demo_world) no_vms
      [CreateVm ''v1'' 5 demo_spec, CreateVm ''v2'' 5 demo_spec, RenameVm ''v1'' ''db'' 6, grow_disk]))
   \<and> map (\<lambda>v. (v_id v, v_name v, v_disk_gib v)) (vms (run_all (vm_step demo_world) no_vms
      [CreateVm ''v1'' 5 demo_spec, CreateVm ''v2'' 5 demo_spec, RenameVm ''v1'' ''db'' 6, grow_disk]))
     = [(''v1'', ''db'', 20)]"
proof
  show "vms_ok (vms (run_all (vm_step demo_world) no_vms
      [CreateVm ''v1'' 5 demo_spec, CreateVm ''v2'' 5 demo_spec, RenameVm ''v1'' ''db'' 6, grow_disk]))"
    by (rule vm_rows_well_formed [OF no_vms_ok])
qed code_simp

lemma hardware_kept_witness:
  "\<exists>w \<in> set (vms (run_all (vm_step demo_world) one_vm [grow_disk])).
     same_hardware (vm_of_spec ''v1'' 5 demo_spec None) w \<and> v_disk_gib w = 20"
proof -
  have "map (\<lambda>v. (v_id v, v_disk_gib v)) (vms (run_all (vm_step demo_world) one_vm [grow_disk])) = [(''v1'', 20)]"
    by code_simp
  then obtain w where w: "w \<in> set (vms (run_all (vm_step demo_world) one_vm [grow_disk]))" "v_id w = ''v1''"
    "v_disk_gib w = 20" by (auto simp del: run_all_simps)
  have "same_hardware (vm_of_spec ''v1'' 5 demo_spec None) w"
    by (rule hardware_kept [OF one_vm_ok _ _ _ w(1,2)]) (simp_all add: grow_disk_def one_vm_def vm_of_spec_def)
  with w show ?thesis by blast
qed

lemma one_vm_row: "\<exists>v \<in> set (vms one_vm). v_id v = ''v1''"
  by (simp add: one_vm_def vm_of_spec_def)

definition demo_envelope :: string where
  "demo_envelope = envelope_json demo_seal \<lparr>env_version = 1, env_algorithm = envelope_algorithm,
     env_key_nonce = rnd_key_nonce demo_random,
     env_key = demo_put (envelope_aad ''wrapped-key'' (vm_password_context ''v1'')) @ rnd_data_key demo_random,
     env_data_nonce = rnd_data_nonce demo_random,
     env_ciphertext = demo_put (envelope_aad ''ciphertext'' (vm_password_context ''v1'')) @ ''pw''\<rparr>"

lemma demo_encrypt:
  "encrypt_secret demo_seal ''m'' demo_random ''pw'' (vm_password_context ''v1'') = Inr demo_envelope"
  "length demo_envelope \<le> 2097152"
  by (simp_all add: encrypt_secret_def demo_envelope_def validate_context_def vm_password_context_def
      max_secret_bytes_def demo_seal_def demo_put_def demo_random_def envelope_aad_def envelope_algorithm_def)

lemma demo_envelope_text: "trim demo_envelope \<noteq> []"
  by code_simp

lemma password_shown_as_set_witness:
  "\<exists>t. set_vm_password demo_seal ''m'' demo_random ''v1'' ''pw'' 7 one_vm = Inr (t, ())
     \<and> decrypt_vm_password demo_seal ''m'' ''v1'' (run_all (vm_step demo_world) t [grow_disk]) = Inr (Some ''pw'')"
proof -
  have pw: "trim ''pw'' \<noteq> []" by code_simp
  let ?t = "one_vm\<lparr>vms := update_where (\<lambda>v. v_id v = ''v1'') (\<lambda>v. v\<lparr>v_password_envelope := Some demo_envelope,
         v_password_updated_at := Some 7, v_updated_at := 7\<rparr>) (vms one_vm)\<rparr>"
  have s: "set_vm_password demo_seal ''m'' demo_random ''v1'' ''pw'' 7 one_vm = Inr (?t, ())"
    using demo_encrypt demo_envelope_text pw one_vm_row
    by (simp add: set_vm_password_def and_then_Inr set_vm_password_envelope_Inr)
  have v: "vm_exists (run_all (vm_step demo_world) ?t [grow_disk]) ''v1''" by code_simp
  have w: "wd_seal demo_world = demo_seal" "wd_master demo_world = ''m''" by (simp_all add: demo_world_def)
  have "decrypt_vm_password demo_seal ''m'' ''v1'' (run_all (vm_step demo_world) ?t [grow_disk]) = Inr (Some ''pw'')"
    using password_shown_as_set [of demo_world demo_random "''pw''" one_vm "''v1''" 7 ?t "()" "[grow_disk]"]
      demo_seal_laws demo_good_random one_vm_ok s demo_encrypt v
    by (simp add: w code_of_def grow_disk_def del: run_all_simps)
  with s show ?thesis by blast
qed

lemma patched_columns_lost_witness:
  "\<exists>t r. patch_vm ''v1'' (no_patch\<lparr>z_tap := Some (Some ''vnet7'')\<rparr>) 6 one_vm = Inr (t, r) \<and> v_tap r = Some ''vnet7''
     \<and> (\<exists>w \<in> set (vms t). v_id w = v_id r \<and> v_tap w = Some ''vnet0'')"
proof -
  let ?v = "vm_of_spec ''v1'' 5 demo_spec None" and ?z = "no_patch\<lparr>z_tap := Some (Some ''vnet7'')\<rparr>"
  have q: "query_vm one_vm ''v1'' = Some ?v" by (simp add: query_vm_def one_vm_def vm_of_spec_def)
  have "is_ok (patch_vm ''v1'' ?z 6 one_vm)" by code_simp
  then obtain t r where p: "patch_vm ''v1'' ?z 6 one_vm = Inr (t, r)"
    by (metis is_ok_iff surj_pair)
  have f: "z_tap ?z = Some (Some ''vnet7'')" "v_tap ?v = Some ''vnet0''"
    by (simp_all add: no_patch_def vm_of_spec_def demo_spec_def)
  from patched_columns_lost [OF q p] have "v_tap r = Some ''vnet7''"
    "\<exists>w \<in> set (vms t). v_id w = v_id r \<and> v_tap w = Some ''vnet0''"
    unfolding f by auto
  with p show ?thesis by blast
qed

end
