(* ===== verification/Traffic_Safety.thy ===== *)
theory Traffic_Safety
  imports Vm_Safety
begin

text \<open>
  The traffic quota (\<open>src/services/traffic.rs\<close>): what a reconciliation does to the links and
  to the enforcement record, when the hypervisor obeys and when it refuses.
\<close>

lemma enforcement_stored:
  assumes "set_vm_traffic_enforcement i b e now d = Inr (t, r)"
  shows "vm_traffic_enforcement t i = Some r" "e_blocked r = b" "e_last_error r = e" "vms t = vms d"
proof -
  have u: "select_one (\<lambda>e. e_vm e = i) (update_where (\<lambda>e. e_vm e = i) (\<lambda>_. x) rows) = Some x"
    if "select_one (\<lambda>e. e_vm e = i) rows = Some y" "e_vm x = i" for x y rows
    using that by (subst select_one_update_where) (auto dest: select_one_Some)
  show "vm_traffic_enforcement t i = Some r"
    using assms by (auto simp: set_vm_traffic_enforcement_def vm_traffic_enforcement_def Let_def and_then_Inr
        select_one_append u split: option.splits)
  show "e_blocked r = b" "e_last_error r = e" "vms t = vms d"
    using assms by (auto simp: set_vm_traffic_enforcement_def Let_def and_then_Inr split: option.splits)
qed

lemma enforcement_total:
  "vm_exists d i \<Longrightarrow> \<exists>t r. set_vm_traffic_enforcement i b e now d = Inr (t, r)"
  by (simp add: set_vm_traffic_enforcement_def Let_def split: option.split)

lemma query_vm_exists: "query_vm d k = Some v \<Longrightarrow> vm_exists d (v_id v)"
  by (auto simp: query_vm_def vm_exists_def dest: select_one_Some)

lemma query_vm_same_table: "vms t = vms d \<Longrightarrow> query_vm t k = query_vm d k"
  by (simp add: query_vm_def)

lemma recorded_enforcement:
  assumes "query_vm (tp_db p) k = Some v"
  obtains t r where "recorded (set_vm_traffic_enforcement (v_id v) b e now (tp_db p)) p = (p\<lparr>tp_db := t\<rparr>, Inr ())"
    "vm_traffic_enforcement t (v_id v) = Some r" "e_blocked r = b" "e_last_error r = e" "vms t = vms (tp_db p)"
proof -
  obtain t r where t: "set_vm_traffic_enforcement (v_id v) b e now (tp_db p) = Inr (t, r)"
    using enforcement_total [OF query_vm_exists [OF assms]] by blast
  show thesis by (rule that [of t r]) (use enforcement_stored [OF t] t in \<open>simp_all add: recorded_def\<close>)
qed

lemma quota_status_simps:
  "u_blocked (quota_status_from v e) = (case e of None \<Rightarrow> False | Some r \<Rightarrow> e_blocked r)"
  "u_error (quota_status_from v e) = Option.bind e e_last_error"
  "u_exceeded (quota_status_from v e) = is_exceeded (v_traffic_limit v) (v_traffic_used v)"
  by (auto simp: quota_status_from_def Let_def is_exceeded_def split: option.split)

lemma recorded_links: "tp_links (fst (recorded x p)) = tp_links p"
  by (simp add: recorded_def split: sum.split)

lemma fst_match: "fst (case x of (p1, Inl e) \<Rightarrow> (p1, f e) | (p1, Inr u) \<Rightarrow> (p1, g p1)) = fst x"
  by (simp split: prod.split sum.split)

lemma transition_links:
  "tp_links (fst (traffic_transition refuse now v p)) = (case refuse of Some e \<Rightarrow> tp_links p
     | None \<Rightarrow> (tp_links p)(v_name v := \<not> is_exceeded (v_traffic_limit v) (v_traffic_used v)))"
proof (cases refuse)
  case None
  then show ?thesis by (simp add: traffic_transition_def set_network_enabled_def Let_def recorded_links)
next
  case (Some e)
  then show ?thesis by (simp add: traffic_transition_def set_network_enabled_def Let_def fst_match recorded_links)
qed

text \<open>The links after a reconciliation, whatever happens.\<close>

lemma reconcile_links:
  assumes "query_vm (tp_db p) k = Some v"
  shows "tp_links (fst (reconcile_traffic refuse k force now p)) =
    (if needs_transition force v (tp_db p) \<and> refuse = None
     then (tp_links p)(v_name v := \<not> is_exceeded (v_traffic_limit v) (v_traffic_used v)) else tp_links p)"
  using assms by (cases refuse) (simp_all add: reconcile_traffic_def Let_def fst_match transition_links recorded_links)

text \<open>The record and the answer of a reconciliation that writes the record.\<close>

lemma reconcile_transition:
  assumes "query_vm (tp_db p) k = Some v" "query_vm (tp_db p) (v_id v) = Some v" "needs_transition force v (tp_db p)"
  obtains t e where "reconcile_traffic None k force now p =
      (p\<lparr>tp_links := (tp_links p)(v_name v := \<not> is_exceeded (v_traffic_limit v) (v_traffic_used v)), tp_db := t\<rparr>,
       Inr (quota_status_from v (Some e)))"
    "vm_traffic_enforcement t (v_id v) = Some e" "e_blocked e = is_exceeded (v_traffic_limit v) (v_traffic_used v)"
    "e_last_error e = None"
proof -
  let ?x = "is_exceeded (v_traffic_limit v) (v_traffic_used v)"
  let ?p = "p\<lparr>tp_links := (tp_links p)(v_name v := \<not> ?x)\<rparr>"
  have "query_vm (tp_db ?p) k = Some v" using assms(1) by simp
  then obtain t e where t: "recorded (set_vm_traffic_enforcement (v_id v) ?x None now (tp_db ?p)) ?p = (?p\<lparr>tp_db := t\<rparr>, Inr ())"
    "vm_traffic_enforcement t (v_id v) = Some e" "e_blocked e = ?x" "e_last_error e = None" "vms t = vms (tp_db ?p)"
    by (rule recorded_enforcement)
  have "query_vm t (v_id v) = Some v" using t(5) assms(2) query_vm_same_table [of t "tp_db p"] by simp
  then have "reconcile_traffic None k force now p = (?p\<lparr>tp_db := t\<rparr>, Inr (quota_status_from v (Some e)))"
    using assms(1,3) t(1,2) by (simp add: reconcile_traffic_def traffic_transition_def set_network_enabled_def)
  with t(2-4) show thesis by (auto intro: that)
qed

lemma reconcile_settled:
  assumes "query_vm (tp_db p) k = Some v" "query_vm (tp_db p) (v_id v) = Some v" "\<not> needs_transition force v (tp_db p)"
    and "reconcile_traffic refuse k force now p = (q, r)"
  shows "\<exists>e. r = Inr (quota_status_from v e) \<and> vm_traffic_enforcement (tp_db q) (v_id v) = e
    \<and> currently_blocked (tp_db q) (v_id v) = currently_blocked (tp_db p) (v_id v)
    \<and> Option.bind e e_last_error = None"
proof (cases "case vm_traffic_enforcement (tp_db p) (v_id v) of None \<Rightarrow> False | Some e \<Rightarrow> e_last_error e \<noteq> None")
  case True
  let ?b = "currently_blocked (tp_db p) (v_id v)"
  obtain t e where t: "recorded (set_vm_traffic_enforcement (v_id v) ?b None now (tp_db p)) p = (p\<lparr>tp_db := t\<rparr>, Inr ())"
    "vm_traffic_enforcement t (v_id v) = Some e" "e_blocked e = ?b" "e_last_error e = None" "vms t = vms (tp_db p)"
    using assms(1) by (rule recorded_enforcement)
  have "query_vm t (v_id v) = Some v" using t(5) assms(2) query_vm_same_table [of t "tp_db p"] by simp
  then have "q = p\<lparr>tp_db := t\<rparr>" "r = Inr (quota_status_from v (Some e))"
    using assms(1,3,4) True t(1,2) by (simp_all add: reconcile_traffic_def)
  then show ?thesis using t(2-4) by (simp add: currently_blocked_def)
next
  case False
  then have "q = p" "r = Inr (quota_status_from v (vm_traffic_enforcement (tp_db p) (v_id v)))"
    using assms by (auto simp: reconcile_traffic_def)
  then show ?thesis using False by (simp split: option.splits)
qed

text \<open>
  C25. The quota is enforced when the hypervisor obeys: after a reconciliation of a VM the
  record says it is blocked exactly when it used strictly more than its positive limit and the answer
  reports no error; where a transition was needed the link of the VM was set to match, otherwise
  no link was touched, and no other VM's link changed.
\<close>

theorem quota_enforced:
  assumes "query_vm (tp_db p) k = Some v" "query_vm (tp_db p) (v_id v) = Some v"
    and "reconcile_traffic None k force now p = (q, r)"
  shows "currently_blocked (tp_db q) (v_id v) = is_exceeded (v_traffic_limit v) (v_traffic_used v)
    \<and> (\<exists>s. r = Inr s \<and> u_blocked s = u_exceeded s \<and> u_error s = None)
    \<and> tp_links q = (if needs_transition force v (tp_db p)
        then (tp_links p)(v_name v := \<not> is_exceeded (v_traffic_limit v) (v_traffic_used v)) else tp_links p)"
proof (cases "needs_transition force v (tp_db p)")
  case True
  show ?thesis
    by (rule reconcile_transition [OF assms(1,2) True, of now])
      (use assms(3) True in \<open>simp add: currently_blocked_def quota_status_simps\<close>)
next
  case False
  then obtain e where e: "r = Inr (quota_status_from v e)" "vm_traffic_enforcement (tp_db q) (v_id v) = e"
    "currently_blocked (tp_db q) (v_id v) = currently_blocked (tp_db p) (v_id v)" "Option.bind e e_last_error = None"
    using reconcile_settled [OF assms(1,2) _ assms(3)] by auto
  moreover have "currently_blocked (tp_db p) (v_id v) = is_exceeded (v_traffic_limit v) (v_traffic_used v)"
    using False by (auto simp: needs_transition_def Let_def)
  moreover have "tp_links q = tp_links p"
    using reconcile_links [OF assms(1), of None force now] assms(3) False by simp
  ultimately show ?thesis
    using False by (auto simp: quota_status_simps currently_blocked_def)
qed

text \<open>
  A refused link change is an error that loses nothing: the answer names the failure, no
  link changed, the record still says what it said about the block and keeps the message, and
  the next reconciliation asks for the transition again.
\<close>

theorem refused_change_is_retried:
  assumes "query_vm (tp_db p) k = Some v" "needs_transition force v (tp_db p)"
    and "reconcile_traffic (Some e) k force now p = (q, r)"
  shows "(\<exists>m. r = Inl (HypervisorFailed m)) \<and> tp_links q = tp_links p
    \<and> currently_blocked (tp_db q) (v_id v) = currently_blocked (tp_db p) (v_id v)
    \<and> Option.bind (vm_traffic_enforcement (tp_db q) (v_id v)) e_last_error = Some e
    \<and> needs_transition force v (tp_db q)"
proof -
  let ?b = "currently_blocked (tp_db p) (v_id v)"
  obtain t x where t: "recorded (set_vm_traffic_enforcement (v_id v) ?b (Some e) now (tp_db p)) p = (p\<lparr>tp_db := t\<rparr>, Inr ())"
    "vm_traffic_enforcement t (v_id v) = Some x" "e_blocked x = ?b" "e_last_error x = Some e" "vms t = vms (tp_db p)"
    using assms(1) by (rule recorded_enforcement)
  have q: "q = p\<lparr>tp_db := t\<rparr>" and r: "\<exists>m. r = Inl (HypervisorFailed m)"
    using assms t(1) by (auto simp: reconcile_traffic_def traffic_transition_def set_network_enabled_def Let_def)
  have "currently_blocked t (v_id v) = ?b" using t(2,3) by (simp add: currently_blocked_def)
  then show ?thesis
    using q r t(2,4) assms(2) by (simp add: needs_transition_def)
qed

text \<open>
  The panel lifts only its own block: when a reconciliation, whatever the hypervisor
  answers, brings a link up, that link is the VM's, the record said the panel had blocked it,
  and the VM is within its quota. A link an operator took down stays down.
\<close>

theorem only_own_block_lifted:
  assumes "query_vm (tp_db p) k = Some v" "reconcile_traffic refuse k force now p = (q, r)"
    and "tp_links q n" "\<not> tp_links p n"
  shows "n = v_name v \<and> currently_blocked (tp_db p) (v_id v)
    \<and> \<not> is_exceeded (v_traffic_limit v) (v_traffic_used v)"
proof -
  have l: "tp_links q = (if needs_transition force v (tp_db p) \<and> refuse = None
     then (tp_links p)(v_name v := \<not> is_exceeded (v_traffic_limit v) (v_traffic_used v)) else tp_links p)"
    using reconcile_links [OF assms(1), of refuse force now] assms(2) by simp
  then have n: "needs_transition force v (tp_db p)" "n = v_name v"
    "\<not> is_exceeded (v_traffic_limit v) (v_traffic_used v)"
    using assms(3,4) by (auto split: if_splits)
  then show ?thesis by (auto simp: needs_transition_def Let_def)
qed

section \<open>A VM over its quota\<close>

definition over_quota :: vm_row where
  "over_quota = (vm_of_spec ''v1'' 5 demo_spec None)\<lparr>v_traffic_used := 101\<rparr>"

definition quota_panel :: "bool \<Rightarrow> traffic_row list \<Rightarrow> traffic_panel" where
  "quota_panel up e = \<lparr>tp_db = no_vms\<lparr>vms := [over_quota], traffic := e\<rparr>, tp_links = (\<lambda>_. up)\<rparr>"

lemma quota_panel_vm: "query_vm (tp_db (quota_panel up e)) ''v1'' = Some over_quota" "v_id over_quota = ''v1''"
  by (simp_all add: quota_panel_def query_vm_def over_quota_def vm_of_spec_def)

lemma quota_enforced_witness:
  "currently_blocked (tp_db (fst (reconcile_traffic None ''v1'' False 9 (quota_panel True [])))) ''v1''
   \<and> \<not> tp_links (fst (reconcile_traffic None ''v1'' False 9 (quota_panel True []))) ''web''"
proof -
  obtain q r where r: "reconcile_traffic None ''v1'' False 9 (quota_panel True []) = (q, r)" by fastforce
  have x: "is_exceeded (v_traffic_limit over_quota) (v_traffic_used over_quota)"
    "needs_transition False over_quota (tp_db (quota_panel True []))" "v_name over_quota = ''web''" by code_simp+
  show ?thesis
    using quota_enforced [OF quota_panel_vm(1) _ r] quota_panel_vm x by (simp add: r)
qed

lemma refused_change_is_retried_witness:
  "tp_links (fst (reconcile_traffic (Some ''busy'') ''v1'' False 9 (quota_panel True []))) ''web''
   \<and> needs_transition False over_quota (tp_db (fst (reconcile_traffic (Some ''busy'') ''v1'' False 9 (quota_panel True []))))"
proof -
  obtain q r where r: "reconcile_traffic (Some ''busy'') ''v1'' False 9 (quota_panel True []) = (q, r)" by fastforce
  have "needs_transition False over_quota (tp_db (quota_panel True []))" by code_simp
  from refused_change_is_retried [OF quota_panel_vm(1) this r] show ?thesis
    by (simp add: r) (simp add: quota_panel_def)
qed

definition reset_panel :: traffic_panel where
  "reset_panel = \<lparr>tp_db = no_vms\<lparr>vms := [over_quota\<lparr>v_traffic_used := 0\<rparr>],
     traffic := [\<lparr>e_vm = ''v1'', e_blocked = True, e_blocked_at = Some 8, e_last_error = None, e_updated_at = 8\<rparr>]\<rparr>,
     tp_links = (\<lambda>_. False)\<rparr>"

lemma only_own_block_lifted_witness:
  "tp_links (fst (reconcile_traffic None ''v1'' False 9 reset_panel)) ''web''
   \<and> currently_blocked (tp_db reset_panel) ''v1''"
proof -
  obtain q r where r: "reconcile_traffic None ''v1'' False 9 reset_panel = (q, r)" by fastforce
  have v: "query_vm (tp_db reset_panel) ''v1'' = Some (over_quota\<lparr>v_traffic_used := 0\<rparr>)"
    by (simp add: reset_panel_def query_vm_def over_quota_def vm_of_spec_def)
  have up: "tp_links (fst (reconcile_traffic None ''v1'' False 9 reset_panel)) ''web''" by code_simp
  have "\<not> tp_links reset_panel ''web''" by (simp add: reset_panel_def)
  with only_own_block_lifted [OF v r] up show ?thesis by (simp add: r quota_panel_vm(2))
qed

end
