(* ===== verification/Effects.thy ===== *)
theory Effects
  imports Prelude
begin

text \<open>
  Handlers and workers of the panel: computations on a state that end with a value or an error.
  Unlike a transaction, what such a computation wrote before it failed stays written, so a
  failing action returns its state too. The rules reason about all outcomes of an action with
  one precondition, a postcondition for values and one for errors.
\<close>

type_synonym ('s, 'e, 'a) action = "'s \<Rightarrow> 's \<times> ('e + 'a)"

section \<open>Combinators\<close>

definition ret :: "'a \<Rightarrow> ('s, 'e, 'a) action" where
  "ret a = (\<lambda>s. (s, Inr a))"

definition raise :: "'e \<Rightarrow> ('s, 'e, 'a) action" where
  "raise e = (\<lambda>s. (s, Inl e))"

text \<open>The \<open>?\<close> operator: go on with the value, or return the error.\<close>

definition chain :: "('s, 'e, 'a) action \<Rightarrow> ('a \<Rightarrow> ('s, 'e, 'b) action) \<Rightarrow> ('s, 'e, 'b) action" where
  "chain m f = (\<lambda>s. case m s of (t, Inl e) \<Rightarrow> (t, Inl e) | (t, Inr a) \<Rightarrow> f a t)"

text \<open>A \<open>match\<close> on the result; its error type is free, since it does not fail.\<close>

definition outcome :: "('s, 'e, 'a) action \<Rightarrow> ('s, 'f, 'e + 'a) action" where
  "outcome m = (\<lambda>s. case m s of (t, r) \<Rightarrow> (t, Inr r))"

text \<open>\<open>let _ = ...\<close>.\<close>

definition ignored :: "('s, 'e, 'a) action \<Rightarrow> ('s, 'f, unit) action" where
  "ignored m = (\<lambda>s. (fst (m s), Inr ()))"

definition read_state :: "('s \<Rightarrow> 'a) \<Rightarrow> ('s, 'e, 'a) action" where
  "read_state f = (\<lambda>s. (s, Inr (f s)))"

definition lifted :: "'e + 'a \<Rightarrow> ('s, 'e, 'a) action" where
  "lifted r = (\<lambda>s. (s, r))"

definition modify :: "('s \<Rightarrow> 's) \<Rightarrow> ('s, 'e, unit) action" where
  "modify f = (\<lambda>s. (f s, Inr ()))"

text \<open>\<open>From\<close> on the error of a result.\<close>

definition with_error :: "('e \<Rightarrow> 'f) \<Rightarrow> ('s, 'e, 'a) action \<Rightarrow> ('s, 'f, 'a) action" where
  "with_error g m = (\<lambda>s. case m s of (t, r) \<Rightarrow> (t, map_err g r))"

definition when_do :: "bool \<Rightarrow> ('s, 'e, unit) action \<Rightarrow> ('s, 'e, unit) action" where
  "when_do b m = (if b then m else ret ())"

fun each_do :: "('a \<Rightarrow> ('s, 'e, unit) action) \<Rightarrow> 'a list \<Rightarrow> ('s, 'e, unit) action" where
  "each_do f [] = ret ()"
| "each_do f (x # xs) = chain (f x) (\<lambda>_. each_do f xs)"

lemmas action_defs = ret_def raise_def chain_def outcome_def ignored_def read_state_def lifted_def modify_def with_error_def when_do_def

lemma chain_Inr:
  "chain m f s = (t, Inr b) \<longleftrightarrow> (\<exists>u a. m s = (u, Inr a) \<and> f a u = (t, Inr b))"
  by (auto simp: chain_def split: prod.splits sum.splits)

lemma chain_Inl:
  "chain m f s = (t, Inl e) \<longleftrightarrow> m s = (t, Inl e) \<or> (\<exists>u a. m s = (u, Inr a) \<and> f a u = (t, Inl e))"
  by (auto simp: chain_def split: prod.splits sum.splits)

lemma read_state_simps [simp]: "read_state f s = (s, Inr (f s))" "ret a s = (s, Inr a)" "raise e s = (s, Inl e)"
  "lifted r s = (s, r)" "modify g s = (g s, Inr ())"
  by (simp_all add: action_defs)

lemma outcome_result: "outcome m s = (t, r) \<longleftrightarrow> (\<exists>x. r = Inr x \<and> m s = (t, x))"
  by (auto simp: outcome_def split: prod.splits)

lemma chain_outcome: "chain (outcome m) f s = (case m s of (t, r) \<Rightarrow> f r t)"
  by (simp add: chain_def outcome_def split: prod.splits)

lemma with_error_Inr: "with_error g m s = (t, Inr a) \<longleftrightarrow> m s = (t, Inr a)"
  by (auto simp: with_error_def split: prod.splits)

lemma with_error_Inl: "with_error g m s = (t, Inl e) \<longleftrightarrow> (\<exists>d. m s = (t, Inl d) \<and> e = g d)"
  by (auto simp: with_error_def map_err_Inl split: prod.splits)

lemma when_do_Inr: "when_do b m s = (t, Inr u) \<longleftrightarrow> (if b then m s = (t, Inr u) else t = s)"
  by (simp add: when_do_def ret_def) auto

lemma ignored_result [simp]: "ignored m s = (fst (m s), Inr ())"
  by (simp add: ignored_def)

lemma each_ignored: "each_do (\<lambda>x. ignored (f x)) xs s = (fold (\<lambda>x s. fst (f x s)) xs s, Inr ())"
  by (induction xs arbitrary: s) (simp_all add: chain_def)

lemma chain_assoc: "chain (chain m f) g = chain m (\<lambda>a. chain (f a) g)"
  by (rule ext) (simp add: chain_def split: prod.splits sum.splits)

lemma chain_ret [simp]: "chain (ret a) f = f a"
  by (simp add: chain_def ret_def)

section \<open>Outcomes\<close>

definition holds ::
  "('s \<Rightarrow> bool) \<Rightarrow> ('s, 'e, 'a) action \<Rightarrow> ('a \<Rightarrow> 's \<Rightarrow> bool) \<Rightarrow> ('e \<Rightarrow> 's \<Rightarrow> bool) \<Rightarrow> bool" where
  "holds P m Q E \<longleftrightarrow> (\<forall>s. P s \<longrightarrow> (case m s of (t, Inr a) \<Rightarrow> Q a t | (t, Inl e) \<Rightarrow> E e t))"

named_theorems triples

lemma holdsI: "(\<And>s. P s \<Longrightarrow> case m s of (t, Inr a) \<Rightarrow> Q a t | (t, Inl e) \<Rightarrow> E e t) \<Longrightarrow> holds P m Q E"
  by (simp add: holds_def)

lemma holds_Inr: "holds P m Q E \<Longrightarrow> P s \<Longrightarrow> m s = (t, Inr a) \<Longrightarrow> Q a t"
  unfolding holds_def by fastforce

lemma holds_Inl: "holds P m Q E \<Longrightarrow> P s \<Longrightarrow> m s = (t, Inl e) \<Longrightarrow> E e t"
  unfolding holds_def by fastforce

lemma holds_weaken:
  assumes "holds P m Q E" "\<And>s. P' s \<Longrightarrow> P s" "\<And>a s. Q a s \<Longrightarrow> Q' a s" "\<And>e s. E e s \<Longrightarrow> E' e s"
  shows "holds P' m Q' E'"
  unfolding holds_def
proof (intro allI impI)
  fix s assume "P' s"
  then have "case m s of (t, Inr a) \<Rightarrow> Q a t | (t, Inl e) \<Rightarrow> E e t"
    using assms(1,2) by (simp add: holds_def)
  then show "case m s of (t, Inr a) \<Rightarrow> Q' a t | (t, Inl e) \<Rightarrow> E' e t"
    using assms(3,4) by (auto split: prod.splits sum.splits)
qed

lemma holds_ret [triples]: "(\<And>s. P s \<Longrightarrow> Q a s) \<Longrightarrow> holds P (ret a) Q E"
  by (simp add: holds_def ret_def)

lemma holds_raise [triples]: "(\<And>s. P s \<Longrightarrow> E e s) \<Longrightarrow> holds P (raise e) Q E"
  by (simp add: holds_def raise_def)

lemma holds_chain [triples]:
  assumes "holds P m R E" "\<And>a. holds (R a) (f a) Q E"
  shows "holds P (chain m f) Q E"
  unfolding holds_def
proof (intro allI impI)
  fix s assume "P s"
  then show "case chain m f s of (t, Inr a) \<Rightarrow> Q a t | (t, Inl e) \<Rightarrow> E e t"
    using assms unfolding holds_def chain_def by (fastforce split: prod.splits sum.splits)
qed

lemma holds_outcome [triples]:
  "holds P m (\<lambda>a. Q (Inr a)) (\<lambda>e. Q (Inl e)) \<Longrightarrow> holds P (outcome m) Q E"
  unfolding holds_def outcome_def by (fastforce split: prod.splits sum.splits)

lemma holds_ignored [triples]:
  "holds P m (\<lambda>_. Q ()) (\<lambda>_. Q ()) \<Longrightarrow> holds P (ignored m) Q E"
  unfolding holds_def ignored_def by (fastforce split: prod.splits sum.splits)

lemma holds_read_state [triples]: "(\<And>s. P s \<Longrightarrow> Q (f s) s) \<Longrightarrow> holds P (read_state f) Q E"
  by (simp add: holds_def read_state_def)

lemma holds_modify [triples]: "(\<And>s. P s \<Longrightarrow> Q () (f s)) \<Longrightarrow> holds P (modify f) Q E"
  by (simp add: holds_def modify_def)

lemma holds_lifted [triples]:
  "(\<And>a s. r = Inr a \<Longrightarrow> P s \<Longrightarrow> Q a s) \<Longrightarrow> (\<And>e s. r = Inl e \<Longrightarrow> P s \<Longrightarrow> E e s) \<Longrightarrow> holds P (lifted r) Q E"
  by (auto simp: holds_def lifted_def split: sum.splits)

lemma holds_with_error [triples]:
  "holds P m Q (\<lambda>e. E (g e)) \<Longrightarrow> holds P (with_error g m) Q E"
  unfolding holds_def with_error_def by (fastforce split: prod.splits sum.splits)

lemma holds_when_do [triples]:
  "(b \<Longrightarrow> holds P m Q E) \<Longrightarrow> (\<And>s. \<not> b \<Longrightarrow> P s \<Longrightarrow> Q () s) \<Longrightarrow> holds P (when_do b m) Q E"
  by (simp add: when_do_def holds_ret)

lemma holds_if [triples]:
  "(b \<Longrightarrow> holds P m Q E) \<Longrightarrow> (\<not> b \<Longrightarrow> holds P n Q E) \<Longrightarrow> holds P (if b then m else n) Q E"
  by simp

lemma holds_option [triples]:
  "(x = None \<Longrightarrow> holds P m Q E) \<Longrightarrow> (\<And>a. x = Some a \<Longrightarrow> holds P (f a) Q E)
    \<Longrightarrow> holds P (case x of None \<Rightarrow> m | Some a \<Rightarrow> f a) Q E"
  by (cases x) simp_all

lemma holds_sum [triples]:
  "(\<And>e. x = Inl e \<Longrightarrow> holds P (g e) Q E) \<Longrightarrow> (\<And>a. x = Inr a \<Longrightarrow> holds P (f a) Q E)
    \<Longrightarrow> holds P (case x of Inl e \<Rightarrow> g e | Inr a \<Rightarrow> f a) Q E"
  by (cases x) simp_all

lemma holds_each [triples]:
  assumes "\<And>x. x \<in> set xs \<Longrightarrow> holds I (f x) (\<lambda>_. I) E"
  shows "holds I (each_do f xs) (\<lambda>_. I) E"
  using assms by (induction xs) (auto intro!: triples)

section \<open>Actions that keep a property\<close>

definition keeps :: "('s \<Rightarrow> bool) \<Rightarrow> ('s, 'e, 'a) action \<Rightarrow> bool" where
  "keeps I m \<longleftrightarrow> (\<forall>s. I s \<longrightarrow> I (fst (m s)))"

named_theorems keeping

lemma keeps_holds: "keeps I m \<longleftrightarrow> holds I m (\<lambda>_. I) (\<lambda>_. I)"
  unfolding keeps_def holds_def by (simp add: case_prod_beta split: sum.split)

lemma keepsD: "keeps I m \<Longrightarrow> I s \<Longrightarrow> m s = (t, r) \<Longrightarrow> I t"
  unfolding keeps_def by fastforce

lemma keeps_chain [keeping]: "keeps I m \<Longrightarrow> (\<And>a. keeps I (f a)) \<Longrightarrow> keeps I (chain m f)"
  unfolding keeps_holds by (rule holds_chain)

lemma keeps_simple [keeping]:
  "keeps I (ret a)" "keeps I (raise e)" "keeps I (read_state f)" "keeps I (lifted r)"
  by (simp_all add: keeps_def action_defs)

lemma keeps_outcome [keeping]: "keeps I m \<Longrightarrow> keeps I (outcome m)"
  unfolding keeps_def outcome_def by (auto split: prod.splits)

lemma keeps_ignored [keeping]: "keeps I m \<Longrightarrow> keeps I (ignored m)"
  by (simp add: keeps_def ignored_def)

lemma keeps_with_error [keeping]: "keeps I m \<Longrightarrow> keeps I (with_error g m)"
  unfolding keeps_def with_error_def by (auto split: prod.splits)

lemma keeps_when_do [keeping]: "keeps I m \<Longrightarrow> keeps I (when_do b m)"
  by (simp add: when_do_def keeps_simple)

lemma keeps_if [keeping]: "keeps I m \<Longrightarrow> keeps I n \<Longrightarrow> keeps I (if b then m else n)"
  by simp

lemma keeps_option [keeping]:
  "keeps I m \<Longrightarrow> (\<And>a. keeps I (f a)) \<Longrightarrow> keeps I (case x of None \<Rightarrow> m | Some a \<Rightarrow> f a)"
  by (cases x) simp_all

lemma keeps_sum [keeping]:
  "(\<And>e. keeps I (g e)) \<Longrightarrow> (\<And>a. keeps I (f a)) \<Longrightarrow> keeps I (case x of Inl e \<Rightarrow> g e | Inr a \<Rightarrow> f a)"
  by (cases x) simp_all

lemma keeps_each [keeping]: "(\<And>x. keeps I (f x)) \<Longrightarrow> keeps I (each_do f xs)"
  by (induction xs) (auto intro!: keeping)

end
