(* ===== verification/Hypervisor.thy ===== *)
theory Hypervisor
  imports Effects Firewall_Rules
begin

text \<open>
  The hypervisor interface (\<open>src/hypervisor/mod.rs\<close>): the requests and answers, their
  validation, and the trait as a record of its operations on a backend state of any type.
  Paths are their text. \<open>VmStats\<close> holds the counters as natural numbers below \<open>2^64\<close>.
\<close>

section \<open>Power states\<close>

datatype power_state = PsRunning | PsPaused | PsShuttingDown | PsShutOff | PsCrashed | PsSuspended | PsUnknown

definition ps_active :: "power_state \<Rightarrow> bool" where
  "ps_active s \<longleftrightarrow> s \<in> {PsRunning, PsPaused, PsShuttingDown, PsSuspended}"

fun contains_text :: "string \<Rightarrow> string \<Rightarrow> bool" where
  "contains_text [] needle \<longleftrightarrow> needle = []"
| "contains_text (c # cs) needle \<longleftrightarrow> starts_with (c # cs) needle \<or> contains_text cs needle"

definition power_state_of :: "string \<Rightarrow> power_state" where
  "power_state_of value =
     (let n = ascii_lower (trim value) in
      if contains_text n ''running'' \<or> n = ''1'' then PsRunning
      else if contains_text n ''paused'' \<or> n = ''3'' then PsPaused
      else if contains_text n ''shut off'' \<or> contains_text n ''shutoff'' \<or> n = ''5'' then PsShutOff
      else if contains_text n ''shutdown'' \<or> n = ''4'' then PsShuttingDown
      else if contains_text n ''crashed'' \<or> n = ''6'' then PsCrashed
      else if contains_text n ''suspend'' \<or> n = ''7'' then PsSuspended
      else PsUnknown)"

section \<open>Requests and answers\<close>

record capabilities =
  ca_backend :: string
  ca_available :: bool
  ca_uri :: "string option"
  ca_hypervisor_version :: "string option"
  ca_emulator_version :: "string option"
  ca_kvm :: bool
  ca_live_resize :: bool
  ca_snapshots :: bool
  ca_vnc :: bool
  ca_detail :: "string option"

record vm_info =
  i_name :: string
  i_uuid :: "string option"
  i_state :: power_state
  i_vcpus :: nat
  i_memory_mib :: nat
  i_disk_bytes :: nat
  i_disk_path :: "string option"
  i_interface :: "string option"
  i_interface_type :: "string option"
  i_bridge :: "string option"
  i_mac :: "string option"
  i_autostart :: bool
  i_persistent :: bool

record vm_stats =
  st_cpu_time_ns :: nat
  st_memory_current :: "nat option"
  st_memory_available :: "nat option"
  st_disk_read :: nat
  st_disk_write :: nat
  st_rx :: nat
  st_tx :: nat

definition no_stats :: vm_stats where
  "no_stats = \<lparr>st_cpu_time_ns = 0, st_memory_current = None, st_memory_available = None,
     st_disk_read = 0, st_disk_write = 0, st_rx = 0, st_tx = 0\<rparr>"

datatype vm_image =
    Qcow2Image string
  | RawImage string
  | ApplianceRaw string
  | InstallerIso string
  | UnattendedWindows string string nat string
  | BlankImage

fun image_path :: "vm_image \<Rightarrow> string option" where
  "image_path (Qcow2Image p) = Some p"
| "image_path (RawImage p) = Some p"
| "image_path (ApplianceRaw p) = Some p"
| "image_path (InstallerIso p) = Some p"
| "image_path (UnattendedWindows p driver index version) = Some p"
| "image_path BlankImage = None"

definition is_manual_installer :: "vm_image \<Rightarrow> bool" where
  "is_manual_installer i \<longleftrightarrow> (case i of InstallerIso _ \<Rightarrow> True | _ \<Rightarrow> False)"

definition is_unattended_windows :: "vm_image \<Rightarrow> bool" where
  "is_unattended_windows i \<longleftrightarrow> (case i of UnattendedWindows _ _ _ _ \<Rightarrow> True | _ \<Rightarrow> False)"

definition is_installer :: "vm_image \<Rightarrow> bool" where
  "is_installer i \<longleftrightarrow> is_manual_installer i \<or> is_unattended_windows i"

definition is_preconfigured_appliance :: "vm_image \<Rightarrow> bool" where
  "is_preconfigured_appliance i \<longleftrightarrow> (case i of ApplianceRaw _ \<Rightarrow> True | _ \<Rightarrow> False)"

definition driver_iso :: "vm_image \<Rightarrow> string option" where
  "driver_iso i = (case i of UnattendedWindows _ d _ _ \<Rightarrow> Some d | _ \<Rightarrow> None)"

definition backing_format :: "vm_image \<Rightarrow> string option" where
  "backing_format i = (case i of Qcow2Image _ \<Rightarrow> Some ''qcow2'' | RawImage _ \<Rightarrow> Some ''raw''
     | ApplianceRaw _ \<Rightarrow> Some ''raw'' | _ \<Rightarrow> None)"

datatype firmware = Bios | Uefi

record create_request =
  cr_name :: string
  cr_vcpus :: nat
  cr_memory_mib :: nat
  cr_initial_memory :: "nat option"
  cr_disk_gib :: nat
  cr_image :: vm_image
  cr_cloud_init :: "string option"
  cr_tools_socket :: "string option"
  cr_bridge :: "string option"
  cr_tap :: "string option"
  cr_mac :: string
  cr_network_limit :: "nat option"
  cr_firmware :: firmware
  cr_machine_type :: string
  cr_autostart :: bool
  cr_start :: bool

record resize_request =
  rz_vcpus :: "nat option"
  rz_memory_mib :: "nat option"
  rz_disk_gib :: "nat option"
  rz_network_limit :: "nat option option"

record reinstall_request =
  re_image :: vm_image
  re_disk_gib :: nat
  re_cloud_init :: "string option"
  re_tools_socket :: "string option"
  re_start :: bool

datatype power_action = PowerStart | PowerShutdown | PowerForceOff | PowerReboot | PowerReset | PowerSuspend | PowerResume

record snapshot_request =
  sq_name :: string
  sq_description :: "string option"

record snapshot_info =
  si_name :: string
  si_description :: "string option"
  si_created_at :: "timestamp option"
  si_current :: bool

record vnc_target =
  vt_host :: ip_addr
  vt_port :: nat

section \<open>The trait\<close>

text \<open>
  The operations are actions on the state of the backend. The default bodies of the trait are
  \<open>default_acknowledge\<close>, \<open>default_balloon\<close> and \<open>default_guest_agent\<close>.
\<close>

record 'h hypervisor =
  hv_capabilities :: "('h, hv_error, capabilities) action"
  hv_list_vms :: "('h, hv_error, vm_info list) action"
  hv_get_vm :: "string \<Rightarrow> ('h, hv_error, vm_info) action"
  hv_create_vm :: "create_request \<Rightarrow> ('h, hv_error, vm_info) action"
  hv_delete_vm :: "string \<Rightarrow> bool \<Rightarrow> ('h, hv_error, unit) action"
  hv_power :: "string \<Rightarrow> power_action \<Rightarrow> ('h, hv_error, vm_info) action"
  hv_acknowledge :: "string \<Rightarrow> ('h, hv_error, unit) action"
  hv_resize :: "string \<Rightarrow> resize_request \<Rightarrow> ('h, hv_error, vm_info) action"
  hv_set_memory_balloon :: "string \<Rightarrow> nat \<Rightarrow> ('h, hv_error, unit) action"
  hv_reinstall :: "string \<Rightarrow> reinstall_request \<Rightarrow> ('h, hv_error, vm_info) action"
  hv_detach_seed_media :: "string \<Rightarrow> string \<Rightarrow> ('h, hv_error, unit) action"
  hv_stats :: "string \<Rightarrow> ('h, hv_error, vm_stats) action"
  hv_set_network_enabled :: "string \<Rightarrow> bool \<Rightarrow> ('h, hv_error, unit) action"
  hv_guest_agent_command :: "string \<Rightarrow> json \<Rightarrow> ('h, hv_error, json) action"
  hv_create_snapshot :: "string \<Rightarrow> snapshot_request \<Rightarrow> ('h, hv_error, snapshot_info) action"
  hv_list_snapshots :: "string \<Rightarrow> ('h, hv_error, snapshot_info list) action"
  hv_revert_snapshot :: "string \<Rightarrow> string \<Rightarrow> ('h, hv_error, vm_info) action"
  hv_delete_snapshot :: "string \<Rightarrow> string \<Rightarrow> ('h, hv_error, unit) action"
  hv_vnc_target :: "string \<Rightarrow> ('h, hv_error, vnc_target) action"

text \<open>
  What the panel relies on: an inspection changes nothing, a VM that was forced off is inactive,
  a deleted one is gone, one defined stopped is inactive, and a request about one VM leaves the
  others alone.
\<close>

locale hypervisor_contract =
  fixes hv :: "'h hypervisor"
  assumes inspect_keeps: "fst (hv_get_vm hv n s) = s"
    and forced_off: "hv_power hv n PowerForceOff s = (t, Inr i)
      \<Longrightarrow> \<exists>j. snd (hv_get_vm hv n t) = Inr j \<and> \<not> ps_active (i_state j)"
    and power_others: "n \<noteq> m \<Longrightarrow> snd (hv_get_vm hv m (fst (hv_power hv n a s))) = snd (hv_get_vm hv m s)"
    and deleted: "hv_delete_vm hv n b s = (t, Inr ()) \<Longrightarrow> snd (hv_get_vm hv n t) = Inl (HvNotFound n)"
    and defined_stopped: "hv_create_vm hv r s = (t, Inr i) \<Longrightarrow> \<not> cr_start r
      \<Longrightarrow> \<exists>j. snd (hv_get_vm hv (cr_name r) t) = Inr j \<and> \<not> ps_active (i_state j)"

section \<open>Validation\<close>

definition safe_name_char :: "char \<Rightarrow> bool" where
  "safe_name_char c \<longleftrightarrow> is_ascii_alnum c \<or> c \<in> {CHR ''.'', CHR ''_'', CHR ''-''}"

definition validate_vm_name :: "string \<Rightarrow> hv_error + unit" where
  "validate_vm_name name =
     and_then (require (\<not> (name = [] \<or> 63 < length name))
       (HvInvalidInput ''VM name must contain between 1 and 63 characters'')) (\<lambda>_.
     require (is_ascii_alnum (hd name) \<and> list_all safe_name_char name)
       (HvInvalidInput ''VM name may contain only ASCII letters, numbers, '.', '_' and '-', and must start with a letter or number''))"

definition validate_snapshot_name :: "string \<Rightarrow> hv_error + unit" where
  "validate_snapshot_name name =
     require (\<not> (name = [] \<or> 80 < length name \<or> \<not> list_all safe_name_char name))
       (HvInvalidInput ''snapshot name must contain 1-80 safe ASCII characters'')"

definition validate_bridge_name :: "string \<Rightarrow> hv_error + unit" where
  "validate_bridge_name name =
     require (\<not> (name = [] \<or> 15 < length name \<or> \<not> list_all safe_name_char name))
       (HvInvalidInput ''bridge must be a Linux interface name of at most 15 safe ASCII characters'')"

definition in_range :: "nat \<Rightarrow> nat \<Rightarrow> nat \<Rightarrow> bool" where
  "in_range lo hi n \<longleftrightarrow> lo \<le> n \<and> n \<le> hi"

definition check_option :: "'a option \<Rightarrow> ('a \<Rightarrow> hv_error + unit) \<Rightarrow> hv_error + unit" where
  "check_option x f = (case x of None \<Rightarrow> Inr () | Some a \<Rightarrow> f a)"

definition valid_vcpus :: "nat \<Rightarrow> hv_error + unit" where
  "valid_vcpus n = require (in_range 1 512 n) (HvInvalidInput ''vCPU count must be between 1 and 512'')"

definition valid_memory :: "nat \<Rightarrow> hv_error + unit" where
  "valid_memory n = require (in_range 256 (16 * 1024 * 1024) n)
     (HvInvalidInput ''memory must be between 256 MiB and 16 TiB'')"

definition valid_disk :: "nat \<Rightarrow> hv_error + unit" where
  "valid_disk n = require (in_range 1 (1024 * 1024) n)
     (HvInvalidInput ''disk capacity must be between 1 GiB and 1 PiB'')"

definition valid_speed :: "nat option \<Rightarrow> hv_error + unit" where
  "valid_speed n = require (n \<noteq> Some 0) (HvInvalidInput ''network speed limit must be greater than zero'')"

definition validate_create_request :: "create_request \<Rightarrow> hv_error + unit" where
  "validate_create_request r =
     and_then (validate_vm_name (cr_name r)) (\<lambda>_.
     and_then (validate_mac_address (cr_mac r)) (\<lambda>_.
     and_then (check_option (cr_bridge r) validate_bridge_name) (\<lambda>_.
     and_then (check_option (cr_tap r) (\<lambda>tap.
       and_then (validate_bridge_name tap) (\<lambda>_.
       require (cr_bridge r = None)
         (HvInvalidInput ''bridge and persistent tap modes are mutually exclusive'')))) (\<lambda>_.
     and_then (valid_vcpus (cr_vcpus r)) (\<lambda>_.
     and_then (valid_memory (cr_memory_mib r)) (\<lambda>_.
     and_then (check_option (cr_initial_memory r) (\<lambda>n. require (in_range 256 (cr_memory_mib r) n)
       (HvInvalidInput ''initial balloon memory must be between 256 MiB and the VM memory entitlement''))) (\<lambda>_.
     and_then (valid_disk (cr_disk_gib r)) (\<lambda>_.
     and_then (valid_speed (cr_network_limit r)) (\<lambda>_.
     require (cr_machine_type r \<in> {''q35'', ''i440fx''})
       (HvInvalidInput ''machine type must be q35 or i440fx''))))))))))"

definition validate_resize_request :: "resize_request \<Rightarrow> hv_error + unit" where
  "validate_resize_request r =
     and_then (require (\<not> (rz_vcpus r = None \<and> rz_memory_mib r = None \<and> rz_disk_gib r = None
         \<and> rz_network_limit r = None))
       (HvInvalidInput ''at least one resize value is required'')) (\<lambda>_.
     and_then (check_option (rz_vcpus r) valid_vcpus) (\<lambda>_.
     and_then (check_option (rz_memory_mib r) valid_memory) (\<lambda>_.
     and_then (check_option (rz_disk_gib r) valid_disk) (\<lambda>_.
     check_option (rz_network_limit r) valid_speed))))"

definition default_acknowledge :: "string \<Rightarrow> ('h, hv_error, unit) action" where
  "default_acknowledge name = lifted (validate_vm_name name)"

definition default_balloon :: "string \<Rightarrow> nat \<Rightarrow> ('h, hv_error, unit) action" where
  "default_balloon name target =
     raise (HvBackendUnavailable ''this hypervisor backend does not support live memory ballooning'')"

definition default_guest_agent :: "string \<Rightarrow> json \<Rightarrow> ('h, hv_error, json) action" where
  "default_guest_agent name command =
     raise (HvBackendUnavailable ''this hypervisor backend does not expose a guest-agent command transport'')"

end
