(* ===== verification/Panel_World.thy ===== *)
theory Panel_World
  imports Vm_Store Guest_Tools_Rotation Guest_Protocol Hypervisor "HOL-Library.Sublist"
begin

text \<open>
  The panel process with what it talks to (\<open>src/state.rs\<close>, \<open>AppState\<close>): its two groups of
  tables, the outside world (hypervisor, nftables, the \<open>ip\<close> tool, seed files, guest channels)
  as a state of any type with the record \<open>outside\<close> of its operations, and the log of the calls
  made to it, the latest first, each with the tables and the outside as they were when it was
  made. While a call is awaited other requests run; \<open>ow_others\<close> is what they do to the tables. The
  clock and fresh identifiers come from the outside too. The mutexes of the source are not
  modelled; what they keep apart is said where it matters.
\<close>

section \<open>Calls\<close>

text \<open>\<open>std::io::ErrorKind\<close> as the code distinguishes it.\<close>

datatype io_kind = IoNotFound | IoDenied | IoRefused | IoTimedOut | IoOther

record io_error =
  ie_kind :: io_kind
  ie_text :: string

text \<open>\<open>From<std::io::Error> for AppError\<close>.\<close>

definition app_error_of_io :: "io_error \<Rightarrow> app_error" where
  "app_error_of_io e = IoFailed (ie_text e)"

text \<open>One constructor per kind of call, with the arguments and answers the properties speak of.\<close>

datatype call =
    CallCapabilities "hv_error + string"
  | CallInspect string "hv_error + bool"
  | CallCreate create_request bool
  | CallDelete string bool "hv_error + unit"
  | CallPower string power_action bool
  | CallAcknowledge string bool
  | CallResize string resize_request bool
  | CallReinstall string reinstall_request bool
  | CallLink string bool bool
  | CallSnapshot string string bool
  | CallDetach string string bool
  | CallAgent string bool
  | CallNftList "app_error + bool"
  | CallNftApply string bool
  | CallIp "string list" bool
  | CallArtifact tools_platform bool
  | CallWriteSeed string bool
  | CallPublishSeed string bool
  | CallUnlink string "io_error + unit"
  | CallSyncRoot bool
  | CallConnect string bool
  | CallChannel string bool
  | CallRouterOs string bool

section \<open>The outside world\<close>

text \<open>What a provisioning seed is made of; its text and the image are made outside.\<close>

datatype seed_format = CloudInitSeed | CloudbaseSeed | UnattendSeed

record seed_tools =
  sd_platform :: tools_platform
  sd_provisioner :: tools_provisioner
  sd_secret :: string

record seed_content =
  sd_format :: seed_format
  sd_vm :: vm_row
  sd_password :: string
  sd_addresses :: "ip_row list"
  sd_tools :: "seed_tools option"

record ('w, 'n) outside =
  ow_hv :: "'w hypervisor"
  ow_others :: "'w \<Rightarrow> db \<times> policy_db \<Rightarrow> db \<times> policy_db"
  ow_now :: "'w \<Rightarrow> timestamp"
  ow_uuid :: "'w \<Rightarrow> 'w \<times> string"
  ow_random :: "'w \<Rightarrow> 'w \<times> envelope_random"
  ow_seal :: seal_lib
  ow_master :: string
  ow_nets :: "'n ipnet_lib"
  ow_guest :: guest_lib
  ow_nft_binary :: "'w \<Rightarrow> bool"
  ow_nft_list :: "('w, app_error, bool) action"
  ow_nft_apply :: "string \<Rightarrow> ('w, app_error, unit) action"
  ow_interface :: "string \<Rightarrow> 'w \<Rightarrow> bool"
  ow_is_bridge :: "string \<Rightarrow> 'w \<Rightarrow> bool"
  ow_ip_forward :: "'w \<Rightarrow> string"
  ow_tap_master :: "string \<Rightarrow> 'w \<Rightarrow> app_error + string option"
  ow_run_ip :: "string list \<Rightarrow> ('w, app_error, string) action"
  ow_artifact :: "tools_platform \<Rightarrow> ('w, app_error, nat) action"
  ow_write_seed :: "seed_content \<Rightarrow> ('w, app_error, unit) action"
  ow_publish_seed :: "string \<Rightarrow> ('w, app_error, string) action"
  ow_seed_path :: "string \<Rightarrow> string"
  ow_seed_present :: "string \<Rightarrow> 'w \<Rightarrow> bool"
  ow_seed_file :: "string \<Rightarrow> 'w \<Rightarrow> io_error + bool"
  ow_unlink :: "string \<Rightarrow> ('w, io_error, unit) action"
  ow_seed_root :: "'w \<Rightarrow> io_error + bool"
  ow_sync_root :: "('w, io_error, unit) action"
  ow_socket_dir :: string
  ow_connect :: "string \<Rightarrow> ('w, io_error, unit) action"
  ow_channel :: "string \<Rightarrow> string \<Rightarrow> ('w, string, string) action"
  ow_late :: "'w \<Rightarrow> nat \<Rightarrow> bool"
  ow_nonce :: "'w \<Rightarrow> 'w \<times> string"
  ow_request_bytes :: "guest_request \<Rightarrow> string"
  ow_read_response :: "string \<Rightarrow> string + guest_response"
  ow_routeros_apply :: "vm_row \<Rightarrow> guest_command \<Rightarrow> ('w, app_error, string) action"
  ow_routeros_bootstrap :: "vm_row \<Rightarrow> ('w, app_error, unit) action"

section \<open>The panel\<close>

text \<open>What a call is made in: the tables and the outside at that moment.\<close>

record 'w moment =
  mo_db :: db
  mo_policy :: policy_db
  mo_world :: 'w

type_synonym 'w entry = "call \<times> 'w moment"

record 'w node =
  nd_db :: db
  nd_policy :: policy_db
  nd_world :: 'w
  nd_log :: "'w entry list"

definition moment_of :: "'w node \<Rightarrow> 'w moment" where
  "moment_of s = \<lparr>mo_db = nd_db s, mo_policy = nd_policy s, mo_world = nd_world s\<rparr>"

text \<open>The calls of the log without their moments.\<close>

definition nd_calls :: "'w node \<Rightarrow> call list" where
  "nd_calls s = map fst (nd_log s)"

lemma nd_calls_simps [simp]:
  "nd_calls (s\<lparr>nd_db := d\<rparr>) = nd_calls s" "nd_calls (s\<lparr>nd_policy := p\<rparr>) = nd_calls s"
  "nd_calls (s\<lparr>nd_world := w\<rparr>) = nd_calls s" "nd_calls (s\<lparr>nd_log := l\<rparr>) = map fst l"
  "nd_calls \<lparr>nd_db = d, nd_policy = p, nd_world = w, nd_log = l\<rparr> = map fst l" "map fst (nd_log s) = nd_calls s"
  by (simp_all add: nd_calls_def)

lemma moment_of_simps [simp]: "moment_of (s\<lparr>nd_log := l\<rparr>) = moment_of s"
  "mo_db (moment_of s) = nd_db s" "mo_policy (moment_of s) = nd_policy s" "mo_world (moment_of s) = nd_world s"
  by (simp_all add: moment_of_def)

type_synonym ('w, 'e, 'a) step = "('w node, 'e, 'a) action"

text \<open>A call to the outside that is awaited and logged with the moment it is made in.\<close>

definition outside_call ::
  "('w, 'n) outside \<Rightarrow> ('e + 'a \<Rightarrow> call) \<Rightarrow> ('w, 'e, 'a) action \<Rightarrow> ('w, 'e, 'a) step" where
  "outside_call ow entry f = (\<lambda>s. case f (nd_world s) of (w, r) \<Rightarrow>
     case ow_others ow w (nd_db s, nd_policy s) of (d, p) \<Rightarrow>
       (s\<lparr>nd_db := d, nd_policy := p, nd_world := w, nd_log := (entry r, moment_of s) # nd_log s\<rparr>, r))"

text \<open>One transaction on a group of tables.\<close>

definition db_do ::
  "('w, 'n) outside \<Rightarrow> (timestamp \<Rightarrow> db \<Rightarrow> 'a transaction) \<Rightarrow> ('w, app_error, 'a) step" where
  "db_do ow f = (\<lambda>s. case f (ow_now ow (nd_world s)) (nd_db s) of
     Inl e \<Rightarrow> (s, Inl e) | Inr (d, a) \<Rightarrow> (s\<lparr>nd_db := d\<rparr>, Inr a))"

definition policy_do ::
  "('w, 'n) outside \<Rightarrow> (timestamp \<Rightarrow> policy_db \<Rightarrow> 'a policy_transaction) \<Rightarrow> ('w, app_error, 'a) step" where
  "policy_do ow f = (\<lambda>s. case f (ow_now ow (nd_world s)) (nd_policy s) of
     Inl e \<Rightarrow> (s, Inl e) | Inr (p, a) \<Rightarrow> (s\<lparr>nd_policy := p\<rparr>, Inr a))"

definition db_read :: "(db \<Rightarrow> 'a) \<Rightarrow> ('w, 'e, 'a) step" where
  "db_read f = read_state (\<lambda>s. f (nd_db s))"

definition policy_read :: "(policy_db \<Rightarrow> 'a) \<Rightarrow> ('w, 'e, 'a) step" where
  "policy_read f = read_state (\<lambda>s. f (nd_policy s))"

definition world_read :: "('w \<Rightarrow> 'a) \<Rightarrow> ('w, 'e, 'a) step" where
  "world_read f = read_state (\<lambda>s. f (nd_world s))"

text \<open>A fresh value drawn from the outside.\<close>

definition draw :: "('w \<Rightarrow> 'w \<times> 'a) \<Rightarrow> ('w, 'e, 'a) step" where
  "draw f = (\<lambda>s. case f (nd_world s) of (w, a) \<Rightarrow> (s\<lparr>nd_world := w\<rparr>, Inr a))"

section \<open>Calls to the hypervisor\<close>

definition ask_backend :: "('w, 'n) outside \<Rightarrow> ('w, app_error, string) step" where
  "ask_backend ow = with_error app_error_of_hv (outside_call ow CallCapabilities
     (chain (hv_capabilities (ow_hv ow)) (\<lambda>c. ret (ca_backend c))))"

definition ask_power :: "('w, 'n) outside \<Rightarrow> string \<Rightarrow> power_action \<Rightarrow> ('w, hv_error, vm_info) step" where
  "ask_power ow name action =
     outside_call ow (\<lambda>r. CallPower name action (is_ok r)) (hv_power (ow_hv ow) name action)"

definition ask_active :: "('w, 'n) outside \<Rightarrow> string \<Rightarrow> ('w, hv_error, bool) step" where
  "ask_active ow name = outside_call ow (CallInspect name)
     (chain (hv_get_vm (ow_hv ow) name) (\<lambda>i. ret (ps_active (i_state i))))"

definition ask_create :: "('w, 'n) outside \<Rightarrow> create_request \<Rightarrow> ('w, hv_error, vm_info) step" where
  "ask_create ow r = outside_call ow (\<lambda>x. CallCreate r (is_ok x)) (hv_create_vm (ow_hv ow) r)"

definition ask_delete :: "('w, 'n) outside \<Rightarrow> string \<Rightarrow> bool \<Rightarrow> ('w, hv_error, unit) step" where
  "ask_delete ow name storage = outside_call ow (CallDelete name storage) (hv_delete_vm (ow_hv ow) name storage)"

definition ask_acknowledge :: "('w, 'n) outside \<Rightarrow> string \<Rightarrow> ('w, hv_error, unit) step" where
  "ask_acknowledge ow name =
     outside_call ow (\<lambda>x. CallAcknowledge name (is_ok x)) (hv_acknowledge (ow_hv ow) name)"

definition ask_resize :: "('w, 'n) outside \<Rightarrow> string \<Rightarrow> resize_request \<Rightarrow> ('w, hv_error, vm_info) step" where
  "ask_resize ow name r = outside_call ow (\<lambda>x. CallResize name r (is_ok x)) (hv_resize (ow_hv ow) name r)"

definition ask_reinstall :: "('w, 'n) outside \<Rightarrow> string \<Rightarrow> reinstall_request \<Rightarrow> ('w, hv_error, vm_info) step" where
  "ask_reinstall ow name r = outside_call ow (\<lambda>x. CallReinstall name r (is_ok x)) (hv_reinstall (ow_hv ow) name r)"

definition ask_link :: "('w, 'n) outside \<Rightarrow> string \<Rightarrow> bool \<Rightarrow> ('w, hv_error, unit) step" where
  "ask_link ow name up = outside_call ow (\<lambda>x. CallLink name up (is_ok x)) (hv_set_network_enabled (ow_hv ow) name up)"

definition ask_snapshot ::
  "('w, 'n) outside \<Rightarrow> string \<Rightarrow> snapshot_request \<Rightarrow> ('w, hv_error, snapshot_info) step" where
  "ask_snapshot ow name r =
     outside_call ow (\<lambda>x. CallSnapshot name (sq_name r) (is_ok x)) (hv_create_snapshot (ow_hv ow) name r)"

definition ask_detach :: "('w, 'n) outside \<Rightarrow> string \<Rightarrow> string \<Rightarrow> ('w, hv_error, unit) step" where
  "ask_detach ow name source =
     outside_call ow (\<lambda>x. CallDetach name source (is_ok x)) (hv_detach_seed_media (ow_hv ow) name source)"

definition ask_agent :: "('w, 'n) outside \<Rightarrow> string \<Rightarrow> json \<Rightarrow> ('w, hv_error, json) step" where
  "ask_agent ow name command =
     outside_call ow (\<lambda>x. CallAgent name (is_ok x)) (hv_guest_agent_command (ow_hv ow) name command)"

section \<open>The log\<close>

text \<open>The log only grows: what was in it stays, behind the calls made since.\<close>

abbreviation logged :: "'w entry list \<Rightarrow> 'w node \<Rightarrow> bool" where
  "logged l \<equiv> \<lambda>s. suffix l (nd_log s)"

lemma suffix_Cons: "suffix l xs \<Longrightarrow> suffix l (x # xs)"
  by (metis suffix_ConsI)

lemma logged_calls [keeping]:
  "keeps (logged l) (outside_call ow entry f)"
  "keeps (logged l) (db_do ow g)" "keeps (logged l) (policy_do ow h)"
  "keeps (logged l) (db_read r)" "keeps (logged l) (policy_read q)" "keeps (logged l) (world_read w)"
  "keeps (logged l) (draw x)"
  by (auto simp: keeps_def outside_call_def db_do_def policy_do_def db_read_def policy_read_def
      world_read_def draw_def read_state_def suffix_Cons split: prod.splits sum.splits)

lemmas ask_defs = ask_backend_def ask_power_def ask_active_def ask_create_def ask_delete_def
  ask_acknowledge_def ask_resize_def ask_reinstall_def ask_link_def ask_snapshot_def ask_detach_def ask_agent_def

lemma logged_asks [keeping]:
  "keeps (logged l) (ask_backend ow)" "keeps (logged l) (ask_power ow n a)" "keeps (logged l) (ask_active ow n)"
  "keeps (logged l) (ask_create ow r)" "keeps (logged l) (ask_delete ow n b)" "keeps (logged l) (ask_acknowledge ow n)"
  "keeps (logged l) (ask_resize ow n z)" "keeps (logged l) (ask_reinstall ow n i)" "keeps (logged l) (ask_link ow n b)"
  "keeps (logged l) (ask_snapshot ow n q)" "keeps (logged l) (ask_detach ow n p)" "keeps (logged l) (ask_agent ow n j)"
  unfolding ask_defs by (intro keeping)+

text \<open>What a call answers and leaves, for steps whose outcome is known.\<close>

lemma outside_call_result:
  "outside_call ow entry f s = (t, r) \<Longrightarrow> f (nd_world s) = (nd_world t, r) \<and> nd_calls t = entry r # nd_calls s
    \<and> (nd_db t, nd_policy t) = ow_others ow (nd_world t) (nd_db s, nd_policy s) \<and> nd_log t = (entry r, moment_of s) # nd_log s"
  by (auto simp: outside_call_def split: prod.splits)

text \<open>The panel as it was when a call was made: its moment, and the log before it.\<close>

definition node_at :: "'w entry \<Rightarrow> 'w entry list \<Rightarrow> 'w node" where
  "node_at e before = \<lparr>nd_db = mo_db (snd e), nd_policy = mo_policy (snd e), nd_world = mo_world (snd e), nd_log = before\<rparr>"

lemma node_at_moment [simp]: "node_at (c, moment_of s) (nd_log s) = s"
  by (simp add: node_at_def)

lemma db_do_Inr: "db_do ow f s = (t, Inr a)
    \<longleftrightarrow> (\<exists>d. f (ow_now ow (nd_world s)) (nd_db s) = Inr (d, a) \<and> t = s\<lparr>nd_db := d\<rparr>)"
  by (auto simp: db_do_def split: sum.splits)

lemma policy_do_Inr: "policy_do ow f s = (t, Inr a)
    \<longleftrightarrow> (\<exists>p. f (ow_now ow (nd_world s)) (nd_policy s) = Inr (p, a) \<and> t = s\<lparr>nd_policy := p\<rparr>)"
  by (auto simp: policy_do_def split: sum.splits)

lemma db_do_Inl: "db_do ow f s = (t, Inl e) \<longleftrightarrow> f (ow_now ow (nd_world s)) (nd_db s) = Inl e \<and> t = s"
  by (auto simp: db_do_def split: sum.splits)

lemma policy_do_Inl: "policy_do ow f s = (t, Inl e) \<longleftrightarrow> f (ow_now ow (nd_world s)) (nd_policy s) = Inl e \<and> t = s"
  by (auto simp: policy_do_def split: sum.splits)

end
