(* ===== verification/Firewall_Reconcile.thy ===== *)
theory Firewall_Reconcile
  imports Panel_World
begin

text \<open>
  Bringing the host in line with the stored policy (\<open>src/services/firewall.rs\<close>, \<open>reconcile\<close>
  to \<open>record_reconcile_failure\<close>): one nftables transaction for all VMs, the revision it was
  rendered from marked applied or failed, and the containment of protected VMs when it fails.
  The path of \<open>nft\<close> and its three runs are calls to the outside; the text of their errors is
  theirs.
\<close>

section \<open>What is desired\<close>

text \<open>\<open>ORDER BY scope, family, name COLLATE NOCASE\<close>.\<close>

definition pool_order :: "pool_row \<Rightarrow> nat \<times> nat \<times> string" where
  "pool_order p = (case p_scope p of PrivateScope \<Rightarrow> 0 | PublicScope \<Rightarrow> 1,
     case p_family p of V4 \<Rightarrow> 4 | V6 \<Rightarrow> 6, ascii_lower (p_name p))"

definition list_ip_pools :: "db \<Rightarrow> pool_row list" where
  "list_ip_pools d = sort_key pool_order (pools d)"

definition list_vms :: "db \<Rightarrow> vm_row list" where
  "list_vms d = sort_key (\<lambda>v. ascii_lower (v_name v)) (vms d)"

text \<open>
  \<open>vm_ip_addresses\<close>: the primary ones first, then by numeric address, IPv4 before IPv6. Stored
  addresses are canonical and parse; the textual order of the source is for others.
\<close>

definition address_order :: "ip_row \<Rightarrow> bool \<times> nat \<times> nat" where
  "address_order a = (\<not> a_primary a, case parse_ip (a_address a) of
     Some (IpV4 w) \<Rightarrow> (0, unat w) | Some (IpV6 w) \<Rightarrow> (1, unat w) | None \<Rightarrow> (2, 0))"

definition vm_ip_addresses :: "string \<Rightarrow> db \<Rightarrow> ip_row list" where
  "vm_ip_addresses vm d = sort_key address_order (filter (\<lambda>a. a_vm a = Some vm) (ips d))"

definition managed_network :: "'n ipnet_lib \<Rightarrow> pool_row \<Rightarrow> app_error + 'n" where
  "managed_network lib p =
     and_then (ok_or (net_parse lib (p_cidr p)) (Internal (''stored IP pool CIDR is invalid: '' @ p_cidr p))) (\<lambda>n.
     and_then (require (is_ipv4 (net_addr lib n) = (p_family p = V4))
       (Internal (''stored IP pool family does not match its CIDR: '' @ p_cidr p))) (\<lambda>_. Inr n))"

definition managed_networks :: "'n ipnet_lib \<Rightarrow> db \<Rightarrow> app_error + 'n list" where
  "managed_networks lib d =
     and_then (map_all (managed_network lib) (list_ip_pools d))
       (\<lambda>ns. Inr (remdups_adj (sort_key (net_show lib) ns)))"

definition policy_of_vm :: "db \<Rightarrow> policy_db \<Rightarrow> vm_row \<Rightarrow> vm_policy option" where
  "policy_of_vm d p v = map_option (\<lambda>profile.
     let addresses = vm_ip_addresses (v_id v) d;
         of_family = (\<lambda>f. map a_address (filter (\<lambda>a. a_family a = f) addresses)) in
     \<lparr>vp_vm = v, vp_profile = profile, vp_rules = list_vm_firewall_rules p (v_id v),
      vp_ipv4 = of_family V4, vp_ipv6 = of_family V6\<rparr>) (vm_network_security p (v_id v))"

definition desired_policies :: "db \<Rightarrow> policy_db \<Rightarrow> vm_policy list" where
  "desired_policies d p =
     sort_key (\<lambda>v. v_id (vp_vm v)) (List.map_filter (policy_of_vm d p) (list_vms d))"

record apply_summary =
  as_enforced :: bool
  as_active :: nat
  as_guarded :: nat
  as_guard :: bool
  as_bcp38 :: bool
  as_changed :: bool

definition no_summary :: apply_summary where
  "no_summary = \<lparr>as_enforced = False, as_active = 0, as_guarded = 0, as_guard = False, as_bcp38 = False,
     as_changed = False\<rparr>"

definition active_count :: "vm_policy list \<Rightarrow> nat" where
  "active_count desired = count_where (\<lambda>v. v_libvirt_uuid (vp_vm v) \<noteq> None
     \<and> (w_firewall (vp_profile v) \<or> w_ddos (vp_profile v))) desired"

definition guarded_count :: "'n guard_switches \<Rightarrow> vm_policy list \<Rightarrow> nat" where
  "guarded_count g desired =
     (if guard_active g then count_where (\<lambda>v. v_libvirt_uuid (vp_vm v) \<noteq> None) desired else 0)"

definition may_own_table :: "host_policy \<Rightarrow> vm_policy list \<Rightarrow> bool" where
  "may_own_table h desired \<longleftrightarrow> h_applied_at h \<noteq> None \<or> (\<exists>v \<in> set desired. w_applied_at (vp_profile v) \<noteq> None)"

section \<open>Recording the outcome\<close>

definition mark_profile ::
  "('w, 'n) outside \<Rightarrow> string option \<Rightarrow> vm_policy \<Rightarrow> ('w, app_error, unit) step" where
  "mark_profile ow err v = chain (policy_do ow (mark_vm_network_security_applied (v_id (vp_vm v))
     (w_revision (vp_profile v)) err)) (\<lambda>_. ret ())"

definition mark_host :: "('w, 'n) outside \<Rightarrow> nat \<Rightarrow> string option \<Rightarrow> ('w, app_error, unit) step" where
  "mark_host ow revision err = chain (policy_do ow (mark_hypervisor_network_security_applied revision err)) (\<lambda>_. ret ())"

definition record_reconcile_failure ::
  "('w, 'n) outside \<Rightarrow> vm_policy list \<Rightarrow> nat \<Rightarrow> string \<Rightarrow> ('w, 'e, unit) step" where
  "record_reconcile_failure ow desired host_revision message =
     chain (each_do (\<lambda>v. ignored (mark_profile ow (Some message) v)) desired) (\<lambda>_.
     ignored (mark_host ow host_revision (Some message)))"

text \<open>An error of \<open>m\<close> is recorded for every desired revision and returned.\<close>

definition or_record ::
  "('w, 'n) outside \<Rightarrow> vm_policy list \<Rightarrow> nat \<Rightarrow> ('w, app_error, 'a) step \<Rightarrow> ('w, app_error, 'a) step" where
  "or_record ow desired revision m =
     chain (outcome m) (\<lambda>r. case r of
       Inl e \<Rightarrow> chain (record_reconcile_failure ow desired revision (app_error_text e)) (\<lambda>_. raise e)
     | Inr a \<Rightarrow> ret a)"

section \<open>Reconciliation\<close>

definition nft_missing :: app_error where
  "nft_missing = Configuration ''nftables is required for network protection''"

definition ask_table :: "('w, 'n) outside \<Rightarrow> ('w, app_error, bool) step" where
  "ask_table ow = outside_call ow CallNftList (ow_nft_list ow)"

definition apply_script :: "('w, 'n) outside \<Rightarrow> string \<Rightarrow> ('w, app_error, unit) step" where
  "apply_script ow script = outside_call ow (\<lambda>r. CallNftApply script (is_ok r)) (ow_nft_apply ow script)"

definition install_rules ::
  "('w, 'n) outside \<Rightarrow> 'n guard_switches \<Rightarrow> host_policy \<Rightarrow> vm_policy list \<Rightarrow> ('w, app_error, apply_summary) step" where
  "install_rules ow g h desired =
     chain (or_record ow desired (h_revision h) (ask_table ow)) (\<lambda>exists.
     chain (or_record ow desired (h_revision h) (lifted (render_ruleset (ow_nets ow) g desired exists))) (\<lambda>script.
     chain (when_do (trim script \<noteq> []) (or_record ow desired (h_revision h) (apply_script ow script))) (\<lambda>_.
     chain (each_do (mark_profile ow None) desired) (\<lambda>_.
     chain (mark_host ow (h_revision h) None) (\<lambda>_.
     ret \<lparr>as_enforced = (0 < active_count desired \<or> 0 < guarded_count g desired \<or> h_bcp38 h),
          as_active = active_count desired, as_guarded = guarded_count g desired, as_guard = h_guard h,
          as_bcp38 = h_bcp38 h, as_changed = (trim script \<noteq> [])\<rparr>)))))"

definition reconcile :: "('w, 'n) outside \<Rightarrow> ('w, app_error, apply_summary) step" where
  "reconcile ow =
     chain (policy_read host) (\<lambda>h.
     chain (ask_backend ow) (\<lambda>backend.
     if backend \<noteq> ''libvirt''
     then ret (no_summary\<lparr>as_guard := h_guard h, as_bcp38 := h_bcp38 h\<rparr>)
     else
       chain (db_read (managed_networks (ow_nets ow))) (\<lambda>networks.
       chain (lifted networks) (\<lambda>subnets.
       chain (read_state (\<lambda>s. desired_policies (nd_db s) (nd_policy s))) (\<lambda>desired.
       let g = \<lparr>gs_ownership = h_guard h, gs_bcp38 = h_bcp38 h, gs_subnets = subnets\<rparr> in
       chain (world_read (ow_nft_binary ow)) (\<lambda>nft.
       if nft then install_rules ow g h desired
       else if active_count desired = 0 \<and> guarded_count g desired = 0 \<and> \<not> h_bcp38 h \<and> \<not> may_own_table h desired
       then ret no_summary
       else chain (record_reconcile_failure ow desired (h_revision h) (app_error_text nft_missing))
              (\<lambda>_. raise nft_missing)))))))"

section \<open>Failing closed\<close>

definition policy_enabled :: "string \<Rightarrow> db \<Rightarrow> policy_db \<Rightarrow> bool" where
  "policy_enabled vm d p \<longleftrightarrow> (h_guard (host p) \<and> list_ip_pools d \<noteq> []) \<or> h_bcp38 (host p)
     \<or> (case vm_network_security p vm of None \<Rightarrow> False | Some w \<Rightarrow> w_firewall w \<or> w_ddos w)"

definition vm_policy_enabled :: "string \<Rightarrow> ('w, 'e, bool) step" where
  "vm_policy_enabled vm = read_state (\<lambda>s. policy_enabled vm (nd_db s) (nd_policy s))"

definition contain_vm_after_policy_failure ::
  "('w, 'n) outside \<Rightarrow> vm_row \<Rightarrow> ('w, string, bool) step" where
  "contain_vm_after_policy_failure ow v =
     chain (outcome (ask_active ow (v_name v))) (\<lambda>r. case r of
       Inr is_active \<Rightarrow>
         if is_active then
           chain (with_error hv_error_text (ask_power ow (v_name v) PowerForceOff)) (\<lambda>_.
           chain (ignored (db_do ow (set_vm_state (v_id v) VmStopped (Some VmStopped) None None))) (\<lambda>_.
           ret True))
         else ret False
     | Inl e \<Rightarrow> (case e of HvNotFound _ \<Rightarrow> ret False | _ \<Rightarrow> raise (hv_error_text e)))"

definition not_contained :: "string \<Rightarrow> app_error" where
  "not_contained message = Conflict (''enabled network protection could not be applied and the VM could not be contained: ''
     @ message)"

definition kept_stopped :: "app_error \<Rightarrow> app_error" where
  "kept_stopped e = Conflict (''enabled network protection could not be applied; the VM remains stopped: ''
     @ app_error_text e)"

definition reconcile_vm_fail_closed :: "('w, 'n) outside \<Rightarrow> vm_row \<Rightarrow> ('w, app_error, apply_summary) step" where
  "reconcile_vm_fail_closed ow v =
     chain (vm_policy_enabled (v_id v)) (\<lambda>required.
     chain (outcome (reconcile ow)) (\<lambda>r. case r of
       Inr summary \<Rightarrow> ret summary
     | Inl e \<Rightarrow>
         if required then
           chain (outcome (contain_vm_after_policy_failure ow v)) (\<lambda>c. case c of
             Inl message \<Rightarrow> raise (not_contained message)
           | Inr _ \<Rightarrow> raise (kept_stopped e))
         else raise e))"

text \<open>The sweep after a failed reconciliation: how many VMs were stopped, and who could not be.\<close>

fun contain_all :: "('w, 'n) outside \<Rightarrow> nat \<Rightarrow> string list \<Rightarrow> vm_row list \<Rightarrow> ('w, app_error, nat \<times> string list) step" where
  "contain_all ow n failures [] = ret (n, failures)"
| "contain_all ow n failures (v # vs) =
     chain (vm_policy_enabled (v_id v)) (\<lambda>required.
     if \<not> required then contain_all ow n failures vs
     else chain (outcome (contain_vm_after_policy_failure ow v)) (\<lambda>c. case c of
       Inr was_active \<Rightarrow> contain_all ow (if was_active then n + 1 else n) failures vs
     | Inl message \<Rightarrow> contain_all ow n (failures @ [v_id v @ '': '' @ message]) vs))"

definition fail_closed_after_reconcile_failure :: "('w, 'n) outside \<Rightarrow> ('w, app_error, nat) step" where
  "fail_closed_after_reconcile_failure ow =
     chain (db_read list_vms) (\<lambda>vs.
     chain (contain_all ow 0 [] vs) (\<lambda>(n, failures).
     if failures = [] then ret n
     else raise (HypervisorFailed (show_nat (length failures)
       @ '' protected VM(s) could not be contained after policy failure ('' @ join_with ''; '' failures @ '')''))))"

text \<open>One turn of \<open>network_security_loop\<close> (\<open>src/services/background.rs\<close>).\<close>

definition network_security_turn :: "('w, 'n) outside \<Rightarrow> ('w, 'e, unit) step" where
  "network_security_turn ow =
     chain (outcome (reconcile ow)) (\<lambda>r. case r of
       Inr _ \<Rightarrow> ret ()
     | Inl _ \<Rightarrow> ignored (fail_closed_after_reconcile_failure ow))"

text \<open>\<open>ensure_vm_network_policy\<close> (\<open>src/services/background.rs\<close>).\<close>

definition ensure_vm_network_policy :: "('w, 'n) outside \<Rightarrow> vm_row \<Rightarrow> ('w, app_error, unit) step" where
  "ensure_vm_network_policy ow v =
     chain (ask_backend ow) (\<lambda>backend.
     if backend \<noteq> ''libvirt'' then ret ()
     else chain (vm_policy_enabled (v_id v)) (\<lambda>enabled.
       if \<not> enabled then ret ()
       else chain (reconcile_vm_fail_closed ow v) (\<lambda>_. ret ())))"

section \<open>The administrator's handlers\<close>

text \<open>
  \<open>patch_hypervisor_network_security\<close> of \<open>src/routes/api.rs\<close> after its permission check: a
  policy the host refuses is rolled back to the previous switches and reconciled again.
\<close>

definition change_host_policy ::
  "('w, 'n) outside \<Rightarrow> string \<Rightarrow> bool option \<Rightarrow> bool option \<Rightarrow> ('w, app_error, apply_summary) step" where
  "change_host_policy ow actor guard bcp38 =
     chain (policy_read host) (\<lambda>previous.
     chain (policy_do ow (patch_hypervisor_network_security guard bcp38 (Some actor))) (\<lambda>_.
     chain (outcome (reconcile ow)) (\<lambda>r. case r of
       Inr summary \<Rightarrow> ret summary
     | Inl apply_error \<Rightarrow>
         chain (outcome (chain (policy_do ow (patch_hypervisor_network_security (Some (h_guard previous))
             (Some (h_bcp38 previous)) (Some actor))) (\<lambda>_. reconcile ow))) (\<lambda>rollback.
         raise (Conflict (case rollback of
           Inr _ \<Rightarrow> ''host network-security policy could not be applied; the previous settings were restored: ''
               @ app_error_text apply_error
         | Inl e \<Rightarrow> ''host network-security policy could not be applied and restoring the previous rules also failed: ''
               @ app_error_text apply_error @ ''; rollback: '' @ app_error_text e))))))"

end
