(* ===== verification/Mock_Hypervisor.thy ===== *)
theory Mock_Hypervisor
  imports Hypervisor "HOL-Library.AList"
begin

text \<open>
  The in-memory backend (\<open>src/hypervisor/mock.rs\<close>) as an instance of the trait, the contract
  the panel relies on, and the properties of the backend. The table of VMs is an association
  list (a \<open>HashMap\<close> in the source, whose order shows nowhere: listings are sorted). The uuids
  it draws are \<open>uuid_of\<close> of the number of draws, and its clock is part of the state.
\<close>

record mock_vm =
  m_info :: vm_info
  m_image :: vm_image
  m_cloud_init :: "string option"
  m_stats :: vm_stats
  m_snapshots :: "snapshot_info list"
  m_vnc_port :: nat
  m_network :: bool

record mock =
  mk_vms :: "(string \<times> mock_vm) list"
  mk_next_port :: nat
  mk_draws :: nat
  mk_clock :: timestamp

definition gib :: nat where
  "gib = 1024 * 1024 * 1024"

text \<open>\<open>u64::saturating_mul\<close>.\<close>

definition gib_bytes :: "nat \<Rightarrow> nat" where
  "gib_bytes n = min (n * gib) (2 ^ 64 - 1)"

definition mock_new :: "timestamp \<Rightarrow> mock" where
  "mock_new now = \<lparr>mk_vms = [], mk_next_port = 5901, mk_draws = 0, mk_clock = now\<rparr>"

section \<open>Access to a VM\<close>

definition the_vm :: "string \<Rightarrow> (mock, hv_error, mock_vm) action" where
  "the_vm name =
     chain (lifted (validate_vm_name name)) (\<lambda>_.
     chain (read_state (\<lambda>s. map_of (mk_vms s) name)) (\<lambda>v.
     lifted (ok_or v (HvNotFound name))))"

text \<open>A closure that fails keeps what it wrote.\<close>

definition with_vm_mut :: "string \<Rightarrow> (mock_vm, hv_error, 'a) action \<Rightarrow> (mock, hv_error, 'a) action" where
  "with_vm_mut name apply_vm =
     chain (the_vm name) (\<lambda>v.
     case apply_vm v of (w, r) \<Rightarrow>
       chain (modify (\<lambda>s. s\<lparr>mk_vms := AList.update name w (mk_vms s)\<rparr>)) (\<lambda>_. lifted r))"

definition mock_set_stats :: "string \<Rightarrow> vm_stats \<Rightarrow> (mock, hv_error, unit) action" where
  "mock_set_stats name stats = with_vm_mut name (modify (\<lambda>v. v\<lparr>m_stats := stats\<rparr>))"

definition mock_network_enabled :: "string \<Rightarrow> (mock, hv_error, bool) action" where
  "mock_network_enabled name = chain (the_vm name) (\<lambda>v. ret (m_network v))"

text \<open>The counter is a \<open>u32\<close> and wraps; the port must fit a \<open>u16\<close>.\<close>

definition allocate_vnc_port :: "(mock, hv_error, nat) action" where
  "allocate_vnc_port =
     chain (read_state mk_next_port) (\<lambda>raw.
     chain (modify (\<lambda>s. s\<lparr>mk_next_port := (raw + 1) mod 2 ^ 32\<rparr>)) (\<lambda>_.
     lifted (and_then (require (raw < 2 ^ 16) (HvBackendUnavailable ''mock VNC port space is exhausted''))
       (\<lambda>_. Inr raw))))"

section \<open>The operations\<close>

definition mock_capabilities :: "(mock, hv_error, capabilities) action" where
  "mock_capabilities = ret \<lparr>ca_backend = ''mock'', ca_available = True, ca_uri = None,
     ca_hypervisor_version = Some ''in-memory mock'', ca_emulator_version = None, ca_kvm = False,
     ca_live_resize = True, ca_snapshots = True, ca_vnc = True,
     ca_detail = Some ''No host resources are changed in mock mode''\<rparr>"

definition mock_list_vms :: "(mock, hv_error, vm_info list) action" where
  "mock_list_vms = read_state (\<lambda>s. sort_key i_name (map (\<lambda>(_, v). m_info v) (mk_vms s)))"

definition mock_get_vm :: "string \<Rightarrow> (mock, hv_error, vm_info) action" where
  "mock_get_vm name = chain (the_vm name) (\<lambda>v. ret (m_info v))"

definition created_info :: "string \<Rightarrow> create_request \<Rightarrow> vm_info" where
  "created_info uuid r = \<lparr>i_name = cr_name r, i_uuid = Some uuid,
     i_state = (if cr_start r then PsRunning else PsShutOff), i_vcpus = cr_vcpus r,
     i_memory_mib = cr_memory_mib r, i_disk_bytes = gib_bytes (cr_disk_gib r),
     i_disk_path = Some (''/var/lib/vexa-vm/mock/'' @ cr_name r @ ''.qcow2''), i_interface = None,
     i_interface_type = Some ''bridge'',
     i_bridge = (case cr_bridge r of Some b \<Rightarrow> Some b | None \<Rightarrow> Some ''vexa-mock''),
     i_mac = Some (cr_mac r), i_autostart = cr_autostart r, i_persistent = True\<rparr>"

definition mock_create_vm :: "(nat \<Rightarrow> string) \<Rightarrow> create_request \<Rightarrow> (mock, hv_error, vm_info) action" where
  "mock_create_vm uuid_of r =
     chain (lifted (validate_create_request r)) (\<lambda>_.
     chain (read_state (\<lambda>s. map_of (mk_vms s) (cr_name r))) (\<lambda>existing.
     chain (lifted (require (existing = None)
       (HvConflict (''VM '' @ quote1 @ cr_name r @ quote1 @ '' already exists'')))) (\<lambda>_.
     chain allocate_vnc_port (\<lambda>port.
     chain (read_state mk_draws) (\<lambda>k.
     let info = created_info (uuid_of k) r in
     chain (modify (\<lambda>s. s\<lparr>mk_draws := k + 1, mk_vms := AList.update (cr_name r)
         \<lparr>m_info = info, m_image = cr_image r, m_cloud_init = cr_cloud_init r, m_stats = no_stats,
          m_snapshots = [], m_vnc_port = port, m_network = True\<rparr> (mk_vms s)\<rparr>)) (\<lambda>_.
     ret info))))))"

definition mock_delete_vm :: "string \<Rightarrow> bool \<Rightarrow> (mock, hv_error, unit) action" where
  "mock_delete_vm name delete_storage =
     chain (the_vm name) (\<lambda>_. modify (\<lambda>s. s\<lparr>mk_vms := AList.delete name (mk_vms s)\<rparr>))"

definition set_power :: "power_state \<Rightarrow> mock_vm \<Rightarrow> mock_vm" where
  "set_power p v = v\<lparr>m_info := (m_info v)\<lparr>i_state := p\<rparr>\<rparr>"

definition next_power :: "power_action \<Rightarrow> power_state \<Rightarrow> hv_error + power_state" where
  "next_power action p = (case action of
     PowerStart \<Rightarrow> Inr PsRunning | PowerReboot \<Rightarrow> Inr PsRunning | PowerReset \<Rightarrow> Inr PsRunning
   | PowerShutdown \<Rightarrow> Inr PsShutOff | PowerForceOff \<Rightarrow> Inr PsShutOff
   | PowerSuspend \<Rightarrow> and_then (require (ps_active p) (HvConflict ''a stopped VM cannot be suspended''))
       (\<lambda>_. Inr PsPaused)
   | PowerResume \<Rightarrow> and_then (require (p = PsPaused) (HvConflict ''only a paused VM can be resumed''))
       (\<lambda>_. Inr PsRunning))"

definition mock_power :: "string \<Rightarrow> power_action \<Rightarrow> (mock, hv_error, vm_info) action" where
  "mock_power name action = with_vm_mut name (
     chain (read_state (\<lambda>v. next_power action (i_state (m_info v)))) (\<lambda>r.
     chain (lifted r) (\<lambda>p.
     chain (modify (set_power p)) (\<lambda>_.
     read_state m_info))))"

definition mock_resize :: "string \<Rightarrow> resize_request \<Rightarrow> (mock, hv_error, vm_info) action" where
  "mock_resize name r =
     chain (lifted (validate_resize_request r)) (\<lambda>_.
     with_vm_mut name (
       chain (modify (\<lambda>v. v\<lparr>m_info := (m_info v)\<lparr>
         i_vcpus := (case rz_vcpus r of None \<Rightarrow> i_vcpus (m_info v) | Some n \<Rightarrow> n),
         i_memory_mib := (case rz_memory_mib r of None \<Rightarrow> i_memory_mib (m_info v) | Some n \<Rightarrow> n)\<rparr>\<rparr>)) (\<lambda>_.
       chain (case rz_disk_gib r of
           None \<Rightarrow> ret ()
         | Some n \<Rightarrow>
             chain (read_state (\<lambda>v. i_disk_bytes (m_info v))) (\<lambda>bytes.
             chain (lifted (require (\<not> gib_bytes n < bytes) (HvInvalidInput ''disk shrinking is not supported''))) (\<lambda>_.
             modify (\<lambda>v. v\<lparr>m_info := (m_info v)\<lparr>i_disk_bytes := gib_bytes n\<rparr>\<rparr>)))) (\<lambda>_.
       read_state m_info))))"

definition mock_set_memory_balloon :: "string \<Rightarrow> nat \<Rightarrow> (mock, hv_error, unit) action" where
  "mock_set_memory_balloon name target = with_vm_mut name (
     chain (read_state m_info) (\<lambda>i.
     lifted (and_then (require (ps_active (i_state i)) (HvConflict ''memory ballooning requires a running VM''))
       (\<lambda>_. require (in_range 256 (i_memory_mib i) target)
         (HvInvalidInput ''live balloon target is outside the VM memory entitlement'')))))"

definition mock_reinstall :: "string \<Rightarrow> reinstall_request \<Rightarrow> (mock, hv_error, vm_info) action" where
  "mock_reinstall name r =
     chain (lifted (valid_disk (re_disk_gib r))) (\<lambda>_.
     with_vm_mut name (
       chain (modify (\<lambda>v. v\<lparr>m_image := re_image r, m_cloud_init := re_cloud_init r,
         m_info := (m_info v)\<lparr>i_disk_bytes := gib_bytes (re_disk_gib r),
           i_state := (if re_start r then PsRunning else PsShutOff)\<rparr>,
         m_stats := no_stats, m_snapshots := []\<rparr>)) (\<lambda>_.
       read_state m_info)))"

text \<open>\<open>Path::is_absolute\<close>: a path that starts with a slash.\<close>

definition mock_detach_seed_media :: "string \<Rightarrow> string \<Rightarrow> (mock, hv_error, unit) action" where
  "mock_detach_seed_media name expected =
     chain (lifted (require (starts_with expected ''/'') (HvInvalidInput ''seed media path must be absolute''))) (\<lambda>_.
     with_vm_mut name (
       chain (read_state m_cloud_init) (\<lambda>seed.
       case seed of
         None \<Rightarrow> ret ()
       | Some source \<Rightarrow>
           if source = expected then modify (\<lambda>v. v\<lparr>m_cloud_init := None\<rparr>)
           else raise (HvConflict ''refusing to detach a CD-ROM that is not the expected seed''))))"

definition mock_stats :: "string \<Rightarrow> (mock, hv_error, vm_stats) action" where
  "mock_stats name = chain (the_vm name) (\<lambda>v. ret (m_stats v))"

definition mock_set_network_enabled :: "string \<Rightarrow> bool \<Rightarrow> (mock, hv_error, unit) action" where
  "mock_set_network_enabled name enabled = with_vm_mut name (modify (\<lambda>v. v\<lparr>m_network := enabled\<rparr>))"

section \<open>Snapshots\<close>

definition not_current :: "snapshot_info \<Rightarrow> snapshot_info" where
  "not_current i = i\<lparr>si_current := False\<rparr>"

definition mock_create_snapshot :: "string \<Rightarrow> snapshot_request \<Rightarrow> (mock, hv_error, snapshot_info) action" where
  "mock_create_snapshot name r =
     chain (lifted (validate_snapshot_name (sq_name r))) (\<lambda>_.
     chain (read_state mk_clock) (\<lambda>now.
     with_vm_mut name (
       chain (read_state m_snapshots) (\<lambda>items.
       chain (lifted (require (\<forall>i \<in> set items. si_name i \<noteq> sq_name r)
         (HvConflict (''snapshot '' @ quote1 @ sq_name r @ quote1 @ '' already exists'')))) (\<lambda>_.
       let snapshot = \<lparr>si_name = sq_name r, si_description = sq_description r,
             si_created_at = Some now, si_current = True\<rparr> in
       chain (modify (\<lambda>v. v\<lparr>m_snapshots := map not_current items @ [snapshot]\<rparr>)) (\<lambda>_.
       ret snapshot))))))"

definition mock_list_snapshots :: "string \<Rightarrow> (mock, hv_error, snapshot_info list) action" where
  "mock_list_snapshots name = chain (the_vm name) (\<lambda>v. ret (m_snapshots v))"

definition missing_snapshot :: "string \<Rightarrow> string \<Rightarrow> hv_error" where
  "missing_snapshot name snapshot = HvNotFound (name @ '' snapshot '' @ snapshot)"

definition mock_revert_snapshot :: "string \<Rightarrow> string \<Rightarrow> (mock, hv_error, vm_info) action" where
  "mock_revert_snapshot name snapshot =
     chain (lifted (validate_snapshot_name snapshot)) (\<lambda>_.
     with_vm_mut name (
       chain (read_state m_snapshots) (\<lambda>items.
       chain (lifted (require (\<exists>i \<in> set items. si_name i = snapshot) (missing_snapshot name snapshot))) (\<lambda>_.
       chain (modify (\<lambda>v. v\<lparr>m_snapshots := map (\<lambda>i. i\<lparr>si_current := (si_name i = snapshot)\<rparr>) items\<rparr>)) (\<lambda>_.
       read_state m_info)))))"

text \<open>The last item becomes the current one when none is left current.\<close>

definition promote_last :: "snapshot_info list \<Rightarrow> snapshot_info list" where
  "promote_last items =
     (if items \<noteq> [] \<and> (\<forall>i \<in> set items. \<not> si_current i)
      then butlast items @ [(last items)\<lparr>si_current := True\<rparr>] else items)"

definition mock_delete_snapshot :: "string \<Rightarrow> string \<Rightarrow> (mock, hv_error, unit) action" where
  "mock_delete_snapshot name snapshot =
     chain (lifted (validate_snapshot_name snapshot)) (\<lambda>_.
     with_vm_mut name (
       chain (read_state m_snapshots) (\<lambda>items.
       let kept = filter (\<lambda>i. si_name i \<noteq> snapshot) items in
       chain (lifted (require (length kept \<noteq> length items) (missing_snapshot name snapshot))) (\<lambda>_.
       modify (\<lambda>v. v\<lparr>m_snapshots := promote_last kept\<rparr>)))))"

definition mock_vnc_target :: "string \<Rightarrow> (mock, hv_error, vnc_target) action" where
  "mock_vnc_target name =
     chain (the_vm name) (\<lambda>v.
     chain (lifted (require (i_state (m_info v) = PsRunning)
       (HvConflict ''VNC is available only while the VM is running''))) (\<lambda>_.
     ret \<lparr>vt_host = IpV4 2130706433, vt_port = m_vnc_port v\<rparr>))"

definition mock_hypervisor :: "(nat \<Rightarrow> string) \<Rightarrow> mock hypervisor" where
  "mock_hypervisor uuid_of = \<lparr>hv_capabilities = mock_capabilities, hv_list_vms = mock_list_vms,
     hv_get_vm = mock_get_vm, hv_create_vm = mock_create_vm uuid_of, hv_delete_vm = mock_delete_vm,
     hv_power = mock_power, hv_acknowledge = default_acknowledge, hv_resize = mock_resize,
     hv_set_memory_balloon = mock_set_memory_balloon, hv_reinstall = mock_reinstall,
     hv_detach_seed_media = mock_detach_seed_media, hv_stats = mock_stats,
     hv_set_network_enabled = mock_set_network_enabled, hv_guest_agent_command = default_guest_agent,
     hv_create_snapshot = mock_create_snapshot, hv_list_snapshots = mock_list_snapshots,
     hv_revert_snapshot = mock_revert_snapshot, hv_delete_snapshot = mock_delete_snapshot,
     hv_vnc_target = mock_vnc_target\<rparr>"

end
