(* ===== verification/Mock_Safety.thy ===== *)
theory Mock_Safety
  imports Mock_Hypervisor
begin

text \<open>
  The in-memory backend meets the contract of the trait, and its table stays well formed over
  every history of requests.
\<close>

section \<open>Access to a VM\<close>

lemma the_vm_cases:
  obtains e where "the_vm name s = (s, Inl e)"
  | v where "the_vm name s = (s, Inr v)" "map_of (mk_vms s) name = Some v" "validate_vm_name name = Inr ()"
  by (cases "validate_vm_name name"; cases "map_of (mk_vms s) name")
    (auto simp: the_vm_def action_defs)

lemma the_vm_state: "fst (the_vm name s) = s"
  by (cases rule: the_vm_cases [of name s]) simp_all

lemma the_vm_Inr: "the_vm name s = (t, Inr v) \<longleftrightarrow> t = s \<and> validate_vm_name name = Inr () \<and> map_of (mk_vms s) name = Some v"
  by (auto simp: the_vm_def action_defs split: sum.splits)

lemma the_vm_missing:
  "validate_vm_name name = Inr () \<Longrightarrow> map_of (mk_vms s) name = None \<Longrightarrow> the_vm name s = (s, Inl (HvNotFound name))"
  by (simp add: the_vm_def action_defs)

lemma with_vm_mut_cases:
  obtains e where "with_vm_mut name f s = (s, Inl e)" "the_vm name s = (s, Inl e)"
  | v where "the_vm name s = (s, Inr v)" "with_vm_mut name f s
      = (s\<lparr>mk_vms := AList.update name (fst (f v)) (mk_vms s)\<rparr>, snd (f v))"
proof (cases rule: the_vm_cases [of name s])
  case (1 e)
  then show thesis by (intro that(1)) (simp_all add: with_vm_mut_def chain_def)
next
  case (2 v)
  then show thesis
    by (intro that(2)) (simp_all add: with_vm_mut_def action_defs case_prod_beta)
qed

lemma with_vm_mut_others:
  "n \<noteq> m \<Longrightarrow> snd (mock_get_vm m (fst (with_vm_mut n f s))) = snd (mock_get_vm m s)"
  by (cases rule: with_vm_mut_cases [where name = n and f = f and s = s])
    (simp_all add: mock_get_vm_def the_vm_def action_defs update_conv split: sum.splits option.splits)

lemma with_vm_mut_Inr:
  assumes "with_vm_mut n f s = (t, Inr a)"
  obtains v w where "f v = (w, Inr a)" "map_of (mk_vms s) n = Some v" "the_vm n t = (t, Inr w)"
proof (cases rule: with_vm_mut_cases [where name = n and f = f and s = s])
  case (2 v)
  then show thesis
    using assms by (intro that [of v "fst (f v)"]) (auto simp: the_vm_Inr update_conv intro: prod_eqI)
qed (use assms in simp)

section \<open>The contract\<close>

lemma mock_get_state: "fst (mock_get_vm n s) = s"
  by (cases rule: the_vm_cases [of n s]) (simp_all add: mock_get_vm_def action_defs)

lemma mock_forced_off:
  assumes "mock_power n PowerForceOff s = (t, Inr i)"
  shows "\<exists>j. snd (mock_get_vm n t) = Inr j \<and> \<not> ps_active (i_state j)"
proof -
  obtain v w where "w = set_power PsShutOff v" "the_vm n t = (t, Inr w)"
    using assms unfolding mock_power_def
    by (rule with_vm_mut_Inr) (auto simp: action_defs next_power_def)
  then show ?thesis by (simp add: mock_get_vm_def chain_def ret_def set_power_def ps_active_def)
qed

lemma mock_deleted: "mock_delete_vm n b s = (t, Inr ()) \<Longrightarrow> snd (mock_get_vm n t) = Inl (HvNotFound n)"
  by (cases rule: the_vm_cases [of n s])
    (auto simp: mock_delete_vm_def mock_get_vm_def the_vm_missing action_defs delete_conv)

lemma mock_create_Inr:
  assumes "mock_create_vm f r s = (t, Inr i)"
  shows "validate_create_request r = Inr () \<and> map_of (mk_vms s) (cr_name r) = None
    \<and> i = created_info (f (mk_draws s)) r
    \<and> mk_next_port s < 2 ^ 16 \<and> mk_next_port t = (mk_next_port s + 1) mod 2 ^ 32
    \<and> mk_vms t = AList.update (cr_name r) \<lparr>m_info = i, m_image = cr_image r, m_cloud_init = cr_cloud_init r,
         m_stats = no_stats, m_snapshots = [], m_vnc_port = mk_next_port s, m_network = True\<rparr> (mk_vms s)"
  using assms
  by (auto simp: mock_create_vm_def allocate_vnc_port_def action_defs Let_def and_then_def require_def
      split: sum.splits if_splits)

lemma mock_defined_stopped:
  assumes "mock_create_vm f r s = (t, Inr i)" "\<not> cr_start r"
  shows "\<exists>j. snd (mock_get_vm (cr_name r) t) = Inr j \<and> \<not> ps_active (i_state j)"
proof -
  note c = mock_create_Inr [OF assms(1)]
  then have "validate_vm_name (cr_name r) = Inr ()"
    by (simp add: validate_create_request_def and_then_Inr)
  then show ?thesis
    using c assms(2) by (simp add: mock_get_vm_def the_vm_def action_defs update_conv created_info_def ps_active_def)
qed

lemma mock_power_others:
  "n \<noteq> m \<Longrightarrow> snd (mock_get_vm m (fst (mock_power n a s))) = snd (mock_get_vm m s)"
  unfolding mock_power_def by (rule with_vm_mut_others)

lemma mock_trait:
  "hv_get_vm (mock_hypervisor f) = mock_get_vm" "hv_power (mock_hypervisor f) = mock_power"
  "hv_delete_vm (mock_hypervisor f) = mock_delete_vm" "hv_create_vm (mock_hypervisor f) = mock_create_vm f"
  "hv_capabilities (mock_hypervisor f) = mock_capabilities"
  by (simp_all add: mock_hypervisor_def)

lemma mock_contract: "hypervisor_contract (mock_hypervisor f)"
  by unfold_locales (simp_all add: mock_trait mock_get_state mock_power_others
    mock_forced_off mock_deleted mock_defined_stopped)

interpretation mock_backend: hypervisor_contract "mock_hypervisor f" for f
  by (rule mock_contract)

section \<open>The table stays well formed\<close>

definition one_current :: "snapshot_info list \<Rightarrow> bool" where
  "one_current items \<longleftrightarrow> distinct (map si_name items)
     \<and> (items \<noteq> [] \<longrightarrow> count_where si_current items = 1)"

definition entry_ok :: "string \<Rightarrow> mock_vm \<Rightarrow> bool" where
  "entry_ok n v \<longleftrightarrow> i_name (m_info v) = n \<and> one_current (m_snapshots v)"

definition mock_ok :: "mock \<Rightarrow> bool" where
  "mock_ok s \<longleftrightarrow> distinct (map fst (mk_vms s)) \<and> (\<forall>(n, v) \<in> set (mk_vms s). entry_ok n v)"

lemma mock_ok_update:
  assumes "mock_ok s" "entry_ok n v"
  shows "mock_ok (s\<lparr>mk_vms := AList.update n v (mk_vms s)\<rparr>)"
proof -
  have d: "distinct (map fst (mk_vms s))" using assms(1) by (simp add: mock_ok_def)
  have "entry_ok m w" if "(m, w) \<in> set (AList.update n v (mk_vms s))" for m w
  proof -
    have "map_of (AList.update n v (mk_vms s)) m = Some w"
      using that distinct_update [OF d] by (simp add: map_of_is_SomeI)
    then have "(m = n \<and> w = v) \<or> map_of (mk_vms s) m = Some w"
      by (auto simp: update_conv split: if_splits)
    then show ?thesis using assms unfolding mock_ok_def by (auto dest: map_of_SomeD)
  qed
  then show ?thesis using distinct_update [OF d] unfolding mock_ok_def by auto
qed

lemma keeps_the_vm [keeping]: "keeps I (the_vm n)"
  by (simp add: keeps_def the_vm_state)

lemma keeps_with_vm_mut [keeping]:
  assumes "keeps (entry_ok n) f"
  shows "keeps mock_ok (with_vm_mut n f)"
  unfolding keeps_def
proof (intro allI impI)
  fix s assume ok: "mock_ok s"
  show "mock_ok (fst (with_vm_mut n f s))"
  proof (cases rule: with_vm_mut_cases [where name = n and f = f and s = s])
    case (2 v)
    then have "entry_ok n v" using ok unfolding mock_ok_def by (auto simp: the_vm_Inr dest: map_of_SomeD)
    then show ?thesis using 2(2) ok assms by (simp add: mock_ok_update keeps_def)
  qed (use ok in simp)
qed

lemma keeps_modify: "(\<And>s. I s \<Longrightarrow> I (f s)) \<Longrightarrow> keeps I (modify f)"
  by (simp add: keeps_def modify_def)

lemma count_where_map: "count_where p (map f xs) = count_where (\<lambda>x. p (f x)) xs"
  by (induction xs) (simp_all add: count_where_def)

lemma count_where_name:
  "distinct (map si_name items) \<Longrightarrow> n \<in> si_name ` set items \<Longrightarrow> count_where (\<lambda>i. si_name i = n) items = 1"
proof (induction items)
  case (Cons a items)
  then show ?case by (cases "si_name a = n") (auto simp: count_where_def image_iff filter_empty_conv)
qed simp

lemma one_current_promote:
  assumes "distinct (map si_name items)" "count_where si_current items \<le> 1"
  shows "one_current (promote_last items)"
proof (cases "items \<noteq> [] \<and> (\<forall>i \<in> set items. \<not> si_current i)")
  case True
  then obtain ys y where items: "items = ys @ [y]" by (meson rev_exhaust)
  have "count_where si_current ys = 0" using True items by (simp add: count_where_0)
  then show ?thesis
    using True assms(1) items by (simp add: one_current_def promote_last_def count_where_append count_where_def)
next
  case False
  have "items \<noteq> [] \<Longrightarrow> count_where si_current items \<noteq> 0" using False by (auto simp: count_where_0)
  then have "items \<noteq> [] \<Longrightarrow> count_where si_current items = 1" using assms(2) by linarith
  then show ?thesis using False assms(1) by (auto simp: one_current_def promote_last_def)
qed

lemma count_where_filter_le: "count_where p (filter q xs) \<le> count_where p xs"
  by (induction xs) (auto simp: count_where_def)

lemma one_current_simps:
  "one_current []"
  "one_current items \<Longrightarrow> \<forall>i \<in> set items. si_name i \<noteq> n \<Longrightarrow> si_current x \<Longrightarrow> si_name x = n
    \<Longrightarrow> one_current (map not_current items @ [x])"
  "one_current items \<Longrightarrow> n \<in> si_name ` set items
    \<Longrightarrow> one_current (map (\<lambda>i. i\<lparr>si_current := (si_name i = n)\<rparr>) items)"
  "one_current items \<Longrightarrow> one_current (promote_last (filter p items))"
proof -
  show "one_current []" by (simp add: one_current_def)
next
  assume *: "one_current items" "\<forall>i \<in> set items. si_name i \<noteq> n" "si_current x" "si_name x = n"
  have "map si_name (map not_current items) = map si_name items" by (simp add: not_current_def)
  moreover have "count_where si_current (map not_current items) = 0"
    by (simp add: count_where_0 not_current_def)
  ultimately show "one_current (map not_current items @ [x])"
    using * unfolding one_current_def
    by (simp add: count_where_append del: map_map) (auto simp: count_where_def)
next
  assume *: "one_current items" "n \<in> si_name ` set items"
  then show "one_current (map (\<lambda>i. i\<lparr>si_current := (si_name i = n)\<rparr>) items)"
    unfolding one_current_def by (auto simp: count_where_map count_where_name o_def)
next
  assume *: "one_current items"
  then have "count_where si_current items \<le> 1" by (cases items) (auto simp: one_current_def count_where_def)
  then have "count_where si_current (filter p items) \<le> 1"
    using count_where_filter_le [of si_current p items] by linarith
  then show "one_current (promote_last (filter p items))"
    using * by (intro one_current_promote) (simp_all add: one_current_def distinct_map_filter)
qed

section \<open>Histories\<close>

datatype mock_request =
    MCreate create_request
  | MDelete string bool
  | MPower string power_action
  | MResize string resize_request
  | MBalloon string nat
  | MReinstall string reinstall_request
  | MDetach string string
  | MLink string bool
  | MStats string vm_stats
  | MSnapshot string snapshot_request
  | MRevert string string
  | MDropSnapshot string string

fun mock_step :: "(nat \<Rightarrow> string) \<Rightarrow> mock \<Rightarrow> mock_request \<Rightarrow> mock" where
  "mock_step f s (MCreate r) = fst (mock_create_vm f r s)"
| "mock_step f s (MDelete n b) = fst (mock_delete_vm n b s)"
| "mock_step f s (MPower n a) = fst (mock_power n a s)"
| "mock_step f s (MResize n r) = fst (mock_resize n r s)"
| "mock_step f s (MBalloon n m) = fst (mock_set_memory_balloon n m s)"
| "mock_step f s (MReinstall n r) = fst (mock_reinstall n r s)"
| "mock_step f s (MDetach n p) = fst (mock_detach_seed_media n p s)"
| "mock_step f s (MLink n b) = fst (mock_set_network_enabled n b s)"
| "mock_step f s (MStats n st) = fst (mock_set_stats n st s)"
| "mock_step f s (MSnapshot n r) = fst (mock_create_snapshot n r s)"
| "mock_step f s (MRevert n x) = fst (mock_revert_snapshot n x s)"
| "mock_step f s (MDropSnapshot n x) = fst (mock_delete_snapshot n x s)"

lemma keeps_step_intro: "keeps I m \<Longrightarrow> I s \<Longrightarrow> I (fst (m s))"
  by (simp add: keeps_def)

lemmas plain_ops = mock_power_def mock_resize_def mock_set_memory_balloon_def mock_reinstall_def
  mock_detach_seed_media_def mock_set_network_enabled_def mock_set_stats_def

lemma keeps_plain:
  "keeps mock_ok (mock_power n a)" "keeps mock_ok (mock_resize n r)" "keeps mock_ok (mock_set_memory_balloon n m)"
  "keeps mock_ok (mock_reinstall n q)" "keeps mock_ok (mock_detach_seed_media n p)"
  "keeps mock_ok (mock_set_network_enabled n b)" "keeps mock_ok (mock_set_stats n st)"
  unfolding plain_ops
  by (auto intro!: keeping keeps_modify simp: entry_ok_def set_power_def one_current_simps(1))

lemma keeps_with_vm_mut_direct:
  "(\<And>v. entry_ok n v \<Longrightarrow> entry_ok n (fst (f v))) \<Longrightarrow> keeps mock_ok (with_vm_mut n f)"
  by (intro keeping) (simp add: keeps_def)

lemma keeps_snapshots:
  "keeps mock_ok (mock_create_snapshot n r)" "keeps mock_ok (mock_revert_snapshot n x)"
  "keeps mock_ok (mock_delete_snapshot n x)"
proof -
  show "keeps mock_ok (mock_create_snapshot n r)"
    unfolding mock_create_snapshot_def
    by (intro keeps_chain keeps_simple keeps_with_vm_mut_direct)
      (auto simp: action_defs Let_def entry_ok_def require_def one_current_simps(2))
  show "keeps mock_ok (mock_revert_snapshot n x)"
    unfolding mock_revert_snapshot_def
    by (intro keeps_chain keeps_simple keeps_with_vm_mut_direct)
      (auto simp: action_defs entry_ok_def require_def intro!: one_current_simps(3))
  show "keeps mock_ok (mock_delete_snapshot n x)"
    unfolding mock_delete_snapshot_def
    by (intro keeps_chain keeps_simple keeps_with_vm_mut_direct)
      (auto simp: action_defs Let_def entry_ok_def require_def intro!: one_current_simps(4))
qed

lemma create_keeps: "mock_ok s \<Longrightarrow> mock_ok (fst (mock_create_vm f r s))"
proof -
  assume ok: "mock_ok s"
  show ?thesis
  proof (cases "snd (mock_create_vm f r s)")
    case (Inl e)
    then have "mk_vms (fst (mock_create_vm f r s)) = mk_vms s"
      by (auto simp: mock_create_vm_def allocate_vnc_port_def action_defs Let_def split: sum.splits)
    then show ?thesis using ok by (simp add: mock_ok_def)
  next
    case (Inr i)
    then have c: "mock_create_vm f r s = (fst (mock_create_vm f r s), Inr i)" by (simp add: prod_eq_iff)
    have "entry_ok (cr_name r) \<lparr>m_info = i, m_image = cr_image r, m_cloud_init = cr_cloud_init r,
         m_stats = no_stats, m_snapshots = [], m_vnc_port = mk_next_port s, m_network = True\<rparr>"
      using mock_create_Inr [OF c] by (simp add: entry_ok_def created_info_def one_current_simps(1))
    then show ?thesis using mock_ok_update [OF ok] mock_create_Inr [OF c] by (simp add: mock_ok_def)
  qed
qed

lemma delete_keeps: "mock_ok s \<Longrightarrow> mock_ok (fst (mock_delete_vm n b s))"
  by (cases rule: the_vm_cases [of n s])
    (auto simp: mock_delete_vm_def action_defs mock_ok_def AList.delete_eq distinct_map_filter)

lemma mock_step_keeps: "mock_ok s \<Longrightarrow> mock_ok (mock_step f s a)"
  by (cases a) (simp_all add: create_keeps delete_keeps keeps_step_intro [OF keeps_plain(1)]
    keeps_step_intro [OF keeps_plain(2)] keeps_step_intro [OF keeps_plain(3)] keeps_step_intro [OF keeps_plain(4)]
    keeps_step_intro [OF keeps_plain(5)] keeps_step_intro [OF keeps_plain(6)] keeps_step_intro [OF keeps_plain(7)]
    keeps_step_intro [OF keeps_snapshots(1)] keeps_step_intro [OF keeps_snapshots(2)] keeps_step_intro [OF keeps_snapshots(3)])

text \<open>
  Over every history of requests the in-memory backend holds each VM once, under its own name,
  and a VM with snapshots has distinct snapshot names and exactly one current snapshot.
\<close>

theorem mock_stays_well_formed: "mock_ok (foldl (mock_step f) (mock_new now) as)"
proof -
  have "mock_ok s \<Longrightarrow> mock_ok (foldl (mock_step f) s as)" for s
    by (induction as arbitrary: s) (simp_all add: mock_step_keeps)
  moreover have "mock_ok (mock_new now)" by (simp add: mock_ok_def mock_new_def)
  ultimately show ?thesis .
qed

end
