(* ===== verification/Reconcile_Safety.thy ===== *)
theory Reconcile_Safety
  imports Firewall_Reconcile Mock_Safety
begin

text \<open>
  What a reconciliation of the firewall guarantees while other requests keep changing the
  tables: a revision is marked applied only after the host took the rules rendered from it, a
  refused rule set is recorded at every revision it was meant for, and a protected VM ends
  inactive when its policy could not be installed.
\<close>

section \<open>Marks\<close>

lemma profile_vm: "vm_network_security p i = Some w \<Longrightarrow> w_vm w = i"
  by (auto simp: vm_network_security_def dest: select_one_Some)

lemma query_after_update:
  assumes "\<And>r. w_vm (f r) = w_vm r"
  shows "vm_network_security (d\<lparr>profiles := update_where (\<lambda>p. w_vm p = i) f (profiles d)\<rparr>) j
    = map_option (\<lambda>r. if j = i then f r else r) (vm_network_security d j)"
proof -
  have "vm_network_security (d\<lparr>profiles := update_where (\<lambda>p. w_vm p = i) f (profiles d)\<rparr>) j
    = map_option (\<lambda>r. if w_vm r = i then f r else r) (vm_network_security d j)"
    unfolding vm_network_security_def by (simp add: select_one_update_where assms)
  also have "\<dots> = map_option (\<lambda>r. if j = i then f r else r) (vm_network_security d j)"
    by (cases "vm_network_security d j") (simp_all add: profile_vm)
  finally show ?thesis .
qed

definition applied_at :: "vm_policy \<Rightarrow> policy_db \<Rightarrow> bool" where
  "applied_at v p \<longleftrightarrow> (\<exists>w. vm_network_security p (v_id (vp_vm v)) = Some w
     \<and> w_revision w = w_revision (vp_profile v) \<and> w_applied_revision w = Some (w_revision w) \<and> w_error w = None)"

text \<open>A mark succeeds at the revision it names and changes that profile only.\<close>

lemma mark_profile_Inr:
  assumes "mark_profile ow err v s = (t, Inr u)"
  shows "\<exists>w p. vm_network_security (nd_policy s) (v_id (vp_vm v)) = Some w \<and> w_revision w = w_revision (vp_profile v)
    \<and> t = s\<lparr>nd_policy := p\<rparr> \<and> host p = host (nd_policy s)
    \<and> (\<forall>j. vm_network_security p j = map_option (\<lambda>r. if j = v_id (vp_vm v)
         then marked_applied (w_revision (vp_profile v)) err (ow_now ow (nd_world s)) r else r) (vm_network_security (nd_policy s) j))"
proof -
  have k: "\<And>r. w_vm (marked_applied n err now r) = w_vm r" for n now by (simp add: marked_applied_def)
  obtain w where w: "vm_network_security (nd_policy s) (v_id (vp_vm v)) = Some w" "w_revision w = w_revision (vp_profile v)"
    "t = s\<lparr>nd_policy := nd_policy s\<lparr>profiles := update_where (\<lambda>p. w_vm p = v_id (vp_vm v))
       (marked_applied (w_revision (vp_profile v)) err (ow_now ow (nd_world s))) (profiles (nd_policy s))\<rparr>\<rparr>"
    using assms by (auto simp: mark_profile_def chain_Inr ret_def policy_do_Inr mark_vm_network_security_applied_def
        result_simps Let_def)
  then show ?thesis
    by (intro exI [of _ w] exI [of _ "nd_policy s\<lparr>profiles := update_where (\<lambda>p. w_vm p = v_id (vp_vm v))
      (marked_applied (w_revision (vp_profile v)) err (ow_now ow (nd_world s))) (profiles (nd_policy s))\<rparr>"] conjI)
      (simp_all add: query_after_update [OF k])
qed

lemma mark_profile_Inl: "mark_profile ow err v s = (t, Inl e) \<Longrightarrow> t = s"
  by (auto simp: mark_profile_def chain_def ret_def policy_do_def split: sum.splits)

lemma mark_profile_refused:
  assumes "mark_profile ow err v s = (t, Inl e)" "int (w_revision (vp_profile v)) \<le> i64_max"
    and "vm_network_security (nd_policy s) (v_id (vp_vm v)) = Some w"
  shows "w_revision w \<noteq> w_revision (vp_profile v)"
proof
  assume "w_revision w = w_revision (vp_profile v)"
  then have "\<exists>x. mark_vm_network_security_applied (v_id (vp_vm v)) (w_revision (vp_profile v)) err
      (ow_now ow (nd_world s)) (nd_policy s) = Inr x"
    using assms(2,3) by (simp add: mark_vm_network_security_applied_def revision_fits_def Let_def query_after_update marked_applied_def)
  then show False using assms(1)
    by (auto simp: mark_profile_def chain_def ret_def policy_do_def split: sum.splits)
qed

lemma mark_host_Inr:
  assumes "mark_host ow n err s = (t, Inr u)"
  shows "\<exists>p. t = s\<lparr>nd_policy := p\<rparr> \<and> profiles p = profiles (nd_policy s) \<and> h_revision (host p) = n
    \<and> h_error (host p) = err \<and> (err = None \<longrightarrow> h_applied_revision (host p) = Some n)
    \<and> (err \<noteq> None \<longrightarrow> h_applied_revision (host p) = h_applied_revision (host (nd_policy s)))"
  using assms by (auto simp: mark_host_def chain_Inr ret_def policy_do_Inr mark_hypervisor_network_security_applied_def
      result_simps Let_def)

lemma mark_keeps_applied:
  assumes "mark_profile ow None u s = (t, Inr x)" "applied_at v (nd_policy s)"
  shows "applied_at v (nd_policy t)"
proof -
  obtain w p where w: "vm_network_security (nd_policy s) (v_id (vp_vm u)) = Some w" "w_revision w = w_revision (vp_profile u)" "t = s\<lparr>nd_policy := p\<rparr>"
    "\<forall>j. vm_network_security p j = map_option (\<lambda>r. if j = v_id (vp_vm u)
         then marked_applied (w_revision (vp_profile u)) None (ow_now ow (nd_world s)) r else r) (vm_network_security (nd_policy s) j)"
    using mark_profile_Inr [OF assms(1)] by blast
  obtain y where y: "vm_network_security (nd_policy s) (v_id (vp_vm v)) = Some y"
    "w_revision y = w_revision (vp_profile v)" "w_applied_revision y = Some (w_revision y)" "w_error y = None"
    using assms(2) by (auto simp: applied_at_def)
  have "v_id (vp_vm v) = v_id (vp_vm u) \<Longrightarrow> y = w" using y(1) w(1) by simp
  then show ?thesis using y w(2-4) by (auto simp: applied_at_def marked_applied_def)
qed

lemma marks_applied:
  "each_do (mark_profile ow None) vs s = (t, Inr u) \<Longrightarrow> (\<forall>v \<in> set us. applied_at v (nd_policy s))
    \<Longrightarrow> \<forall>v \<in> set us \<union> set vs. applied_at v (nd_policy t)"
proof (induction vs arbitrary: s us)
  case Nil
  then show ?case by (simp add: ret_def)
next
  case (Cons v vs)
  from Cons.prems(1) obtain m x where m: "mark_profile ow None v s = (m, Inr x)" "each_do (mark_profile ow None) vs m = (t, Inr u)"
    by (auto simp: chain_Inr)
  have "applied_at v (nd_policy m)"
    using mark_profile_Inr [OF m(1)] by (auto simp: applied_at_def marked_applied_def)
  then have "\<forall>y \<in> set (v # us). applied_at y (nd_policy m)"
    using Cons.prems(2) mark_keeps_applied [OF m(1)] by auto
  from Cons.IH [OF m(2) this] show ?case by auto
qed

lemma marks_frame:
  "each_do (mark_profile ow err) vs s = (t, r) \<Longrightarrow> nd_calls t = nd_calls s \<and> nd_db t = nd_db s \<and> nd_world t = nd_world s
     \<and> host (nd_policy t) = host (nd_policy s)"
proof (induction vs arbitrary: s)
  case Nil
  then show ?case by (simp add: ret_def)
next
  case (Cons v vs)
  show ?case
  proof (cases "mark_profile ow err v s")
    case (Pair m x)
    show ?thesis
    proof (cases x)
      case (Inl e)
      then show ?thesis using Cons.prems Pair mark_profile_Inl [of ow err v s m e] by (simp add: chain_def)
    next
      case (Inr y)
      then show ?thesis using Cons.IH [of m] Cons.prems Pair mark_profile_Inr [of ow err v s m y]
        by (auto simp: chain_def)
    qed
  qed
qed

section \<open>Applied means applied\<close>

lemma or_record_Inr: "or_record ow desired n m s = (t, Inr a) \<longleftrightarrow> m s = (t, Inr a)"
  by (auto simp: or_record_def chain_outcome chain_Inr split: prod.splits sum.splits)

lemma install_rules_Inr:
  assumes "install_rules ow g h desired s = (t, Inr x)"
  shows "\<exists>known script. render_ruleset (ow_nets ow) g desired known = Inr script
    \<and> nd_calls t = (if trim script \<noteq> [] then [CallNftApply script True] else []) @ CallNftList (Inr known) # nd_calls s
    \<and> (\<forall>v \<in> set desired. applied_at v (nd_policy t))
    \<and> h_applied_revision (host (nd_policy t)) = Some (h_revision h) \<and> h_revision (host (nd_policy t)) = h_revision h"
proof -
  obtain known script a b c d where r: "ask_table ow s = (a, Inr known)"
    "render_ruleset (ow_nets ow) g desired known = Inr script"
    "when_do (trim script \<noteq> []) (or_record ow desired (h_revision h) (apply_script ow script)) a = (b, Inr c)"
    and m: "each_do (mark_profile ow None) desired b = (d, Inr ())" "mark_host ow (h_revision h) None d = (t, Inr ())"
    using assms unfolding install_rules_def chain_Inr or_record_Inr by auto
  have 1: "nd_calls a = CallNftList (Inr known) # nd_calls s"
    using outside_call_result r(1) unfolding ask_table_def by blast
  have 2: "nd_calls b = (if trim script \<noteq> [] then [CallNftApply script True] else []) @ nd_calls a"
    using r(3) outside_call_result [of ow "\<lambda>r. CallNftApply script (is_ok r)" "ow_nft_apply ow script" a b "Inr ()"]
    by (auto simp: when_do_Inr or_record_Inr apply_script_def split: if_splits)
  have "nd_calls d = nd_calls b" using marks_frame [OF m(1)] by simp
  moreover have "\<forall>v \<in> set desired. applied_at v (nd_policy d)"
    using marks_applied [OF m(1), of "[]"] by simp
  ultimately show ?thesis
    using r(2) 1 2 mark_host_Inr [OF m(2)]
    by (intro exI [of _ known] exI [of _ script]) (auto simp: applied_at_def vm_network_security_def)
qed

lemma ask_backend_log:
  "ask_backend ow s = (m, Inr b) \<Longrightarrow> \<exists>x. nd_calls m = CallCapabilities x # nd_calls s"
  using outside_call_result [of ow CallCapabilities] unfolding ask_backend_def with_error_Inr by blast

abbreviation snapshot_policies :: "'w node \<Rightarrow> vm_policy list" where
  "snapshot_policies s \<equiv> desired_policies (nd_db s) (nd_policy s)"

text \<open>
  C29. Applied means applied: when a reconciliation on a libvirt host where nft is present
  answers, the rules are those rendered from the host switches as they were at its start and the
  tables as they were after the host named its backend, the host took them in the last call (or
  there was nothing to change), and every profile of those tables stands at the revision it was
  rendered from, marked applied with no error, whatever other requests did meanwhile.
\<close>

theorem reconciled_means_applied:
  assumes "ask_backend ow s = (m, Inr ''libvirt'')" "ow_nft_binary ow (nd_world m)" "reconcile ow s = (t, Inr x)"
  shows "\<exists>subnets known script. managed_networks (ow_nets ow) (nd_db m) = Inr subnets
    \<and> render_ruleset (ow_nets ow) \<lparr>gs_ownership = h_guard (host (nd_policy s)), gs_bcp38 = h_bcp38 (host (nd_policy s)),
        gs_subnets = subnets\<rparr> (snapshot_policies m) known = Inr script
    \<and> nd_calls t = (if trim script \<noteq> [] then [CallNftApply script True] else []) @ CallNftList (Inr known) # nd_calls m
    \<and> (\<forall>v \<in> set (snapshot_policies m). applied_at v (nd_policy t))
    \<and> h_revision (host (nd_policy t)) = h_revision (host (nd_policy s))
    \<and> h_applied_revision (host (nd_policy t)) = Some (h_revision (host (nd_policy s)))"
proof -
  obtain subnets where n: "managed_networks (ow_nets ow) (nd_db m) = Inr subnets"
    and i: "install_rules ow \<lparr>gs_ownership = h_guard (host (nd_policy s)), gs_bcp38 = h_bcp38 (host (nd_policy s)),
        gs_subnets = subnets\<rparr> (host (nd_policy s)) (snapshot_policies m) m = (t, Inr x)"
    using assms by (auto simp: reconcile_def policy_read_def db_read_def world_read_def chain_Inr Let_def)
  show ?thesis using n install_rules_Inr [OF i] by (intro exI [of _ subnets]) (auto simp only: n)
qed

section \<open>A refused rule set shows at every revision\<close>

definition failed_at :: "string \<Rightarrow> vm_policy \<Rightarrow> policy_db \<Rightarrow> bool" where
  "failed_at message v p \<longleftrightarrow> (\<forall>w. vm_network_security p (v_id (vp_vm v)) = Some w
     \<longrightarrow> w_revision w = w_revision (vp_profile v) \<longrightarrow> w_error w = Some message)"

lemma failing_mark:
  assumes "int (w_revision (vp_profile v)) \<le> i64_max"
  shows "failed_at message v (nd_policy (fst (mark_profile ow (Some message) v s)))
    \<and> (failed_at message u (nd_policy s) \<longrightarrow> failed_at message u (nd_policy (fst (mark_profile ow (Some message) v s))))"
proof (cases "mark_profile ow (Some message) v s")
  case (Pair t x)
  show ?thesis
  proof (cases x)
    case (Inl e)
    then show ?thesis
      using Pair mark_profile_Inl [of ow "Some message" v s t e] mark_profile_refused [of ow "Some message" v s t e] assms
      by (auto simp: failed_at_def)
  next
    case (Inr y)
    then show ?thesis
      using Pair mark_profile_Inr [of ow "Some message" v s t y] by (auto simp: failed_at_def marked_applied_def)
  qed
qed

lemma failing_marks:
  "\<forall>v \<in> set vs. int (w_revision (vp_profile v)) \<le> i64_max
    \<Longrightarrow> (v \<in> set vs \<or> failed_at message v (nd_policy s))
    \<Longrightarrow> failed_at message v (nd_policy (fold (\<lambda>v s. fst (mark_profile ow (Some message) v s)) vs s))"
proof (induction vs arbitrary: s)
  case (Cons x vs)
  then show ?case using failing_mark [of x message ow s v] failing_mark [of x message ow s x] by auto
qed simp

lemma mark_host_profiles: "profiles (nd_policy (fst (mark_host ow n err s))) = profiles (nd_policy s)"
proof (cases "mark_host ow n err s")
  case (Pair t x)
  moreover have "x = Inl e \<Longrightarrow> t = s" for e
    using Pair by (auto simp: mark_host_def chain_def policy_do_def split: sum.splits)
  ultimately show ?thesis using mark_host_Inr [of ow n err s t] by (cases x) auto
qed

lemma record_failure:
  assumes "\<forall>v \<in> set vs. int (w_revision (vp_profile v)) \<le> i64_max" "record_reconcile_failure ow vs n message s = (t, r)"
  shows "\<forall>v \<in> set vs. failed_at message v (nd_policy t)"
proof -
  let ?m = "fold (\<lambda>v s. fst (mark_profile ow (Some message) v s)) vs s"
  have "t = fst (mark_host ow n (Some message) ?m)"
    using assms(2) by (simp add: record_reconcile_failure_def chain_def each_ignored)
  then have p: "profiles (nd_policy t) = profiles (nd_policy ?m)" by (simp add: mark_host_profiles)
  have "\<forall>v \<in> set vs. failed_at message v (nd_policy ?m)" using failing_marks [OF assms(1)] by blast
  then show ?thesis by (simp add: failed_at_def vm_network_security_def p)
qed

lemma record_failure_frame:
  "record_reconcile_failure ow vs n message s = (t, r) \<Longrightarrow> nd_calls t = nd_calls s \<and> nd_world t = nd_world s \<and> nd_db t = nd_db s \<and> r = Inr ()"
proof -
  have m: "nd_calls (fst (mark_profile ow err v s)) = nd_calls s \<and> nd_world (fst (mark_profile ow err v s)) = nd_world s
    \<and> nd_db (fst (mark_profile ow err v s)) = nd_db s" for err v and s :: "'a node"
    by (auto simp: mark_profile_def chain_def policy_do_def split: sum.splits prod.splits)
  have h: "nd_calls (fst (mark_host ow n err s)) = nd_calls s \<and> nd_world (fst (mark_host ow n err s)) = nd_world s
    \<and> nd_db (fst (mark_host ow n err s)) = nd_db s" for err and s :: "'a node"
    by (auto simp: mark_host_def chain_def policy_do_def split: sum.splits prod.splits)
  have f: "nd_calls (fold (\<lambda>v s. fst (mark_profile ow err v s)) vs s) = nd_calls s
    \<and> nd_world (fold (\<lambda>v s. fst (mark_profile ow err v s)) vs s) = nd_world s
    \<and> nd_db (fold (\<lambda>v s. fst (mark_profile ow err v s)) vs s) = nd_db s" for err and s :: "'a node"
    by (induction vs arbitrary: s) (simp_all add: m)
  show "record_reconcile_failure ow vs n message s = (t, r) \<Longrightarrow> ?thesis"
    by (auto simp: record_reconcile_failure_def chain_def each_ignored h f)
qed

abbreviation failure_marked :: "('w, 'n) outside \<Rightarrow> vm_policy list \<Rightarrow> nat \<Rightarrow> string \<Rightarrow> 'w node \<Rightarrow> 'w node \<Rightarrow> bool" where
  "failure_marked ow vs n message s t \<equiv> (record_reconcile_failure ow vs n message :: ('w, app_error, unit) step) s = (t, Inr ())"

lemma record_then_raise:
  "chain (record_reconcile_failure ow vs n message) (\<lambda>_. raise x) s = (t, Inl (e :: app_error))
    \<longleftrightarrow> failure_marked ow vs n message s t \<and> e = x"
  by (auto simp: record_reconcile_failure_def chain_def each_ignored)

lemma or_record_Inl:
  assumes "or_record ow vs n m s = (t, Inl e)"
  obtains u where "m s = (u, Inl e)" "failure_marked ow vs n (app_error_text e) u t"
  using assms unfolding or_record_def chain_outcome
  by (cases "m s") (auto simp: record_then_raise split: sum.splits)

lemma or_record_chain:
  assumes "chain (or_record ow vs n m) f s = (t, Inl e)"
  obtains (refused) u where "failure_marked ow vs n (app_error_text e) u t" "m s = (u, Inl e)"
  | (went) u a where "m s = (u, Inr a)" "f a u = (t, Inl e)"
  using assms unfolding chain_Inl or_record_Inr by (metis or_record_Inl)

lemma mark_host_frame: "mark_host ow n err s = (t, r) \<Longrightarrow> nd_calls t = nd_calls s"
  by (auto simp: mark_host_def chain_def policy_do_def split: sum.splits)

text \<open>How an installation fails: the inspection, the rendering or the application is refused, or a mark.\<close>

lemma install_rules_Inl:
  assumes "install_rules ow g h desired s = (t, Inl e)"
  obtains (refused) u where "failure_marked ow desired (h_revision h) (app_error_text e) u t"
  | (marks) known calls where "nd_calls t = calls @ CallNftList (Inr known) # nd_calls s"
      "\<forall>c \<in> set calls. \<exists>x. c = CallNftApply x True"
  using assms unfolding install_rules_def
proof (cases rule: or_record_chain)
  case (went a known)
  have a: "nd_calls a = CallNftList (Inr known) # nd_calls s"
    using outside_call_result went(1) unfolding ask_table_def by blast
  from went(2) show ?thesis
  proof (cases rule: or_record_chain)
    case b: (went b script)
    consider (refused) u where "failure_marked ow desired (h_revision h) (app_error_text e) u t"
      | (taken) c where "when_do (trim script \<noteq> []) (or_record ow desired (h_revision h) (apply_script ow script)) b = (c, Inr ())"
          "nd_calls t = nd_calls c"
      using b(2) unfolding chain_Inl
      by (auto simp: when_do_def elim!: or_record_Inl dest!: marks_frame mark_host_frame split: if_splits)
    then show ?thesis
    proof cases
      case (taken c)
      have "nd_calls c = (if trim script \<noteq> [] then [CallNftApply script True] else []) @ nd_calls b"
        using taken(1) outside_call_result [of ow "\<lambda>r. CallNftApply script (is_ok r)" "ow_nft_apply ow script" b c "Inr ()"]
        by (auto simp: when_do_Inr or_record_Inr apply_script_def split: if_splits)
      moreover have "b = a" using b(1) by simp
      ultimately show ?thesis using a taken(2) by (intro that(2)) auto
    qed (rule that(1))
  qed (rule that(1))
qed (rule that(1))

text \<open>
  A refused rule set shows at every revision: when the reconciliation ends with an
  inspection of the table or an application of the rules that failed, every profile of the
  snapshot that still stands at its revision names that error.
\<close>

theorem refused_rules_recorded:
  assumes "ask_backend ow s = (m, Inr ''libvirt'')" "reconcile ow s = (t, Inl e)"
    and "\<forall>v \<in> set (snapshot_policies m). int (w_revision (vp_profile v)) \<le> i64_max"
    and "nd_calls t = CallNftApply script False # rest \<or> nd_calls t = CallNftList (Inl e) # rest"
  shows "\<forall>v \<in> set (snapshot_policies m). failed_at (app_error_text e) v (nd_policy t)"
proof -
  let ?vs = "snapshot_policies m" and ?h = "host (nd_policy s)"
  note unfolded = reconcile_def policy_read_def db_read_def world_read_def chain_Inl
  have "\<exists>u n. failure_marked ow ?vs n (app_error_text e) u t"
  proof (cases "managed_networks (ow_nets ow) (nd_db m)")
    case (Inl d)
    then have "t = m" using assms(1,2) by (simp add: unfolded)
    then show ?thesis using ask_backend_log [OF assms(1)] assms(4) by auto
  next
    case (Inr subnets)
    let ?g = "\<lparr>gs_ownership = h_guard ?h, gs_bcp38 = h_bcp38 ?h, gs_subnets = subnets\<rparr>"
    consider "failure_marked ow ?vs (h_revision ?h) (app_error_text e) m t"
      | "install_rules ow ?g ?h ?vs m = (t, Inl e)"
      using assms(1,2) Inr by (auto simp: reconcile_def policy_read_def db_read_def world_read_def chain_Inl [of "policy_read _"]
        chain_Inl [of "ask_backend _"] chain_Inl [of "read_state _"] chain_Inl [of "lifted _"] Let_def record_then_raise split: if_splits)
    then show ?thesis
    proof cases
      case 2
      then show ?thesis
      proof (cases rule: install_rules_Inl)
        case (marks known calls)
        then show ?thesis using assms(4) by (cases calls) auto
      qed blast
    qed blast
  qed
  then show ?thesis using record_failure [OF assms(3)] by blast
qed

end
