(* ===== verification/Fail_Closed.thy ===== *)
theory Fail_Closed
  imports Reconcile_Safety Firewall_Safety Guest_Channel Vm_Safety
begin

text \<open>
  A protected VM does not run without its policy: what the containment of a VM guarantees of the
  hypervisor afterwards, for every backend that satisfies the contract of the interface, and a
  host for the examples of this and of the preceding theory.
\<close>

section \<open>Containment\<close>

text \<open>The hypervisor has no VM of that name, or one that is not active.\<close>

definition gone_or_off :: "'w hypervisor \<Rightarrow> string \<Rightarrow> 'w \<Rightarrow> bool" where
  "gone_or_off hv n w \<longleftrightarrow> (case snd (hv_get_vm hv n w) of Inr i \<Rightarrow> \<not> ps_active (i_state i)
     | Inl e \<Rightarrow> (case e of HvNotFound _ \<Rightarrow> True | _ \<Rightarrow> False))"

lemma db_do_frame [simp]:
  "nd_world (fst (db_do ow f s)) = nd_world s" "nd_calls (fst (db_do ow f s)) = nd_calls s"
  "nd_policy (fst (db_do ow f s)) = nd_policy s"
  by (simp_all add: db_do_def split: sum.split prod.split)

lemma contain_cases:
  assumes "contain_vm_after_policy_failure ow v s = (t, Inr b)"
  obtains (gone) x where "ask_active ow (v_name v) s = (t, Inl (HvNotFound x))"
  | (off) "ask_active ow (v_name v) s = (t, Inr False)"
  | (forced) m u i where "ask_active ow (v_name v) s = (m, Inr True)"
      "ask_power ow (v_name v) PowerForceOff m = (u, Inr i)" "nd_world t = nd_world u"
proof (cases "ask_active ow (v_name v) s")
  case (Pair m r)
  note d = assms [unfolded contain_vm_after_policy_failure_def chain_outcome Pair prod.case]
  show thesis
  proof (cases r)
    case (Inl e)
    then show thesis using d gone Pair by (auto split: hv_error.splits)
  next
    case (Inr active)
    show thesis
    proof (cases active)
      case True
      then obtain u i where u: "ask_power ow (v_name v) PowerForceOff m = (u, Inr i)"
        "t = fst (db_do ow (set_vm_state (v_id v) VmStopped (Some VmStopped) None None) u)"
        using d Inr by (auto simp: chain_Inr with_error_Inr)
      show thesis using forced [OF _ u(1)] Pair Inr True u(2) by simp
    qed (use d Inr off Pair in simp)
  qed
qed

text \<open>The policy of a VM stays enabled through the calls and other requests that leave it so.\<close>

definition stays_enabled :: "('w, 'n) outside \<Rightarrow> string \<Rightarrow> bool" where
  "stays_enabled ow i \<longleftrightarrow> (\<forall>w d p. policy_enabled i d p
     \<longrightarrow> policy_enabled i (fst (ow_others ow w (d, p))) (snd (ow_others ow w (d, p))))"

abbreviation protected :: "string \<Rightarrow> 'w node \<Rightarrow> bool" where
  "protected i s \<equiv> policy_enabled i (nd_db s) (nd_policy s)"

lemma keeps_protected [keeping]:
  assumes "stays_enabled ow i"
  shows "keeps (protected i) (outside_call ow entry f)"
    "keeps (protected i) (db_do ow (set_vm_state x st de u vnc))"
proof -
  show "keeps (protected i) (outside_call ow entry f)"
    unfolding keeps_def outside_call_def
    by (auto split: prod.split) (metis assms fst_conv snd_conv stays_enabled_def)
  show "keeps (protected i) (db_do ow (set_vm_state x st de u vnc))"
    by (auto simp: keeps_def db_do_def set_vm_state_def Let_def and_then_Inr policy_enabled_def list_ip_pools_def split: sum.split)
qed

lemma contain_keeps_protected:
  "stays_enabled ow i \<Longrightarrow> keeps (protected i) (contain_vm_after_policy_failure ow v)"
  unfolding contain_vm_after_policy_failure_def ask_active_def ask_power_def
  by (auto intro!: keeping split: hv_error.split)

context hypervisor_contract begin

lemma asked_active:
  assumes "ow_hv ow = hv" "ask_active ow n s = (t, r)"
  shows "nd_world t = nd_world s" "r = Inr b \<Longrightarrow> \<exists>i. snd (hv_get_vm hv n (nd_world t)) = Inr i \<and> b = ps_active (i_state i)"
    "r = Inl e \<Longrightarrow> snd (hv_get_vm hv n (nd_world t)) = Inl e"
proof -
  have q: "chain (hv_get_vm hv n) (\<lambda>i. ret (ps_active (i_state i))) (nd_world s) = (nd_world t, r)"
    using assms outside_call_result unfolding ask_active_def by blast
  have k: "fst (hv_get_vm hv n (nd_world s)) = nd_world s" by (rule inspect_keeps)
  show w: "nd_world t = nd_world s" using q k by (auto simp: chain_def split: prod.splits sum.splits)
  show "r = Inr b \<Longrightarrow> \<exists>i. snd (hv_get_vm hv n (nd_world t)) = Inr i \<and> b = ps_active (i_state i)"
    "r = Inl e \<Longrightarrow> snd (hv_get_vm hv n (nd_world t)) = Inl e"
    using q unfolding w by (auto simp: chain_def split: prod.splits sum.splits)
qed

lemma contained:
  assumes "ow_hv ow = hv" "contain_vm_after_policy_failure ow v s = (t, Inr b)"
  shows "gone_or_off hv (v_name v) (nd_world t)"
proof -
  from assms(2) show ?thesis
  proof (cases rule: contain_cases)
    case (forced m u i)
    have "hv_power hv (v_name v) PowerForceOff (nd_world m) = (nd_world u, Inr i)"
      using forced(2) assms(1) outside_call_result unfolding ask_power_def by blast
    from forced_off [OF this] show ?thesis using forced(3) by (auto simp: gone_or_off_def)
  qed (use asked_active(2,3) [OF assms(1)] in \<open>fastforce simp: gone_or_off_def\<close>)+
qed

text \<open>Containing one VM does not start another.\<close>

lemma contained_others:
  assumes "ow_hv ow = hv" "contain_vm_after_policy_failure ow v s = (t, Inr b)" "gone_or_off hv n (nd_world s)"
  shows "gone_or_off hv n (nd_world t)"
proof (cases "v_name v = n")
  case True
  then show ?thesis using contained [OF assms(1,2)] by simp
next
  case False
  from assms(2) show ?thesis
  proof (cases rule: contain_cases)
    case (forced m u i)
    have "hv_power hv (v_name v) PowerForceOff (nd_world m) = (nd_world u, Inr i)"
      using forced(2) assms(1) outside_call_result unfolding ask_power_def by blast
    then have "snd (hv_get_vm hv n (nd_world t)) = snd (hv_get_vm hv n (nd_world m))"
      using power_others [OF False, of PowerForceOff "nd_world m"] forced(3) by simp
    then show ?thesis using assms(3) asked_active(1) [OF assms(1) forced(1)] unfolding gone_or_off_def by metis
  qed (use asked_active(1) [OF assms(1)] assms(3) in \<open>fastforce simp: gone_or_off_def\<close>)+
qed

lemma fails_closed:
  assumes "ow_hv ow = hv" "policy_enabled (v_id v) (nd_db s) (nd_policy s)"
    "reconcile_vm_fail_closed ow v s = (t, Inl e)"
  shows "gone_or_off hv (v_name v) (nd_world t) \<or> (\<exists>m. e = not_contained m)"
proof -
  obtain m r where m: "reconcile ow s = (m, r)" by fastforce
  have d: "(case r of Inr summary \<Rightarrow> ret summary | Inl e \<Rightarrow>
      chain (outcome (contain_vm_after_policy_failure ow v)) (\<lambda>c. case c of
        Inl message \<Rightarrow> raise (not_contained message) | Inr _ \<Rightarrow> raise (kept_stopped e))) m = (t, Inl e)"
    using assms(2,3) m unfolding reconcile_vm_fail_closed_def vm_policy_enabled_def chain_outcome
    by (simp add: chain_def [of "read_state _"] chain_outcome split: sum.splits)
  then obtain x where x: "r = Inl x" by (auto split: sum.splits)
  show ?thesis
  proof (cases "contain_vm_after_policy_failure ow v m")
    case (Pair u c)
    then show ?thesis using d x contained [OF assms(1)] unfolding chain_outcome by (cases c) (auto simp: chain_outcome)
  qed
qed

lemma sweep_contains:
  assumes "ow_hv ow = hv" "stays_enabled ow i"
  shows "contain_all ow k fs vs s = (t, Inr (n, []))
    \<Longrightarrow> (protected i s \<and> (\<exists>v \<in> set vs. v_id v = i \<and> v_name v = name)) \<or> gone_or_off hv name (nd_world s)
    \<Longrightarrow> gone_or_off hv name (nd_world t)"
proof (induction vs arbitrary: k fs s)
  case (Cons v vs)
  show ?case
  proof (cases "protected (v_id v) s")
    case False
    then have "contain_all ow k fs vs s = (t, Inr (n, []))"
      using Cons.prems(1) by (simp add: chain_def vm_policy_enabled_def)
    then show ?thesis using Cons False by auto
  next
    case True
    obtain m r where m: "contain_vm_after_policy_failure ow v s = (m, r)" by fastforce
    show ?thesis
    proof (cases r)
      case (Inr b)
      then obtain k' where c: "contain_all ow k' fs vs m = (t, Inr (n, []))"
        using Cons.prems(1) True m by (auto simp: chain_def vm_policy_enabled_def outcome_def)
      have b: "contain_vm_after_policy_failure ow v s = (m, Inr b)" using m Inr by simp
      have p: "protected i s \<Longrightarrow> protected i m"
        using keepsD [OF contain_keeps_protected [OF assms(2)] _ b] by simp
      have "gone_or_off hv name (nd_world m) \<or> (protected i m \<and> (\<exists>v \<in> set vs. v_id v = i \<and> v_name v = name))"
        using Cons.prems(2) p contained [OF assms(1) b] contained_others [OF assms(1) b] by auto
      then show ?thesis using Cons.IH [OF c] by blast
    next
      case (Inl message)
      then have "contain_all ow k (fs @ [v_id v @ '': '' @ message]) vs m = (t, Inr (n, []))"
        using Cons.prems(1) True m by (simp add: chain_def vm_policy_enabled_def outcome_def)
      moreover have "contain_all ow k gs vs u = (t, Inr (n, [])) \<Longrightarrow> gs = []" for gs k u
        by (induction vs arbitrary: gs k u)
          (auto simp: chain_def vm_policy_enabled_def outcome_def split: if_splits prod.splits sum.splits)
      ultimately show ?thesis by blast
    qed
  qed
qed (simp add: ret_def)

end

section \<open>Fail closed\<close>

text \<open>
  C28. A protected VM does not run without its rules: when its reconciliation fails, the answer
  names a VM that could not be contained, or the hypervisor has no such VM or one that is off.
\<close>

theorem unprotected_vm_ends_off:
  assumes "hypervisor_contract (ow_hv ow)" "policy_enabled (v_id v) (nd_db s) (nd_policy s)"
    and "reconcile_vm_fail_closed ow v s = (t, Inl e)"
  shows "gone_or_off (ow_hv ow) (v_name v) (nd_world t) \<or> (\<exists>m. e = not_contained m)"
  by (rule hypervisor_contract.fails_closed [OF assms(1) refl assms(2,3)])

text \<open>
  The sweep after a failed reconciliation is complete: when it reports no failure, every VM
  of the inventory whose policy is enabled, and is not disabled meanwhile, is off or gone at
  its end, also those stopped first.
\<close>

theorem sweep_leaves_none_running:
  assumes "hypervisor_contract (ow_hv ow)" "stays_enabled ow (v_id v)"
    and "fail_closed_after_reconcile_failure ow s = (t, Inr n)"
    and "v \<in> set (vms (nd_db s))" "policy_enabled (v_id v) (nd_db s) (nd_policy s)"
  shows "gone_or_off (ow_hv ow) (v_name v) (nd_world t)"
proof -
  have "contain_all ow 0 [] (list_vms (nd_db s)) s = (t, Inr (n, []))"
    using assms(3) by (auto simp: fail_closed_after_reconcile_failure_def chain_Inr db_read_def split: if_splits)
  moreover have "v \<in> set (list_vms (nd_db s))" using assms(4) by (simp add: list_vms_def)
  ultimately show ?thesis
    using hypervisor_contract.sweep_contains [OF assms(1) refl assms(2)] assms(5) by blast
qed


section \<open>A host for the examples\<close>

definition demo_hv :: "mock hypervisor" where
  "demo_hv = (mock_hypervisor (\<lambda>_. ''u''))\<lparr>hv_capabilities := chain mock_capabilities (\<lambda>c. ret (c\<lparr>ca_backend := ''libvirt''\<rparr>))\<rparr>"

lemma demo_hv_contract: "hypervisor_contract demo_hv"
  using mock_contract [of "\<lambda>_. ''u''"] by (simp add: hypervisor_contract_def demo_hv_def)

text \<open>The world is the backend; \<open>binary\<close> says whether nft is there, \<open>accepts\<close> whether it takes the rules.\<close>

definition demo_host :: "bool \<Rightarrow> bool \<Rightarrow> (mock, ip_addr) outside" where
  "demo_host binary accepts = \<lparr>ow_hv = demo_hv, ow_others = (\<lambda>_ x. x), ow_now = mk_clock, ow_uuid = (\<lambda>w. (w, ''u'')),
     ow_random = (\<lambda>w. (w, \<lparr>rnd_data_key = [], rnd_key_nonce = [], rnd_data_nonce = []\<rparr>)), ow_seal = demo_seal, ow_master = ''m'', ow_nets = host_nets, ow_guest = demo_lib,
     ow_nft_binary = (\<lambda>_. binary), ow_nft_list = ret True,
     ow_nft_apply = (\<lambda>_. if accepts then ret () else raise (Conflict ''refused'')),
     ow_interface = (\<lambda>_ _. True), ow_is_bridge = (\<lambda>_ _. False), ow_ip_forward = (\<lambda>_. ''1''),
     ow_tap_master = (\<lambda>_ _. Inr None), ow_run_ip = (\<lambda>_. ret []), ow_artifact = (\<lambda>_. ret 1),
     ow_write_seed = (\<lambda>_. ret ()), ow_publish_seed = ret, ow_seed_path = (\<lambda>i. ''/seeds/'' @ i @ ''.iso''),
     ow_seed_present = (\<lambda>_ _. False), ow_seed_file = (\<lambda>_ _. Inl \<lparr>ie_kind = IoNotFound, ie_text = ''absent''\<rparr>),
     ow_unlink = (\<lambda>_. ret ()), ow_seed_root = (\<lambda>_. Inr True), ow_sync_root = ret (), ow_socket_dir = ''/run/tools'',
     ow_connect = (\<lambda>_. ret ()), ow_channel = (\<lambda>_ _. ret []), ow_late = (\<lambda>_ _. False),
     ow_nonce = (\<lambda>w. (w, demo_nonce)), ow_request_bytes = (\<lambda>_. ''request''), ow_read_response = Inl,
     ow_routeros_apply = (\<lambda>_ _. ret []), ow_routeros_bootstrap = (\<lambda>_. ret ())\<rparr>"

definition demo_info :: vm_info where
  "demo_info = \<lparr>i_name = ''web'', i_uuid = Some ''u'', i_state = PsRunning, i_vcpus = 1, i_memory_mib = 512, i_disk_bytes = 8,
     i_disk_path = None, i_interface = None, i_interface_type = None, i_bridge = None, i_mac = None, i_autostart = False,
     i_persistent = True\<rparr>"

definition demo_backend :: mock where
  "demo_backend = (mock_new 0)\<lparr>mk_vms := [(''web'', \<lparr>m_info = demo_info, m_image = BlankImage, m_cloud_init = None,
     m_stats = no_stats, m_snapshots = [], m_vnc_port = 5901, m_network = True\<rparr>)]\<rparr>"

text \<open>One running VM with protection against floods, on a host where rules were applied before.\<close>

definition demo_policy :: policy_db where
  "demo_policy = \<lparr>profiles = [(new_profile ''v1'' 0)\<lparr>w_ddos := True, w_revision := 1\<rparr>], fw_rules = [],
     host = \<lparr>h_guard = False, h_bcp38 = False, h_revision = 1, h_applied_revision = None, h_applied_at = Some 0,
       h_error = None, h_updated_by = None, h_updated_at = 0\<rparr>\<rparr>"

definition demo_node :: "mock node" where
  "demo_node = \<lparr>nd_db = no_vms\<lparr>vms := [sample_vm ''v1'' ''web'']\<rparr>, nd_policy = demo_policy, nd_world = demo_backend, nd_log = []\<rparr>"

definition asked :: "mock node" where
  "asked = demo_node\<lparr>nd_log := [(CallCapabilities (Inr ''libvirt''), moment_of demo_node)]\<rparr>"

lemma demo_asked: "ask_backend (demo_host b a) demo_node = (asked, Inr ''libvirt'')"
  by (simp add: ask_backend_def outside_call_def demo_host_def demo_hv_def mock_capabilities_def mock_hypervisor_def
     action_defs demo_node_def asked_def map_err_def)

definition demo_desired :: "vm_policy list" where
  "demo_desired = [\<lparr>vp_vm = sample_vm ''v1'' ''web'', vp_profile = (new_profile ''v1'' 0)\<lparr>w_ddos := True, w_revision := 1\<rparr>,
     vp_rules = [], vp_ipv4 = [], vp_ipv6 = []\<rparr>]"

lemma asked_tables: "desired_policies (nd_db asked) (nd_policy asked) = demo_desired"
  "managed_networks lib (nd_db asked) = Inr []"
  by (simp_all add: asked_def demo_node_def no_vms_def desired_policies_def list_vms_def policy_of_vm_def vm_ip_addresses_def
    vm_network_security_def demo_policy_def select_one_def new_profile_def demo_desired_def list_vm_firewall_rules_def
    managed_networks_def list_ip_pools_def List.map_filter_def)

lemma demo_enabled: "policy_enabled ''v1'' (nd_db demo_node) (nd_policy demo_node)"
  by (simp add: policy_enabled_def demo_node_def demo_policy_def vm_network_security_def select_one_def new_profile_def)

lemma asked_host: "host (nd_policy demo_node) = host demo_policy" "may_own_table (host demo_policy) demo_desired"
  by (simp_all add: demo_node_def demo_policy_def may_own_table_def)

definition failure_recorded :: "('w, 'n) outside \<Rightarrow> vm_policy list \<Rightarrow> nat \<Rightarrow> string \<Rightarrow> 'w node \<Rightarrow> 'w node" where
  "failure_recorded ow vs n message s = fst (mark_host ow n (Some message) (fold (\<lambda>v s. fst (mark_profile ow (Some message) v s)) vs s))"

lemma record_total: "record_reconcile_failure ow vs n message s = (failure_recorded ow vs n message s, Inr ())"
  by (simp add: failure_recorded_def record_reconcile_failure_def chain_def each_ignored)

definition missing_recorded :: "mock node" where
  "missing_recorded = failure_recorded (demo_host False False) demo_desired 1 (app_error_text nft_missing) asked"

lemma missing_world: "nd_world missing_recorded = demo_backend"
  using record_total [of "demo_host False False" demo_desired 1 "app_error_text nft_missing" asked]
  by (auto dest!: record_failure_frame simp: missing_recorded_def asked_def demo_node_def)

lemma demo_reconcile_missing: "reconcile (demo_host False False) demo_node = (missing_recorded, Inl nft_missing)"
proof -
  have "\<not> ow_nft_binary (demo_host False False) (nd_world asked)" by (simp add: demo_host_def)
  moreover have "h_revision (host demo_policy) = 1" by (simp add: demo_policy_def)
  ultimately show ?thesis
    unfolding reconcile_def policy_read_def db_read_def world_read_def Let_def
    by (simp add: chain_def asked_host demo_asked asked_tables record_total missing_recorded_def)
qed

lemma demo_web: "the_vm ''web'' demo_backend = (demo_backend, Inr \<lparr>m_info = demo_info, m_image = BlankImage, m_cloud_init = None,
     m_stats = no_stats, m_snapshots = [], m_vnc_port = 5901, m_network = True\<rparr>)"
  by code_simp

lemma demo_forced: "hv_get_vm demo_hv ''web'' demo_backend = (demo_backend, Inr demo_info)"
   "hv_power demo_hv ''web'' PowerForceOff demo_backend = (demo_backend\<lparr>mk_vms := map (map_prod id (set_power PsShutOff)) (mk_vms demo_backend)\<rparr>, Inr (demo_info\<lparr>i_state := PsShutOff\<rparr>))"
proof -
  note t = demo_web
  show "hv_get_vm demo_hv ''web'' demo_backend = (demo_backend, Inr demo_info)"
    by (simp add: demo_hv_def mock_hypervisor_def mock_get_vm_def chain_def t)
  show "hv_power demo_hv ''web'' PowerForceOff demo_backend = (demo_backend\<lparr>mk_vms := map (map_prod id (set_power PsShutOff)) (mk_vms demo_backend)\<rparr>, Inr (demo_info\<lparr>i_state := PsShutOff\<rparr>))"
    by (simp add: demo_hv_def mock_hypervisor_def mock_power_def with_vm_mut_def chain_def t next_power_def set_power_def action_defs) (simp add: demo_backend_def set_power_def)
qed

lemma missing_ends: "\<exists>t. reconcile_vm_fail_closed (demo_host False False) (sample_vm ''v1'' ''web'') demo_node = (t, Inl (kept_stopped nft_missing))"
proof -
  obtain t where "contain_vm_after_policy_failure (demo_host False False) (sample_vm ''v1'' ''web'') missing_recorded = (t, Inr True)"
    by (simp add: contain_vm_after_policy_failure_def chain_def outcome_def ask_active_def ask_power_def outside_call_def with_error_def demo_host_def
      missing_world demo_forced demo_info_def ps_active_def map_err_def)
  then show ?thesis unfolding reconcile_vm_fail_closed_def
    by (intro exI [of _ t]) (simp add: chain_def vm_policy_enabled_def demo_enabled outcome_def demo_reconcile_missing)
qed

lemma unprotected_vm_ends_off_witness:
  "\<exists>t e. reconcile_vm_fail_closed (demo_host False False) (sample_vm ''v1'' ''web'') demo_node = (t, Inl e)
     \<and> (gone_or_off demo_hv ''web'' (nd_world t) \<or> (\<exists>m. e = not_contained m)) \<and> \<not> gone_or_off demo_hv ''web'' (nd_world demo_node)"
proof -
  obtain t where t: "reconcile_vm_fail_closed (demo_host False False) (sample_vm ''v1'' ''web'') demo_node = (t, Inl (kept_stopped nft_missing))"
    using missing_ends by blast
  have h: "ow_hv (demo_host False False) = demo_hv" by (simp add: demo_host_def)
  have "\<not> gone_or_off demo_hv ''web'' (nd_world demo_node)"
    by (simp add: gone_or_off_def demo_node_def demo_forced demo_info_def ps_active_def)
  then show ?thesis
    using t unprotected_vm_ends_off [OF _ _ t] demo_hv_contract demo_enabled by (auto simp: h)
qed

lemma sweep_leaves_none_running_witness:
  "\<exists>t. fail_closed_after_reconcile_failure (demo_host False False) demo_node = (t, Inr 1)
     \<and> gone_or_off demo_hv ''web'' (nd_world t)"
proof -
  have h: "ow_hv (demo_host False False) = demo_hv" by (simp add: demo_host_def)
  have l: "list_vms (nd_db demo_node) = [sample_vm ''v1'' ''web'']" "sample_vm ''v1'' ''web'' \<in> set (vms (nd_db demo_node))"
    "nd_world demo_node = demo_backend"
    by (simp_all add: demo_node_def list_vms_def)
  obtain t where c: "contain_vm_after_policy_failure (demo_host False False) (sample_vm ''v1'' ''web'') demo_node = (t, Inr True)"
    by (simp add: contain_vm_after_policy_failure_def chain_def outcome_def ask_active_def ask_power_def outside_call_def with_error_def demo_host_def
      l demo_forced demo_info_def ps_active_def map_err_def)
  have s: "fail_closed_after_reconcile_failure (demo_host False False) demo_node = (t, Inr 1)"
    using c by (simp add: fail_closed_after_reconcile_failure_def chain_def db_read_def l vm_policy_enabled_def demo_enabled outcome_def)
  have e: "stays_enabled (demo_host False False) (v_id (sample_vm ''v1'' ''web''))" by (simp add: stays_enabled_def demo_host_def)
  show ?thesis
    using s sweep_leaves_none_running [OF _ e s] demo_hv_contract demo_enabled l by (simp add: h)
qed

lemma demo_rules: "render_ruleset lib \<lparr>gs_ownership = False, gs_bcp38 = False, gs_subnets = []\<rparr> demo_desired True = Inr delete_table_text"
  "trim delete_table_text \<noteq> []"
  by (simp_all add: render_ruleset_def demo_desired_def policy_active_def guard_active_def sample_vm_def) code_simp

lemma demo_switches: "h_guard (host demo_policy) = False" "h_bcp38 (host demo_policy) = False" "h_revision (host demo_policy) = 1"
  by (simp_all add: demo_policy_def)

definition listed :: "mock node" where
  "listed = asked\<lparr>nd_log := (CallNftList (Inr True), moment_of asked) # nd_log asked\<rparr>"

definition answered :: "bool \<Rightarrow> mock node" where
  "answered ok = listed\<lparr>nd_log := (CallNftApply delete_table_text ok, moment_of listed) # nd_log listed\<rparr>"

lemma demo_listed: "ask_table (demo_host True b) asked = (listed, Inr True)"
  by (simp add: ask_table_def outside_call_def demo_host_def asked_def listed_def demo_node_def)

lemma demo_answered: "apply_script (demo_host True b) delete_table_text listed
    = (answered b, if b then Inr () else Inl (Conflict ''refused''))"
  by (simp add: apply_script_def outside_call_def demo_host_def asked_def listed_def answered_def demo_node_def)

lemma demo_reconcile: "reconcile (demo_host True b) demo_node
   = install_rules (demo_host True b) \<lparr>gs_ownership = False, gs_bcp38 = False, gs_subnets = []\<rparr> (host demo_policy) demo_desired asked"
proof -
  have "ow_nft_binary (demo_host True b) (nd_world asked)" by (simp add: demo_host_def)
  then show ?thesis
    unfolding reconcile_def policy_read_def db_read_def world_read_def Let_def
    by (simp add: chain_def asked_host demo_asked asked_tables demo_switches)
qed

lemma demo_reconcile_refused: "\<exists>t. reconcile (demo_host True False) demo_node = (t, Inl (Conflict ''refused''))
    \<and> nd_calls t = nd_calls (answered False)"
  using record_failure_frame [OF record_total, of "demo_host True False" demo_desired 1 "app_error_text (Conflict ''refused'')" "answered False"]
  unfolding demo_reconcile install_rules_def or_record_def chain_outcome
  by (simp add: chain_def outcome_def demo_listed demo_rules demo_switches when_do_def demo_answered record_total)

lemma demo_mark: "\<exists>t. mark_profile (demo_host True True) None (hd demo_desired) (answered True) = (t, Inr ())"
proof (cases "mark_profile (demo_host True True) None (hd demo_desired) (answered True)")
  case (Pair t r)
  have "vm_network_security (nd_policy (answered True)) (v_id (vp_vm (hd demo_desired))) = Some (vp_profile (hd demo_desired))"
    by (simp add: answered_def listed_def asked_def demo_node_def demo_policy_def demo_desired_def vm_network_security_def select_one_def new_profile_def)
  moreover have "int (w_revision (vp_profile (hd demo_desired))) \<le> i64_max" by (simp add: demo_desired_def i64_max_def)
  ultimately show ?thesis using Pair mark_profile_refused [of "demo_host True True" None "hd demo_desired" "answered True" t]
    by (cases r) auto
qed

lemma demo_reconcile_accepted: "\<exists>t x. reconcile (demo_host True True) demo_node = (t, Inr x)"
proof -
  have v: "demo_desired = [hd demo_desired]" by (simp add: demo_desired_def)
  obtain t where m: "mark_profile (demo_host True True) None (hd demo_desired) (answered True) = (t, Inr ())"
    using demo_mark by blast
  have t: "each_do (mark_profile (demo_host True True) None) demo_desired (answered True) = (t, Inr ())"
    by (subst v) (simp add: chain_def m)
  have h: "host (nd_policy t) = host demo_policy"
    using marks_frame [OF t] by (simp add: answered_def listed_def asked_def demo_node_def)
  have "\<exists>u. mark_host (demo_host True True) (Suc 0) None t = (u, Inr ())"
    by (simp add: mark_host_def chain_def policy_do_def mark_hypervisor_network_security_applied_def h demo_switches
      revision_fits_def i64_max_def and_then_def require_def Let_def)
  then show ?thesis
    unfolding demo_reconcile install_rules_def or_record_def chain_outcome
    by (auto simp: chain_def outcome_def demo_listed demo_rules demo_switches when_do_def demo_answered t)
qed

lemma demo_binary: "ow_nft_binary (demo_host True b) (nd_world asked)"
  by (simp add: demo_host_def)

lemma reconciled_means_applied_witness:
  "\<exists>t x. reconcile (demo_host True True) demo_node = (t, Inr x) \<and> applied_at (hd demo_desired) (nd_policy t)
    \<and> h_applied_revision (host (nd_policy t)) = Some 1"
proof -
  obtain t x where t: "reconcile (demo_host True True) demo_node = (t, Inr x)" using demo_reconcile_accepted by blast
  have "hd demo_desired \<in> set demo_desired" by (simp add: demo_desired_def)
  then show ?thesis
    using t reconciled_means_applied [OF demo_asked demo_binary t] asked_host(1) by (auto simp: asked_tables demo_switches)
qed

lemma refused_rules_recorded_witness:
  "\<exists>t. reconcile (demo_host True False) demo_node = (t, Inl (Conflict ''refused''))
     \<and> failed_at (app_error_text (Conflict ''refused'')) (hd demo_desired) (nd_policy t)"
proof -
  obtain t where t: "reconcile (demo_host True False) demo_node = (t, Inl (Conflict ''refused''))"
    "nd_calls t = nd_calls (answered False)" using demo_reconcile_refused by blast
  have "\<forall>v \<in> set demo_desired. int (w_revision (vp_profile v)) \<le> i64_max" by (simp add: demo_desired_def i64_max_def)
  moreover have "hd demo_desired \<in> set demo_desired" by (simp add: demo_desired_def)
  moreover have "nd_calls t = CallNftApply delete_table_text False # nd_calls listed" using t(2) by (simp add: answered_def)
  ultimately show ?thesis using t(1) refused_rules_recorded [OF demo_asked t(1), of delete_table_text]
    by (auto simp: asked_tables)
qed

end
