(* ===== verification/Routed_Network.thy ===== *)
theory Routed_Network
  imports Panel_World Firewall_Reconcile
begin

text \<open>
  Routed networking of a VM (\<open>src/services/routed_network.rs\<close>): the choice of a link-local
  transit \<open>/30\<close> and the plan stored in the metadata, its reading back, and the commands that
  bring the host in line with it. The runs of \<open>ip\<close>, the files under \<open>/sys/class/net\<close> and
  \<open>/proc/sys\<close> are calls to the outside; the values of the configuration are \<open>route_config\<close>.
\<close>

section \<open>Names and numbers\<close>

definition link_name_char :: "char \<Rightarrow> bool" where
  "link_name_char c \<longleftrightarrow> is_ascii_alnum c \<or> c \<in> {CHR ''_'', CHR ''-'', CHR ''.''}"

definition validate_interface_name :: "string \<Rightarrow> app_error + unit" where
  "validate_interface_name name =
     require (\<not> (name = [] \<or> 15 < length name \<or> starts_with name ''-'' \<or> \<not> list_all link_name_char name))
       (Validation ''network interface names must contain 1-15 safe ASCII characters'')"

definition compact_mac :: "string \<Rightarrow> app_error + string" where
  "compact_mac mac =
     and_then (map_err app_error_of_hv (validate_mac_address mac)) (\<lambda>_.
     Inr (ascii_lower (filter (\<lambda>c. c \<noteq> CHR '':'') mac)))"

text \<open>\<open>u16::from_str_radix(_, 16)\<close> of four hexadecimal digits.\<close>

definition hex_value :: "string \<Rightarrow> nat option" where
  "hex_value s = (if s = [] \<or> \<not> list_all is_ascii_hex s then None
     else Some (foldl (\<lambda>n c. 16 * n + (case to_digit 16 c of Some d \<Rightarrow> nat d | None \<Rightarrow> 0)) 0 s))"

definition link_local :: "nat \<Rightarrow> 32 word" where
  "link_local h = word_of_octets 169 254 (int (h div 256 mod 256)) (int (h mod 256))"

definition subnets :: nat where
  "subnets = 16383"

text \<open>The \<open>/30\<close> of a probe: \<open>seed.wrapping_add(probe)\<close> of \<open>u16\<close> values.\<close>

definition probed_base :: "nat \<Rightarrow> nat \<Rightarrow> nat" where
  "probed_base seed probe = (1 + (seed + probe) mod 2 ^ 16 mod subnets) * 4"

fun probe_transit :: "nat \<Rightarrow> nat set \<Rightarrow> nat \<Rightarrow> nat \<Rightarrow> nat option" where
  "probe_transit seed used probe 0 = None"
| "probe_transit seed used probe (Suc n) =
     (if probed_base seed probe \<in> used then probe_transit seed used (probe + 1) n
      else Some (probed_base seed probe))"

definition allocate_transit :: "nat \<Rightarrow> nat set \<Rightarrow> app_error + (32 word \<times> 32 word)" where
  "allocate_transit seed used =
     and_then (ok_or (probe_transit seed used 0 subnets)
       (Conflict ''no free link-local /30 remains for routed VM networking'')) (\<lambda>base.
     Inr (link_local (base + 1), link_local (base + 2)))"

text \<open>\<open>str::lines\<close>.\<close>

definition lines_of :: "string \<Rightarrow> string list" where
  "lines_of s = (let ls = split_on (CHR 0x0A) s in
     map (\<lambda>l. if ends_with l [CHR 0x0D] then butlast l else l) (if last ls = [] then butlast ls else ls))"

definition link_local_base :: "string \<Rightarrow> nat option" where
  "link_local_base field =
     (case split_once (CHR ''/'') field of
       None \<Rightarrow> None
     | Some (address, len) \<Rightarrow>
         if len \<noteq> ''30'' then None
         else case parse_ip address of
             Some (IpV4 w) \<Rightarrow> if ipv4_is_link_local w then Some (unat w mod 2 ^ 16 div 4 * 4) else None
           | _ \<Rightarrow> None)"

section \<open>The stored plan\<close>

record routed_plan =
  rp_bridge :: string
  rp_tap :: string
  rp_guest :: "32 word"
  rp_gateway :: "32 word"
  rp_prefix :: nat
  rp_public :: string
  rp_mtu :: nat

text \<open>\<open>Value::as_u64\<close> of a number kept as its literal.\<close>

definition json_u64 :: "json \<Rightarrow> nat option" where
  "json_u64 j = (case j of
     JNum t \<Rightarrow> if t \<noteq> [] \<and> list_all is_ascii_digit t
       then let n = foldl (\<lambda>n c. 10 * n + nat (code_of c - 48)) 0 t in if n < 2 ^ 64 then Some n else None
       else None
   | _ \<Rightarrow> None)"

definition plan_text :: "json \<Rightarrow> string \<Rightarrow> app_error + string" where
  "plan_text value key = ok_or (get_str key value) (Configuration (''VM routed_network.'' @ key @ '' is missing''))"

text \<open>A number of the plan: what is not one, or does not fit, counts as the default.\<close>

definition plan_number :: "json \<Rightarrow> string \<Rightarrow> nat \<Rightarrow> nat \<Rightarrow> nat" where
  "plan_number value key limit fallback =
     (case Option.bind (json_get key value) json_u64 of
       Some n \<Rightarrow> if n < limit then n else fallback
     | None \<Rightarrow> fallback)"

definition transit_ok :: "32 word \<Rightarrow> 32 word \<Rightarrow> bool" where
  "transit_ok guest gateway \<longleftrightarrow> ipv4_is_link_local guest \<and> ipv4_is_link_local gateway
     \<and> unat guest div 4 = unat gateway div 4 \<and> unat guest = unat gateway + 1"

definition routed_plan_of :: "vm_row \<Rightarrow> json \<Rightarrow> app_error + routed_plan" where
  "routed_plan_of v value =
     and_then (plan_text value ''bridge'') (\<lambda>bridge.
     and_then (plan_text value ''tap'') (\<lambda>tap.
     and_then (plan_text value ''public_interface'') (\<lambda>public.
     and_then (validate_interface_name bridge) (\<lambda>_.
     and_then (validate_interface_name tap) (\<lambda>_.
     and_then (validate_interface_name public) (\<lambda>_.
     and_then (require (v_bridge v = Some bridge \<and> v_tap v = Some tap)
       (Conflict ''VM routed-network metadata does not match its stored interfaces'')) (\<lambda>_.
     and_then (plan_text value ''guest_address'') (\<lambda>g.
     and_then (ok_or (parse_ipv4 g) (Configuration ''VM routed guest address is invalid'')) (\<lambda>guest.
     and_then (plan_text value ''gateway'') (\<lambda>w.
     and_then (ok_or (parse_ipv4 w) (Configuration ''VM routed gateway is invalid'')) (\<lambda>gateway.
     let len = plan_number value ''prefix_length'' (2 ^ 8) 30; mtu = plan_number value ''mtu'' (2 ^ 32) 1500 in
     and_then (require (len = 30 \<and> transit_ok guest gateway \<and> 576 \<le> mtu \<and> mtu \<le> 9000)
       (Configuration ''VM routed link-local transit metadata is invalid'')) (\<lambda>_.
     Inr \<lparr>rp_bridge = bridge, rp_tap = tap, rp_guest = guest, rp_gateway = gateway, rp_prefix = len,
          rp_public = public, rp_mtu = mtu\<rparr>))))))))))))"

definition route_plan :: "vm_row \<Rightarrow> app_error + routed_plan option" where
  "route_plan v = (case json_get ''routed_network'' (v_metadata v) of
     None \<Rightarrow> Inr None
   | Some value \<Rightarrow>
       if get_str ''managed_by'' value \<noteq> Some ''vexa-vm'' then Inr None
       else and_then (routed_plan_of v value) (\<lambda>p. Inr (Some p)))"

section \<open>A new VM\<close>

record route_config =
  rc_mock :: bool
  rc_bridge :: string
  rc_public :: "string option"
  rc_primary :: "string option"

definition ask_ip :: "('w, 'n) outside \<Rightarrow> string list \<Rightarrow> ('w, app_error, string) step" where
  "ask_ip ow args = outside_call ow (\<lambda>r. CallIp args (is_ok r)) (ow_run_ip ow args)"

definition interface_exists :: "('w, 'n) outside \<Rightarrow> string \<Rightarrow> ('w, 'e, bool) step" where
  "interface_exists ow name = world_read (ow_interface ow name)"

definition pool_usable :: "ip_row \<Rightarrow> db \<Rightarrow> app_error + unit" where
  "pool_usable a d = (case a_pool a of
     None \<Rightarrow> Inr ()
   | Some i \<Rightarrow>
       and_then (ok_or (query_pool d i) (NotFound ''IP pool'')) (\<lambda>p.
       and_then (require (p_enabled p) (Conflict (''IP pool '' @ quote1 @ p_name p @ quote1 @ '' is disabled''))) (\<lambda>_.
       case p_bridge p of
         None \<Rightarrow> Inr ()
       | Some b \<Rightarrow> require (b = []) (Validation (''IP pool '' @ quote1 @ p_name p @ quote1 @ '' requires bridge ''
           @ quote1 @ b @ quote1 @ '' but that interface does not exist'')))))"

definition routable_address :: "string \<Rightarrow> ip_row \<Rightarrow> db \<Rightarrow> app_error + unit" where
  "routable_address bridge a d =
     and_then (require (a_family a = V4 \<and> a_scope a = PublicScope \<and> a_prefix a = 32)
       (Validation (''configured bridge '' @ quote1 @ bridge @ quote1 @ '' does not exist and address ''
         @ a_address a @ '' is not a routed public IPv4 /32''))) (\<lambda>_. pool_usable a d)"

definition selected_address :: "db \<Rightarrow> string \<Rightarrow> app_error + ip_row" where
  "selected_address d i = ok_or (query_address d i) (NotFound (''IP address '' @ i))"

definition check_selected :: "string \<Rightarrow> string list \<Rightarrow> db \<Rightarrow> app_error + unit" where
  "check_selected bridge selected d =
     and_then (map_all (selected_address d) selected) (\<lambda>rows.
     and_then (require (rows \<noteq> []) (Validation (''configured bridge '' @ quote1 @ bridge @ quote1
       @ '' does not exist; select a routed public IPv4 /32 or configure an existing Linux bridge''))) (\<lambda>_.
     and_then (map_all (\<lambda>a. routable_address bridge a d) rows) (\<lambda>_. Inr ())))"

definition transit_metadata :: "string \<Rightarrow> string \<Rightarrow> 32 word \<Rightarrow> 32 word \<Rightarrow> string \<Rightarrow> json" where
  "transit_metadata bridge tap guest gateway public = JObj [
     (''bridge'', JStr bridge), (''gateway'', JStr (show_ipv4 gateway)), (''guest_address'', JStr (show_ipv4 guest)),
     (''managed_by'', JStr ''vexa-vm''), (''mtu'', JNum ''1500''), (''prefix_length'', JNum ''30''),
     (''public_interface'', JStr public), (''tap'', JStr tap), (''version'', JNum ''1'')]"

text \<open>The last part, once the names are known to be free.\<close>

definition with_route ::
  "new_vm \<Rightarrow> string \<Rightarrow> string \<Rightarrow> string \<Rightarrow> string \<Rightarrow> nat set \<Rightarrow> app_error + new_vm" where
  "with_route spec bridge tap public mac used =
     and_then (ok_or (hex_value (drop (length mac - 4) mac)) (Validation ''MAC address is invalid'')) (\<lambda>seed.
     and_then (allocate_transit seed used) (\<lambda>(gateway, guest).
     case o_metadata spec of
       JObj m \<Rightarrow> Inr (spec\<lparr>o_metadata := JObj (object_insert ''routed_network''
           (transit_metadata bridge tap guest gateway public) m), o_bridge := Some bridge, o_tap := Some tap\<rparr>)
     | _ \<Rightarrow> Inl (Validation ''VM metadata must be a JSON object'')))"

text \<open>
  \<open>configure_new_vm\<close>: the specification it leaves and whether the VM is routed. The checks of
  the selected addresses read the database with no call between them.
\<close>

definition configure_new_vm ::
  "('w, 'n) outside \<Rightarrow> route_config \<Rightarrow> new_vm \<Rightarrow> string list \<Rightarrow> ('w, app_error, new_vm \<times> bool) step" where
  "configure_new_vm ow c spec selected =
     (let requested = (case o_bridge spec of Some b \<Rightarrow> b | None \<Rightarrow> rc_bridge c);
          name_taken = Conflict ''the deterministic routed interface name is already in use'' in
      if rc_mock c then ret (spec, False)
      else
        chain (lifted (validate_interface_name requested)) (\<lambda>_.
        chain (interface_exists ow requested) (\<lambda>present.
        if present then ret (spec, False)
        else
          chain (db_read (check_selected requested selected)) (\<lambda>checked.
          chain (lifted checked) (\<lambda>_.
          chain (lifted (ok_or (case rc_public c of Some i \<Rightarrow> Some i | None \<Rightarrow> rc_primary c)
            (Configuration ''could not detect the public interface''))) (\<lambda>public.
          chain (lifted (validate_interface_name public)) (\<lambda>_.
          chain (interface_exists ow public) (\<lambda>up.
          chain (lifted (require up (Configuration (''public interface '' @ quote1 @ public @ quote1 @ '' does not exist'')))) (\<lambda>_.
          chain (lifted (ok_or (o_mac spec) (Validation ''a MAC address is required before routed networking''))) (\<lambda>m.
          chain (lifted (compact_mac m)) (\<lambda>mac.
          let suffix = drop (length mac - 8) mac; bridge = ''kbr-vx'' @ suffix; tap = ''tap-vx'' @ suffix in
          chain (lifted (validate_interface_name bridge)) (\<lambda>_.
          chain (lifted (validate_interface_name tap)) (\<lambda>_.
          chain (interface_exists ow bridge) (\<lambda>b.
          chain (interface_exists ow tap) (\<lambda>t.
          chain (lifted (require (\<not> b \<and> \<not> t) name_taken)) (\<lambda>_.
          chain (ask_ip ow [''-4'', ''-o'', ''address'', ''show'']) (\<lambda>output.
          let used = set (List.map_filter link_local_base (split_whitespace output)) in
          chain (lifted (with_route spec bridge tap public mac used)) (\<lambda>s. ret (s, True)))))))))))))))))))"

section \<open>Bringing the host in line\<close>

definition ensure_bridge :: "('w, 'n) outside \<Rightarrow> routed_plan \<Rightarrow> ('w, app_error, unit) step" where
  "ensure_bridge ow p =
     chain (interface_exists ow (rp_bridge p)) (\<lambda>present.
     if \<not> present then chain (ask_ip ow [''link'', ''add'', ''name'', rp_bridge p, ''type'', ''bridge'']) (\<lambda>_. ret ())
     else chain (world_read (ow_is_bridge ow (rp_bridge p))) (\<lambda>bridge.
       lifted (require bridge (Conflict (''interface '' @ quote1 @ rp_bridge p @ quote1
         @ '' exists but is not a Linux bridge'')))))"

definition set_up :: "('w, 'n) outside \<Rightarrow> string \<Rightarrow> nat \<Rightarrow> ('w, app_error, unit) step" where
  "set_up ow device mtu =
     chain (ask_ip ow [''link'', ''set'', ''dev'', device, ''mtu'', show_nat mtu, ''up'']) (\<lambda>_. ret ())"

definition ensure_bridge_address :: "('w, 'n) outside \<Rightarrow> routed_plan \<Rightarrow> ('w, app_error, unit) step" where
  "ensure_bridge_address ow p =
     chain (ask_ip ow [''-4'', ''-o'', ''address'', ''show'', ''dev'', rp_bridge p]) (\<lambda>output.
     let expected = show_ipv4 (rp_gateway p) @ ''/'' @ show_nat (rp_prefix p);
         addresses = filter (\<lambda>f. CHR ''/'' \<in> set f) (split_whitespace output) in
     if expected \<in> set addresses then ret ()
     else if addresses \<noteq> [] then raise (Conflict (''bridge '' @ quote1 @ rp_bridge p @ quote1
       @ '' already has an unexpected address''))
     else chain (ask_ip ow [''address'', ''add'', expected, ''dev'', rp_bridge p]) (\<lambda>_. ret ()))"

definition persistent_tap :: "string \<Rightarrow> string \<Rightarrow> bool" where
  "persistent_tap tap line \<longleftrightarrow> (let fields = split_whitespace line in
     fields \<noteq> [] \<and> hd fields = tap @ '':'' \<and> ''tap'' \<in> set fields \<and> ''persist'' \<in> set fields)"

definition ensure_tap :: "('w, 'n) outside \<Rightarrow> routed_plan \<Rightarrow> ('w, app_error, unit) step" where
  "ensure_tap ow p =
     chain (interface_exists ow (rp_tap p)) (\<lambda>present.
     if \<not> present then
       chain (ask_ip ow [''tuntap'', ''add'', ''dev'', rp_tap p, ''mode'', ''tap'', ''user'', ''libvirt-qemu'']) (\<lambda>_. ret ())
     else chain (ask_ip ow [''tuntap'', ''show'']) (\<lambda>output.
       lifted (require (\<exists>l \<in> set (lines_of output). persistent_tap (rp_tap p) l)
         (Conflict (''interface '' @ quote1 @ rp_tap p @ quote1 @ '' exists but is not a persistent TAP'')))))"

definition ensure_tap_master :: "('w, 'n) outside \<Rightarrow> string \<Rightarrow> string \<Rightarrow> ('w, app_error, unit) step" where
  "ensure_tap_master ow tap bridge =
     chain (world_read (ow_tap_master ow tap)) (\<lambda>r.
     chain (lifted r) (\<lambda>master. case master of
       Some m \<Rightarrow> if m = bridge then ret ()
         else raise (Conflict (''TAP '' @ quote1 @ tap @ quote1 @ '' is attached to a different bridge''))
     | None \<Rightarrow> chain (ask_ip ow [''link'', ''set'', ''dev'', tap, ''master'', bridge]) (\<lambda>_. ret ())))"

fun adjacent :: "'a \<Rightarrow> 'a \<Rightarrow> 'a list \<Rightarrow> bool" where
  "adjacent x y (a # b # cs) \<longleftrightarrow> (a = x \<and> b = y) \<or> adjacent x y (b # cs)"
| "adjacent x y _ \<longleftrightarrow> False"

definition route_line_matches :: "string \<Rightarrow> string \<Rightarrow> string \<Rightarrow> string \<Rightarrow> bool" where
  "route_line_matches line address destination bridge \<longleftrightarrow> (let fields = split_whitespace line in
     fields \<noteq> [] \<and> (hd fields = address \<or> hd fields = destination) \<and> adjacent ''dev'' bridge fields)"

definition ensure_public_route :: "('w, 'n) outside \<Rightarrow> string \<Rightarrow> string \<Rightarrow> ('w, app_error, unit) step" where
  "ensure_public_route ow address bridge =
     chain (lifted (ok_or (parse_ipv4 address) (Validation ''routed public IPv4 address is invalid''))) (\<lambda>a.
     let destination = show_ipv4 a @ ''/32'' in
     chain (ask_ip ow [''-4'', ''-o'', ''route'', ''show'', destination]) (\<lambda>output.
     if trim output = [] then chain (ask_ip ow [''route'', ''add'', destination, ''dev'', bridge]) (\<lambda>_. ret ())
     else if \<forall>l \<in> set (lines_of output). route_line_matches l (show_ipv4 a) destination bridge then ret ()
     else raise (Conflict (''route '' @ destination @ '' is already owned by another interface''))))"

definition reconcile_routed_vm :: "('w, 'n) outside \<Rightarrow> vm_row \<Rightarrow> ('w, app_error, bool) step" where
  "reconcile_routed_vm ow v =
     chain (lifted (route_plan v)) (\<lambda>plan. case plan of None \<Rightarrow> ret False | Some p \<Rightarrow>
       chain (interface_exists ow (rp_public p)) (\<lambda>up.
       chain (lifted (require up (Conflict (''routed public interface '' @ quote1 @ rp_public p @ quote1
         @ '' is unavailable'')))) (\<lambda>_.
       chain (world_read (ow_ip_forward ow)) (\<lambda>forward.
       chain (lifted (require (trim forward = ''1'') (Conflict ''IPv4 forwarding is disabled on the hypervisor''))) (\<lambda>_.
       chain (ensure_bridge ow p) (\<lambda>_.
       chain (set_up ow (rp_bridge p) (rp_mtu p)) (\<lambda>_.
       chain (ensure_bridge_address ow p) (\<lambda>_.
       chain (ensure_tap ow p) (\<lambda>_.
       chain (ensure_tap_master ow (rp_tap p) (rp_bridge p)) (\<lambda>_.
       chain (set_up ow (rp_tap p) (rp_mtu p)) (\<lambda>_.
       chain (db_read (vm_ip_addresses (v_id v))) (\<lambda>addresses.
       chain (each_do (\<lambda>a. ensure_public_route ow (a_address a) (rp_bridge p))
         (filter (\<lambda>a. a_family a = V4 \<and> a_scope a = PublicScope) addresses)) (\<lambda>_.
       ret True)))))))))))))"

definition cleanup_routed_vm :: "('w, 'n) outside \<Rightarrow> vm_row \<Rightarrow> ('w, app_error, bool) step" where
  "cleanup_routed_vm ow v =
     chain (lifted (route_plan v)) (\<lambda>plan. case plan of None \<Rightarrow> ret False | Some p \<Rightarrow>
       chain (interface_exists ow (rp_tap p)) (\<lambda>t.
       chain (when_do t (chain (ask_ip ow [''tuntap'', ''del'', ''dev'', rp_tap p, ''mode'', ''tap'']) (\<lambda>_. ret ()))) (\<lambda>_.
       chain (interface_exists ow (rp_bridge p)) (\<lambda>b.
       chain (when_do b (chain (ask_ip ow [''link'', ''del'', ''dev'', rp_bridge p, ''type'', ''bridge'']) (\<lambda>_. ret ()))) (\<lambda>_.
       ret True)))))"

text \<open>One turn of \<open>routed_network_loop\<close> (\<open>src/services/background.rs\<close>).\<close>

definition routed_network_turn :: "('w, 'n) outside \<Rightarrow> ('w, 'e, unit) step" where
  "routed_network_turn ow =
     chain (db_read list_vms) (\<lambda>vs. each_do (\<lambda>v. ignored (reconcile_routed_vm ow v)) vs)"

end
