(* ===== verification/Routed_Safety.thy ===== *)
theory Routed_Safety
  imports Routed_Network Fail_Closed
begin

text \<open>
  Routed networking: the transit network chosen for a new VM is free and is one the later
  reconciliation accepts, the search for it ends with one whenever its seed does not wrap around,
  and the commands of a reconciliation name devices of that VM only.
\<close>

section \<open>Link-local addresses\<close>

lemma uint_link_local: "h < 65536 \<Longrightarrow> uint (link_local h) = 2851995648 + int h"
proof -
  assume h: "h < 65536"
  have "(h div 256) mod 256 = h div 256" using h by simp
  moreover have "int h = int (h div 256) * 256 + int (h mod 256)"
    by (metis div_mult_mod_eq of_nat_add of_nat_mult of_nat_numeral)
  ultimately have "((169 * 256 + 254) * 256 + int (h div 256 mod 256)) * 256 + int (h mod 256) = 2851995648 + int h"
    by (simp only:) (simp add: algebra_simps)
  then have "link_local h = word_of_int (2851995648 + int h)" unfolding link_local_def word_of_octets_def by (rule arg_cong)
  then show ?thesis using h by (simp only: uint_word_of_int) simp
qed

lemma unat_link_local: "h < 65536 \<Longrightarrow> unat (link_local h) = 2851995648 + h"
  using uint_link_local [of h] by (simp flip: nat_uint_eq)

lemma link_local_is: "h < 65536 \<Longrightarrow> ipv4_is_link_local (link_local h)"
proof -
  assume h: "h < 65536"
  have "(2851995648 + int h) div 16777216 = 169" by (rule int_div_pos_eq [where r = "16646144 + int h"]) (use h in simp_all)
  moreover have "(2851995648 + int h) div 65536 = 43518" by (rule int_div_pos_eq [where r = "int h"]) (use h in simp_all)
  ultimately show ?thesis using h by (simp add: ipv4_is_link_local_def octet_def uint_link_local)
qed

lemma transit_of_base:
  assumes "k \<le> 16383"
  shows "transit_ok (link_local (k * 4 + 2)) (link_local (k * 4 + 1))"
  using assms by (simp add: transit_ok_def link_local_is unat_link_local)

section \<open>The search\<close>

lemma probe_transit_find:
  "probe_transit seed used probe n = find (\<lambda>b. b \<notin> used) (map (probed_base seed) [probe ..< probe + n])"
proof (induction n arbitrary: probe)
  case (Suc n)
  have "[probe ..< probe + Suc n] = probe # [probe + 1 ..< probe + 1 + n]" by (simp add: upt_conv_Cons del: upt_Suc)
  then show ?case using Suc.IH [of "probe + 1"] by simp
qed simp

lemma probe_found:
  assumes "probe_transit seed used probe n = Some base"
  obtains k where "base \<notin> used" "base = probed_base seed k"
  using assms by (auto simp: probe_transit_find find_Some_iff)

lemma probe_none: "probe_transit seed used probe n = None \<longleftrightarrow> (\<forall>k. probe \<le> k \<and> k < probe + n \<longrightarrow> probed_base seed k \<in> used)"
  by (auto simp: probe_transit_find find_None_iff)

lemma probe_reaches: "seed \<le> 49153 \<Longrightarrow> k < 16383 \<Longrightarrow> \<exists>p < subnets. probed_base seed p = (1 + k) * 4"
proof -
  assume s: "seed \<le> 49153" and k: "k < 16383"
  define q where "q = seed div 16383"
  have sq: "seed mod 16383 + 16383 * q = seed" by (simp add: q_def)
  define r where "r = seed mod 16383"
  have r: "r < 16383" "r + 16383 * q = seed" using sq by (simp_all add: r_def)
  show ?thesis
  proof (cases "r \<le> k")
    case True
    then have "seed + (k - r) = k + 16383 * q" using r by simp
    then have "(seed + (k - r)) mod 16383 = k" using k by simp
    then show ?thesis using True k s by (intro exI [of _ "k - r"]) (simp add: probed_base_def subnets_def)
  next
    case False
    then have "seed + (k + 16383 - r) = k + 16383 * (q + 1)" using r by simp
    then have "(seed + (k + 16383 - r)) mod 16383 = k" using k by (simp only: mod_mult_self2 mod_less)
    then show ?thesis using False r k s by (intro exI [of _ "k + 16383 - r"]) (simp add: probed_base_def subnets_def)
  qed
qed

lemma base_range: "\<exists>k. probed_base seed p = k * 4 \<and> 1 \<le> k \<and> k \<le> 16383"
  by (rule exI [of _ "1 + (seed + p) mod 2 ^ 16 mod subnets"]) (simp add: probed_base_def subnets_def less_Suc_eq_le [symmetric])

lemma allocated_transit:
  assumes "allocate_transit seed used = Inr (gateway, guest)"
  shows "\<exists>base. base \<notin> used \<and> base mod 4 = 0 \<and> 4 \<le> base \<and> base < 65536
    \<and> gateway = link_local (base + 1) \<and> guest = link_local (base + 2) \<and> transit_ok guest gateway"
proof -
  obtain base where b: "probe_transit seed used 0 subnets = Some base" "gateway = link_local (base + 1)"
    "guest = link_local (base + 2)"
    using assms by (auto simp: allocate_transit_def and_then_Inr)
  obtain p where p: "base \<notin> used" "base = probed_base seed p" using probe_found [OF b(1)] by blast
  obtain k where "base = k * 4" "1 \<le> k" "k \<le> 16383" using base_range [of seed p] p(2) by auto
  then show ?thesis using b p(1) transit_of_base [of k] by (intro exI [of _ base]) auto
qed

text \<open>
  The transit network of a new routed VM is free: the chosen base is a /30 of 169.254/16,
  none of those in use on the host, and the pair of addresses passes the check made before
  every reconciliation.
\<close>

theorem allocated_transit_free:
  assumes "allocate_transit seed used = Inr (gateway, guest)"
  shows "\<exists>base. base \<notin> used \<and> base mod 4 = 0 \<and> 4 \<le> base \<and> base < 65536
    \<and> gateway = link_local (base + 1) \<and> guest = link_local (base + 2) \<and> transit_ok guest gateway"
  by (rule allocated_transit [OF assms])

text \<open>
  The search is complete as long as its seed does not wrap: it gives up only when every /30
  is in use.
\<close>

theorem transit_search_complete:
  assumes "seed \<le> 49153" "allocate_transit seed used = Inl e" "base mod 4 = 0" "4 \<le> base" "base < 65536"
  shows "base \<in> used"
proof -
  obtain k where k: "base = (1 + k) * 4" "k < 16383" using assms(3-5) by (intro that [of "base div 4 - 1"]) auto
  obtain p where "p < subnets" "probed_base seed p = base" using probe_reaches [OF assms(1) k(2)] k(1) by blast
  moreover have "probe_transit seed used 0 subnets = None"
    using assms(2) by (auto simp: allocate_transit_def and_then_Inl)
  ultimately show ?thesis using probe_none [of seed used 0 subnets] by auto
qed

text \<open>
  A seed that wraps around loses networks: from 60000 the search gives up although a /30 is
  free, since the 16-bit sum skips the four residues after the wrap.
\<close>

theorem wrapped_seed_misses:
  "allocate_transit 60000 {b. b mod 4 = 0 \<and> b \<noteq> 4 * 10848} = Inl (Conflict ''no free link-local /30 remains for routed VM networking'')
   \<and> 4 * 10848 < (65536 :: nat)"
proof -
  have n: "x mod 16383 = x - 16383" if "16383 \<le> x" "x < 2 * 16383" for x :: nat
    using that by (simp add: le_mod_geq)
  have "probed_base 60000 k \<noteq> 4 * 10848" if "k < subnets" for k
  proof (cases "k < 5536")
    case True
    have "60000 + k = 10851 + k + 16383 * 3" by simp
    then have "(60000 + k) mod 16383 = (10851 + k) mod 16383" by (simp only: mod_mult_self2)
    moreover have "(10851 + k) mod 16383 \<noteq> 10847" using n [of "10851 + k"] True by (cases "10851 + k < 16383") auto
    moreover have "(60000 + k) mod 2 ^ 16 = 60000 + k" using True by simp
    ultimately show ?thesis unfolding probed_base_def subnets_def by simp
  next
    case False
    then have "60000 + k = k - 5536 + 2 ^ 16" by simp
    then have "(60000 + k) mod 2 ^ 16 = k - 5536" using that unfolding subnets_def by (simp only: mod_add_self2) simp
    then show ?thesis using that False unfolding probed_base_def subnets_def by simp
  qed
  moreover have "probed_base 60000 k mod 4 = 0" for k by (simp add: probed_base_def)
  ultimately have "probe_transit 60000 {b. b mod 4 = 0 \<and> b \<noteq> 4 * 10848} 0 subnets = None" by (simp add: probe_none)
  then show ?thesis by (simp add: allocate_transit_def)
qed

section \<open>What is configured is accepted\<close>

lemma transit_metadata_fields:
  "get_str ''managed_by'' (transit_metadata b t g w p) = Some ''vexa-vm''"
  "get_str ''bridge'' (transit_metadata b t g w p) = Some b" "get_str ''tap'' (transit_metadata b t g w p) = Some t"
  "get_str ''public_interface'' (transit_metadata b t g w p) = Some p"
  "get_str ''guest_address'' (transit_metadata b t g w p) = Some (show_ipv4 g)"
  "get_str ''gateway'' (transit_metadata b t g w p) = Some (show_ipv4 w)"
  by (simp_all add: get_str_def json_get_def transit_metadata_def json_str_def)

lemma transit_metadata_numbers:
  "plan_number (transit_metadata b t g w p) ''prefix_length'' (2 ^ 8) 30 = 30"
  "plan_number (transit_metadata b t g w p) ''mtu'' (2 ^ 32) 1500 = 1500"
proof -
  have "json_u64 (JNum ''30'') = Some 30" "json_u64 (JNum ''1500'') = Some 1500"
    by (simp_all add: json_u64_def is_ascii_digit_def code_of_def)
  then show "plan_number (transit_metadata b t g w p) ''prefix_length'' (2 ^ 8) 30 = 30"
    "plan_number (transit_metadata b t g w p) ''mtu'' (2 ^ 32) 1500 = 1500"
    by (simp_all add: plan_number_def json_get_def transit_metadata_def)
qed

lemma configured_plan:
  assumes "configure_new_vm ow c spec selected s = (t, Inr (spec', True))"
  shows "\<exists>p. route_plan (vm_of_spec i now spec' envelope) = Inr (Some p) \<and> o_bridge spec' = Some (rp_bridge p)
    \<and> o_tap spec' = Some (rp_tap p) \<and> transit_ok (rp_guest p) (rp_gateway p)
    \<and> \<not> ow_interface ow (rp_bridge p) (nd_world s) \<and> \<not> ow_interface ow (rp_tap p) (nd_world s)"
proof -
  obtain bridge tap public mac used where
    names: "validate_interface_name bridge = Inr ()" "validate_interface_name tap = Inr ()" "validate_interface_name public = Inr ()"
    and w: "with_route spec bridge tap public mac used = Inr spec'"
    and free: "\<not> ow_interface ow bridge (nd_world s)" "\<not> ow_interface ow tap (nd_world s)"
    using assms unfolding configure_new_vm_def
    by (auto simp: chain_Inr interface_exists_def world_read_def db_read_def Let_def split: if_splits)
  obtain seed gateway guest m where a: "allocate_transit seed used = Inr (gateway, guest)" "o_metadata spec = JObj m"
    and s': "spec' = spec\<lparr>o_metadata := JObj (object_insert ''routed_network''
        (transit_metadata bridge tap guest gateway public) m), o_bridge := Some bridge, o_tap := Some tap\<rparr>"
    using w by (cases "o_metadata spec") (auto simp: with_route_def and_then_Inr)
  have "transit_ok guest gateway" using allocated_transit [OF a(1)] by blast
  then have "route_plan (vm_of_spec i now spec' envelope) = Inr (Some \<lparr>rp_bridge = bridge, rp_tap = tap, rp_guest = guest,
      rp_gateway = gateway, rp_prefix = 30, rp_public = public, rp_mtu = 1500\<rparr>)"
    using names parse_ipv4_show
    by (simp add: route_plan_def vm_of_spec_def s' json_get_def map_of_object_insert transit_metadata_fields
      routed_plan_of_def plan_text_def transit_metadata_numbers Let_def del: power_numeral)
  then show ?thesis using s' free \<open>transit_ok guest gateway\<close> 
    by (intro exI [of _ "\<lparr>rp_bridge = bridge, rp_tap = tap, rp_guest = guest, rp_gateway = gateway, rp_prefix = 30,
      rp_public = public, rp_mtu = 1500\<rparr>"]) (simp add: s')
qed

text \<open>
  C39. What is configured is accepted: the plan of a VM created from the specification that the
  configuration left is read back from its metadata, with the devices and the transit network
  that were chosen.
\<close>

theorem configured_plan_reads_back:
  assumes "configure_new_vm ow c spec selected s = (t, Inr (spec', True))"
  shows "\<exists>p. route_plan (vm_of_spec i now spec' envelope) = Inr (Some p) \<and> o_bridge spec' = Some (rp_bridge p)
    \<and> o_tap spec' = Some (rp_tap p) \<and> transit_ok (rp_guest p) (rp_gateway p)
    \<and> \<not> ow_interface ow (rp_bridge p) (nd_world s) \<and> \<not> ow_interface ow (rp_tap p) (nd_world s)"
  by (rule configured_plan [OF assms])

section \<open>Commands name the devices of the VM\<close>

definition own_command :: "routed_plan \<Rightarrow> string list \<Rightarrow> bool" where
  "own_command p args \<longleftrightarrow> rp_bridge p \<in> set args \<or> rp_tap p \<in> set args \<or> ''show'' \<in> set args"

definition only_own :: "routed_plan \<Rightarrow> call list \<Rightarrow> 'w node \<Rightarrow> bool" where
  "only_own p l s \<longleftrightarrow> (\<exists>cs. nd_calls s = cs @ l \<and> (\<forall>c \<in> set cs. \<exists>args ok. c = CallIp args ok \<and> own_command p args))"

lemma only_own_ask [keeping]: "own_command p args \<Longrightarrow> keeps (only_own p l) (ask_ip ow args)"
  unfolding keeps_def ask_ip_def outside_call_def only_own_def
  by (auto split: prod.splits)

lemma only_own_reads [keeping]:
  "keeps (only_own p l) (interface_exists ow i)" "keeps (only_own p l) (world_read f)" "keeps (only_own p l) (db_read g)"
  by (simp_all add: keeps_def interface_exists_def world_read_def db_read_def)

lemma only_own_parts:
  "keeps (only_own p l) (ensure_bridge ow p)" "keeps (only_own p l) (set_up ow (rp_bridge p) n)"
  "keeps (only_own p l) (set_up ow (rp_tap p) n)" "keeps (only_own p l) (ensure_bridge_address ow p)"
  "keeps (only_own p l) (ensure_tap ow p)" "keeps (only_own p l) (ensure_tap_master ow (rp_tap p) (rp_bridge p))"
  "keeps (only_own p l) (ensure_public_route ow a (rp_bridge p))"
  unfolding ensure_bridge_def set_up_def ensure_bridge_address_def ensure_tap_def ensure_tap_master_def
    ensure_public_route_def Let_def
  by (auto intro!: keeping simp: own_command_def)

lemma chain_lifted: "chain (lifted (Inr a)) f = f a"
  by (simp add: chain_def lifted_def)

text \<open>
  A reconciliation or a clean-up of one VM leaves the network of the others alone: every
  command it runs is a query or names the bridge or the TAP of the plan it read.
\<close>

theorem route_commands_own:
  assumes "route_plan v = Inr (Some p)"
  shows "only_own p (nd_calls s) (fst (reconcile_routed_vm ow v s)) \<and> only_own p (nd_calls s) (fst (cleanup_routed_vm ow v s))"
proof -
  have "only_own p (nd_calls s) s" by (simp add: only_own_def)
  moreover have "keeps (only_own p (nd_calls s)) (reconcile_routed_vm ow v)"
    unfolding reconcile_routed_vm_def assms chain_lifted option.case by (intro keeping only_own_parts)
  moreover have "keeps (only_own p (nd_calls s)) (cleanup_routed_vm ow v)"
    unfolding cleanup_routed_vm_def assms chain_lifted option.case by (auto intro!: keeping simp: own_command_def)
  ultimately show ?thesis by (simp add: keeps_def)
qed

section \<open>Examples\<close>

lemma allocated_transit_free_witness:
  "\<exists>base. base \<notin> {32} \<and> base mod 4 = 0 \<and> link_local 37 = link_local (base + 1) \<and> transit_ok (link_local 38) (link_local 37)"
proof -
  have "probe_transit 7 {32} 0 (Suc (Suc 16381)) = Some 36"
    by (simp only: probe_transit.simps) (simp add: probed_base_def subnets_def)
  then have "allocate_transit 7 {32} = Inr (link_local 37, link_local 38)"
    by (simp add: allocate_transit_def subnets_def)
  from allocated_transit_free [OF this] show ?thesis by metis
qed

lemma transit_search_complete_witness:
  "(65532 :: nat) \<in> {b. b mod 4 = 0}"
proof -
  have "probe_transit 7 {b. b mod 4 = 0} 0 subnets = None" by (simp add: probe_none probed_base_def)
  then have "allocate_transit 7 {b. b mod 4 = 0} = Inl (Conflict ''no free link-local /30 remains for routed VM networking'')"
    by (simp add: allocate_transit_def)
  from transit_search_complete [OF _ this, of 65532] show ?thesis by simp
qed

definition demo_routes :: "(mock, ip_addr) outside" where
  "demo_routes = (demo_host True True)\<lparr>ow_interface := (\<lambda>i _. i = ''eth0'')\<rparr>"

definition demo_public_address :: ip_row where
  "demo_public_address = \<lparr>a_id = ''a1'', a_pool = None, a_address = ''203.0.113.7'', a_family = V4, a_prefix = 32, a_scope = PublicScope,
     a_status = IpFree, a_gateway = None, a_vm = None, a_primary = False, a_reverse_dns = None, a_metadata = JObj [],
     a_created_at = 0, a_updated_at = 0\<rparr>"

definition demo_route_node :: "mock node" where
  "demo_route_node = demo_node\<lparr>nd_db := no_vms\<lparr>ips := [demo_public_address]\<rparr>\<rparr>"

definition demo_config :: route_config where
  "demo_config = \<lparr>rc_mock = False, rc_bridge = ''br0'', rc_public = Some ''eth0'', rc_primary = None\<rparr>"

lemma demo_names:
  "validate_interface_name ''br0'' = Inr ()" "validate_interface_name ''eth0'' = Inr ()"
  "validate_interface_name ''kbr-vx00000001'' = Inr ()" "validate_interface_name ''tap-vx00000001'' = Inr ()"
  "compact_mac ''52:54:00:00:00:01'' = Inr ''525400000001''" "hex_value ''0001'' = Some 1"
  by code_simp+

lemma demo_selected: "check_selected ''br0'' [''a1''] (nd_db demo_route_node) = Inr ()"
proof -
  have "ips (nd_db demo_route_node) = [demo_public_address]" by (simp add: demo_route_node_def)
  then have "selected_address (nd_db demo_route_node) ''a1'' = Inr demo_public_address"
    by (simp add: selected_address_def query_address_def select_one_def demo_public_address_def)
  moreover have "routable_address ''br0'' demo_public_address (nd_db demo_route_node) = Inr ()"
    by (simp add: routable_address_def demo_public_address_def pool_usable_def)
  ultimately show ?thesis unfolding check_selected_def by (simp add: and_then_def require_def)
qed

lemma demo_transit: "\<exists>g q. allocate_transit 1 {} = Inr (g, q)"
  by (cases "probe_transit 1 {} 0 subnets") (auto simp: allocate_transit_def probe_none subnets_def dest: spec [of _ 0])

lemma demo_routed: "\<exists>r. with_route demo_spec ''kbr-vx00000001'' ''tap-vx00000001'' ''eth0'' ''525400000001'' {} = Inr r"
proof -
  have "drop (length ''525400000001'' - 4) ''525400000001'' = ''0001''" by simp
  moreover have "o_metadata demo_spec = JObj []" by (simp add: demo_spec_def)
  ultimately show ?thesis
    using demo_transit unfolding with_route_def by (auto simp: demo_names simp del: drop_Suc_Cons length_Cons)
qed

lemma demo_configured: "\<exists>t spec. configure_new_vm demo_routes demo_config demo_spec [''a1''] demo_route_node = (t, Inr (spec, True))"
proof -
  obtain r where r: "with_route demo_spec ''kbr-vx00000001'' ''tap-vx00000001'' ''eth0'' ''525400000001'' {} = Inr r"
    using demo_routed by blast
  have d: "o_bridge demo_spec = None" "o_mac demo_spec = Some ''52:54:00:00:00:01''" by (simp_all add: demo_spec_def)
  have c: "rc_bridge demo_config = ''br0''" "rc_public demo_config = Some ''eth0''" "\<not> rc_mock demo_config"
    by (simp_all add: demo_config_def)
  have i: "ow_interface demo_routes n w \<longleftrightarrow> n = ''eth0''" for n w by (simp add: demo_routes_def)
  have q: "\<exists>t. ask_ip demo_routes [''-4'', ''-o'', ''address'', ''show''] demo_route_node = (t, Inr [])"
    by (simp add: ask_ip_def outside_call_def demo_routes_def demo_host_def)
  have n: "drop (length ''525400000001'' - 8) ''525400000001'' = ''00000001''" "split_whitespace [] = []"
    by (simp_all add: split_whitespace_def)
  show ?thesis
    using q r unfolding configure_new_vm_def Let_def
    by (auto simp: chain_def interface_exists_def world_read_def db_read_def d c i demo_names demo_selected n List.map_filter_def)
qed

lemma configured_plan_reads_back_witness:
  "\<exists>spec p. route_plan (vm_of_spec ''v1'' 5 spec None) = Inr (Some p) \<and> o_bridge spec = Some (rp_bridge p)
    \<and> transit_ok (rp_guest p) (rp_gateway p)"
proof -
  obtain t spec where "configure_new_vm demo_routes demo_config demo_spec [''a1''] demo_route_node = (t, Inr (spec, True))"
    using demo_configured by blast
  from configured_plan_reads_back [OF this, of "''v1''" 5 None] show ?thesis by blast
qed

lemma route_commands_own_witness:
  "\<exists>spec p. route_plan (vm_of_spec ''v1'' 5 spec None) = Inr (Some p)
    \<and> only_own p [] (fst (reconcile_routed_vm demo_routes (vm_of_spec ''v1'' 5 spec None) demo_route_node))"
proof -
  obtain t spec where "configure_new_vm demo_routes demo_config demo_spec [''a1''] demo_route_node = (t, Inr (spec, True))"
    using demo_configured by blast
  from configured_plan [OF this, of "''v1''" 5 None]
  obtain p where p: "route_plan (vm_of_spec ''v1'' 5 spec None) = Inr (Some p)" by blast
  have "nd_calls demo_route_node = []" by (simp add: demo_route_node_def demo_node_def)
  then show ?thesis using p route_commands_own [OF p, of demo_route_node demo_routes] by auto
qed

end
