(* ===== verification/Guest_Exchange.thy ===== *)
theory Guest_Exchange
  imports Routed_Network
begin

text \<open>
  The panel's side of the Guest Tools channel (\<open>src/services/guest_tools.rs\<close>): one framed
  exchange with the guest, commands applied through it, and the bootstrap that trusts a newly
  provisioned guest. The socket is a call to the outside that takes the bytes of the request and
  gives the bytes that arrive before the timeout; running out of them is the end of the stream.
  RouterOS guests, managed over HTTP and QEMU's own agent, are two calls to the outside.
\<close>

section \<open>One exchange\<close>

datatype exchange_error = Unavailable string | Rejected string

fun exchange_error_text :: "exchange_error \<Rightarrow> string" where
  "exchange_error_text (Unavailable m) = m"
| "exchange_error_text (Rejected m) = m"

definition protocol_error_text :: "protocol_error \<Rightarrow> string" where
  "protocol_error_text e = (case e of
     WeakSecret \<Rightarrow> ''protocol secret must contain at least 32 bytes''
   | UnsupportedVersion v \<Rightarrow> ''unsupported protocol version '' @ show_dec (uint v)
   | InvalidEnvelope s \<Rightarrow> ''invalid envelope: '' @ s
   | InvalidCommand s \<Rightarrow> ''invalid command: '' @ s
   | Authentication \<Rightarrow> ''authentication failed''
   | Encryption \<Rightarrow> ''encryption failed''
   | Expired \<Rightarrow> ''request timestamp is outside the allowed window''
   | Replay \<Rightarrow> ''request was already accepted''
   | FrameTooLarge n \<Rightarrow> ''frame has an invalid size: '' @ show_nat n @ '' bytes''
   | ProtocolIo s \<Rightarrow> ''I/O error: '' @ s
   | ProtocolJson s \<Rightarrow> ''JSON error: '' @ s)"

definition protocol_failed :: "protocol_error \<Rightarrow> exchange_error" where
  "protocol_failed e = Unavailable (app_error_text
     (Conflict (''Vexa Guest Tools protocol failed: '' @ protocol_error_text e)))"

definition channel_connect_error_message :: "io_kind \<Rightarrow> string" where
  "channel_connect_error_message k = ''Vexa Guest Tools channel is unavailable: '' @ (case k of
     IoNotFound \<Rightarrow> ''the libvirt socket is absent; verify that the domain channel is attached and QEMU is running''
   | IoDenied \<Rightarrow> ''socket access was denied; verify the vexa/QEMU group membership, socket mode, and AppArmor or SELinux policy''
   | IoRefused \<Rightarrow> ''QEMU is not accepting the channel connection yet''
   | IoTimedOut \<Rightarrow> ''the channel connection timed out''
   | IoOther \<Rightarrow> ''the host could not connect to the libvirt socket'')"

definition max_stale :: nat where
  "max_stale = 16"

definition answers :: "guest_request \<Rightarrow> guest_response \<Rightarrow> bool" where
  "answers req r \<longleftrightarrow> rs_id r = rq_id req \<and> rs_nonce r = rq_nonce req"

lemma read_frame_shorter: "read_frame parse input = Inr (r, rest) \<Longrightarrow> length rest < length input"
  by (auto simp: read_frame_def read_exact_def and_then_Inr Let_def split: if_splits)

text \<open>
  The loop over the frames that arrive: those of other requests are dropped, the first one for
  this request must verify. \<open>late n\<close> says that the deadline has passed before frame \<open>n\<close>.
\<close>

function await_response ::
  "guest_lib \<Rightarrow> (string \<Rightarrow> string + guest_response) \<Rightarrow> (nat \<Rightarrow> bool) \<Rightarrow> guest_request \<Rightarrow> guest_command
    \<Rightarrow> string \<Rightarrow> timestamp \<Rightarrow> nat \<Rightarrow> string \<Rightarrow> exchange_error + response_payload" where
  "await_response lib parse late req command secret now stale input =
     (if late stale then Inl (Unavailable
        ''Vexa Guest Tools channel is unavailable: no matching response arrived before the timeout'')
      else case read_frame parse input of
        Inl e \<Rightarrow> Inl (protocol_failed e)
      | Inr (r, rest) \<Rightarrow>
          if \<not> answers req r then
            if stale = max_stale then Inl (Unavailable ''Vexa Guest Tools channel returned too many stale responses'')
            else await_response lib parse late req command secret now (stale + 1) rest
          else map_err protocol_failed
            (verify_response lib r secret (rq_id req) (rq_nonce req) command (rq_sent_at req) now 120))"
  by pat_completeness auto
termination
  by (relation "measure (\<lambda>(_, _, _, _, _, _, _, _, input). length input)") (auto dest: read_frame_shorter)

declare await_response.simps [simp del]

definition payload_result :: "response_payload \<Rightarrow> exchange_error + response_data" where
  "payload_result p = (case pl_error p of
     Some e \<Rightarrow> Inl (Rejected (''Vexa Guest Tools rejected the action: '' @ eb_message e))
   | None \<Rightarrow> ok_or (pl_data p) (Unavailable ''Vexa Guest Tools response contained no result''))"

definition exchange ::
  "('w, 'n) outside \<Rightarrow> string \<Rightarrow> string \<Rightarrow> guest_command \<Rightarrow> ('w, exchange_error, response_data) step" where
  "exchange ow path secret command =
     chain (with_error (\<lambda>e. Unavailable (channel_connect_error_message (ie_kind e)))
       (outside_call ow (\<lambda>r. CallConnect path (is_ok r)) (ow_connect ow path))) (\<lambda>_.
     chain (world_read (ow_now ow)) (\<lambda>now.
     chain (draw (ow_nonce ow)) (\<lambda>nonce.
     chain (draw (ow_uuid ow)) (\<lambda>uuid.
     chain (lifted (map_err protocol_failed (request_signed (ow_guest ow) uuid now nonce command secret))) (\<lambda>req.
     chain (lifted (map_err protocol_failed (write_frame (ow_request_bytes ow) req))) (\<lambda>frame.
     chain (with_error (\<lambda>t. protocol_failed (ProtocolIo t))
       (outside_call ow (\<lambda>r. CallChannel path (is_ok r)) (ow_channel ow path frame))) (\<lambda>arrived.
     chain (read_state (\<lambda>s. await_response (ow_guest ow) (ow_read_response ow) (ow_late ow (nd_world s)) req command
        secret (ow_now ow (nd_world s)) 0 arrived)) (\<lambda>answer.
     chain (lifted answer) (\<lambda>p. lifted (payload_result p))))))))))"

section \<open>Commands\<close>

definition contains_word :: "string \<Rightarrow> string \<Rightarrow> bool" where
  "contains_word w s \<longleftrightarrow> contains_text (ascii_lower s) w"

definition is_routeros_vm :: "vm_row \<Rightarrow> bool" where
  "is_routeros_vm v \<longleftrightarrow> contains_word ''routeros'' (v_os_family v)"

definition socket_path :: "string \<Rightarrow> string \<Rightarrow> app_error + string" where
  "socket_path dir vm =
     and_then (require (\<not> (64 < length vm \<or> vm = [] \<or> \<not> list_all (\<lambda>c. is_ascii_alnum c \<or> c = CHR ''-'') vm))
       (Validation ''VM ID is invalid for a guest channel'')) (\<lambda>_. Inr (dir @ ''/'' @ vm @ ''.sock''))"

definition decode_channel_secret :: "guest_lib \<Rightarrow> string \<Rightarrow> app_error + string" where
  "decode_channel_secret lib secret =
     and_then (ok_or (b64_decode lib secret) (Internal ''stored Guest Tools channel secret is not valid base64'')) (\<lambda>s.
     and_then (require (\<not> length s < 32) (Internal ''stored Guest Tools channel secret is too short'')) (\<lambda>_. Inr s))"

definition response_version :: "response_data \<Rightarrow> string option" where
  "response_version d = (case d of Pong v \<Rightarrow> Some v | HealthReport v _ _ _ _ \<Rightarrow> Some v | ActionDone _ _ _ \<Rightarrow> None)"

record apply_result =
  ar_applied :: bool
  ar_pending :: bool
  ar_mechanism :: string
  ar_status :: string
  ar_message :: string

definition pending_result :: "string \<Rightarrow> apply_result" where
  "pending_result message = \<lparr>ar_applied = False, ar_pending = True, ar_mechanism = ''provisioning'',
     ar_status = ''pending'', ar_message = message\<rparr>"

definition set_tools_status ::
  "('w, 'n) outside \<Rightarrow> string \<Rightarrow> tools_status \<Rightarrow> string option \<Rightarrow> string option \<Rightarrow> bool \<Rightarrow> ('w, app_error, unit) step" where
  "set_tools_status ow vm status installed err contacted =
     chain (db_do ow (update_tools_status vm status installed err contacted)) (\<lambda>_. ret ())"

definition mark_unavailable :: "('w, 'n) outside \<Rightarrow> string \<Rightarrow> string \<Rightarrow> ('w, 'e, apply_result) step" where
  "mark_unavailable ow vm err =
     chain (ignored (set_tools_status ow vm ToolsUnavailable None (Some err) False)) (\<lambda>_.
     ret (pending_result ''Guest Tools is not currently reachable; the saved value will apply on the next reinstall''))"

definition mark_rejected :: "('w, 'n) outside \<Rightarrow> string \<Rightarrow> string \<Rightarrow> ('w, 'e, apply_result) step" where
  "mark_rejected ow vm err =
     chain (ignored (set_tools_status ow vm ToolsReady None (Some err) True)) (\<lambda>_.
     ret \<lparr>ar_applied = False, ar_pending = True, ar_mechanism = ''vexa_guest_tools'', ar_status = ''rejected'',
          ar_message = err @ ''; the saved value will apply on the next reinstall''\<rparr>)"

definition is_probe :: "guest_command \<Rightarrow> bool" where
  "is_probe c \<longleftrightarrow> c = Ping \<or> c = Health"

definition applied_result :: "guest_command \<Rightarrow> apply_result" where
  "applied_result c = \<lparr>ar_applied = (\<not> is_probe c), ar_pending = False, ar_mechanism = ''vexa_guest_tools'',
     ar_status = (if is_probe c then ''healthy'' else ''applied''),
     ar_message = (if is_probe c then ''Authenticated Vexa Guest Tools health check succeeded''
       else ''Applied inside the running guest through Vexa Guest Tools'')\<rparr>"

definition routeros_result :: "guest_command \<Rightarrow> app_error + string \<Rightarrow> apply_result" where
  "routeros_result c r = (case r of
     Inr message \<Rightarrow> \<lparr>ar_applied = (\<not> is_probe c), ar_pending = False, ar_mechanism = ''routeros_qemu_agent'',
       ar_status = (if is_probe c then ''healthy'' else ''applied''), ar_message = message\<rparr>
   | Inl e \<Rightarrow> \<lparr>ar_applied = False, ar_pending = (\<not> is_probe c), ar_mechanism = ''routeros_qemu_agent'',
       ar_status = ''unavailable'', ar_message = ''RouterOS built-in guest integration is not currently reachable: ''
         @ app_error_text e\<rparr>)"

definition ask_routeros_apply :: "('w, 'n) outside \<Rightarrow> vm_row \<Rightarrow> guest_command \<Rightarrow> ('w, app_error, string) step" where
  "ask_routeros_apply ow v c = outside_call ow (\<lambda>r. CallRouterOs (v_name v) (is_ok r)) (ow_routeros_apply ow v c)"

definition ask_routeros_bootstrap :: "('w, 'n) outside \<Rightarrow> vm_row \<Rightarrow> ('w, app_error, unit) step" where
  "ask_routeros_bootstrap ow v = outside_call ow (\<lambda>r. CallRouterOs (v_name v) (is_ok r)) (ow_routeros_bootstrap ow v)"

definition query_client_secret :: "('w, 'n) outside \<Rightarrow> string \<Rightarrow> ('w, 'e, app_error + client_secret option) step" where
  "query_client_secret ow vm = db_read (tools_client_secret (ow_seal ow) (ow_master ow) vm)"

text \<open>The part of \<open>try_apply\<close> once the channel is known.\<close>

definition apply_over_channel ::
  "('w, 'n) outside \<Rightarrow> vm_row \<Rightarrow> guest_command \<Rightarrow> string \<Rightarrow> string \<Rightarrow> ('w, 'e, apply_result) step" where
  "apply_over_channel ow v c path secret =
     chain (outcome (exchange ow path secret c)) (\<lambda>r. case r of
       Inr d \<Rightarrow> chain (ignored (set_tools_status ow (v_id v) ToolsReady (response_version d) None True)) (\<lambda>_.
         ret (applied_result c))
     | Inl (Rejected m) \<Rightarrow> mark_rejected ow (v_id v) m
     | Inl (Unavailable m) \<Rightarrow> mark_unavailable ow (v_id v) m)"

definition try_apply :: "('w, 'n) outside \<Rightarrow> vm_row \<Rightarrow> guest_command \<Rightarrow> ('w, 'e, apply_result) step" where
  "try_apply ow v c =
     (if is_routeros_vm v then
        chain (outcome (ask_routeros_apply ow v c)) (\<lambda>r. ret (routeros_result c r))
      else
        chain (db_read (\<lambda>d. query_tools d (v_id v))) (\<lambda>t. case t of
          None \<Rightarrow> ret (pending_result
            ''Vexa Guest Tools is not installed; the value will apply on the next compatible reinstall'')
        | Some t \<Rightarrow>
            if \<not> t_enabled t then ret (pending_result ''Vexa Guest Tools is disabled for this VM'')
            else chain (query_client_secret ow (v_id v)) (\<lambda>r. case r of
              Inl e \<Rightarrow> mark_unavailable ow (v_id v) (app_error_text e)
            | Inr None \<Rightarrow> ret (pending_result ''Vexa Guest Tools has no active channel secret'')
            | Inr (Some client) \<Rightarrow>
                (case decode_channel_secret (ow_guest ow) (cs_secret client) of
                   Inl e \<Rightarrow> mark_unavailable ow (v_id v) (app_error_text e)
                 | Inr secret \<Rightarrow>
                     (case socket_path (ow_socket_dir ow) (v_id v) of
                        Inl e \<Rightarrow> mark_unavailable ow (v_id v) (app_error_text e)
                      | Inr path \<Rightarrow> apply_over_channel ow v c path secret)))))"

section \<open>Bootstrap\<close>

definition unlink_file :: "('w, 'n) outside \<Rightarrow> string \<Rightarrow> ('w, io_error, unit) step" where
  "unlink_file ow path = outside_call ow (CallUnlink path) (ow_unlink ow path)"

text \<open>A missing file is fine; the sync of the directory afterwards is best effort and not modelled.\<close>

definition retire_authenticated_seed_media :: "('w, 'n) outside \<Rightarrow> vm_row \<Rightarrow> ('w, app_error, bool) step" where
  "retire_authenticated_seed_media ow v =
     (let path = ow_seed_path ow (v_id v) in
      chain (world_read (ow_seed_file ow path)) (\<lambda>found. case found of
        Inl e \<Rightarrow> if ie_kind e = IoNotFound then ret False else raise (app_error_of_io e)
      | Inr regular \<Rightarrow>
          chain (lifted (require regular (Configuration
            ''refusing to retire a provisioning seed that is not a regular file''))) (\<lambda>_.
          chain (with_error app_error_of_hv (ask_detach ow (v_name v) path)) (\<lambda>_.
          chain (outcome (unlink_file ow path)) (\<lambda>r. case r of
            Inr _ \<Rightarrow> ret True
          | Inl e \<Rightarrow> if ie_kind e = IoNotFound then ret True else raise (app_error_of_io e))))))"

record bootstrap_result =
  br_installed :: string
  br_promoted :: bool
  br_retired :: bool
  br_superseded :: bool

definition health_version :: "response_data \<Rightarrow> string option" where
  "health_version d = (case d of HealthReport v _ _ _ _ \<Rightarrow> Some v | _ \<Rightarrow> None)"

text \<open>After the guest has answered with its version.\<close>

definition trust_guest ::
  "('w, 'n) outside \<Rightarrow> vm_row \<Rightarrow> client_secret \<Rightarrow> string \<Rightarrow> ('w, app_error, bootstrap_result) step" where
  "trust_guest ow v client installed =
     chain (lifted (require (installed = cs_desired_version client) (Conflict (''Guest Tools reported version ''
       @ installed @ '', expected '' @ cs_desired_version client)))) (\<lambda>_.
     chain (retire_authenticated_seed_media ow v) (\<lambda>retired.
     chain (case cs_generation client of
       Some g \<Rightarrow> chain (draw (ow_random ow)) (\<lambda>rnd.
         chain (db_do ow (promote_rotation (ow_seal ow) (ow_master ow) rnd (v_id v) g installed)) (\<lambda>_. ret True))
     | None \<Rightarrow> chain (set_tools_status ow (v_id v) ToolsReady (Some installed) None True) (\<lambda>_. ret False)) (\<lambda>promoted.
     ret \<lparr>br_installed = installed, br_promoted = promoted, br_retired = retired, br_superseded = False\<rparr>)))"

definition bootstrap_tools ::
  "('w, 'n) outside \<Rightarrow> vm_row \<Rightarrow> string option \<Rightarrow> ('w, app_error, bootstrap_result) step" where
  "bootstrap_tools ow v expected =
     chain (db_read (\<lambda>d. query_tools d (v_id v))) (\<lambda>t.
     chain (lifted (ok_or t (NotFound ''VM guest-tools configuration''))) (\<lambda>record.
     chain (lifted (require (t_enabled record) (Conflict ''Vexa Guest Tools is disabled for this VM''))) (\<lambda>_.
     chain (db_read (installed_rotation_generation (v_id v))) (\<lambda>current.
     if expected \<noteq> current then
       ret \<lparr>br_installed = (case t_installed_version record of Some i \<Rightarrow> i | None \<Rightarrow> t_desired_version record),
            br_promoted = False, br_retired = False, br_superseded = True\<rparr>
     else
       chain (query_client_secret ow (v_id v)) (\<lambda>r.
       chain (lifted r) (\<lambda>c.
       chain (lifted (ok_or c (Conflict ''VM Guest Tools channel secret is unavailable''))) (\<lambda>client.
       chain (lifted (require (expected = cs_generation client)
         (Conflict ''the expected Guest Tools secret rotation is not installed''))) (\<lambda>_.
       chain (lifted (decode_channel_secret (ow_guest ow) (cs_secret client))) (\<lambda>secret.
       chain (lifted (socket_path (ow_socket_dir ow) (v_id v))) (\<lambda>path.
       chain (with_error (\<lambda>e. Conflict (''Guest Tools bootstrap failed: '' @ exchange_error_text e))
         (exchange ow path secret Health)) (\<lambda>response.
       chain (lifted (ok_or (health_version response)
         (Conflict ''Guest Tools bootstrap returned an unexpected response''))) (\<lambda>installed.
       trust_guest ow v client installed))))))))))))"

definition bootstrap ::
  "('w, 'n) outside \<Rightarrow> vm_row \<Rightarrow> string option \<Rightarrow> ('w, app_error, bootstrap_result) step" where
  "bootstrap ow v expected =
     (if is_routeros_vm v then
        chain (lifted (require (expected = None) (Conflict
          ''RouterOS built-in integration does not use a Vexa channel-key rotation''))) (\<lambda>_.
        chain (ask_routeros_bootstrap ow v) (\<lambda>_.
        ret \<lparr>br_installed = ''routeros-qemu-agent'', br_promoted = False, br_retired = False, br_superseded = False\<rparr>))
      else bootstrap_tools ow v expected)"

end
