(* ===== verification/Exchange_Safety.thy ===== *)
theory Exchange_Safety
  imports Guest_Exchange Fail_Closed
begin

text \<open>
  The Guest Tools exchange: the loop over arriving frames equals its description, an answer is
  believed only when its signature verifies, stale answers of earlier requests neither hide the
  right one nor keep the panel waiting for ever, and a bootstrap trusts a guest completely or
  changes nothing, up to what other requests do while its calls are awaited.
\<close>

section \<open>The loop\<close>

text \<open>What is left of the input after \<open>n\<close> frames that answer other requests.\<close>

fun after_stale :: "(string \<Rightarrow> string + guest_response) \<Rightarrow> guest_request \<Rightarrow> nat \<Rightarrow> string \<Rightarrow> string option" where
  "after_stale parse req 0 input = Some input"
| "after_stale parse req (Suc n) input = (case read_frame parse input of
     Inr (r, rest) \<Rightarrow> if answers req r then None else after_stale parse req n rest
   | Inl _ \<Rightarrow> None)"

definition answered_with ::
  "(string \<Rightarrow> string + guest_response) \<Rightarrow> guest_request \<Rightarrow> nat \<Rightarrow> string \<Rightarrow> guest_response \<Rightarrow> bool" where
  "answered_with parse req n input r \<longleftrightarrow> answers req r
     \<and> (\<exists>rest later. after_stale parse req n input = Some rest \<and> read_frame parse rest = Inr (r, later))"

lemma answered_with_simps:
  "answered_with parse req 0 input r \<longleftrightarrow> answers req r \<and> (\<exists>later. read_frame parse input = Inr (r, later))"
  "answered_with parse req (Suc n) input r \<longleftrightarrow> (\<exists>x rest. read_frame parse input = Inr (x, rest) \<and> \<not> answers req x
     \<and> answered_with parse req n rest r)"
  by (auto simp: answered_with_def split: sum.splits if_splits prod.splits)

lemma await_response_iff:
  "stale \<le> max_stale \<Longrightarrow> await_response lib parse late req command secret now stale input = Inr p
   \<longleftrightarrow> (\<exists>n r. stale + n \<le> max_stale \<and> (\<forall>k \<le> n. \<not> late (stale + k)) \<and> answered_with parse req n input r
         \<and> verify_response lib r secret (rq_id req) (rq_nonce req) command (rq_sent_at req) now 120 = Inr p)"
  (is "_ \<Longrightarrow> ?lhs stale input \<longleftrightarrow> ?rhs stale input")
proof (induction input arbitrary: stale rule: length_induct)
  case (1 input)
  have unfolded: "?rhs stale input \<longleftrightarrow> \<not> late stale \<and> (\<exists>x rest. read_frame parse input = Inr (x, rest)
     \<and> (if answers req x then verify_response lib x secret (rq_id req) (rq_nonce req) command (rq_sent_at req) now 120 = Inr p
        else stale < max_stale \<and> ?rhs (stale + 1) rest))" (is "_ \<longleftrightarrow> ?step")
  proof
    assume "?rhs stale input"
    then obtain n r where n: "stale + n \<le> max_stale" "\<forall>k \<le> n. \<not> late (stale + k)" "answered_with parse req n input r"
      "verify_response lib r secret (rq_id req) (rq_nonce req) command (rq_sent_at req) now 120 = Inr p" by blast
    then have l: "\<not> late stale" by (metis add.right_neutral le0)
    show ?step
    proof (cases n)
      case 0
      then show ?thesis using l n by (auto simp: answered_with_simps)
    next
      case (Suc m)
      obtain x rest where x: "read_frame parse input = Inr (x, rest)" "\<not> answers req x" "answered_with parse req m rest r"
        using n(3) Suc by (auto simp: answered_with_simps)
      have "\<forall>k \<le> m. \<not> late (stale + 1 + k)" using n(2) Suc by (auto dest: spec [of _ "Suc _"])
      then have "?rhs (stale + 1) rest" using n(1,4) Suc x(3) by (intro exI [of _ m] exI [of _ r]) simp
      then show ?thesis using l x n(1) Suc by auto
    qed
  next
    assume step: ?step
    then obtain x rest where x: "\<not> late stale" "read_frame parse input = Inr (x, rest)" by blast
    show "?rhs stale input"
    proof (cases "answers req x")
      case True
      then show ?thesis using step x "1.prems" by (intro exI [of _ 0] exI [of _ x]) (auto simp: answered_with_simps)
    next
      case False
      then obtain m r where m: "stale + 1 + m \<le> max_stale" "\<forall>k \<le> m. \<not> late (stale + 1 + k)" "answered_with parse req m rest r"
        "verify_response lib r secret (rq_id req) (rq_nonce req) command (rq_sent_at req) now 120 = Inr p"
        using step x by auto
      have "\<not> late (stale + k)" if "k \<le> Suc m" for k
        using that m(2) x(1) by (cases k) auto
      then show ?thesis using m x False by (intro exI [of _ "Suc m"] exI [of _ r]) (auto simp: answered_with_simps)
    qed
  qed
  show ?case
  proof (cases "read_frame parse input")
    case (Inl e)
    then show ?thesis using unfolded by (simp add: await_response.simps)
  next
    case (Inr y)
    obtain x rest where y: "y = (x, rest)" by (cases y)
    have "stale < max_stale \<Longrightarrow> ?lhs (stale + 1) rest \<longleftrightarrow> ?rhs (stale + 1) rest"
      using "1.IH" [rule_format, OF read_frame_shorter, OF Inr [unfolded y]] by simp
    then show ?thesis using unfolded Inr y "1.prems" by (auto simp: await_response.simps [of _ _ _ _ _ _ _ stale input])
  qed
qed

text \<open>
  C36. The loop over arriving frames is its description: it accepts an answer exactly when,
  before the deadline, at most sixteen frames for other requests are followed by one that names
  this request and verifies, signature, freshness, encryption and command included.
\<close>

theorem exchange_loop_specified:
  "await_response lib parse late req command secret now 0 input = Inr p
   \<longleftrightarrow> (\<exists>n r. n \<le> 16 \<and> (\<forall>k \<le> n. \<not> late k) \<and> answered_with parse req n input r
         \<and> verify_response lib r secret (rq_id req) (rq_nonce req) command (rq_sent_at req) now 120 = Inr p)"
  using await_response_iff [of 0] by (simp add: max_stale_def)

section \<open>Stale answers\<close>

lemma await_skips:
  "after_stale parse req n input = Some rest \<Longrightarrow> stale + n \<le> max_stale \<Longrightarrow> \<forall>k < n. \<not> late (stale + k)
   \<Longrightarrow> await_response lib parse late req command secret now stale input
     = await_response lib parse late req command secret now (stale + n) rest"
proof (induction n arbitrary: stale input)
  case (Suc n)
  obtain x later where x: "read_frame parse input = Inr (x, later)" "\<not> answers req x" "after_stale parse req n later = Some rest"
    using Suc.prems(1) by (auto split: sum.splits if_splits prod.splits)
  have "\<not> late stale" "\<forall>k < n. \<not> late (stale + 1 + k)" using Suc.prems(3) by (auto dest: spec [of _ 0] spec [of _ "Suc _"])
  then show ?case using x Suc.prems(2) Suc.IH [OF x(3), of "stale + 1"]
    by (simp add: await_response.simps [of _ _ _ _ _ _ _ stale input])
qed simp

lemma after_stale_add:
  "after_stale parse req (n + m) input = Option.bind (after_stale parse req n input) (after_stale parse req m)"
proof (induction n arbitrary: input)
  case (Suc n)
  then show ?case by (cases "read_frame parse input") (auto split: prod.split)
qed simp

text \<open>
  C37. Stale answers cannot keep the panel waiting: after seventeen of them the exchange ends,
  whatever else would still arrive.
\<close>

theorem stale_flood_ends:
  assumes "after_stale parse req 17 input \<noteq> None" "\<forall>k. \<not> late k"
  shows "await_response lib parse late req command secret now 0 input
    = Inl (Unavailable ''Vexa Guest Tools channel returned too many stale responses'')"
proof -
  obtain rest where r: "after_stale parse req 16 input = Some rest" "after_stale parse req 1 rest \<noteq> None"
    using assms(1) after_stale_add [of parse req 16 1 input] by (cases "after_stale parse req 16 input") auto
  then obtain x later where "read_frame parse rest = Inr (x, later)" "\<not> answers req x"
    by (auto split: sum.splits if_splits prod.splits)
  then have "await_response lib parse late req command secret now 16 rest
    = Inl (Unavailable ''Vexa Guest Tools channel returned too many stale responses'')"
    using assms(2) by (simp add: await_response.simps [of _ _ _ _ _ _ _ 16 rest] max_stale_def)
  then show ?thesis using await_skips [OF r(1), of 0] assms(2) by (simp add: max_stale_def)
qed

text \<open>
  The right answer gets through: what the guest signs for a request is the result of the
  exchange, also behind up to sixteen answers to earlier requests that were left in the channel.
\<close>

theorem answer_behind_stale_frames:
  assumes "crypto_round_trip lib"
    and "parse_payload lib (json_payload lib \<lparr>pl_data = data, pl_error = err\<rparr>) = Inr \<lparr>pl_data = data, pl_error = err\<rparr>"
    and "response_signed lib req t ok data err secret = Inr r"
    and "validate_ciphertext lib (rs_encrypted r) ''response'' = Inr ()"
    and "rq_sent_at req \<le> t" "\<bar>t - now\<bar> \<le> 120" "\<forall>d. data = Some d \<longrightarrow> matches_command command d"
    and "after_stale parse req n input = Some rest" "n \<le> 16" "\<forall>k. \<not> late k"
    and "read_frame parse rest = Inr (r, later)"
  shows "await_response lib parse late req command secret now 0 input = Inr \<lparr>pl_data = data, pl_error = err\<rparr>"
proof -
  have "answers req r" using assms(3) by (auto simp: answers_def response_signed_def result_simps Let_def)
  then have "answered_with parse req n input r" using assms(8,11) by (auto simp: answered_with_def)
  moreover have "verify_response lib r secret (rq_id req) (rq_nonce req) command (rq_sent_at req) now 120
     = Inr \<lparr>pl_data = data, pl_error = err\<rparr>"
    using response_round_trip [OF assms(1-5), of now 120 command] assms(6,7) by simp
  ultimately show ?thesis
    using assms(9,10) await_response_iff [of 0 lib parse late req command secret now input] by (auto simp: max_stale_def)
qed

section \<open>A channel with old answers\<close>

definition demo_answer :: guest_response where
  "demo_answer = \<lparr>rs_version = 2, rs_id = ''r1'', rs_sent_at = 105, rs_nonce = demo_nonce, rs_ok = True,
     rs_encrypted = ''0.9'' @ replicate 16 (CHR ''t''),
     rs_signature = demo_secret @ response_domain @ ''r1'' @ demo_nonce @ ''0.9'' @ replicate 16 (CHR ''t'')\<rparr>"

definition parse_answer :: "string \<Rightarrow> string + guest_response" where
  "parse_answer body = (if body = ''old'' then Inr (demo_answer\<lparr>rs_id := ''r0''\<rparr>)
     else if body = ''new'' then Inr demo_answer else Inl ''expected value'')"

definition demo_frame :: "string \<Rightarrow> string" where
  "demo_frame body = be32 3 @ body"

fun old_frames :: "nat \<Rightarrow> string" where
  "old_frames 0 = []"
| "old_frames (Suc n) = demo_frame ''old'' @ old_frames n"

lemma demo_frames:
  "read_frame parse_answer (demo_frame ''old'' @ rest) = Inr (demo_answer\<lparr>rs_id := ''r0''\<rparr>, rest)"
  "read_frame parse_answer (demo_frame ''new'' @ rest) = Inr (demo_answer, rest)"
  using be32_round_trip [of 3]
  by (simp_all add: demo_frame_def read_frame_def read_exact_def max_frame_bytes_def Let_def parse_answer_def)

lemma old_frames_stale: "after_stale parse_answer (demo_request 100) n (old_frames n @ rest) = Some rest"
proof (induction n)
  case (Suc n)
  then show ?case by (simp add: demo_frames answers_def demo_request_def demo_answer_def)
qed simp

lemma stale_flood_ends_witness:
  "await_response demo_lib parse_answer (\<lambda>_. False) (demo_request 100) Ping demo_secret 110 0 (old_frames 17 @ demo_frame ''new'')
     = Inl (Unavailable ''Vexa Guest Tools channel returned too many stale responses'')"
  by (rule stale_flood_ends) (simp_all add: old_frames_stale)

lemma demo_answer_signed:
  "response_signed demo_lib (demo_request 100) 105 True (Some (Pong ''0.9'')) None demo_secret = Inr demo_answer"
  by (simp add: response_signed_def demo_request_def require_strong_secret_def demo_secret_def
      inconsistent_result_def validate_option_def validate_response_data_def demo_answer_def
      validate_response_text_def protocol_version_def code_of_def
      decode_nonce_def demo_lib_def demo_nonce_def encrypt_json_def encryption_material_def
      Let_def sign_json_def unsigned_of_response_def)

lemma demo_answer_verifies:
  "verify_response demo_lib demo_answer demo_secret (rq_id (demo_request 100)) (rq_nonce (demo_request 100)) Ping
     (rq_sent_at (demo_request 100)) 110 120 = Inr \<lparr>pl_data = Some (Pong ''0.9''), pl_error = None\<rparr>"
  by (rule response_round_trip [OF demo_crypto _ demo_answer_signed])
    (simp_all add: demo_lib_def demo_request_def demo_answer_def validate_ciphertext_def decode_either_def max_frame_bytes_def)

lemma exchange_loop_specified_witness:
  "await_response demo_lib parse_answer (\<lambda>_. False) (demo_request 100) Ping demo_secret 110 0 (old_frames 3 @ demo_frame ''new'')
     = Inr \<lparr>pl_data = Some (Pong ''0.9''), pl_error = None\<rparr>"
  unfolding exchange_loop_specified
proof (intro exI conjI)
  show "answered_with parse_answer (demo_request 100) 3 (old_frames 3 @ demo_frame ''new'') demo_answer"
    using old_frames_stale [of 3 "demo_frame ''new''"] demo_frames(2) [of "[]"]
    by (simp add: answered_with_def answers_def demo_answer_def demo_request_def)
qed (simp_all add: demo_answer_verifies)

lemma answer_behind_stale_frames_witness:
  "await_response demo_lib parse_answer (\<lambda>_. False) (demo_request 100) Ping demo_secret 110 0 (old_frames 16 @ demo_frame ''new'')
     = Inr \<lparr>pl_data = Some (Pong ''0.9''), pl_error = None\<rparr>"
proof (rule answer_behind_stale_frames [OF demo_crypto _ demo_answer_signed])
  show "after_stale parse_answer (demo_request 100) 16 (old_frames 16 @ demo_frame ''new'') = Some (demo_frame ''new'')"
    by (rule old_frames_stale)
  show "read_frame parse_answer (demo_frame ''new'') = Inr (demo_answer, [])"
    using demo_frames(2) [of "[]"] by simp
qed (simp_all add: demo_lib_def demo_request_def demo_answer_def validate_ciphertext_def decode_either_def max_frame_bytes_def)

section \<open>Bootstrap\<close>

text \<open>What other requests can do to the Guest Tools table while a call is awaited.\<close>

definition others_tools :: "('w, 'n) outside \<Rightarrow> (tools_row list \<times> tools_row list) set" where
  "others_tools ow = {(tools d, tools (fst (ow_others ow w (d, p)))) | w d p. True}"

text \<open>The table is what other requests made of \<open>T\<close>.\<close>

abbreviation left_by_others :: "('w, 'n) outside \<Rightarrow> tools_row list \<Rightarrow> 'w node \<Rightarrow> bool" where
  "left_by_others ow T \<equiv> \<lambda>s. (T, tools (nd_db s)) \<in> (others_tools ow)\<^sup>*"

lemma others_call [keeping]: "keeps (left_by_others ow T) (outside_call ow entry f)"
  unfolding keeps_def
proof (intro allI impI)
  fix s assume s: "left_by_others ow T s"
  obtain t r where t: "outside_call ow entry f s = (t, r)" by fastforce
  then have "tools (nd_db t) = tools (fst (ow_others ow (nd_world t) (nd_db s, nd_policy s)))"
    using outside_call_result by (metis fst_conv)
  then have "(tools (nd_db s), tools (nd_db t)) \<in> others_tools ow" unfolding others_tools_def by blast
  then show "left_by_others ow T (fst (outside_call ow entry f s))" using s t by (auto intro: rtrancl_into_rtrancl)
qed

lemma others_quiet [keeping]:
  "keeps (left_by_others ow T) (db_read g)" "keeps (left_by_others ow T) (world_read h)" "keeps (left_by_others ow T) (draw x)"
  by (simp_all add: db_read_def world_read_def keeping draw_def keeps_def split: prod.split)

lemma others_parts [keeping]:
  "keeps (left_by_others ow T) (retire_authenticated_seed_media ow v)" "keeps (left_by_others ow T) (exchange ow path secret c)"
  "keeps (left_by_others ow T) (query_client_secret ow i)" "keeps (left_by_others ow T) (ask_routeros_bootstrap ow v)"
  unfolding retire_authenticated_seed_media_def exchange_def query_client_secret_def ask_routeros_bootstrap_def Let_def ask_detach_def unlink_file_def
  by (intro keeping)+

text \<open>
  C38. A bootstrap trusts the guest or changes nothing: when it fails at any point, or finds that
  a newer provisioning superseded it, the Guest Tools table is what other requests made of it
  while the calls of the bootstrap were awaited, and nothing else: the bootstrap itself has
  promoted no key and written no status. Where no other request touches the table it is unchanged.
\<close>

theorem failed_bootstrap_changes_nothing:
  fixes ow :: "('w, 'n) outside"
  assumes "bootstrap ow v g s = (t, r)" "\<forall>b. r = Inr b \<longrightarrow> br_superseded b"
  shows "(tools (nd_db s), tools (nd_db t)) \<in> (others_tools ow)\<^sup>*"
proof -
  let ?I = "left_by_others ow (tools (nd_db s))"
  let ?Q = "\<lambda>b t. br_superseded b \<longrightarrow> ?I t"
  have written: "holds ?I (chain (draw (ow_random ow)) (\<lambda>rnd. chain (db_do ow (f rnd)) (\<lambda>_. ret True))) (\<lambda>_ _. True) (\<lambda>_. ?I)"
    "holds ?I (chain (set_tools_status ow i ToolsReady x None True) (\<lambda>_. ret False)) (\<lambda>_ _. True) (\<lambda>_. ?I)" for f i x
    by (auto simp: holds_def chain_def db_do_def draw_def set_tools_status_def split: sum.split prod.split)
  have "holds ?I (trust_guest ow v client installed) ?Q (\<lambda>_. ?I)" for client installed
    unfolding trust_guest_def
    by (rule holds_chain [where R = "\<lambda>_. ?I"], simp add: keeping flip: keeps_holds,
        rule holds_chain [where R = "\<lambda>_. ?I"], simp add: keeping flip: keeps_holds,
        rule holds_chain [where R = "\<lambda>_ _. True"])
      (auto intro!: holds_option written holds_ret)
  then have h: "holds ?I (bootstrap ow v g) ?Q (\<lambda>_. ?I)"
    unfolding bootstrap_def bootstrap_tools_def
    by (intro holds_if holds_chain [where R = "\<lambda>_. ?I"] keeping [unfolded keeps_holds] holds_ret) simp_all
  show ?thesis
  proof (cases r)
    case (Inl e)
    then show ?thesis using holds_Inl [OF h rtrancl.rtrancl_refl] assms(1) by simp
  next
    case (Inr b)
    then show ?thesis using holds_Inr [OF h rtrancl.rtrancl_refl] assms by simp
  qed
qed

definition enabled_tools :: tools_row where
  "enabled_tools = \<lparr>t_vm = ''v1'', t_enabled = True, t_platform = LinuxGuest, t_provisioner = CloudInit,
     t_envelope = ''e'', t_desired_version = ''1.0'', t_installed_version = None, t_status = ToolsPending,
     t_last_seen_at = None, t_last_error = None, t_pending_envelope = None, t_pending_platform = None,
     t_pending_provisioner = None, t_pending_version = None, t_pending_generation = None, t_pending_installed = False,
     t_created_at = 0, t_updated_at = 0\<rparr>"

text \<open>
  The guest closes the channel without an answer, and while each of the two calls is awaited
  another request touches the record.
\<close>

definition touching :: "db \<times> policy_db \<Rightarrow> db \<times> policy_db" where
  "touching = (\<lambda>(d, p). (d\<lparr>tools := map (\<lambda>t. t\<lparr>t_updated_at := t_updated_at t + 1\<rparr>) (tools d)\<rparr>, p))"

definition silent_site :: "(mock, ip_addr) outside" where
  "silent_site = (demo_host True True)\<lparr>ow_others := \<lambda>_. touching\<rparr>"

lemma demo_probe: "\<exists>req. request_signed demo_lib ''u'' t demo_nonce Health demo_secret = Inr req"
  by (simp add: request_signed_def require_strong_secret_def demo_secret_def
      validate_command_def validate_envelope_def protocol_version_def id_char_def
      is_ascii_alnum_def is_ascii_digit_def is_ascii_lower_def is_ascii_upper_def code_of_def
      decode_nonce_def demo_lib_def demo_nonce_def encrypt_json_def encryption_material_def
      command_kind_def validate_ciphertext_def decode_either_def max_frame_bytes_def Let_def
      sign_json_def unsigned_of_request_def)

lemma demo_sealed: "\<exists>e. decrypt_secret demo_seal ''m'' e (tools_secret_context ''v1'') = Inr demo_secret"
proof -
  obtain e where e: "encrypt_secret demo_seal ''m'' demo_random demo_secret (tools_secret_context ''v1'') = Inr e" "length e \<le> 2097152"
    by (simp add: encrypt_secret_def validate_context_def max_secret_bytes_def demo_seal_def demo_put_def demo_secret_def
      tools_secret_context_def demo_random_def envelope_aad_def envelope_algorithm_def)
  have "valid_utf8 demo_secret" by code_simp
  then show ?thesis using encrypt_decrypt [OF demo_seal_laws demo_good_random e] by blast
qed

lemma silent_exchange:
  assumes "nd_db s = no_vms\<lparr>tools := T\<rparr>"
  shows "\<exists>t m. exchange silent_site path demo_secret Health s = (t, Inl m)
    \<and> tools (nd_db t) = tools (fst (touching (touching (nd_db s, nd_policy s))))
    \<and> nd_calls t = [CallChannel path True, CallConnect path True] @ nd_calls s"
proof -
  obtain req where req: "request_signed demo_lib ''u'' t demo_nonce Health demo_secret = Inr (req t)" for t
    using demo_probe by metis
  have "await_response demo_lib Inl (\<lambda>_. False) r Health demo_secret now 0 [] = Inl (protocol_failed (ProtocolIo ''failed to fill whole buffer''))"
    for r now by (simp add: await_response.simps read_frame_def read_exact_def and_then_def)
  then show ?thesis
    by (simp add: exchange_def chain_def with_error_def outside_call_def silent_site_def demo_host_def world_read_def draw_def
        req map_err_def write_frame_def max_frame_bytes_def touching_def split: prod.split)
qed

lemma failed_bootstrap_changes_nothing_witness:
  "\<exists>T t m. bootstrap silent_site (sample_vm ''v1'' ''web'') None (demo_node\<lparr>nd_db := no_vms\<lparr>tools := [T]\<rparr>\<rparr>) = (t, Inl m)
     \<and> nd_calls t = [CallChannel ''/run/tools/v1.sock'' True, CallConnect ''/run/tools/v1.sock'' True]
     \<and> t_updated_at T = 0 \<and> map t_updated_at (tools (nd_db t)) = [2]
     \<and> ([T], tools (nd_db t)) \<in> (others_tools silent_site)\<^sup>*"
proof -
  obtain env where env: "decrypt_secret demo_seal ''m'' env (tools_secret_context ''v1'') = Inr demo_secret"
    using demo_sealed by blast
  let ?T = "enabled_tools\<lparr>t_envelope := env\<rparr>"
  let ?s = "demo_node\<lparr>nd_db := no_vms\<lparr>tools := [?T]\<rparr>\<rparr>"
  have r: "\<not> is_routeros_vm (sample_vm ''v1'' ''web'')" by code_simp
  have path: "socket_path ''/run/tools'' ''v1'' = Inr ''/run/tools/v1.sock''" by code_simp
  have "nd_db ?s = no_vms\<lparr>tools := [?T]\<rparr>" by simp
  from silent_exchange [OF this, of "''/run/tools/v1.sock''"] obtain t m where x:
    "exchange silent_site ''/run/tools/v1.sock'' demo_secret Health ?s = (t, Inl m)"
    "tools (nd_db t) = tools (fst (touching (touching (nd_db ?s, nd_policy ?s))))"
    "nd_calls t = [CallChannel ''/run/tools/v1.sock'' True, CallConnect ''/run/tools/v1.sock'' True] @ nd_calls ?s" by blast
  have site: "ow_seal silent_site = demo_seal" "ow_master silent_site = ''m''" "ow_guest silent_site = demo_lib"
    "ow_socket_dir silent_site = ''/run/tools''" by (simp_all add: silent_site_def demo_host_def)
  have secret: "decode_channel_secret demo_lib demo_secret = Inr demo_secret"
    by (simp add: decode_channel_secret_def demo_lib_def demo_secret_def ok_or_def require_def)
  have "query_tools (nd_db ?s) ''v1'' = Some ?T" by (simp add: query_tools_def enabled_tools_def)
  moreover have "installed_rotation_generation ''v1'' (nd_db ?s) = None"
    by (simp add: installed_rotation_generation_def enabled_tools_def)
  moreover have "tools_client_secret demo_seal ''m'' ''v1'' (nd_db ?s)
    = Inr (Some \<lparr>cs_secret = demo_secret, cs_desired_version = ''1.0'', cs_generation = None\<rparr>)"
    by (simp add: tools_client_secret_def enabled_tools_def env)
  moreover have "t_enabled ?T" by (simp add: enabled_tools_def)
  ultimately obtain m' where b: "bootstrap silent_site (sample_vm ''v1'' ''web'') None ?s = (t, Inl m')"
    by (simp add: bootstrap_def r bootstrap_tools_def chain_def db_read_def ok_or_def require_def query_client_secret_def site
      secret path with_error_def x(1) map_err_def)
  have "([?T], tools (nd_db t)) \<in> (others_tools silent_site)\<^sup>*"
    using failed_bootstrap_changes_nothing [OF b] by simp
  moreover have "map t_updated_at (tools (nd_db t)) = [2]" by (simp add: x(2) touching_def enabled_tools_def)
  moreover have "nd_calls ?s = []" by (simp add: demo_node_def)
  moreover have "t_updated_at ?T = 0" by (simp add: enabled_tools_def)
  ultimately show ?thesis using b x(3) by (intro exI conjI) (assumption | simp)+
qed

end
