(* ===== verification/Worker_Steps.thy ===== *)
theory Worker_Steps
  imports Guest_Exchange Mock_Hypervisor
begin

text \<open>
  The parts a job is made of (\<open>src/services/background.rs\<close>, \<open>src/services/traffic.rs\<close>, and
  the snapshot rows of \<open>src/db.rs\<close>): reading the payload, keeping the row of a VM in line with
  the hypervisor's answer, the quota after a start, provisioning seeds and their removal, and
  the bootstrap job that follows a start. Decoding requests from JSON and writing answers as
  JSON is serde's, the record \<open>payload_lib\<close>.
\<close>

record payload_lib =
  px_create :: "json \<Rightarrow> string + create_request"
  px_power :: "json \<Rightarrow> string + power_action"
  px_resize :: "json \<Rightarrow> string + resize_request"
  px_reinstall :: "json \<Rightarrow> string + reinstall_request"
  px_snapshot :: "json \<Rightarrow> string + snapshot_request"
  px_show_info :: "vm_info \<Rightarrow> json"
  px_show_snapshot :: "snapshot_info \<Rightarrow> json"
  px_show_job :: "job_row \<Rightarrow> json"
  px_stamp :: "timestamp \<Rightarrow> string"

section \<open>Payloads\<close>

definition payload_field :: "(json \<Rightarrow> string + 'a) \<Rightarrow> string \<Rightarrow> json \<Rightarrow> app_error + 'a" where
  "payload_field decode field payload =
     map_err (\<lambda>m. Validation (''job payload field '' @ quote1 @ field @ quote1 @ '' is invalid: '' @ m))
       (decode (case json_get field payload of Some v \<Rightarrow> v | None \<Rightarrow> JNull))"

text \<open>\<open>Value::as_i64\<close> of a number kept as its literal.\<close>

definition json_i64 :: "json \<Rightarrow> int option" where
  "json_i64 j = (case j of
     JNum t \<Rightarrow>
       (let negative = (t \<noteq> [] \<and> hd t = CHR ''-''); digits = (if negative then tl t else t);
            n = foldl (\<lambda>n c. 10 * n + (code_of c - 48)) 0 digits; v = (if negative then - n else n) in
        if digits \<noteq> [] \<and> list_all is_ascii_digit digits \<and> is_i64 v then Some v else None)
   | _ \<Rightarrow> None)"

definition disk_protection :: "string \<Rightarrow> vm_row \<Rightarrow> bool" where
  "disk_protection flag v \<longleftrightarrow> (case json_get ''disk_protection'' (v_metadata v) of
     None \<Rightarrow> False | Some p \<Rightarrow> Option.bind (json_get flag p) json_bool = Some True)"

definition required_vm :: "job_row \<Rightarrow> db \<Rightarrow> app_error + vm_row" where
  "required_vm job d =
     and_then (ok_or (j_vm job) (Validation ''job is missing vm_id'')) (\<lambda>i.
     ok_or (query_vm d i) (NotFound ''VM''))"

definition read_vm :: "job_row \<Rightarrow> ('w, app_error, vm_row) step" where
  "read_vm job = chain (db_read (required_vm job)) lifted"

section \<open>The row of a VM\<close>

definition map_power_state :: "power_state \<Rightarrow> vm_state" where
  "map_power_state s = (case s of
     PsRunning \<Rightarrow> VmRunning | PsPaused \<Rightarrow> VmPaused | PsSuspended \<Rightarrow> VmPaused
   | PsShutOff \<Rightarrow> VmStopped | PsShuttingDown \<Rightarrow> VmStopped | PsCrashed \<Rightarrow> VmError | PsUnknown \<Rightarrow> VmUnknown)"

definition bytes_to_gib_ceil :: "nat \<Rightarrow> nat" where
  "bytes_to_gib_ceil bytes = max 1 (min (bytes + (gib - 1)) (2 ^ 64 - 1) div gib)"

definition info_patch :: "vm_info \<Rightarrow> vm_row option \<Rightarrow> vm_patch" where
  "info_patch info current =
     (let detected = bytes_to_gib_ceil (i_disk_bytes info) in
      no_patch\<lparr>z_state := Some (map_power_state (i_state info)), z_desired := Some (map_power_state (i_state info)),
        z_vcpus := (if 0 < i_vcpus info then Some (i_vcpus info) else None),
        z_memory_mib := (if 256 \<le> i_memory_mib info then Some (i_memory_mib info) else None),
        z_disk_gib := (if 0 < i_disk_bytes info \<and> (case current of None \<Rightarrow> True | Some v \<Rightarrow> v_disk_gib v \<le> detected)
          then Some detected else None),
        z_tap := Some (i_interface info), z_libvirt_uuid := map_option Some (i_uuid info),
        z_autostart := Some (i_autostart info)\<rparr>)"

definition sync_vm_info :: "('w, 'n) outside \<Rightarrow> string option \<Rightarrow> vm_info \<Rightarrow> ('w, app_error, unit) step" where
  "sync_vm_info ow vm info =
     (let i = (case vm of Some i \<Rightarrow> i | None \<Rightarrow> i_name info) in
      chain (db_read (\<lambda>d. query_vm d i)) (\<lambda>current.
      chain (db_do ow (patch_vm i (info_patch info current))) (\<lambda>_. ret ())))"

section \<open>The quota\<close>

text \<open>\<open>traffic::reconcile_vm\<close>; its lock keeps other quota changes out.\<close>

definition traffic_step :: "('w, 'n) outside \<Rightarrow> vm_row \<Rightarrow> bool \<Rightarrow> bool \<Rightarrow> ('w, app_error, unit) step" where
  "traffic_step ow v should blocked =
     chain (outcome (ask_link ow (v_name v) (\<not> should))) (\<lambda>r. case r of
       Inr _ \<Rightarrow> chain (db_do ow (set_vm_traffic_enforcement (v_id v) should None)) (\<lambda>_. ret ())
     | Inl e \<Rightarrow> chain (db_do ow (set_vm_traffic_enforcement (v_id v) blocked (Some (hv_error_text e)))) (\<lambda>_.
         raise (HypervisorFailed (''traffic quota could not '' @ (if should then ''disable'' else ''restore'')
           @ '' VM network: '' @ hv_error_text e))))"

definition reconcile_vm_traffic :: "('w, 'n) outside \<Rightarrow> string \<Rightarrow> bool \<Rightarrow> ('w, app_error, quota_status) step" where
  "reconcile_vm_traffic ow vm force =
     chain (db_read (\<lambda>d. query_vm d vm)) (\<lambda>found.
     chain (lifted (ok_or found (NotFound ''VM''))) (\<lambda>v.
     chain (db_read (\<lambda>d. vm_traffic_enforcement d (v_id v))) (\<lambda>existing.
     let blocked = (case existing of None \<Rightarrow> False | Some e \<Rightarrow> e_blocked e);
         should = is_exceeded (v_traffic_limit v) (v_traffic_used v) in
     chain (if should \<noteq> blocked \<or> (force \<and> should) then traffic_step ow v should blocked
       else when_do (case existing of None \<Rightarrow> False | Some e \<Rightarrow> e_last_error e \<noteq> None)
         (chain (db_do ow (set_vm_traffic_enforcement (v_id v) blocked None)) (\<lambda>_. ret ()))) (\<lambda>_.
     chain (db_read (\<lambda>d. and_then (ok_or (query_vm d (v_id v)) (NotFound ''VM'')) (\<lambda>c.
       Inr (quota_status_from c (vm_traffic_enforcement d (v_id c)))))) lifted))))"

text \<open>One turn of \<open>traffic_quota_loop\<close>: \<open>traffic::reconcile_all\<close>.\<close>

definition reconcile_all_traffic :: "('w, 'n) outside \<Rightarrow> bool \<Rightarrow> ('w, 'e, unit) step" where
  "reconcile_all_traffic ow force =
     chain (db_read list_vms) (\<lambda>vs. each_do (\<lambda>v. ignored (reconcile_vm_traffic ow (v_id v) force)) vs)"

section \<open>Snapshot rows\<close>

definition query_snapshot :: "db \<Rightarrow> string \<Rightarrow> snapshot_row option" where
  "query_snapshot d i = select_one (\<lambda>r. s_id r = i) (snapshots d)"

definition create_snapshot ::
  "string \<Rightarrow> string \<Rightarrow> string \<Rightarrow> string \<Rightarrow> bool \<Rightarrow> json \<Rightarrow> timestamp \<Rightarrow> db \<Rightarrow> snapshot_row transaction" where
  "create_snapshot fresh vm name description memory metadata now d =
     and_then (validate_non_empty ''snapshot name'' name) (\<lambda>_.
     and_then (require (vm_exists d vm) foreign_key_error) (\<lambda>_.
     let r = \<lparr>s_id = fresh, s_vm = vm, s_name = trim name, s_description = description, s_state = SnapCreating,
           s_disk_path = None, s_size = None, s_memory_included = memory, s_metadata = metadata,
           s_created_at = now, s_updated_at = now, s_completed_at = None\<rparr> in
     and_then (require (\<forall>q \<in> set (snapshots d). s_id q \<noteq> fresh \<and> \<not> (s_vm q = vm \<and> s_name q = trim name)) unique_error) (\<lambda>_.
     Inr (d\<lparr>snapshots := snapshots d @ [r]\<rparr>, r))))"

definition update_snapshot ::
  "string \<Rightarrow> snapshot_state \<Rightarrow> string option \<Rightarrow> nat option \<Rightarrow> json option \<Rightarrow> timestamp \<Rightarrow> db \<Rightarrow> snapshot_row transaction" where
  "update_snapshot i state path size_bytes metadata now d =
     and_then (optional_i64 size_bytes ''snapshot size'') (\<lambda>_.
     and_then (require_changed (count_where (\<lambda>r. s_id r = i) (snapshots d)) ''snapshot'') (\<lambda>_.
     let d1 = d\<lparr>snapshots := update_where (\<lambda>r. s_id r = i) (\<lambda>r. r\<lparr>s_state := state,
           s_disk_path := (case path of Some p \<Rightarrow> Some p | None \<Rightarrow> s_disk_path r),
           s_size := (case size_bytes of Some n \<Rightarrow> Some n | None \<Rightarrow> s_size r),
           s_metadata := given metadata (s_metadata r), s_updated_at := now,
           s_completed_at := (if state = SnapReady \<or> state = SnapError then Some now else s_completed_at r)\<rparr>) (snapshots d)\<rparr> in
     and_then (ok_or (query_snapshot d1 i) (NotFound ''snapshot'')) (\<lambda>r. Inr (d1, r))))"

definition delete_snapshot_record :: "string \<Rightarrow> db \<Rightarrow> unit transaction" where
  "delete_snapshot_record i d =
     and_then (require_changed (count_where (\<lambda>r. s_id r = i) (snapshots d)) ''snapshot'') (\<lambda>_.
     Inr (d\<lparr>snapshots := delete_where (\<lambda>r. s_id r = i) (snapshots d)\<rparr>, ()))"

definition list_snapshots :: "string \<Rightarrow> db \<Rightarrow> snapshot_row list" where
  "list_snapshots vm d = sort_key (\<lambda>r. - s_created_at r) (filter (\<lambda>r. s_vm r = vm) (snapshots d))"

section \<open>Provisioning seeds\<close>

definition is_windows_os_family :: "string \<Rightarrow> bool" where
  "is_windows_os_family s \<longleftrightarrow> contains_word ''windows'' s"

definition windows_install_seed_is_present :: "('w, 'n) outside \<Rightarrow> vm_row \<Rightarrow> ('w, 'e, bool) step" where
  "windows_install_seed_is_present ow v =
     (if is_windows_os_family (v_os_family v) then world_read (ow_seed_present ow (ow_seed_path ow (v_id v))) else ret False)"

definition should_build_cloud_init :: "('w, 'n) outside \<Rightarrow> vm_image \<Rightarrow> ('w, app_error, bool) step" where
  "should_build_cloud_init ow i = (case i of
     Qcow2Image _ \<Rightarrow> chain (ask_backend ow) (\<lambda>b. ret (b = ''libvirt''))
   | RawImage _ \<Rightarrow> chain (ask_backend ow) (\<lambda>b. ret (b = ''libvirt''))
   | _ \<Rightarrow> ret False)"

definition show_platform :: "tools_platform \<Rightarrow> string" where
  "show_platform p = (case p of LinuxGuest \<Rightarrow> ''linux'' | WindowsGuest \<Rightarrow> ''windows'')"

definition ask_artifact :: "('w, 'n) outside \<Rightarrow> tools_platform \<Rightarrow> ('w, app_error, nat) step" where
  "ask_artifact ow p = outside_call ow (\<lambda>r. CallArtifact p (is_ok r)) (ow_artifact ow p)"

text \<open>The secret a seed carries: that of a pending rotation, else the current one.\<close>

definition seed_secret ::
  "('w, 'n) outside \<Rightarrow> string \<Rightarrow> tools_row \<Rightarrow> db \<Rightarrow> app_error + seed_tools" where
  "seed_secret ow vm t d =
     and_then (pending_tools_seed (ow_seal ow) (ow_master ow) vm d) (\<lambda>pending. case pending of
       Some p \<Rightarrow>
         and_then (ok_or (ps_platform p) null_column) (\<lambda>platform.
         and_then (ok_or (ps_provisioner p) null_column) (\<lambda>provisioner.
         Inr \<lparr>sd_platform = platform, sd_provisioner = provisioner, sd_secret = ps_secret p\<rparr>))
     | None \<Rightarrow>
         and_then (decrypt_secret (ow_seal ow) (ow_master ow) (t_envelope t) (tools_secret_context vm)) (\<lambda>secret.
         Inr \<lparr>sd_platform = t_platform t, sd_provisioner = t_provisioner t, sd_secret = secret\<rparr>))"

definition load_guest_tools_seed :: "('w, 'n) outside \<Rightarrow> string \<Rightarrow> ('w, app_error, seed_tools option) step" where
  "load_guest_tools_seed ow vm =
     chain (db_read (\<lambda>d. query_tools d vm)) (\<lambda>found. case found of
       None \<Rightarrow> ret None
     | Some t \<Rightarrow>
         if \<not> t_enabled t then ret None
         else
           chain (db_read (seed_secret ow vm t)) (\<lambda>r.
           chain (lifted r) (\<lambda>s.
           chain (ask_artifact ow (sd_platform s)) (\<lambda>size.
           chain (lifted (require (\<not> (size = 0 \<or> 64 * 1024 * 1024 < size)) (Conflict (''the configured ''
             @ show_platform (sd_platform s) @ '' Guest Tools artifact must contain 1 through 67108864 bytes'')))) (\<lambda>_.
           ret (Some s))))))"

definition seed_password :: "('w, 'n) outside \<Rightarrow> string \<Rightarrow> string option \<Rightarrow> ('w, app_error, string) step" where
  "seed_password ow vm staged = (case staged of
     Some envelope \<Rightarrow> lifted (decrypt_secret (ow_seal ow) (ow_master ow) envelope (vm_password_context vm))
   | None \<Rightarrow> chain (db_read (\<lambda>d. and_then (decrypt_vm_password (ow_seal ow) (ow_master ow) vm d)
       (\<lambda>p. ok_or p (Conflict ''VM has no encrypted guest password'')))) lifted)"

definition windows_tools :: "seed_tools \<Rightarrow> bool" where
  "windows_tools s \<longleftrightarrow> sd_platform s = WindowsGuest \<and> sd_provisioner s = CloudbaseNocloud"

definition some_windows_tools :: "seed_tools \<Rightarrow> bool" where
  "some_windows_tools s \<longleftrightarrow> sd_platform s = WindowsGuest \<or> sd_provisioner s = CloudbaseNocloud"

definition write_seed :: "('w, 'n) outside \<Rightarrow> seed_content \<Rightarrow> ('w, app_error, unit) step" where
  "write_seed ow c = outside_call ow (\<lambda>r. CallWriteSeed (v_id (sd_vm c)) (is_ok r)) (ow_write_seed ow c)"

text \<open>The rotation a seed carries is armed before the seed is published.\<close>

definition arm_rotation :: "('w, 'n) outside \<Rightarrow> string \<Rightarrow> string \<Rightarrow> ('w, app_error, unit) step" where
  "arm_rotation ow vm generation = chain (db_do ow (mark_rotation_installed vm generation)) (\<lambda>_. ret ())"

definition publish_seed ::
  "('w, 'n) outside \<Rightarrow> seed_content \<Rightarrow> string option \<Rightarrow> ('w, app_error, string) step" where
  "publish_seed ow c generation =
     chain (write_seed ow c) (\<lambda>_.
     chain (case generation of None \<Rightarrow> ret () | Some g \<Rightarrow> arm_rotation ow (v_id (sd_vm c)) g) (\<lambda>_.
     outside_call ow (\<lambda>r. CallPublishSeed (v_id (sd_vm c)) (is_ok r)) (ow_publish_seed ow (v_id (sd_vm c)))))"

text \<open>
  \<open>build_cloud_init_seed\<close> with \<open>build_cloudbase_seed\<close> and \<open>write_seed_iso\<close>. What the seed says
  is composed and written outside; here is what it is composed from and when it appears.
\<close>

definition build_cloud_init_seed ::
  "('w, 'n) outside \<Rightarrow> vm_row \<Rightarrow> string option \<Rightarrow> string option \<Rightarrow> ('w, app_error, string) step" where
  "build_cloud_init_seed ow v staged generation =
     chain (seed_password ow (v_id v) staged) (\<lambda>password.
     chain (load_guest_tools_seed ow (v_id v)) (\<lambda>guest_tools.
     let windows = (is_windows_os_family (v_os_family v)
           \<or> (case guest_tools of None \<Rightarrow> False | Some s \<Rightarrow> some_windows_tools s)) in
     chain (lifted (require (\<not> windows \<or> (case guest_tools of None \<Rightarrow> True | Some s \<Rightarrow> windows_tools s))
       (Conflict ''Windows Guest Tools requires the Cloudbase-Init NoCloud provisioner''))) (\<lambda>_.
     chain (db_read (vm_ip_addresses (v_id v))) (\<lambda>addresses.
     chain (lifted (route_plan v)) (\<lambda>_.
     publish_seed ow \<lparr>sd_format = (if windows then CloudbaseSeed else CloudInitSeed), sd_vm = v,
       sd_password = password, sd_addresses = addresses, sd_tools = guest_tools\<rparr> generation)))))"

text \<open>\<open>build_windows_unattend_seed\<close> with \<open>write_unattend_iso\<close>: it arms only when it carries Guest Tools.\<close>

definition build_windows_unattend_seed ::
  "('w, 'n) outside \<Rightarrow> vm_row \<Rightarrow> string option \<Rightarrow> vm_image \<Rightarrow> string option \<Rightarrow> ('w, app_error, string) step" where
  "build_windows_unattend_seed ow v staged image_used generation =
     chain (lifted (require (is_unattended_windows image_used)
       (Validation ''Windows unattended seed requires an unattended Windows image''))) (\<lambda>_.
     chain (seed_password ow (v_id v) staged) (\<lambda>password.
     chain (db_read (vm_ip_addresses (v_id v))) (\<lambda>addresses.
     chain (lifted (route_plan v)) (\<lambda>_.
     chain (load_guest_tools_seed ow (v_id v)) (\<lambda>guest_tools.
     chain (lifted (require (case guest_tools of None \<Rightarrow> True | Some s \<Rightarrow> windows_tools s)
       (Conflict ''unattended Windows Guest Tools requires the Windows seed provisioner''))) (\<lambda>_.
     publish_seed ow \<lparr>sd_format = UnattendSeed, sd_vm = v, sd_password = password, sd_addresses = addresses,
       sd_tools = guest_tools\<rparr> (if guest_tools = None then None else generation)))))))"

definition remove_vm_provisioning_seed :: "('w, 'n) outside \<Rightarrow> string \<Rightarrow> ('w, app_error, bool) step" where
  "remove_vm_provisioning_seed ow vm =
     chain (outcome (unlink_file ow (ow_seed_path ow vm))) (\<lambda>r.
     chain (case r of Inr _ \<Rightarrow> ret True
       | Inl e \<Rightarrow> if ie_kind e = IoNotFound then ret False else raise (app_error_of_io e)) (\<lambda>removed.
     chain (world_read (ow_seed_root ow)) (\<lambda>root.
     chain (case root of
       Inr is_dir \<Rightarrow>
         if is_dir then with_error app_error_of_io (outside_call ow (\<lambda>r. CallSyncRoot (is_ok r)) (ow_sync_root ow))
         else raise (Configuration ''cloud-init storage is not a directory'')
     | Inl e \<Rightarrow> if ie_kind e = IoNotFound \<and> \<not> removed then ret () else raise (app_error_of_io e)) (\<lambda>_.
     ret removed))))"

section \<open>The bootstrap that follows a start\<close>

definition bootstrap_payload :: "string option \<Rightarrow> timestamp \<Rightarrow> string \<Rightarrow> json" where
  "bootstrap_payload expected deadline parent = JObj [
     (''deadline'', JNum (if deadline < 0 then CHR ''-'' # show_dec (- deadline) else show_dec deadline)),
     (''expected_generation'', case expected of Some g \<Rightarrow> JStr g | None \<Rightarrow> JNull),
     (''parent_job_id'', JStr parent)]"

definition enqueue_guest_tools_bootstrap ::
  "('w, 'n) outside \<Rightarrow> job_row \<Rightarrow> vm_row \<Rightarrow> string option \<Rightarrow> ('w, app_error, job_row option) step" where
  "enqueue_guest_tools_bootstrap ow parent v expected =
     chain (db_read (\<lambda>d. query_tools d (v_id v))) (\<lambda>record.
     let routeros = is_routeros_vm v; windows = is_windows_os_family (v_os_family v) in
     if (case record of None \<Rightarrow> True | Some t \<Rightarrow> \<not> t_enabled t) \<and> \<not> routeros then ret None
     else
       chain (world_read (ow_now ow)) (\<lambda>now.
       chain (draw (ow_uuid ow)) (\<lambda>fresh.
       chain (db_do ow (\<lambda>t. enqueue_bootstrap_job fresh t \<lparr>nj_kind = ''vm.guest_tools.bootstrap'', nj_vm = Some (v_id v),
         nj_payload = bootstrap_payload expected (sat_add now (if windows then 30 * 60 else 10 * 60)) (j_id parent),
         nj_key = None, nj_run_after = Some (sat_add now 3), nj_max_attempts = (if windows then 361 else 121),
         nj_actor_type = j_actor_type parent, nj_actor_id = j_actor_id parent\<rparr>)) (\<lambda>job.
       chain (when_do (case record of None \<Rightarrow> False | Some t \<Rightarrow> t_status t \<noteq> ToolsReady \<or> expected \<noteq> None)
         (ignored (set_tools_status ow (v_id v) ToolsPending None None False))) (\<lambda>_.
       ret (Some job))))))"

end
