(* ===== verification/Worker.thy ===== *)
theory Worker
  imports Worker_Steps
begin

text \<open>
  The job worker (\<open>src/services/background.rs\<close>): one definition per kind of job, the dispatch
  of \<open>execute_job\<close>, what \<open>execute_claimed_job\<close> writes about its outcome, and the turns of
  \<open>job_loop\<close>. Audit events and log lines are not modelled.
\<close>

section \<open>Shared steps\<close>

definition hv_step :: "('w, hv_error, 'a) step \<Rightarrow> ('w, app_error, 'a) step" where
  "hv_step m = with_error app_error_of_hv m"

definition job_progress :: "('w, 'n) outside \<Rightarrow> job_row \<Rightarrow> rat \<Rightarrow> ('w, app_error, unit) step" where
  "job_progress ow job x = db_do ow (update_job_progress (j_id job) (Some x))"

definition payload_text :: "string \<Rightarrow> job_row \<Rightarrow> string option" where
  "payload_text k job = get_str k (j_payload job)"

definition job_answer :: "payload_lib \<Rightarrow> vm_info \<Rightarrow> job_row option \<Rightarrow> json" where
  "job_answer px info b = JObj [
     (''guest_tools_bootstrap'', case b of Some j \<Rightarrow> px_show_job px j | None \<Rightarrow> JNull),
     (''vm'', px_show_info px info)]"

text \<open>The start that was asked for, after everything a guest needs is in place.\<close>

definition start_provisioned ::
  "('w, 'n) outside \<Rightarrow> vm_row \<Rightarrow> bool \<Rightarrow> bool \<Rightarrow> vm_info \<Rightarrow> ('w, app_error, vm_info) step" where
  "start_provisioned ow v start unattended info =
     (if start then
        chain (hv_step (ask_power ow (v_name v) PowerStart)) (\<lambda>i.
        chain (when_do unattended (hv_step (ask_acknowledge ow (v_name v)))) (\<lambda>_.
        chain (sync_vm_info ow (Some (v_id v)) i) (\<lambda>_. ret i)))
      else ret info)"

definition bootstrap_if ::
  "('w, 'n) outside \<Rightarrow> bool \<Rightarrow> job_row \<Rightarrow> vm_row \<Rightarrow> string option \<Rightarrow> ('w, app_error, job_row option) step" where
  "bootstrap_if ow b job v expected = (if b then enqueue_guest_tools_bootstrap ow job v expected else ret None)"

section \<open>Creation\<close>

definition create_seed ::
  "('w, 'n) outside \<Rightarrow> job_row \<Rightarrow> create_request \<Rightarrow> ('w, app_error, create_request) step" where
  "create_seed ow job r =
     (if is_unattended_windows (cr_image r) then
        chain (read_vm job) (\<lambda>v.
        chain (build_windows_unattend_seed ow v None (cr_image r) None) (\<lambda>path.
        ret (r\<lparr>cr_cloud_init := Some path\<rparr>)))
      else
        chain (should_build_cloud_init ow (cr_image r)) (\<lambda>build.
        if build then
          chain (read_vm job) (\<lambda>v.
          chain (build_cloud_init_seed ow v None None) (\<lambda>path.
          ret (r\<lparr>cr_cloud_init := Some path\<rparr>)))
        else ret r))"

definition execute_create :: "('w, 'n) outside \<Rightarrow> payload_lib \<Rightarrow> job_row \<Rightarrow> ('w, app_error, json) step" where
  "execute_create ow px job =
     chain (lifted (payload_field (px_create px) ''request'' (j_payload job))) (\<lambda>asked.
     let request = asked\<lparr>cr_start := False\<rparr> in
     chain (when_do (is_manual_installer (cr_image asked))
       (chain (read_vm job) (\<lambda>v. db_do ow (clear_vm_password (v_id v))))) (\<lambda>_.
     chain (read_vm job) (\<lambda>routed_vm.
     chain (reconcile_routed_vm ow routed_vm) (\<lambda>_.
     chain (create_seed ow job request) (\<lambda>seeded.
     chain (hv_step (ask_create ow seeded)) (\<lambda>info.
     chain (sync_vm_info ow (j_vm job) info) (\<lambda>_.
     chain (read_vm job) (\<lambda>v.
     chain (ensure_vm_network_policy ow v) (\<lambda>_.
     chain (start_provisioned ow v (cr_start asked) (is_unattended_windows (cr_image asked)) info) (\<lambda>final.
     chain (reconcile_vm_traffic ow (v_id v) True) (\<lambda>_.
     chain (bootstrap_if ow (cr_start asked) job v None) (\<lambda>b.
     ret (job_answer px final b)))))))))))))"

section \<open>Deletion\<close>

definition delete_target :: "job_row \<Rightarrow> app_error + string" where
  "delete_target job = ok_or (case j_vm job of Some i \<Rightarrow> Some i | None \<Rightarrow> payload_text ''target_vm_id'' job)
     (Validation ''delete job is missing target_vm_id'')"

definition delete_name :: "job_row \<Rightarrow> vm_row option \<Rightarrow> app_error + string" where
  "delete_name job found = ok_or (case found of Some v \<Rightarrow> Some (v_name v) | None \<Rightarrow> payload_text ''target_vm_name'' job)
     (Validation ''delete job is missing target_vm_name'')"

definition deletion_locked :: "vm_row option \<Rightarrow> bool" where
  "deletion_locked found \<longleftrightarrow> (case found of None \<Rightarrow> False | Some v \<Rightarrow> disk_protection ''deletion_lock'' v)"

definition delete_storage :: "job_row \<Rightarrow> bool" where
  "delete_storage job \<longleftrightarrow> (case Option.bind (json_get ''delete_storage'' (j_payload job)) json_bool of
     Some b \<Rightarrow> b | None \<Rightarrow> True)"

definition remove_domain :: "('w, 'n) outside \<Rightarrow> string \<Rightarrow> bool \<Rightarrow> ('w, app_error, unit) step" where
  "remove_domain ow name storage =
     chain (outcome (ask_delete ow name storage)) (\<lambda>r. case r of
       Inr _ \<Rightarrow> ret ()
     | Inl e \<Rightarrow> (case e of HvNotFound _ \<Rightarrow> ret () | _ \<Rightarrow> raise (app_error_of_hv e)))"

definition remove_socket :: "('w, 'n) outside \<Rightarrow> string \<Rightarrow> ('w, 'e, unit) step" where
  "remove_socket ow vm = (case socket_path (ow_socket_dir ow) vm of
     Inr path \<Rightarrow> ignored (unlink_file ow path) | Inl _ \<Rightarrow> ret ())"

definition deleted_answer :: "string \<Rightarrow> bool \<Rightarrow> json" where
  "deleted_answer vm absent =
     JObj [(''already_absent'', JBool absent), (''deleted'', JBool True), (''vm_id'', JStr vm)]"

definition execute_delete :: "('w, 'n) outside \<Rightarrow> job_row \<Rightarrow> ('w, app_error, json) step" where
  "execute_delete ow job =
     chain (lifted (delete_target job)) (\<lambda>target.
     chain (db_read (\<lambda>d. query_vm d target)) (\<lambda>found.
     chain (lifted (delete_name job found)) (\<lambda>name.
     chain (lifted (require (\<not> deletion_locked found)
       (Conflict ''VM deletion is blocked by its disk-protection lock''))) (\<lambda>_.
     chain (remove_domain ow name (delete_storage job)) (\<lambda>_.
     chain (job_progress ow job 45) (\<lambda>_.
     chain (case found of Some v \<Rightarrow> chain (cleanup_routed_vm ow v) (\<lambda>_. ret ()) | None \<Rightarrow> ret ()) (\<lambda>_.
     chain (remove_vm_provisioning_seed ow target) (\<lambda>_.
     chain (job_progress ow job 75) (\<lambda>_.
     chain (remove_socket ow target) (\<lambda>_.
     chain (when_do (found \<noteq> None) (db_do ow (delete_vm target))) (\<lambda>_.
     ret (deleted_answer target (found = None)))))))))))))"

section \<open>Power and size\<close>

definition brings_up :: "power_action \<Rightarrow> bool" where
  "brings_up a \<longleftrightarrow> a \<in> {PowerStart, PowerReboot, PowerReset, PowerResume}"

definition execute_power :: "('w, 'n) outside \<Rightarrow> payload_lib \<Rightarrow> job_row \<Rightarrow> ('w, app_error, json) step" where
  "execute_power ow px job =
     chain (read_vm job) (\<lambda>v.
     chain (lifted (payload_field (px_power px) ''action'' (j_payload job))) (\<lambda>a.
     chain (when_do (brings_up a) (chain (reconcile_routed_vm ow v) (\<lambda>_. ensure_vm_network_policy ow v))) (\<lambda>_.
     chain (hv_step (ask_power ow (v_name v) a)) (\<lambda>info.
     chain (if a = PowerStart then windows_install_seed_is_present ow v else ret False) (\<lambda>install_media.
     chain (when_do install_media (hv_step (ask_acknowledge ow (v_name v)))) (\<lambda>_.
     chain (sync_vm_info ow (Some (v_id v)) info) (\<lambda>_.
     chain (reconcile_vm_traffic ow (v_id v) True) (\<lambda>_.
     chain (if brings_up a then chain (db_read (installed_rotation_generation (v_id v)))
         (enqueue_guest_tools_bootstrap ow job v) else ret None) (\<lambda>b.
     ret (job_answer px info b))))))))))"

definition execute_resize :: "('w, 'n) outside \<Rightarrow> payload_lib \<Rightarrow> job_row \<Rightarrow> ('w, app_error, json) step" where
  "execute_resize ow px job =
     chain (read_vm job) (\<lambda>v.
     chain (lifted (payload_field (px_resize px) ''request'' (j_payload job))) (\<lambda>r.
     chain (hv_step (ask_resize ow (v_name v) r)) (\<lambda>info.
     chain (case rz_network_limit r of
       Some limit \<Rightarrow> chain (db_do ow (patch_vm (v_id v) (no_patch\<lparr>z_network_limit := Some limit\<rparr>))) (\<lambda>_. ret ())
     | None \<Rightarrow> ret ()) (\<lambda>_.
     chain (sync_vm_info ow (Some (v_id v)) info) (\<lambda>_.
     ret (JObj [(''vm'', px_show_info px info)]))))))"

section \<open>Reinstallation\<close>

definition reinstall_snapshot_description :: string where
  "reinstall_snapshot_description = ''Automatic disk-protection snapshot before reinstall''"

definition snapshot_before_reinstall ::
  "('w, 'n) outside \<Rightarrow> payload_lib \<Rightarrow> job_row \<Rightarrow> vm_row \<Rightarrow> ('w, app_error, unit) step" where
  "snapshot_before_reinstall ow px job v =
     chain (world_read (ow_now ow)) (\<lambda>now.
     let name = ''pre-reinstall-'' @ px_stamp px now in
     chain (draw (ow_uuid ow)) (\<lambda>fresh.
     chain (db_do ow (\<lambda>t. create_snapshot fresh (v_id v) name reinstall_snapshot_description False (JObj [
       (''automatic'', JBool True), (''job_id'', JStr (j_id job)), (''reason'', JStr ''pre_reinstall'')]) t)) (\<lambda>record.
     chain (outcome (ask_snapshot ow (v_name v)
       \<lparr>sq_name = name, sq_description = Some reinstall_snapshot_description\<rparr>)) (\<lambda>r. case r of
       Inr made \<Rightarrow> chain (db_do ow (update_snapshot (s_id record) SnapReady None None
         (Some (px_show_snapshot px made)))) (\<lambda>_. ret ())
     | Inl e \<Rightarrow> chain (ignored (db_do ow (update_snapshot (s_id record) SnapError None None
         (Some (JObj [(''error'', JStr (hv_error_text e))]))))) (\<lambda>_. raise (app_error_of_hv e))))))"

text \<open>
  Where the new key of the guest is armed: with the seed that carries it, or here when the image
  takes none, in either case before the disk is replaced.
\<close>

definition reinstall_seed ::
  "('w, 'n) outside \<Rightarrow> vm_row \<Rightarrow> vm_row \<Rightarrow> string option \<Rightarrow> string option \<Rightarrow> reinstall_request
    \<Rightarrow> ('w, app_error, reinstall_request) step" where
  "reinstall_seed ow v provisioning_vm staged generation r =
     (if is_unattended_windows (re_image r) then
        chain (build_windows_unattend_seed ow provisioning_vm staged (re_image r) generation) (\<lambda>path.
        ret (r\<lparr>re_cloud_init := Some path\<rparr>))
      else
        chain (should_build_cloud_init ow (re_image r)) (\<lambda>build.
        if build then
          chain (build_cloud_init_seed ow provisioning_vm staged generation) (\<lambda>path.
          ret (r\<lparr>re_cloud_init := Some path\<rparr>))
        else (case generation of
          Some g \<Rightarrow> chain (arm_rotation ow (v_id v) g) (\<lambda>_. ret r)
        | None \<Rightarrow> ret r)))"

definition replaced_vm :: "job_row \<Rightarrow> vm_row \<Rightarrow> vm_row" where
  "replaced_vm job v = v\<lparr>
     v_iso := (case payload_text ''replacement_iso_id'' job of Some i \<Rightarrow> Some i | None \<Rightarrow> v_iso v),
     v_os_family := given (payload_text ''replacement_os_family'' job) (v_os_family v),
     v_root_username := given (payload_text ''replacement_root_username'' job) (v_root_username v)\<rparr>"

definition replacement_patch :: "job_row \<Rightarrow> vm_patch option" where
  "replacement_patch job =
     (let image = payload_text ''replacement_iso_id'' job; family = payload_text ''replacement_os_family'' job;
          root = payload_text ''replacement_root_username'' job in
      if image = None \<and> family = None \<and> root = None then None
      else Some (no_patch\<lparr>z_iso := map_option Some image, z_os_family := family, z_root_username := root\<rparr>))"

text \<open>After the disk is replaced: the panel's record follows the new guest before anything can fail.\<close>

definition adopt_reinstalled ::
  "('w, 'n) outside \<Rightarrow> job_row \<Rightarrow> vm_row \<Rightarrow> vm_info \<Rightarrow> ('w, app_error, vm_row) step" where
  "adopt_reinstalled ow job v info =
     chain (db_do ow (commit_reinstall_password (j_id job))) (\<lambda>_.
     chain (case replacement_patch job of
       Some z \<Rightarrow> chain (db_do ow (patch_vm (v_id v) z)) (\<lambda>_. ret ()) | None \<Rightarrow> ret ()) (\<lambda>_.
     chain (when_do (get_flag ''disable_guest_tools_after_success'' (j_payload job))
       (chain (db_do ow (\<lambda>_. retire_tools (v_id v))) (\<lambda>_. ret ()))) (\<lambda>_.
     chain (sync_vm_info ow (Some (v_id v)) info) (\<lambda>_.
     chain (db_read (\<lambda>d. query_vm d (v_id v))) (\<lambda>found.
     lifted (ok_or found (NotFound ''VM'')))))))"

definition execute_reinstall :: "('w, 'n) outside \<Rightarrow> payload_lib \<Rightarrow> job_row \<Rightarrow> ('w, app_error, json) step" where
  "execute_reinstall ow px job =
     chain (read_vm job) (\<lambda>v.
     chain (reconcile_routed_vm ow v) (\<lambda>_.
     chain (lifted (payload_field (px_reinstall px) ''request'' (j_payload job))) (\<lambda>asked.
     let request = asked\<lparr>re_start := False\<rparr>; staged = payload_text staged_password_field job;
         generation = payload_text staged_generation_field job in
     chain (when_do (disk_protection ''snapshot_before_reinstall'' v) (snapshot_before_reinstall ow px job v)) (\<lambda>_.
     chain (lifted (require (\<not> (get_flag ''clear_password_after_success'' (j_payload job) \<and> staged \<noteq> None))
       (Validation ''manual reinstall job cannot stage a guest password''))) (\<lambda>_.
     chain (reinstall_seed ow v (replaced_vm job v) staged generation request) (\<lambda>seeded.
     chain (hv_step (ask_reinstall ow (v_name v) seeded)) (\<lambda>info.
     chain (adopt_reinstalled ow job v info) (\<lambda>refreshed.
     chain (ensure_vm_network_policy ow refreshed) (\<lambda>_.
     chain (start_provisioned ow refreshed (re_start asked) (is_unattended_windows (re_image asked)) info) (\<lambda>final.
     chain (reconcile_vm_traffic ow (v_id v) True) (\<lambda>_.
     chain (bootstrap_if ow (re_start asked) job refreshed generation) (\<lambda>b.
     ret (job_answer px final b)))))))))))))"

section \<open>Guest Tools and snapshots\<close>

definition bootstrap_answer :: "bootstrap_result \<Rightarrow> json" where
  "bootstrap_answer b = JObj [(''guest_tools'', JObj [
     (''installed_version'', JStr (br_installed b)), (''promoted_rotation'', JBool (br_promoted b)),
     (''seed_media_retired'', JBool (br_retired b)), (''superseded'', JBool (br_superseded b))])]"

definition execute_bootstrap :: "('w, 'n) outside \<Rightarrow> job_row \<Rightarrow> ('w, app_error, json) step" where
  "execute_bootstrap ow job =
     chain (read_vm job) (\<lambda>v.
     chain (lifted (require (v_state v = VmRunning)
       (Conflict ''VM is not running yet; Guest Tools bootstrap will retry''))) (\<lambda>_.
     chain (bootstrap ow v (payload_text ''expected_generation'' job)) (\<lambda>b. ret (bootstrap_answer b))))"

definition execute_snapshot :: "('w, 'n) outside \<Rightarrow> payload_lib \<Rightarrow> job_row \<Rightarrow> ('w, app_error, json) step" where
  "execute_snapshot ow px job =
     chain (read_vm job) (\<lambda>v.
     chain (lifted (payload_field (px_snapshot px) ''request'' (j_payload job))) (\<lambda>r.
     chain (hv_step (ask_snapshot ow (v_name v) r)) (\<lambda>made.
     chain (lifted (ok_or (payload_text ''snapshot_id'' job) (Validation ''snapshot job is missing snapshot_id''))) (\<lambda>i.
     chain (db_do ow (update_snapshot i SnapReady None None (Some (px_show_snapshot px made)))) (\<lambda>_.
     ret (JObj [(''snapshot'', px_show_snapshot px made)]))))))"

section \<open>Jobs\<close>

definition execute_job :: "('w, 'n) outside \<Rightarrow> payload_lib \<Rightarrow> job_row \<Rightarrow> ('w, app_error, json) step" where
  "execute_job ow px job =
     chain (job_progress ow job 10) (\<lambda>_.
     if j_kind job = ''vm.create'' then execute_create ow px job
     else if j_kind job = ''vm.delete'' then execute_delete ow job
     else if j_kind job = ''vm.power'' then execute_power ow px job
     else if j_kind job = ''vm.resize'' then execute_resize ow px job
     else if j_kind job = ''vm.reinstall'' then execute_reinstall ow px job
     else if j_kind job = ''vm.guest_tools.bootstrap'' then execute_bootstrap ow job
     else if j_kind job = ''vm.snapshot.create'' then execute_snapshot ow px job
     else raise (Validation (''unsupported job kind: '' @ j_kind job)))"

definition delete_error_is_retryable :: "app_error \<Rightarrow> bool" where
  "delete_error_is_retryable e \<longleftrightarrow> (case e of
     Database _ \<Rightarrow> True | HypervisorFailed _ \<Rightarrow> True | IoFailed _ \<Rightarrow> True | Internal _ \<Rightarrow> True | _ \<Rightarrow> False)"

definition job_deadline :: "job_row \<Rightarrow> timestamp \<Rightarrow> timestamp" where
  "job_deadline job now = (case Option.bind (json_get ''deadline'' (j_payload job)) json_i64 of
     Some t \<Rightarrow> t | None \<Rightarrow> now)"

definition tools_failed_now ::
  "('w, 'n) outside \<Rightarrow> string option \<Rightarrow> tools_status \<Rightarrow> string \<Rightarrow> ('w, 'e, unit) step" where
  "tools_failed_now ow vm status message = (case vm of
     Some i \<Rightarrow> ignored (set_tools_status ow i status None (Some message) False) | None \<Rightarrow> ret ())"

definition note_failed_snapshot :: "('w, 'n) outside \<Rightarrow> job_row \<Rightarrow> string \<Rightarrow> ('w, 'e, unit) step" where
  "note_failed_snapshot ow job message = (case payload_text ''snapshot_id'' job of
     Some i \<Rightarrow> ignored (db_do ow (update_snapshot i SnapError None None (Some (JObj [(''error'', JStr message)]))))
   | None \<Rightarrow> ret ())"

definition note_failed_vm :: "('w, 'n) outside \<Rightarrow> job_row \<Rightarrow> string \<Rightarrow> string \<Rightarrow> ('w, 'e, unit) step" where
  "note_failed_vm ow job vm message =
     chain (when_do (j_kind job = ''vm.create'') (ignored (unlink_file ow (ow_seed_path ow vm)))) (\<lambda>_.
     when_do (j_kind job = ''vm.create'' \<or> j_kind job = ''vm.reinstall'')
       (chain (ignored (db_do ow (set_vm_state vm VmError None None None))) (\<lambda>_.
        chain (db_read (\<lambda>d. query_tools d vm)) (\<lambda>t.
        when_do (j_kind job = ''vm.create'' \<or> (case t of None \<Rightarrow> False | Some r \<Rightarrow> t_pending_installed r))
          (tools_failed_now ow (Some vm) ToolsError message)))))"

definition delete_retry_at :: "job_row \<Rightarrow> app_error \<Rightarrow> timestamp \<Rightarrow> timestamp option" where
  "delete_retry_at job e now =
     (if j_kind job = ''vm.delete'' \<and> j_attempts job < j_max_attempts job \<and> delete_error_is_retryable e
      then Some (sat_add now (5 * int (max (j_attempts job) 1))) else None)"

definition bootstrap_kind :: string where
  "bootstrap_kind = ''vm.guest_tools.bootstrap''"

definition record_job_failure :: "('w, 'n) outside \<Rightarrow> job_row \<Rightarrow> app_error \<Rightarrow> timestamp \<Rightarrow> ('w, 'e, unit) step" where
  "record_job_failure ow job e now =
     (let message = app_error_text e in
      if j_kind job = bootstrap_kind \<and> now < job_deadline job now \<and> j_attempts job < j_max_attempts job then
        chain (tools_failed_now ow (j_vm job) ToolsUnavailable message) (\<lambda>_.
        ignored (db_do ow (\<lambda>_. fail_job (j_id job) message (Some (now + 5)) now)))
      else
        chain (when_do (j_kind job = bootstrap_kind) (tools_failed_now ow (j_vm job) ToolsError message)) (\<lambda>_.
        chain (when_do (j_kind job = ''vm.snapshot.create'') (note_failed_snapshot ow job message)) (\<lambda>_.
        chain (case j_vm job of Some vm \<Rightarrow> note_failed_vm ow job vm message | None \<Rightarrow> ret ()) (\<lambda>_.
        ignored (db_do ow (\<lambda>_. fail_job (j_id job) message (delete_retry_at job e now) now))))))"

definition record_job_outcome :: "('w, 'n) outside \<Rightarrow> job_row \<Rightarrow> app_error + json \<Rightarrow> ('w, 'e, unit) step" where
  "record_job_outcome ow job r =
     chain (world_read (ow_now ow)) (\<lambda>now. case r of
       Inr answer \<Rightarrow> ignored (db_do ow (\<lambda>_. finish_job (j_id job) answer now))
     | Inl e \<Rightarrow> record_job_failure ow job e now)"

definition execute_claimed_job :: "('w, 'n) outside \<Rightarrow> payload_lib \<Rightarrow> job_row \<Rightarrow> ('w, 'e, unit) step" where
  "execute_claimed_job ow px job = chain (outcome (execute_job ow px job)) (record_job_outcome ow job)"

text \<open>The start of \<open>job_loop\<close> and one turn of it; the sleep between turns is not modelled.\<close>

definition recover_at_start :: "('w, 'n) outside \<Rightarrow> ('w, 'e, unit) step" where
  "recover_at_start ow = ignored (db_do ow recover_interrupted_jobs)"

definition job_turn :: "('w, 'n) outside \<Rightarrow> payload_lib \<Rightarrow> string \<Rightarrow> ('w, 'e, unit) step" where
  "job_turn ow px worker =
     chain (outcome (db_do ow (claim_next_job worker))) (\<lambda>r. case r of
       Inr (Some job) \<Rightarrow> execute_claimed_job ow px job
     | _ \<Rightarrow> ret ())"

end
