(* ===== verification/Worker_Log.thy ===== *)
theory Worker_Log
  imports Worker
begin

text \<open>
  What the parts of a job write to the log of calls: which calls they can add, whatever the
  state, the tables and the answers from outside are.
\<close>

section \<open>Calls an action can add\<close>

abbreviation adding :: "(call \<Rightarrow> bool) \<Rightarrow> 'w entry list \<Rightarrow> 'w node \<Rightarrow> bool" where
  "adding A l \<equiv> \<lambda>s. \<exists>new. nd_log s = new @ l \<and> list_all A (map fst new)"

lemma adding_call [keeping]:
  assumes "\<And>r. A (entry r)"
  shows "keeps (adding A l) (outside_call ow entry f)"
  unfolding keeps_def
proof (intro allI impI, goal_cases)
  case (1 s)
  then obtain new where "nd_log s = new @ l" "list_all A (map fst new)" by blast
  then show ?case
    using assms by (intro exI [of _ "(entry (snd (f (nd_world s))), moment_of s) # new"]) (simp add: outside_call_def split: prod.split)
qed

lemma adding_quiet [keeping]:
  "keeps (adding A l) (db_do ow g)" "keeps (adding A l) (policy_do ow h)" "keeps (adding A l) (draw x)"
  "keeps (adding A l) (db_read r)" "keeps (adding A l) (policy_read q)" "keeps (adding A l) (world_read w)"
  by (auto simp: keeps_def db_do_def policy_do_def draw_def db_read_def policy_read_def world_read_def split: sum.split prod.split)

section \<open>Calls that run a guest\<close>

text \<open>The calls after which a guest may run that did not run before.\<close>

fun starts_guest :: "call \<Rightarrow> bool" where
  "starts_guest (CallPower n a b) = brings_up a"
| "starts_guest (CallCreate r b) = cr_start r"
| "starts_guest (CallReinstall n r b) = re_start r"
| "starts_guest _ = False"

abbreviation calm :: "'w entry list \<Rightarrow> 'w node \<Rightarrow> bool" where
  "calm \<equiv> adding (\<lambda>c. \<not> starts_guest c)"

lemma calm_asks [keeping]:
  "keeps (calm l) (ask_backend ow)" "keeps (calm l) (ask_active ow n)" "keeps (calm l) (ask_delete ow n b)"
  "keeps (calm l) (ask_acknowledge ow n)" "keeps (calm l) (ask_resize ow n z)" "keeps (calm l) (ask_link ow n b)"
  "keeps (calm l) (ask_snapshot ow n q)" "keeps (calm l) (ask_detach ow n p)" "keeps (calm l) (ask_agent ow n j)"
  "\<not> brings_up a \<Longrightarrow> keeps (calm l) (ask_power ow n a)"
  "\<not> cr_start r \<Longrightarrow> keeps (calm l) (ask_create ow r)" "\<not> re_start i \<Longrightarrow> keeps (calm l) (ask_reinstall ow n i)"
  "keeps (calm l) (ask_table ow)" "keeps (calm l) (apply_script ow script)" "keeps (calm l) (ask_ip ow args)"
  "keeps (calm l) (ask_artifact ow platform)" "keeps (calm l) (write_seed ow c)" "keeps (calm l) (unlink_file ow path)"
  "keeps (calm l) (ask_routeros_apply ow v g)" "keeps (calm l) (ask_routeros_bootstrap ow v)"
  unfolding ask_defs ask_table_def apply_script_def ask_ip_def ask_artifact_def write_seed_def unlink_file_def
    ask_routeros_apply_def ask_routeros_bootstrap_def
  by (simp_all add: keeping)

lemma calm_reconcile [keeping]: "keeps (calm l) (reconcile ow)"
  unfolding reconcile_def install_rules_def or_record_def record_reconcile_failure_def mark_profile_def mark_host_def Let_def
  by (intro keeping; simp?)

lemma calm_contain [keeping]: "keeps (calm l) (contain_vm_after_policy_failure ow v)"
  unfolding contain_vm_after_policy_failure_def
  by (auto intro!: keeping simp: brings_up_def split: hv_error.split)

lemma calm_policy [keeping]: "keeps (calm l) (ensure_vm_network_policy ow v)"
  unfolding ensure_vm_network_policy_def reconcile_vm_fail_closed_def vm_policy_enabled_def
  by (auto intro!: keeping)

lemma calm_routed [keeping]: "keeps (calm l) (reconcile_routed_vm ow v)" "keeps (calm l) (cleanup_routed_vm ow v)"
  unfolding reconcile_routed_vm_def cleanup_routed_vm_def interface_exists_def ensure_bridge_def set_up_def ensure_bridge_address_def
    ensure_tap_def ensure_tap_master_def ensure_public_route_def Let_def
  by (intro keeping)+

lemma calm_seeds [keeping]:
  "keeps (calm l) (seed_password ow i staged)" "keeps (calm l) (load_guest_tools_seed ow i)" "keeps (calm l) (publish_seed ow c g)"
  "keeps (calm l) (remove_vm_provisioning_seed ow i)" "keeps (calm l) (windows_install_seed_is_present ow v)"
  unfolding seed_password_def load_guest_tools_seed_def publish_seed_def arm_rotation_def remove_vm_provisioning_seed_def
    windows_install_seed_is_present_def
  by (intro keeping; simp)+

end
