(* ===== verification/Worker_Safety.thy ===== *)
theory Worker_Safety
  imports Worker_Log Fail_Closed
begin

text \<open>
  What comes first when the worker runs a guest: every call after which a guest may run is made
  in a panel where the network protection of the VM was just settled. The log of calls carries
  the tables and the outside each call was made in, so the statement is about the actual panel.
\<close>

section \<open>Protection first\<close>

text \<open>
  In the panel \<open>u\<close> the protection of \<open>v\<close> was just settled: the last call was the question which
  backend the host has, and it has no libvirt or no policy is enabled for the VM in the tables of \<open>u\<close>;
  or \<open>u\<close> is what a successful reconciliation left that began at a call of the log, from the panel as it was then.
\<close>

definition cleared_to_run :: "('w, 'n) outside \<Rightarrow> vm_row \<Rightarrow> 'w node \<Rightarrow> bool" where
  "cleared_to_run ow v u \<longleftrightarrow>
     (\<exists>b m rest. nd_log u = (CallCapabilities (Inr b), m) # rest
        \<and> (b \<noteq> ''libvirt'' \<or> \<not> policy_enabled (v_id v) (nd_db u) (nd_policy u)))
     \<or> (\<exists>since e rest x. nd_log u = since @ e # rest \<and> reconcile ow (node_at e rest) = (u, Inr x))"

lemma backend_asked:
  "ask_backend ow s = (m, Inr b) \<Longrightarrow> nd_log m = (CallCapabilities (Inr b), moment_of s) # nd_log s"
  unfolding ask_backend_def with_error_Inr using outside_call_result by blast

lemma begins_with_call:
  assumes "m = chain (policy_read host) (\<lambda>h. chain (ask_backend ow) (k h))" "\<And>h b l. keeps (logged l) (k h b)"
    and "m s = (t, Inr x)"
  shows "\<exists>since c. nd_log t = since @ (c, moment_of s) # nd_log s"
proof -
  obtain u b where u: "ask_backend ow s = (u, Inr b)" "k (host (nd_policy s)) b u = (t, Inr x)"
    using assms(3) unfolding assms(1) by (auto simp: policy_read_def chain_Inr)
  have "suffix (nd_log u) (nd_log t)" using keepsD [OF assms(2) _ u(2)] by simp
  then show ?thesis using backend_asked [OF u(1)] by (auto simp: suffix_def)
qed

text \<open>A reconciliation begins with a call, so the panel it began from is the one logged there.\<close>

lemma reconcile_logged:
  assumes "reconcile ow s = (t, Inr x)"
  shows "\<exists>since c. nd_log t = since @ (c, moment_of s) # nd_log s"
  by (rule begins_with_call [OF reconcile_def _ assms])
    (unfold install_rules_def or_record_def record_reconcile_failure_def mark_profile_def mark_host_def
      ask_table_def apply_script_def Let_def, intro keeping)

lemma ensured:
  assumes "ensure_vm_network_policy ow v s = (t, Inr u)"
  shows "cleared_to_run ow v t \<and> (\<exists>since c. nd_log t = since @ (c, moment_of s) # nd_log s)"
proof -
  obtain m b where m: "ask_backend ow s = (m, Inr b)"
    and k: "(if b \<noteq> ''libvirt'' then ret () else chain (vm_policy_enabled (v_id v)) (\<lambda>enabled.
      if \<not> enabled then ret () else chain (reconcile_vm_fail_closed ow v) (\<lambda>_. ret ()))) m = (t, Inr u)"
    using assms unfolding ensure_vm_network_policy_def chain_Inr by blast
  note asked = backend_asked [OF m]
  show ?thesis
  proof (cases "b = ''libvirt'' \<and> policy_enabled (v_id v) (nd_db m) (nd_policy m)")
    case True
    then obtain x where "reconcile_vm_fail_closed ow v m = (t, Inr x)"
      using k by (auto simp: vm_policy_enabled_def chain_Inr)
    then have r: "reconcile ow m = (t, Inr x)"
      unfolding reconcile_vm_fail_closed_def vm_policy_enabled_def chain_Inr chain_outcome
      by (cases "reconcile ow m"; cases "snd (reconcile ow m)")
        (auto simp: chain_Inr chain_outcome split: sum.splits if_splits prod.splits)
    obtain since c where t: "nd_log t = since @ (c, moment_of m) # nd_log m" using reconcile_logged [OF r] by blast
    then have "cleared_to_run ow v t" using r unfolding cleared_to_run_def by (metis node_at_moment)
    moreover have "nd_log t = (since @ [(c, moment_of m)]) @ (CallCapabilities (Inr b), moment_of s) # nd_log s"
      using t asked by simp
    ultimately show ?thesis by blast
  next
    case False
    then have "t = m" using k by (auto simp: vm_policy_enabled_def chain_Inr split: if_splits)
    then show ?thesis using asked False unfolding cleared_to_run_def by auto
  qed
qed

text \<open>
  A call that may run a guest is a power action on a VM looked up with one of the keys \<open>T\<close>, by
  the name its row had at an earlier call of the run, in a panel where its protection was just
  settled.
\<close>

definition start_cleared :: "('w, 'n) outside \<Rightarrow> string set \<Rightarrow> 'w entry \<Rightarrow> 'w entry list \<Rightarrow> 'w entry list \<Rightarrow> bool" where
  "start_cleared ow T e prior l \<longleftrightarrow> (\<exists>v a b. fst e = CallPower (v_name v) a b
     \<and> (\<exists>i \<in> T. \<exists>p \<in> set prior. query_vm (mo_db (snd p)) i = Some v) \<and> cleared_to_run ow v (node_at e (prior @ l)))"

fun vet :: "('w, 'n) outside \<Rightarrow> string set \<Rightarrow> 'w entry list \<Rightarrow> 'w entry list \<Rightarrow> bool" where
  "vet ow T l [] = True"
| "vet ow T l (e # es) \<longleftrightarrow> (starts_guest (fst e) \<longrightarrow> start_cleared ow T e es l) \<and> vet ow T l es"

lemma vet_calm: "list_all (\<lambda>c. \<not> starts_guest c) (map fst new) \<Longrightarrow> vet ow T l (new @ old) = vet ow T l old"
  by (induction new) auto

lemma vet_split: "vet ow T l (xs @ e # ys) \<Longrightarrow> starts_guest (fst e) \<Longrightarrow> start_cleared ow T e ys l"
  by (induction xs) auto

abbreviation vetted :: "('w, 'n) outside \<Rightarrow> string set \<Rightarrow> 'w entry list \<Rightarrow> 'w node \<Rightarrow> bool" where
  "vetted ow T l \<equiv> \<lambda>s. \<exists>new. nd_log s = new @ l \<and> vet ow T l new"

lemma vetted_calm:
  assumes "\<And>k. keeps (calm k) m"
  shows "keeps (vetted ow T l) m"
  unfolding keeps_def
proof (intro allI impI, goal_cases)
  case (1 s)
  then obtain new where n: "nd_log s = new @ l" "vet ow T l new" by blast
  obtain more where "nd_log (fst (m s)) = more @ nd_log s" "list_all (\<lambda>c. \<not> starts_guest c) (map fst more)"
    using assms [of "nd_log s", unfolded keeps_def, rule_format, OF exI [of _ "[]"]] by auto
  then show ?case using n vet_calm [of more ow T l new] by (intro exI [of _ "more @ new"]) simp
qed

text \<open>The VM of the job is known: its row is in the tables, or was at a call of the run.\<close>

abbreviation known :: "('w, 'n) outside \<Rightarrow> string set \<Rightarrow> 'w entry list \<Rightarrow> vm_row \<Rightarrow> 'w node \<Rightarrow> bool" where
  "known ow T l v \<equiv> \<lambda>s. \<exists>new. nd_log s = new @ l \<and> vet ow T l new
     \<and> (\<exists>i \<in> T. query_vm (nd_db s) i = Some v \<or> (\<exists>p \<in> set new. query_vm (mo_db (snd p)) i = Some v))"

lemma known_call [keeping]:
  assumes "\<And>r. \<not> starts_guest (entry r)"
  shows "keeps (known ow' T l v) (outside_call ow entry f)"
  unfolding keeps_def
proof (intro allI impI, goal_cases)
  case (1 s)
  then obtain new where n: "nd_log s = new @ l" "vet ow' T l new" "\<exists>i \<in> T. query_vm (nd_db s) i = Some v \<or> (\<exists>p \<in> set new. query_vm (mo_db (snd p)) i = Some v)" by blast
  obtain t r where t: "outside_call ow entry f s = (t, r)" by fastforce
  then have "nd_log t = ((entry r, moment_of s) # new) @ l" using outside_call_result [OF t] n(1) by simp
  moreover have "\<exists>i \<in> T. \<exists>p \<in> set ((entry r, moment_of s) # new). query_vm (mo_db (snd p)) i = Some v"
    using n(3) by auto
  ultimately show ?case using n(2) assms t by (intro exI [of _ "(entry r, moment_of s) # new"]) auto
qed

lemma known_quiet [keeping]:
  "keeps (known ow T l v) (draw x)" "keeps (known ow T l v) (db_read r)" "keeps (known ow T l v) (policy_read q)"
  "keeps (known ow T l v) (world_read w)"
  by (auto simp: keeps_def draw_def db_read_def policy_read_def world_read_def split: prod.split)

lemma known_ip [keeping]: "keeps (known ow T l v) (ask_ip ow' args)"
  unfolding ask_ip_def by (intro keeping) simp

lemma known_routed: "keeps (known ow T l v) (reconcile_routed_vm ow v)"
  unfolding reconcile_routed_vm_def interface_exists_def ensure_bridge_def set_up_def ensure_bridge_address_def
    ensure_tap_def ensure_tap_master_def ensure_public_route_def Let_def
  by (intro keeping)

lemma known_vetted: "known ow T l v s \<Longrightarrow> vetted ow T l s"
  by blast

lemma holds_power:
  assumes "\<And>i. keeps (vetted ow T l) (k i)"
  shows "holds (known ow T l v) (chain (ensure_vm_network_policy ow v) (\<lambda>_. chain (hv_step (ask_power ow (v_name v) a)) k))
    (\<lambda>_. vetted ow T l) (\<lambda>_. vetted ow T l)"
proof (rule holdsI, goal_cases)
  case (1 s)
  obtain u r where u: "ensure_vm_network_policy ow v s = (u, r)" by fastforce
  have v: "vetted ow T l u" using keepsD [OF vetted_calm [OF calm_policy] known_vetted [OF 1] u] .
  let ?m = "chain (ensure_vm_network_policy ow v) (\<lambda>_. chain (hv_step (ask_power ow (v_name v) a)) k)"
  have "vetted ow T l (fst (?m s))"
  proof (cases r)
    case Inl then show ?thesis using u v by (auto simp: chain_def)
  next
    case (Inr y)
    obtain new where n: "nd_log s = new @ l" "vet ow T l new" "\<exists>i \<in> T. query_vm (nd_db s) i = Some v \<or> (\<exists>p \<in> set new. query_vm (mo_db (snd p)) i = Some v)" using 1 by blast
    obtain since c where c: "nd_log u = since @ (c, moment_of s) # nd_log s" "cleared_to_run ow v u"
      using ensured u Inr by blast
    obtain later where later: "nd_log u = later @ l" "vet ow T l later" using v by blast
    have "later = since @ (c, moment_of s) # new" using c(1) n(1) later(1) by simp
    then have row: "\<exists>i \<in> T. \<exists>p \<in> set later. query_vm (mo_db (snd p)) i = Some v" using n(3) by auto
    obtain w q where w: "ask_power ow (v_name v) a u = (w, q)" by fastforce
    let ?e = "(CallPower (v_name v) a (is_ok q), moment_of u)"
    have "nd_log w = ?e # nd_log u"
      using w outside_call_result unfolding ask_power_def by blast
    moreover have "node_at ?e (later @ l) = u" using later(1) by (metis node_at_moment)
    then have "start_cleared ow T ?e later l" using row c(2) unfolding start_cleared_def by fastforce
    ultimately have "vetted ow T l w"
      using later by (intro exI [of _ "?e # later"]) simp
    then have "vetted ow T l (fst (k i w))" for i using assms unfolding keeps_def by blast
    then show ?thesis using u w Inr \<open>vetted ow T l w\<close> by (cases q) (simp_all add: chain_def hv_step_def with_error_def)
  qed
  then show ?case by (cases "?m s") (auto split: sum.split)
qed

section \<open>The steps of the jobs\<close>

lemma keeps_result:
  assumes "keeps I m" "\<And>s t a. m s = (t, Inr a) \<Longrightarrow> R a" "\<And>a. R a \<Longrightarrow> keeps I (f a)"
  shows "keeps I (chain m f)"
  unfolding keeps_def chain_def
proof (intro allI impI)
  fix s assume s: "I s"
  obtain t r where t: "m s = (t, r)" by fastforce
  then have "I t" using keepsD [OF assms(1) s] by blast
  then show "I (fst (case m s of (t, Inl e) \<Rightarrow> (t, Inl e) | (t, Inr a) \<Rightarrow> f a t))"
    using t assms(2) [of s t] assms(3) by (auto simp: keeps_def split: sum.split)
qed

lemma keeps_hv_step [keeping]: "keeps I m \<Longrightarrow> keeps I (hv_step m)"
  unfolding hv_step_def by (rule keeps_with_error)

lemma calm_sync [keeping]: "keeps (calm l) (sync_vm_info ow i info)"
  unfolding sync_vm_info_def Let_def by (intro keeping)

lemma calm_traffic [keeping]: "keeps (calm l) (reconcile_vm_traffic ow i force)"
  unfolding reconcile_vm_traffic_def traffic_step_def Let_def by (intro keeping)

lemma calm_read_vm [keeping]: "keeps (calm l) (read_vm job)"
  unfolding read_vm_def by (intro keeping)

lemma calm_bootstrap_job [keeping]: "keeps (calm l) (enqueue_guest_tools_bootstrap ow job v g)"
  unfolding enqueue_guest_tools_bootstrap_def set_tools_status_def Let_def by (intro keeping)

lemma calm_seed_image [keeping]:
  "keeps (calm l) (build_cloud_init_seed ow v staged g)" "keeps (calm l) (build_windows_unattend_seed ow v staged i g)"
  "keeps (calm l) (should_build_cloud_init ow i)"
  unfolding build_cloud_init_seed_def build_windows_unattend_seed_def should_build_cloud_init_def Let_def
  by (auto intro!: keeping split: vm_image.split)

lemma calm_exchange [keeping]: "keeps (calm l) (exchange ow path secret c)"
  unfolding exchange_def by (intro keeping) simp_all

lemma calm_bootstrap [keeping]: "keeps (calm l) (bootstrap ow v g)"
  unfolding bootstrap_def bootstrap_tools_def trust_guest_def retire_authenticated_seed_media_def set_tools_status_def
    query_client_secret_def Let_def
  by (intro keeping)

section \<open>The jobs\<close>

lemma vetted_parts [keeping]:
  "keeps (vetted ow T l) (job_progress ow job' x)" "keeps (vetted ow T l) (read_vm job')" "keeps (vetted ow T l) (db_read r)"
  "keeps (vetted ow T l) (db_do ow g)" "keeps (vetted ow T l) (world_read f)" "keeps (vetted ow T l) (draw y)"
  "keeps (vetted ow T l) (reconcile_routed_vm ow v)" "keeps (vetted ow T l) (cleanup_routed_vm ow v)"
  "keeps (vetted ow T l) (sync_vm_info ow i info)" "keeps (vetted ow T l) (reconcile_vm_traffic ow j force)"
  "keeps (vetted ow T l) (enqueue_guest_tools_bootstrap ow job' v e)" "keeps (vetted ow T l) (bootstrap ow v e)"
  "keeps (vetted ow T l) (ask_delete ow n b)" "keeps (vetted ow T l) (ask_snapshot ow n q)" "keeps (vetted ow T l) (ask_resize ow n z)"
  "keeps (vetted ow T l) (ask_acknowledge ow n)" "keeps (vetted ow T l) (unlink_file ow path)"
  "keeps (vetted ow T l) (remove_vm_provisioning_seed ow i')" "keeps (vetted ow T l) (windows_install_seed_is_present ow v)"
  "keeps (vetted ow T l) (should_build_cloud_init ow im)" "keeps (vetted ow T l) (build_cloud_init_seed ow v staged e)"
  "keeps (vetted ow T l) (build_windows_unattend_seed ow v staged im e)"
  "\<not> cr_start c \<Longrightarrow> keeps (vetted ow T l) (ask_create ow c)" "\<not> re_start re \<Longrightarrow> keeps (vetted ow T l) (ask_reinstall ow n re)"
  "\<not> brings_up a \<Longrightarrow> keeps (vetted ow T l) (ask_power ow n a)"
  unfolding job_progress_def by (rule vetted_calm; simp add: keeping)+

text \<open>
  The keys with which the worker looks up the VM of a job: the id the job names, and the id of the
  row that this id finds; rows are found by name too.
\<close>

definition job_keys :: "job_row \<Rightarrow> db \<Rightarrow> string set" where
  "job_keys job d = {i. \<exists>j. j_vm job = Some j \<and> (i = j \<or> (\<exists>w. query_vm d j = Some w \<and> i = v_id w))}"

lemma job_keys_vms: "vms d = vms d' \<Longrightarrow> job_keys job d = job_keys job d'"
  by (simp add: job_keys_def query_vm_def)

lemma read_vm_found: "read_vm job s = (t, Inr v) \<longleftrightarrow> t = s \<and> (\<exists>j. j_vm job = Some j \<and> query_vm (nd_db s) j = Some v)"
  by (auto simp: read_vm_def required_vm_def db_read_def chain_Inr result_simps)

lemma read_vm_state: "fst (read_vm job s) = s"
  by (auto simp: read_vm_def db_read_def chain_def split: sum.split)

lemma read_known:
  assumes "\<And>j. j_vm job = Some j \<Longrightarrow> j \<in> T"
  shows "holds (vetted ow T l) (read_vm job) (known ow T l) (\<lambda>_. vetted ow T l)"
proof (rule holdsI, goal_cases)
  case (1 s)
  obtain r where r: "read_vm job s = (s, r)" using read_vm_state by (metis prod.collapse)
  show ?case
  proof (cases r)
    case (Inr v)
    then obtain j where "j_vm job = Some j" "query_vm (nd_db s) j = Some v" using r by (auto simp: read_vm_found)
    then show ?thesis using 1 r Inr assms by auto
  qed (use 1 r in auto)
qed

lemma vetted_read:
  assumes "\<And>j. j_vm job = Some j \<Longrightarrow> j \<in> T"
    and "\<And>v. holds (known ow T l v) (f v) (\<lambda>_. vetted ow T l) (\<lambda>_. vetted ow T l)"
  shows "keeps (vetted ow T l) (chain (read_vm job) f)"
  unfolding keeps_holds by (rule holds_chain [OF read_known [OF assms(1)] assms(2)])

lemma known_then:
  assumes "keeps (known ow T l v) m" "\<And>a. holds (known ow T l v) (f a) (\<lambda>_. vetted ow T l) (\<lambda>_. vetted ow T l)"
  shows "holds (known ow T l v) (chain m f) (\<lambda>_. vetted ow T l) (\<lambda>_. vetted ow T l)"
  by (rule holds_chain [OF _ assms(2)], rule holds_weaken [OF assms(1) [unfolded keeps_holds]]) auto

lemma vetted_rest:
  "keeps (vetted ow T l) m \<Longrightarrow> holds (known ow T l v) m (\<lambda>_. vetted ow T l) (\<lambda>_. vetted ow T l)"
  unfolding keeps_holds by (erule holds_weaken) auto

lemma holds_start:
  assumes "\<And>i. keeps (vetted ow T l) (k i)"
  shows "holds (known ow T l v) (chain (ensure_vm_network_policy ow v) (\<lambda>_. chain (start_provisioned ow v start unattended info) k))
    (\<lambda>_. vetted ow T l) (\<lambda>_. vetted ow T l)"
proof (cases start)
  case True
  then show ?thesis unfolding start_provisioned_def
    by (simp add: chain_assoc) (intro holds_power keeping vetted_parts assms)
next
  case False
  then show ?thesis unfolding start_provisioned_def
    by (simp add: assms vetted_rest keeps_chain vetted_calm calm_policy)
qed

lemma read_and_start:
  assumes "\<And>j. j_vm job = Some j \<Longrightarrow> j \<in> T" "\<And>v i. keeps (vetted ow T l) (k v i)"
  shows "keeps (vetted ow T l) (chain (read_vm job) (\<lambda>v. chain (ensure_vm_network_policy ow v)
    (\<lambda>_. chain (start_provisioned ow v start unattended info) (k v))))"
  by (rule vetted_read [OF assms(1)], assumption, intro holds_start assms(2))

lemma adopted_known:
  assumes "v_id v \<in> T"
  shows "holds (vetted ow T l) (adopt_reinstalled ow job v info) (known ow T l) (\<lambda>_. vetted ow T l)"
proof -
  have found: "holds (vetted ow T l) (chain (db_read (\<lambda>d. query_vm d (v_id v))) (\<lambda>found. lifted (ok_or found (NotFound ''VM''))))
      (known ow T l) (\<lambda>_. vetted ow T l)"
  proof (rule holdsI, goal_cases)
    case (1 s)
    then show ?case
      using assms by (cases "query_vm (nd_db s) (v_id v)") (auto simp: db_read_def chain_def ok_or_def)
  qed
  show ?thesis
    unfolding adopt_reinstalled_def
    by (intro holds_chain [where R = "\<lambda>_. vetted ow T l"] found keeping [unfolded keeps_holds] vetted_parts [unfolded keeps_holds])
qed

lemma adopt_and_start:
  assumes "v_id v \<in> T" "\<And>r i. keeps (vetted ow T l) (k r i)"
  shows "keeps (vetted ow T l) (chain (adopt_reinstalled ow job v info) (\<lambda>r. chain (ensure_vm_network_policy ow r)
    (\<lambda>_. chain (start_provisioned ow r start unattended info) (k r))))"
  unfolding keeps_holds by (rule holds_chain [OF adopted_known [OF assms(1)]], intro holds_start assms(2))

lemma create_seed_start: "create_seed ow job r s = (t, Inr x) \<Longrightarrow> cr_start x = cr_start r"
  unfolding create_seed_def by (auto simp: chain_Inr split: if_splits)

lemma reinstall_seed_start: "reinstall_seed ow v p staged g r s = (t, Inr x) \<Longrightarrow> re_start x = re_start r"
  unfolding reinstall_seed_def by (auto simp: chain_Inr split: if_splits option.splits)

lemma vetted_create:
  assumes "\<And>j. j_vm job = Some j \<Longrightarrow> j \<in> T"
  shows "keeps (vetted ow T l) (execute_create ow px job)"
proof -
  have "keeps (vetted ow T l) (create_seed ow job r)" for r
    unfolding create_seed_def by (intro keeping)
  then show ?thesis
    unfolding execute_create_def Let_def bootstrap_if_def
    by (intro read_and_start [OF assms] keeping keeps_result [where m = "create_seed _ _ _" and R = "\<lambda>r. \<not> cr_start r"])
      (auto dest: create_seed_start)
qed

lemma vetted_power_job:
  assumes "\<And>j. j_vm job = Some j \<Longrightarrow> j \<in> T"
  shows "keeps (vetted ow T l) (execute_power ow px job)"
proof -
  have power: "holds (known ow T l v) (chain (when_do (brings_up a) (chain (reconcile_routed_vm ow v) (\<lambda>_. ensure_vm_network_policy ow v)))
     (\<lambda>_. chain (hv_step (ask_power ow (v_name v) a)) k)) (\<lambda>_. vetted ow T l) (\<lambda>_. vetted ow T l)"
    if "\<And>i. keeps (vetted ow T l) (k i)" for v a k
  proof (cases "brings_up a")
    case True
    then show ?thesis
      by (simp add: when_do_def chain_assoc) (intro known_then known_routed holds_power that)
  next
    case False
    then show ?thesis by (simp add: when_do_def) (intro vetted_rest keeping that)
  qed
  show ?thesis
    unfolding execute_power_def
    by (rule vetted_read [OF assms], assumption, rule known_then, rule keeping, rule power, intro keeping)
qed

lemma vetted_reinstall:
  "holds (\<lambda>s. vetted ow T l s \<and> job_keys job (nd_db s) \<subseteq> T) (execute_reinstall ow px job) (\<lambda>_. vetted ow T l) (\<lambda>_. vetted ow T l)"
proof -
  have seed: "keeps (vetted ow T l) (reinstall_seed ow v p staged g r)" for v p staged g r
    unfolding reinstall_seed_def arm_rotation_def by (intro keeping)
  have snapshot: "keeps (vetted ow T l) (snapshot_before_reinstall ow px job v)" for v
    unfolding snapshot_before_reinstall_def Let_def by (intro keeping)
  have read: "holds (\<lambda>s. vetted ow T l s \<and> job_keys job (nd_db s) \<subseteq> T) (read_vm job)
      (\<lambda>v s. v_id v \<in> T \<and> vetted ow T l s) (\<lambda>_. vetted ow T l)"
  proof (rule holdsI, goal_cases)
    case (1 s)
    obtain r where r: "read_vm job s = (s, r)" using read_vm_state by (metis prod.collapse)
    show ?case
    proof (cases r)
      case (Inr v)
      then obtain j where "j_vm job = Some j" "query_vm (nd_db s) j = Some v" using r by (auto simp: read_vm_found)
      then have "v_id v \<in> T" using 1 by (auto simp: job_keys_def)
      then show ?thesis using 1 r Inr by auto
    qed (use 1 r in auto)
  qed
  have pure: "holds (\<lambda>s. b \<and> P s) m Q E" if "b \<Longrightarrow> holds P m Q E" for b P and m :: "('a, app_error, json) step" and Q E
    using that by (simp add: holds_def)
  show ?thesis
    unfolding execute_reinstall_def Let_def bootstrap_if_def
    by (rule holds_chain [OF read], rule pure, unfold keeps_holds [symmetric])
      (intro adopt_and_start keeping seed snapshot
        keeps_result [where m = "reinstall_seed _ _ _ _ _ _" and R = "\<lambda>r. \<not> re_start r"]; auto dest: reinstall_seed_start)
qed

lemma vetted_job:
  assumes "\<And>j. j_vm job = Some j \<Longrightarrow> j \<in> T"
  shows "holds (\<lambda>s. vetted ow T l s \<and> job_keys job (nd_db s) \<subseteq> T) (execute_job ow px job) (\<lambda>_. vetted ow T l) (\<lambda>_. vetted ow T l)"
proof -
  have "keeps (vetted ow T l) (execute_delete ow job)"
    unfolding execute_delete_def remove_domain_def remove_socket_def
    by (auto intro!: keeping split: hv_error.split sum.split)
  moreover have "keeps (vetted ow T l) (execute_resize ow px job)" "keeps (vetted ow T l) (execute_bootstrap ow job)"
    "keeps (vetted ow T l) (execute_snapshot ow px job)"
    unfolding execute_resize_def execute_bootstrap_def execute_snapshot_def by (intro keeping)+
  moreover have "holds (\<lambda>s. vetted ow T l s \<and> job_keys job (nd_db s) \<subseteq> T) (job_progress ow job 10)
      (\<lambda>_ s. vetted ow T l s \<and> job_keys job (nd_db s) \<subseteq> T) (\<lambda>_. vetted ow T l)"
    by (rule holdsI) (auto simp: job_progress_def db_do_def update_job_progress_def job_keys_def query_vm_def result_simps
        and_then_def Let_def split: sum.split option.split if_splits)
  moreover have "holds (\<lambda>s. vetted ow T l s \<and> job_keys job (nd_db s) \<subseteq> T) m (\<lambda>_. vetted ow T l) (\<lambda>_. vetted ow T l)"
    if "keeps (vetted ow T l) m" for m :: "('a, app_error, json) step"
    using that unfolding keeps_holds by (rule holds_weaken) auto
  ultimately show ?thesis
    unfolding execute_job_def
    by (intro holds_chain [where R = "\<lambda>_ s. vetted ow T l s \<and> job_keys job (nd_db s) \<subseteq> T"] holds_if)
      (auto intro: vetted_create [OF assms] vetted_power_job [OF assms] keeps_simple simp: vetted_reinstall)
qed

lemma vetted_outcome: "keeps (vetted ow T l) (record_job_outcome ow job r)"
  unfolding record_job_outcome_def record_job_failure_def tools_failed_now_def note_failed_snapshot_def note_failed_vm_def
    set_tools_status_def Let_def
  by (intro keeping)

lemma vetted_claimed_job:
  assumes "\<And>j. j_vm job = Some j \<Longrightarrow> j \<in> T"
  shows "holds (\<lambda>s. vetted ow T l s \<and> job_keys job (nd_db s) \<subseteq> T) (execute_claimed_job ow px job) (\<lambda>_. vetted ow T l) (\<lambda>_. vetted ow T l)"
  unfolding execute_claimed_job_def
  by (rule holds_chain [where R = "\<lambda>_. vetted ow T l"], rule holds_outcome, rule vetted_job [OF assms], assumption)
    (rule vetted_outcome [unfolded keeps_holds])

text \<open>
  C27. Protection comes first: whatever job the worker runs, however it ends, every call it made
  after which a guest may run is a power action on the VM of the job, by the name of a row that the
  VM's id found in the tables at an earlier call of the run; and in the panel as it was when the
  call was made the network protection of that VM had just been settled: the host answered the
  last call that it has another backend than libvirt, or no policy was enabled for the VM in the
  tables of that moment, or the panel was the one a successful reconciliation left. No domain is
  ever created or reinstalled started.
\<close>

theorem protected_before_start:
  assumes "execute_claimed_job ow px job s = (t, r)"
    and "nd_log t = since @ e # prior @ nd_log s" "starts_guest (fst e)"
  shows "\<exists>v a b. fst e = CallPower (v_name v) a b
    \<and> (\<exists>i \<in> job_keys job (nd_db s). \<exists>p \<in> set prior. query_vm (mo_db (snd p)) i = Some v)
    \<and> cleared_to_run ow v (node_at e (prior @ nd_log s))"
proof -
  let ?T = "job_keys job (nd_db s)"
  have start: "vetted ow ?T (nd_log s) s \<and> job_keys job (nd_db s) \<subseteq> ?T" by (simp add: exI [of _ "[]"])
  have h: "holds (\<lambda>u. vetted ow ?T (nd_log s) u \<and> job_keys job (nd_db u) \<subseteq> ?T) (execute_claimed_job ow px job)
      (\<lambda>_. vetted ow ?T (nd_log s)) (\<lambda>_. vetted ow ?T (nd_log s))"
    by (rule vetted_claimed_job) (simp add: job_keys_def)
  have "vetted ow ?T (nd_log s) t"
  proof (cases r)
    case (Inl x)
    then show ?thesis using holds_Inl [OF h start] assms(1) by simp
  next
    case (Inr x)
    then show ?thesis using holds_Inr [OF h start] assms(1) by simp
  qed
  then obtain new where "nd_log t = new @ nd_log s" "vet ow ?T (nd_log s) new" by blast
  moreover have "nd_log t = (since @ e # prior) @ nd_log s" using assms(2) by simp
  ultimately have "vet ow ?T (nd_log s) (since @ e # prior)" by (metis append_same_eq)
  from vet_split [OF this assms(3)] show ?thesis by (simp add: start_cleared_def)
qed

section \<open>A worker for the examples\<close>

definition mock_site :: "(mock, ip_addr) outside" where
  "mock_site = (demo_host True True)\<lparr>ow_hv := mock_hypervisor (\<lambda>_. ''u'')\<rparr>"

definition demo_payloads :: payload_lib where
  "demo_payloads = \<lparr>px_create = (\<lambda>_. Inl ''unused''), px_power = (\<lambda>_. Inr PowerReboot), px_resize = (\<lambda>_. Inl ''unused''),
     px_reinstall = (\<lambda>_. Inl ''unused''), px_snapshot = (\<lambda>_. Inl ''unused''), px_show_info = (\<lambda>_. JNull),
     px_show_snapshot = (\<lambda>_. JNull), px_show_job = (\<lambda>_. JNull), px_stamp = (\<lambda>_. ''20260101000000'')\<rparr>"

definition running_job :: "string \<Rightarrow> job_row" where
  "running_job k = \<lparr>j_id = ''j1'', j_kind = k, j_vm = Some ''v1'', j_status = Running, j_payload = JObj [],
     j_result = None, j_error = None, j_progress = 0, j_key = None, j_attempts = 1, j_max_attempts = 3, j_run_after = 0,
     j_locked_by = Some ''w'', j_locked_at = Some 0, j_actor_type = None, j_actor_id = None, j_created_at = 0,
     j_updated_at = 0, j_finished_at = None\<rparr>"

definition worker_node :: "string \<Rightarrow> mock node" where
  "worker_node k = demo_node\<lparr>nd_db := no_vms\<lparr>vms := [sample_vm ''v1'' ''web''], jobs := [running_job k]\<rparr>\<rparr>"

definition begun :: "string \<Rightarrow> mock node" where
  "begun k = (worker_node k)\<lparr>nd_db := no_vms\<lparr>vms := [sample_vm ''v1'' ''web''], jobs := [(running_job k)\<lparr>j_progress := 10\<rparr>]\<rparr>\<rparr>"

lemma chain_step: "m s = (t, Inr a) \<Longrightarrow> chain m f s = f a t"
  by (simp add: chain_def)

lemma begun_job: "ow_now ow = mk_clock \<Longrightarrow> job_progress ow (running_job k) 10 (worker_node k) = (begun k, Inr ())"
  by (simp add: job_progress_def db_do_def update_job_progress_def worker_node_def begun_def mock_site_def demo_host_def
      demo_node_def running_job_def and_then_def count_where_def update_where_def require_changed_def require_def
      demo_backend_def mock_new_def no_vms_def)

lemma begun_vm: "read_vm (running_job k) (begun k) = (begun k, Inr (sample_vm ''v1'' ''web''))"
  by (simp add: read_vm_def db_read_def chain_def required_vm_def running_job_def begun_def worker_node_def query_vm_def
      select_one_def and_then_def ok_or_def no_vms_def)

lemma begun_routed: "reconcile_routed_vm ow (sample_vm ''v1'' ''web'') s = (s, Inr False)"
  by (simp add: reconcile_routed_vm_def route_plan_def sample_vm_def json_get_def chain_def)

text \<open>The rules of the example are accepted in any panel with its tables.\<close>

lemma rules_accepted:
  assumes "nd_policy s = demo_policy" "nd_world s = demo_backend" "desired_policies (nd_db s) demo_policy = demo_desired"
    "managed_networks host_nets (nd_db s) = Inr []"
  shows "\<exists>t x. reconcile (demo_host True True) s = (t, Inr x) \<and> nd_world t = demo_backend \<and> nd_db t = nd_db s
    \<and> nd_calls t = [CallNftApply delete_table_text True, CallNftList (Inr True), CallCapabilities (Inr ''libvirt'')] @ nd_calls s"
proof -
  let ?ow = "demo_host True True"
  define a where "a = s\<lparr>nd_log := (CallCapabilities (Inr ''libvirt''), moment_of s) # nd_log s\<rparr>"
  define b where "b = a\<lparr>nd_log := (CallNftList (Inr True), moment_of a) # nd_log a\<rparr>"
  define c where "c = b\<lparr>nd_log := (CallNftApply delete_table_text True, moment_of b) # nd_log b\<rparr>"
  have a: "ask_backend ?ow s = (a, Inr ''libvirt'')"
    using assms(2) by (simp add: ask_backend_def outside_call_def demo_host_def demo_hv_def mock_capabilities_def mock_hypervisor_def
        action_defs a_def map_err_def)
  have b: "ask_table ?ow a = (b, Inr True)"
    using assms(2) by (simp add: ask_table_def outside_call_def demo_host_def a_def b_def)
  have c: "apply_script ?ow delete_table_text b = (c, Inr ())"
    using assms(2) by (simp add: apply_script_def outside_call_def demo_host_def a_def b_def c_def)
  have kept: "nd_db c = nd_db s" "nd_policy c = demo_policy" "nd_world c = demo_backend" "nd_db a = nd_db s" "nd_policy a = demo_policy"
    using assms(1,2) by (simp_all add: a_def b_def c_def)
  obtain d where d: "mark_profile ?ow None (hd demo_desired) c = (d, Inr ())"
  proof (cases "mark_profile ?ow None (hd demo_desired) c")
    case (Pair t r)
    have "vm_network_security (nd_policy c) (v_id (vp_vm (hd demo_desired))) = Some (vp_profile (hd demo_desired))"
      unfolding kept by (simp add: demo_policy_def demo_desired_def vm_network_security_def select_one_def new_profile_def)
    moreover have "int (w_revision (vp_profile (hd demo_desired))) \<le> i64_max" by (simp add: demo_desired_def i64_max_def)
    ultimately show thesis
      using Pair mark_profile_refused [of ?ow None "hd demo_desired" c t] that by (cases r) auto
  qed
  have single: "demo_desired = [hd demo_desired]" by (simp add: demo_desired_def)
  have e: "each_do (mark_profile ?ow None) demo_desired c = (d, Inr ())"
    by (subst single) (simp add: chain_def d)
  note frame = marks_frame [OF e]
  have "\<exists>t. mark_host ?ow (Suc 0) None d = (t, Inr ())"
    using frame kept by (simp add: mark_host_def chain_def policy_do_def mark_hypervisor_network_security_applied_def demo_switches
      revision_fits_def i64_max_def and_then_def require_def Let_def)
  then obtain t where t: "mark_host ?ow (Suc 0) None d = (t, Inr ())" by blast
  have same: "nd_calls t = nd_calls d" "nd_world t = nd_world d" "nd_db t = nd_db d"
    using t by (auto simp: mark_host_def chain_Inr policy_do_Inr)
  have site: "ow_nets ?ow = host_nets" "ow_nft_binary ?ow w" for w by (simp_all add: demo_host_def)
  have "\<exists>x. reconcile ?ow s = (t, Inr x)"
    unfolding reconcile_def policy_read_def db_read_def world_read_def Let_def
    using assms a b c e t kept
    by (simp add: chain_def demo_switches site install_rules_def or_record_def chain_outcome outcome_def demo_rules when_do_def)
  then show ?thesis using same frame kept by (auto simp: a_def b_def c_def)
qed

lemma begun_protected:
  "\<exists>t. ensure_vm_network_policy (demo_host True True) (sample_vm ''v1'' ''web'') (begun k) = (t, Inr ()) \<and> nd_world t = demo_backend
     \<and> nd_calls t = [CallNftApply delete_table_text True, CallNftList (Inr True), CallCapabilities (Inr ''libvirt''),
         CallCapabilities (Inr ''libvirt'')]"
proof -
  let ?ow = "demo_host True True"
  define a where "a = (begun k)\<lparr>nd_log := [(CallCapabilities (Inr ''libvirt''), moment_of (begun k))]\<rparr>"
  have state: "nd_policy a = demo_policy" "nd_world a = demo_backend" "nd_calls a = [CallCapabilities (Inr ''libvirt'')]"
    "nd_db a = no_vms\<lparr>vms := [sample_vm ''v1'' ''web''], jobs := [(running_job k)\<lparr>j_progress := 10\<rparr>]\<rparr>"
    by (simp_all add: a_def begun_def worker_node_def demo_node_def)
  have a: "ask_backend ?ow (begun k) = (a, Inr ''libvirt'')"
    by (simp add: ask_backend_def outside_call_def demo_host_def demo_hv_def mock_capabilities_def mock_hypervisor_def
        action_defs a_def map_err_def begun_def worker_node_def demo_node_def)
  have "desired_policies (nd_db a) demo_policy = demo_desired" "managed_networks host_nets (nd_db a) = Inr []"
    by (simp_all add: state(4) no_vms_def desired_policies_def list_vms_def policy_of_vm_def vm_ip_addresses_def
      vm_network_security_def demo_policy_def select_one_def new_profile_def demo_desired_def list_vm_firewall_rules_def
      managed_networks_def list_ip_pools_def List.map_filter_def)
  then obtain t x where t: "reconcile ?ow a = (t, Inr x)" "nd_world t = demo_backend"
    "nd_calls t = [CallNftApply delete_table_text True, CallNftList (Inr True), CallCapabilities (Inr ''libvirt'')] @ nd_calls a"
    using rules_accepted [OF state(1,2)] by blast
  have "policy_enabled ''v1'' (nd_db a) (nd_policy a)"
    by (simp add: policy_enabled_def state demo_policy_def vm_network_security_def select_one_def new_profile_def)
  then have policy: "vm_policy_enabled ''v1'' a = (a, Inr True)" by (simp add: vm_policy_enabled_def)
  have "reconcile_vm_fail_closed ?ow (sample_vm ''v1'' ''web'') a = (t, Inr x)"
    using t(1) by (simp add: reconcile_vm_fail_closed_def chain_def outcome_def policy)
  then have "ensure_vm_network_policy ?ow (sample_vm ''v1'' ''web'') (begun k) = (t, Inr ())"
    by (simp add: ensure_vm_network_policy_def chain_def a policy)
  then show ?thesis using t state(3) by auto
qed

definition demo_rebooted :: mock where
  "demo_rebooted = demo_backend\<lparr>mk_vms := map (map_prod id (set_power PsRunning)) (mk_vms demo_backend)\<rparr>"

lemma begun_reboot:
  assumes "nd_world s = demo_backend"
  shows "\<exists>t. hv_step (ask_power (demo_host True True) ''web'' PowerReboot) s = (t, Inr demo_info)
    \<and> nd_calls t = CallPower ''web'' PowerReboot True # nd_calls s"
proof -
  have "mock_power ''web'' PowerReboot demo_backend = (demo_rebooted, Inr demo_info)"
    by (simp add: mock_power_def with_vm_mut_def chain_def next_power_def set_power_def action_defs demo_web demo_rebooted_def)
      (simp add: demo_backend_def set_power_def demo_info_def)
  then show ?thesis
    using assms by (simp add: hv_step_def ask_power_def outside_call_def demo_host_def demo_hv_def mock_hypervisor_def with_error_def map_err_def)
qed

text \<open>What comes after a step adds to the log the step left.\<close>

lemma suffix_vetted:
  assumes "m s = (t, Inr a)" "\<And>l. keeps (vetted ow T l) (f a)"
  shows "suffix (nd_log t) (nd_log (fst (chain m f s)))"
  using assms(2) [of "nd_log t", unfolded keeps_def, rule_format, of t]
  by (auto simp: chain_def assms(1) suffix_def intro: exI [of _ "[]"])

lemma suffix_outcome:
  assumes "\<And>r l. keeps (vetted ow T l) (f r)"
  shows "suffix (nd_log (fst (m s))) (nd_log (fst (chain (outcome m) f s)))"
  using assms [of "nd_log (fst (m s))" "snd (m s)", unfolded keeps_def, rule_format, of "fst (m s)"]
  by (auto simp: chain_outcome suffix_def intro: exI [of _ "[]"] split: prod.split)

text \<open>A reboot of a protected VM on a libvirt host.\<close>

abbreviation protected_calls :: "call list" where
  "protected_calls \<equiv> [CallNftApply delete_table_text True, CallNftList (Inr True), CallCapabilities (Inr ''libvirt''),
     CallCapabilities (Inr ''libvirt'')]"

lemma reboot_logged:
  "\<exists>u. nd_calls u = CallPower ''web'' PowerReboot True # protected_calls
     \<and> suffix (nd_log u) (nd_log (fst (execute_job (demo_host True True) demo_payloads (running_job ''vm.power'') (worker_node ''vm.power''))))"
proof -
  let ?ow = "demo_host True True" and ?job = "running_job ''vm.power''"
  have kind: "j_kind ?job = ''vm.power''" by (simp add: running_job_def)
  have action: "payload_field (px_power demo_payloads) ''action'' (j_payload ?job) = Inr PowerReboot"
    by (simp add: payload_field_def demo_payloads_def map_err_def)
  have up: "brings_up PowerReboot" by (simp add: brings_up_def)
  obtain t where t: "ensure_vm_network_policy ?ow (sample_vm ''v1'' ''web'') (begun ''vm.power'') = (t, Inr ())"
    "nd_world t = demo_backend" "nd_calls t = protected_calls" using begun_protected by blast
  obtain u where u: "hv_step (ask_power ?ow ''web'' PowerReboot) t = (u, Inr demo_info)"
    "nd_calls u = CallPower ''web'' PowerReboot True # nd_calls t" using begun_reboot [OF t(2)] by blast
  have clock: "ow_now ?ow = mk_clock" by (simp add: demo_host_def)
  note steps = chain_step [where m = "job_progress ?ow ?job 10", OF begun_job [OF clock]]
    chain_step [where m = "read_vm ?job", OF begun_vm]
    chain_step [where m = "reconcile_routed_vm ?ow (sample_vm ''v1'' ''web'')", OF begun_routed]
    chain_step [where m = "ensure_vm_network_policy ?ow (sample_vm ''v1'' ''web'')", OF t(1)]
    chain_step [where m = "lifted (Inr x)" for x, OF read_state_simps(4)]
  have "suffix (nd_log u) (nd_log (fst (execute_job ?ow demo_payloads ?job (worker_node ''vm.power''))))"
    unfolding execute_job_def steps kind execute_power_def
    by (simp add: steps action when_do_def up chain_assoc) (rule suffix_vetted [where ow = ?ow and T = "{}"], rule u(1), intro keeping)
  then show ?thesis using u(2) t(3) by auto
qed

lemma protected_before_start_witness:
  "\<exists>t r since e prior. execute_claimed_job (demo_host True True) demo_payloads (running_job ''vm.power'') (worker_node ''vm.power'')
       = (t, r :: app_error + unit)
     \<and> nd_log t = since @ e # prior \<and> fst e = CallPower ''web'' PowerReboot True \<and> map fst prior = protected_calls
     \<and> (\<exists>v. v_name v = ''web'' \<and> cleared_to_run (demo_host True True) v (node_at e prior))"
proof -
  let ?s = "worker_node ''vm.power''" and ?run = "execute_claimed_job (demo_host True True) demo_payloads (running_job ''vm.power'')"
  obtain t r where t: "?run ?s = (t, r :: app_error + unit)" by fastforce
  let ?job = "execute_job (demo_host True True) demo_payloads (running_job ''vm.power'') ?s"
  have later: "suffix (nd_log (fst ?job)) (nd_log (fst (?run ?s :: mock node \<times> (app_error + unit))))"
    unfolding execute_claimed_job_def by (rule suffix_outcome, rule vetted_outcome)
  obtain u where u: "nd_calls u = CallPower ''web'' PowerReboot True # protected_calls" "suffix (nd_log u) (nd_log (fst ?job))"
    using reboot_logged by blast
  have kept: "suffix (nd_log u) (nd_log t)" using suffix_order.trans [OF u(2) later] unfolding t by simp
  obtain e prior where e: "nd_log u = e # prior" "fst e = CallPower ''web'' PowerReboot True" "map fst prior = protected_calls"
    using map_eq_Cons_conv [THEN iffD1, OF u(1) [unfolded nd_calls_def]] by (elim exE conjE) (rule that)
  then obtain since where c: "nd_log t = since @ e # prior" using kept by (auto simp: suffix_def)
  have empty: "nd_log ?s = []" by (simp add: worker_node_def demo_node_def)
  then have split: "nd_log t = since @ e # prior @ nd_log ?s" using c by simp
  have "starts_guest (fst e)" by (simp add: e(2) brings_up_def)
  from protected_before_start [OF t split this] obtain v a b where "fst e = CallPower (v_name v) a b"
    "cleared_to_run (demo_host True True) v (node_at e (prior @ nd_log ?s))" by blast
  then have "v_name v = ''web''" "cleared_to_run (demo_host True True) v (node_at e prior)" using e(2) empty by simp_all
  then show ?thesis by (intro exI conjI) (rule t, rule c, rule e, rule e)
qed

end
