(* ===== verification/Job_Outcomes.thy ===== *)
theory Job_Outcomes
  imports Worker_Safety
begin

text \<open>
  How jobs end: a claimed job is always settled, a deletion that fails keeps the record of the
  VM so that it can be repeated, one that succeeds has removed the domain and the seed while the
  record was still there and the record last, and a locked VM is left alone.
\<close>

section \<open>A claimed job is settled\<close>

lemma finished_not_running:
  assumes "query_job (nd_db (fst (db_do ow (\<lambda>_. finish_job i x now) s))) i = Some j"
  shows "j_status j \<noteq> Running"
proof (cases "count_where (\<lambda>j. j_id j = i \<and> j_status j = Running) (jobs (nd_db s))")
  case 0
  then have "\<forall>k \<in> set (jobs (nd_db s)). \<not> (j_id k = i \<and> j_status k = Running)"
    by (auto simp: count_where_def filter_empty_conv)
  moreover have "fst (db_do ow (\<lambda>_. finish_job i x now) s) = s"
    using 0 by (simp add: db_do_def finish_job_def Let_def require_changed_def and_then_def)
  ultimately show ?thesis using assms by (auto simp: query_job_def dest: select_one_Some)
next
  case (Suc n)
  then have "fst (db_do ow (\<lambda>_. finish_job i x now) s) = s\<lparr>nd_db := (nd_db s)\<lparr>jobs := update_where (\<lambda>j. j_id j = i \<and> j_status j = Running)
     (\<lambda>j. j\<lparr>j_status := Succeeded, j_result := Some x, j_error := None, j_progress := 100, j_locked_by := None,
        j_locked_at := None, j_updated_at := now, j_finished_at := Some now,
        j_payload := json_remove staged_password_field (j_payload j)\<rparr>) (jobs (nd_db s))\<rparr>\<rparr>"
    by (simp add: db_do_def finish_job_def Let_def require_changed_def require_def and_then_def)
  then show ?thesis using assms by (auto simp: query_job_def select_one_update_where dest!: select_one_Some
      dest: arg_cong [where f = j_status] split: if_splits)
qed

lemma cleanup_keeps_jobs: "jobs (cleanup_unarmed k now d) = jobs d" "query_job (cleanup_unarmed k now d) i = query_job d i"
  by (auto simp: query_job_def cleanup_unarmed_def Let_def split: option.split)

lemma query_updated:
  assumes "\<And>j. j_id (f j) = j_id j"
  shows "query_job (d0\<lparr>jobs := update_where (\<lambda>j. j_id j = i) f (jobs d)\<rparr>) i = map_option f (query_job d i)"
  by (cases "query_job d i") (auto simp: query_job_def select_one_update_where assms dest: select_one_Some)

lemma failed_not_running:
  assumes "query_job (nd_db (fst (db_do ow (\<lambda>_. fail_job i e retry now) s))) i = Some j"
  shows "j_status j \<noteq> Running"
proof (cases "fail_job i e retry now (nd_db s)")
  case (Inr y)
  obtain d k where y: "y = (d, k)" by (cases y)
  then have "query_job d i = Some k \<and> j_status k \<noteq> Running"
    using Inr by (auto simp: fail_job_def result_simps Let_def query_updated cleanup_keeps_jobs split: if_splits)
  then show ?thesis using assms Inr y by (simp add: db_do_def)
next
  case (Inl err)
  then have q: "query_job (nd_db s) i = Some j" using assms by (simp add: db_do_def)
  show ?thesis
  proof
    assume "j_status j = Running"
    with Inl q show False
      by (auto simp: fail_job_def result_simps Let_def query_updated [where d0 = "nd_db s" and d = "nd_db s"]
          query_updated [where d0 = "cleanup_unarmed j now (nd_db s)" and d = "nd_db s"] cleanup_keeps_jobs
          and_then_def ok_or_def require_def split: if_splits)
  qed
qed

abbreviation never_fails :: "('w, 'e, 'a) step \<Rightarrow> bool" where
  "never_fails m \<equiv> holds (\<lambda>_. True) m (\<lambda>_ _. True) (\<lambda>_ _. False)"

lemma ignored_total: "never_fails (ignored m)" "never_fails (db_read f)" "never_fails (ret a)"
  by (simp_all add: holds_def db_read_def)

lemma chain_total: "never_fails m \<Longrightarrow> (\<And>a. holds (\<lambda>_. True) (f a) Q (\<lambda>_ _. False)) \<Longrightarrow> holds (\<lambda>_. True) (chain m f) Q (\<lambda>_ _. False)"
  by (rule holds_chain)

lemma when_total: "never_fails n \<Longrightarrow> never_fails (when_do b n)"
  by (simp add: when_do_def ignored_total)

lemma tools_total: "never_fails (tools_failed_now ow vm status m)"
  by (simp add: tools_failed_now_def ignored_total split: option.split)

lemma noting_total: "never_fails (note_failed_snapshot ow job m)" "never_fails (note_failed_vm ow job i m)"
proof -
  show "never_fails (note_failed_snapshot ow job m)"
    by (simp add: note_failed_snapshot_def ignored_total split: option.split)
  show "never_fails (note_failed_vm ow job i m)"
    unfolding note_failed_vm_def by (intro chain_total when_total tools_total ignored_total)
qed

lemma failure_recorded_last:
  "holds (\<lambda>_. True) (record_job_failure ow job e now)
     (\<lambda>_ t. \<exists>w m retry. t = fst (db_do ow (\<lambda>_. fail_job (j_id job) m retry now) w)) (\<lambda>_ _. False)"
proof -
  have fail: "holds (\<lambda>_. True) (ignored (db_do ow (\<lambda>_. fail_job (j_id job) m retry now)))
     (\<lambda>_ t. \<exists>w m retry. t = fst (db_do ow (\<lambda>_. fail_job (j_id job) m retry now) w)) (\<lambda>_ _. False)" for m retry
    by (auto simp: holds_def)
  show ?thesis
    unfolding record_job_failure_def Let_def
    by (intro holds_if chain_total fail noting_total tools_total when_total holds_option ignored_total)
qed

text \<open>
  C33. A claimed job is settled: whatever kind of job it was, however its execution ended and
  whatever other requests did meanwhile, when the worker is done with it the job is not left
  running; it has finished, failed, or is queued for another attempt.
\<close>

theorem claimed_job_settled:
  assumes "execute_claimed_job ow px job s = (t, r)"
  shows "\<not> (\<exists>j. query_job (nd_db t) (j_id job) = Some j \<and> j_status j = Running)"
proof -
  obtain u x where u: "execute_job ow px job s = (u, x)" by fastforce
  have t: "record_job_outcome ow job x u = (t, r)"
    using assms(1) u by (simp add: execute_claimed_job_def chain_outcome)
  show ?thesis
  proof (cases x)
    case (Inr a)
    have "t = fst (db_do ow (\<lambda>_. finish_job (j_id job) a (ow_now ow (nd_world u))) u)"
      using t by (simp add: Inr record_job_outcome_def world_read_def chain_def)
    then show ?thesis using finished_not_running by blast
  next
    case (Inl e)
    have f: "record_job_failure ow job e (ow_now ow (nd_world u)) u = (t, r)"
      using t by (simp add: Inl record_job_outcome_def world_read_def chain_def)
    have "\<exists>w m retry. t = fst (db_do ow (\<lambda>_. fail_job (j_id job) m retry (ow_now ow (nd_world u))) w)"
    proof (cases r)
      case (Inr y)
      then show ?thesis by (intro holds_Inr [OF failure_recorded_last TrueI]) (use f in simp)
    next
      case (Inl y)
      then show ?thesis using holds_Inl [OF failure_recorded_last TrueI f [unfolded Inl]] by simp
    qed
    then show ?thesis using failed_not_running by blast
  qed
qed

lemma claimed_job_settled_witness:
  "query_job (nd_db (worker_node ''vm.power'')) ''j1'' = Some (running_job ''vm.power'')
   \<and> (\<exists>t r. execute_claimed_job mock_site demo_payloads (running_job ''vm.power'') (worker_node ''vm.power'') = (t, r :: app_error + unit)
     \<and> \<not> (\<exists>j. query_job (nd_db t) ''j1'' = Some j \<and> j_status j = Running))"
proof
  show "query_job (nd_db (worker_node ''vm.power'')) ''j1'' = Some (running_job ''vm.power'')"
    by (simp add: query_job_def worker_node_def running_job_def)
  obtain t r where t: "execute_claimed_job mock_site demo_payloads (running_job ''vm.power'') (worker_node ''vm.power'')
     = (t, r :: app_error + unit)" by fastforce
  then show "\<exists>t r. execute_claimed_job mock_site demo_payloads (running_job ''vm.power'') (worker_node ''vm.power'') = (t, r :: app_error + unit)
     \<and> \<not> (\<exists>j. query_job (nd_db t) ''j1'' = Some j \<and> j_status j = Running)"
    using claimed_job_settled [OF t] by (auto simp: running_job_def)
qed

section \<open>Deletion\<close>

lemma removed_domain:
  assumes "remove_domain ow n b s = (u, Inr x)"
  obtains ans where "ask_delete ow n b s = (u, ans)" "nd_log u = (CallDelete n b ans, moment_of s) # nd_log s"
    "ans = Inr () \<or> (\<exists>y. ans = Inl (HvNotFound y))"
proof -
  obtain ans where a: "ask_delete ow n b s = (u, ans)" "ans = Inr () \<or> (\<exists>y. ans = Inl (HvNotFound y))"
    using assms by (auto simp: remove_domain_def chain_outcome split: prod.splits sum.splits hv_error.splits)
  moreover have "nd_log u = (CallDelete n b ans, moment_of s) # nd_log s"
    using a(1) outside_call_result unfolding ask_delete_def by blast
  ultimately show thesis using that by blast
qed

lemma removed_seed:
  assumes "remove_vm_provisioning_seed ow i s = (t, Inr x)"
  shows "\<exists>since r. nd_log t = since @ (CallUnlink (ow_seed_path ow i) r, moment_of s) # nd_log s
    \<and> (r = Inr () \<or> (\<exists>e. r = Inl e \<and> ie_kind e = IoNotFound))"
proof -
  obtain u r where u: "unlink_file ow (ow_seed_path ow i) s = (u, r)" by fastforce
  then have c: "nd_log u = (CallUnlink (ow_seed_path ow i) r, moment_of s) # nd_log s"
    using outside_call_result unfolding unlink_file_def by blast
  have "r = Inr () \<or> (\<exists>e. r = Inl e \<and> ie_kind e = IoNotFound)"
    using assms u unfolding remove_vm_provisioning_seed_def chain_outcome
    by (cases r) (auto simp: chain_Inr split: if_splits)
  moreover have "suffix (nd_log u) (nd_log t)"
    using assms u unfolding remove_vm_provisioning_seed_def chain_outcome
    by (auto simp: chain_Inr world_read_def with_error_Inr split: if_splits sum.splits
        dest!: outside_call_result intro: suffix_Cons)
  ultimately show ?thesis using c by (auto simp: suffix_def)
qed

lemma logged_parts [keeping]:
  "keeps (logged l) (job_progress ow job x)" "keeps (logged l) (cleanup_routed_vm ow v)" "keeps (logged l) (remove_socket ow vm)"
  unfolding job_progress_def cleanup_routed_vm_def remove_socket_def ask_ip_def interface_exists_def unlink_file_def
  by (intro keeping)+

context hypervisor_contract begin

lemma domain_removed:
  assumes "ow_hv ow = hv" "ask_delete ow n b s = (u, Inr x)"
  shows "snd (hv_get_vm hv n (nd_world u)) = Inl (HvNotFound n)"
proof -
  have "hv_delete_vm hv n b (nd_world s) = (nd_world u, Inr ())"
    using outside_call_result [OF assms(2) [unfolded ask_delete_def assms(1)]] by simp
  then show ?thesis by (rule deleted)
qed

end

text \<open>
  The outside as a step left it: nothing was called since, or the first call since was made in it.
\<close>

abbreviation next_in :: "'w node \<Rightarrow> 'w node \<Rightarrow> bool" where
  "next_in u \<equiv> \<lambda>s. nd_log s = nd_log u \<and> nd_world s = nd_world u
     \<or> (\<exists>new e. nd_log s = new @ e # nd_log u \<and> mo_world (snd e) = nd_world u)"

lemma next_steps [keeping]:
  "keeps (next_in u) (outside_call ow entry f)" "keeps (next_in u) (db_do ow g)" "keeps (next_in u) (world_read w)"
proof -
  show "keeps (next_in u) (outside_call ow entry f)"
    unfolding keeps_def
  proof (intro allI impI)
    fix s assume s: "next_in u s"
    obtain t r where t: "outside_call ow entry f s = (t, r)" by fastforce
    then have log: "nd_log t = (entry r, moment_of s) # nd_log s" using outside_call_result by blast
    show "next_in u (fst (outside_call ow entry f s))"
      using s log t by (auto intro: exI [of _ "[]"] exI [of _ "(entry r, moment_of s) # _"])
  qed
qed (auto simp: keeps_def db_do_def world_read_def split: sum.split)

lemma next_parts [keeping]:
  "keeps (next_in u) (job_progress ow job x)" "keeps (next_in u) (cleanup_routed_vm ow v)"
  "keeps (next_in u) (remove_vm_provisioning_seed ow i)"
  unfolding job_progress_def cleanup_routed_vm_def remove_vm_provisioning_seed_def ask_ip_def interface_exists_def unlink_file_def
  by (intro keeping)+

text \<open>
  The record with the id \<open>i\<close> is there, and no other row is found by \<open>i\<close>: rows are found by name too.
\<close>

definition sole_row :: "string \<Rightarrow> db \<Rightarrow> bool" where
  "sole_row i d \<longleftrightarrow> vm_exists d i \<and> (\<forall>v \<in> set (vms d). ascii_lower (v_name v) = ascii_lower i \<longrightarrow> v_id v = i)"

lemma sole_row_found:
  assumes "sole_row i d"
  shows "\<exists>v. query_vm d i = Some v \<and> v_id v = i"
proof -
  obtain w where w: "w \<in> set (vms d)" "v_id w = i" using assms by (auto simp: sole_row_def vm_exists_def)
  have "query_vm d i \<noteq> None" using w by (auto simp: query_vm_def select_one_None)
  then obtain v where v: "query_vm d i = Some v" by blast
  then have "v \<in> set (vms d)" "v_id v = i \<or> ascii_lower (v_name v) = ascii_lower i"
    unfolding query_vm_def using select_one_Some by fastforce+
  then show ?thesis using v assms by (auto simp: sole_row_def)
qed

lemma sole_row_deleted:
  assumes "sole_row i d" "delete_vm i now d = Inr (d', ())"
  shows "\<not> vm_exists d' i"
  using assms sole_row_found [OF assms(1)]
  by (auto simp: delete_vm_def result_simps Let_def vm_exists_def delete_vm_rows_def delete_where_def)

text \<open>While the record of a VM stays, every call is made with the record in the tables.\<close>

abbreviation row_there :: "string \<Rightarrow> 'w entry list \<Rightarrow> 'w node \<Rightarrow> bool" where
  "row_there i l \<equiv> \<lambda>s. sole_row i (nd_db s) \<and> (\<exists>new. nd_log s = new @ l \<and> (\<forall>p \<in> set new. vm_exists (mo_db (snd p)) i))"

definition others_keep_row :: "('w, 'n) outside \<Rightarrow> string \<Rightarrow> bool" where
  "others_keep_row ow i \<longleftrightarrow> (\<forall>w d p. sole_row i d \<longrightarrow> sole_row i (fst (ow_others ow w (d, p))))"

lemma there_steps:
  assumes "others_keep_row ow i"
  shows "keeps (row_there i l) (outside_call ow entry f)" "keeps (row_there i l) (world_read w)"
    "keeps (row_there i l) (job_progress ow' job x)"
proof -
  show "keeps (row_there i l) (outside_call ow entry f)"
    unfolding keeps_def
  proof (intro allI impI)
    fix s assume s: "row_there i l s"
    then obtain new where new: "nd_log s = new @ l" "\<forall>p \<in> set new. vm_exists (mo_db (snd p)) i" "sole_row i (nd_db s)" by blast
    obtain t r where t: "outside_call ow entry f s = (t, r)" by fastforce
    note result = outside_call_result [OF t]
    have "nd_log t = ((entry r, moment_of s) # new) @ l" using result new(1) by simp
    moreover have "\<forall>p \<in> set ((entry r, moment_of s) # new). vm_exists (mo_db (snd p)) i" using new(2,3) by (simp add: sole_row_def)
    moreover have "sole_row i (nd_db t)" using assms new(3) result unfolding others_keep_row_def by (metis fst_conv)
    ultimately show "row_there i l (fst (outside_call ow entry f s))" using t by (auto simp del: append_Cons)
  qed
  show "keeps (row_there i l) (job_progress ow' job x)"
    by (auto simp: keeps_def job_progress_def db_do_def update_job_progress_def and_then_Inr sole_row_def vm_exists_def Let_def
      split: sum.split)
qed (auto simp: keeps_def world_read_def)

lemma there_parts:
  assumes "others_keep_row ow i"
  shows "keeps (row_there i l) (cleanup_routed_vm ow v)" "keeps (row_there i l) (remove_vm_provisioning_seed ow x)"
    "keeps (row_there i l) (remove_socket ow y)" "keeps (row_there i l) (remove_domain ow n b)"
proof -
  note [keeping] = there_steps [OF assms]
  show "keeps (row_there i l) (cleanup_routed_vm ow v)" "keeps (row_there i l) (remove_vm_provisioning_seed ow x)"
    "keeps (row_there i l) (remove_socket ow y)"
    unfolding remove_vm_provisioning_seed_def cleanup_routed_vm_def remove_socket_def interface_exists_def ask_ip_def unlink_file_def
    by (intro keeping)+
  show "keeps (row_there i l) (remove_domain ow n b)"
    unfolding remove_domain_def ask_delete_def by (auto intro!: keeping split: hv_error.split)
qed

text \<open>The states a deletion that succeeds goes through.\<close>

abbreviation remove_route :: "('w, 'n) outside \<Rightarrow> vm_row option \<Rightarrow> ('w, app_error, unit) step" where
  "remove_route ow found \<equiv> case found of Some v \<Rightarrow> chain (cleanup_routed_vm ow v) (\<lambda>_. ret ()) | None \<Rightarrow> ret ()"

lemma keeps_route [keeping]: "(\<And>v. keeps I (cleanup_routed_vm ow v)) \<Longrightarrow> keeps I (remove_route ow found)"
  by (auto intro!: keeping split: option.split)

lemma deletion_steps:
  fixes ow :: "('a, 'n) outside"
  assumes "execute_delete ow job s = (t, Inr a)"
  shows "\<exists>vm name u c d e f g h. delete_target job = Inr vm
    \<and> delete_name job (query_vm (nd_db s) vm) = Inr name \<and> \<not> deletion_locked (query_vm (nd_db s) vm)
    \<and> remove_domain ow name (delete_storage job) s = (u, Inr ()) \<and> job_progress ow job 45 u = (c, Inr ())
    \<and> remove_route ow (query_vm (nd_db s) vm) c = (d, Inr ())
    \<and> remove_vm_provisioning_seed ow vm d = (e, Inr f) \<and> job_progress ow job 75 e = (g, Inr ())
    \<and> (remove_socket ow vm :: ('a, app_error, unit) step) g = (h, Inr ())
    \<and> when_do (query_vm (nd_db s) vm \<noteq> None) (db_do ow (delete_vm vm)) h = (t, Inr ())"
  using assms by (simp add: execute_delete_def chain_Inr db_read_def) blast

text \<open>Where the record stays until the last step, it was there at every call, and that step takes it away.\<close>

lemma deletion_row:
  assumes "remove_domain ow name b s = (u, Inr ())" "job_progress ow job 45 u = (c, Inr ())"
    "remove_route ow (query_vm (nd_db s) vm) c = (d, Inr ())" "remove_vm_provisioning_seed ow vm d = (e, Inr f)"
    "job_progress ow job 75 e = (g, Inr ())" "remove_socket ow vm g = (h, Inr ())"
    "when_do (query_vm (nd_db s) vm \<noteq> None) (db_do ow (delete_vm vm)) h = (t, Inr ())"
    and "nd_log t = new @ nd_log s" "sole_row vm (nd_db s)" "others_keep_row ow vm"
  shows "(\<forall>p \<in> set new. vm_exists (mo_db (snd p)) vm) \<and> \<not> vm_exists (nd_db t) vm"
proof -
  note there = there_parts [OF assms(10)] there_steps [OF assms(10)]
  have "row_there vm (nd_log s) s" using assms(9) by auto
  from keepsD [OF there(4) this assms(1)] have "row_there vm (nd_log s) u" .
  from keepsD [OF there(7) this assms(2)] have "row_there vm (nd_log s) c" .
  from keepsD [OF keeps_route [OF there(1)] this assms(3)] have "row_there vm (nd_log s) d" .
  from keepsD [OF there(2) this assms(4)] have "row_there vm (nd_log s) e" .
  from keepsD [OF there(7) this assms(5)] have "row_there vm (nd_log s) g" .
  from keepsD [OF there(3) this assms(6)] obtain more where more: "nd_log h = more @ nd_log s"
    "\<forall>p \<in> set more. vm_exists (mo_db (snd p)) vm" "sole_row vm (nd_db h)" by blast
  obtain k where "delete_vm vm k (nd_db h) = Inr (nd_db t, ())" "nd_log t = nd_log h"
    using assms(7) sole_row_found [OF assms(9)] by (auto simp: when_do_def chain_Inr db_do_Inr)
  then show ?thesis using assms(8) more sole_row_deleted [OF more(3)] by auto
qed

text \<open>
  C34. A deletion that succeeds was complete, and in order. The VM was not locked. The first call
  took the domain away, so that at the call after it the hypervisor knew it no more, or found it
  gone already. Later the seed with its secrets was unlinked, which succeeded or found no file.
  And, as long as the other requests leave the record of the VM alone, the record was still there
  at every call the deletion made, and is gone when it is done.
\<close>

theorem deleted_means_gone:
  fixes ow :: "('a, 'n) outside"
  assumes "hypervisor_contract (ow_hv ow)" "execute_delete ow job s = (t, Inr a)"
  shows "\<exists>vm name ans res del unlink since between. delete_target job = Inr vm
    \<and> delete_name job (query_vm (nd_db s) vm) = Inr name \<and> \<not> deletion_locked (query_vm (nd_db s) vm)
    \<and> nd_log t = since @ unlink # between @ del # nd_log s
    \<and> fst del = CallDelete name (delete_storage job) ans
    \<and> (ans = Inr () \<and> snd (hv_get_vm (ow_hv ow) name (mo_world (snd (last (unlink # between))))) = Inl (HvNotFound name)
       \<or> (\<exists>y. ans = Inl (HvNotFound y)))
    \<and> fst unlink = CallUnlink (ow_seed_path ow vm) res \<and> (res = Inr () \<or> (\<exists>e. res = Inl e \<and> ie_kind e = IoNotFound))
    \<and> (sole_row vm (nd_db s) \<and> others_keep_row ow vm
       \<longrightarrow> (\<forall>p \<in> set (since @ unlink # between @ [del]). vm_exists (mo_db (snd p)) vm) \<and> \<not> vm_exists (nd_db t) vm)"
proof -
  obtain vm name u c d e f g h where vm: "delete_target job = Inr vm"
    and 1: "delete_name job (query_vm (nd_db s) vm) = Inr name" "\<not> deletion_locked (query_vm (nd_db s) vm)"
      "remove_domain ow name (delete_storage job) s = (u, Inr ())" "job_progress ow job 45 u = (c, Inr ())"
    and 2: "remove_route ow (query_vm (nd_db s) vm) c = (d, Inr ())"
    and 3: "remove_vm_provisioning_seed ow vm d = (e, Inr f)" and 4: "job_progress ow job 75 e = (g, Inr ())"
    and 5: "(remove_socket ow vm :: ('a, app_error, unit) step) g = (h, Inr ())"
    and 6: "when_do (query_vm (nd_db s) vm \<noteq> None) (db_do ow (delete_vm vm)) h = (t, Inr ())"
    using deletion_steps [OF assms(2)] by blast
  obtain ans where ans: "ask_delete ow name (delete_storage job) s = (u, ans)"
      "nd_log u = (CallDelete name (delete_storage job) ans, moment_of s) # nd_log s" "ans = Inr () \<or> (\<exists>y. ans = Inl (HvNotFound y))"
    using removed_domain [OF 1(3)] by blast
  let ?del = "(CallDelete name (delete_storage job) ans, moment_of s)"
  have "suffix (nd_log u) (nd_log d)"
    using keepsD [OF logged_parts(1) _ 1(4), of "nd_log u"] keepsD [OF keeps_route [OF logged_parts(2)] _ 2] by simp
  then obtain between where d: "nd_log d = between @ nd_log u" by (auto simp: suffix_def)
  obtain x res where e: "nd_log e = x @ (CallUnlink (ow_seed_path ow vm) res, moment_of d) # nd_log d"
    and res: "res = Inr () \<or> (\<exists>e. res = Inl e \<and> ie_kind e = IoNotFound)" using removed_seed [OF 3] by blast
  let ?unlink = "(CallUnlink (ow_seed_path ow vm) res, moment_of d)"
  have "next_in u d" using keepsD [OF next_parts(1) _ 1(4), of u] keepsD [OF keeps_route [OF next_parts(2)] _ 2, of u] by simp
  then have after: "mo_world (snd (last (?unlink # between))) = nd_world u" using d by auto
  have "suffix (nd_log e) (nd_log h)"
    using keepsD [OF logged_parts(1) _ 4, of "nd_log e"] keepsD [OF logged_parts(3) _ 5, of "nd_log e"] by simp
  moreover have log: "nd_log t = nd_log h" using 6 by (auto simp: when_do_def chain_Inr db_do_Inr split: if_splits)
  ultimately obtain y where "nd_log t = y @ nd_log e" by (auto simp: suffix_def)
  then have t: "nd_log t = (y @ x) @ ?unlink # between @ ?del # nd_log s" using e d ans(2) by simp
  have gone: "ans = Inr () \<Longrightarrow> snd (hv_get_vm (ow_hv ow) name (mo_world (snd (last (?unlink # between))))) = Inl (HvNotFound name)"
    using hypervisor_contract.domain_removed [OF assms(1) refl] ans(1) after by metis
  show ?thesis
  proof (intro exI conjI)
    show "delete_target job = Inr vm" by (rule vm)
    show "delete_name job (query_vm (nd_db s) vm) = Inr name" "\<not> deletion_locked (query_vm (nd_db s) vm)"
      by (rule 1)+
    show "nd_log t = (y @ x) @ ?unlink # between @ ?del # nd_log s" by (rule t)
    show "ans = Inr () \<and> snd (hv_get_vm (ow_hv ow) name (mo_world (snd (last (?unlink # between))))) = Inl (HvNotFound name)
       \<or> (\<exists>y. ans = Inl (HvNotFound y))" using gone ans(3) by blast
    show "res = Inr () \<or> (\<exists>e. res = Inl e \<and> ie_kind e = IoNotFound)" by (rule res)
    show "sole_row vm (nd_db s) \<and> others_keep_row ow vm
       \<longrightarrow> (\<forall>p \<in> set ((y @ x) @ ?unlink # between @ [?del]). vm_exists (mo_db (snd p)) vm) \<and> \<not> vm_exists (nd_db t) vm"
      using deletion_row [OF 1(3,4) 2 3 4 5 6, of "(y @ x) @ ?unlink # between @ [?del]"] t by simp
  qed simp_all
qed

text \<open>
  C35. A deletion that fails can be repeated: as long as no other request takes the record of a
  VM away, no failing step of the deletion does, wherever it failed.
\<close>

theorem failed_delete_keeps_row:
  assumes "\<And>w d p. vm_exists d i \<Longrightarrow> vm_exists (fst (ow_others ow w (d, p))) i"
    and "execute_delete ow job s = (t, Inl e)" "vm_exists (nd_db s) i"
  shows "vm_exists (nd_db t) i"
proof -
  let ?I = "\<lambda>s. vm_exists (nd_db s) i"
  have call [keeping]: "keeps ?I (outside_call ow entry f)" for entry f
    unfolding keeps_def outside_call_def by (auto split: prod.split) (metis assms(1) fst_conv)
  have reads [keeping]: "keeps ?I (db_read f)" "keeps ?I (world_read g)" for f g
    by (simp_all add: db_read_def world_read_def keeping)
  have progress [keeping]: "keeps ?I (job_progress ow job x)" for x
    by (auto simp: keeps_def job_progress_def db_do_def update_job_progress_def and_then_Inr vm_exists_def Let_def split: sum.split)
  have parts [keeping]: "keeps ?I (cleanup_routed_vm ow v)" "keeps ?I (remove_vm_provisioning_seed ow x)" "keeps ?I (remove_socket ow x)"
    for v x
    unfolding remove_vm_provisioning_seed_def cleanup_routed_vm_def remove_socket_def interface_exists_def ask_ip_def unlink_file_def
    by (intro keeping)+
  have domain [keeping]: "keeps ?I (remove_domain ow n b)" for n b
    unfolding remove_domain_def ask_delete_def by (auto intro!: keeping split: hv_error.split)
  have seq: "keeps ?I m \<Longrightarrow> (\<And>a. holds ?I (f a) (\<lambda>_ _. True) (\<lambda>_. ?I)) \<Longrightarrow> holds ?I (chain m f) (\<lambda>_ _. True) (\<lambda>_. ?I)"
    for m :: "('a, app_error, 'c) step" and f :: "'c \<Rightarrow> ('a, app_error, json) step"
    unfolding keeps_holds by (rule holds_chain)
  have last: "holds ?I (chain (when_do b (db_do ow (delete_vm x))) (\<lambda>_. ret a)) (\<lambda>_ _. True) (\<lambda>_. ?I)" for b x a
    by (auto simp: holds_def chain_def when_do_def db_do_def split: sum.split)
  have "holds ?I (execute_delete ow job) (\<lambda>_ _. True) (\<lambda>_. ?I)"
    unfolding execute_delete_def
    by (intro last holds_chain [where R = "\<lambda>_. ?I"] keeping [unfolded keeps_holds])
  from this [unfolded holds_def, rule_format, OF assms(3)] show ?thesis by (simp add: assms(2))
qed

lemma cleanup_keeps_vms: "vms (cleanup_unarmed k now d) = vms d"
  by (auto simp: cleanup_unarmed_def Let_def split: option.split)

lemma failed_vms: "fail_job i m y n d = Inr (t, j) \<Longrightarrow> vms t = vms d"
  by (auto simp: fail_job_def result_simps Let_def cleanup_keeps_vms split: if_splits)

text \<open>
  The deletion lock holds in the worker too: for a VM locked after its deletion was queued
  the job makes no call at all, leaves every VM record as it is and is not retried.
\<close>

theorem locked_vm_not_deleted:
  assumes "j_kind job = ''vm.delete''" "delete_target job = Inr vm"
    and "query_vm (nd_db s) vm = Some v" "disk_protection ''deletion_lock'' v"
    and "execute_claimed_job ow px job s = (t, r)"
  shows "nd_calls t = nd_calls s \<and> nd_world t = nd_world s \<and> vms (nd_db t) = vms (nd_db s) \<and> delete_retry_at job
    (Conflict ''VM deletion is blocked by its disk-protection lock'') now = None"
proof -
  have locked: "execute_delete ow job u = (u, Inl (Conflict ''VM deletion is blocked by its disk-protection lock''))"
    if "vms (nd_db u) = vms (nd_db s)" for u
  proof -
    have "query_vm (nd_db u) vm = Some v" using assms(3) that by (simp add: query_vm_def)
    then show ?thesis
      using assms(2,4) by (simp add: execute_delete_def chain_def db_read_def delete_name_def deletion_locked_def ok_or_def require_def)
  qed
  have kept: "vms (nd_db u) = vms (nd_db s) \<and> nd_calls u = nd_calls s \<and> nd_world u = nd_world s"
    if "job_progress ow job 10 s = (u, x)" for u x
    using that by (auto simp: job_progress_def db_do_def update_job_progress_def and_then_Inr Let_def split: sum.splits if_splits)
  obtain u e where u: "execute_job ow px job s = (u, Inl e)" "vms (nd_db u) = vms (nd_db s)"
      "nd_calls u = nd_calls s" "nd_world u = nd_world s"
  proof (cases "job_progress ow job 10 s")
    case (Pair u x)
    then show thesis using kept [OF Pair] locked [of u] that [of u]
      by (cases x) (simp_all add: execute_job_def chain_def assms(1))
  qed
  have fail: "vms (nd_db (fst (db_do ow (\<lambda>_. fail_job i m y n) u))) = vms (nd_db u)" for i m y n
    by (auto simp: db_do_def dest: failed_vms split: sum.split)
  have "record_job_outcome ow job (Inl e) u = (t, r)"
    using assms(5) by (simp add: execute_claimed_job_def chain_outcome u(1))
  then have "t = fst (db_do ow (\<lambda>_. fail_job (j_id job) (app_error_text e)
      (delete_retry_at job e (ow_now ow (nd_world u))) (ow_now ow (nd_world u))) u)"
    by (simp add: record_job_outcome_def world_read_def record_job_failure_def Let_def chain_def assms(1) bootstrap_kind_def
        when_do_def note_failed_vm_def split: option.splits)
  then have "nd_calls t = nd_calls u" "nd_world t = nd_world u" "vms (nd_db t) = vms (nd_db u)"
    by (simp_all add: fail)
  then show ?thesis using u(2-4) by (simp add: delete_retry_at_def delete_error_is_retryable_def)
qed

section \<open>A deletion on the example host\<close>

definition delete_site :: "(mock, io_error, unit) action \<Rightarrow> (mock, ip_addr) outside" where
  "delete_site unlinking = mock_site\<lparr>ow_unlink := \<lambda>_. unlinking\<rparr>"

definition delete_at :: "rat \<Rightarrow> mock entry list \<Rightarrow> mock node" where
  "delete_at x calls = (worker_node ''vm.delete'')\<lparr>nd_db := no_vms\<lparr>vms := [sample_vm ''v1'' ''web''],
     jobs := [(running_job ''vm.delete'')\<lparr>j_progress := x\<rparr>]\<rparr>,
     nd_world := demo_backend\<lparr>mk_vms := AList.delete ''web'' (mk_vms demo_backend)\<rparr>, nd_log := calls\<rparr>"

lemma delete_facts: "delete_target (running_job ''vm.delete'') = Inr ''v1''" "delete_storage (running_job ''vm.delete'')"
  "query_vm (nd_db (worker_node ''vm.delete'')) ''v1'' = Some (sample_vm ''v1'' ''web'')"
  "delete_name (running_job ''vm.delete'') (Some (sample_vm ''v1'' ''web'')) = Inr ''web''"
  "\<not> deletion_locked (Some (sample_vm ''v1'' ''web''))" "j_id (running_job ''vm.delete'') = ''j1''"
  by (simp_all add: delete_target_def delete_storage_def running_job_def ok_or_def json_get_def query_vm_def select_one_def
      worker_node_def delete_name_def deletion_locked_def disk_protection_def sample_vm_def)

abbreviation domain_entry :: "mock entry" where
  "domain_entry \<equiv> (CallDelete ''web'' True (Inr ()), moment_of (worker_node ''vm.delete''))"

abbreviation unlink_entry :: "string \<Rightarrow> io_error + unit \<Rightarrow> rat \<Rightarrow> mock entry list \<Rightarrow> mock entry" where
  "unlink_entry path r x calls \<equiv> (CallUnlink path r, moment_of (delete_at x calls))"

lemma deleted_domain: "remove_domain (delete_site f) ''web'' True (worker_node ''vm.delete'') = (delete_at 0 [domain_entry], Inr ())"
proof -
  have "mock_delete_vm ''web'' True demo_backend = (demo_backend\<lparr>mk_vms := AList.delete ''web'' (mk_vms demo_backend)\<rparr>, Inr ())"
    by (simp add: mock_delete_vm_def chain_def demo_web)
  then show ?thesis
    by (simp add: remove_domain_def ask_delete_def outside_call_def delete_site_def mock_site_def demo_host_def mock_hypervisor_def
        chain_outcome delete_at_def worker_node_def demo_node_def running_job_def)
qed

lemma deleting: "job_progress (delete_site f) (running_job ''vm.delete'') 45 (delete_at x calls) = (delete_at 45 calls, Inr ())"
  "job_progress (delete_site f) (running_job ''vm.delete'') 75 (delete_at x calls) = (delete_at 75 calls, Inr ())"
  by (simp_all add: job_progress_def db_do_def update_job_progress_def delete_at_def worker_node_def delete_site_def mock_site_def
      demo_host_def demo_node_def running_job_def and_then_def count_where_def update_where_def require_changed_def require_def
      demo_backend_def mock_new_def no_vms_def)

lemma no_route: "cleanup_routed_vm ow (sample_vm ''v1'' ''web'') s = (s, Inr False)"
  by (simp add: cleanup_routed_vm_def route_plan_def sample_vm_def json_get_def chain_def)

definition denied :: io_error where
  "denied = \<lparr>ie_kind = IoDenied, ie_text = ''denied''\<rparr>"

lemma seed_stays: "remove_vm_provisioning_seed (delete_site (raise denied)) ''v1'' (delete_at x calls)
    = (delete_at x (unlink_entry ''/seeds/v1.iso'' (Inl denied) x calls # calls), Inl (IoFailed ''denied''))"
  by (simp add: remove_vm_provisioning_seed_def chain_outcome unlink_file_def outside_call_def delete_site_def mock_site_def
      demo_host_def delete_at_def denied_def app_error_of_io_def action_defs)

lemma seed_goes: "remove_vm_provisioning_seed (delete_site (ret ())) ''v1'' (delete_at x calls)
    = (delete_at x ((CallSyncRoot True, moment_of (delete_at x calls)) # unlink_entry ''/seeds/v1.iso'' (Inr ()) x calls # calls), Inr True)"
  by (simp add: remove_vm_provisioning_seed_def chain_outcome unlink_file_def outside_call_def delete_site_def mock_site_def
      demo_host_def delete_at_def action_defs world_read_def map_err_def)

lemma failed_delete_keeps_row_witness:
  "\<exists>t e. execute_delete (delete_site (raise denied)) (running_job ''vm.delete'') (worker_node ''vm.delete'') = (t, Inl e)
     \<and> nd_world t \<noteq> demo_backend \<and> vm_exists (nd_db t) ''v1''"
proof -
  have e: "execute_delete (delete_site (raise denied)) (running_job ''vm.delete'') (worker_node ''vm.delete'')
     = (delete_at 45 [unlink_entry ''/seeds/v1.iso'' (Inl denied) 45 [domain_entry], domain_entry], Inl (IoFailed ''denied''))"
    by (simp add: execute_delete_def chain_def db_read_def delete_facts deleted_domain deleting no_route seed_stays require_def)
  have "AList.delete ''web'' (mk_vms demo_backend) \<noteq> mk_vms demo_backend" by (simp add: demo_backend_def)
  then have "nd_world (delete_at 45 calls) \<noteq> demo_backend" for calls
    by (simp add: delete_at_def) (metis mock.ext_inject mock.surjective mock.update_convs(1))
  moreover have "vm_exists (nd_db (worker_node ''vm.delete'')) ''v1''" by (simp add: vm_exists_def worker_node_def)
  ultimately show ?thesis using e failed_delete_keeps_row [OF _ e, of "''v1''"]
    by (auto simp: delete_site_def mock_site_def demo_host_def)
qed

lemma socket_gone: "remove_socket (delete_site (ret ())) ''v1'' (delete_at x calls)
    = (delete_at x (unlink_entry ''/run/tools/v1.sock'' (Inr ()) x calls # calls), Inr ())"
proof -
  have "socket_path ''/run/tools'' ''v1'' = Inr ''/run/tools/v1.sock''" by code_simp
  then show ?thesis
    by (simp add: remove_socket_def unlink_file_def outside_call_def delete_site_def mock_site_def demo_host_def delete_at_def)
qed

lemma row_gone: "\<exists>d. delete_vm ''v1'' n (nd_db (delete_at x calls)) = Inr (d, ())"
  by (simp add: delete_vm_def delete_at_def query_vm_def select_one_def and_then_def ok_or_def Let_def count_where_def
      require_changed_def require_def)

abbreviation deletion_log :: "mock entry list" where
  "deletion_log \<equiv> unlink_entry ''/run/tools/v1.sock'' (Inr ()) 75
       [(CallSyncRoot True, moment_of (delete_at 45 [domain_entry])), unlink_entry ''/seeds/v1.iso'' (Inr ()) 45 [domain_entry], domain_entry]
     # [(CallSyncRoot True, moment_of (delete_at 45 [domain_entry])), unlink_entry ''/seeds/v1.iso'' (Inr ()) 45 [domain_entry], domain_entry]"

lemma deleted_means_gone_witness:
  "\<exists>t a since unlink between del. execute_delete (delete_site (ret ())) (running_job ''vm.delete'') (worker_node ''vm.delete'') = (t, Inr a)
     \<and> nd_log t = since @ unlink # between @ [del]
     \<and> fst del = CallDelete ''web'' True (Inr ()) \<and> fst unlink = CallUnlink ''/seeds/v1.iso'' (Inr ())
     \<and> snd (hv_get_vm (mock_hypervisor (\<lambda>_. ''u'')) ''web'' (mo_world (snd (last (unlink # between))))) = Inl (HvNotFound ''web'')
     \<and> (\<forall>p \<in> set (nd_log t). vm_exists (mo_db (snd p)) ''v1'') \<and> \<not> vm_exists (nd_db t) ''v1''"
proof -
  obtain d where d: "delete_vm ''v1'' (ow_now (delete_site (ret ())) (nd_world (delete_at 75 calls))) (nd_db (delete_at 75 calls)) = Inr (d, ())" for calls
    using row_gone [of _ 75] by (simp add: delete_at_def) blast
  let ?t = "(delete_at 75 deletion_log)\<lparr>nd_db := d\<rparr>"
  have e: "execute_delete (delete_site (ret ())) (running_job ''vm.delete'') (worker_node ''vm.delete'')
     = (?t, Inr (deleted_answer ''v1'' False))"
    by (simp add: execute_delete_def chain_def db_read_def delete_facts deleted_domain deleting no_route seed_goes require_def
        socket_gone when_do_def db_do_def d)
  have h: "hypervisor_contract (ow_hv (delete_site (ret ())))" "ow_hv (delete_site (ret ())) = mock_hypervisor (\<lambda>_. ''u'')"
    using mock_contract [of "\<lambda>_. ''u''"] by (simp_all add: delete_site_def mock_site_def)
  have sole: "sole_row ''v1'' (nd_db (worker_node ''vm.delete''))" "others_keep_row (delete_site (ret ())) ''v1''"
    by (auto simp: sole_row_def vm_exists_def worker_node_def sample_vm_def others_keep_row_def delete_site_def mock_site_def demo_host_def)
  have start: "nd_log (worker_node ''vm.delete'') = []" by (simp add: worker_node_def demo_node_def)
  obtain ans res del unlink since between where log: "nd_log ?t = since @ unlink # between @ [del]"
    and del: "fst del = CallDelete ''web'' True ans"
    and gone: "ans = Inr () \<and> snd (hv_get_vm (mock_hypervisor (\<lambda>_. ''u'')) ''web'' (mo_world (snd (last (unlink # between))))) = Inl (HvNotFound ''web'')
       \<or> (\<exists>y. ans = Inl (HvNotFound y))"
    and unlink: "fst unlink = CallUnlink ''/seeds/v1.iso'' res"
    and row: "\<forall>p \<in> set (since @ unlink # between @ [del]). vm_exists (mo_db (snd p)) ''v1''" "\<not> vm_exists (nd_db ?t) ''v1''"
  proof -
    have "ow_seed_path (delete_site (ret ())) ''v1'' = ''/seeds/v1.iso''" by (simp add: delete_site_def mock_site_def demo_host_def)
    then show thesis using deleted_means_gone [OF h(1) e] sole that by (auto simp: delete_facts h(2) start)
  qed
  have "fst del = CallDelete ''web'' True (Inr ())" using arg_cong [where f = "\<lambda>l. fst (last l)", OF log] by (simp add: delete_at_def)
  then have ans: "ans = Inr ()" "fst del = CallDelete ''web'' True (Inr ())" using del by simp_all
  have "unlink \<in> set (nd_log ?t)" unfolding log by simp
  then have "unlink \<in> set deletion_log" by (simp add: delete_at_def)
  then have "res = Inr ()" using unlink by auto
  then have res: "fst unlink = CallUnlink ''/seeds/v1.iso'' (Inr ())" using unlink by simp
  have world: "snd (hv_get_vm (mock_hypervisor (\<lambda>_. ''u'')) ''web'' (mo_world (snd (last (unlink # between))))) = Inl (HvNotFound ''web'')"
    using gone ans(1) by simp
  show ?thesis
    by (intro exI conjI) (rule e, rule log, rule ans, rule res, rule world, rule row(1) [folded log], rule row(2))
qed

definition locked_vm :: vm_row where
  "locked_vm = (sample_vm ''v1'' ''web'')\<lparr>v_metadata := JObj [(''disk_protection'', JObj [(''deletion_lock'', JBool True)])]\<rparr>"

definition locked_node :: "mock node" where
  "locked_node = (worker_node ''vm.delete'')\<lparr>nd_db := no_vms\<lparr>vms := [locked_vm], jobs := [running_job ''vm.delete'']\<rparr>\<rparr>"

lemma locked_vm_not_deleted_witness:
  "\<exists>t r. execute_claimed_job mock_site demo_payloads (running_job ''vm.delete'') locked_node = (t, r :: app_error + unit)
     \<and> nd_calls t = [] \<and> nd_world t = demo_backend \<and> vms (nd_db t) = [locked_vm]"
proof -
  obtain t r where t: "execute_claimed_job mock_site demo_payloads (running_job ''vm.delete'') locked_node = (t, r :: app_error + unit)"
    by fastforce
  have "query_vm (nd_db locked_node) ''v1'' = Some locked_vm"
    by (simp add: query_vm_def select_one_def locked_node_def locked_vm_def)
  moreover have "disk_protection ''deletion_lock'' locked_vm"
    by (simp add: disk_protection_def locked_vm_def json_get_def json_bool_def)
  moreover have "j_kind (running_job ''vm.delete'') = ''vm.delete''" by (simp add: running_job_def)
  ultimately show ?thesis
    using locked_vm_not_deleted [OF _ delete_facts(1) _ _ t] t by (auto simp: locked_node_def worker_node_def demo_node_def)
qed

end
