(* ===== verification/Iso_Download.thy ===== *)
theory Iso_Download
  imports Effects App_Error Ip_Text Job_Queue Network_Policy
begin

text \<open>
  Remote images (\<open>src/services/iso_download.rs\<close>): the validation of a source, the fetch that
  follows redirects to public addresses only, the transfer that is written beside its place,
  measured and hashed before it is published, and the guards that keep transfers apart. The
  crates url and reqwest, DNS, SHA-256 and the outcome of each file operation are the record
  \<open>iso_lib\<close>; the files are a map from paths to contents. Every file operation can fail, removals
  included, whose errors the source ignores outside the cleanup of a restart; a write that fails
  leaves what was written before. A transfer cancelled at an await and a poisoned mutex are not modelled.
\<close>

section \<open>The world of a transfer\<close>

datatype url_host = HostDomain string | HostV4 "32 word" | HostV6 "128 word"

type_synonym socket = "ip_addr \<times> nat"

text \<open>The crate url: \<open>ul_port\<close> is \<open>port_or_known_default\<close>, \<open>ul_last_segment\<close> the last piece of the path.\<close>

record 'u url_lib =
  ul_parse :: "string \<Rightarrow> 'u option"
  ul_text :: "'u \<Rightarrow> string"
  ul_scheme :: "'u \<Rightarrow> string"
  ul_host :: "'u \<Rightarrow> url_host option"
  ul_username :: "'u \<Rightarrow> string"
  ul_password :: "'u \<Rightarrow> string option"
  ul_port :: "'u \<Rightarrow> nat option"
  ul_without_fragment :: "'u \<Rightarrow> 'u"
  ul_join :: "'u \<Rightarrow> string \<Rightarrow> 'u option"
  ul_last_segment :: "'u \<Rightarrow> string option"

datatype net_error = NetTimeout | NetFailed

text \<open>A client that cannot be built has sent nothing.\<close>

datatype fetch_error = ClientUnbuilt | FetchTimeout | FetchFailed

text \<open>The body as it arrives: a chunk, a wait longer than the limit, a broken stream.\<close>

datatype chunk = Chunk string | Stalled | Broken

record http_answer =
  ha_peer :: "socket option"
  ha_status :: nat
  ha_location :: "string option option"
  ha_content_length :: "nat option"
  ha_length_header :: "string option option"
  ha_body :: "chunk list"

datatype disk_op = DiskCreate string | DiskWrite string | DiskSync string | DiskRename string string
  | DiskStat string | DiskRemove string

text \<open>An entry of a directory: its name when it is valid Unicode, whether it is a regular file, its age.\<close>

record dir_entry =
  de_name :: "string option"
  de_file :: bool
  de_modified :: "int option"

record ('w, 'u) iso_lib =
  iw_url :: "'u url_lib"
  iw_lookup :: "string \<Rightarrow> nat \<Rightarrow> ('w, net_error, socket list) action"
  iw_get :: "'u \<Rightarrow> socket list option \<Rightarrow> ('w, fetch_error, http_answer) action"
  iw_create_dir_all :: "string \<Rightarrow> ('w, string, unit) action"
  iw_canonicalize :: "string \<Rightarrow> ('w, string, string) action"
  iw_is_dir :: "string \<Rightarrow> ('w, string, bool) action"
  iw_entries :: "string \<Rightarrow> ('w, string, (string + dir_entry) list) action"
  iw_available :: "string \<Rightarrow> ('w, app_error, nat) action"
  iw_uuid :: "('w, app_error, string) action"
  iw_disk :: "disk_op \<Rightarrow> 'w \<Rightarrow> 'w \<times> string option"
  iw_sha256 :: "string \<Rightarrow> string"

text \<open>\<open>ACTIVE_OPERATIONS\<close> and the guard an operation holds.\<close>

record image_operations =
  io_records :: "string set"
  io_transfers :: nat

record image_guard =
  ig_key :: string
  ig_transfer :: bool

text \<open>The state: the outside, the files, the requests sent (the latest first) and the operations.\<close>

record ('w, 'u) transfer =
  tn_world :: 'w
  tn_files :: "string \<rightharpoonup> string"
  tn_sent :: "('u \<times> socket list option) list"
  tn_operations :: image_operations
  tn_guard :: image_guard

type_synonym ('w, 'u, 'a) transfer_step = "(('w, 'u) transfer, app_error, 'a) action"

definition net_call :: "('w, 'e, 'a) action \<Rightarrow> (('w, 'u) transfer, 'e, 'a) action" where
  "net_call f = (\<lambda>s. case f (tn_world s) of (w, r) \<Rightarrow> (s\<lparr>tn_world := w\<rparr>, r))"

definition send :: "('w, 'u) iso_lib \<Rightarrow> 'u \<Rightarrow> socket list option \<Rightarrow> (('w, 'u) transfer, fetch_error, http_answer) action" where
  "send iw url pinned = (\<lambda>s. case iw_get iw url pinned (tn_world s) of
     (w, r) \<Rightarrow> (s\<lparr>tn_world := w,
       tn_sent := (if r = Inl ClientUnbuilt then tn_sent s else (url, pinned) # tn_sent s)\<rparr>, r))"

section \<open>Sources\<close>

definition max_remote_image_bytes :: nat where
  "max_remote_image_bytes = 16 * 1024 * 1024 * 1024"

definition max_redirects :: nat where
  "max_redirects = 5"

fun split_at_text :: "string \<Rightarrow> string \<Rightarrow> (string \<times> string) option" where
  "split_at_text sep [] = (if sep = [] then Some ([], []) else None)"
| "split_at_text sep (c # cs) =
     (if starts_with (c # cs) sep then Some ([], drop (length sep) (c # cs))
      else map_option (apfst (Cons c)) (split_at_text sep cs))"

definition bad_url :: app_error where
  "bad_url = Validation ''remote image URL is invalid''"

definition validate_source_url :: "'u url_lib \<Rightarrow> string \<Rightarrow> app_error + 'u" where
  "validate_source_url ul value =
     and_then (ok_or (split_at_text ''://'' (trim value)) bad_url) (\<lambda>(scheme, authority).
     and_then (require (\<not> (ascii_lower scheme \<noteq> ''https'' \<or> authority = [] \<or> starts_with authority ''/'')) bad_url) (\<lambda>_.
     and_then (ok_or (ul_parse ul (trim value)) bad_url) (\<lambda>url.
     and_then (require (ul_scheme ul url = ''https'') (Validation ''remote image sources must use HTTPS'')) (\<lambda>_.
     and_then (require (ul_host ul url \<noteq> None) (Validation ''remote image URL must include a host'')) (\<lambda>_.
     and_then (require (ul_username ul url = [] \<and> ul_password ul url = None)
       (Validation ''remote image URLs must not contain credentials'')) (\<lambda>_.
     and_then (require (ul_port ul url = Some 443)
       (Validation ''remote image URLs must use the default HTTPS port 443'')) (\<lambda>_.
     Inr (ul_without_fragment ul url))))))))"

definition validate_sha256 :: "string \<Rightarrow> app_error + string" where
  "validate_sha256 value =
     and_then (require (length (trim value) = 64 \<and> list_all is_ascii_hex (trim value))
       (Validation ''image SHA-256 must contain exactly 64 hexadecimal characters'')) (\<lambda>_.
     Inr (ascii_lower (trim value)))"

section \<open>Public addresses\<close>

definition octets_public :: "int \<Rightarrow> int \<Rightarrow> int \<Rightarrow> bool" where
  "octets_public a b c \<longleftrightarrow> \<not> (a = 0 \<or> a = 10 \<or> (a = 100 \<and> 64 \<le> b \<and> b \<le> 127) \<or> a = 127 \<or> (a = 169 \<and> b = 254)
     \<or> (a = 172 \<and> 16 \<le> b \<and> b \<le> 31) \<or> (a = 192 \<and> b = 0 \<and> c = 0) \<or> (a = 192 \<and> b = 0 \<and> c = 2) \<or> (a = 192 \<and> b = 168)
     \<or> (a = 198 \<and> 18 \<le> b \<and> b \<le> 19) \<or> (a = 198 \<and> b = 51 \<and> c = 100) \<or> (a = 203 \<and> b = 0 \<and> c = 113) \<or> 224 \<le> a)"

definition is_public_ipv4 :: "32 word \<Rightarrow> bool" where
  "is_public_ipv4 a \<longleftrightarrow> octets_public (octet a 0) (octet a 1) (octet a 2)"

text \<open>\<open>to_ipv4_mapped\<close>: \<open>::ffff:a.b.c.d\<close>.\<close>

definition ipv4_mapped :: "128 word \<Rightarrow> (32 word) option" where
  "ipv4_mapped a = (if uint a div 2 ^ 32 = 0xffff then Some (word_of_int (uint a mod 2 ^ 32)) else None)"

definition is_public_ipv6 :: "128 word \<Rightarrow> bool" where
  "is_public_ipv6 a = (case ipv4_mapped a of
     Some m \<Rightarrow> is_public_ipv4 m
   | None \<Rightarrow>
       (let s0 = segments a ! 0; s1 = segments a ! 1; s2 = segments a ! 2 in
        s0 div 0x2000 = 1 \<and> \<not> (s0 = 0x2001 \<and> s1 = 0x0db8) \<and> \<not> (s0 = 0x2001 \<and> s1 = 0)
        \<and> (s0 \<noteq> 0x2002 \<or> octets_public (s1 div 256) (s1 mod 256) (s2 div 256))))"

definition is_public_ip :: "ip_addr \<Rightarrow> bool" where
  "is_public_ip a = (case a of IpV4 w \<Rightarrow> is_public_ipv4 w | IpV6 w \<Rightarrow> is_public_ipv6 w)"

section \<open>The fetch\<close>

fun first_seen :: "'a list \<Rightarrow> 'a list \<Rightarrow> 'a list" where
  "first_seen seen [] = []"
| "first_seen seen (x # xs) = (if x \<in> set seen then first_seen seen xs else x # first_seen (x # seen) xs)"

definition lookup_host :: "('w, 'u) iso_lib \<Rightarrow> string \<Rightarrow> nat \<Rightarrow> ('w, 'u, socket list) transfer_step" where
  "lookup_host iw domain port = with_error (\<lambda>e. case e of
       NetTimeout \<Rightarrow> Conflict ''remote image DNS lookup timed out''
     | NetFailed \<Rightarrow> Conflict ''remote image host could not be resolved'') (net_call (iw_lookup iw domain port))"

definition resolve_public_targets :: "('w, 'u) iso_lib \<Rightarrow> 'u \<Rightarrow> ('w, 'u, socket list) transfer_step" where
  "resolve_public_targets iw url =
     chain (lifted (ok_or (ul_port (iw_url iw) url) (Validation ''remote image URL has no usable port''))) (\<lambda>port.
     chain (case ul_host (iw_url iw) url of
       Some (HostV4 a) \<Rightarrow> ret [(IpV4 a, port)]
     | Some (HostV6 a) \<Rightarrow> ret [(IpV6 a, port)]
     | Some (HostDomain domain) \<Rightarrow> lookup_host iw domain port
     | None \<Rightarrow> ret []) (\<lambda>addresses.
     chain (lifted (require (addresses \<noteq> []) (Conflict ''remote image host did not resolve to an address''))) (\<lambda>_.
     chain (lifted (require (\<forall>a \<in> set addresses. is_public_ip (fst a))
       (Validation ''remote image hosts must resolve only to globally routable addresses''))) (\<lambda>_.
     ret (first_seen [] addresses)))))"

definition redirect_target :: "('w, 'u) iso_lib \<Rightarrow> 'u \<Rightarrow> string \<Rightarrow> app_error + 'u" where
  "redirect_target iw current location =
     and_then (ok_or (ul_join (iw_url iw) current location) (Conflict ''remote image redirect is invalid'')) (\<lambda>target.
     validate_source_url (iw_url iw) (ul_text (iw_url iw) target))"

definition is_followable_redirect :: "nat \<Rightarrow> bool" where
  "is_followable_redirect status \<longleftrightarrow> status \<in> {301, 302, 303, 307, 308}"

text \<open>Requests to a domain are pinned to the addresses that were checked.\<close>

definition pinned_targets :: "('w, 'u) iso_lib \<Rightarrow> 'u \<Rightarrow> socket list \<Rightarrow> socket list option" where
  "pinned_targets iw url targets = (case ul_host (iw_url iw) url of Some (HostDomain _) \<Rightarrow> Some targets | _ \<Rightarrow> None)"

definition request_image :: "('w, 'u) iso_lib \<Rightarrow> 'u \<Rightarrow> socket list \<Rightarrow> ('w, 'u, http_answer) transfer_step" where
  "request_image iw url targets = with_error (\<lambda>e. case e of
       ClientUnbuilt \<Rightarrow> Internal ''remote image client could not be built''
     | FetchTimeout \<Rightarrow> Conflict ''remote image request timed out''
     | FetchFailed \<Rightarrow> Conflict ''remote image request failed'') (send iw url (pinned_targets iw url targets))"

definition check_peer :: "socket list \<Rightarrow> http_answer \<Rightarrow> app_error + unit" where
  "check_peer targets a =
     and_then (ok_or (ha_peer a) (Conflict ''remote image server address could not be verified'')) (\<lambda>peer.
     require (is_public_ip (fst peer) \<and> peer \<in> set targets)
       (Validation ''remote image connection resolved to a non-public or unexpected address''))"

definition redirect_location :: "http_answer \<Rightarrow> app_error + string" where
  "redirect_location a =
     and_then (ok_or (ha_location a) (Conflict ''remote image redirect has no location'')) (\<lambda>l.
     ok_or l (Conflict ''remote image redirect is invalid''))"

text \<open>The rounds of the loop that are left are its argument; \<open>redirect_count\<close> is what is done of them.\<close>

fun fetch_rounds :: "('w, 'u) iso_lib \<Rightarrow> nat \<Rightarrow> 'u \<Rightarrow> ('w, 'u, http_answer \<times> 'u) transfer_step" where
  "fetch_rounds iw 0 url = raise (Internal ''remote image redirect handling failed'')"
| "fetch_rounds iw (Suc n) url =
     chain (resolve_public_targets iw url) (\<lambda>targets.
     chain (lifted (require (ul_host (iw_url iw) url \<noteq> None) (Validation ''remote image URL has no host''))) (\<lambda>_.
     chain (request_image iw url targets) (\<lambda>a.
     chain (lifted (check_peer targets a)) (\<lambda>_.
     if is_followable_redirect (ha_status a) then
       chain (lifted (require (n \<noteq> 0) (Conflict ''remote image URL exceeded five redirects''))) (\<lambda>_.
       chain (lifted (redirect_location a)) (\<lambda>location.
       chain (lifted (redirect_target iw url location)) (\<lambda>next_url.
       fetch_rounds iw n next_url)))
     else
       chain (lifted (require (200 \<le> ha_status a \<and> ha_status a < 300)
         (Conflict (''remote image server returned HTTP '' @ show_nat (ha_status a))))) (\<lambda>_.
       ret (a, url))))))"

definition fetch_with_safe_redirects :: "('w, 'u) iso_lib \<Rightarrow> 'u \<Rightarrow> ('w, 'u, http_answer \<times> 'u) transfer_step" where
  "fetch_with_safe_redirects iw url = fetch_rounds iw (Suc max_redirects) url"

section \<open>Sizes\<close>

definition parse_u64 :: "string \<Rightarrow> nat option" where
  "parse_u64 t = (let digits = (if t \<noteq> [] \<and> hd t = CHR ''+'' then tl t else t);
        n = foldl (\<lambda>n c. 10 * n + nat (code_of c - 48)) 0 digits in
     if digits \<noteq> [] \<and> list_all is_ascii_digit digits \<and> n < 2 ^ 64 then Some n else None)"

definition response_length :: "http_answer \<Rightarrow> nat option" where
  "response_length a = (case ha_content_length a of
     Some n \<Rightarrow> Some n
   | None \<Rightarrow> Option.bind (Option.bind (ha_length_header a) (\<lambda>t. t)) parse_u64)"

definition transfer_capacity_reservation :: "nat option \<Rightarrow> nat" where
  "transfer_capacity_reservation declared = (case declared of Some n \<Rightarrow> n | None \<Rightarrow> max_remote_image_bytes)"

definition min_free_after_download_bytes :: nat where
  "min_free_after_download_bytes = 512 * 1024 * 1024"

definition ensure_storage_capacity :: "('w, 'u) iso_lib \<Rightarrow> string \<Rightarrow> nat \<Rightarrow> ('w, 'u, unit) transfer_step" where
  "ensure_storage_capacity iw store image_bytes =
     chain (net_call (iw_available iw store)) (\<lambda>available.
     let required = image_bytes + min_free_after_download_bytes in
     chain (lifted (require (required < 2 ^ 64) (Validation ''remote image is too large''))) (\<lambda>_.
     lifted (require (\<not> available < required) (Conflict (''image storage needs at least '' @ show_nat required
       @ '' free bytes for this download and safety reserve'')))))"

definition image_too_large :: app_error where
  "image_too_large = Validation ''remote image exceeds the 16 GiB limit''"

definition validate_declared_length :: "nat option \<Rightarrow> nat option \<Rightarrow> app_error + unit" where
  "validate_declared_length declared expected = (case declared of
     None \<Rightarrow> Inr ()
   | Some n \<Rightarrow>
       and_then (require (\<not> max_remote_image_bytes < n) image_too_large) (\<lambda>_.
       require (expected = None \<or> expected = Some n)
         (Conflict ''remote image Content-Length does not match the expected size'')))"

section \<open>The transfer\<close>

definition disk :: "('w, 'u) iso_lib \<Rightarrow> disk_op \<Rightarrow> ('w, 'u, unit) transfer_step" where
  "disk iw op = (\<lambda>s. case iw_disk iw op (tn_world s) of
     (w, None) \<Rightarrow> (s\<lparr>tn_world := w\<rparr>, Inr ()) | (w, Some e) \<Rightarrow> (s\<lparr>tn_world := w\<rparr>, Inl (IoFailed e)))"

definition remove_file :: "('w, 'u) iso_lib \<Rightarrow> string \<Rightarrow> ('w, 'u, unit) transfer_step" where
  "remove_file iw path =
     chain (read_state (\<lambda>s. tn_files s path \<noteq> None)) (\<lambda>found.
     chain (lifted (require found (IoFailed ''No such file or directory (os error 2)''))) (\<lambda>_.
     chain (disk iw (DiskRemove path)) (\<lambda>_.
     modify (\<lambda>s. s\<lparr>tn_files := (tn_files s)(path := None)\<rparr>))))"

text \<open>\<open>let _ = remove_file(..)\<close>.\<close>

definition remove_path :: "('w, 'u) iso_lib \<Rightarrow> string \<Rightarrow> (('w, 'u) transfer, 'e, unit) action" where
  "remove_path iw path = ignored (remove_file iw path)"

definition create_partial :: "('w, 'u) iso_lib \<Rightarrow> string \<Rightarrow> ('w, 'u, unit) transfer_step" where
  "create_partial iw path =
     chain (disk iw (DiskCreate path)) (\<lambda>_.
     chain (read_state (\<lambda>s. tn_files s path = None)) (\<lambda>free.
     chain (lifted (require free (IoFailed ''File exists (os error 17)''))) (\<lambda>_.
     modify (\<lambda>s. s\<lparr>tn_files := (tn_files s)(path \<mapsto> [])\<rparr>))))"

text \<open>The loop over the chunks: what arrived before, the size and the text to hash.\<close>

fun receive ::
  "('w, 'u) iso_lib \<Rightarrow> string \<Rightarrow> nat option \<Rightarrow> nat \<Rightarrow> string \<Rightarrow> chunk list \<Rightarrow> ('w, 'u, string) transfer_step" where
  "receive iw path expected maximum got [] = ret got"
| "receive iw path expected maximum got (Stalled # cs) = raise (Conflict ''remote image download stalled'')"
| "receive iw path expected maximum got (Broken # cs) = raise (Conflict ''remote image download stream failed'')"
| "receive iw path expected maximum got (Chunk c # cs) =
     (let size = length got + length c in
      chain (lifted (require (size < 2 ^ 64) (Validation ''remote image is too large''))) (\<lambda>_.
      chain (lifted (require (\<not> maximum < size) image_too_large)) (\<lambda>_.
      chain (lifted (require (case expected of None \<Rightarrow> True | Some n \<Rightarrow> \<not> n < size)
        (Conflict ''downloaded image exceeds the expected size''))) (\<lambda>_.
      chain (disk iw (DiskWrite path)) (\<lambda>_.
      chain (modify (\<lambda>s. s\<lparr>tn_files := (tn_files s)(path \<mapsto> got @ c)\<rparr>)) (\<lambda>_.
      receive iw path expected maximum (got @ c) cs))))))"

record downloaded_image =
  di_path :: string
  di_size :: nat
  di_sha256 :: string
  di_cleanup :: bool

definition publish_image ::
  "('w, 'u) iso_lib \<Rightarrow> string \<Rightarrow> string \<Rightarrow> string \<Rightarrow> nat option \<Rightarrow> string \<Rightarrow> ('w, 'u, downloaded_image) transfer_step" where
  "publish_image iw partial_path final_path sha expected got =
     chain (lifted (require (expected = None \<or> expected = Some (length got))
       (Conflict ''downloaded image size does not match the expected size''))) (\<lambda>_.
     chain (lifted (require (iw_sha256 iw got = sha)
       (Conflict ''downloaded image SHA-256 does not match; the file was discarded''))) (\<lambda>_.
     chain (disk iw (DiskRename partial_path final_path)) (\<lambda>_.
     chain (modify (\<lambda>s. s\<lparr>tn_files := (tn_files s)(final_path := tn_files s partial_path, partial_path := None)\<rparr>)) (\<lambda>_.
     ret \<lparr>di_path = final_path, di_size = length got, di_sha256 = iw_sha256 iw got, di_cleanup = True\<rparr>))))"

text \<open>
  \<open>TransferFileCleanup\<close>: however the transfer ends its partial file goes, and unless it
  succeeded the final file too.
\<close>

definition guarded_files ::
  "('w, 'u) iso_lib \<Rightarrow> string \<Rightarrow> string \<Rightarrow> ('w, 'u, 'a) transfer_step \<Rightarrow> ('w, 'u, 'a) transfer_step" where
  "guarded_files iw partial_path final_path m =
     chain (outcome m) (\<lambda>r.
     chain (remove_path iw partial_path) (\<lambda>_. case r of
       Inr a \<Rightarrow> ret a
     | Inl e \<Rightarrow> chain (remove_path iw final_path) (\<lambda>_. raise e)))"

definition stream_and_verify_inner ::
  "('w, 'u) iso_lib \<Rightarrow> chunk list \<Rightarrow> string \<Rightarrow> string \<Rightarrow> string \<Rightarrow> nat option \<Rightarrow> nat
    \<Rightarrow> ('w, 'u, downloaded_image) transfer_step" where
  "stream_and_verify_inner iw body partial_path final_path sha expected maximum =
     chain (create_partial iw partial_path) (\<lambda>_.
     guarded_files iw partial_path final_path
       (chain (receive iw partial_path expected maximum [] body) (\<lambda>got.
        chain (disk iw (DiskSync partial_path)) (\<lambda>_.
        publish_image iw partial_path final_path sha expected got))))"

definition stream_and_verify ::
  "('w, 'u) iso_lib \<Rightarrow> chunk list \<Rightarrow> string \<Rightarrow> string \<Rightarrow> string \<Rightarrow> nat option \<Rightarrow> nat
    \<Rightarrow> ('w, 'u, downloaded_image) transfer_step" where
  "stream_and_verify iw body partial_path final_path sha expected maximum =
     chain (outcome (stream_and_verify_inner iw body partial_path final_path sha expected maximum)) (\<lambda>r. case r of
       Inr a \<Rightarrow> ret a
     | Inl e \<Rightarrow> chain (remove_path iw partial_path) (\<lambda>_. raise e))"

text \<open>A downloaded image is deleted when it is dropped before the catalog row has been written.\<close>

definition retain_image :: "downloaded_image \<Rightarrow> downloaded_image" where
  "retain_image d = d\<lparr>di_cleanup := False\<rparr>"

definition drop_image :: "('w, 'u) iso_lib \<Rightarrow> downloaded_image \<Rightarrow> (('w, 'u) transfer, 'e, unit) action" where
  "drop_image iw d = when_do (di_cleanup d) (remove_path iw (di_path d))"

section \<open>Operations\<close>

definition max_simultaneous_transfers :: nat where
  "max_simultaneous_transfers = 1"

definition acquire :: "image_operations \<Rightarrow> string \<Rightarrow> app_error + image_operations \<times> image_guard" where
  "acquire ops key =
     and_then (require (key \<notin> io_records ops)
       (Conflict ''an image operation is already active for this catalog entry'')) (\<lambda>_.
     Inr (ops\<lparr>io_records := insert key (io_records ops)\<rparr>, \<lparr>ig_key = key, ig_transfer = False\<rparr>))"

definition begin_image_transfer ::
  "image_operations \<Rightarrow> image_guard \<Rightarrow> app_error + image_operations \<times> image_guard" where
  "begin_image_transfer ops g =
     (if ig_transfer g then Inr (ops, g)
      else and_then (require (\<not> max_simultaneous_transfers \<le> io_transfers ops)
          (Conflict ''the node is already transferring an image'')) (\<lambda>_.
        Inr (ops\<lparr>io_transfers := io_transfers ops + 1\<rparr>, g\<lparr>ig_transfer := True\<rparr>)))"

definition drop_guard :: "image_operations \<Rightarrow> image_guard \<Rightarrow> image_operations" where
  "drop_guard ops g = ops\<lparr>io_records := io_records ops - {ig_key g},
     io_transfers := (if ig_transfer g then io_transfers ops - 1 else io_transfers ops)\<rparr>"

definition begin_transfer :: "('w, 'u, unit) transfer_step" where
  "begin_transfer = (\<lambda>s. case begin_image_transfer (tn_operations s) (tn_guard s) of
     Inl e \<Rightarrow> (s, Inl e)
   | Inr (ops, g) \<Rightarrow> (s\<lparr>tn_operations := ops, tn_guard := g\<rparr>, Inr ()))"

section \<open>Downloads\<close>

text \<open>\<open>Path::extension\<close> of a file name.\<close>

definition path_extension :: "string \<Rightarrow> string option" where
  "path_extension name = (case split_once (CHR ''.'') (rev name) of
     None \<Rightarrow> None
   | Some (ext, stem) \<Rightarrow> if stem = [] \<or> name = ''..'' then None else Some (rev ext))"

definition image_extension :: "'u url_lib \<Rightarrow> 'u \<Rightarrow> string option" where
  "image_extension ul url =
     Option.bind (Option.bind (ul_last_segment ul url) path_extension) (\<lambda>ext.
       if ascii_lower ext \<in> {''iso'', ''qcow'', ''qcow2'', ''raw'', ''img''} then Some (ascii_lower ext) else None)"

definition join_path :: "string \<Rightarrow> string \<Rightarrow> string" where
  "join_path store name = (if ends_with store ''/'' then store @ name else store @ ''/'' @ name)"

definition prepare_storage :: "('w, 'u) iso_lib \<Rightarrow> string \<Rightarrow> ('w, 'u, string) transfer_step" where
  "prepare_storage iw store =
     chain (with_error IoFailed (net_call (iw_create_dir_all iw store))) (\<lambda>_.
     chain (with_error (\<lambda>_. Internal ''managed image storage could not be resolved'')
       (net_call (iw_canonicalize iw store))) (\<lambda>store'.
     chain (with_error IoFailed (net_call (iw_is_dir iw store'))) (\<lambda>directory.
     chain (lifted (require directory (Configuration ''VEXA_ISO_STORAGE must be a directory''))) (\<lambda>_.
     ret store'))))"

definition download_and_verify ::
  "('w, 'u) iso_lib \<Rightarrow> string \<Rightarrow> string \<Rightarrow> nat option \<Rightarrow> string \<Rightarrow> ('w, 'u, downloaded_image) transfer_step" where
  "download_and_verify iw source sha expected store =
     chain (lifted (validate_source_url (iw_url iw) source)) (\<lambda>original.
     chain (lifted (validate_sha256 sha)) (\<lambda>sha'.
     chain (lifted (require (case expected of None \<Rightarrow> True | Some n \<Rightarrow> \<not> max_remote_image_bytes < n) image_too_large)) (\<lambda>_.
     chain begin_transfer (\<lambda>_.
     chain (prepare_storage iw store) (\<lambda>store'.
     chain (fetch_with_safe_redirects iw original) (\<lambda>(a, final_url).
     chain (lifted (validate_declared_length (response_length a) expected)) (\<lambda>_.
     chain (ensure_storage_capacity iw store' (transfer_capacity_reservation (response_length a))) (\<lambda>_.
     chain (lifted (ok_or (case image_extension (iw_url iw) final_url of
           Some e \<Rightarrow> Some e | None \<Rightarrow> image_extension (iw_url iw) original)
         (Validation ''remote image URL must end in .iso, .qcow, .qcow2, .raw, or .img''))) (\<lambda>ext.
     chain (net_call (iw_uuid iw)) (\<lambda>uuid.
     let final_path = join_path store' (uuid @ ''.'' @ ext); partial_path = final_path @ ''.part'' in
     chain (outcome (stream_and_verify iw (ha_body a) partial_path final_path sha' expected max_remote_image_bytes)) (\<lambda>r.
     case r of Inr d \<Rightarrow> ret d | Inl e \<Rightarrow> chain (remove_path iw partial_path) (\<lambda>_. raise e))))))))))))"

section \<open>Stale partial files\<close>

definition is_generated_partial_name :: "string \<Rightarrow> bool" where
  "is_generated_partial_name name \<longleftrightarrow> 41 < length name \<and> ends_with name ''.part''
     \<and> name ! 36 \<in> {CHR ''.'', CHR ''-''} \<and> uuid_parses (take 36 name)"

text \<open>The loop over the directory, with the number removed so far.\<close>

fun cleanup_entries ::
  "('w, 'u) iso_lib \<Rightarrow> string \<Rightarrow> int \<Rightarrow> (string + dir_entry) list \<Rightarrow> nat \<Rightarrow> ('w, 'u, nat) transfer_step" where
  "cleanup_entries iw store cutoff [] removed = ret removed"
| "cleanup_entries iw store cutoff (Inl e # es) removed = raise (IoFailed e)"
| "cleanup_entries iw store cutoff (Inr d # es) removed = (case de_name d of
     None \<Rightarrow> cleanup_entries iw store cutoff es removed
   | Some name \<Rightarrow>
       if \<not> is_generated_partial_name name then cleanup_entries iw store cutoff es removed
       else chain (disk iw (DiskStat (join_path store name))) (\<lambda>_.
         if de_file d \<and> (case de_modified d of None \<Rightarrow> False | Some m \<Rightarrow> m \<le> cutoff) then
           chain (remove_file iw (join_path store name)) (\<lambda>_.
           cleanup_entries iw store cutoff es (removed + 1))
         else cleanup_entries iw store cutoff es removed))"

definition cleanup_partial_files_before :: "('w, 'u) iso_lib \<Rightarrow> string \<Rightarrow> int \<Rightarrow> ('w, 'u, nat) transfer_step" where
  "cleanup_partial_files_before iw store cutoff =
     chain (with_error IoFailed (net_call (iw_entries iw store))) (\<lambda>es. cleanup_entries iw store cutoff es 0)"

definition stale_partial_age :: int where
  "stale_partial_age = 24 * 60 * 60"

definition cleanup_stale_partial_files :: "('w, 'u) iso_lib \<Rightarrow> int \<Rightarrow> string \<Rightarrow> ('w, 'u, nat) transfer_step" where
  "cleanup_stale_partial_files iw clock store =
     cleanup_partial_files_before iw store (clock - stale_partial_age)"

end
