(* ===== verification/Iso_Publish.thy ===== *)
theory Iso_Publish
  imports Iso_Download "HOL-Library.Sublist"
begin

text \<open>
  What a transfer leaves behind: a complete image with the expected digest under its final name, or
  the files as they were, up to a partial file that could not be removed.
\<close>

section \<open>The files of a transfer\<close>

lemma disk_files: "disk iw op s = (t, r) \<Longrightarrow> tn_files t = tn_files s"
  by (auto simp: disk_def split: prod.splits option.splits)

text \<open>A removal is ignored when it fails; the file is gone when the file system removes it.\<close>

definition removable :: "('w, 'u) iso_lib \<Rightarrow> string \<Rightarrow> bool" where
  "removable iw p \<longleftrightarrow> (\<forall>w. snd (iw_disk iw (DiskRemove p) w) = None)"

lemma remove_files:
  assumes "remove_path iw p s = (t, r)"
  shows "r = Inr ()" "tn_files t = tn_files s \<or> tn_files t = (tn_files s)(p := None)"
    "removable iw p \<Longrightarrow> tn_files t = (tn_files s)(p := None)"
proof -
  have t: "t = fst (remove_file iw p s)" "r = Inr ()" using assms by (simp_all add: remove_path_def)
  show "r = Inr ()" by (rule t)
  have "tn_files t = (if tn_files s p \<noteq> None \<and> snd (iw_disk iw (DiskRemove p) (tn_world s)) = None
      then (tn_files s)(p := None) else tn_files s)"
    unfolding t by (auto simp: remove_file_def disk_def action_defs require_def split: prod.split option.split)
  then show "tn_files t = tn_files s \<or> tn_files t = (tn_files s)(p := None)"
    "removable iw p \<Longrightarrow> tn_files t = (tn_files s)(p := None)"
    by (auto simp: removable_def)
qed

fun chunk_text :: "chunk \<Rightarrow> string" where
  "chunk_text (Chunk c) = c"
| "chunk_text _ = []"

definition body_text :: "chunk list \<Rightarrow> string" where
  "body_text cs = concat (map chunk_text cs)"

lemma written_files:
  "tn_files u = F(p \<mapsto> x) \<Longrightarrow> tn_files (u\<lparr>tn_files := (tn_files u)(p \<mapsto> y)\<rparr>) = F(p \<mapsto> y)"
  by simp

lemma receive_done:
  assumes "receive iw p x m got cs s = (t, Inr all)" "tn_files s = F(p \<mapsto> got)" "length got \<le> m"
  shows "tn_files t = F(p \<mapsto> all) \<and> all = got @ body_text cs \<and> length all \<le> m"
  using assms
proof (induction iw p x m got cs arbitrary: s rule: receive.induct)
  case (4 iw p x m got c cs)
  from 4(2) obtain u where u: "disk iw (DiskWrite p) s = (u, Inr ())" "length got + length c \<le> m"
    "receive iw p x m (got @ c) cs (u\<lparr>tn_files := (tn_files u)(p \<mapsto> got @ c)\<rparr>) = (t, Inr all)"
    by (auto simp: Let_def chain_Inr)
  have "tn_files (u\<lparr>tn_files := (tn_files u)(p \<mapsto> got @ c)\<rparr>) = F(p \<mapsto> got @ c)"
    using disk_files[OF u(1)] 4(3) by (intro written_files[where x = got]) (simp only:)
  from 4(1)[OF refl u(3) this] u(2) show ?case by (auto simp: body_text_def)
qed (auto simp: body_text_def)

lemma receive_fails:
  assumes "receive iw p x m got cs s = (t, Inl e)" "tn_files s = F(p \<mapsto> got)"
  shows "\<exists>y. tn_files t = F(p \<mapsto> y)"
  using assms
proof (induction iw p x m got cs arbitrary: s rule: receive.induct)
  case (4 iw p x m got c cs)
  consider "tn_files t = tn_files s"
    | u where "disk iw (DiskWrite p) s = (u, Inr ())"
      "receive iw p x m (got @ c) cs (u\<lparr>tn_files := (tn_files u)(p \<mapsto> got @ c)\<rparr>) = (t, Inl e)"
    using 4(2) by (auto simp: Let_def chain_Inl dest: disk_files)
  then show ?case
  proof cases
    case 1
    then show ?thesis using 4(3) by auto
  next
    case (2 u)
    have "tn_files (u\<lparr>tn_files := (tn_files u)(p \<mapsto> got @ c)\<rparr>) = F(p \<mapsto> got @ c)"
      using disk_files[OF 2(1)] 4(3) by (intro written_files[where x = got]) (simp only:)
    then show ?thesis by (rule 4(1)[OF refl 2(2)])
  qed
qed auto

lemma publish_done:
  assumes "publish_image iw p f sha x got s = (t, Inr d)"
  shows "(x = None \<or> x = Some (length got)) \<and> iw_sha256 iw got = sha
    \<and> tn_files t = (tn_files s)(f := tn_files s p, p := None) \<and> d = \<lparr>di_path = f, di_size = length got, di_sha256 = sha, di_cleanup = True\<rparr>"
  using assms by (auto simp: publish_image_def chain_Inr dest: disk_files)

lemma publish_fails: "publish_image iw p f sha x got s = (t, Inl e) \<Longrightarrow> tn_files t = tn_files s"
  by (auto simp: publish_image_def chain_Inl dest: disk_files)

lemma create_files:
  assumes "create_partial iw p s = (t, r)"
  shows "(if is_ok r then tn_files s p = None \<and> tn_files t = (tn_files s)(p \<mapsto> []) else tn_files t = tn_files s)"
proof (cases r)
  case (Inl e)
  with assms show ?thesis by (auto simp: create_partial_def chain_Inl is_ok_def dest: disk_files)
next
  case (Inr u)
  with assms show ?thesis by (auto simp: create_partial_def chain_Inr is_ok_def dest: disk_files)
qed

definition transfer_body ::
  "('w, 'u) iso_lib \<Rightarrow> chunk list \<Rightarrow> string \<Rightarrow> string \<Rightarrow> string \<Rightarrow> nat option \<Rightarrow> nat
    \<Rightarrow> ('w, 'u, downloaded_image) transfer_step" where
  "transfer_body iw body p f sha x m =
     chain (receive iw p x m [] body) (\<lambda>got. chain (disk iw (DiskSync p)) (\<lambda>_. publish_image iw p f sha x got))"

lemma body_done:
  assumes "transfer_body iw body p f sha x m s = (t, Inr d)" "tn_files s = F(p \<mapsto> [])" "p \<noteq> f"
  shows "(x = None \<or> x = Some (length (body_text body))) \<and> iw_sha256 iw (body_text body) = sha \<and> length (body_text body) \<le> m
    \<and> tn_files t = F(f \<mapsto> body_text body, p := None)
    \<and> d = \<lparr>di_path = f, di_size = length (body_text body), di_sha256 = sha, di_cleanup = True\<rparr>"
proof -
  obtain u v got where run: "receive iw p x m [] body s = (u, Inr got)" "disk iw (DiskSync p) u = (v, Inr ())"
    "publish_image iw p f sha x got v = (t, Inr d)"
    using assms(1) by (auto simp: transfer_body_def chain_Inr)
  show ?thesis
    using receive_done[OF run(1) assms(2)] disk_files[OF run(2)] publish_done[OF run(3)] assms(3)
    by (auto simp: fun_upd_twist)
qed

lemma body_fails:
  assumes "transfer_body iw body p f sha x m s = (t, Inl e)" "tn_files s = F(p \<mapsto> [])"
  shows "\<exists>y. tn_files t = F(p \<mapsto> y)"
proof -
  consider "receive iw p x m [] body s = (t, Inl e)"
    | u got where "receive iw p x m [] body s = (u, Inr got)" "tn_files t = tn_files u"
    using assms(1) unfolding transfer_body_def chain_Inl by (metis disk_files publish_fails)
  then show ?thesis
  proof cases
    case 1
    then show ?thesis by (rule receive_fails[OF _ assms(2)])
  next
    case 2
    then show ?thesis using receive_done[OF 2(1) assms(2)] by auto
  qed
qed

lemma stream_fold: "stream_and_verify iw body p f sha x m =
   chain (outcome (chain (create_partial iw p) (\<lambda>_. guarded_files iw p f (transfer_body iw body p f sha x m))))
     (\<lambda>r. case r of Inr a \<Rightarrow> ret a | Inl e \<Rightarrow> chain (remove_path iw p) (\<lambda>_. raise e))"
  by (simp only: stream_and_verify_def stream_and_verify_inner_def transfer_body_def)

text \<open>
  What a transfer that fails leaves of the files \<open>F\<close>: none but its two paths is touched; where the
  final one was free it stays free, and where both were the partial one too when it can be removed.
\<close>

definition partial_of :: "string \<Rightarrow> string" where
  "partial_of f = f @ ''.part''"

definition left_of :: "('w, 'u) iso_lib \<Rightarrow> string \<Rightarrow> (string \<rightharpoonup> string) \<Rightarrow> (string \<rightharpoonup> string) \<Rightarrow> bool" where
  "left_of iw f F G \<longleftrightarrow> (\<forall>q. q \<noteq> f \<and> q \<noteq> partial_of f \<longrightarrow> G q = F q)
     \<and> (F f = None \<longrightarrow> G f = None)
     \<and> (F f = None \<and> F (partial_of f) = None \<and> removable iw (partial_of f) \<longrightarrow> G = F)"

lemma partial_other [simp]: "partial_of f \<noteq> f"
  by (simp add: partial_of_def)

lemma left_of_refl: "left_of iw f F F"
  by (simp add: left_of_def)

lemma left_of_removed:
  assumes "left_of iw f F (tn_files s)" "remove_path iw (partial_of f) s = (t, r)"
  shows "left_of iw f F (tn_files t)"
proof -
  note files = remove_files [OF assms(2)]
  have "tn_files t q = tn_files s q" if "q \<noteq> partial_of f" for q using files(2) that by auto
  moreover have "tn_files t = F" if "F f = None" "F (partial_of f) = None" "removable iw (partial_of f)"
    using files(3) [OF that(3)] assms(1) that by (auto simp: left_of_def)
  ultimately show ?thesis using assms(1) partial_other [of f] unfolding left_of_def by metis
qed

lemma dropped_on_error:
  fixes n :: "('w, 'u, 'a) transfer_step"
  assumes "chain (outcome n) (\<lambda>r. case r of Inr a \<Rightarrow> ret a | Inl e \<Rightarrow> chain (remove_path iw (partial_of f)) (\<lambda>_. raise e)) s = (t, r)"
    "n s = (u, q)"
  shows "r = q" "is_ok q \<Longrightarrow> t = u" "\<not> is_ok q \<Longrightarrow> left_of iw f F (tn_files u) \<Longrightarrow> left_of iw f F (tn_files t)"
proof -
  obtain v y where v: "remove_path iw (partial_of f) u = (v, y :: app_error + unit)" by fastforce
  note gone = remove_files(1) [OF v]
  have "r = q \<and> t = (if is_ok q then u else v)"
    using assms v gone by (cases q) (auto simp: action_defs is_ok_def)
  then show "r = q" "is_ok q \<Longrightarrow> t = u" "\<not> is_ok q \<Longrightarrow> left_of iw f F (tn_files u) \<Longrightarrow> left_of iw f F (tn_files t)"
    using left_of_removed [OF _ v] by auto
qed

lemma guarded_result:
  assumes "guarded_files iw p f m s = (t, r)"
  shows "\<exists>u. m s = (u, r)
    \<and> (is_ok r \<longrightarrow> tn_files t = tn_files u \<or> tn_files t = (tn_files u)(p := None))
    \<and> (\<not> is_ok r \<longrightarrow> (\<exists>G. (G = tn_files u \<or> G = (tn_files u)(p := None)) \<and> (removable iw p \<longrightarrow> G = (tn_files u)(p := None))
       \<and> (tn_files t = G \<or> tn_files t = G(f := None))))"
proof -
  obtain u q where m: "m s = (u, q)" by fastforce
  obtain v y where v: "remove_path iw p u = (v, y :: app_error + unit)" by fastforce
  obtain w z where w: "remove_path iw f v = (w, z :: app_error + unit)" by fastforce
  note files = remove_files [OF v] remove_files [OF w]
  have r: "r = q \<and> t = (if is_ok q then v else w)"
    using assms m v w files(1,4) by (cases q) (auto simp: guarded_files_def action_defs is_ok_def)
  show ?thesis
  proof (intro exI conjI impI)
    show "m s = (u, r)" using m r by simp
    show "is_ok r \<Longrightarrow> tn_files t = tn_files u \<or> tn_files t = (tn_files u)(p := None)" using r files(2) by simp
    show "tn_files v = tn_files u \<or> tn_files v = (tn_files u)(p := None)" by (rule files)
    show "removable iw p \<Longrightarrow> tn_files v = (tn_files u)(p := None)" by (rule files)
    show "tn_files t = tn_files v \<or> tn_files t = (tn_files v)(f := None)" if "\<not> is_ok r" using r that files(5) by simp
  qed
qed

text \<open>What the caller gets from the body of an answer: the image complete, under a path whose partial file was new.\<close>

definition stored_as ::
  "('w, 'u) iso_lib \<Rightarrow> string \<Rightarrow> string \<Rightarrow> nat option \<Rightarrow> nat \<Rightarrow> string \<Rightarrow> (string \<rightharpoonup> string) \<Rightarrow> downloaded_image \<Rightarrow> (string \<rightharpoonup> string) \<Rightarrow> bool" where
  "stored_as iw f sha x m got F d G \<longleftrightarrow> F (partial_of f) = None \<and> G = F(f \<mapsto> got) \<and> iw_sha256 iw got = sha \<and> length got \<le> m
     \<and> (x = None \<or> x = Some (length got)) \<and> di_path d = f \<and> di_size d = length got \<and> di_sha256 d = sha"

lemma stream_result:
  assumes "stream_and_verify iw body (partial_of f) f sha x m s = (t, r)"
  shows "case r of Inr d \<Rightarrow> stored_as iw f sha x m (body_text body) (tn_files s) d (tn_files t)
    | Inl e \<Rightarrow> left_of iw f (tn_files s) (tn_files t)"
proof -
  let ?p = "partial_of f"
  obtain u q where inner: "chain (create_partial iw ?p) (\<lambda>_. guarded_files iw ?p f (transfer_body iw body ?p f sha x m)) s = (u, q)"
    by fastforce
  note outer = dropped_on_error[OF assms[unfolded stream_fold] inner]
  obtain v c where create: "create_partial iw ?p s = (v, c)" by fastforce
  show ?thesis
  proof (cases c)
    case (Inl e)
    then have "q = Inl e" "u = v" using inner create by (auto simp: chain_def)
    then show ?thesis
      using outer(1) outer(3)[of "tn_files s"] create_files[OF create] Inl left_of_refl by (auto simp: is_ok_def)
  next
    case (Inr c')
    then have v: "tn_files s ?p = None" "tn_files v = (tn_files s)(?p \<mapsto> [])"
      and guarded: "guarded_files iw ?p f (transfer_body iw body ?p f sha x m) v = (u, q)"
      using create_files[OF create] inner create by (auto simp: chain_def is_ok_def)
    obtain w where w: "transfer_body iw body ?p f sha x m v = (w, q)"
      "is_ok q \<longrightarrow> tn_files u = tn_files w \<or> tn_files u = (tn_files w)(?p := None)"
      "\<not> is_ok q \<longrightarrow> (\<exists>G. (G = tn_files w \<or> G = (tn_files w)(?p := None)) \<and> (removable iw ?p \<longrightarrow> G = (tn_files w)(?p := None))
         \<and> (tn_files u = G \<or> tn_files u = G(f := None)))"
      using guarded_result [OF guarded] by (elim exE conjE) (rule that)
    show ?thesis
    proof (cases q)
      case (Inl e)
      obtain y where "tn_files w = (tn_files s)(?p \<mapsto> y)" using body_fails[OF w(1)[unfolded Inl] v(2)] by blast
      then have "left_of iw f (tn_files s) (tn_files u)"
        using w(3) Inl v(1) partial_other[of f] partial_other[of f, symmetric] unfolding left_of_def by (auto simp: is_ok_def)
      then show ?thesis using outer(1,3) Inl by (simp add: is_ok_def)
    next
      case (Inr d)
      note result = body_done[OF w(1)[unfolded Inr] v(2) partial_other]
      have "tn_files u = (tn_files s)(f \<mapsto> body_text body)"
        using result w(2) v(1) Inr partial_other [of f] by (auto simp: is_ok_def fun_upd_twist)
      then show ?thesis using result outer(1,2) Inr v(1) by (auto simp: stored_as_def is_ok_def)
    qed
  qed
qed

section \<open>Downloads\<close>

definition still :: "(('w, 'u) transfer, 'e, 'a) action \<Rightarrow> bool" where
  "still m \<longleftrightarrow> (\<forall>s. tn_files (fst (m s)) = tn_files s)"

named_theorems stillness

lemma still_simple [stillness]:
  "still (ret a)" "still (raise e)" "still (lifted r)" "still (net_call g)" "still begin_transfer" "still (send iw u ts)"
  by (simp_all add: still_def net_call_def begin_transfer_def send_def split: prod.splits sum.splits)

lemma still_combined [stillness]:
  "still m \<Longrightarrow> (\<And>a. still (f a)) \<Longrightarrow> still (chain m f)" "still m \<Longrightarrow> still (with_error g m)"
  "still m \<Longrightarrow> still k \<Longrightarrow> still (if b then m else k)"
  by (simp_all add: still_def chain_def with_error_def case_prod_beta split: sum.split)

lemma still_hosts [stillness]:
  "(\<And>d. still (f d)) \<Longrightarrow> (\<And>a. still (g a)) \<Longrightarrow> (\<And>a. still (h a)) \<Longrightarrow> still k
    \<Longrightarrow> still (case x of Some (HostV4 a) \<Rightarrow> g a | Some (HostV6 a) \<Rightarrow> h a | Some (HostDomain d) \<Rightarrow> f d | None \<Rightarrow> k)"
  by (simp split: option.split url_host.split)

lemma fetch_still: "still (fetch_rounds iw n url)"
proof (induction n arbitrary: url)
  case (Suc n)
  show ?case
    unfolding fetch_rounds.simps resolve_public_targets_def lookup_host_def request_image_def
    by (intro stillness Suc.IH)
qed (simp only: fetch_rounds.simps stillness)

text \<open>Files are untouched as long as nothing was written; a failure leaves files with \<open>E\<close>.\<close>

abbreviation settles :: "(string \<rightharpoonup> string) \<Rightarrow> ((string \<rightharpoonup> string) \<Rightarrow> bool) \<Rightarrow> (('w, 'u) transfer, 'e, 'a) action
    \<Rightarrow> ('a \<Rightarrow> ('w, 'u) transfer \<Rightarrow> bool) \<Rightarrow> bool" where
  "settles F E m Q \<equiv> holds (\<lambda>s. tn_files s = F) m Q (\<lambda>_ s. E (tn_files s))"

lemma settles_then:
  assumes "E F" "still m" "\<And>a s u. m s = (u, Inr a) \<Longrightarrow> settles F E (f a) Q"
  shows "settles F E (chain m f) Q"
proof (rule holdsI)
  fix s :: "('a, 'b) transfer" assume F: "tn_files s = F"
  obtain u r where m: "m s = (u, r)" by fastforce
  with assms(2) F have u: "tn_files u = F" unfolding still_def by (metis fst_conv)
  show "case chain m f s of (t, Inr a) \<Rightarrow> Q a t | (t, Inl e) \<Rightarrow> E (tn_files t)"
  proof (cases r)
    case (Inr a)
    then show ?thesis using assms(3)[OF m[unfolded Inr]] u m unfolding holds_def by (simp add: chain_def)
  qed (simp add: chain_def m u assms(1))
qed

definition image_suffixes :: "string list" where
  "image_suffixes = [''.iso'', ''.qcow'', ''.qcow2'', ''.raw'', ''.img'']"

lemma ends_with_append: "ends_with (xs @ ys) ys"
  by (simp add: ends_with_def)

lemma join_path_ends: "\<exists>a. join_path st x = a @ x"
  unfolding join_path_def by (metis append_assoc)

lemma named_extension:
  assumes "image_extension ul u = Some e"
  shows "list_ex (ends_with (join_path st (n @ ''.'' @ e))) image_suffixes"
proof -
  obtain a where "join_path st (n @ ''.'' @ e) = a @ n @ ''.'' @ e" using join_path_ends by blast
  then have pre: "join_path st (n @ ''.'' @ e) = (a @ n) @ ''.'' @ e" by simp
  have "''.'' @ e \<in> set image_suffixes"
    using assms by (auto simp: image_extension_def image_suffixes_def bind_eq_Some_conv split: if_splits)
  then show ?thesis unfolding pre list_ex_iff using ends_with_append by blast
qed

text \<open>An image as the caller asked for it under the path \<open>f\<close>, and nothing else changed.\<close>

definition verified_image ::
  "('w, 'u) iso_lib \<Rightarrow> string \<Rightarrow> string \<Rightarrow> nat option \<Rightarrow> (string \<rightharpoonup> string) \<Rightarrow> downloaded_image \<Rightarrow> (string \<rightharpoonup> string) \<Rightarrow> bool" where
  "verified_image iw f sha expected before d after \<longleftrightarrow> di_path d = f \<and> before (partial_of f) = None \<and> (case after f of
     None \<Rightarrow> False
   | Some content \<Rightarrow> after = before(f \<mapsto> content)
       \<and> iw_sha256 iw content = ascii_lower (trim sha) \<and> di_size d = length content
       \<and> length content \<le> 16 * 1024 * 1024 * 1024 \<and> (expected = None \<or> expected = Some (length content)))"

text \<open>The path of an image: a drawn identifier with an image suffix, in the directory the storage resolves to.\<close>

definition image_place :: "('w, 'u) iso_lib \<Rightarrow> string \<Rightarrow> string \<Rightarrow> bool" where
  "image_place iw store f \<longleftrightarrow> list_ex (ends_with f) image_suffixes
     \<and> (\<exists>st u ext. f = join_path st (u @ ''.'' @ ext) \<and> (\<exists>w. snd (iw_canonicalize iw store w) = Inr st) \<and> (\<exists>w. snd (iw_uuid iw w) = Inr u))"

definition store_image ::
  "('w, 'u) iso_lib \<Rightarrow> chunk list \<Rightarrow> string \<Rightarrow> string \<Rightarrow> string \<Rightarrow> nat option \<Rightarrow> ('w, 'u, downloaded_image) transfer_step" where
  "store_image iw body p f sha x =
     chain (outcome (stream_and_verify iw body p f sha x max_remote_image_bytes))
       (\<lambda>r. case r of Inr d \<Rightarrow> ret d | Inl e \<Rightarrow> chain (remove_path iw p) (\<lambda>_. raise e))"

lemma store_settles:
  assumes "sha' = ascii_lower (trim sha)" "\<And>G. left_of iw f F G \<Longrightarrow> E G"
    and "\<And>d s. verified_image iw f sha x F d (tn_files s) \<Longrightarrow> Q d s"
  shows "settles F E (store_image iw body (f @ ''.part'') f sha' x) Q"
  unfolding partial_of_def[symmetric]
proof (rule holdsI)
  fix s :: "('a, 'b) transfer" assume F: "tn_files s = F"
  let ?run = "store_image iw body (partial_of f) f sha' x"
  obtain u q where inner: "stream_and_verify iw body (partial_of f) f sha' x max_remote_image_bytes s = (u, q)" by fastforce
  obtain t r where run: "?run s = (t, r)" by fastforce
  note outer = dropped_on_error[OF run[unfolded store_image_def] inner]
  note result = stream_result[OF inner, unfolded F]
  show "case ?run s of (t, Inr d) \<Rightarrow> Q d t | (t, Inl e) \<Rightarrow> E (tn_files t)"
  proof (cases q)
    case (Inl e)
    then have "left_of iw f F (tn_files t)" using result outer(3) by (simp add: is_ok_def)
    then show ?thesis using run outer(1) Inl assms(2) by simp
  next
    case (Inr d)
    then have "verified_image iw f sha x F d (tn_files t)"
      using result outer(2) assms(1) by (auto simp: stored_as_def verified_image_def max_remote_image_bytes_def is_ok_def)
    then show ?thesis using run outer(1) Inr assms(3) by simp
  qed
qed

lemma still_storage: "still (prepare_storage iw st)"
  unfolding prepare_storage_def by (intro stillness)

lemma net_called: "net_call g s = (t, Inr a) \<Longrightarrow> \<exists>w. snd (g w) = Inr a"
  by (cases "g (tn_world s)") (auto simp: net_call_def intro: exI[of _ "tn_world s"])

lemma prepared_storage: "prepare_storage iw store s = (t, Inr st) \<Longrightarrow> \<exists>w. snd (iw_canonicalize iw store w) = Inr st"
  by (auto simp: prepare_storage_def chain_Inr with_error_Inr dest: net_called)

lemma still_capacity: "still (ensure_storage_capacity iw st n)"
  unfolding ensure_storage_capacity_def Let_def by (intro stillness)

lemma settles_pair: "(\<And>a b. settles F E (g a b) Q) \<Longrightarrow> settles F E (case x of (a, b) \<Rightarrow> g a b) Q"
  by (cases x) simp

lemma validated_sha: "validate_sha256 sha = Inr sha' \<Longrightarrow> sha' = ascii_lower (trim sha)"
  by (auto simp: validate_sha256_def result_simps)

abbreviation failed_files :: "('w, 'u) iso_lib \<Rightarrow> string \<Rightarrow> (string \<rightharpoonup> string) \<Rightarrow> (string \<rightharpoonup> string) \<Rightarrow> bool" where
  "failed_files iw store F G \<equiv> G = F \<or> (\<exists>f. image_place iw store f \<and> left_of iw f F G)"

lemma download_settles:
  "settles F (failed_files iw store F) (download_and_verify iw source sha expected store)
     (\<lambda>d s. \<exists>f. image_place iw store f \<and> verified_image iw f sha expected F d (tn_files s))"
  unfolding download_and_verify_def fetch_with_safe_redirects_def Let_def store_image_def[symmetric]
proof (intro settles_then[where E = "failed_files iw store F"] settles_pair stillness still_storage still_capacity fetch_still, goal_cases)
  case (11 original s1 t1 sha' s2 t2 u3 s3 t3 u4 s4 t4 st' s5 t5 af s6 t6 a final u7 s7 t7 u8 s8 t8 ext s9 t9 uuid s10 t10)
  have "list_ex (ends_with (join_path st' (uuid @ ''.'' @ ext))) image_suffixes"
    using 11(9) by (auto split: option.splits intro: named_extension[of "iw_url iw", simplified])
  moreover have "\<exists>w. snd (iw_uuid iw w) = Inr uuid" by (rule net_called[OF 11(10)])
  ultimately have "image_place iw store (join_path st' (uuid @ ''.'' @ ext))"
    using prepared_storage[OF 11(5)] unfolding image_place_def by blast
  then show ?case
    using validated_sha[of sha sha'] 11(2) by (intro store_settles) auto
qed simp_all

section \<open>A server to download from\<close>

definition demo_url_lib :: "string url_lib" where
  "demo_url_lib = \<lparr>ul_parse = Some, ul_text = (\<lambda>u. u), ul_scheme = (\<lambda>_. ''https''),
     ul_host = (\<lambda>_. Some (HostDomain ''images.example'')), ul_username = (\<lambda>_. []), ul_password = (\<lambda>_. None),
     ul_port = (\<lambda>_. Some 443), ul_without_fragment = (\<lambda>u. u), ul_join = (\<lambda>_ l. Some l),
     ul_last_segment = (\<lambda>_. Some ''d.iso'')\<rparr>"

definition demo_peer :: socket where
  "demo_peer = (IpV4 0x5DB8D822, 443)"

text \<open>The first request is redirected, the second answered; the world counts requests.\<close>

definition demo_reply :: "nat \<Rightarrow> http_answer" where
  "demo_reply w = (if w = 0
     then \<lparr>ha_peer = Some demo_peer, ha_status = 302, ha_location = Some (Some ''https://m.example/d.iso''),
       ha_content_length = None, ha_length_header = None, ha_body = []\<rparr>
     else \<lparr>ha_peer = Some demo_peer, ha_status = 200, ha_location = None,
       ha_content_length = Some 4, ha_length_header = None, ha_body = [Chunk ''im'', Chunk ''ag'']\<rparr>)"

definition demo_iso :: "(nat, string) iso_lib" where
  "demo_iso = \<lparr>iw_url = demo_url_lib, iw_lookup = (\<lambda>_ _. ret [demo_peer]),
     iw_get = (\<lambda>_ _ w. (w + 1, Inr (demo_reply w))), iw_create_dir_all = (\<lambda>_. ret ()), iw_canonicalize = ret,
     iw_is_dir = (\<lambda>_. ret True), iw_entries = (\<lambda>_. ret []), iw_available = (\<lambda>_. ret (2 ^ 40)), iw_uuid = ret ''u'',
     iw_disk = (\<lambda>_ w. (w, None)), iw_sha256 = (\<lambda>_. replicate 64 (CHR ''a''))\<rparr>"

definition demo_transfer :: "(nat, string) transfer" where
  "demo_transfer = \<lparr>tn_world = 0, tn_files = Map.empty, tn_sent = [],
     tn_operations = \<lparr>io_records = {''k''}, io_transfers = 0\<rparr>, tn_guard = \<lparr>ig_key = ''k'', ig_transfer = False\<rparr>\<rparr>"

definition demo_start :: string where
  "demo_start = ''https://i.example/d.iso''"

definition demo_moved :: string where
  "demo_moved = ''https://m.example/d.iso''"

definition demo_sha :: string where
  "demo_sha = replicate 64 (CHR ''a'')"

lemma demo_trim: "trim demo_start = demo_start" "trim demo_moved = demo_moved"
  by code_simp+

lemma demo_split: "split_at_text ''://'' demo_start = Some (''https'', ''i.example/d.iso'')"
  "split_at_text ''://'' demo_moved = Some (''https'', ''m.example/d.iso'')"
  by code_simp+

lemma demo_lower: "ascii_lower ''https'' = ''https''" "\<not> starts_with ''i.example/d.iso'' ''/''" "\<not> starts_with ''m.example/d.iso'' ''/''"
  by code_simp+

lemma demo_sources: "validate_source_url demo_url_lib demo_start = Inr demo_start"
  "validate_source_url demo_url_lib demo_moved = Inr demo_moved"
  by (simp_all add: validate_source_url_def demo_trim demo_split demo_lower demo_url_lib_def and_then_def ok_or_def require_def)

lemma demo_public: "is_public_ip (IpV4 0x5DB8D822)"
  by (simp add: is_public_ip_def is_public_ipv4_def octet_def octets_public_def)

lemma demo_resolve: "resolve_public_targets demo_iso u s = (s, Inr [demo_peer])"
  by (simp add: resolve_public_targets_def demo_iso_def demo_url_lib_def lookup_host_def action_defs net_call_def demo_peer_def
      ok_or_def require_def demo_public[unfolded demo_peer_def] map_err_def)

lemma demo_fields: "iw_url demo_iso = demo_url_lib" "iw_get demo_iso u q w = (w + 1, Inr (demo_reply w))"
  "iw_create_dir_all demo_iso d w = (w, Inr ())" "iw_canonicalize demo_iso d w = (w, Inr d)" "iw_is_dir demo_iso d w = (w, Inr True)"
  "iw_available demo_iso d w = (w, Inr (2 ^ 40))" "iw_uuid demo_iso w = (w, Inr ''u'')" "iw_disk demo_iso op w = (w, None)"
  "iw_sha256 demo_iso t = demo_sha" "ul_host demo_url_lib u = Some (HostDomain ''images.example'')" "ul_join demo_url_lib u l = Some l"
  "ul_text demo_url_lib u = u" "ul_last_segment demo_url_lib u = Some ''d.iso''"
  by (simp_all add: demo_iso_def demo_url_lib_def demo_sha_def ret_def)

lemma demo_checked: "check_peer [demo_peer] (demo_reply w) = Inr ()"
  by (simp add: check_peer_def demo_reply_def demo_peer_def and_then_def ok_or_def require_def demo_public)

lemma demo_status: "ha_status (demo_reply (Suc 0)) = 200" "ha_status (demo_reply 0) = 302"
  by (simp_all add: demo_reply_def)

lemma demo_fetch:
  "fetch_rounds demo_iso 6 demo_start \<lparr>tn_world = 0, tn_files = F, tn_sent = q, tn_operations = ops, tn_guard = g\<rparr> =
     (\<lparr>tn_world = 2, tn_files = F, tn_sent = (demo_moved, Some [demo_peer]) # (demo_start, Some [demo_peer]) # q,
        tn_operations = ops, tn_guard = g\<rparr>, Inr (demo_reply 1, demo_moved))"
proof -
  have "fetch_rounds demo_iso (Suc 4) demo_moved \<lparr>tn_world = 1, tn_files = F, tn_sent = q, tn_operations = ops, tn_guard = g\<rparr> =
     (\<lparr>tn_world = 2, tn_files = F, tn_sent = (demo_moved, Some [demo_peer]) # q, tn_operations = ops, tn_guard = g\<rparr>,
       Inr (demo_reply 1, demo_moved))" for q
    by (subst fetch_rounds.simps(2)) (simp add: chain_def demo_resolve demo_fields request_image_def pinned_targets_def with_error_def send_def demo_checked
        demo_status is_followable_redirect_def require_def)
  moreover have "redirect_location (demo_reply 0) = Inr demo_moved"
    by (simp add: redirect_location_def demo_reply_def and_then_def ok_or_def demo_moved_def)
  moreover have "redirect_target demo_iso demo_start demo_moved = Inr demo_moved"
    by (simp add: redirect_target_def demo_fields demo_sources and_then_def ok_or_def)
  ultimately have "fetch_rounds demo_iso (Suc 5) demo_start \<lparr>tn_world = 0, tn_files = F, tn_sent = q, tn_operations = ops, tn_guard = g\<rparr> =
     (\<lparr>tn_world = 2, tn_files = F, tn_sent = (demo_moved, Some [demo_peer]) # (demo_start, Some [demo_peer]) # q,
        tn_operations = ops, tn_guard = g\<rparr>, Inr (demo_reply 1, demo_moved))"
    by (subst fetch_rounds.simps(2)) (simp add: chain_def demo_resolve demo_fields request_image_def pinned_targets_def with_error_def send_def demo_checked
        demo_status is_followable_redirect_def require_def)
  then show ?thesis by simp
qed

text \<open>A body whose digest is the expected one is stored; with another digest nothing stays.\<close>

lemma demo_stream:
  assumes "p \<noteq> f" "F p = None"
  shows "stream_and_verify demo_iso (ha_body (demo_reply 1)) p f demo_sha None max_remote_image_bytes
     \<lparr>tn_world = w, tn_files = F, tn_sent = q, tn_operations = ops, tn_guard = g\<rparr>
   = (\<lparr>tn_world = w, tn_files = F(f \<mapsto> ''imag'', p := None), tn_sent = q, tn_operations = ops, tn_guard = g\<rparr>,
      Inr \<lparr>di_path = f, di_size = 4, di_sha256 = demo_sha, di_cleanup = True\<rparr>)"
  using assms
  by (simp add: demo_reply_def stream_and_verify_def stream_and_verify_inner_def create_partial_def guarded_files_def
      publish_image_def action_defs disk_def demo_fields remove_path_def remove_file_def require_def max_remote_image_bytes_def Let_def
      fun_upd_twist)

definition other_sha :: string where
  "other_sha = replicate 64 (CHR ''b'')"

lemma demo_mismatch:
  assumes "p \<noteq> f" "F p = None"
  shows "\<exists>t e. stream_and_verify demo_iso (ha_body (demo_reply 1)) p f other_sha None max_remote_image_bytes
     \<lparr>tn_world = w, tn_files = F, tn_sent = q, tn_operations = ops, tn_guard = g\<rparr> = (t, Inl e)"
proof -
  have "demo_sha \<noteq> other_sha" by code_simp
  then show ?thesis using assms
    by (simp add: demo_reply_def stream_and_verify_def stream_and_verify_inner_def create_partial_def guarded_files_def
      publish_image_def action_defs disk_def demo_fields remove_path_def remove_file_def require_def max_remote_image_bytes_def Let_def)
qed

lemma demo_storage: "prepare_storage demo_iso d s = (s, Inr d)" "ensure_storage_capacity demo_iso d 4 s = (s, Inr ())"
  by (simp_all add: prepare_storage_def ensure_storage_capacity_def action_defs net_call_def demo_fields require_def
      min_free_after_download_bytes_def Let_def)

lemma demo_begin: "begin_transfer \<lparr>tn_world = w, tn_files = F, tn_sent = q,
     tn_operations = \<lparr>io_records = R, io_transfers = 0\<rparr>, tn_guard = \<lparr>ig_key = k, ig_transfer = False\<rparr>\<rparr>
   = (\<lparr>tn_world = w, tn_files = F, tn_sent = q,
     tn_operations = \<lparr>io_records = R, io_transfers = 1\<rparr>, tn_guard = \<lparr>ig_key = k, ig_transfer = True\<rparr>\<rparr>, Inr ())"
  by (simp add: begin_transfer_def begin_image_transfer_def require_def and_then_def max_simultaneous_transfers_def)

lemma demo_extension: "image_extension demo_url_lib u = Some ''iso''"
  unfolding image_extension_def demo_fields by code_simp

lemma demo_digest: "validate_sha256 demo_sha = Inr demo_sha" "validate_sha256 other_sha = Inr other_sha"
  unfolding demo_sha_def other_sha_def by code_simp+

text \<open>An image is there already.\<close>

definition old_files :: "string \<rightharpoonup> string" where
  "old_files = [''/i/old.iso'' \<mapsto> ''old'']"

lemma demo_download:
  "download_and_verify demo_iso demo_start sha None ''/i'' (demo_transfer\<lparr>tn_files := F\<rparr>) =
     (case stream_and_verify demo_iso (ha_body (demo_reply 1)) ''/i/u.iso.part'' ''/i/u.iso'' sha None max_remote_image_bytes
        \<lparr>tn_world = 2, tn_files = F, tn_sent = [(demo_moved, Some [demo_peer]), (demo_start, Some [demo_peer])],
          tn_operations = \<lparr>io_records = {''k''}, io_transfers = 1\<rparr>, tn_guard = \<lparr>ig_key = ''k'', ig_transfer = True\<rparr>\<rparr> of
      (u, Inr d) \<Rightarrow> (u, Inr d) | (u, Inl e) \<Rightarrow> (fst (remove_file demo_iso ''/i/u.iso.part'' u), Inl e))"
  if "sha = demo_sha \<or> sha = other_sha"
proof -
  have size: "validate_declared_length (response_length (demo_reply 1)) None = Inr ()"
    "transfer_capacity_reservation (response_length (demo_reply 1)) = 4"
    by (simp_all add: response_length_def demo_reply_def validate_declared_length_def and_then_def require_def
        max_remote_image_bytes_def transfer_capacity_reservation_def)
  have path: "join_path ''/i'' ''u.iso'' = ''/i/u.iso''" by (simp add: join_path_def ends_with_def)
  have digest: "validate_sha256 sha = Inr sha" using that demo_digest by blast
  show ?thesis
    unfolding download_and_verify_def demo_transfer_def fetch_with_safe_redirects_def max_redirects_def
    using demo_fetch
    by (simp add: chain_def demo_fields demo_sources digest demo_begin demo_storage size[unfolded One_nat_def] demo_extension path
        net_call_def outcome_def Let_def require_def ok_or_def remove_path_def split: prod.split sum.split)
qed

lemma demo_download_result:
  assumes "F ''/i/u.iso.part'' = None"
  shows "download_and_verify demo_iso demo_start demo_sha None ''/i'' (demo_transfer\<lparr>tn_files := F\<rparr>) =
     (\<lparr>tn_world = 2, tn_files = F(''/i/u.iso'' \<mapsto> ''imag'', ''/i/u.iso.part'' := None),
        tn_sent = [(demo_moved, Some [demo_peer]), (demo_start, Some [demo_peer])],
        tn_operations = \<lparr>io_records = {''k''}, io_transfers = 1\<rparr>, tn_guard = \<lparr>ig_key = ''k'', ig_transfer = True\<rparr>\<rparr>,
      Inr \<lparr>di_path = ''/i/u.iso'', di_size = 4, di_sha256 = demo_sha, di_cleanup = True\<rparr>)"
  using demo_download[of demo_sha F] demo_stream[of "''/i/u.iso.part''" "''/i/u.iso''" F] assms by simp

lemma demo_download_fails:
  "\<exists>t e. download_and_verify demo_iso demo_start other_sha None ''/i'' (demo_transfer\<lparr>tn_files := old_files\<rparr>) = (t, Inl e)"
proof -
  have "''/i/u.iso.part'' \<noteq> ''/i/u.iso''" "old_files ''/i/u.iso.part'' = None" by (simp_all add: old_files_def)
  from demo_mismatch[where F = old_files, OF this, of 2 "[(demo_moved, Some [demo_peer]), (demo_start, Some [demo_peer])]"
      "\<lparr>io_records = {''k''}, io_transfers = 1\<rparr>" "\<lparr>ig_key = ''k'', ig_transfer = True\<rparr>"]
  show ?thesis by (elim exE) (simp add: demo_download)
qed

lemma demo_place: "image_place demo_iso ''/i'' f \<Longrightarrow> old_files f = None \<and> old_files (partial_of f) = None"
  by (auto simp: image_place_def demo_fields old_files_def partial_of_def join_path_def ends_with_def)

text \<open>
  C31. A download is all or nothing, whatever the server sends and whichever file operation fails. Only
  one path with an image suffix, named by a drawn identifier in the storage directory, and its partial
  file are ever touched. When the download succeeds the files differ from before in that path alone,
  which holds an image of at most 16 GiB with the expected SHA-256 and, when one was given, the expected size.
  When it fails the final path is not left behind, and where both paths were free every file is as it
  was unless the partial one could not be removed.
\<close>

theorem download_all_or_nothing:
  assumes "download_and_verify iw source sha expected store s = (t, r)"
  shows "case r of
      Inr d \<Rightarrow> \<exists>f. image_place iw store f \<and> verified_image iw f sha expected (tn_files s) d (tn_files t)
    | Inl e \<Rightarrow> tn_files t = tn_files s \<or> (\<exists>f. image_place iw store f \<and> left_of iw f (tn_files s) (tn_files t))"
proof (cases r)
  case (Inl e)
  show ?thesis using holds_Inl[OF download_settles refl assms[unfolded Inl]] Inl by simp
next
  case (Inr d)
  show ?thesis using holds_Inr[OF download_settles refl assms[unfolded Inr]] Inr by simp
qed

lemma download_all_or_nothing_witness:
  "\<exists>t u d e. download_and_verify demo_iso demo_start demo_sha None ''/i'' (demo_transfer\<lparr>tn_files := old_files\<rparr>) = (t, Inr d)
     \<and> (\<exists>f. image_place demo_iso ''/i'' f \<and> verified_image demo_iso f demo_sha None old_files d (tn_files t))
     \<and> tn_files t ''/i/old.iso'' = Some ''old'' \<and> tn_files t ''/i/u.iso'' = Some ''imag''
     \<and> download_and_verify demo_iso demo_start other_sha None ''/i'' (demo_transfer\<lparr>tn_files := old_files\<rparr>) = (u, Inl e)
     \<and> tn_files u = old_files"
proof -
  have "old_files ''/i/u.iso.part'' = None" by (simp add: old_files_def)
  note good = demo_download_result[where F = old_files, OF this]
  obtain u e where bad: "download_and_verify demo_iso demo_start other_sha None ''/i'' (demo_transfer\<lparr>tn_files := old_files\<rparr>) = (u, Inl e)"
    using demo_download_fails by blast
  have "removable demo_iso p" for p by (simp add: removable_def demo_fields)
  then have "tn_files u = old_files"
    using download_all_or_nothing[OF bad] demo_place by (auto simp: left_of_def)
  then show ?thesis
    using good bad download_all_or_nothing[OF good] by (auto simp: old_files_def)
qed

end
