(* ===== verification/Iso_Safety.thy ===== *)
theory Iso_Safety
  imports Iso_Publish
begin

text \<open>
  What a download of a remote image guarantees: requests go to public addresses only, an image
  is published complete and with the expected digest or nothing changes, and at most one
  transfer runs at a time.
\<close>

section \<open>Public addresses as blocks\<close>

text \<open>A block of the IPv4 registry: its first address and the length of its prefix.\<close>

definition v4_net :: "int \<Rightarrow> int \<Rightarrow> int \<Rightarrow> nat \<Rightarrow> int \<times> nat" where
  "v4_net a b c len = (a * 2 ^ 24 + b * 2 ^ 16 + c * 2 ^ 8, len)"

definition in_v4_net :: "int \<Rightarrow> int \<times> nat \<Rightarrow> bool" where
  "in_v4_net n net \<longleftrightarrow> n div 2 ^ (32 - snd net) = fst net div 2 ^ (32 - snd net)"

definition reserved_v4 :: "(int \<times> nat) list" where
  "reserved_v4 = [v4_net 0 0 0 8, v4_net 10 0 0 8, v4_net 100 64 0 10, v4_net 127 0 0 8, v4_net 169 254 0 16,
     v4_net 172 16 0 12, v4_net 192 0 0 24, v4_net 192 0 2 24, v4_net 192 168 0 16, v4_net 198 18 0 15,
     v4_net 198 51 100 24, v4_net 203 0 113 24, v4_net 224 0 0 3]"

definition routable_v4 :: "int \<Rightarrow> bool" where
  "routable_v4 n \<longleftrightarrow> \<not> list_ex (in_v4_net n) reserved_v4"

text \<open>\<open>2000::/3\<close> without \<open>2001:db8::/32\<close>, \<open>2001::/32\<close> and the 6to4 addresses of reserved IPv4 addresses.\<close>

definition routable_v6 :: "int \<Rightarrow> bool" where
  "routable_v6 n \<longleftrightarrow>
     (if n div 2 ^ 32 = 0xffff then routable_v4 (n mod 2 ^ 32)
      else n div 2 ^ 125 = 1 \<and> n div 2 ^ 96 \<noteq> 0x20010db8 \<and> n div 2 ^ 96 \<noteq> 0x20010000
        \<and> (n div 2 ^ 112 = 0x2002 \<longrightarrow> routable_v4 (n div 2 ^ 80 mod 2 ^ 32)))"

definition globally_routable :: "ip_addr \<Rightarrow> bool" where
  "globally_routable a = (case a of IpV4 w \<Rightarrow> routable_v4 (uint w) | IpV6 w \<Rightarrow> routable_v6 (uint w))"

lemma div_steps:
  fixes n :: int
  shows "n div 65536 = n div 256 div 256" "n div 131072 = n div 256 div 256 div 2" "n div 1048576 = n div 256 div 256 div 16"
    "n div 4194304 = n div 256 div 256 div 64" "n div 16777216 = n div 256 div 256 div 256"
    "n div 536870912 = n div 256 div 256 div 8192"
  by (simp_all add: zdiv_zmult2_eq[symmetric])

lemma eq_digits: "0 \<le> r \<Longrightarrow> r < 256 \<Longrightarrow> (x::int) = q * 256 + r \<longleftrightarrow> x div 256 = q \<and> x mod 256 = r"
  by (auto simp: mult.commute)

lemma block_div:
  fixes m :: int
  assumes "k * j = 256" "0 < k"
  shows "m div k = j * (m div 256) + m mod 256 div k"
proof -
  have "m = m mod 256 + k * (j * (m div 256))"
    using assms(1) by (simp add: mult.assoc[symmetric])
  then have "m div k = (m mod 256 + k * (j * (m div 256))) div k" by simp
  also have "\<dots> = j * (m div 256) + m mod 256 div k" using assms(2) by simp
  finally show ?thesis .
qed

lemma digit_quotient:
  fixes q d k n r :: int
  assumes "0 \<le> d" "d < k" "0 \<le> r" "r < k"
  shows "k * q + d = k * n + r \<longleftrightarrow> q = n \<and> d = r"
proof
  assume e: "k * q + d = k * n + r"
  have "(k * q + d) div k = q" "(k * n + r) div k = n"
    using assms by (simp_all add: int_div_pos_eq[of _ k _ d] int_div_pos_eq[of _ k _ r])
  with e show "q = n \<and> d = r" by simp
qed simp

lemma quotient_range:
  fixes r :: int
  assumes "0 < k"
  shows "r div k = c \<longleftrightarrow> k * c \<le> r \<and> r < k * c + k"
proof
  assume c: "r div k = c"
  define e where "e = r mod k"
  have bounds: "0 \<le> e" "e < k" using assms by (simp_all add: e_def)
  have "r = k * (r div k) + e" unfolding e_def by simp
  then have sum: "r = k * c + e" unfolding c .
  from bounds have "k * c \<le> k * c + e \<and> k * c + e < k * c + k" by simp
  then show "k * c \<le> r \<and> r < k * c + k" unfolding sum[symmetric] .
next
  assume "k * c \<le> r \<and> r < k * c + k"
  then show "r div k = c" by (intro int_div_pos_eq[of r k c "r - k * c"]) simp_all
qed

text \<open>A prefix that ends inside the second octet.\<close>

lemma wide_block:
  fixes m :: int
  assumes "k * j = 256" "0 < k" "0 < j" "0 \<le> b" "b < j"
  shows "m div k = j * a + b \<longleftrightarrow> m div 256 = a \<and> k * b \<le> m mod 256 \<and> m mod 256 < k * b + k"
proof -
  have "m mod 256 div k < j"
  proof (rule ccontr)
    define r where "r = m mod 256"
    assume "\<not> m mod 256 div k < j"
    then have "k * j \<le> k * (r div k)" using assms(2) by (simp add: r_def)
    also have "k * (r div k) = r - r mod k" by (rule minus_mod_eq_mult_div[symmetric])
    also have "\<dots> \<le> r" using assms(2) by simp
    finally show False using assms(1) by (simp add: r_def not_le[symmetric])
  qed
  then have "m div k = j * a + b \<longleftrightarrow> m div 256 = a \<and> m mod 256 div k = b"
    unfolding block_div[OF assms(1,2), of m] using assms by (intro digit_quotient) (simp_all add: pos_imp_zdiv_nonneg_iff)
  then show ?thesis unfolding quotient_range[OF assms(2), of "m mod 256"] .
qed

lemma wide_blocks:
  fixes m :: int
  shows "m div 64 = 401 \<longleftrightarrow> m div 256 = 100 \<and> 64 \<le> m mod 256 \<and> m mod 256 \<le> 127"
    "m div 16 = 2753 \<longleftrightarrow> m div 256 = 172 \<and> 16 \<le> m mod 256 \<and> m mod 256 \<le> 31"
    "m div 2 = 25353 \<longleftrightarrow> m div 256 = 198 \<and> 18 \<le> m mod 256 \<and> m mod 256 \<le> 19"
    "m = 43518 \<longleftrightarrow> m div 256 = 169 \<and> m mod 256 = 254" "m = 49320 \<longleftrightarrow> m div 256 = 192 \<and> m mod 256 = 168"
proof -
  show "m div 64 = 401 \<longleftrightarrow> m div 256 = 100 \<and> 64 \<le> m mod 256 \<and> m mod 256 \<le> 127"
    using wide_block[of 64 4 1 m 100] by (simp only: zle_add1_eq_le[symmetric]) simp
  show "m div 16 = 2753 \<longleftrightarrow> m div 256 = 172 \<and> 16 \<le> m mod 256 \<and> m mod 256 \<le> 31"
    using wide_block[of 16 16 1 m 172] by (simp only: zle_add1_eq_le[symmetric]) simp
  show "m div 2 = 25353 \<longleftrightarrow> m div 256 = 198 \<and> 18 \<le> m mod 256 \<and> m mod 256 \<le> 19"
    using wide_block[of 2 128 9 m 198] by (simp only: zle_add1_eq_le[symmetric]) simp
  show "m = 43518 \<longleftrightarrow> m div 256 = 169 \<and> m mod 256 = 254" "m = 49320 \<longleftrightarrow> m div 256 = 192 \<and> m mod 256 = 168"
    using eq_digits[of 254 m 169] eq_digits[of 168 m 192] by simp_all
qed

lemma narrow_blocks:
  fixes h :: int
  shows "h = 12582912 \<longleftrightarrow> h div 256 = 49152 \<and> h mod 256 = 0" "h = 12582914 \<longleftrightarrow> h div 256 = 49152 \<and> h mod 256 = 2"
    "h = 12989284 \<longleftrightarrow> h div 256 = 50739 \<and> h mod 256 = 100" "h = 13303921 \<longleftrightarrow> h div 256 = 51968 \<and> h mod 256 = 113"
  using eq_digits[of 0 h 49152] eq_digits[of 2 h 49152] eq_digits[of 100 h 50739] eq_digits[of 113 h 51968] by simp_all

lemma pair_of_octets:
  fixes m :: int
  shows "m = 49152 \<longleftrightarrow> m div 256 = 192 \<and> m mod 256 = 0" "m = 50739 \<longleftrightarrow> m div 256 = 198 \<and> m mod 256 = 51"
    "m = 51968 \<longleftrightarrow> m div 256 = 203 \<and> m mod 256 = 0"
  using eq_digits[of 0 m 192] eq_digits[of 51 m 198] eq_digits[of 0 m 203] by simp_all

lemma block_quotients:
  "in_v4_net n (v4_net p 0 0 8) \<longleftrightarrow> n div 16777216 = p" "in_v4_net n (v4_net 100 64 0 10) \<longleftrightarrow> n div 4194304 = 401"
  "in_v4_net n (v4_net 172 16 0 12) \<longleftrightarrow> n div 1048576 = 2753" "in_v4_net n (v4_net 198 18 0 15) \<longleftrightarrow> n div 131072 = 25353"
  "in_v4_net n (v4_net 169 254 0 16) \<longleftrightarrow> n div 65536 = 43518" "in_v4_net n (v4_net 192 168 0 16) \<longleftrightarrow> n div 65536 = 49320"
  "in_v4_net n (v4_net 224 0 0 3) \<longleftrightarrow> n div 536870912 = 7"
  "in_v4_net n (v4_net 192 0 0 24) \<longleftrightarrow> n div 256 = 12582912" "in_v4_net n (v4_net 192 0 2 24) \<longleftrightarrow> n div 256 = 12582914"
  "in_v4_net n (v4_net 198 51 100 24) \<longleftrightarrow> n div 256 = 12989284" "in_v4_net n (v4_net 203 0 113 24) \<longleftrightarrow> n div 256 = 13303921"
  by (simp_all add: in_v4_net_def v4_net_def)

lemma high_block:
  fixes m :: int
  assumes "m < 65536"
  shows "m div 8192 = 7 \<longleftrightarrow> 224 \<le> m div 256"
proof -
  have "m div 8192 = m div 256 div 32" by (simp add: zdiv_zmult2_eq[symmetric])
  moreover have "m div 256 < 256" using assms by simp
  ultimately show ?thesis by linarith
qed

lemma octets_public_routable:
  assumes "0 \<le> n" "n < 2 ^ 32"
  shows "octets_public (n div 2 ^ 24 mod 256) (n div 2 ^ 16 mod 256) (n div 2 ^ 8 mod 256) = routable_v4 n"
proof -
  define h where "h = n div 256"
  define m where "m = h div 256"
  have bound: "m < 65536" "0 \<le> m" using assms by (simp_all add: h_def m_def)
  have a: "m div 256 mod 256 = m div 256" using bound by simp
  have digits: "n div 2 ^ 24 mod 256 = m div 256" "n div 2 ^ 16 mod 256 = m mod 256" "n div 2 ^ 8 mod 256 = h mod 256"
    using a by (simp_all add: h_def m_def div_steps)
  note quotients = block_quotients[of n, unfolded div_steps, folded h_def, folded m_def]
  show ?thesis
    unfolding digits octets_public_def routable_v4_def reserved_v4_def list_ex_Nil_iff list_ex_Cons_iff quotients wide_blocks
      narrow_blocks[of h, folded m_def] pair_of_octets high_block[OF bound(1)]
    by (simp only: conj_assoc simp_thms)
qed

lemma public_v4: "is_public_ipv4 w = routable_v4 (uint w)"
proof -
  have "uint w < 2 ^ 32" using uint_lt2p[of w] by simp
  from octets_public_routable[OF _ this] show ?thesis by (simp add: is_public_ipv4_def octet_def)
qed

lemma segment_values:
  fixes n :: int
  assumes "0 \<le> n" "n < 2 ^ 128"
  shows "n div 2 ^ 112 mod 65536 = n div 2 ^ 112" "n div 2 ^ 112 div 0x2000 = n div 2 ^ 125"
    "n div 2 ^ 112 = n div 2 ^ 96 div 65536" "n div 2 ^ 96 = n div 2 ^ 80 div 65536"
  using assms by (simp_all add: zdiv_zmult2_eq[symmetric])

lemma embedded_octets:
  fixes q :: int
  defines "e \<equiv> q mod 2 ^ 32"
  shows "q div 65536 mod 65536 div 256 = e div 2 ^ 24 mod 256" "q div 65536 mod 65536 mod 256 = e div 2 ^ 16 mod 256"
    "q mod 65536 div 256 = e div 2 ^ 8 mod 256"
proof -
  have "q mod (65536 * 65536) = 65536 * (q div 65536 mod 65536) + q mod 65536"
    by (rule zmod_zmult2_eq) simp
  then have e: "e = 65536 * (q div 65536 mod 65536) + q mod 65536" by (simp add: e_def)
  have s: "0 \<le> q div 65536 mod 65536" "q div 65536 mod 65536 < 65536" "0 \<le> q mod 65536" "q mod 65536 < 65536" by simp_all
  have top: "e div 65536 = q div 65536 mod 65536" by (rule int_div_pos_eq[OF e s(3,4)])
  have low: "q mod 65536 = e mod 65536" by (simp add: e_def mod_mod_cancel)
  have "e mod (256 * 256) = 256 * (e div 256 mod 256) + e mod 256"
    by (rule zmod_zmult2_eq) simp
  then have "e mod 65536 div 256 = e div 256 mod 256"
    using int_div_pos_eq[of "e mod 65536" 256 "e div 256 mod 256" "e mod 256"] by simp
  then show "q mod 65536 div 256 = e div 2 ^ 8 mod 256" by (simp add: low)
  have "q div 65536 mod 65536 div 256 < 256" using s(2) by simp
  then have "q div 65536 mod 65536 div 256 = e div 65536 div 256 mod 256" using s(1) unfolding top by simp
  then show "q div 65536 mod 65536 div 256 = e div 2 ^ 24 mod 256" by (simp add: zdiv_zmult2_eq[symmetric])
  show "q div 65536 mod 65536 mod 256 = e div 2 ^ 16 mod 256" using top by simp
qed

lemma digits_eq:
  fixes p q s r k :: int
  assumes "0 \<le> s" "s < k" "0 \<le> r" "r < k"
  shows "p * k + s = q * k + r \<longleftrightarrow> p = q \<and> s = r"
  using digit_quotient[OF assms, of p q] by (simp only: mult.commute)

lemma segments_first: "segments a ! 0 = uint a div 2 ^ 112 mod 65536" "segments a ! 1 = uint a div 2 ^ 96 mod 65536"
  "segments a ! 2 = uint a div 2 ^ 80 mod 65536"
  by (simp_all add: segments_def)

lemma public_v6: "is_public_ipv6 w = routable_v6 (uint w)"
proof (cases "uint w div 2 ^ 32 = 0xffff")
  case True
  have "uint (word_of_int (uint w mod 2 ^ 32) :: 32 word) = uint w mod 2 ^ 32"
    by (simp add: uint_word_of_int)
  with True show ?thesis by (simp add: is_public_ipv6_def ipv4_mapped_def routable_v6_def public_v4)
next
  case False
  define n where "n = uint w"
  have n: "0 \<le> n" "n < 2 ^ 128" using uint_lt2p[of w] by (simp_all add: n_def)
  define s0 where "s0 = n div 2 ^ 112"
  define s1 where "s1 = n div 2 ^ 96 mod 65536"
  have pair: "n div 2 ^ 96 = s0 * 65536 + s1" "0 \<le> s1" "s1 < 65536"
    using segment_values(3)[OF n] by (simp_all add: s0_def s1_def mult.commute)
  have oct: "octets_public (s1 div 256) (s1 mod 256) (n div 2 ^ 80 mod 65536 div 256) = routable_v4 (n div 2 ^ 80 mod 2 ^ 32)"
    unfolding s1_def segment_values(4)[OF n] embedded_octets[of "n div 2 ^ 80"] by (rule octets_public_routable) simp_all
  have d: "s0 * 65536 + s1 = 0x2001 * 65536 + 0x0db8 \<longleftrightarrow> s0 = 0x2001 \<and> s1 = 0x0db8"
    "s0 * 65536 + s1 = 0x2001 * 65536 + 0 \<longleftrightarrow> s0 = 0x2001 \<and> s1 = 0"
    by (rule digits_eq; use pair(2,3) in simp)+
  have doc: "n div 2 ^ 96 = 0x20010db8 \<longleftrightarrow> s0 = 0x2001 \<and> s1 = 0x0db8"
    using d(1) unfolding pair(1) by simp
  have teredo: "n div 2 ^ 96 = 0x20010000 \<longleftrightarrow> s0 = 0x2001 \<and> s1 = 0"
    using d(2) unfolding pair(1) by simp
  have parts: "segments w ! 0 = s0" "segments w ! 1 = s1" "segments w ! 2 = n div 2 ^ 80 mod 65536"
    unfolding segments_first s0_def s1_def using segment_values(1)[OF n] by (simp_all add: n_def)
  have top: "s0 div 0x2000 = n div 2 ^ 125" using segment_values(2)[OF n] by (simp add: s0_def)
  show ?thesis
    unfolding is_public_ipv6_def ipv4_mapped_def routable_v6_def Let_def parts top n_def[symmetric] doc teredo
    using False oct s0_def by (auto simp: n_def)
qed

text \<open>
  C32. The addresses to which an image download may connect are exactly those outside the reserved
  blocks: for IPv4 the registry of thirteen blocks, for IPv6 global unicast without documentation, Teredo
  and the 6to4 forms of reserved IPv4 addresses; an IPv4-mapped address is judged as the IPv4 address it holds.
\<close>

theorem public_addresses_specified: "is_public_ip a = globally_routable a"
  by (cases a) (simp_all add: is_public_ip_def globally_routable_def public_v4 public_v6)

section \<open>Where requests go\<close>

definition clean_source :: "'u url_lib \<Rightarrow> 'u \<Rightarrow> bool" where
  "clean_source ul u \<longleftrightarrow> ul_scheme ul u = ''https'' \<and> ul_host ul u \<noteq> None \<and> ul_username ul u = []
     \<and> ul_password ul u = None \<and> ul_port ul u = Some 443"

text \<open>\<open>set_fragment(None)\<close> leaves the other parts of a URL.\<close>

definition fragment_law :: "'u url_lib \<Rightarrow> bool" where
  "fragment_law ul \<longleftrightarrow> (\<forall>u. let v = ul_without_fragment ul u in ul_scheme ul v = ul_scheme ul u \<and> ul_host ul v = ul_host ul u
     \<and> ul_username ul v = ul_username ul u \<and> ul_password ul v = ul_password ul u \<and> ul_port ul v = ul_port ul u)"

text \<open>
  A request that cannot reach a private network: to a literal public address, or to a name pinned
  to addresses that are all public, so that no second resolution can choose another.
\<close>

definition safe_request :: "'u url_lib \<Rightarrow> 'u \<times> socket list option \<Rightarrow> bool" where
  "safe_request ul q \<longleftrightarrow> clean_source ul (fst q) \<and> (case ul_host ul (fst q) of
       Some (HostV4 a) \<Rightarrow> globally_routable (IpV4 a)
     | Some (HostV6 a) \<Rightarrow> globally_routable (IpV6 a)
     | Some (HostDomain _) \<Rightarrow> (\<exists>ts. snd q = Some ts \<and> ts \<noteq> [] \<and> (\<forall>a \<in> set ts. globally_routable (fst a)))
     | None \<Rightarrow> False)"

lemma public_routable: "is_public_ip a = globally_routable a"
  by (cases a) (simp_all add: is_public_ip_def globally_routable_def public_v4 public_v6)

lemma validated_source_clean: "fragment_law ul \<Longrightarrow> validate_source_url ul v = Inr u \<Longrightarrow> clean_source ul u"
  by (auto simp: validate_source_url_def clean_source_def fragment_law_def Let_def result_simps)

lemma redirect_clean: "fragment_law (iw_url iw) \<Longrightarrow> redirect_target iw u l = Inr v \<Longrightarrow> clean_source (iw_url iw) v"
  by (auto simp: redirect_target_def result_simps intro: validated_source_clean)

definition sends :: "'u url_lib \<Rightarrow> nat \<Rightarrow> (('w, 'u) transfer, 'e, 'a) action \<Rightarrow> bool" where
  "sends ul n m \<longleftrightarrow> (\<forall>s. \<exists>new. tn_sent (fst (m s)) = new @ tn_sent s \<and> length new \<le> n \<and> list_all (safe_request ul) new)"

named_theorems sending

lemma sends_same: "(\<And>s. tn_sent (fst (m s)) = tn_sent s) \<Longrightarrow> sends ul 0 m"
  by (simp add: sends_def)

lemma sends_mono: "sends ul k m \<Longrightarrow> k \<le> n \<Longrightarrow> sends ul n m"
  unfolding sends_def by (meson order_trans)

lemma sends_simple [sending]:
  "sends ul 0 (ret a)" "sends ul 0 (raise e)" "sends ul 0 (lifted r)" "sends ul 0 (read_state f)"
  "sends ul 0 (net_call g)" "sends ul 0 (disk iw op)" "sends ul 0 (remove_path iw p)" "sends ul 0 begin_transfer"
  by (rule sends_same; simp add: net_call_def disk_def remove_path_def remove_file_def action_defs require_def begin_transfer_def split: prod.splits option.splits sum.splits)+

lemma sends_chain:
  assumes "sends ul a m" "\<And>x s t. m s = (t, Inr x) \<Longrightarrow> sends ul b (f x)"
  shows "sends ul (a + b) (chain m f)"
  unfolding sends_def
proof
  fix s
  obtain t r where m: "m s = (t, r)" by (cases "m s")
  obtain new where new: "tn_sent t = new @ tn_sent s" "length new \<le> a" "list_all (safe_request ul) new"
    using assms(1) m unfolding sends_def by (metis fst_conv)
  show "\<exists>new. tn_sent (fst (chain m f s)) = new @ tn_sent s \<and> length new \<le> a + b \<and> list_all (safe_request ul) new"
  proof (cases r)
    case (Inl e)
    then show ?thesis using m new by (auto simp: chain_def)
  next
    case (Inr x)
    obtain more where "tn_sent (fst (f x t)) = more @ tn_sent t" "length more \<le> b" "list_all (safe_request ul) more"
      using assms(2)[of s t x] m Inr unfolding sends_def by blast
    then show ?thesis using m new Inr by (intro exI[of _ "more @ new"]) (simp add: chain_def)
  qed
qed

lemma sends_then [sending]: "sends ul 0 m \<Longrightarrow> (\<And>x s t. m s = (t, Inr x) \<Longrightarrow> sends ul n (f x)) \<Longrightarrow> sends ul n (chain m f)"
  using sends_chain[of ul 0 m n f] by simp

lemma sends_with_error [sending]: "sends ul n m \<Longrightarrow> sends ul n (with_error g m)"
  by (simp add: sends_def with_error_def case_prod_beta)

lemma sends_outcome [sending]: "sends ul n m \<Longrightarrow> sends ul n (outcome m)"
  by (simp add: sends_def outcome_def case_prod_beta)

lemma sends_modify [sending]: "(\<And>s. tn_sent (g s) = tn_sent s) \<Longrightarrow> sends ul 0 (modify g)"
  by (simp add: sends_same)

lemma sends_Suc: "sends ul 1 m \<Longrightarrow> (\<And>x. sends ul n (f x)) \<Longrightarrow> sends ul (Suc n) (chain m f)"
  using sends_chain[of ul 1 m n f] by simp

lemma sends_if: "sends ul n m \<Longrightarrow> sends ul n m' \<Longrightarrow> sends ul n (if b then m else m')"
  by simp

lemma sends_cases [sending]:
  "(\<And>a b. sends ul n (g a b)) \<Longrightarrow> sends ul n (case x of (a, b) \<Rightarrow> g a b)"
  "(\<And>e. sends ul n (h e)) \<Longrightarrow> (\<And>a. sends ul n (k a)) \<Longrightarrow> sends ul n (case y of Inl e \<Rightarrow> h e | Inr a \<Rightarrow> k a)"
  by (cases x, simp, cases y, simp_all)

lemma resolve_sends: "sends ul 0 (resolve_public_targets iw url)"
  unfolding resolve_public_targets_def lookup_host_def
  by (intro sending) (auto split: option.split url_host.split intro!: sending)

lemma set_first_seen: "set (first_seen seen xs) = set xs - set seen"
  by (induction seen xs rule: first_seen.induct) auto

lemma first_seen_Nil: "first_seen [] xs = [] \<longleftrightarrow> xs = []"
  using set_first_seen[of "[]" xs] by (metis Diff_empty list.set(1) set_empty)

lemma resolved_public:
  assumes "resolve_public_targets iw url s = (t, Inr ts)" "clean_source (iw_url iw) url"
  shows "safe_request (iw_url iw) (url, pinned_targets iw url ts)"
proof -
  obtain h where h: "ul_host (iw_url iw) url = Some h" using assms(2) by (auto simp: clean_source_def)
  have "\<exists>as. ts = first_seen [] as \<and> as \<noteq> [] \<and> (\<forall>a \<in> set as. is_public_ip (fst a))
     \<and> (\<forall>a. h = HostV4 a \<longrightarrow> as = [(IpV4 a, 443)]) \<and> (\<forall>a. h = HostV6 a \<longrightarrow> as = [(IpV6 a, 443)])"
    using assms h by (cases h) (auto simp: resolve_public_targets_def chain_Inr clean_source_def)
  then show ?thesis
    using assms(2) h by (cases h) (auto simp: safe_request_def pinned_targets_def public_routable set_first_seen first_seen_Nil)
qed

lemma request_sends:
  assumes "safe_request (iw_url iw) (url, pinned_targets iw url ts)"
  shows "sends (iw_url iw) 1 (request_image iw url ts)"
  using assms by (auto simp: request_image_def sends_def with_error_def send_def split: prod.splits)

lemma fetch_sends:
  fixes iw :: "('w, 'u) iso_lib"
  assumes "fragment_law (iw_url iw)" "clean_source (iw_url iw) url"
  shows "sends (iw_url iw) n (fetch_rounds iw n url)"
  using assms(2)
proof (induction n arbitrary: url)
  case 0
  show ?case unfolding fetch_rounds.simps by (rule sends_simple)
next
  case (Suc n)
  have rest: "sends (iw_url iw) (Suc n) (chain (request_image iw url ts) (\<lambda>a.
     chain (lifted (check_peer ts a)) (\<lambda>_.
     if is_followable_redirect (ha_status a) then
       chain (lifted (require (n \<noteq> 0) (Conflict ''remote image URL exceeded five redirects''))) (\<lambda>_.
       chain (lifted (redirect_location a)) (\<lambda>location.
       chain (lifted (redirect_target iw url location)) (\<lambda>next_url.
       fetch_rounds iw n next_url)))
     else
       chain (lifted (require (200 \<le> ha_status a \<and> ha_status a < 300)
         (Conflict (''remote image server returned HTTP '' @ show_nat (ha_status a))))) (\<lambda>_.
       ret (a, url)))))"
    if "safe_request (iw_url iw) (url, pinned_targets iw url ts)" for ts
  proof -
    have follow: "sends (iw_url iw) n (fetch_rounds iw n v)" if "lifted (redirect_target iw url l) s = (t, Inr v)"
      for l v and s t :: "('w, 'u) transfer"
      using that by (intro Suc.IH redirect_clean[OF assms(1), of url l]) simp
    have stop: "sends (iw_url iw) n (ret b :: ('w, 'u, 'c) transfer_step)" for b :: 'c
      by (rule sends_mono[where k = 0]) (simp_all only: sends_simple)
    show ?thesis
      by (rule sends_Suc[OF request_sends[OF that]])
        (intro sends_then[OF sends_simple(3)] sends_if stop, rule follow, assumption)
  qed
  show ?case
    unfolding fetch_rounds.simps
    by (rule sends_then[OF resolve_sends], rule sends_then[OF sends_simple(3)], rule rest)
      (rule resolved_public[OF _ Suc.prems])
qed

lemma receive_sends: "sends ul 0 (receive iw p x m got cs)"
  by (induction iw p x m got cs rule: receive.induct)
    (unfold receive.simps Let_def, (intro sending | simp)+)

lemma stream_sends: "sends ul 0 (stream_and_verify iw body p f sha x m)"
  unfolding stream_and_verify_def stream_and_verify_inner_def create_partial_def guarded_files_def publish_image_def
  by (auto intro!: sending receive_sends split: sum.split)

lemma storage_sends: "sends ul 0 (prepare_storage iw store)" "sends ul 0 (ensure_storage_capacity iw store n)"
  unfolding prepare_storage_def ensure_storage_capacity_def Let_def by (auto intro!: sending)

lemma after_fetch_sends: "sends ul n m \<Longrightarrow> (\<And>x. sends ul 0 (f x)) \<Longrightarrow> sends ul n (chain m f)"
  using sends_chain[of ul n m 0 f] by simp

text \<open>
  C30. A download never reaches a private network: whatever the source, the redirects it is sent to and the
  answers of DNS are, every request is HTTPS on port 443 without credentials, to a public address or pinned to
  public addresses, and a download sends at most six.
\<close>

theorem downloads_stay_public:
  assumes law: "fragment_law (iw_url iw)"
    and run: "download_and_verify iw source sha expected store s = (t, r)"
  shows "\<exists>new. tn_sent t = new @ tn_sent s \<and> length new \<le> 6 \<and> list_all (safe_request (iw_url iw)) new"
proof -
  have "sends (iw_url iw) 6 (download_and_verify iw source sha expected store)"
    unfolding download_and_verify_def fetch_with_safe_redirects_def max_redirects_def Let_def
  proof (intro sends_then[OF sends_simple(3)] sends_then[OF sends_simple(8)] sends_then[OF storage_sends(1)] after_fetch_sends,
      goal_cases)
    case (1 original)
    then have "clean_source (iw_url iw) original"
      by (intro validated_source_clean[OF law, of source]) simp
    then show ?case by (rule sends_mono[OF fetch_sends[OF law]]) simp
  next
    case 2
    show ?case
      by (intro sending storage_sends stream_sends)
  qed
  with run show ?thesis unfolding sends_def by (metis fst_conv)
qed

lemma demo_fragments: "fragment_law demo_url_lib"
  by (simp add: fragment_law_def demo_url_lib_def Let_def)

lemma downloads_stay_public_witness:
  "\<exists>new. [(demo_moved, Some [demo_peer]), (demo_start, Some [demo_peer])] = new
     \<and> length new \<le> 6 \<and> list_all (safe_request demo_url_lib) new"
  using downloads_stay_public[OF _ demo_download_result] demo_fragments
  by (simp add: demo_fields demo_transfer_def)

section \<open>One transfer at a time\<close>

text \<open>Requests acquire guards, begin transfers with them and drop them, in any order.\<close>

datatype guard_event = Acquire string | Begin nat | Drop nat

definition guard_step ::
  "image_operations \<times> image_guard list \<Rightarrow> guard_event \<Rightarrow> app_error + image_operations \<times> image_guard list" where
  "guard_step s e = (case (s, e) of
     ((ops, gs), Acquire key) \<Rightarrow> and_then (acquire ops key) (\<lambda>(ops', g). Inr (ops', g # gs))
   | ((ops, gs), Begin i) \<Rightarrow>
       if i < length gs then and_then (begin_image_transfer ops (gs ! i)) (\<lambda>(ops', g). Inr (ops', gs[i := g]))
       else Inr (ops, gs)
   | ((ops, gs), Drop i) \<Rightarrow>
       if i < length gs then Inr (drop_guard ops (gs ! i), take i gs @ drop (Suc i) gs) else Inr (ops, gs))"

definition guards_ok :: "image_operations \<times> image_guard list \<Rightarrow> bool" where
  "guards_ok s \<longleftrightarrow> io_records (fst s) = set (map ig_key (snd s)) \<and> distinct (map ig_key (snd s))
     \<and> io_transfers (fst s) = length (filter ig_transfer (snd s)) \<and> io_transfers (fst s) \<le> 1"

lemma acquire_ok: "guards_ok (ops, gs) \<Longrightarrow> acquire ops key = Inr (ops', g) \<Longrightarrow> guards_ok (ops', g # gs)"
  by (auto simp: acquire_def guards_ok_def result_simps)

lemma begin_middle:
  assumes "guards_ok (ops, a @ h # b)" "begin_image_transfer ops h = Inr (ops', g)"
  shows "guards_ok (ops', a @ g # b)"
proof (cases "ig_transfer h")
  case True
  then show ?thesis using assms by (simp add: begin_image_transfer_def)
next
  case False
  then have "ops' = ops\<lparr>io_transfers := io_transfers ops + 1\<rparr>" "g = h\<lparr>ig_transfer := True\<rparr>" "io_transfers ops = 0"
    using assms(2) by (auto simp: begin_image_transfer_def max_simultaneous_transfers_def result_simps)
  with assms(1) False show ?thesis by (simp add: guards_ok_def)
qed

lemma drop_middle: "guards_ok (ops, a @ h # b) \<Longrightarrow> guards_ok (drop_guard ops h, a @ b)"
  by (auto simp: guards_ok_def drop_guard_def split: if_splits)

lemma begin_ok:
  assumes "guards_ok (ops, gs)" "i < length gs" "begin_image_transfer ops (gs ! i) = Inr (ops', g)"
  shows "guards_ok (ops', gs[i := g])"
  using begin_middle[of ops "take i gs" "gs ! i" "drop (Suc i) gs"] assms
  by (simp add: id_take_nth_drop[symmetric] upd_conv_take_nth_drop)

lemma drop_ok:
  assumes "guards_ok (ops, gs)" "i < length gs"
  shows "guards_ok (drop_guard ops (gs ! i), take i gs @ drop (Suc i) gs)"
  using drop_middle[of ops "take i gs" "gs ! i" "drop (Suc i) gs"] assms by (simp add: id_take_nth_drop[symmetric])

interpretation image_guards: guarded_machine guard_step guards_ok "\<lambda>_. True"
  by unfold_locales (auto simp: guard_step_def result_simps split: guard_event.splits if_splits
      intro: acquire_ok begin_ok drop_ok)

text \<open>
  C40. Whatever guards requests acquire, use and drop, in whatever order, no two operations on one
  catalog entry are active at once and at most one image is being transferred; the counters are exact.
\<close>

theorem one_transfer_at_a_time:
  "guards_ok (run_all guard_step (\<lparr>io_records = {}, io_transfers = 0\<rparr>, []) events)"
  by (rule image_guards.run_all_inv) (simp_all add: guards_ok_def)

end
