(* ===== verification/Spec2Isabelle.thy ===== *)
theory Spec2Isabelle
  imports Rate_Limit Guest_Channel Job_Safety Rotation_Safety Inventory_Safety Link_Safety Guard_Safety Login_Safety
    Firewall_Safety Traffic_Safety Fail_Closed Mock_Safety Routed_Safety Exchange_Safety Job_Outcomes Iso_Safety
begin

text \<open>
  A verification development for Vexa VM, a panel that manages virtual machines on one host.

  \<^bold>\<open>The program.\<close> An HTTP server (\<open>src/routes/\<close>) authenticates administrators and API keys, writes
  what they ask for into a SQLite database (\<open>src/db.rs\<close>) and queues jobs there. A worker
  (\<open>src/services/background.rs\<close>) claims one job at a time and carries it out through the trait of the
  hypervisor (\<open>src/hypervisor/mod.rs\<close>), the firewall (\<open>src/services/firewall.rs\<close>) and the network
  (\<open>src/services/routed_network.rs\<close>). A small agent in each guest talks to the panel over a serial
  channel with signed and encrypted frames (\<open>guest-tools/crates/protocol\<close>, \<open>src/services/guest_tools.rs\<close>).
  Customers reach their machines through one-time links.

  \<^bold>\<open>How code corresponds to definitions.\<close> A fallible function without outside effects is a HOL
  function into \<open>'e + 'a\<close> (theory Prelude, combinators \<open>and_then\<close>, \<open>require\<close>, \<open>ok_or\<close>, each early return
  being one \<open>require\<close>); one that writes tables returns the new tables, so that an error rolls the
  transaction back. Handlers and workers, whose earlier writes stay when they fail, are actions (theory
  Effects): functions from a state to the state after and a result. Names are those of the source; a name
  that clashes has a suffix. A \<open>str\<close> is the list of its UTF-8 bytes (Rust\_Text), an address a word
  (Ip\_Text), \<open>i64\<close> values integers with the overflow written out, tables lists of records in row order with
  the constraints of \<open>migrations/\<close> checked where a statement may violate them. Crates, cryptography, DNS, the
  clock, generated identifiers and the answers of processes are parameters, collected in a record of functions
  for each component (\<open>proto_lib\<close>, \<open>secret_lib\<close>, \<open>outside\<close> and others); what a theorem needs of them is a named
  hypothesis, and its witness satisfies it with a concrete instance.

  \<^bold>\<open>Groups of theories.\<close>

  \<^item> Prelude, Rust\_Text, Ip\_Text, Json, App\_Error, Effects: the vocabulary; integers, text, \<open>IpAddr\<close> with its
    parser and printer, \<open>serde_json::Value\<close>, \<open>src/error.rs\<close>. Prelude holds the locale \<open>guarded_machine\<close>
    (an operation that keeps an invariant when its request satisfies a guard) from which every theorem over
    histories follows; it is interpreted on the model's step functions in each component.
  \<^item> Guest\_Commands, Guest\_Protocol, Guest\_Channel: \<open>guest-tools/crates/protocol/src/lib.rs\<close>. Round trips of
    requests, responses and frames; accepted messages are authentic, fresh and answer the request; no replay
    within the window, and the one outside it that the cache lets through.
  \<^item> Guest\_Exchange, Exchange\_Safety: the panel's side of the channel. The loop over frames equals its
    description, ends after seventeen stale answers (\<open>max_stale\<close> is 16), and a bootstrap trusts a guest
    completely or changes nothing itself, whatever other requests do to the keys meanwhile.
  \<^item> Panel\_Db, Job\_Queue, Ip\_Inventory, Admin\_Db, Access\_Links, Vm\_Store, Guest\_Tools\_Rotation,
    Network\_Policy: the tables of \<open>src/db.rs\<close> with the operations that change them. Their promises are in
    Job\_Safety, Inventory\_Safety, Admin\_Safety, Link\_Safety, Vm\_Safety, Traffic\_Safety and Rotation\_Safety:
    row invariants over all histories, legal transitions, exclusive claims, single use of links, the key
    hand-over.
  \<^item> Rate\_Limit, Secret\_Envelope, Api\_Guard, Guard\_Safety, Login\_Safety: \<open>src/rate_limit.rs\<close>,
    \<open>src/security.rs\<close>, \<open>src/routes/auth.rs\<close> and the handlers on accounts. Who is admitted, that keys never
    exceed their creator, how many guesses a login allows, that an envelope opens only in its context.
  \<^item> Firewall\_Rules, Firewall\_Spec, Firewall\_Safety: the script given to nftables, the abstract table it
    denotes (a refinement), and the decisions of that table about packets.
  \<^item> Hypervisor, Mock\_Hypervisor, Mock\_Safety: the trait as a record of functions, its contract as the locale
    \<open>hypervisor_contract\<close>, and \<open>src/hypervisor/mock.rs\<close> as its instance.
  \<^item> Panel\_World, Firewall\_Reconcile, Routed\_Network, Reconcile\_Safety, Fail\_Closed, Routed\_Safety: the panel
    with its outside: tables, the hypervisor, commands, and a log of the calls in their order, each with the
    tables and the outside it was made in (\<open>moment\<close>), so that a theorem can speak of the actual panel at a call.
    Other requests may change the tables whenever an outside call is made (\<open>ow_others\<close> in the record of the
    outside), so the theorems hold for every interleaving at that granularity.
  \<^item> Worker\_Steps, Worker, Worker\_Log, Worker\_Safety, Job\_Outcomes: every kind of job, its retries and what is
    recorded of it. At every call that can run a guest its protection was just settled in the panel as it was
    then; a deletion takes the domain, the seed and then the record, and keeps the record when it fails; a
    claimed job is settled; a locked VM is not deleted.
  \<^item> Iso\_Download, Iso\_Publish, Iso\_Safety: \<open>src/services/iso_download.rs\<close>. A download reaches public
    addresses only, in at most six requests; an image is published complete with the expected digest or
    its path is not left behind, also when removals fail; the address filter equals the registry's blocks; one transfer runs at a time.

  \<^bold>\<open>Bounds.\<close> No definition needs fuel: the loops run over data or over a counter of the source (at most 17
  answers of an exchange, the candidate networks of the search in \<open>routed_network.rs\<close>), and the
  recursions over text have termination proofs.

  \<^bold>\<open>Not modelled.\<close> The libvirt backend (\<open>src/hypervisor/libvirt.rs\<close>) spawns \<open>virsh\<close> and \<open>qemu-img\<close> and reads their
  output; the updater, its helper and host inspection are process and file I/O; so are the seed images and
  RouterOS guests, managed over REST and the QEMU agent, which appear as calls to the outside. A SQLite
  failure of the write that settles a job, and a request cancelled at an await, are not modelled. HTTP routing,
  pages, the portal and request decoding are glue around the modelled operations, except for the handlers on
  accounts. The loops that collect metrics, balance memory, watch health and do maintenance, the settings and
  DNS tables and the audit log do not interact with the properties stated. A panel process holds its mutexes
  around the modelled operations; poisoning is not modelled.
\<close>

end
